(* ===== verification/Prelude.thy ===== *)
theory Prelude
  imports Main "HOL-Library.Multiset"
begin

text \<open>
  Shared vocabulary of the development: results (the success or failure of a fallible
  Rust function), comparison results, the stable sort of a Rust vector, and the
  first-match interface both rule engines of the router implement.

  The locale \<open>precedence\<close> is that interface: a comparator on rules that is a total
  preorder. Its lemmas say what "sort the rule indices by precedence, ties by
  configuration order, and take the first that matches" returns.
\<close>

section \<open>Results\<close>

type_synonym ('e, 'a) result = "'e + 'a"

abbreviation Ok :: "'a \<Rightarrow> ('e, 'a) result" where
  "Ok \<equiv> Inr"

abbreviation Err :: "'e \<Rightarrow> ('e, 'a) result" where
  "Err \<equiv> Inl"

text \<open>The \<open>?\<close> operator: go on with the value, or return the error at once.\<close>

fun and_then :: "('e, 'a) result \<Rightarrow> ('a \<Rightarrow> ('e, 'b) result) \<Rightarrow> ('e, 'b) result" where
  "and_then (Inl e) f = Inl e"
| "and_then (Inr a) f = f a"

fun map_err :: "('e \<Rightarrow> 'f) \<Rightarrow> ('e, 'a) result \<Rightarrow> ('f, 'a) result" where
  "map_err f (Inl e) = Inl (f e)"
| "map_err f (Inr a) = Inr a"

named_theorems result_simps

lemma and_then_Ok [result_simps]:
  "and_then r f = Inr b \<longleftrightarrow> (\<exists>a. r = Inr a \<and> f a = Inr b)"
  by (cases r) auto

lemma and_then_Err [result_simps]:
  "and_then r f = Inl e \<longleftrightarrow> r = Inl e \<or> (\<exists>a. r = Inr a \<and> f a = Inl e)"
  by (cases r) auto

lemma map_err_Ok [result_simps]: "map_err f r = Inr a \<longleftrightarrow> r = Inr a"
  by (cases r) auto

lemma map_err_Err [result_simps]: "map_err f r = Inl e \<longleftrightarrow> (\<exists>d. r = Inl d \<and> e = f d)"
  by (cases r) auto

section \<open>Comparison results and the stable sort\<close>

datatype ordering = Less | Equal | Greater

definition cmp :: "'a::linorder \<Rightarrow> 'a \<Rightarrow> ordering" where
  "cmp a b = (if a < b then Less else if a = b then Equal else Greater)"

fun then_cmp :: "ordering \<Rightarrow> ordering \<Rightarrow> ordering" where
  "then_cmp Equal o2 = o2"
| "then_cmp o1 o2 = o1"

lemma cmp_simps [simp]:
  "cmp a b = Less \<longleftrightarrow> a < b" "cmp a b = Equal \<longleftrightarrow> a = b" "cmp a b = Greater \<longleftrightarrow> b < a"
  by (auto simp: cmp_def)

lemma then_cmp_simps [simp]:
  "then_cmp o1 o2 = Less \<longleftrightarrow> o1 = Less \<or> o1 = Equal \<and> o2 = Less"
  "then_cmp o1 o2 = Equal \<longleftrightarrow> o1 = Equal \<and> o2 = Equal"
  "then_cmp o1 o2 = Greater \<longleftrightarrow> o1 = Greater \<or> o1 = Equal \<and> o2 = Greater"
  by (cases o1; simp)+

text \<open>
  \<open>slice::sort_by\<close> is a stable sort, so its result is determined by the comparator: a
  stable insertion sort computes it.
\<close>

fun insert_by :: "('a \<Rightarrow> 'a \<Rightarrow> ordering) \<Rightarrow> 'a \<Rightarrow> 'a list \<Rightarrow> 'a list" where
  "insert_by c x [] = [x]"
| "insert_by c x (y # ys) = (if c x y = Greater then y # insert_by c x ys else x # y # ys)"

fun sort_by :: "('a \<Rightarrow> 'a \<Rightarrow> ordering) \<Rightarrow> 'a list \<Rightarrow> 'a list" where
  "sort_by c [] = []"
| "sort_by c (x # xs) = insert_by c x (sort_by c xs)"

lemma set_insert_by [simp]: "set (insert_by c x xs) = insert x (set xs)"
  by (induction xs) auto

lemma set_sort_by [simp]: "set (sort_by c xs) = set xs"
  by (induction xs) auto

lemma length_insert_by [simp]: "length (insert_by c x xs) = Suc (length xs)"
  by (induction xs) auto

lemma mset_insert_by [simp]: "mset (insert_by c x xs) = add_mset x (mset xs)"
  by (induction xs) auto

lemma mset_sort_by [simp]: "mset (sort_by c xs) = mset xs"
  by (induction xs) auto

lemma length_sort_by [simp]: "length (sort_by c xs) = length xs"
  by (induction xs) auto

lemma distinct_insert_by: "distinct (insert_by c x xs) \<longleftrightarrow> x \<notin> set xs \<and> distinct xs"
  by (induction xs) auto

lemma distinct_sort_by [simp]: "distinct (sort_by c xs) \<longleftrightarrow> distinct xs"
  by (induction xs) (auto simp: distinct_insert_by)

abbreviation not_after :: "('a \<Rightarrow> 'a \<Rightarrow> ordering) \<Rightarrow> 'a \<Rightarrow> 'a \<Rightarrow> bool" where
  "not_after c a b \<equiv> c a b \<noteq> Greater"

text \<open>A comparator that is a total preorder on a set of elements.\<close>

definition preorder_on :: "'a set \<Rightarrow> ('a \<Rightarrow> 'a \<Rightarrow> ordering) \<Rightarrow> bool" where
  "preorder_on A c \<longleftrightarrow>
     (\<forall>a\<in>A. \<forall>b\<in>A. c a b = Greater \<longrightarrow> not_after c b a) \<and>
     (\<forall>a\<in>A. \<forall>b\<in>A. \<forall>d\<in>A. not_after c a b \<longrightarrow> not_after c b d \<longrightarrow> not_after c a d)"

lemma preorder_onD:
  assumes "preorder_on A c"
  shows "a \<in> A \<Longrightarrow> b \<in> A \<Longrightarrow> c a b = Greater \<Longrightarrow> not_after c b a"
    and "a \<in> A \<Longrightarrow> b \<in> A \<Longrightarrow> d \<in> A \<Longrightarrow> not_after c a b \<Longrightarrow> not_after c b d \<Longrightarrow> not_after c a d"
  using assms unfolding preorder_on_def by blast+

lemma preorder_on_subset: "preorder_on A c \<Longrightarrow> B \<subseteq> A \<Longrightarrow> preorder_on B c"
  unfolding preorder_on_def by blast

lemma sorted_insert_by:
  assumes "preorder_on (insert x (set xs)) c" "sorted_wrt (not_after c) xs"
  shows "sorted_wrt (not_after c) (insert_by c x xs)"
  using assms
proof (induction xs)
  case (Cons y ys)
  have pre: "preorder_on (insert x (set ys)) c"
    by (rule preorder_on_subset [OF Cons.prems(1)]) auto
  show ?case
  proof (cases "c x y = Greater")
    case True
    then have "not_after c y x"
      using preorder_onD(1) [OF Cons.prems(1), of x y] by simp
    with True Cons.IH [OF pre] Cons.prems(2) show ?thesis by auto
  next
    case False
    have "\<forall>z\<in>set ys. not_after c x z"
    proof
      fix z assume "z \<in> set ys"
      moreover from this Cons.prems(2) have "not_after c y z" by simp
      ultimately show "not_after c x z"
        using False preorder_onD(2) [OF Cons.prems(1), of x y z] by simp
    qed
    with False Cons.prems(2) show ?thesis by auto
  qed
qed simp

lemma sorted_sort_by: "preorder_on (set xs) c \<Longrightarrow> sorted_wrt (not_after c) (sort_by c xs)"
proof (induction xs)
  case (Cons x xs)
  have "preorder_on (set xs) c"
    by (rule preorder_on_subset [OF Cons.prems]) auto
  then show ?case using Cons by (auto intro: sorted_insert_by)
qed simp

text \<open>The elements of one equivalence class keep their order: the sort is stable.\<close>

lemma filter_insert_by:
  "\<forall>y\<in>set xs. P x \<and> P y \<longrightarrow> not_after c x y \<Longrightarrow>
   filter P (insert_by c x xs) = (if P x then x # filter P xs else filter P xs)"
  by (induction xs) auto

lemma filter_sort_by:
  "\<forall>x\<in>set xs. \<forall>y\<in>set xs. P x \<and> P y \<longrightarrow> not_after c x y \<Longrightarrow>
   filter P (sort_by c xs) = filter P xs"
  by (induction xs) (simp_all add: filter_insert_by)

section \<open>Searching a list\<close>

lemma find_Some_sorted:
  assumes "List.find P xs = Some x" "sorted_wrt R xs" "y \<in> set xs" "P y" "y \<noteq> x"
  shows "R x y"
  using assms by (induction xs) (auto split: if_splits)

lemma find_SomeD: "List.find P xs = Some x \<Longrightarrow> x \<in> set xs \<and> P x"
  by (auto simp: find_Some_iff)

lemma find_None: "List.find P xs = None \<longleftrightarrow> (\<forall>x\<in>set xs. \<not> P x)"
  by (auto simp: find_None_iff)

section \<open>Rules in precedence order\<close>

text \<open>
  Rule indices in order of precedence, equal rules in configuration order; and the first
  index whose rule matches. Both the intent classifier and the policy matcher are
  instances.
\<close>

definition index_cmp :: "('r \<Rightarrow> 'r \<Rightarrow> ordering) \<Rightarrow> 'r list \<Rightarrow> nat \<Rightarrow> nat \<Rightarrow> ordering" where
  "index_cmp c rs a b = then_cmp (c (rs ! a) (rs ! b)) (cmp a b)"

definition ranked :: "('r \<Rightarrow> 'r \<Rightarrow> ordering) \<Rightarrow> 'r list \<Rightarrow> nat list" where
  "ranked c rs = sort_by (index_cmp c rs) [0..<length rs]"

definition best :: "('r \<Rightarrow> 'r \<Rightarrow> ordering) \<Rightarrow> ('r \<Rightarrow> bool) \<Rightarrow> 'r list \<Rightarrow> nat \<Rightarrow> bool" where
  \<comment> \<open>\<open>i\<close> is a matching rule that every other matching rule comes after\<close>
  "best c P rs i \<longleftrightarrow> i < length rs \<and> P (rs ! i) \<and>
     (\<forall>j < length rs. P (rs ! j) \<longrightarrow> j \<noteq> i \<longrightarrow>
        c (rs ! i) (rs ! j) = Less \<or> c (rs ! i) (rs ! j) = Equal \<and> i < j)"

locale precedence =
  fixes c :: "'r \<Rightarrow> 'r \<Rightarrow> ordering"
  assumes flip: "c a b = Greater \<longleftrightarrow> c b a = Less"
    and trans: "not_after c a b \<Longrightarrow> not_after c b d \<Longrightarrow> not_after c a d"
begin

lemma equal_sym: "c a b = Equal \<longleftrightarrow> c b a = Equal"
  using flip [of a b] flip [of b a] by (cases "c a b"; cases "c b a") simp_all

lemma trans_strict: "c a b = Less \<Longrightarrow> not_after c b d \<Longrightarrow> c a d = Less"
  using trans [of a b d] trans [of b d a] flip [of b a] flip [of d a] equal_sym [of a d]
  by (cases "c a d") simp_all

lemma trans_strict': "not_after c a b \<Longrightarrow> c b d = Less \<Longrightarrow> c a d = Less"
  using trans [of a b d] trans [of d a b] flip [of d b] equal_sym [of a d]
  by (cases "c a d") simp_all

lemma index_preorder: "preorder_on (set xs) (index_cmp c rs)"
  unfolding preorder_on_def index_cmp_def
proof (intro conjI ballI impI)
  fix a b
  assume "then_cmp (c (rs ! a) (rs ! b)) (cmp a b) = Greater"
  then show "not_after (\<lambda>a b. then_cmp (c (rs ! a) (rs ! b)) (cmp a b)) b a"
    by (auto dest: flip [THEN iffD1] equal_sym [THEN iffD1])
next
  fix a b d
  assume ab: "not_after (\<lambda>a b. then_cmp (c (rs ! a) (rs ! b)) (cmp a b)) a b"
    and bd: "not_after (\<lambda>a b. then_cmp (c (rs ! a) (rs ! b)) (cmp a b)) b d"
  from ab bd have n: "not_after c (rs ! a) (rs ! b)" "not_after c (rs ! b) (rs ! d)" by auto
  show "not_after (\<lambda>a b. then_cmp (c (rs ! a) (rs ! b)) (cmp a b)) a d"
  proof (cases "c (rs ! a) (rs ! d) = Equal")
    case True
    have "c (rs ! a) (rs ! b) = Equal" "c (rs ! b) (rs ! d) = Equal"
      using n True trans_strict [OF _ n(2)] trans_strict' [OF n(1)]
      by (cases "c (rs ! a) (rs ! b)"; cases "c (rs ! b) (rs ! d)"; simp)+
    with True ab bd show ?thesis by auto
  next
    case False
    then show ?thesis using trans [OF n] by auto
  qed
qed

lemma set_ranked: "set (ranked c rs) = {..<length rs}"
  by (auto simp: ranked_def)

lemma distinct_ranked: "distinct (ranked c rs)"
  by (simp add: ranked_def)

lemma sorted_ranked: "sorted_wrt (not_after (index_cmp c rs)) (ranked c rs)"
  unfolding ranked_def by (rule sorted_sort_by [OF index_preorder])

lemma first_best:
  assumes "List.find (\<lambda>i. P (rs ! i)) (ranked c rs) = Some i"
  shows "best c P rs i"
proof -
  from find_SomeD [OF assms] have i: "i < length rs" "P (rs ! i)"
    by (auto simp: set_ranked)
  have "c (rs ! i) (rs ! j) = Less \<or> c (rs ! i) (rs ! j) = Equal \<and> i < j"
    if "j < length rs" "P (rs ! j)" "j \<noteq> i" for j
  proof -
    have "not_after (index_cmp c rs) i j"
      using find_Some_sorted [OF assms sorted_ranked, of j] that by (simp add: set_ranked)
    then show ?thesis using that(3)
      by (cases "c (rs ! i) (rs ! j)") (auto simp: index_cmp_def)
  qed
  with i show ?thesis by (simp add: best_def)
qed

lemma best_unique: "best c P rs i \<Longrightarrow> best c P rs j \<Longrightarrow> i = j"
  unfolding best_def using flip [of "rs ! j" "rs ! i"] equal_sym [of "rs ! i" "rs ! j"]
  by (cases "c (rs ! i) (rs ! j)") (metis ordering.distinct not_less_iff_gr_or_eq)+

lemma first_iff_best:
  "List.find (\<lambda>i. P (rs ! i)) (ranked c rs) = Some i \<longleftrightarrow> best c P rs i"
proof
  assume b: "best c P rs i"
  then have "\<not> (\<forall>k\<in>set (ranked c rs). \<not> P (rs ! k))"
    by (auto simp: set_ranked best_def)
  then obtain k where k: "List.find (\<lambda>i. P (rs ! i)) (ranked c rs) = Some k"
    by (cases "List.find (\<lambda>i. P (rs ! i)) (ranked c rs)") (auto simp: find_None)
  with first_best [OF k] b best_unique show "List.find (\<lambda>i. P (rs ! i)) (ranked c rs) = Some i"
    by blast
qed (rule first_best)

lemma first_none:
  "List.find (\<lambda>i. P (rs ! i)) (ranked c rs) = None \<longleftrightarrow> (\<forall>r\<in>set rs. \<not> P r)"
  unfolding find_None set_ranked by (metis in_set_conv_nth lessThan_iff)

end

end
