(* ===== verification/Rust_Text.thy ===== *)
theory Rust_Text
  imports Prelude "HOL-Library.List_Lexorder" "HOL-Library.Char_ord"
begin

text \<open>
  What the program uses of Rust's strings, paths and ordered maps.

  A \<open>String\<close> is a list of Unicode scalar values, one \<^typ>\<open>char\<close> each, so the model covers the
  texts whose scalars lie in U+0000 to U+00FF: on these the character classes and case
  mappings below are Rust's, and the order of \<^typ>\<open>string\<close> is Rust's byte order (UTF-8 keeps
  the order of code points). A \<open>PathBuf\<close> is its raw text; two paths are equal when
  their components are (\<open>path_key\<close>). A \<open>BTreeMap\<close> is an association list in strictly
  increasing key order.

  The locale \<open>text_codec\<close> is the contract between a \<open>Display\<close> and its \<open>FromStr\<close>.
\<close>

section \<open>Characters and case\<close>

definition code :: "char \<Rightarrow> nat" where
  "code c = of_char c"

text \<open>\<open>char::to_ascii_lowercase\<close> and \<open>char::to_lowercase\<close>.\<close>

definition ascii_lower :: "char \<Rightarrow> char" where
  "ascii_lower c = (if 65 \<le> code c \<and> code c \<le> 90 then char_of (code c + 32) else c)"

definition lower :: "char \<Rightarrow> char" where
  "lower c = (if 65 \<le> code c \<and> code c \<le> 90 \<or> 192 \<le> code c \<and> code c \<le> 222 \<and> code c \<noteq> 215
              then char_of (code c + 32) else c)"

definition to_ascii_lowercase :: "string \<Rightarrow> string" where
  "to_ascii_lowercase s = map ascii_lower s"

definition to_lowercase :: "string \<Rightarrow> string" where
  "to_lowercase s = map lower s"

definition is_ascii_lowercase :: "char \<Rightarrow> bool" where
  "is_ascii_lowercase c \<longleftrightarrow> 97 \<le> code c \<and> code c \<le> 122"

definition is_ascii_digit :: "char \<Rightarrow> bool" where
  "is_ascii_digit c \<longleftrightarrow> 48 \<le> code c \<and> code c \<le> 57"

text \<open>\<open>char::is_alphanumeric\<close>: alphabetic or numeric, on the first 256 scalars.\<close>

definition is_alphanumeric :: "char \<Rightarrow> bool" where
  "is_alphanumeric c \<longleftrightarrow> (let n = code c in
     48 \<le> n \<and> n \<le> 57 \<or> 65 \<le> n \<and> n \<le> 90 \<or> 97 \<le> n \<and> n \<le> 122 \<or>
     n \<in> {170, 178, 179, 181, 185, 186, 188, 189, 190} \<or>
     192 \<le> n \<and> n \<noteq> 215 \<and> n \<noteq> 247)"

definition quote :: char where
  "quote = CHR 0x27"

lemma code_less: "code c < 256"
  by (simp add: code_def)

lemma code_char_of [simp]: "n < 256 \<Longrightarrow> code (char_of n) = n"
  by (simp add: code_def of_char_of)

lemma lower_idem [simp]: "lower (lower c) = lower c"
  using code_less [of c] by (auto simp: lower_def)

lemma to_lowercase_idem [simp]: "to_lowercase (to_lowercase s) = to_lowercase s"
  by (simp add: to_lowercase_def)

lemma ascii_lower_idem [simp]: "ascii_lower (ascii_lower c) = ascii_lower c"
  using code_less [of c] by (auto simp: ascii_lower_def)

lemma to_ascii_lowercase_idem [simp]: "to_ascii_lowercase (to_ascii_lowercase s) = to_ascii_lowercase s"
  by (simp add: to_ascii_lowercase_def)

lemma ascii_lower_id: "\<not> (65 \<le> code c \<and> code c \<le> 90) \<Longrightarrow> ascii_lower c = c"
  by (auto simp: ascii_lower_def)

section \<open>Splitting and searching\<close>

fun split_when :: "(char \<Rightarrow> bool) \<Rightarrow> string \<Rightarrow> string list" where
  "split_when p [] = [[]]"
| "split_when p (c # cs) =
     (if p c then [] # split_when p cs
      else (case split_when p cs of [] \<Rightarrow> [[c]] | w # ws \<Rightarrow> (c # w) # ws))"

fun split_once :: "char \<Rightarrow> string \<Rightarrow> (string \<times> string) option" where
  "split_once c [] = None"
| "split_once c (d # ds) =
     (if d = c then Some ([], ds) else map_option (\<lambda>(a, b). (d # a, b)) (split_once c ds))"

definition strip_prefix :: "string \<Rightarrow> string \<Rightarrow> string option" where
  "strip_prefix p s = (if take (length p) s = p then Some (drop (length p) s) else None)"

fun split_once_str :: "string \<Rightarrow> string \<Rightarrow> (string \<times> string) option" where
  "split_once_str sep [] = (if sep = [] then Some ([], []) else None)"
| "split_once_str sep (d # ds) =
     (case strip_prefix sep (d # ds) of
        Some rest \<Rightarrow> Some ([], rest)
      | None \<Rightarrow> map_option (\<lambda>(a, b). (d # a, b)) (split_once_str sep ds))"

fun str_contains :: "string \<Rightarrow> string \<Rightarrow> bool" where
  "str_contains [] needle = (needle = [])"
| "str_contains (c # cs) needle =
     (take (length needle) (c # cs) = needle \<or> str_contains cs needle)"

definition strip_cr :: "string \<Rightarrow> string" where
  "strip_cr l = (if l \<noteq> [] \<and> last l = CHR 0x0D then butlast l else l)"

definition str_lines :: "string \<Rightarrow> string list" where
  "str_lines s =
     (let ps = split_when (\<lambda>c. c = CHR 0x0A) s
      in map strip_cr (butlast ps) @ (if last ps = [] then [] else [last ps]))"

fun join :: "string \<Rightarrow> string list \<Rightarrow> string" where
  "join sep [] = []"
| "join sep [w] = w"
| "join sep (w # ws) = w @ sep @ join sep ws"

text \<open>\<open>Display\<close> of an unsigned integer.\<close>

fun show_nat :: "nat \<Rightarrow> string" where
  "show_nat n = (if n < 10 then [char_of (48 + n)] else show_nat (n div 10) @ [char_of (48 + n mod 10)])"

declare show_nat.simps [simp del]

lemma split_when_nonempty [simp]: "split_when p s \<noteq> []"
  by (induction s) (auto split: list.splits)

lemma split_when_free: "\<forall>w\<in>set (split_when p s). \<forall>c\<in>set w. \<not> p c"
  by (induction s) (auto split: list.split)

lemma split_once_Some: "split_once c s = Some (a, b) \<longleftrightarrow> s = a @ c # b \<and> c \<notin> set a"
proof (induction s arbitrary: a)
  case (Cons d ds)
  then show ?case by (cases a) auto
qed simp

lemma split_once_None: "split_once c s = None \<longleftrightarrow> c \<notin> set s"
  by (induction s) auto

lemma split_once_append [simp]: "c \<notin> set a \<Longrightarrow> split_once c (a @ c # b) = Some (a, b)"
  by (simp add: split_once_Some)

lemma strip_prefix_Some: "strip_prefix p s = Some r \<longleftrightarrow> s = p @ r"
  by (auto simp: strip_prefix_def) (metis append_take_drop_id)

lemma str_contains_iff: "str_contains s n \<longleftrightarrow> (\<exists>a b. s = a @ n @ b)"
proof (induction s)
  case (Cons c cs)
  have "(\<exists>a b. c # cs = a @ n @ b) \<longleftrightarrow> (\<exists>b. c # cs = n @ b) \<or> (\<exists>a b. cs = a @ n @ b)"
    by (metis append_Cons append_Nil neq_Nil_conv list.inject)
  moreover have "take (length n) (c # cs) = n \<longleftrightarrow> (\<exists>b. c # cs = n @ b)"
    by (metis append_eq_conv_conj append_take_drop_id)
  ultimately show ?case using Cons by simp
qed simp

lemma str_contains_self [simp]: "str_contains s s"
  unfolding str_contains_iff by (intro exI [of _ "[]"]) simp

section \<open>Paths\<close>

text \<open>
  \<open>Path\<close> equality compares components: the root, then the parts between separators,
  without empty parts and without \<open>.\<close> parts, except one that starts a relative path.
\<close>

definition path_key :: "string \<Rightarrow> bool \<times> string list" where
  "path_key p =
     (let abs = (p \<noteq> [] \<and> hd p = CHR ''/'');
          parts = split_when (\<lambda>c. c = CHR ''/'') p;
          norm = filter (\<lambda>w. w \<noteq> [] \<and> w \<noteq> ''.'')
      in (abs, if \<not> abs \<and> hd parts = ''.'' then ''.'' # norm (tl parts) else norm parts))"

definition path_eq :: "string \<Rightarrow> string \<Rightarrow> bool" where
  "path_eq p q \<longleftrightarrow> path_key p = path_key q"

lemma path_eq_refl [simp]: "path_eq p p"
  by (simp add: path_eq_def)

section \<open>Ordered maps\<close>

type_synonym 'v btree = "(string \<times> 'v) list"

abbreviation bt_get :: "'v btree \<Rightarrow> string \<Rightarrow> 'v option" where
  "bt_get \<equiv> map_of"

fun bt_insert :: "string \<Rightarrow> 'v \<Rightarrow> 'v btree \<Rightarrow> 'v btree" where
  "bt_insert k v [] = [(k, v)]"
| "bt_insert k v ((l, w) # m) =
     (if k < l then (k, v) # (l, w) # m
      else if k = l then (k, v) # m
      else (l, w) # bt_insert k v m)"

definition bt_wf :: "'v btree \<Rightarrow> bool" where
  "bt_wf m \<longleftrightarrow> sorted_wrt (<) (map fst m)"

lemma bt_get_insert: "bt_wf m \<Longrightarrow> bt_get (bt_insert k v m) = (bt_get m)(k \<mapsto> v)"
proof (induction m)
  case (Cons p m)
  then show ?case by (cases p) (auto simp: bt_wf_def fun_eq_iff)
qed simp

lemma set_bt_insert: "set (map fst (bt_insert k v m)) = insert k (set (map fst m))"
  by (induction k v m rule: bt_insert.induct) auto

lemma bt_wf_insert: "bt_wf m \<Longrightarrow> bt_wf (bt_insert k v m)"
proof (induction m)
  case (Cons p m)
  obtain l w where p: "p = (l, w)" by (cases p)
  have "x \<in> fst ` set (bt_insert k v m) \<Longrightarrow> x = k \<or> x \<in> fst ` set m" for x
    using set_bt_insert [of k v m] by auto
  with Cons p show ?case by (fastforce simp: bt_wf_def)
qed (simp add: bt_wf_def)

lemma bt_wf_distinct: "bt_wf m \<Longrightarrow> distinct (map fst m)"
  by (simp add: bt_wf_def strict_sorted_iff)

section \<open>Printing and parsing\<close>

locale text_codec =
  fixes show_text :: "'a \<Rightarrow> string"
    and parse_text :: "string \<Rightarrow> ('e, 'a) result"
    and well_formed :: "'a \<Rightarrow> bool"
  assumes parse_show: "well_formed a \<Longrightarrow> parse_text (show_text a) = Ok a"
    and parse_wf: "parse_text s = Ok a \<Longrightarrow> well_formed a"
begin

lemma show_inj: "well_formed a \<Longrightarrow> well_formed b \<Longrightarrow> show_text a = show_text b \<Longrightarrow> a = b"
  using parse_show by (metis sum.inject(2))

lemma parse_canonical: "parse_text s = Ok a \<Longrightarrow> parse_text (show_text a) = Ok a"
  by (blast intro: parse_show parse_wf)

lemma parse_onto: "(\<exists>s. parse_text s = Ok a) \<longleftrightarrow> well_formed a"
  by (blast intro: parse_show parse_wf)

end

end
