(* ===== verification/Core_Model.thy ===== *)
theory Core_Model
  imports Rust_Text Complex_Main
begin

text \<open>
  The domain types of \<^verbatim>\<open>smista-core\<close>: task intents, effort levels, providers, model
  references, capabilities and model descriptors, with the error types their parsers and
  checks return. Every \<open>Display\<close>/\<open>FromStr\<close> pair is an interpretation of
  \<open>text_codec\<close>.

  Decimal amounts are rationals; an \<open>f32\<close> parameter is its 32-bit pattern, read by
  nobody here; JSON is the datatype \<open>json\<close>.
\<close>

section \<open>Enumerations\<close>

datatype task_intent = Chat | Plan | Edit | Review | Summarize | Prompt | Skill

datatype effort = LowEffort | MediumEffort | HighEffort | XhighEffort

datatype provider = Anthropic | Gemini | OpenAI | Ollama | OpenAICompatible string

datatype capability = Streaming | Tools | JsonOutput | SystemPrompt | Images | Reasoning | Memory

datatype permission_mode = Allow | Ask | Deny

datatype message_role = System | User | Assistant | Tool

datatype json = JNull | JBool bool | JNum rat | JStr string | JArr "json list"
  | JObj "(string \<times> json) list"

section \<open>Errors\<close>

datatype auth_error = Expired | Forbidden | InvalidToken | MissingCredentials | Revoked

datatype parse_error = InvalidApiKey | InvalidContentRef string | InvalidModelReference string
  | InvalidProviderName string | InvalidSessionToken | UnknownEffort string
  | UnknownIntent string | UnknownProvider string

datatype policy_error = PermissionExpansion (pe_base: permission_mode)
    (pe_requested: permission_mode) (pe_tool: string)

datatype capability_error = ContextWindowExceeded (cwe_tokens: nat) (cwe_window: nat)
  | MissingCapability capability

datatype routing_error = RoutingFallbackExhausted | RoutingNoRoute
  | RoutingOverrideNotAllowed string | UnknownModel string | UnsupportedCapability capability

datatype provider_error_category = Authentication | ContextLength | InvalidConfiguration
  | InvalidCredentials | InvalidRequest | MissingProviderCredentials | ModelNotFound
  | ProviderUnavailable | RateLimit | Storage | Timeout | Unknown | UnsupportedByProvider

record provider_error =
  pe_category :: provider_error_category
  pe_message :: string
  pe_provider :: provider
  pe_model :: "string option"

datatype core_error = Auth auth_error | Capability capability_error | Internal string
  | Parse parse_error | Policy policy_error | Provider provider_error | Routing routing_error

definition is_fallback_eligible :: "provider_error_category \<Rightarrow> bool" where
  "is_fallback_eligible c \<longleftrightarrow> c \<in> {ProviderUnavailable, RateLimit, Timeout, Unknown}"

definition category_of_status :: "nat \<Rightarrow> provider_error_category" where
  "category_of_status status =
     (if status = 400 then InvalidRequest
      else if status = 401 then InvalidCredentials
      else if status = 403 then Authentication
      else if status = 429 then RateLimit
      else if 500 \<le> status \<and> status < 600 then ProviderUnavailable
      else Unknown)"

lemma category_of_status_eligible:
  "is_fallback_eligible (category_of_status n) \<longleftrightarrow> n \<notin> {400, 401, 403}"
  by (auto simp: is_fallback_eligible_def category_of_status_def)

section \<open>Names\<close>

fun intent_as_str :: "task_intent \<Rightarrow> string" where
  "intent_as_str Chat = ''chat''"
| "intent_as_str Plan = ''plan''"
| "intent_as_str Edit = ''edit''"
| "intent_as_str Review = ''review''"
| "intent_as_str Summarize = ''summarize''"
| "intent_as_str Prompt = ''prompt''"
| "intent_as_str Skill = ''skill''"

definition intent_from_str :: "string \<Rightarrow> (core_error, task_intent) result" where
  "intent_from_str s0 = (let s = to_ascii_lowercase s0 in
     if s = ''chat'' then Ok Chat
     else if s = ''plan'' then Ok Plan
     else if s = ''edit'' then Ok Edit
     else if s = ''review'' then Ok Review
     else if s = ''summarize'' then Ok Summarize
     else if s = ''prompt'' then Ok Prompt
     else if s = ''skill'' then Ok Skill
     else Err (Parse (UnknownIntent s)))"

fun effort_as_str :: "effort \<Rightarrow> string" where
  "effort_as_str LowEffort = ''low''"
| "effort_as_str MediumEffort = ''medium''"
| "effort_as_str HighEffort = ''high''"
| "effort_as_str XhighEffort = ''xhigh''"

definition effort_from_str :: "string \<Rightarrow> (core_error, effort) result" where
  "effort_from_str s0 = (let s = to_ascii_lowercase s0 in
     if s = ''low'' then Ok LowEffort
     else if s = ''medium'' then Ok MediumEffort
     else if s = ''high'' then Ok HighEffort
     else if s = ''xhigh'' then Ok XhighEffort
     else Err (Parse (UnknownEffort s)))"

fun capability_as_str :: "capability \<Rightarrow> string" where
  "capability_as_str Streaming = ''streaming''"
| "capability_as_str Tools = ''tools''"
| "capability_as_str JsonOutput = ''json_output''"
| "capability_as_str SystemPrompt = ''system_prompt''"
| "capability_as_str Images = ''images''"
| "capability_as_str Reasoning = ''reasoning''"
| "capability_as_str Memory = ''memory''"

fun permission_as_str :: "permission_mode \<Rightarrow> string" where
  "permission_as_str Allow = ''allow''"
| "permission_as_str Ask = ''ask''"
| "permission_as_str Deny = ''deny''"

lemma lower_intent [simp]: "to_ascii_lowercase (intent_as_str i) = intent_as_str i"
  by (induction i; code_simp)

lemma lower_effort [simp]: "to_ascii_lowercase (effort_as_str e) = effort_as_str e"
  by (induction e; code_simp)

interpretation intent: text_codec intent_as_str intent_from_str "\<lambda>_. True"
proof
  show "intent_from_str (intent_as_str a) = Ok a" for a
    unfolding intent_from_str_def Let_def by (simp only: lower_intent) (cases a; simp)
qed simp

interpretation effort: text_codec effort_as_str effort_from_str "\<lambda>_. True"
proof
  show "effort_from_str (effort_as_str a) = Ok a" for a
    unfolding effort_from_str_def Let_def by (simp only: lower_effort) (cases a; simp)
qed simp

section \<open>Providers\<close>

definition openai_compatible_tag :: string where
  "openai_compatible_tag = ''openai-compat''"

definition tag_separator :: char where
  "tag_separator = CHR '':''"

definition is_valid_instance_name :: "string \<Rightarrow> bool" where
  "is_valid_instance_name name \<longleftrightarrow> name \<noteq> [] \<and>
     list_all (\<lambda>c. is_ascii_lowercase c \<or> is_ascii_digit c \<or> c = CHR ''-'' \<or> c = CHR ''_'') name"

definition provider_from_canonical :: "string \<Rightarrow> (core_error, provider) result" where
  "provider_from_canonical s =
     (if s = ''anthropic'' then Ok Anthropic
      else if s = ''gemini'' then Ok Gemini
      else if s = ''openai'' then Ok OpenAI
      else if s = ''ollama'' then Ok Ollama
      else (case split_once tag_separator s of
              Some (tag, name) \<Rightarrow>
                if tag = openai_compatible_tag \<and> is_valid_instance_name name
                then Ok (OpenAICompatible name)
                else if tag = openai_compatible_tag
                then Err (Parse (InvalidProviderName name))
                else Err (Parse (UnknownProvider s))
            | None \<Rightarrow> Err (Parse (UnknownProvider s))))"

fun show_provider :: "provider \<Rightarrow> string" where
  "show_provider Anthropic = ''anthropic''"
| "show_provider Gemini = ''gemini''"
| "show_provider OpenAI = ''openai''"
| "show_provider Ollama = ''ollama''"
| "show_provider (OpenAICompatible name) = openai_compatible_tag @ tag_separator # name"

definition provider_from_str :: "string \<Rightarrow> (core_error, provider) result" where
  "provider_from_str s = provider_from_canonical (to_ascii_lowercase s)"

fun provider_wf :: "provider \<Rightarrow> bool" where
  "provider_wf (OpenAICompatible name) = is_valid_instance_name name"
| "provider_wf _ = True"

section \<open>Model references\<close>

record model_reference =
  mr_provider :: provider
  mr_model :: string

definition reference_separator :: char where
  "reference_separator = CHR ''/''"

definition show_reference :: "model_reference \<Rightarrow> string" where
  "show_reference r = show_provider (mr_provider r) @ reference_separator # mr_model r"

definition reference_from_str :: "string \<Rightarrow> (core_error, model_reference) result" where
  "reference_from_str s =
     (case split_once reference_separator s of
        None \<Rightarrow> Err (Parse (InvalidModelReference s))
      | Some (p, m) \<Rightarrow>
          if p = [] \<or> m = [] then Err (Parse (InvalidModelReference s))
          else and_then (provider_from_str p)
                 (\<lambda>provider. Ok \<lparr>mr_provider = provider, mr_model = m\<rparr>))"

definition reference_wf :: "model_reference \<Rightarrow> bool" where
  "reference_wf r \<longleftrightarrow> provider_wf (mr_provider r) \<and> mr_model r \<noteq> []"


lemma instance_char:
  assumes "is_ascii_lowercase c \<or> is_ascii_digit c \<or> c = CHR ''-'' \<or> c = CHR ''_''"
  shows "ascii_lower c = c" "c \<noteq> CHR '':''" "c \<noteq> CHR ''/''"
proof -
  have codes: "code CHR '':'' = 58" "code CHR ''/'' = 47" "code CHR ''-'' = 45" "code CHR ''_'' = 95"
    by code_simp+
  have "97 \<le> code c \<and> code c \<le> 122 \<or> 48 \<le> code c \<and> code c \<le> 57 \<or> code c = 45 \<or> code c = 95"
    using assms codes by (auto simp: is_ascii_lowercase_def is_ascii_digit_def)
  then show "ascii_lower c = c" "c \<noteq> CHR '':''" "c \<noteq> CHR ''/''"
    using codes by (auto simp: ascii_lower_def)
qed

lemma instance_name_lower:
  "is_valid_instance_name n \<Longrightarrow> to_ascii_lowercase n = n"
  by (auto simp: is_valid_instance_name_def to_ascii_lowercase_def list_all_iff instance_char
      intro!: map_idI)

lemma show_provider_lower: "provider_wf p \<Longrightarrow> to_ascii_lowercase (show_provider p) = show_provider p"
proof (cases p)
  case (OpenAICompatible n)
  moreover assume "provider_wf p"
  moreover have "to_ascii_lowercase openai_compatible_tag = openai_compatible_tag"
    "ascii_lower tag_separator = tag_separator" by code_simp+
  ultimately show ?thesis using instance_name_lower [of n] by (simp add: to_ascii_lowercase_def)
qed (hypsubst; code_simp)+

lemma provider_tag: "provider_from_canonical (openai_compatible_tag @ tag_separator # n) =
   (if is_valid_instance_name n then Ok (OpenAICompatible n) else Err (Parse (InvalidProviderName n)))"
proof -
  have "split_once tag_separator (openai_compatible_tag @ tag_separator # n) =
      Some (openai_compatible_tag, n)"
    by (rule split_once_append) code_simp
  then show ?thesis
    by (simp add: provider_from_canonical_def) (simp add: openai_compatible_tag_def)
qed

lemma provider_from_canonical_wf: "provider_from_canonical s = Ok p \<Longrightarrow> provider_wf p"
  by (auto simp: provider_from_canonical_def split: if_splits option.splits)

interpretation provider: text_codec show_provider provider_from_str provider_wf
proof
  fix p assume wf: "provider_wf p"
  have "provider_from_canonical (show_provider p) = Ok p"
    using wf by (cases p) (simp_all add: provider_tag, simp_all add: provider_from_canonical_def)
  then show "provider_from_str (show_provider p) = Ok p"
    by (simp add: provider_from_str_def show_provider_lower [OF wf])
qed (auto simp: provider_from_str_def intro: provider_from_canonical_wf)

lemma show_provider_no_slash: "provider_wf p \<Longrightarrow> reference_separator \<notin> set (show_provider p)"
proof (cases p)
  case (OpenAICompatible n)
  moreover assume "provider_wf p"
  ultimately have "reference_separator \<notin> set n"
    using instance_char(3) by (auto simp: is_valid_instance_name_def list_all_iff reference_separator_def)
  moreover have "reference_separator \<notin> set openai_compatible_tag" "reference_separator \<noteq> tag_separator"
    by code_simp+
  ultimately show ?thesis using OpenAICompatible by simp
qed (simp add: reference_separator_def)+

lemma show_provider_nonempty [simp]: "show_provider p \<noteq> []"
  by (cases p) simp_all

interpretation reference: text_codec show_reference reference_from_str reference_wf
proof
  fix r assume "reference_wf r"
  then show "reference_from_str (show_reference r) = Ok r"
    using provider.parse_show [of "mr_provider r"]
    by (simp add: reference_from_str_def show_reference_def show_provider_no_slash reference_wf_def)
next
  fix s r assume "reference_from_str s = Ok r"
  then show "reference_wf r"
    by (auto simp: reference_from_str_def reference_wf_def result_simps provider.parse_wf
        split: option.splits if_splits)
qed

end
