(* ===== verification/Core_Capabilities.thy ===== *)
theory Core_Capabilities
  imports Core_Model
begin

text \<open>
  What a model can do and what a task needs (\<^verbatim>\<open>model/capabilities.rs\<close>), the static facts of
  a model (\<^verbatim>\<open>model/descriptor.rs\<close>) and the check that decides whether a model can serve a
  task. Token counts are naturals: the code's \<open>u32\<close> and \<open>u64\<close> values are only compared
  here, never added.
\<close>

record model_capabilities =
  cap_streaming :: bool
  cap_tools :: bool
  cap_json_output :: bool
  cap_system_prompt :: bool
  cap_images :: bool
  cap_reasoning :: bool
  cap_memory :: bool

definition no_capabilities :: model_capabilities where
  "no_capabilities = \<lparr>cap_streaming = False, cap_tools = False, cap_json_output = False,
     cap_system_prompt = False, cap_images = False, cap_reasoning = False, cap_memory = False\<rparr>"

fun supports :: "model_capabilities \<Rightarrow> capability \<Rightarrow> bool" where
  "supports c Streaming = cap_streaming c"
| "supports c Tools = cap_tools c"
| "supports c JsonOutput = cap_json_output c"
| "supports c SystemPrompt = cap_system_prompt c"
| "supports c Images = cap_images c"
| "supports c Reasoning = cap_reasoning c"
| "supports c Memory = cap_memory c"

text \<open>\<open>filter_map\<close> over pairs of a flag and a capability keeps the flagged ones.\<close>

definition flagged :: "(bool \<times> capability) list \<Rightarrow> capability list" where
  "flagged ps = map snd (filter fst ps)"

definition supported :: "model_capabilities \<Rightarrow> capability list" where
  "supported c = flagged
     [(cap_streaming c, Streaming), (cap_tools c, Tools), (cap_json_output c, JsonOutput),
      (cap_system_prompt c, SystemPrompt), (cap_images c, Images),
      (cap_reasoning c, Reasoning), (cap_memory c, Memory)]"

fun grant :: "capability \<Rightarrow> model_capabilities \<Rightarrow> model_capabilities" where
  "grant Streaming c = c\<lparr>cap_streaming := True\<rparr>"
| "grant Tools c = c\<lparr>cap_tools := True\<rparr>"
| "grant JsonOutput c = c\<lparr>cap_json_output := True\<rparr>"
| "grant SystemPrompt c = c\<lparr>cap_system_prompt := True\<rparr>"
| "grant Images c = c\<lparr>cap_images := True\<rparr>"
| "grant Reasoning c = c\<lparr>cap_reasoning := True\<rparr>"
| "grant Memory c = c\<lparr>cap_memory := True\<rparr>"

definition capabilities_from :: "capability list \<Rightarrow> model_capabilities" where
  "capabilities_from cs = fold grant cs no_capabilities"

record routing_requirements =
  req_streaming :: bool
  req_tools :: bool
  req_json_output :: bool
  req_system_prompt :: bool
  req_images :: bool
  req_reasoning :: bool
  req_memory :: bool
  req_estimated_tokens :: "nat option"

definition no_requirements :: routing_requirements where
  "no_requirements = \<lparr>req_streaming = False, req_tools = False, req_json_output = False,
     req_system_prompt = False, req_images = False, req_reasoning = False, req_memory = False,
     req_estimated_tokens = None\<rparr>"

definition required :: "routing_requirements \<Rightarrow> capability list" where
  "required r = flagged
     [(req_streaming r, Streaming), (req_tools r, Tools), (req_json_output r, JsonOutput),
      (req_system_prompt r, SystemPrompt), (req_images r, Images),
      (req_reasoning r, Reasoning), (req_memory r, Memory)]"

lemma set_supported: "set (supported c) = {k. supports c k}"
proof -
  have "k \<in> set (supported c) \<longleftrightarrow> supports c k" for k
    by (cases k) (auto simp: supported_def flagged_def)
  then show ?thesis by blast
qed

lemma supports_grant: "supports (grant k c) j \<longleftrightarrow> j = k \<or> supports c j"
  by (cases k; cases j) simp_all

lemma supports_fold_grant: "supports (fold grant cs c) k \<longleftrightarrow> k \<in> set cs \<or> supports c k"
  by (induction cs arbitrary: c) (auto simp: supports_grant)

lemma supports_none [simp]: "\<not> supports no_capabilities k"
  by (cases k) (simp_all add: no_capabilities_def)

lemma capabilities_eqI: "(\<And>k. supports c k \<longleftrightarrow> supports d k) \<Longrightarrow> c = (d::model_capabilities)"
proof -
  assume eq: "\<And>k. supports c k \<longleftrightarrow> supports d k"
  show "c = d"
    using eq [of Streaming] eq [of Tools] eq [of JsonOutput] eq [of SystemPrompt] eq [of Images]
      eq [of Reasoning] eq [of Memory] by simp
qed

section \<open>Model descriptors\<close>

datatype auth_requirement = NoAuth | ApiKey | OptionalApiKey | CustomAuth string

definition auth_requires_api_key :: "auth_requirement \<Rightarrow> bool" where
  "auth_requires_api_key a \<longleftrightarrow> a = ApiKey"

record model_parameters =
  mp_temperature :: "nat option"
  mp_top_p :: "nat option"
  mp_max_tokens :: "nat option"
  mp_extra :: "json btree"

record model_descriptor =
  md_provider :: provider
  md_model :: string
  md_display_name :: "string option"
  md_local :: bool
  md_auth :: auth_requirement
  md_capabilities :: model_capabilities
  md_max_context_tokens :: nat
  md_max_output_tokens :: "nat option"
  md_input_cost :: "rat option"
  md_output_cost :: "rat option"
  md_default_parameters :: model_parameters
  md_provider_options :: "json option"

definition descriptor_reference :: "model_descriptor \<Rightarrow> model_reference" where
  "descriptor_reference d = \<lparr>mr_provider = md_provider d, mr_model = md_model d\<rparr>"

definition requires_api_key :: "model_descriptor \<Rightarrow> bool" where
  "requires_api_key d \<longleftrightarrow> auth_requires_api_key (md_auth d)"

definition fits_context :: "model_descriptor \<Rightarrow> nat \<Rightarrow> bool" where
  "fits_context d n \<longleftrightarrow> n \<le> md_max_context_tokens d"

definition can_handle :: "model_descriptor \<Rightarrow> routing_requirements \<Rightarrow> (capability_error, unit) result" where
  "can_handle d r =
     (case List.find (\<lambda>k. \<not> supports (md_capabilities d) k) (required r) of
        Some missing \<Rightarrow> Err (MissingCapability missing)
      | None \<Rightarrow>
          (case req_estimated_tokens r of
             Some n \<Rightarrow> if \<not> fits_context d n
                       then Err (ContextWindowExceeded n (md_max_context_tokens d)) else Ok ()
           | None \<Rightarrow> Ok ()))"

lemma set_required:
  "k \<in> set (required r) \<longleftrightarrow>
     (case k of Streaming \<Rightarrow> req_streaming r | Tools \<Rightarrow> req_tools r | JsonOutput \<Rightarrow> req_json_output r
      | SystemPrompt \<Rightarrow> req_system_prompt r | Images \<Rightarrow> req_images r
      | Reasoning \<Rightarrow> req_reasoning r | Memory \<Rightarrow> req_memory r)"
  by (cases k) (auto simp: required_def flagged_def)

lemma can_handle_Ok:
  "can_handle d r = Ok u \<longleftrightarrow>
     (\<forall>k\<in>set (required r). supports (md_capabilities d) k) \<and>
     (\<forall>n. req_estimated_tokens r = Some n \<longrightarrow> n \<le> md_max_context_tokens d)"
  by (auto simp: can_handle_def find_None fits_context_def split: option.splits dest: find_SomeD)

end
