(* ===== verification/Core_Policy.thy ===== *)
theory Core_Policy
  imports Core_Capabilities
begin

text \<open>
  The policy data of \<^verbatim>\<open>smista-core/src/policy\<close>: permission modes and tool permissions,
  privacy, globs, classification and routing rules.

  Third-party code the router calls is the parameter record \<open>externs\<close>: glob compilation
  and matching (the \<^verbatim>\<open>globset\<close> crate) and the edit distance (the \<^verbatim>\<open>rapidfuzz\<close> crate). What a
  theorem needs of it is a named hypothesis, \<open>glob_law\<close> or \<open>osa_law\<close>.
\<close>

section \<open>Third-party code\<close>

record externs =
  glob_ok :: "string \<Rightarrow> bool"  \<comment> \<open>whether \<open>Glob::new\<close> accepts the pattern\<close>
  glob_build :: "string list \<Rightarrow> (string \<Rightarrow> bool) option"
    \<comment> \<open>\<open>GlobSetBuilder::build\<close> over the added globs, read as \<open>GlobSet::is_match\<close>\<close>
  osa_distance :: "string \<Rightarrow> string \<Rightarrow> nat"
    \<comment> \<open>\<open>rapidfuzz::distance::osa::distance\<close>\<close>

text \<open>A glob set matches what one of its globs matches.\<close>

definition glob_law :: "externs \<Rightarrow> bool" where
  "glob_law x \<longleftrightarrow> (\<forall>ps m. glob_build x ps = Some m \<longrightarrow>
     (\<forall>p. m p \<longleftrightarrow> (\<exists>g\<in>set ps. \<exists>n. glob_build x [g] = Some n \<and> n p)))"

text \<open>An edit distance is zero exactly between equal strings.\<close>

definition osa_law :: "externs \<Rightarrow> bool" where
  "osa_law x \<longleftrightarrow> (\<forall>a b. osa_distance x a b = 0 \<longleftrightarrow> a = b)"

definition compile_globs :: "externs \<Rightarrow> string list \<Rightarrow> (string \<Rightarrow> bool) option" where
  "compile_globs x patterns =
     (if list_all (glob_ok x) patterns then glob_build x patterns else None)"

section \<open>Permission modes\<close>

instantiation permission_mode :: linorder
begin

fun strictness :: "permission_mode \<Rightarrow> nat" where
  "strictness Allow = 0"
| "strictness Ask = 1"
| "strictness Deny = 2"

definition less_eq_permission_mode :: "permission_mode \<Rightarrow> permission_mode \<Rightarrow> bool" where
  "less_eq_permission_mode a b \<longleftrightarrow> strictness a \<le> strictness b"

definition less_permission_mode :: "permission_mode \<Rightarrow> permission_mode \<Rightarrow> bool" where
  "less_permission_mode a b \<longleftrightarrow> strictness a < strictness b"

instance
proof
  fix a b :: permission_mode
  show "a \<le> b \<Longrightarrow> b \<le> a \<Longrightarrow> a = b"
    by (cases a; cases b) (simp_all add: less_eq_permission_mode_def)
qed (auto simp: less_eq_permission_mode_def less_permission_mode_def)

end

lemma mode_order [simp]: "Allow \<le> m" "m \<le> Deny" "Deny \<le> m \<longleftrightarrow> m = Deny" "m \<le> Allow \<longleftrightarrow> m = Allow"
  by (cases m; simp add: less_eq_permission_mode_def)+

definition default_mode :: permission_mode where
  "default_mode = Ask"

section \<open>Tool permissions\<close>

type_synonym tools_config = "permission_mode btree"

definition mode_for :: "tools_config \<Rightarrow> string \<Rightarrow> permission_mode option" where
  "mode_for c tool = bt_get c tool"

definition set_mode :: "tools_config \<Rightarrow> string \<Rightarrow> permission_mode \<Rightarrow> tools_config" where
  "set_mode c tool m = bt_insert tool m c"

fun narrow :: "tools_config \<Rightarrow> tools_config \<Rightarrow> (policy_error, tools_config) result" where
  "narrow self [] = Ok self"
| "narrow self ((tool, requested) # over) =
     (case bt_get self tool of
        Some base \<Rightarrow>
          if requested < base then Err (PermissionExpansion base requested tool)
          else narrow (bt_insert tool requested self) over
      | None \<Rightarrow> narrow (bt_insert tool requested self) over)"

section \<open>Privacy\<close>

record remote_privacy =
  remote_mode :: "permission_mode option"
  blocked_paths :: "string list"

record local_privacy =
  local_mode :: "permission_mode option"

record privacy_policy =
  restricted_paths :: "string list"
  remote :: remote_privacy
  local_models :: local_privacy

definition is_restricted_for_remote :: "externs \<Rightarrow> privacy_policy \<Rightarrow> string \<Rightarrow> bool" where
  "is_restricted_for_remote x p path =
     (let patterns = restricted_paths p @ blocked_paths (remote p)
      in case compile_globs x patterns of Some is_match \<Rightarrow> is_match path | None \<Rightarrow> True)"

definition remote_effective_mode :: "remote_privacy \<Rightarrow> permission_mode" where
  "remote_effective_mode r = (case remote_mode r of Some m \<Rightarrow> m | None \<Rightarrow> Ask)"

definition local_effective_mode :: "local_privacy \<Rightarrow> permission_mode" where
  "local_effective_mode l = (case local_mode l of Some m \<Rightarrow> m | None \<Rightarrow> Allow)"

section \<open>Classification rules\<close>

datatype confidence = LowConfidence | MediumConfidence | HighConfidence

datatype intent_source = Explicit | Inferred

record classification_rule =
  cr_intent :: task_intent
  cr_priority :: nat
  cr_keywords :: "string list"
  cr_requires_any_context :: "string list"

record classification_config =
  cc_default_intent :: task_intent
  cc_rules :: "classification_rule list"

definition default_classification :: classification_config where
  "default_classification = \<lparr>cc_default_intent = Chat, cc_rules = []\<rparr>"

record classification =
  cl_intent :: task_intent
  cl_source :: intent_source
  cl_reason :: string
  cl_matched_rule :: "nat option"
  cl_confidence :: "confidence option"

section \<open>Routing rules\<close>

datatype specificity = DefaultSpec | IntentSpec | PathSpec | PathIntentSpec

instantiation specificity :: linorder
begin

fun spec_rank :: "specificity \<Rightarrow> nat" where
  "spec_rank DefaultSpec = 0"
| "spec_rank IntentSpec = 1"
| "spec_rank PathSpec = 2"
| "spec_rank PathIntentSpec = 3"

definition less_eq_specificity :: "specificity \<Rightarrow> specificity \<Rightarrow> bool" where
  "less_eq_specificity a b \<longleftrightarrow> spec_rank a \<le> spec_rank b"

definition less_specificity :: "specificity \<Rightarrow> specificity \<Rightarrow> bool" where
  "less_specificity a b \<longleftrightarrow> spec_rank a < spec_rank b"

instance
proof
  fix a b :: specificity
  show "a \<le> b \<Longrightarrow> b \<le> a \<Longrightarrow> a = b"
    by (cases a; cases b) (simp_all add: less_eq_specificity_def)
qed (auto simp: less_eq_specificity_def less_specificity_def)

end

definition default_priority :: nat where
  "default_priority = 1000"

record routing_rule =
  rule_name :: string
  rule_priority :: nat
  rule_effort :: effort
  rule_intent :: "task_intent option"
  rule_paths :: "string list"
  rule_local_only :: bool
  rule_requires_capabilities :: "model_capabilities option"
  rule_model :: model_reference
  rule_fallbacks :: "model_reference list"
  rule_required_permissions :: tools_config
  rule_cost_limit :: "rat option"

record default_route =
  dr_model :: model_reference
  dr_fallbacks :: "model_reference list"

record routing_policy =
  rp_rules :: "routing_rule list"
  rp_default :: "default_route option"

definition specificity_of :: "routing_rule \<Rightarrow> specificity" where
  "specificity_of r =
     (case (rule_paths r \<noteq> [], rule_intent r \<noteq> None) of
        (True, True) \<Rightarrow> PathIntentSpec
      | (True, False) \<Rightarrow> PathSpec
      | (False, True) \<Rightarrow> IntentSpec
      | (False, False) \<Rightarrow> DefaultSpec)"

definition precedence_cmp :: "routing_rule \<Rightarrow> routing_rule \<Rightarrow> ordering" where
  "precedence_cmp a b =
     then_cmp (cmp (rule_priority a) (rule_priority b)) (cmp (specificity_of b) (specificity_of a))"

definition classification_cmp :: "classification_rule \<Rightarrow> classification_rule \<Rightarrow> ordering" where
  "classification_cmp a b = cmp (cr_priority a) (cr_priority b)"

text \<open>Both rule kinds are ranked by a total preorder: the first-match interface holds.\<close>

interpretation routing: precedence precedence_cmp
  by unfold_locales (auto simp: precedence_cmp_def)

interpretation classifying: precedence classification_cmp
  by unfold_locales (auto simp: classification_cmp_def)

section \<open>Lemmas\<close>

lemma narrow_step:
  "narrow self ((t, n) # over) = Ok r \<longleftrightarrow>
     (\<forall>m. bt_get self t = Some m \<longrightarrow> m \<le> n) \<and> narrow (bt_insert t n self) over = Ok r"
  by (auto split: option.splits)

lemma narrow_wf: "narrow self over = Ok r \<Longrightarrow> bt_wf self \<Longrightarrow> bt_wf r"
  by (induction self over rule: narrow.induct) (auto simp: bt_wf_insert split: option.splits if_splits)

lemma narrow_get:
  "narrow self over = Ok r \<Longrightarrow> bt_wf self \<Longrightarrow> distinct (map fst over) \<Longrightarrow>
   bt_get r t = (case bt_get over t of Some m \<Rightarrow> Some m | None \<Rightarrow> bt_get self t)"
proof (induction over arbitrary: self)
  case (Cons p over)
  obtain u n where p: "p = (u, n)" by (cases p)
  have "bt_get over u = None"
    using Cons.prems(3) p by (auto simp: map_of_eq_None_iff)
  with Cons.IH [of "bt_insert u n self"] Cons.prems p show ?case
    by (auto simp: narrow_step bt_wf_insert bt_get_insert split: option.splits simp del: narrow.simps)
qed simp

lemma narrow_tightens:
  "narrow self over = Ok r \<Longrightarrow> bt_wf self \<Longrightarrow> distinct (map fst over) \<Longrightarrow>
   bt_get self t = Some m \<Longrightarrow> bt_get over t = Some n \<Longrightarrow> m \<le> n"
proof (induction over arbitrary: self)
  case (Cons p over)
  obtain u k where p: "p = (u, k)" by (cases p)
  with Cons.IH [of "bt_insert u k self"] Cons.prems show ?case
    by (auto simp: narrow_step bt_wf_insert bt_get_insert simp del: narrow.simps split: if_splits)
qed simp

lemma narrow_Err:
  assumes "bt_wf self" "distinct (map fst over)"
  shows "(\<exists>e. narrow self over = Err e) \<longleftrightarrow>
    (\<exists>t m n. bt_get self t = Some m \<and> bt_get over t = Some n \<and> n < m)"
  using assms
proof (induction over arbitrary: self)
  case (Cons p over)
  obtain t n where p: "p = (t, n)" by (cases p)
  have t: "bt_get over t = None"
    using Cons.prems(2) p by (auto simp: map_of_eq_None_iff)
  have step: "(\<exists>e. narrow (bt_insert t n self) over = Err e) \<longleftrightarrow>
      (\<exists>u m k. bt_get self u = Some m \<and> bt_get over u = Some k \<and> k < m)"
    using Cons.IH [of "bt_insert t n self"] Cons.prems t
    by (auto simp: bt_wf_insert bt_get_insert p split: if_splits)
  show ?case
  proof (cases "\<exists>m. bt_get self t = Some m \<and> n < m")
    case True
    then show ?thesis using p by auto
  next
    case False
    then have "narrow self (p # over) = narrow (bt_insert t n self) over"
      using p by (auto split: option.splits)
    moreover have "(\<exists>u m k. bt_get self u = Some m \<and> bt_get (p # over) u = Some k \<and> k < m) \<longleftrightarrow>
        (\<exists>u m k. bt_get self u = Some m \<and> bt_get over u = Some k \<and> k < m)"
      using False p t by (auto split: if_splits) (metis option.distinct(1))+
    ultimately show ?thesis using step by simp
  qed
qed simp

lemma compile_globs_invalid: "g \<in> set ps \<Longrightarrow> \<not> glob_ok x g \<Longrightarrow> compile_globs x ps = None"
  by (auto simp: compile_globs_def list_all_iff)

end
