(* ===== verification/Normalizer.thy ===== *)
theory Normalizer
  imports Core_Policy
begin

text \<open>
  The resolver's first stage (\<^verbatim>\<open>resolver/normalizer.rs\<close> and its modules \<^verbatim>\<open>fuzzy\<close> and
  \<^verbatim>\<open>signals\<close>): tokenize the prompt, match keywords with a bounded number of typos, classify
  the intent by the first applicable rule, and collect the files the task touches.
\<close>

section \<open>Inputs of a turn\<close>

record task_input =
  ti_text :: string
  ti_command :: "task_intent option"
  ti_explicit_model :: "model_reference option"

record workspace =
  ws_root :: string
  ws_git_branch :: "string option"
  ws_git_diff :: "string option"
  ws_referenced_paths :: "string list"
  ws_active_file :: "string option"

section \<open>Typo-tolerant keywords\<close>

record keyword_hit =
  kh_keyword :: string
  kh_fuzzy :: bool

datatype match_kind = Exact | Fuzzy

definition max_fuzzy_distance :: nat where
  "max_fuzzy_distance = 2"

definition tokenize :: "string \<Rightarrow> string list" where
  "tokenize text = map to_lowercase
     (filter (\<lambda>t. t \<noteq> []) (split_when (\<lambda>c. \<not> is_alphanumeric c) text))"

definition fuzzy_cap :: "nat \<Rightarrow> nat" where
  "fuzzy_cap len = (if len \<le> 4 then 0 else if len \<le> 8 then 1 else max_fuzzy_distance)"

definition is_typo :: "externs \<Rightarrow> string \<Rightarrow> string \<Rightarrow> nat \<Rightarrow> bool" where
  "is_typo x needle token cap =
     (if str_contains token needle \<or> str_contains needle token then False
      else let distance = osa_distance x needle token in distance \<noteq> 0 \<and> distance \<le> cap)"

definition token_match :: "externs \<Rightarrow> string \<Rightarrow> string list \<Rightarrow> match_kind option" where
  "token_match x needle0 tokens =
     (let needle = to_lowercase needle0 in
      if needle \<in> set tokens then Some Exact
      else let cap = fuzzy_cap (length needle) in
        if cap = 0 then None
        else if list_ex (\<lambda>token. is_typo x needle token cap) tokens then Some Fuzzy else None)"

definition match_keyword :: "externs \<Rightarrow> string list \<Rightarrow> string list \<Rightarrow> keyword_hit option" where
  "match_keyword x keywords tokens =
     (case List.find (\<lambda>k. token_match x k tokens = Some Exact) keywords of
        Some k \<Rightarrow> Some \<lparr>kh_keyword = k, kh_fuzzy = False\<rparr>
      | None \<Rightarrow> map_option (\<lambda>k. \<lparr>kh_keyword = k, kh_fuzzy = True\<rparr>)
          (List.find (\<lambda>k. token_match x k tokens = Some Fuzzy) keywords))"

section \<open>Signals of the workspace\<close>

definition context_kinds :: "workspace \<Rightarrow> string list" where
  "context_kinds w =
     (if ws_git_diff w \<noteq> None then [''git_diff''] else []) @
     (if ws_git_branch w \<noteq> None then [''git_branch''] else []) @
     (if ws_active_file w \<noteq> None then [''active_file''] else []) @
     (if ws_referenced_paths w \<noteq> [] then [''referenced_paths''] else [])"

definition diff_paths :: "string \<Rightarrow> string list" where
  "diff_paths diff =
     map snd (List.map_filter (split_once_str '' b/'')
       (List.map_filter (strip_prefix ''diff --git '') (str_lines diff)))"

text \<open>\<open>filter(|path| seen.insert(path.clone()))\<close>: the first of equal paths stays.\<close>

fun dedup_paths :: "string list \<Rightarrow> string list \<Rightarrow> string list" where
  "dedup_paths seen [] = []"
| "dedup_paths seen (p # ps) =
     (if list_ex (path_eq p) seen then dedup_paths seen ps else p # dedup_paths (p # seen) ps)"

definition touched_files :: "workspace \<Rightarrow> string list" where
  "touched_files w = dedup_paths []
     (ws_referenced_paths w
      @ (case ws_active_file w of Some p \<Rightarrow> [p] | None \<Rightarrow> [])
      @ (case ws_git_diff w of Some d \<Rightarrow> diff_paths d | None \<Rightarrow> []))"

definition paths_match :: "externs \<Rightarrow> string list \<Rightarrow> string list \<Rightarrow> bool" where
  "paths_match x globs paths =
     (if globs = [] then False
      else if \<not> list_all (glob_ok x) globs then False
      else case glob_build x globs of None \<Rightarrow> False | Some is_match \<Rightarrow> list_ex is_match paths)"

section \<open>Classification\<close>

record normalized_task =
  nt_classification :: classification
  nt_touched_files :: "string list"

definition nt_intent :: "normalized_task \<Rightarrow> task_intent" where
  "nt_intent t = cl_intent (nt_classification t)"

definition task_matches :: "externs \<Rightarrow> normalized_task \<Rightarrow> routing_rule \<Rightarrow> bool" where
  "task_matches x t rule =
     (if (\<exists>i\<in>set_option (rule_intent rule). nt_intent t \<noteq> i) then False
      else if rule_paths rule \<noteq> [] \<and> \<not> paths_match x (rule_paths rule) (nt_touched_files t) then False
      else True)"

definition rules_by_priority :: "classification_config \<Rightarrow> nat list" where
  "rules_by_priority config =
     sort_by (\<lambda>a b. then_cmp (cmp (cr_priority (cc_rules config ! a)) (cr_priority (cc_rules config ! b)))
                     (cmp a b))
       [0..<length (cc_rules config)]"

definition first_context_hit :: "string list \<Rightarrow> string list \<Rightarrow> string option" where
  "first_context_hit needed available = List.find (\<lambda>kind. kind \<in> set available) needed"

definition confidence_for :: "bool \<Rightarrow> bool \<Rightarrow> keyword_hit option \<Rightarrow> confidence" where
  "confidence_for keyword_required context_required hit =
     (case (keyword_required, context_required) of
        (True, True) \<Rightarrow>
          if (\<exists>h\<in>set_option hit. kh_fuzzy h) then MediumConfidence else HighConfidence
      | (True, False) \<Rightarrow> MediumConfidence
      | (False, True) \<Rightarrow> MediumConfidence
      | (False, False) \<Rightarrow> LowConfidence)"

definition match_reason :: "nat \<Rightarrow> keyword_hit option \<Rightarrow> string option \<Rightarrow> string" where
  "match_reason index keyword_hit context_hit =
     (case (keyword_hit, context_hit) of
        (Some k, Some c) \<Rightarrow> ''keyword '' @ quote # kh_keyword k @ quote # '' and context '' @
            quote # c @ quote # '' matched rule '' @ show_nat index
      | (Some k, None) \<Rightarrow> ''keyword '' @ quote # kh_keyword k @ quote # '' matched rule '' @ show_nat index
      | (None, Some c) \<Rightarrow> ''context '' @ quote # c @ quote # '' matched rule '' @ show_nat index
      | (None, None) \<Rightarrow> ''catch-all rule '' @ show_nat index @ '' matched'')"

definition match_rule ::
  "externs \<Rightarrow> classification_rule \<Rightarrow> nat \<Rightarrow> string list \<Rightarrow> string list \<Rightarrow> classification option" where
  "match_rule x rule index tokens contexts =
     (let keyword_required = cr_keywords rule \<noteq> [];
          context_required = cr_requires_any_context rule \<noteq> [];
          keyword_hit = (if keyword_required then match_keyword x (cr_keywords rule) tokens else None);
          context_hit = (if context_required
                         then first_context_hit (cr_requires_any_context rule) contexts else None)
      in if keyword_required \<and> keyword_hit = None then None
         else if context_required \<and> context_hit = None then None
         else Some \<lparr>cl_intent = cr_intent rule, cl_source = Inferred,
                cl_reason = match_reason index keyword_hit context_hit,
                cl_matched_rule = Some index,
                cl_confidence = Some (confidence_for keyword_required context_required keyword_hit)\<rparr>)"

fun try_rules ::
  "externs \<Rightarrow> classification_config \<Rightarrow> string list \<Rightarrow> string list \<Rightarrow> nat list \<Rightarrow> classification option" where
  "try_rules x config tokens contexts [] = None"
| "try_rules x config tokens contexts (index # rest) =
     (case match_rule x (cc_rules config ! index) index tokens contexts of
        Some c \<Rightarrow> Some c
      | None \<Rightarrow> try_rules x config tokens contexts rest)"

definition classify ::
  "externs \<Rightarrow> task_input \<Rightarrow> string list \<Rightarrow> workspace \<Rightarrow> classification_config \<Rightarrow> classification" where
  "classify x input tokens w config =
     (case ti_command input of
        Some intent \<Rightarrow>
          \<lparr>cl_intent = intent, cl_source = Explicit,
           cl_reason = ''explicit command '' @ quote # intent_as_str intent @ [quote],
           cl_matched_rule = None, cl_confidence = None\<rparr>
      | None \<Rightarrow>
          (case try_rules x config tokens (context_kinds w) (rules_by_priority config) of
             Some c \<Rightarrow> c
           | None \<Rightarrow>
               \<lparr>cl_intent = cc_default_intent config, cl_source = Inferred,
                cl_reason = ''no rule matched; default intent '' @
                  quote # intent_as_str (cc_default_intent config) @ [quote],
                cl_matched_rule = None, cl_confidence = Some LowConfidence\<rparr>))"

definition normalize :: "externs \<Rightarrow> task_input \<Rightarrow> workspace \<Rightarrow> classification_config \<Rightarrow> normalized_task" where
  "normalize x input w config =
     (let tokens = tokenize (ti_text input)
      in \<lparr>nt_classification = classify x input tokens w config,
          nt_touched_files = touched_files w\<rparr>)"


section \<open>Lemmas\<close>

text \<open>When a classification rule applies: each present condition holds.\<close>

definition rule_applies :: "externs \<Rightarrow> string list \<Rightarrow> string list \<Rightarrow> classification_rule \<Rightarrow> bool" where
  "rule_applies x tokens contexts r \<longleftrightarrow>
     (cr_keywords r \<noteq> [] \<longrightarrow> (\<exists>k\<in>set (cr_keywords r). token_match x k tokens \<noteq> None)) \<and>
     (cr_requires_any_context r \<noteq> [] \<longrightarrow>
        (\<exists>c\<in>set (cr_requires_any_context r). c \<in> set contexts))"

lemma match_kind_None: "m = None \<longleftrightarrow> m \<noteq> Some Exact \<and> m \<noteq> Some Fuzzy"
  by (cases m) (auto intro: match_kind.exhaust)

lemma match_keyword_None:
  "match_keyword x ks ts = None \<longleftrightarrow> (\<forall>k\<in>set ks. token_match x k ts = None)"
proof -
  have "match_keyword x ks ts = None \<longleftrightarrow>
      List.find (\<lambda>k. token_match x k ts = Some Exact) ks = None \<and>
      List.find (\<lambda>k. token_match x k ts = Some Fuzzy) ks = None"
    by (auto simp: match_keyword_def split: option.splits)
  then show ?thesis unfolding find_None match_kind_None by blast
qed

lemma match_keyword_Some:
  assumes "match_keyword x ks ts = Some h"
  shows "kh_keyword h \<in> set ks"
    and "token_match x (kh_keyword h) ts = Some (if kh_fuzzy h then Fuzzy else Exact)"
    and "kh_fuzzy h \<longleftrightarrow> (\<forall>k\<in>set ks. token_match x k ts \<noteq> Some Exact)"
  using assms by (auto simp: match_keyword_def find_None split: option.splits dest!: find_SomeD)

lemma first_context_hit_None:
  "first_context_hit needed available = None \<longleftrightarrow> (\<forall>c\<in>set needed. c \<notin> set available)"
  by (simp add: first_context_hit_def find_None)

lemma match_rule_applies:
  "match_rule x r i tokens contexts \<noteq> None \<longleftrightarrow> rule_applies x tokens contexts r"
proof -
  have "match_rule x r i tokens contexts \<noteq> None \<longleftrightarrow>
      (cr_keywords r \<noteq> [] \<longrightarrow> match_keyword x (cr_keywords r) tokens \<noteq> None) \<and>
      (cr_requires_any_context r \<noteq> [] \<longrightarrow>
         first_context_hit (cr_requires_any_context r) contexts \<noteq> None)"
    by (auto simp: match_rule_def Let_def)
  then show ?thesis
    unfolding rule_applies_def match_keyword_None first_context_hit_None by simp
qed

lemma match_rule_fields:
  assumes "match_rule x r i tokens contexts = Some c"
  shows "cl_intent c = cr_intent r" "cl_matched_rule c = Some i" "cl_source c = Inferred"
  using assms by (auto simp: match_rule_def Let_def split: if_splits)

lemma try_rules_find:
  "try_rules x config tokens contexts is =
     (case List.find (\<lambda>i. rule_applies x tokens contexts (cc_rules config ! i)) is of
        Some i \<Rightarrow> match_rule x (cc_rules config ! i) i tokens contexts
      | None \<Rightarrow> None)"
proof (induction "is")
  case (Cons i "is")
  show ?case
    using match_rule_applies [of x "cc_rules config ! i" i tokens contexts] Cons
    by (cases "match_rule x (cc_rules config ! i) i tokens contexts") auto
qed simp

lemma rules_by_priority_ranked: "rules_by_priority config = ranked classification_cmp (cc_rules config)"
  unfolding rules_by_priority_def ranked_def index_cmp_def [abs_def] classification_cmp_def ..

lemma try_rules_Some:
  assumes "try_rules x config tokens contexts (rules_by_priority config) = Some c"
  obtains i where "best classification_cmp (rule_applies x tokens contexts) (cc_rules config) i"
    "match_rule x (cc_rules config ! i) i tokens contexts = Some c"
  using assms unfolding try_rules_find rules_by_priority_ranked
  by (auto split: option.splits dest: classifying.first_best)

lemma try_rules_None:
  "try_rules x config tokens contexts (rules_by_priority config) = None \<longleftrightarrow>
   (\<forall>r\<in>set (cc_rules config). \<not> rule_applies x tokens contexts r)"
proof -
  let ?find = "List.find (\<lambda>i. rule_applies x tokens contexts (cc_rules config ! i))
      (ranked classification_cmp (cc_rules config))"
  show ?thesis
  proof (cases ?find)
    case None
    then show ?thesis
      using classifying.first_none [of "rule_applies x tokens contexts" "cc_rules config"]
      by (simp add: try_rules_find rules_by_priority_ranked)
  next
    case (Some i)
    then have "best classification_cmp (rule_applies x tokens contexts) (cc_rules config) i"
      by (rule classifying.first_best)
    then show ?thesis
      using Some match_rule_applies [of x "cc_rules config ! i" i tokens contexts]
      by (auto simp: try_rules_find rules_by_priority_ranked best_def)
  qed
qed

lemma dedup_paths_keeps:
  "p \<in> set ps \<Longrightarrow> (\<exists>q\<in>set seen \<union> set (dedup_paths seen ps). path_eq p q)"
proof (induction ps arbitrary: seen)
  case (Cons q ps)
  show ?case
  proof (cases "p = q")
    case True
    then show ?thesis by (auto simp: list_ex_iff)
  next
    case False
    then show ?thesis
      using Cons.IH [of seen] Cons.IH [of "q # seen"] Cons.prems by auto
  qed
qed simp

lemma dedup_paths_fresh:
  "q \<in> set (dedup_paths seen ps) \<Longrightarrow> p \<in> set seen \<Longrightarrow> path_key q \<noteq> path_key p"
  by (induction seen ps rule: dedup_paths.induct) (auto simp: list_ex_iff path_eq_def split: if_splits)

lemma dedup_paths_distinct: "distinct (map path_key (dedup_paths seen ps))"
proof (induction seen ps rule: dedup_paths.induct)
  case (2 seen p ps)
  have "path_key p \<notin> path_key ` set (dedup_paths (p # seen) ps)"
    using dedup_paths_fresh [of _ "p # seen" ps p] by (metis imageE list.set_intros(1))
  with 2 show ?case by simp
qed simp

lemma set_dedup_paths: "set (dedup_paths seen ps) \<subseteq> set ps"
  by (induction seen ps rule: dedup_paths.induct) (auto split: if_splits)

lemma lower_alphanumeric: "is_alphanumeric c \<Longrightarrow> is_alphanumeric (lower c)"
  using code_less [of c] by (auto simp: is_alphanumeric_def lower_def Let_def)

lemma fuzzy_cap_le: "fuzzy_cap n \<le> max_fuzzy_distance"
  by (simp add: fuzzy_cap_def max_fuzzy_distance_def)

end
