(* ===== verification/Policy_Matcher.thy ===== *)
theory Policy_Matcher
  imports Normalizer
begin

text \<open>
  The resolver's second stage (\<^verbatim>\<open>resolver/policy_matcher.rs\<close>): an explicit override, else
  the best matching rule, else the default route, else an error.
\<close>

datatype policy_match_error = NoRoute

datatype route_source = OverrideSource model_reference
  | RuleSource nat routing_rule
  | DefaultSource default_route

record route_match =
  rm_intent :: task_intent
  rm_source :: route_source
  rm_reason :: string

definition route_model :: "route_match \<Rightarrow> model_reference" where
  "route_model m =
     (case rm_source m of
        OverrideSource model \<Rightarrow> model
      | RuleSource _ rule \<Rightarrow> rule_model rule
      | DefaultSource route \<Rightarrow> dr_model route)"

definition route_fallbacks :: "route_match \<Rightarrow> model_reference list" where
  "route_fallbacks m =
     (case rm_source m of
        OverrideSource _ \<Rightarrow> []
      | RuleSource _ rule \<Rightarrow> rule_fallbacks rule
      | DefaultSource route \<Rightarrow> dr_fallbacks route)"

definition matched_rule :: "route_match \<Rightarrow> routing_rule option" where
  "matched_rule m =
     (case rm_source m of
        RuleSource _ rule \<Rightarrow> Some rule
      | OverrideSource _ \<Rightarrow> None
      | DefaultSource _ \<Rightarrow> None)"

definition override_used :: "route_match \<Rightarrow> bool" where
  "override_used m = (case rm_source m of OverrideSource _ \<Rightarrow> True | _ \<Rightarrow> False)"

definition rule_reason :: "routing_rule \<Rightarrow> string" where
  "rule_reason rule =
     ''rule '' @ quote # rule_name rule @ quote #
     (case specificity_of rule of
        PathIntentSpec \<Rightarrow> '' matched on intent and path''
      | PathSpec \<Rightarrow> '' matched on path''
      | IntentSpec \<Rightarrow> '' matched on intent''
      | DefaultSpec \<Rightarrow> '' matched as a catch-all'')"

definition first_matching_rule ::
  "externs \<Rightarrow> normalized_task \<Rightarrow> routing_policy \<Rightarrow> (nat \<times> routing_rule) option" where
  "first_matching_rule x task policy =
     (let order = sort_by (\<lambda>a b. then_cmp (precedence_cmp (rp_rules policy ! a) (rp_rules policy ! b))
                                  (cmp a b))
                    [0..<length (rp_rules policy)]
      in List.find (\<lambda>(_, rule). task_matches x task rule)
           (map (\<lambda>index. (index, rp_rules policy ! index)) order))"

definition match_policy ::
  "externs \<Rightarrow> normalized_task \<Rightarrow> routing_policy \<Rightarrow> model_reference option \<Rightarrow>
   (policy_match_error, route_match) result" where
  "match_policy x task policy override_model =
     (let intent = nt_intent task in
      case override_model of
        Some model \<Rightarrow> Ok
          \<lparr>rm_intent = intent, rm_source = OverrideSource model,
           rm_reason = ''explicit model override '' @ quote # show_reference model @ [quote]\<rparr>
      | None \<Rightarrow>
         (case first_matching_rule x task policy of
            Some (index, rule) \<Rightarrow> Ok
              \<lparr>rm_intent = intent, rm_source = RuleSource index rule, rm_reason = rule_reason rule\<rparr>
          | None \<Rightarrow>
             (case rp_default policy of
                Some route \<Rightarrow> Ok
                  \<lparr>rm_intent = intent, rm_source = DefaultSource route,
                   rm_reason = ''no rule matched; using the default route to '' @
                     quote # show_reference (dr_model route) @ [quote]\<rparr>
              | None \<Rightarrow> Err NoRoute)))"

section \<open>Lemmas\<close>

lemma find_map_pair:
  "List.find (\<lambda>(_, r). P r) (map (\<lambda>i. (i, f i)) is) =
   map_option (\<lambda>i. (i, f i)) (List.find (\<lambda>i. P (f i)) is)"
  by (induction "is") auto

lemma first_matching_rule_ranked:
  "first_matching_rule x task policy =
     map_option (\<lambda>i. (i, rp_rules policy ! i))
       (List.find (\<lambda>i. task_matches x task (rp_rules policy ! i))
         (ranked precedence_cmp (rp_rules policy)))"
  unfolding first_matching_rule_def Let_def find_map_pair ranked_def index_cmp_def [abs_def] ..

lemma first_matching_rule_Some:
  "first_matching_rule x task policy = Some (i, r) \<longleftrightarrow>
     best precedence_cmp (task_matches x task) (rp_rules policy) i \<and> r = rp_rules policy ! i"
  unfolding first_matching_rule_ranked routing.first_iff_best [symmetric] by auto

lemma first_matching_rule_None:
  "first_matching_rule x task policy = None \<longleftrightarrow>
     (\<forall>r\<in>set (rp_rules policy). \<not> task_matches x task r)"
  unfolding first_matching_rule_ranked using routing.first_none by simp

lemma match_policy_override:
  "match_policy x task policy (Some m) = Ok r \<Longrightarrow> rm_source r = OverrideSource m"
  by (auto simp: match_policy_def Let_def)

lemma match_policy_rule:
  "match_policy x task policy None = Ok r \<Longrightarrow> rm_source r = RuleSource i rule \<Longrightarrow>
   best precedence_cmp (task_matches x task) (rp_rules policy) i \<and> rule = rp_rules policy ! i"
  by (auto simp: match_policy_def Let_def first_matching_rule_Some split: option.splits)

lemma match_policy_intent: "match_policy x task policy ov = Ok r \<Longrightarrow> rm_intent r = nt_intent task"
  by (auto simp: match_policy_def Let_def split: option.splits)

lemma match_policy_matched_rule:
  assumes "match_policy x task policy ov = Ok r" "matched_rule r = Some rule"
  shows "rule \<in> set (rp_rules policy)" "task_matches x task rule" "ov = None"
  using assms
  by (auto simp: match_policy_def matched_rule_def Let_def first_matching_rule_Some best_def
      split: option.splits)

lemma override_route [simp]:
  "override_used r \<Longrightarrow> route_fallbacks r = []" "override_used r \<Longrightarrow> matched_rule r = None"
  by (auto simp: override_used_def route_fallbacks_def matched_rule_def split: route_source.splits)

lemma task_matches_iff:
  "task_matches x t rule \<longleftrightarrow>
     (\<forall>i. rule_intent rule = Some i \<longrightarrow> nt_intent t = i) \<and>
     (rule_paths rule \<noteq> [] \<longrightarrow> paths_match x (rule_paths rule) (nt_touched_files t))"
  by (auto simp: task_matches_def)

end
