(* ===== verification/Context_Selector.thy ===== *)
theory Context_Selector
  imports Policy_Matcher
begin

text \<open>
  The context stage of the resolver (\<^verbatim>\<open>resolver/context.rs\<close>, \<^verbatim>\<open>context/estimator.rs\<close>), in its
  two halves around model selection: \<open>build_candidates\<close> assembles, marks, scores and
  de-duplicates the candidate context of a turn, and \<open>finalize\<close> fits it to the
  chosen model's window.

  Token counts and scores are naturals. The code's sums stay far below \<open>u64\<close> (a count is at
  most a quarter of the characters held in memory) and \<open>saturating_sub\<close> is subtraction on
  naturals; where the code converts between widths, the conversion is written out.
\<close>

section \<open>Inputs\<close>

record skill =
  sk_name :: string
  sk_content :: string

record context_file =
  cf_path :: string
  cf_content :: string
  cf_required :: bool

record context_instruction =
  ci_source :: string
  ci_content :: string

record attachments =
  at_files :: "context_file list"
  at_instructions :: "context_instruction list"
  at_invoked_skills :: "skill list"
  at_available_skills :: "skill list"

record recalled_message =
  rec_role :: message_role
  rec_path :: "string option"
  rec_content :: string

record memory_fact =
  mf_key :: string
  mf_content :: string

record recalled_context =
  rc_messages :: "recalled_message list"
  rc_user_memory :: "memory_fact list"
  rc_context_memory :: "memory_fact list"

definition empty_recall :: recalled_context where
  "empty_recall = \<lparr>rc_messages = [], rc_user_memory = [], rc_context_memory = []\<rparr>"

section \<open>Candidates\<close>

datatype candidate_kind = MessageKind | FileKind | InstructionKind | SkillKind | MemoryKind | DiffKind

record relevance =
  rel_score :: nat
  rel_reason :: string

record candidate =
  cand_kind :: candidate_kind
  cand_path :: "string option"
  cand_content :: string
  cand_tokens :: nat
  cand_restricted :: bool
  cand_required :: bool
  cand_relevance :: relevance

record context_outcome =
  co_included :: "string list"
  co_excluded :: "string list"

record context_reference =
  ref_path :: "string option"
  ref_kind :: candidate_kind
  ref_included :: bool
  ref_reason :: string

record resolved_context =
  res_included :: "candidate list"
  res_outcome :: context_outcome
  res_references :: "context_reference list"

datatype context_error = WindowExceeded (we_estimated: nat) (we_budget: nat)

definition score_file :: nat where "score_file = 5000"
definition score_diff :: nat where "score_diff = 4000"
definition score_message :: nat where "score_message = 3000"
definition score_memory :: nat where "score_memory = 2000"
definition score_available_skill :: nat where "score_available_skill = 1000"
definition path_affinity_bonus :: nat where "path_affinity_bonus = 500"
definition max_recency_bonus :: nat where "max_recency_bonus = 499"
definition default_reply_reserve :: nat where "default_reply_reserve = 256"
definition chars_per_token :: nat where "chars_per_token = 4"

definition estimate_tokens :: "string \<Rightarrow> nat" where
  "estimate_tokens text = (length text + (chars_per_token - 1)) div chars_per_token"

definition matches_route_paths :: "externs \<Rightarrow> route_match \<Rightarrow> string \<Rightarrow> bool" where
  "matches_route_paths x route path =
     (case matched_rule route of
        None \<Rightarrow> False
      | Some rule \<Rightarrow>
          if rule_paths rule = [] then False
          else if \<not> list_all (glob_ok x) (rule_paths rule) then False
          else (case glob_build x (rule_paths rule) of None \<Rightarrow> False | Some is_match \<Rightarrow> is_match path))"

definition path_in_focus :: "externs \<Rightarrow> route_match \<Rightarrow> workspace \<Rightarrow> string \<Rightarrow> bool" where
  "path_in_focus x route w path \<longleftrightarrow>
     list_ex (\<lambda>p. path_eq p path) (ws_referenced_paths w) \<or> matches_route_paths x route path"

definition path_affinity :: "externs \<Rightarrow> route_match \<Rightarrow> workspace \<Rightarrow> string option \<Rightarrow> nat" where
  "path_affinity x route w path =
     (case path of
        Some p \<Rightarrow> if path_in_focus x route w p then path_affinity_bonus else 0
      | None \<Rightarrow> 0)"

definition recency_bonus :: "nat \<Rightarrow> nat \<Rightarrow> nat" where
  "recency_bonus index messages =
     (if messages \<le> 1 then 0
      else let position = (if index < 2 ^ 64 then index else 0);
               span = (if messages - 1 < 2 ^ 64 then messages - 1 else 1);
               scaled = position * max_recency_bonus div span
           in if scaled < 2 ^ 32 then scaled else max_recency_bonus)"

fun debug_role :: "message_role \<Rightarrow> string" where
  "debug_role System = ''System''"
| "debug_role User = ''User''"
| "debug_role Assistant = ''Assistant''"
| "debug_role Tool = ''Tool''"

definition skill_candidate :: "skill \<Rightarrow> bool \<Rightarrow> candidate" where
  "skill_candidate s invoked =
     (let (score, role) = (if invoked then (score_file, ''invoked'')
                           else (score_available_skill, ''available''))
      in \<lparr>cand_kind = SkillKind, cand_path = None, cand_content = sk_content s,
          cand_tokens = estimate_tokens (sk_content s), cand_restricted = False,
          cand_required = invoked,
          cand_relevance = \<lparr>rel_score = score,
            rel_reason = role @ '' skill '' @ quote # sk_name s @ [quote]\<rparr>\<rparr>)"

definition message_candidate ::
  "externs \<Rightarrow> route_match \<Rightarrow> workspace \<Rightarrow> privacy_policy \<Rightarrow> nat \<Rightarrow> nat \<Rightarrow> recalled_message \<Rightarrow> candidate" where
  "message_candidate x route w privacy messages index m =
     \<lparr>cand_kind = MessageKind, cand_path = rec_path m, cand_content = rec_content m,
      cand_tokens = estimate_tokens (rec_content m),
      cand_restricted = (case rec_path m of Some p \<Rightarrow> is_restricted_for_remote x privacy p | None \<Rightarrow> False),
      cand_required = False,
      cand_relevance = \<lparr>rel_score = score_message + recency_bonus index messages + path_affinity x route w (rec_path m),
        rel_reason = debug_role (rec_role m) @ '' message''\<rparr>\<rparr>"

definition memory_candidate :: "memory_fact \<Rightarrow> candidate" where
  "memory_candidate f =
     \<lparr>cand_kind = MemoryKind, cand_path = None, cand_content = mf_content f,
      cand_tokens = estimate_tokens (mf_content f), cand_restricted = False, cand_required = False,
      cand_relevance = \<lparr>rel_score = score_memory,
        rel_reason = ''memory '' @ quote # mf_key f @ [quote]\<rparr>\<rparr>"

definition file_candidate ::
  "externs \<Rightarrow> route_match \<Rightarrow> workspace \<Rightarrow> privacy_policy \<Rightarrow> context_file \<Rightarrow> candidate" where
  "file_candidate x route w privacy f =
     (let focused = path_in_focus x route w (cf_path f);
          affinity = (if focused then path_affinity_bonus else 0)
      in \<lparr>cand_kind = FileKind, cand_path = Some (cf_path f), cand_content = cf_content f,
          cand_tokens = estimate_tokens (cf_content f),
          cand_restricted = is_restricted_for_remote x privacy (cf_path f),
          cand_required = (cf_required f \<or> focused),
          cand_relevance = \<lparr>rel_score = score_file + affinity,
            rel_reason = ''file '' @ quote # cf_path f @ [quote]\<rparr>\<rparr>)"

definition instruction_candidate :: "context_instruction \<Rightarrow> candidate" where
  "instruction_candidate i =
     \<lparr>cand_kind = InstructionKind, cand_path = None, cand_content = ci_content i,
      cand_tokens = estimate_tokens (ci_content i), cand_restricted = False, cand_required = True,
      cand_relevance = \<lparr>rel_score = score_file,
        rel_reason = ''instruction '' @ quote # ci_source i @ [quote]\<rparr>\<rparr>"

definition diff_candidate :: "string \<Rightarrow> candidate" where
  "diff_candidate diff =
     \<lparr>cand_kind = DiffKind, cand_path = None, cand_content = diff,
      cand_tokens = estimate_tokens diff, cand_restricted = False, cand_required = False,
      cand_relevance = \<lparr>rel_score = score_diff, rel_reason = ''git diff''\<rparr>\<rparr>"

section \<open>De-duplication\<close>

definition dedupe_key :: "candidate \<Rightarrow> string" where
  "dedupe_key c =
     (case cand_path c of
        Some path \<Rightarrow> ''path:'' @ path
      | None \<Rightarrow> ''content:'' @ cand_content c)"

definition supersedes :: "candidate \<Rightarrow> candidate \<Rightarrow> bool" where
  "supersedes c existing =
     (case (cand_required c, cand_required existing) of
        (True, False) \<Rightarrow> True
      | (False, True) \<Rightarrow> False
      | _ \<Rightarrow> rel_score (cand_relevance c) > rel_score (cand_relevance existing))"

fun dedupe_insert :: "candidate list \<Rightarrow> candidate \<Rightarrow> candidate list" where
  "dedupe_insert [] c = [c]"
| "dedupe_insert (d # ds) c =
     (if dedupe_key d = dedupe_key c then (if supersedes c d then c # ds else d # ds)
      else d # dedupe_insert ds c)"

definition dedupe :: "candidate list \<Rightarrow> candidate list" where
  "dedupe cs = foldl dedupe_insert [] cs"

definition raw_candidates ::
  "externs \<Rightarrow> route_match \<Rightarrow> recalled_context \<Rightarrow> attachments \<Rightarrow> workspace \<Rightarrow> privacy_policy \<Rightarrow>
   candidate list" where
  "raw_candidates x route recalled att w privacy =
     map (\<lambda>(index, m). message_candidate x route w privacy (length (rc_messages recalled)) index m)
       (List.enumerate 0 (rc_messages recalled))
     @ map memory_candidate (rc_user_memory recalled @ rc_context_memory recalled)
     @ map (file_candidate x route w privacy) (at_files att)
     @ map instruction_candidate (at_instructions att)
     @ map (\<lambda>s. skill_candidate s True) (at_invoked_skills att)
     @ map (\<lambda>s. skill_candidate s False) (at_available_skills att)
     @ (case ws_git_diff w of Some diff \<Rightarrow> [diff_candidate diff] | None \<Rightarrow> [])"

definition build_candidates ::
  "externs \<Rightarrow> route_match \<Rightarrow> recalled_context \<Rightarrow> attachments \<Rightarrow> workspace \<Rightarrow> privacy_policy \<Rightarrow>
   candidate list" where
  "build_candidates x route recalled att w privacy =
     dedupe (raw_candidates x route recalled att w privacy)"

definition has_restricted_required_content :: "candidate list \<Rightarrow> bool" where
  "has_restricted_required_content cs = list_ex (\<lambda>c. cand_restricted c \<and> cand_required c) cs"

definition required_tokens :: "candidate list \<Rightarrow> nat" where
  "required_tokens cs = sum_list (map cand_tokens (filter cand_required cs))"

section \<open>Fitting the window\<close>

definition reference_for :: "candidate \<Rightarrow> bool \<Rightarrow> context_reference" where
  "reference_for c included =
     \<lparr>ref_path = cand_path c, ref_kind = cand_kind c, ref_included = included,
      ref_reason = rel_reason (cand_relevance c)\<rparr>"

definition effective_budget :: "model_descriptor \<Rightarrow> nat" where
  "effective_budget model =
     md_max_context_tokens model -
     (case md_max_output_tokens model of Some n \<Rightarrow> n | None \<Rightarrow> default_reply_reserve)"

definition by_score :: "candidate \<Rightarrow> candidate \<Rightarrow> ordering" where
  "by_score a b = cmp (rel_score (cand_relevance b)) (rel_score (cand_relevance a))"

fun fill :: "nat \<Rightarrow> nat \<Rightarrow> candidate list \<Rightarrow> candidate list \<times> candidate list" where
  "fill budget used [] = ([], [])"
| "fill budget used (c # cs) =
     (if used + cand_tokens c \<le> budget
      then (let (inc, exc) = fill budget (used + cand_tokens c) cs in (c # inc, exc))
      else (let (inc, exc) = fill budget used cs in (inc, c # exc)))"

definition finalize :: "candidate list \<Rightarrow> model_descriptor \<Rightarrow> (context_error, resolved_context) result" where
  "finalize candidates model =
     (let budget = effective_budget model;
          (needed, discardable) = partition cand_required candidates;
          needed_tokens = sum_list (map cand_tokens needed)
      in if needed_tokens > budget then Err (WindowExceeded needed_tokens budget)
         else let (inc, exc) = fill budget needed_tokens (sort_by by_score discardable);
                  included = needed @ inc;
                  reason = (\<lambda>c. rel_reason (cand_relevance c))
              in Ok \<lparr>res_included = included,
                     res_outcome = \<lparr>co_included = map reason included, co_excluded = map reason exc\<rparr>,
                     res_references = map (\<lambda>c. reference_for c True) included @
                       map (\<lambda>c. reference_for c False) exc\<rparr>)"


section \<open>Lemmas on sizes and scores\<close>

lemma estimate_bounds:
  "length t \<le> chars_per_token * estimate_tokens t"
  "chars_per_token * estimate_tokens t < length t + chars_per_token"
  by (simp_all add: estimate_tokens_def chars_per_token_def)

lemma recency_scaled_le: "index < messages \<Longrightarrow> index * max_recency_bonus div (messages - 1) \<le> max_recency_bonus"
  using div_le_mono [OF mult_le_mono1 [of index "messages - 1" max_recency_bonus], of "messages - 1"]
  by (cases "messages = 1") simp_all

text \<open>A \<open>usize\<close> is below \<open>2 ^ 64\<close>: the conversions of the code never fail.\<close>

lemma recency_eq:
  assumes "index < messages" "messages < 2 ^ 64"
  shows "recency_bonus index messages =
    (if messages \<le> 1 then 0 else index * max_recency_bonus div (messages - 1))"
proof -
  have "index * max_recency_bonus div (messages - 1) < 2 ^ 32"
    using recency_scaled_le [OF assms(1)] by (simp add: max_recency_bonus_def)
  moreover have "messages - 1 < 2 ^ 64" "index < 2 ^ 64"
    using assms by (simp_all only: less_imp_diff_less less_trans)
  ultimately show ?thesis by (simp only: recency_bonus_def Let_def if_True)
qed

lemma recency_le: "index < messages \<Longrightarrow> messages < 2 ^ 64 \<Longrightarrow> recency_bonus index messages \<le> max_recency_bonus"
  using recency_scaled_le by (simp add: recency_eq)

lemma recency_mono:
  "i \<le> j \<Longrightarrow> j < messages \<Longrightarrow> messages < 2 ^ 64 \<Longrightarrow> recency_bonus i messages \<le> recency_bonus j messages"
  by (simp add: recency_eq div_le_mono)

section \<open>Lemmas on de-duplication\<close>

lemma keys_dedupe_insert:
  "set (map dedupe_key (dedupe_insert ds c)) = insert (dedupe_key c) (set (map dedupe_key ds))"
  by (induction ds) auto

lemma distinct_dedupe_insert:
  "distinct (map dedupe_key ds) \<Longrightarrow> distinct (map dedupe_key (dedupe_insert ds c))"
proof (induction ds)
  case (Cons d ds)
  then show ?case using keys_dedupe_insert [of ds c] by auto
qed simp

lemma dedupe_snoc: "dedupe (cs @ [c]) = dedupe_insert (dedupe cs) c"
  by (simp add: dedupe_def)

lemma dedupe_Nil [simp]: "dedupe [] = []"
  by (simp add: dedupe_def)

lemma distinct_dedupe: "distinct (map dedupe_key (dedupe cs))"
  by (induction cs rule: rev_induct) (simp_all add: dedupe_snoc distinct_dedupe_insert)

lemma keys_dedupe: "set (map dedupe_key (dedupe cs)) = set (map dedupe_key cs)"
  by (induction cs rule: rev_induct) (simp_all add: dedupe_snoc keys_dedupe_insert del: set_map)

lemma set_dedupe_insert: "set (dedupe_insert ds c) \<subseteq> insert c (set ds)"
  by (induction ds) auto

lemma set_dedupe: "set (dedupe cs) \<subseteq> set cs"
  by (induction cs rule: rev_induct) (use set_dedupe_insert in \<open>fastforce simp: dedupe_snoc\<close>)+

text \<open>The order that decides which of two colliding candidates stays.\<close>

definition outranks :: "candidate \<Rightarrow> candidate \<Rightarrow> bool" where
  "outranks d c \<longleftrightarrow> (cand_required c \<longrightarrow> cand_required d) \<and>
     (cand_required c = cand_required d \<longrightarrow>
        rel_score (cand_relevance c) \<le> rel_score (cand_relevance d))"

lemma outranks_refl [simp]: "outranks c c"
  by (simp add: outranks_def)

lemma outranks_trans: "outranks a b \<Longrightarrow> outranks b c \<Longrightarrow> outranks a c"
  by (auto simp: outranks_def)

lemma supersedes_outranks: "supersedes c d \<Longrightarrow> outranks c d" "\<not> supersedes c d \<Longrightarrow> outranks d c"
  by (auto simp: supersedes_def outranks_def split: bool.splits if_splits)

text \<open>The survivor of an insertion is an old candidate of another key, or the winner of one.\<close>

lemma in_dedupe_insert:
  "d \<in> set (dedupe_insert ds c) \<Longrightarrow> distinct (map dedupe_key ds) \<Longrightarrow>
   d \<in> set ds \<and> dedupe_key d \<noteq> dedupe_key c \<or>
   dedupe_key d = dedupe_key c \<and> d = c \<and> (\<forall>f\<in>set ds. dedupe_key f = dedupe_key c \<longrightarrow> supersedes c f) \<or>
   d \<in> set ds \<and> dedupe_key d = dedupe_key c \<and> \<not> supersedes c d"
proof (induction ds)
  case (Cons f ds)
  have other: "g \<in> set ds \<Longrightarrow> dedupe_key g \<noteq> dedupe_key f" for g
    using Cons.prems(2) by (simp add: image_iff) metis
  show ?case
  proof (cases "dedupe_key f = dedupe_key c")
    case True
    then show ?thesis using Cons.prems(1) other by (auto split: if_splits)
  next
    case False
    then show ?thesis using Cons by auto
  qed
qed simp

lemma dedupe_insert_outranks:
  assumes "distinct (map dedupe_key ds)" "d \<in> set (dedupe_insert ds c)"
    "e = c \<or> e \<in> set ds" "dedupe_key e = dedupe_key d"
  shows "outranks d e"
proof -
  have same: "x \<in> set ds \<Longrightarrow> y \<in> set ds \<Longrightarrow> dedupe_key x = dedupe_key y \<Longrightarrow> x = y" for x y
    using assms(1) by (auto simp: distinct_map dest: inj_onD)
  from in_dedupe_insert [OF assms(2,1)]
  consider "d \<in> set ds" "dedupe_key d \<noteq> dedupe_key c"
    | "d = c" "\<forall>f\<in>set ds. dedupe_key f = dedupe_key c \<longrightarrow> supersedes c f"
    | "d \<in> set ds" "dedupe_key d = dedupe_key c" "\<not> supersedes c d"
    by blast
  then show ?thesis
  proof cases
    case 1
    then have "e = d" using same assms(3,4) by auto
    then show ?thesis by simp
  next
    case 2
    then show ?thesis using assms(3,4) supersedes_outranks(1) by auto
  next
    case 3
    then have "e = c \<or> e = d" using same assms(3,4) by auto
    then show ?thesis using 3 supersedes_outranks(2) by auto
  qed
qed

lemma dedupe_key_onto:
  assumes "e \<in> set cs"
  obtains d where "d \<in> set (dedupe cs)" "dedupe_key d = dedupe_key e"
proof -
  have "dedupe_key e \<in> set (map dedupe_key (dedupe cs))"
    unfolding keys_dedupe using assms by simp
  then show ?thesis using that by auto
qed

text \<open>What survives collapses every candidate of its key, and outranks all of them.\<close>

lemma dedupe_outranks:
  "d \<in> set (dedupe cs) \<Longrightarrow> e \<in> set cs \<Longrightarrow> dedupe_key e = dedupe_key d \<Longrightarrow> outranks d e"
proof (induction cs arbitrary: d e rule: rev_induct)
  case (snoc c cs)
  let ?ds = "dedupe cs"
  have d: "d \<in> set (dedupe_insert ?ds c)" using snoc.prems(1) by (simp add: dedupe_snoc)
  show ?case
  proof (cases "e = c")
    case True
    then show ?thesis using dedupe_insert_outranks [OF distinct_dedupe d] snoc.prems(3) by blast
  next
    case False
    then have e: "e \<in> set cs" using snoc.prems(2) by simp
    then obtain g where g: "g \<in> set ?ds" "dedupe_key g = dedupe_key e"
      by (rule dedupe_key_onto)
    have "outranks d g"
      using dedupe_insert_outranks [OF distinct_dedupe d, of g] g snoc.prems(3) by simp
    moreover have "outranks g e" using snoc.IH [OF g(1) e] g(2) by simp
    ultimately show ?thesis by (rule outranks_trans)
  qed
qed simp

lemma dedupe_represents:
  assumes "e \<in> set cs"
  shows "\<exists>d\<in>set (dedupe cs). dedupe_key d = dedupe_key e \<and> outranks d e"
proof -
  obtain d where d: "d \<in> set (dedupe cs)" "dedupe_key d = dedupe_key e"
    using assms by (rule dedupe_key_onto)
  then have "outranks d e" using dedupe_outranks [OF d(1) assms] by simp
  then show ?thesis using d by blast
qed

text \<open>Two candidates of one key that carry a path carry the same one.\<close>

lemma dedupe_key_path:
  "dedupe_key d = dedupe_key e \<Longrightarrow> cand_path e = Some p \<Longrightarrow> cand_path d = Some p"
  by (auto simp: dedupe_key_def split: option.splits)

section \<open>Lemmas on fitting the window\<close>

abbreviation total_tokens :: "candidate list \<Rightarrow> nat" where
  "total_tokens cs \<equiv> sum_list (map cand_tokens cs)"

lemma fill_budget: "fill budget used cs = (inc, exc) \<Longrightarrow> used \<le> budget \<Longrightarrow> used + total_tokens inc \<le> budget"
  by (induction budget used cs arbitrary: inc exc rule: fill.induct)
    (auto simp: add.assoc split: if_splits prod.splits)

lemma fill_mset: "fill budget used cs = (inc, exc) \<Longrightarrow> mset inc + mset exc = mset cs"
  by (induction budget used cs arbitrary: inc exc rule: fill.induct)
    (auto split: if_splits prod.splits)

lemma fill_subseq: "fill budget used cs = (inc, exc) \<Longrightarrow> set inc \<subseteq> set cs \<and> set exc \<subseteq> set cs"
  by (induction budget used cs arbitrary: inc exc rule: fill.induct)
    (auto split: if_splits prod.splits)

text \<open>Nothing that was left out would still fit beside what was taken.\<close>

lemma fill_maximal:
  "fill budget used cs = (inc, exc) \<Longrightarrow> c \<in> set exc \<Longrightarrow> budget < used + total_tokens inc + cand_tokens c"
  by (induction budget used cs arbitrary: inc exc rule: fill.induct)
    (fastforce split: if_splits prod.splits)+

text \<open>A candidate is left out only for want of room after the ones at least as relevant.\<close>

lemma fill_greedy:
  "fill budget used cs = (inc, exc) \<Longrightarrow> sorted_wrt (not_after by_score) cs \<Longrightarrow> c \<in> set exc \<Longrightarrow>
   budget < used + total_tokens (filter (\<lambda>d. not_after by_score d c) inc) + cand_tokens c"
proof (induction budget used cs arbitrary: inc exc rule: fill.induct)
  case (2 budget used a cs)
  show ?case
  proof (cases "used + cand_tokens a \<le> budget")
    case True
    obtain i e where f: "fill budget (used + cand_tokens a) cs = (i, e)" by force
    then have "inc = a # i" "exc = e" using 2(3) True by auto
    moreover have "not_after by_score a c"
      using 2(4,5) fill_subseq [OF f] \<open>exc = e\<close> by auto
    ultimately show ?thesis using "2.IH"(1) [OF True f] 2(4,5) by (simp add: add.assoc)
  next
    case False
    obtain i e where f: "fill budget used cs = (i, e)" by force
    then have i: "inc = i" "exc = a # e" using 2(3) False by auto
    then show ?thesis using "2.IH"(2) [OF False f] 2(4,5) False by auto
  qed
qed simp

lemma by_score_preorder: "preorder_on A by_score"
  by (auto simp: preorder_on_def by_score_def cmp_def split: if_splits)

lemma not_after_by_score:
  "not_after by_score a b \<longleftrightarrow> rel_score (cand_relevance b) \<le> rel_score (cand_relevance a)"
  by (auto simp: by_score_def cmp_def)

lemma finalize_Err_iff:
  "finalize cs model = Err e \<longleftrightarrow>
     effective_budget model < required_tokens cs \<and>
     e = WindowExceeded (required_tokens cs) (effective_budget model)"
  by (auto simp: finalize_def required_tokens_def Let_def split: prod.splits if_splits)

lemma finalize_Ok:
  assumes "finalize cs model = Ok rc"
  obtains inc exc where
    "required_tokens cs \<le> effective_budget model"
    "fill (effective_budget model) (required_tokens cs)
       (sort_by by_score (filter (\<lambda>c. \<not> cand_required c) cs)) = (inc, exc)"
    "res_included rc = filter cand_required cs @ inc"
    "co_included (res_outcome rc) = map (\<lambda>c. rel_reason (cand_relevance c)) (res_included rc)"
    "co_excluded (res_outcome rc) = map (\<lambda>c. rel_reason (cand_relevance c)) exc"
    "res_references rc = map (\<lambda>c. reference_for c True) (res_included rc) @
       map (\<lambda>c. reference_for c False) exc"
  using assms
  by (auto simp: finalize_def required_tokens_def Let_def o_def split: prod.splits if_splits)

lemma finalize_budget:
  assumes "finalize cs model = Ok rc"
  shows "total_tokens (res_included rc) \<le> effective_budget model"
  using assms
proof (rule finalize_Ok)
  fix inc exc
  assume "required_tokens cs \<le> effective_budget model"
    "fill (effective_budget model) (required_tokens cs)
       (sort_by by_score (filter (\<lambda>c. \<not> cand_required c) cs)) = (inc, exc)"
    "res_included rc = filter cand_required cs @ inc"
  then show ?thesis using fill_budget by (fastforce simp: required_tokens_def)
qed

lemma finalize_required:
  assumes "finalize cs model = Ok rc"
  shows "filter cand_required (res_included rc) = filter cand_required cs"
  using assms
proof (rule finalize_Ok)
  fix inc exc
  assume f: "fill (effective_budget model) (required_tokens cs)
       (sort_by by_score (filter (\<lambda>c. \<not> cand_required c) cs)) = (inc, exc)"
    and inc: "res_included rc = filter cand_required cs @ inc"
  have "\<forall>c\<in>set inc. \<not> cand_required c" using fill_subseq [OF f] by (auto simp: set_sort_by)
  then show ?thesis by (simp add: inc)
qed

lemma finalize_set:
  assumes "finalize cs model = Ok rc"
  shows "set (res_included rc) \<subseteq> set cs"
  using assms
proof (rule finalize_Ok)
  fix inc exc
  assume f: "fill (effective_budget model) (required_tokens cs)
       (sort_by by_score (filter (\<lambda>c. \<not> cand_required c) cs)) = (inc, exc)"
    and inc: "res_included rc = filter cand_required cs @ inc"
  then show ?thesis using fill_subseq [OF f] by (auto simp: set_sort_by)
qed

text \<open>The references record every candidate once, with what became of it.\<close>

lemma finalize_references:
  assumes "finalize cs model = Ok rc"
  shows "\<exists>exc. mset (res_included rc) + mset exc = mset cs \<and>
    res_references rc = map (\<lambda>c. reference_for c True) (res_included rc) @
      map (\<lambda>c. reference_for c False) exc \<and>
    (\<forall>c\<in>set exc. \<not> cand_required c \<and>
       effective_budget model < total_tokens (res_included rc) + cand_tokens c \<and>
       effective_budget model < required_tokens cs + cand_tokens c +
         total_tokens (filter (\<lambda>d. \<not> cand_required d \<and>
           rel_score (cand_relevance c) \<le> rel_score (cand_relevance d)) (res_included rc)))"
  using assms
proof (rule finalize_Ok)
  fix inc exc
  let ?rest = "sort_by by_score (filter (\<lambda>c. \<not> cand_required c) cs)"
  assume f: "fill (effective_budget model) (required_tokens cs) ?rest = (inc, exc)"
    and inc: "res_included rc = filter cand_required cs @ inc"
    and refs: "res_references rc = map (\<lambda>c. reference_for c True) (res_included rc) @
       map (\<lambda>c. reference_for c False) exc"
  have rest: "\<forall>c\<in>set inc \<union> set exc. \<not> cand_required c"
    using fill_subseq [OF f] by (auto simp: set_sort_by)
  have m: "mset (res_included rc) + mset exc = mset cs"
    using fill_mset [OF f] by (simp add: inc add.assoc multiset_partition [symmetric])
  have "sorted_wrt (not_after by_score) ?rest"
    by (rule sorted_sort_by) (rule by_score_preorder)
  then have "effective_budget model < required_tokens cs +
      total_tokens (filter (\<lambda>d. not_after by_score d c) inc) + cand_tokens c" if "c \<in> set exc" for c
    using fill_greedy [OF f] that by blast
  moreover have "filter (\<lambda>d. \<not> cand_required d \<and>
      rel_score (cand_relevance c) \<le> rel_score (cand_relevance d)) (res_included rc) =
    filter (\<lambda>d. not_after by_score d c) inc" for c
    using rest by (auto simp: inc not_after_by_score intro: filter_cong)
  ultimately show ?thesis
    using m refs rest fill_maximal [OF f]
    by (intro exI [of _ exc]) (simp add: inc required_tokens_def algebra_simps)
qed

end
