(* ===== verification/Model_Selector.thy ===== *)
theory Model_Selector
  imports Policy_Matcher
begin

text \<open>
  The resolver's fourth stage (\<^verbatim>\<open>resolver/model.rs\<close>): walk the matched route's model and its
  fallbacks and take the first whose facts are known, whose credential is there, that is
  local when the turn must stay local, and that can handle the requirements.

  The catalog is a map from references to descriptors, the credentialed providers a list
  read as a set.
\<close>

type_synonym catalog = "model_reference \<Rightarrow> model_descriptor option"

datatype model_selector_error = FallbackExhausted | NoLocalModel
  | OverrideNotAllowed model_reference

record model_selection =
  sel_model :: model_descriptor
  sel_fallback_used :: bool

definition usable ::
  "model_reference \<Rightarrow> catalog \<Rightarrow> provider list \<Rightarrow> routing_requirements \<Rightarrow> bool \<Rightarrow>
   model_descriptor option" where
  "usable reference catalog credentialed requirements local_required =
     (case catalog reference of
        None \<Rightarrow> None
      | Some descriptor \<Rightarrow>
          if requires_api_key descriptor \<and> mr_provider reference \<notin> set credentialed then None
          else if local_required \<and> \<not> md_local descriptor then None
          else (case can_handle descriptor requirements of
                  Inl _ \<Rightarrow> None
                | Inr _ \<Rightarrow> Some descriptor))"

definition effective_requirements ::
  "routing_requirements \<Rightarrow> routing_rule option \<Rightarrow> routing_requirements" where
  "effective_requirements base rule =
     (case Option.bind rule rule_requires_capabilities of
        Some gate \<Rightarrow> base
          \<lparr>req_streaming := req_streaming base \<or> cap_streaming gate,
           req_tools := req_tools base \<or> cap_tools gate,
           req_json_output := req_json_output base \<or> cap_json_output gate,
           req_system_prompt := req_system_prompt base \<or> cap_system_prompt gate,
           req_images := req_images base \<or> cap_images gate,
           req_reasoning := req_reasoning base \<or> cap_reasoning gate,
           req_memory := req_memory base \<or> cap_memory gate\<rparr>
      | None \<Rightarrow> base)"

fun first_usable ::
  "catalog \<Rightarrow> provider list \<Rightarrow> routing_requirements \<Rightarrow> bool \<Rightarrow> nat \<Rightarrow> model_reference list \<Rightarrow>
   model_selection option" where
  "first_usable catalog credentialed requirements local_required index [] = None"
| "first_usable catalog credentialed requirements local_required index (reference # rest) =
     (case usable reference catalog credentialed requirements local_required of
        Some descriptor \<Rightarrow> Some \<lparr>sel_model = descriptor, sel_fallback_used = (index > 0)\<rparr>
      | None \<Rightarrow> first_usable catalog credentialed requirements local_required (Suc index) rest)"

definition select ::
  "route_match \<Rightarrow> routing_requirements \<Rightarrow> catalog \<Rightarrow> provider list \<Rightarrow> bool \<Rightarrow>
   (model_selector_error, model_selection) result" where
  "select route requirements0 catalog credentialed restricted_context =
     (let local_required = (restricted_context \<or>
            (\<exists>rule\<in>set_option (matched_rule route). rule_local_only rule));
          requirements = effective_requirements requirements0 (matched_rule route)
      in if override_used route \<and> restricted_context \<and>
            (\<exists>d\<in>set_option (catalog (route_model route)). \<not> md_local d)
         then Err (OverrideNotAllowed (route_model route))
         else (case first_usable catalog credentialed requirements local_required 0
                      (route_model route # route_fallbacks route) of
                 Some selection \<Rightarrow> Ok selection
               | None \<Rightarrow> if local_required then Err NoLocalModel else Err FallbackExhausted))"

section \<open>Lemmas\<close>

lemma required_effective:
  "k \<in> set (required (effective_requirements base rule)) \<longleftrightarrow>
   k \<in> set (required base) \<or>
   (\<exists>r gate. rule = Some r \<and> rule_requires_capabilities r = Some gate \<and> supports gate k)"
  by (cases k) (auto simp: effective_requirements_def set_required split: Option.bind_splits option.splits)

lemma estimated_effective [simp]:
  "req_estimated_tokens (effective_requirements base rule) = req_estimated_tokens base"
  by (simp add: effective_requirements_def split: option.splits)

lemma usable_Some:
  "usable r catalog creds req loc = Some d \<longleftrightarrow>
     catalog r = Some d \<and> (requires_api_key d \<longrightarrow> mr_provider r \<in> set creds) \<and>
     (loc \<longrightarrow> md_local d) \<and> can_handle d req = Ok ()"
  by (auto simp: usable_def split: option.splits sum.splits)

lemma first_usable_Some:
  "first_usable catalog creds req loc n refs = Some s \<Longrightarrow>
   \<exists>i < length refs. usable (refs ! i) catalog creds req loc = Some (sel_model s) \<and>
     (\<forall>j < i. usable (refs ! j) catalog creds req loc = None) \<and>
     (sel_fallback_used s \<longleftrightarrow> n + i > 0)"
proof (induction refs arbitrary: n)
  case (Cons r refs)
  show ?case
  proof (cases "usable r catalog creds req loc")
    case None
    with Cons.prems have "first_usable catalog creds req loc (Suc n) refs = Some s" by simp
    from Cons.IH [OF this] obtain i where "i < length refs"
      "usable (refs ! i) catalog creds req loc = Some (sel_model s)"
      "\<forall>j < i. usable (refs ! j) catalog creds req loc = None" "sel_fallback_used s \<longleftrightarrow> Suc n + i > 0"
      by blast
    with None show ?thesis
      by (intro exI [of _ "Suc i"]) (auto simp: less_Suc_eq_0_disj nth_Cons')
  next
    case (Some d)
    with Cons.prems show ?thesis by (intro exI [of _ 0]) auto
  qed
qed simp

lemma first_usable_None:
  "first_usable catalog creds req loc n refs = None \<longleftrightarrow>
   (\<forall>r\<in>set refs. usable r catalog creds req loc = None)"
  by (induction refs arbitrary: n) (auto split: option.splits)

definition route_chain :: "route_match \<Rightarrow> model_reference list" where
  "route_chain route = route_model route # route_fallbacks route"

definition locality_required :: "route_match \<Rightarrow> bool \<Rightarrow> bool" where
  "locality_required route restricted \<longleftrightarrow>
     restricted \<or> (\<exists>rule\<in>set_option (matched_rule route). rule_local_only rule)"

lemma select_eq:
  "select route req catalog creds restricted =
     (if override_used route \<and> restricted \<and>
         (\<exists>d\<in>set_option (catalog (route_model route)). \<not> md_local d)
      then Err (OverrideNotAllowed (route_model route))
      else (case first_usable catalog creds (effective_requirements req (matched_rule route))
                   (locality_required route restricted) 0 (route_chain route) of
              Some s \<Rightarrow> Ok s
            | None \<Rightarrow> if locality_required route restricted then Err NoLocalModel
                      else Err FallbackExhausted))"
  unfolding select_def Let_def route_chain_def locality_required_def ..

lemma select_first_usable:
  assumes "select route req catalog creds restricted = Ok s"
  shows "first_usable catalog creds (effective_requirements req (matched_rule route))
     (locality_required route restricted) 0 (route_chain route) = Some s"
  using assms unfolding select_eq by (simp split: if_splits option.splits)

lemma select_Ok:
  assumes "select route req catalog creds restricted = Ok s"
  obtains i where "i < length (route_chain route)"
    "usable (route_chain route ! i) catalog creds
       (effective_requirements req (matched_rule route)) (locality_required route restricted)
       = Some (sel_model s)"
    "\<forall>j < i. usable (route_chain route ! j) catalog creds
       (effective_requirements req (matched_rule route)) (locality_required route restricted) = None"
    "sel_fallback_used s \<longleftrightarrow> i > 0"
  using first_usable_Some [OF select_first_usable [OF assms]] by auto

lemma select_local:
  assumes "select route req catalog creds restricted = Ok s" "locality_required route restricted"
  shows "md_local (sel_model s)"
proof -
  obtain i where "usable (route_chain route ! i) catalog creds
       (effective_requirements req (matched_rule route)) (locality_required route restricted)
       = Some (sel_model s)"
    using select_Ok [OF assms(1)] by blast
  with assms(2) show ?thesis by (simp add: usable_Some)
qed

lemma select_Err:
  assumes "select route req catalog creds restricted = Err e"
    and "\<not> (override_used route \<and> restricted)"
  shows "\<forall>r\<in>set (route_chain route). usable r catalog creds
       (effective_requirements req (matched_rule route)) (locality_required route restricted) = None"
    and "e = (if locality_required route restricted then NoLocalModel else FallbackExhausted)"
  using assms unfolding select_eq by (auto simp: first_usable_None split: if_splits option.splits)

end
