(* ===== verification/Resolver.thy ===== *)
theory Resolver
  imports Context_Selector Model_Selector
begin

text \<open>
  The resolver (\<^verbatim>\<open>router/resolver.rs\<close>): the five stages composed as the code composes
  them, and the chain of alternatives it leaves to the run loop.
\<close>

section \<open>Inputs and outcome\<close>

record resolve_args =
  ra_input :: task_input
  ra_workspace :: workspace
  ra_attachments :: attachments
  ra_recalled :: recalled_context
  ra_classification :: classification_config
  ra_routing :: routing_policy
  ra_privacy :: privacy_policy
  ra_requirements :: routing_requirements
  ra_catalog :: catalog
  ra_credentialed :: "provider list"
  ra_local_only :: bool

record routing_decision =
  rd_intent :: task_intent
  rd_provider :: provider
  rd_model :: string
  rd_matched_rule :: "string option"
  rd_fallback_used :: bool
  rd_override_used :: bool
  rd_reason :: string

record resolved_turn =
  rt_classification :: classification
  rt_routing :: routing_decision
  rt_model :: model_descriptor
  rt_fallbacks :: "model_reference list"
  rt_context :: resolved_context
  rt_required_permissions :: tools_config

datatype resolver_error = ContextFailed context_error
  | ModelFailed model_selector_error
  | RoutingFailed policy_match_error

definition remaining_fallbacks :: "route_match \<Rightarrow> model_reference \<Rightarrow> model_reference list" where
  "remaining_fallbacks route chosen =
     drop 1 (dropWhile (\<lambda>r. r \<noteq> chosen) (route_model route # route_fallbacks route))"

definition route_permissions :: "route_match \<Rightarrow> tools_config" where
  "route_permissions route =
     (case matched_rule route of Some rule \<Rightarrow> rule_required_permissions rule | None \<Rightarrow> [])"

definition resolve :: "externs \<Rightarrow> resolve_args \<Rightarrow> (resolver_error, resolved_turn) result" where
  "resolve x args =
     (let task = normalize x (ra_input args) (ra_workspace args) (ra_classification args) in
      and_then (map_err RoutingFailed
          (match_policy x task (ra_routing args) (ti_explicit_model (ra_input args)))) (\<lambda>route.
        let candidates = build_candidates x route (ra_recalled args) (ra_attachments args)
                           (ra_workspace args) (ra_privacy args);
            restricted = has_restricted_required_content candidates \<or> ra_local_only args;
            requirements = (ra_requirements args)
              \<lparr>req_estimated_tokens := Some (required_tokens candidates)\<rparr>
        in and_then (map_err ModelFailed
             (select route requirements (ra_catalog args) (ra_credentialed args) restricted)) (\<lambda>selection.
          let model = sel_model selection;
              routing = \<lparr>rd_intent = rm_intent route, rd_provider = md_provider model,
                rd_model = md_model model,
                rd_matched_rule = map_option rule_name (matched_rule route),
                rd_fallback_used = sel_fallback_used selection,
                rd_override_used = override_used route, rd_reason = rm_reason route\<rparr>;
              fallbacks = remaining_fallbacks route (descriptor_reference model);
              required_permissions = route_permissions route
          in and_then (map_err ContextFailed (finalize candidates model)) (\<lambda>context.
            Ok \<lparr>rt_classification = nt_classification task, rt_routing = routing,
                rt_model = model, rt_fallbacks = fallbacks, rt_context = context,
                rt_required_permissions = required_permissions\<rparr>))))"

section \<open>The chain of alternatives\<close>

text \<open>A catalog indexes each descriptor by its own reference, as the providers list them.\<close>

definition catalog_wf :: "catalog \<Rightarrow> bool" where
  "catalog_wf c \<longleftrightarrow> (\<forall>r d. c r = Some d \<longrightarrow> descriptor_reference d = r)"

lemma drop_dropWhile_first:
  "i < length xs \<Longrightarrow> xs ! i = a \<Longrightarrow> \<forall>j < i. xs ! j \<noteq> a \<Longrightarrow>
   drop 1 (dropWhile (\<lambda>r. r \<noteq> a) xs) = drop (Suc i) xs"
proof (induction xs arbitrary: i)
  case (Cons y ys)
  show ?case
  proof (cases i)
    case (Suc j)
    have "y \<noteq> a" using Cons.prems(3) Suc by (metis nth_Cons_0 zero_less_Suc)
    moreover have "\<forall>k < j. ys ! k \<noteq> a" using Cons.prems(3) Suc by (metis Suc_mono nth_Cons_Suc)
    ultimately show ?thesis using Cons.IH [of j] Cons.prems(1,2) Suc by simp
  qed (use Cons.prems(2) in simp)
qed simp

text \<open>What is left is the chain after the chosen model, whose predecessors were unusable.\<close>

lemma remaining_after_selection:
  assumes "select route req catalog creds restricted = Ok s" "catalog_wf catalog"
  obtains i where "i < length (route_chain route)"
    "route_chain route ! i = descriptor_reference (sel_model s)"
    "remaining_fallbacks route (descriptor_reference (sel_model s)) = drop (Suc i) (route_chain route)"
    "sel_fallback_used s \<longleftrightarrow> i > 0"
proof -
  let ?use = "\<lambda>r. usable r catalog creds
      (effective_requirements req (matched_rule route)) (locality_required route restricted)"
  obtain i where i: "i < length (route_chain route)"
    "?use (route_chain route ! i) = Some (sel_model s)"
    "\<forall>j < i. ?use (route_chain route ! j) = None" "sel_fallback_used s \<longleftrightarrow> i > 0"
    using assms(1) by (rule select_Ok)
  then have ref: "route_chain route ! i = descriptor_reference (sel_model s)"
    using assms(2) by (auto simp: catalog_wf_def usable_Some)
  have "\<forall>j < i. route_chain route ! j \<noteq> descriptor_reference (sel_model s)"
    using i(2,3) ref by (metis option.distinct(1))
  then show ?thesis
    using that [OF i(1) ref _ i(4)] drop_dropWhile_first [OF i(1) ref]
    by (simp add: remaining_fallbacks_def route_chain_def)
qed

section \<open>The stages of a resolution\<close>

text \<open>
  \<open>resolution\<close> states the outcome of \<open>resolve\<close> as a relation between the intermediate
  results of the stages; every property of a resolved turn goes through it.
\<close>

definition candidates_of :: "externs \<Rightarrow> resolve_args \<Rightarrow> route_match \<Rightarrow> candidate list" where
  "candidates_of x args route =
     build_candidates x route (ra_recalled args) (ra_attachments args) (ra_workspace args) (ra_privacy args)"

definition must_stay_local :: "externs \<Rightarrow> resolve_args \<Rightarrow> route_match \<Rightarrow> bool" where
  "must_stay_local x args route \<longleftrightarrow>
     has_restricted_required_content (candidates_of x args route) \<or> ra_local_only args"

definition requirements_of :: "externs \<Rightarrow> resolve_args \<Rightarrow> route_match \<Rightarrow> routing_requirements" where
  "requirements_of x args route =
     (ra_requirements args)\<lparr>req_estimated_tokens := Some (required_tokens (candidates_of x args route))\<rparr>"

definition route_of :: "externs \<Rightarrow> resolve_args \<Rightarrow> (policy_match_error, route_match) result" where
  "route_of x args =
     match_policy x (normalize x (ra_input args) (ra_workspace args) (ra_classification args))
       (ra_routing args) (ti_explicit_model (ra_input args))"

definition selection_of ::
  "externs \<Rightarrow> resolve_args \<Rightarrow> route_match \<Rightarrow> (model_selector_error, model_selection) result" where
  "selection_of x args route =
     select route (requirements_of x args route) (ra_catalog args) (ra_credentialed args)
       (must_stay_local x args route)"

lemma resolve_Ok:
  assumes "resolve x args = Ok t"
  obtains route s where "route_of x args = Ok route" "selection_of x args route = Ok s"
    "finalize (candidates_of x args route) (sel_model s) = Ok (rt_context t)"
    "rt_model t = sel_model s"
    "rt_fallbacks t = remaining_fallbacks route (descriptor_reference (sel_model s))"
    "rt_required_permissions t = route_permissions route"
    "rt_classification t =
       nt_classification (normalize x (ra_input args) (ra_workspace args) (ra_classification args))"
    "rd_intent (rt_routing t) = rm_intent route"
    "rd_provider (rt_routing t) = md_provider (sel_model s)"
    "rd_model (rt_routing t) = md_model (sel_model s)"
    "rd_matched_rule (rt_routing t) = map_option rule_name (matched_rule route)"
    "rd_fallback_used (rt_routing t) = sel_fallback_used s"
    "rd_override_used (rt_routing t) = override_used route"
    "rd_reason (rt_routing t) = rm_reason route"
  using assms that
  unfolding resolve_def route_of_def selection_of_def candidates_of_def must_stay_local_def
    requirements_of_def Let_def
  by (auto simp: result_simps)

lemma resolve_Err:
  "resolve x args = Err e \<longleftrightarrow>
     (\<exists>p. route_of x args = Err p \<and> e = RoutingFailed p) \<or>
     (\<exists>route p. route_of x args = Ok route \<and> selection_of x args route = Err p \<and> e = ModelFailed p) \<or>
     (\<exists>route s p. route_of x args = Ok route \<and> selection_of x args route = Ok s \<and>
        finalize (candidates_of x args route) (sel_model s) = Err p \<and> e = ContextFailed p)"
  unfolding resolve_def route_of_def selection_of_def candidates_of_def must_stay_local_def
    requirements_of_def Let_def
  by (auto simp: result_simps)

section \<open>Restricted content\<close>

text \<open>
  De-duplication cannot hide restricted required content: the candidates of one path share
  their restriction, and the required one is kept.
\<close>

definition restriction_by_path :: "(string \<Rightarrow> bool) \<Rightarrow> candidate list \<Rightarrow> bool" where
  "restriction_by_path r cs \<longleftrightarrow>
     (\<forall>c\<in>set cs. cand_restricted c = (case cand_path c of Some p \<Rightarrow> r p | None \<Rightarrow> False))"

lemma raw_restriction:
  "restriction_by_path (is_restricted_for_remote x privacy) (raw_candidates x route rec att w privacy)"
  by (auto simp: restriction_by_path_def raw_candidates_def message_candidate_def memory_candidate_def
      file_candidate_def instruction_candidate_def diff_candidate_def skill_candidate_def Let_def
      in_set_enumerate_eq split: option.splits)

lemma dedupe_restricted:
  assumes "restriction_by_path r cs"
  shows "has_restricted_required_content (dedupe cs) \<longleftrightarrow> has_restricted_required_content cs"
proof
  show "has_restricted_required_content (dedupe cs) \<Longrightarrow> has_restricted_required_content cs"
    using set_dedupe by (fastforce simp: has_restricted_required_content_def list_ex_iff)
  assume "has_restricted_required_content cs"
  then obtain e where e: "e \<in> set cs" "cand_restricted e" "cand_required e"
    by (auto simp: has_restricted_required_content_def list_ex_iff)
  then obtain p where p: "cand_path e = Some p" "r p"
    using assms by (fastforce simp: restriction_by_path_def split: option.splits)
  obtain d where d: "d \<in> set (dedupe cs)" "dedupe_key d = dedupe_key e" "outranks d e"
    using dedupe_represents [OF e(1)] by blast
  have "d \<in> set cs" using d(1) set_dedupe by blast
  then have "cand_restricted d"
    using assms p dedupe_key_path [OF d(2) p(1)] by (auto simp: restriction_by_path_def)
  moreover have "cand_required d" using d(3) e(3) by (simp add: outranks_def)
  ultimately show "has_restricted_required_content (dedupe cs)"
    using d(1) by (auto simp: has_restricted_required_content_def list_ex_iff)
qed

lemma raw_has_restricted:
  "has_restricted_required_content (raw_candidates x route rec att w privacy) \<longleftrightarrow>
     (\<exists>f\<in>set (at_files att). is_restricted_for_remote x privacy (cf_path f) \<and>
        (cf_required f \<or> path_in_focus x route w (cf_path f)))"
  by (simp add: has_restricted_required_content_def list_ex_iff raw_candidates_def bex_Un
      split_beta message_candidate_def memory_candidate_def file_candidate_def instruction_candidate_def
      diff_candidate_def skill_candidate_def Let_def split: option.splits) auto

lemma build_has_restricted:
  "has_restricted_required_content (build_candidates x route rec att w privacy) \<longleftrightarrow>
     (\<exists>f\<in>set (at_files att). is_restricted_for_remote x privacy (cf_path f) \<and>
        (cf_required f \<or> path_in_focus x route w (cf_path f)))"
  unfolding build_candidates_def dedupe_restricted [OF raw_restriction] raw_has_restricted ..

lemma resolve_local:
  assumes "resolve x args = Ok t"
    "\<And>route. route_of x args = Ok route \<Longrightarrow>
       must_stay_local x args route \<or> (\<exists>r\<in>set_option (matched_rule route). rule_local_only r)"
  shows "md_local (rt_model t)"
  using assms(1)
proof (rule resolve_Ok)
  fix route s
  assume r: "route_of x args = Ok route" and s: "selection_of x args route = Ok s"
    and m: "rt_model t = sel_model s"
  have "locality_required route (must_stay_local x args route)"
    using assms(2) [OF r] by (auto simp: locality_required_def)
  then show ?thesis using select_local [OF s [unfolded selection_of_def]] m by simp
qed

end
