(* ===== verification/Provider_Api.thy ===== *)
theory Provider_Api
  imports Resolver
begin

text \<open>
  The vocabulary between the router and the models (\<^verbatim>\<open>smista-providers/src/api.rs\<close>,
  \<^verbatim>\<open>smista-core/src/usage.rs\<close>, \<^verbatim>\<open>stream.rs\<close>), the pricing of a usage
  (\<^verbatim>\<open>orchestrator/cost.rs\<close>), the tools offered to a model (\<^verbatim>\<open>orchestrator/tools.rs\<close>), the
  mediation of the calls it makes (\<^verbatim>\<open>orchestrator/mediation.rs\<close>) and the prompt
  (\<^verbatim>\<open>orchestrator/prompt.rs\<close>).

  Decimals are rationals: \<^verbatim>\<open>rust_decimal\<close>'s 96-bit rounding is not modelled.
\<close>

section \<open>Requests and responses\<close>

record tool_call =
  tc_call_id :: string
  tc_name :: string
  tc_arguments :: json

datatype request_message = SystemMsg string | UserMsg string
  | AssistantMsg string "tool_call list"
  | ToolResultMsg string string bool

record tool_definition =
  td_name :: string
  td_description :: string
  td_parameters :: json

datatype tool_choice = AutoChoice | RequiredChoice | NoChoice

datatype finish_reason = StopFinish | LengthFinish | ToolCallsFinish | ContentFilterFinish
  | OtherFinish string

record usage =
  u_input_tokens :: "nat option"
  u_output_tokens :: "nat option"
  u_cached_tokens :: "nat option"
  u_reasoning_tokens :: "nat option"
  u_total_tokens :: "nat option"
  u_estimated_cost :: "rat option"
  u_actual_cost :: "rat option"
  u_currency :: "string option"

definition no_usage :: usage where
  "no_usage = \<lparr>u_input_tokens = None, u_output_tokens = None, u_cached_tokens = None,
     u_reasoning_tokens = None, u_total_tokens = None, u_estimated_cost = None,
     u_actual_cost = None, u_currency = None\<rparr>"

definition usage_currency :: "usage \<Rightarrow> string" where
  "usage_currency u = (case u_currency u of Some c \<Rightarrow> c | None \<Rightarrow> ''USD'')"

record completion_request =
  cq_messages :: "request_message list"
  cq_parameters :: model_parameters
  cq_tools :: "tool_definition list"
  cq_tool_choice :: tool_choice

record completion_response =
  cr_content :: string
  cr_tool_calls :: "tool_call list"
  cr_usage :: usage
  cr_finish_reason :: finish_reason

datatype stream_event = TextDelta string
  | ReasoningDelta string
  | ToolCallStarted string string
  | ToolCallRequested string string json
  | ApprovalRequired string
  | ToolResult string string bool
  | UsageEvent usage
  | ErrorEvent string string
  | DoneEvent

section \<open>Pricing\<close>

definition tokens_per_rate_unit :: nat where
  "tokens_per_rate_unit = 1000000"

definition priced :: "usage \<Rightarrow> model_descriptor \<Rightarrow> usage" where
  "priced u model =
     (case (md_input_cost model, md_output_cost model) of
        (Some input_rate, Some output_rate) \<Rightarrow>
          (case (u_input_tokens u, u_output_tokens u) of
             (Some input_tokens, Some output_tokens) \<Rightarrow>
               (let unit = rat_of_nat tokens_per_rate_unit;
                    cost = rat_of_nat input_tokens / unit * input_rate +
                           rat_of_nat output_tokens / unit * output_rate
                in u\<lparr>u_actual_cost := Some cost, u_currency := Some ''USD''\<rparr>)
           | _ \<Rightarrow> u)
      | _ \<Rightarrow> u)"

section \<open>Tools\<close>

record tool_spec =
  spec_name :: string
  spec_description :: string
  spec_parameters :: json
  spec_changes_files :: bool

definition read_file_tool :: string where "read_file_tool = ''read_file''"
definition write_file_tool :: string where "write_file_tool = ''write_file''"
definition edit_file_tool :: string where "edit_file_tool = ''edit_file''"
definition shell_tool :: string where "shell_tool = ''shell''"
definition memory_tool :: string where "memory_tool = ''memory''"

definition string_property :: "string \<Rightarrow> string \<Rightarrow> string \<times> json" where
  "string_property name description =
     (name, JObj [(''type'', JStr ''string''), (''description'', JStr description)])"

definition object_schema :: "(string \<times> json) list \<Rightarrow> string list \<Rightarrow> json" where
  "object_schema properties needed =
     JObj [(''type'', JStr ''object''), (''properties'', JObj properties),
       (''required'', JArr (map JStr needed))]"

definition read_file_parameters :: json where
  "read_file_parameters =
     object_schema [string_property ''path'' ''Path of the file to read.''] [''path'']"

definition write_file_parameters :: json where
  "write_file_parameters = object_schema
     [string_property ''path'' ''Path of the file to write.'',
      string_property ''content'' ''Full new file content.''] [''path'', ''content'']"

definition edit_file_parameters :: json where
  "edit_file_parameters = object_schema
     [string_property ''path'' ''Path of the file to edit.'',
      string_property ''old'' ''Exact text to replace.'',
      string_property ''new'' ''Replacement text.''] [''path'', ''old'', ''new'']"

definition shell_parameters :: json where
  "shell_parameters =
     object_schema [string_property ''command'' ''Shell command to run.''] [''command'']"

definition memory_parameters :: json where
  "memory_parameters = object_schema
     [string_property ''operation'' ''Memory operation to perform.'',
      string_property ''key'' ''Memory key.'',
      string_property ''value'' ''Memory value.''] [''operation'']"

definition builtin_catalog :: "tool_spec list" where
  "builtin_catalog =
     [\<lparr>spec_name = read_file_tool,
       spec_description = ''Read the contents of a file on the user'' @ quote # ''s machine.'',
       spec_parameters = read_file_parameters, spec_changes_files = False\<rparr>,
      \<lparr>spec_name = write_file_tool,
       spec_description = ''Write (creating or overwriting) a file on the user'' @ quote # ''s machine.'',
       spec_parameters = write_file_parameters, spec_changes_files = True\<rparr>,
      \<lparr>spec_name = edit_file_tool,
       spec_description = ''Replace a span of text in a file on the user'' @ quote # ''s machine.'',
       spec_parameters = edit_file_parameters, spec_changes_files = True\<rparr>,
      \<lparr>spec_name = shell_tool,
       spec_description = ''Run a shell command on the user'' @ quote # ''s machine.'',
       spec_parameters = shell_parameters, spec_changes_files = False\<rparr>]"

definition tool_changes_files :: "string \<Rightarrow> bool" where
  "tool_changes_files name =
     (case List.find (\<lambda>spec. spec_name spec = name) builtin_catalog of
        Some spec \<Rightarrow> spec_changes_files spec
      | None \<Rightarrow> False)"

fun json_get :: "json \<Rightarrow> string \<Rightarrow> json option" where
  "json_get (JObj members) key = map_of members key"
| "json_get _ key = None"

fun json_str :: "json \<Rightarrow> string option" where
  "json_str (JStr s) = Some s"
| "json_str _ = None"

definition str_argument :: "json \<Rightarrow> string \<Rightarrow> string" where
  "str_argument arguments key =
     (case Option.bind (json_get arguments key) json_str of Some s \<Rightarrow> s | None \<Rightarrow> [])"

definition newline :: char where
  "newline = CHR 0x0A"

definition diff_for_tool_call :: "string \<Rightarrow> json \<Rightarrow> (string \<times> string) option" where
  "diff_for_tool_call name arguments =
     (case Option.bind (json_get arguments ''path'') json_str of
        None \<Rightarrow> None
      | Some path \<Rightarrow>
          if name = write_file_tool
          then Some (path, ''--- /dev/null'' @ newline # ''+++ '' @ path @ newline # ''+'' @
                 str_argument arguments ''content'')
          else if name = edit_file_tool
          then Some (path, ''--- '' @ path @ newline # ''+++ '' @ path @ newline # ''-'' @
                 str_argument arguments ''old'' @ newline # ''+'' @ str_argument arguments ''new'')
          else None)"

definition skill_tool_definition :: "skill \<Rightarrow> tool_definition" where
  "skill_tool_definition s =
     \<lparr>td_name = sk_name s,
      td_description = (case str_lines (sk_content s) of line # _ \<Rightarrow> line | [] \<Rightarrow> []),
      td_parameters = JObj [(''type'', JStr ''object''), (''properties'', JObj [])]\<rparr>"

definition offered_tools :: "tools_config \<Rightarrow> skill list \<Rightarrow> skill list \<Rightarrow> tool_definition list" where
  "offered_tools policy invoked available =
     map (\<lambda>spec. \<lparr>td_name = spec_name spec, td_description = spec_description spec,
                  td_parameters = spec_parameters spec\<rparr>)
       (filter (\<lambda>spec. mode_for policy (spec_name spec) \<noteq> Some Deny) builtin_catalog)
     @ (if mode_for policy memory_tool \<noteq> Some Deny
        then [\<lparr>td_name = memory_tool,
               td_description = ''Record and recall durable memory across the session.'',
               td_parameters = memory_parameters\<rparr>] else [])
     @ map skill_tool_definition (invoked @ available)"

section \<open>Mediation\<close>

datatype tool_approval = AllowCall | AskCall

record client_call =
  cl_call :: tool_call
  cl_requires_approval :: tool_approval

record mediated =
  denied_calls :: "(tool_call \<times> string) list"
  client_calls :: "client_call list"

definition tool_mode :: "tools_config \<Rightarrow> string \<Rightarrow> permission_mode" where
  "tool_mode policy name = (case mode_for policy name of Some m \<Rightarrow> m | None \<Rightarrow> Ask)"

text \<open>The loop pushes onto one of two vectors; they are built here front to back.\<close>

fun mediate :: "tool_call list \<Rightarrow> string list \<Rightarrow> tools_config \<Rightarrow> bool \<Rightarrow> mediated" where
  "mediate [] offered policy plan_mode = \<lparr>denied_calls = [], client_calls = []\<rparr>"
| "mediate (call # calls) offered policy plan_mode =
     (let rest = mediate calls offered policy plan_mode;
          deny = (\<lambda>reason. rest\<lparr>denied_calls := (call, reason) # denied_calls rest\<rparr>);
          push = (\<lambda>approval. rest\<lparr>client_calls :=
            \<lparr>cl_call = call, cl_requires_approval = approval\<rparr> # client_calls rest\<rparr>)
      in if tc_name call \<notin> set offered then deny ''denied: tool was not offered''
         else if plan_mode \<and> tool_changes_files (tc_name call)
         then deny ''denied: planning mode forbids changing the machine''
         else (case tool_mode policy (tc_name call) of
                 Deny \<Rightarrow> deny ''denied by policy''
               | Allow \<Rightarrow> push AllowCall
               | Ask \<Rightarrow> push AskCall))"

section \<open>The prompt\<close>

definition recalled_to_message :: "recalled_message \<Rightarrow> request_message" where
  "recalled_to_message m =
     (case rec_role m of
        System \<Rightarrow> SystemMsg (rec_content m)
      | Assistant \<Rightarrow> AssistantMsg (rec_content m) []
      | User \<Rightarrow> UserMsg (rec_content m)
      | Tool \<Rightarrow> UserMsg (rec_content m))"

fun framing :: "candidate_kind \<Rightarrow> bool" where
  "framing InstructionKind = True"
| "framing SkillKind = True"
| "framing MemoryKind = True"
| "framing _ = False"

fun inlined :: "candidate_kind \<Rightarrow> bool" where
  "inlined FileKind = True"
| "inlined DiffKind = True"
| "inlined _ = False"

definition headed :: "candidate \<Rightarrow> string" where
  "headed c =
     (case cand_path c of
        Some path \<Rightarrow> ''# '' @ path @ newline # cand_content c
      | None \<Rightarrow> cand_content c)"

definition build_system :: "string \<Rightarrow> resolved_context \<Rightarrow> string" where
  "build_system preamble ctx =
     foldl (\<lambda>system c. if framing (cand_kind c) then system @ [newline, newline] @ headed c else system)
       preamble (res_included ctx)"

definition build_context_block :: "resolved_context \<Rightarrow> string option" where
  "build_context_block ctx =
     (let blocks = map headed (filter (\<lambda>c. inlined (cand_kind c)) (res_included ctx))
      in if blocks = [] then None else Some (join [newline, newline] blocks))"

definition build_user_prompt :: "resolved_context \<Rightarrow> task_input \<Rightarrow> string" where
  "build_user_prompt ctx input =
     (case build_context_block ctx of
        None \<Rightarrow> ti_text input
      | Some block \<Rightarrow>
          ''The following context is attached and available for this request:'' @ newline # newline #
          block @ newline # newline # ''User request:'' @ newline # ti_text input)"

definition build_messages ::
  "string \<Rightarrow> resolved_context \<Rightarrow> recalled_message list \<Rightarrow> task_input \<Rightarrow> request_message list \<Rightarrow>
   request_message list" where
  "build_messages preamble ctx history input tool_followups =
     [SystemMsg (build_system preamble ctx)]
     @ map recalled_to_message history
     @ [UserMsg (build_user_prompt ctx input)]
     @ tool_followups"

section \<open>Lemmas\<close>

lemma tool_changes_files_iff: "tool_changes_files n \<longleftrightarrow> n = write_file_tool \<or> n = edit_file_tool"
  by (auto simp: tool_changes_files_def builtin_catalog_def read_file_tool_def write_file_tool_def
      edit_file_tool_def shell_tool_def)

lemma diff_only_for_changes: "diff_for_tool_call n a \<noteq> None \<Longrightarrow> tool_changes_files n"
  by (auto simp: diff_for_tool_call_def tool_changes_files_iff split: option.splits if_splits)

text \<open>Which calls reach the client, and with what approval.\<close>

definition runnable :: "string list \<Rightarrow> tools_config \<Rightarrow> bool \<Rightarrow> tool_call \<Rightarrow> bool" where
  "runnable offered policy plan_mode call \<longleftrightarrow>
     tc_name call \<in> set offered \<and> \<not> (plan_mode \<and> tool_changes_files (tc_name call)) \<and>
     tool_mode policy (tc_name call) \<noteq> Deny"

lemma mediate_denied:
  "map fst (denied_calls (mediate calls offered policy plan)) =
     filter (\<lambda>c. \<not> runnable offered policy plan c) calls"
  by (induction calls) (auto simp: runnable_def Let_def split: permission_mode.splits)

lemma mediate_client:
  "client_calls (mediate calls offered policy plan) =
     map (\<lambda>c. \<lparr>cl_call = c, cl_requires_approval =
        (if tool_mode policy (tc_name c) = Allow then AllowCall else AskCall)\<rparr>)
      (filter (runnable offered policy plan) calls)"
  by (induction calls) (auto simp: runnable_def Let_def split: permission_mode.splits)

lemma offered_not_denied:
  "d \<in> set (offered_tools policy [] []) \<Longrightarrow> mode_for policy (td_name d) \<noteq> Some Deny"
  by (auto simp: offered_tools_def split: if_splits)

lemma build_system_frames:
  "build_system preamble ctx =
     preamble @ concat (map (\<lambda>c. [newline, newline] @ headed c)
       (filter (\<lambda>c. framing (cand_kind c)) (res_included ctx)))"
proof -
  have "foldl (\<lambda>system c. if framing (cand_kind c) then system @ [newline, newline] @ headed c else system)
      p cs = p @ concat (map (\<lambda>c. [newline, newline] @ headed c) (filter (\<lambda>c. framing (cand_kind c)) cs))"
    for p and cs :: "candidate list"
    by (induction cs arbitrary: p) auto
  then show ?thesis by (simp add: build_system_def)
qed

end
