(* ===== verification/Api_Error.thy ===== *)
theory Api_Error
  imports Core_Capabilities
begin

text \<open>
  The errors of the HTTP surface (\<^verbatim>\<open>smista-core/src/api/error.rs\<close>): the closed set of error
  codes with their wire names and statuses, and the mapping of every core error to the code,
  message and details a client sees. The messages are the \<^verbatim>\<open>Display\<close> forms that
  \<^verbatim>\<open>smista-core/src/error.rs\<close> declares.
\<close>

section \<open>Codes\<close>

datatype api_error_code = ApiContextLengthExceeded | ApiContextWindowExceeded | ApiCredentialsInQuery
  | ApiFallbackExhausted | ApiForbidden | ApiInternalError
  | ApiInvalidApiKey | ApiInvalidModelReference | ApiInvalidProviderConfiguration
  | ApiInvalidProviderCredentials | ApiInvalidProviderName | ApiInvalidRequest
  | ApiInvalidSessionId | ApiInvalidToken | ApiMissingCapability
  | ApiMissingCredentials | ApiMissingProviderCredentials | ApiModelNotFound
  | ApiNoRoute | ApiNotImplemented | ApiOverrideNotAllowed
  | ApiPermissionExpansion | ApiProviderAuthentication | ApiProviderError
  | ApiProviderUnavailable | ApiProviderUnsupportedCapability | ApiRateLimited
  | ApiRequestTimeout | ApiRoutingUnsupportedCapability | ApiRunInFlight
  | ApiSessionNotFound | ApiStorageError | ApiTokenExpired
  | ApiTokenRevoked | ApiUnknownEffort | ApiUnknownIntent
  | ApiUnknownModel | ApiUnknownProvider

fun api_code_as_str :: "api_error_code \<Rightarrow> string" where
  "api_code_as_str ApiContextLengthExceeded = ''context_length_exceeded''"
| "api_code_as_str ApiContextWindowExceeded = ''context_window_exceeded''"
| "api_code_as_str ApiCredentialsInQuery = ''credentials_in_query''"
| "api_code_as_str ApiFallbackExhausted = ''fallback_exhausted''"
| "api_code_as_str ApiForbidden = ''forbidden''"
| "api_code_as_str ApiInternalError = ''internal_error''"
| "api_code_as_str ApiInvalidApiKey = ''invalid_api_key''"
| "api_code_as_str ApiInvalidModelReference = ''invalid_model_reference''"
| "api_code_as_str ApiInvalidProviderConfiguration = ''invalid_provider_configuration''"
| "api_code_as_str ApiInvalidProviderCredentials = ''invalid_provider_credentials''"
| "api_code_as_str ApiInvalidProviderName = ''invalid_provider_name''"
| "api_code_as_str ApiInvalidRequest = ''invalid_request''"
| "api_code_as_str ApiInvalidSessionId = ''invalid_session_id''"
| "api_code_as_str ApiInvalidToken = ''invalid_token''"
| "api_code_as_str ApiMissingCapability = ''missing_capability''"
| "api_code_as_str ApiMissingCredentials = ''missing_credentials''"
| "api_code_as_str ApiMissingProviderCredentials = ''missing_provider_credentials''"
| "api_code_as_str ApiModelNotFound = ''model_not_found''"
| "api_code_as_str ApiNoRoute = ''no_route''"
| "api_code_as_str ApiNotImplemented = ''not_implemented''"
| "api_code_as_str ApiOverrideNotAllowed = ''override_not_allowed''"
| "api_code_as_str ApiPermissionExpansion = ''permission_expansion''"
| "api_code_as_str ApiProviderAuthentication = ''provider_authentication''"
| "api_code_as_str ApiProviderError = ''provider_error''"
| "api_code_as_str ApiProviderUnavailable = ''provider_unavailable''"
| "api_code_as_str ApiProviderUnsupportedCapability = ''provider_unsupported_capability''"
| "api_code_as_str ApiRateLimited = ''rate_limited''"
| "api_code_as_str ApiRequestTimeout = ''request_timeout''"
| "api_code_as_str ApiRoutingUnsupportedCapability = ''routing_unsupported_capability''"
| "api_code_as_str ApiRunInFlight = ''run_in_flight''"
| "api_code_as_str ApiSessionNotFound = ''session_not_found''"
| "api_code_as_str ApiStorageError = ''storage_error''"
| "api_code_as_str ApiTokenExpired = ''token_expired''"
| "api_code_as_str ApiTokenRevoked = ''token_revoked''"
| "api_code_as_str ApiUnknownEffort = ''unknown_effort''"
| "api_code_as_str ApiUnknownIntent = ''unknown_intent''"
| "api_code_as_str ApiUnknownModel = ''unknown_model''"
| "api_code_as_str ApiUnknownProvider = ''unknown_provider''"

fun api_code_status :: "api_error_code \<Rightarrow> nat" where
  "api_code_status ApiContextLengthExceeded = 422"
| "api_code_status ApiContextWindowExceeded = 422"
| "api_code_status ApiCredentialsInQuery = 400"
| "api_code_status ApiFallbackExhausted = 503"
| "api_code_status ApiForbidden = 403"
| "api_code_status ApiInternalError = 500"
| "api_code_status ApiInvalidApiKey = 401"
| "api_code_status ApiInvalidModelReference = 422"
| "api_code_status ApiInvalidProviderConfiguration = 500"
| "api_code_status ApiInvalidProviderCredentials = 503"
| "api_code_status ApiInvalidProviderName = 422"
| "api_code_status ApiInvalidRequest = 422"
| "api_code_status ApiInvalidSessionId = 400"
| "api_code_status ApiInvalidToken = 401"
| "api_code_status ApiMissingCapability = 422"
| "api_code_status ApiMissingCredentials = 401"
| "api_code_status ApiMissingProviderCredentials = 503"
| "api_code_status ApiModelNotFound = 404"
| "api_code_status ApiNoRoute = 422"
| "api_code_status ApiNotImplemented = 501"
| "api_code_status ApiOverrideNotAllowed = 403"
| "api_code_status ApiPermissionExpansion = 422"
| "api_code_status ApiProviderAuthentication = 503"
| "api_code_status ApiProviderError = 502"
| "api_code_status ApiProviderUnavailable = 503"
| "api_code_status ApiProviderUnsupportedCapability = 422"
| "api_code_status ApiRateLimited = 429"
| "api_code_status ApiRequestTimeout = 504"
| "api_code_status ApiRoutingUnsupportedCapability = 422"
| "api_code_status ApiRunInFlight = 409"
| "api_code_status ApiSessionNotFound = 404"
| "api_code_status ApiStorageError = 502"
| "api_code_status ApiTokenExpired = 401"
| "api_code_status ApiTokenRevoked = 401"
| "api_code_status ApiUnknownEffort = 422"
| "api_code_status ApiUnknownIntent = 422"
| "api_code_status ApiUnknownModel = 422"
| "api_code_status ApiUnknownProvider = 422"

section \<open>Messages\<close>

definition backtick :: char where
  "backtick = CHR 0x60"

fun show_auth_error :: "auth_error \<Rightarrow> string" where
  "show_auth_error Expired = ''token expired''"
| "show_auth_error Forbidden = ''forbidden: not the resource owner''"
| "show_auth_error InvalidToken = ''invalid token''"
| "show_auth_error MissingCredentials = ''missing credentials''"
| "show_auth_error Revoked = ''token revoked''"

fun show_parse_error :: "parse_error \<Rightarrow> string" where
  "show_parse_error InvalidApiKey = ''invalid API key''"
| "show_parse_error (InvalidContentRef s) = ''invalid content reference: '' @ s"
| "show_parse_error (InvalidModelReference s) = ''invalid model reference: '' @ s"
| "show_parse_error (InvalidProviderName s) = ''invalid provider instance name: '' @ s"
| "show_parse_error InvalidSessionToken = ''invalid session token''"
| "show_parse_error (UnknownEffort s) = ''unknown effort: '' @ s"
| "show_parse_error (UnknownIntent s) = ''unknown task intent: '' @ s"
| "show_parse_error (UnknownProvider s) = ''unknown provider: '' @ s"

fun show_policy_error :: "policy_error \<Rightarrow> string" where
  "show_policy_error (PermissionExpansion base requested tool) =
     ''tool '' @ quote # tool @ quote # '' permission '' @ quote # permission_as_str requested @ quote #
     '' would loosen the stricter '' @ quote # permission_as_str base @ [quote]"

fun show_capability_error :: "capability_error \<Rightarrow> string" where
  "show_capability_error (ContextWindowExceeded tokens window) =
     ''estimated '' @ show_nat tokens @ '' tokens exceed the model context window of '' @ show_nat window"
| "show_capability_error (MissingCapability c) =
     ''model does not support required capability: '' @ capability_as_str c"

fun show_routing_error :: "routing_error \<Rightarrow> string" where
  "show_routing_error RoutingFallbackExhausted = ''fallback chain exhausted''"
| "show_routing_error RoutingNoRoute = ''no rule matched and no default route''"
| "show_routing_error (RoutingOverrideNotAllowed m) =
     ''explicit model override '' @ backtick # m @ backtick # '' not allowed by policy''"
| "show_routing_error (UnknownModel m) = ''model '' @ backtick # m @ backtick # '' not configured''"
| "show_routing_error (UnsupportedCapability c) =
     ''selected model lacks required capability: '' @ capability_as_str c"

fun show_category :: "provider_error_category \<Rightarrow> string" where
  "show_category Authentication = ''authenticated request rejected by provider policy''"
| "show_category ContextLength = ''request exceeded the model context window''"
| "show_category InvalidConfiguration = ''provider configuration is invalid''"
| "show_category InvalidCredentials = ''provider rejected the configured credentials''"
| "show_category InvalidRequest = ''provider rejected the request as malformed''"
| "show_category MissingProviderCredentials = ''no credentials configured for the provider''"
| "show_category ModelNotFound = ''model not offered by the provider''"
| "show_category ProviderUnavailable = ''provider is unavailable''"
| "show_category RateLimit = ''provider rate-limited the request''"
| "show_category Storage = ''storage error''"
| "show_category Timeout = ''call to the provider timed out''"
| "show_category Unknown = ''unknown provider error''"
| "show_category UnsupportedByProvider = ''model does not support a required capability''"

definition show_provider_error :: "provider_error \<Rightarrow> string" where
  "show_provider_error e =
     ''provider '' @ backtick # show_provider (pe_provider e) @ backtick # '' reported '' @
     show_category (pe_category e) @ '': '' @ pe_message e"

section \<open>Responses\<close>

record api_error_body =
  ae_code :: string
  ae_message :: string
  ae_details :: "json option"

record api_error_response =
  ar_status :: nat
  ar_error :: api_error_body

definition api_error_new :: "nat \<Rightarrow> string \<Rightarrow> string \<Rightarrow> api_error_response" where
  "api_error_new status code_name message =
     \<lparr>ar_status = status,
      ar_error = \<lparr>ae_code = code_name, ae_message = message, ae_details = None\<rparr>\<rparr>"

definition from_code :: "api_error_code \<Rightarrow> string \<Rightarrow> api_error_response" where
  "from_code c message = api_error_new (api_code_status c) (api_code_as_str c) message"

definition with_details :: "api_error_response \<Rightarrow> json \<Rightarrow> api_error_response" where
  "with_details r details = r\<lparr>ar_error := (ar_error r)\<lparr>ae_details := Some details\<rparr>\<rparr>"

definition map_auth :: "auth_error \<Rightarrow> api_error_response" where
  "map_auth e = from_code
     (case e of
        Expired \<Rightarrow> ApiTokenExpired
      | Forbidden \<Rightarrow> ApiForbidden
      | InvalidToken \<Rightarrow> ApiInvalidToken
      | MissingCredentials \<Rightarrow> ApiMissingCredentials
      | Revoked \<Rightarrow> ApiTokenRevoked) (show_auth_error e)"

definition map_capability :: "capability_error \<Rightarrow> api_error_response" where
  "map_capability e =
     (case e of
        ContextWindowExceeded tokens window \<Rightarrow>
          with_details (from_code ApiContextWindowExceeded (show_capability_error e))
            (JObj [(''estimated_tokens'', JNum (rat_of_nat tokens)),
                   (''max_context_tokens'', JNum (rat_of_nat window))])
      | MissingCapability c \<Rightarrow>
          with_details (from_code ApiMissingCapability (show_capability_error e))
            (JObj [(''capability'', JStr (capability_as_str c))]))"

definition map_parse :: "parse_error \<Rightarrow> api_error_response" where
  "map_parse e = from_code
     (case e of
        InvalidApiKey \<Rightarrow> ApiInvalidApiKey
      | InvalidContentRef _ \<Rightarrow> ApiInvalidRequest
      | InvalidModelReference _ \<Rightarrow> ApiInvalidModelReference
      | InvalidProviderName _ \<Rightarrow> ApiInvalidProviderName
      | InvalidSessionToken \<Rightarrow> ApiInvalidToken
      | UnknownEffort _ \<Rightarrow> ApiUnknownEffort
      | UnknownIntent _ \<Rightarrow> ApiUnknownIntent
      | UnknownProvider _ \<Rightarrow> ApiUnknownProvider) (show_parse_error e)"

definition map_policy :: "policy_error \<Rightarrow> api_error_response" where
  "map_policy e =
     (case e of
        PermissionExpansion base requested tool \<Rightarrow>
          with_details (from_code ApiPermissionExpansion (show_policy_error e))
            (JObj [(''tool'', JStr tool), (''base'', JStr (permission_as_str base)),
                   (''requested'', JStr (permission_as_str requested))]))"

definition map_routing :: "routing_error \<Rightarrow> api_error_response" where
  "map_routing e =
     (case e of
        RoutingFallbackExhausted \<Rightarrow> from_code ApiFallbackExhausted (show_routing_error e)
      | RoutingNoRoute \<Rightarrow> from_code ApiNoRoute (show_routing_error e)
      | RoutingOverrideNotAllowed model \<Rightarrow>
          with_details (from_code ApiOverrideNotAllowed (show_routing_error e))
            (JObj [(''model'', JStr model)])
      | UnknownModel model \<Rightarrow>
          with_details (from_code ApiUnknownModel (show_routing_error e))
            (JObj [(''model'', JStr model)])
      | UnsupportedCapability c \<Rightarrow>
          with_details (from_code ApiRoutingUnsupportedCapability (show_routing_error e))
            (JObj [(''capability'', JStr (capability_as_str c))]))"

fun category_code :: "provider_error_category \<Rightarrow> api_error_code" where
  "category_code Authentication = ApiProviderAuthentication"
| "category_code ContextLength = ApiContextLengthExceeded"
| "category_code InvalidConfiguration = ApiInvalidProviderConfiguration"
| "category_code InvalidCredentials = ApiInvalidProviderCredentials"
| "category_code InvalidRequest = ApiInvalidRequest"
| "category_code MissingProviderCredentials = ApiMissingProviderCredentials"
| "category_code ModelNotFound = ApiModelNotFound"
| "category_code ProviderUnavailable = ApiProviderUnavailable"
| "category_code RateLimit = ApiRateLimited"
| "category_code Storage = ApiStorageError"
| "category_code Timeout = ApiRequestTimeout"
| "category_code Unknown = ApiProviderError"
| "category_code UnsupportedByProvider = ApiProviderUnsupportedCapability"

definition map_provider :: "provider_error \<Rightarrow> api_error_response" where
  "map_provider e =
     with_details (from_code (category_code (pe_category e)) (show_provider_error e))
       (JObj ((''provider'', JStr (show_provider (pe_provider e))) #
          (case pe_model e of Some model \<Rightarrow> [(''model'', JStr model)] | None \<Rightarrow> [])))"

fun api_response :: "core_error \<Rightarrow> api_error_response" where
  "api_response (Auth e) = map_auth e"
| "api_response (Capability e) = map_capability e"
| "api_response (Internal _) = from_code ApiInternalError ''An internal error occurred.''"
| "api_response (Parse e) = map_parse e"
| "api_response (Policy e) = map_policy e"
| "api_response (Provider e) = map_provider e"
| "api_response (Routing e) = map_routing e"

section \<open>Lemmas\<close>

text \<open>The code of a response, as an abstract view of it.\<close>

fun error_code :: "core_error \<Rightarrow> api_error_code" where
  "error_code (Auth Expired) = ApiTokenExpired"
| "error_code (Auth Forbidden) = ApiForbidden"
| "error_code (Auth InvalidToken) = ApiInvalidToken"
| "error_code (Auth MissingCredentials) = ApiMissingCredentials"
| "error_code (Auth Revoked) = ApiTokenRevoked"
| "error_code (Capability (ContextWindowExceeded _ _)) = ApiContextWindowExceeded"
| "error_code (Capability (MissingCapability _)) = ApiMissingCapability"
| "error_code (Internal _) = ApiInternalError"
| "error_code (Parse InvalidApiKey) = ApiInvalidApiKey"
| "error_code (Parse (InvalidContentRef _)) = ApiInvalidRequest"
| "error_code (Parse (InvalidModelReference _)) = ApiInvalidModelReference"
| "error_code (Parse (InvalidProviderName _)) = ApiInvalidProviderName"
| "error_code (Parse InvalidSessionToken) = ApiInvalidToken"
| "error_code (Parse (UnknownEffort _)) = ApiUnknownEffort"
| "error_code (Parse (UnknownIntent _)) = ApiUnknownIntent"
| "error_code (Parse (UnknownProvider _)) = ApiUnknownProvider"
| "error_code (Policy _) = ApiPermissionExpansion"
| "error_code (Provider e) = category_code (pe_category e)"
| "error_code (Routing RoutingFallbackExhausted) = ApiFallbackExhausted"
| "error_code (Routing RoutingNoRoute) = ApiNoRoute"
| "error_code (Routing (RoutingOverrideNotAllowed _)) = ApiOverrideNotAllowed"
| "error_code (Routing (UnknownModel _)) = ApiUnknownModel"
| "error_code (Routing (UnsupportedCapability _)) = ApiRoutingUnsupportedCapability"

lemmas response_defs = map_auth_def map_capability_def map_parse_def map_policy_def map_routing_def
  map_provider_def from_code_def api_error_new_def with_details_def

lemma response_code:
  "ar_status (api_response e) = api_code_status (error_code e) \<and>
   ae_code (ar_error (api_response e)) = api_code_as_str (error_code e)"
  by (induction e rule: error_code.induct) (simp_all add: response_defs split: policy_error.split)

text \<open>A wire name determines its code: the names are distinct.\<close>

definition all_codes :: "api_error_code list" where
  "all_codes = [ApiContextLengthExceeded, ApiContextWindowExceeded, ApiCredentialsInQuery,
     ApiFallbackExhausted, ApiForbidden, ApiInternalError,
     ApiInvalidApiKey, ApiInvalidModelReference, ApiInvalidProviderConfiguration,
     ApiInvalidProviderCredentials, ApiInvalidProviderName, ApiInvalidRequest,
     ApiInvalidSessionId, ApiInvalidToken, ApiMissingCapability,
     ApiMissingCredentials, ApiMissingProviderCredentials, ApiModelNotFound,
     ApiNoRoute, ApiNotImplemented, ApiOverrideNotAllowed,
     ApiPermissionExpansion, ApiProviderAuthentication, ApiProviderError,
     ApiProviderUnavailable, ApiProviderUnsupportedCapability, ApiRateLimited,
     ApiRequestTimeout, ApiRoutingUnsupportedCapability, ApiRunInFlight,
     ApiSessionNotFound, ApiStorageError, ApiTokenExpired,
     ApiTokenRevoked, ApiUnknownEffort, ApiUnknownIntent,
     ApiUnknownModel, ApiUnknownProvider]"

lemma in_all_codes: "c \<in> set all_codes"
  by (cases c) (simp_all add: all_codes_def)

lemma distinct_names: "distinct (map api_code_as_str all_codes)"
  by code_simp

lemma api_code_as_str_inj: "api_code_as_str a = api_code_as_str b \<Longrightarrow> a = b"
  using distinct_names in_all_codes unfolding distinct_map inj_on_def by blast

lemma status_range: "400 \<le> api_code_status c \<and> api_code_status c < 600"
  by (cases c) simp_all

end
