(* ===== verification/Invoke.thy ===== *)
theory Invoke
  imports Provider_Api Api_Error
begin

text \<open>
  Calling the chosen model (\<^verbatim>\<open>orchestrator/invoke.rs\<close>) and the failures a run surfaces
  (\<^verbatim>\<open>orchestrator/error.rs\<close>, \<^verbatim>\<open>ResolverError::api_code\<close>).

  A provider is what answers over the network: the record \<open>providers\<close> holds the answers of
  one invocation, indexed by the position in the candidate chain, and whether the turn's
  cancellation token was found tripped before and during each attempt. Every theorem holds
  for all of them.
\<close>

section \<open>Failures of a run\<close>

datatype storage_error = AlreadyExists | Backend string | RecordNotFound | Serialization string

datatype session_error = DatabaseError storage_error | SessionNotFound

datatype crypto_map_error = BadUuid string

datatype orchestrator_error = Busy
  | CryptoFailed crypto_map_error
  | FallbackExhaustedRun
  | InternalFailure string
  | NoActiveRun
  | ProviderFailed provider_error
  | ResolverFailed resolver_error
  | SessionFailed session_error
  | Superseded
  | UnexpectedContinuation

fun preserves_checkpoint :: "orchestrator_error \<Rightarrow> bool" where
  "preserves_checkpoint UnexpectedContinuation = True"
| "preserves_checkpoint _ = False"

fun resolver_api_code :: "resolver_error \<Rightarrow> api_error_code" where
  "resolver_api_code (ContextFailed (WindowExceeded _ _)) = ApiContextWindowExceeded"
| "resolver_api_code (ModelFailed FallbackExhausted) = ApiFallbackExhausted"
| "resolver_api_code (ModelFailed NoLocalModel) = ApiFallbackExhausted"
| "resolver_api_code (ModelFailed (OverrideNotAllowed _)) = ApiOverrideNotAllowed"
| "resolver_api_code (RoutingFailed NoRoute) = ApiNoRoute"

fun provider_api_code :: "provider_error_category \<Rightarrow> api_error_code" where
  "provider_api_code Authentication = ApiProviderAuthentication"
| "provider_api_code ContextLength = ApiContextLengthExceeded"
| "provider_api_code InvalidConfiguration = ApiInvalidProviderConfiguration"
| "provider_api_code InvalidCredentials = ApiInvalidProviderCredentials"
| "provider_api_code InvalidRequest = ApiInvalidRequest"
| "provider_api_code MissingProviderCredentials = ApiMissingProviderCredentials"
| "provider_api_code ModelNotFound = ApiModelNotFound"
| "provider_api_code ProviderUnavailable = ApiProviderUnavailable"
| "provider_api_code RateLimit = ApiRateLimited"
| "provider_api_code Storage = ApiStorageError"
| "provider_api_code Timeout = ApiRequestTimeout"
| "provider_api_code UnsupportedByProvider = ApiProviderUnsupportedCapability"
| "provider_api_code Unknown = ApiProviderError"

fun api_code :: "orchestrator_error \<Rightarrow> api_error_code" where
  "api_code Busy = ApiRunInFlight"
| "api_code (SessionFailed SessionNotFound) = ApiSessionNotFound"
| "api_code (CryptoFailed _) = ApiInternalError"
| "api_code (InternalFailure _) = ApiInternalError"
| "api_code (SessionFailed (DatabaseError _)) = ApiInternalError"
| "api_code Superseded = ApiInternalError"
| "api_code FallbackExhaustedRun = ApiFallbackExhausted"
| "api_code NoActiveRun = ApiInvalidRequest"
| "api_code UnexpectedContinuation = ApiInvalidRequest"
| "api_code (ProviderFailed e) = provider_api_code (pe_category e)"
| "api_code (ResolverFailed e) = resolver_api_code e"

section \<open>The providers\<close>

datatype authentication = NoAuthentication | ApiKeyAuth string | HeadersAuth "(string \<times> string) list"

type_synonym credentials = "provider \<Rightarrow> string option"

definition authenticate :: "provider \<Rightarrow> credentials \<Rightarrow> authentication" where
  "authenticate p creds = (case creds p of Some secret \<Rightarrow> ApiKeyAuth secret | None \<Rightarrow> NoAuthentication)"

record stream_item =
  si_cancelled :: bool  \<comment> \<open>the token was tripped when the loop polled for this item\<close>
  si_item :: "(provider_error, stream_event) result option"  \<comment> \<open>\<open>None\<close>: the stream ended\<close>

record providers =
  pv_configured :: "provider \<Rightarrow> bool"
  pv_cancelled_before :: "nat \<Rightarrow> bool"
  pv_cancelled_during :: "nat \<Rightarrow> bool"
  pv_resolve :: "nat \<Rightarrow> model_reference \<Rightarrow> authentication \<Rightarrow> (provider_error, unit) result"
  pv_complete :: "nat \<Rightarrow> model_reference \<Rightarrow> completion_request \<Rightarrow>
    (provider_error, completion_response) result"
  pv_stream :: "nat \<Rightarrow> model_reference \<Rightarrow> completion_request \<Rightarrow>
    (provider_error, stream_item list) result"

definition resolve_model ::
  "providers \<Rightarrow> nat \<Rightarrow> model_reference \<Rightarrow> credentials \<Rightarrow> (provider_error, unit) result" where
  "resolve_model pv index reference creds =
     (if \<not> pv_configured pv (mr_provider reference)
      then Err \<lparr>pe_category = ModelNotFound,
        pe_message = ''no provider configured for the resolved model'',
        pe_provider = mr_provider reference, pe_model = Some (mr_model reference)\<rparr>
      else pv_resolve pv index reference (authenticate (mr_provider reference) creds))"

section \<open>The fallback walk\<close>

definition candidate_chain :: "resolved_turn \<Rightarrow> model_reference list" where
  "candidate_chain t =
     \<lparr>mr_provider = rd_provider (rt_routing t), mr_model = rd_model (rt_routing t)\<rparr> # rt_fallbacks t"

datatype fallback_outcome = Retry | Fail orchestrator_error

definition classify_failure :: "provider_error \<Rightarrow> bool \<Rightarrow> fallback_outcome" where
  "classify_failure e has_more =
     (if is_fallback_eligible (pe_category e) \<and> has_more then Retry else Fail (ProviderFailed e))"

text \<open>
  \<open>invoke_complete\<close> and \<open>invoke_stream\<close> are one loop around two methods of the model;
  \<open>call\<close> is the method.
\<close>

fun walk_chain ::
  "providers \<Rightarrow> credentials \<Rightarrow>
   (nat \<Rightarrow> model_reference \<Rightarrow> completion_request \<Rightarrow> (provider_error, 'r) result) \<Rightarrow>
   completion_request \<Rightarrow> nat \<Rightarrow> model_reference list \<Rightarrow> (orchestrator_error, 'r) result" where
  "walk_chain pv creds call request index [] = Err FallbackExhaustedRun"
| "walk_chain pv creds call request index (reference # rest) =
     (let has_more = rest \<noteq> [] in
      if pv_cancelled_before pv index then Err Superseded
      else (case resolve_model pv index reference creds of
              Inl e \<Rightarrow>
                (case classify_failure e has_more of
                   Retry \<Rightarrow> walk_chain pv creds call request (Suc index) rest
                 | Fail f \<Rightarrow> Err f)
            | Inr _ \<Rightarrow>
                if pv_cancelled_during pv index then Err Superseded
                else (case call index reference request of
                        Inr response \<Rightarrow> Ok response
                      | Inl e \<Rightarrow>
                          (case classify_failure e has_more of
                             Retry \<Rightarrow> walk_chain pv creds call request (Suc index) rest
                           | Fail f \<Rightarrow> Err f))))"

definition invoke_complete ::
  "providers \<Rightarrow> resolved_turn \<Rightarrow> credentials \<Rightarrow> completion_request \<Rightarrow>
   (orchestrator_error, completion_response) result" where
  "invoke_complete pv t creds request =
     walk_chain pv creds (pv_complete pv) request 0 (candidate_chain t)"

definition invoke_stream ::
  "providers \<Rightarrow> resolved_turn \<Rightarrow> credentials \<Rightarrow> completion_request \<Rightarrow>
   (orchestrator_error, stream_item list) result" where
  "invoke_stream pv t creds request =
     walk_chain pv creds (pv_stream pv) request 0 (candidate_chain t)"

section \<open>Consuming a stream\<close>

datatype turn_event = TurnTextDelta string | TurnReasoningDelta string

record aggregate =
  ag_content :: string
  ag_tool_calls :: "tool_call list"
  ag_usage :: usage

definition no_aggregate :: aggregate where
  "no_aggregate = \<lparr>ag_content = [], ag_tool_calls = [], ag_usage = no_usage\<rparr>"

definition aggregate_response :: "aggregate \<Rightarrow> completion_response" where
  "aggregate_response a =
     \<lparr>cr_content = ag_content a, cr_tool_calls = ag_tool_calls a, cr_usage = ag_usage a,
      cr_finish_reason = (if ag_tool_calls a = [] then StopFinish else ToolCallsFinish)\<rparr>"

text \<open>The first component is what the sink was sent, in order. A finite list that ends
  without a terminal item is a stream whose end the loop then observes.\<close>

fun aggregate_from ::
  "aggregate \<Rightarrow> stream_item list \<Rightarrow>
   turn_event list \<times> (orchestrator_error, completion_response) result" where
  "aggregate_from a [] = ([], Ok (aggregate_response a))"
| "aggregate_from a (i # items) =
     (if si_cancelled i then ([], Err Superseded)
      else (case si_item i of
              None \<Rightarrow> ([], Ok (aggregate_response a))
            | Some (Inl e) \<Rightarrow> ([], Err (ProviderFailed e))
            | Some (Inr event) \<Rightarrow>
                (case event of
                   TextDelta delta \<Rightarrow>
                     (let (sent, r) = aggregate_from (a\<lparr>ag_content := ag_content a @ delta\<rparr>) items
                      in (TurnTextDelta delta # sent, r))
                 | ReasoningDelta delta \<Rightarrow>
                     (let (sent, r) = aggregate_from a items
                      in (TurnReasoningDelta delta # sent, r))
                 | ToolCallRequested call_id name arguments \<Rightarrow>
                     aggregate_from (a\<lparr>ag_tool_calls := ag_tool_calls a @
                       [\<lparr>tc_call_id = call_id, tc_name = name, tc_arguments = arguments\<rparr>]\<rparr>) items
                 | UsageEvent reported \<Rightarrow> aggregate_from (a\<lparr>ag_usage := reported\<rparr>) items
                 | ToolCallStarted _ _ \<Rightarrow> aggregate_from a items
                 | ApprovalRequired _ \<Rightarrow> aggregate_from a items
                 | ToolResult _ _ _ \<Rightarrow> aggregate_from a items
                 | ErrorEvent _ message \<Rightarrow> ([], Err (InternalFailure message))
                 | DoneEvent \<Rightarrow> ([], Ok (aggregate_response a)))))"

definition aggregate_stream ::
  "stream_item list \<Rightarrow> turn_event list \<times> (orchestrator_error, completion_response) result" where
  "aggregate_stream items = aggregate_from no_aggregate items"

definition invoke ::
  "providers \<Rightarrow> resolved_turn \<Rightarrow> credentials \<Rightarrow> completion_request \<Rightarrow> bool \<Rightarrow>
   turn_event list \<times> (orchestrator_error, completion_response) result" where
  "invoke pv t creds request sink =
     (if sink \<and> cap_streaming (md_capabilities (rt_model t))
      then (case invoke_stream pv t creds request of
              Inl e \<Rightarrow> ([], Err e)
            | Inr items \<Rightarrow> aggregate_stream items)
      else if sink
      then (case invoke_complete pv t creds request of
              Inl e \<Rightarrow> ([], Err e)
            | Inr response \<Rightarrow>
                (if cr_content response \<noteq> [] then [TurnTextDelta (cr_content response)] else [],
                 Ok response))
      else ([], invoke_complete pv t creds request))"

section \<open>Lemmas\<close>

lemma provider_codes_agree: "provider_api_code c = category_code c"
  by (cases c) simp_all

text \<open>How an attempt at one model ends.\<close>

definition attempt ::
  "providers \<Rightarrow> credentials \<Rightarrow>
   (nat \<Rightarrow> model_reference \<Rightarrow> completion_request \<Rightarrow> (provider_error, 'r) result) \<Rightarrow>
   completion_request \<Rightarrow> nat \<Rightarrow> model_reference \<Rightarrow> (provider_error, 'r) result" where
  "attempt pv creds call request index reference =
     and_then (resolve_model pv index reference creds) (\<lambda>_. call index reference request)"

definition uncancelled :: "providers \<Rightarrow> bool" where
  "uncancelled pv \<longleftrightarrow> (\<forall>i. \<not> pv_cancelled_before pv i \<and> \<not> pv_cancelled_during pv i)"

lemma walk_chain_step:
  "walk_chain pv creds call request n (reference # rest) = Ok r \<Longrightarrow>
   attempt pv creds call request n reference = Ok r \<or>
   (\<exists>e. attempt pv creds call request n reference = Err e \<and>
      is_fallback_eligible (pe_category e) \<and>
      walk_chain pv creds call request (Suc n) rest = Ok r)"
  by (auto simp: attempt_def classify_failure_def Let_def split: if_splits sum.splits)

text \<open>A reply comes from the first model of the chain that did not fail retryably.\<close>

lemma walk_chain_Ok:
  "walk_chain pv creds call request n refs = Ok r \<Longrightarrow>
   \<exists>i < length refs. attempt pv creds call request (n + i) (refs ! i) = Ok r \<and>
     (\<forall>j < i. \<exists>e. attempt pv creds call request (n + j) (refs ! j) = Err e \<and>
        is_fallback_eligible (pe_category e))"
proof (induction refs arbitrary: n)
  case (Cons a refs)
  consider "attempt pv creds call request n a = Ok r"
    | e where "attempt pv creds call request n a = Err e" "is_fallback_eligible (pe_category e)"
      "walk_chain pv creds call request (Suc n) refs = Ok r"
    using walk_chain_step [OF Cons.prems] by blast
  then show ?case
  proof cases
    case 1
    then show ?thesis by (intro exI [of _ 0]) simp
  next
    case 2
    obtain i where "i < length refs" "attempt pv creds call request (Suc n + i) (refs ! i) = Ok r"
      "\<forall>j < i. \<exists>e. attempt pv creds call request (Suc n + j) (refs ! j) = Err e \<and>
        is_fallback_eligible (pe_category e)" using Cons.IH [OF 2(3)] by blast
    then show ?thesis using 2(1,2)
      by (intro exI [of _ "Suc i"]) (auto simp: less_Suc_eq_0_disj)
  qed
qed simp

lemma walk_chain_answers:
  assumes "uncancelled pv" "i < length refs" "attempt pv creds call request (n + i) (refs ! i) = Ok r"
    "\<forall>j < i. \<exists>e. attempt pv creds call request (n + j) (refs ! j) = Err e \<and>
       is_fallback_eligible (pe_category e)"
  shows "walk_chain pv creds call request n refs = Ok r"
  using assms(2-4)
proof (induction refs arbitrary: n i)
  case (Cons a refs)
  show ?case
  proof (cases i)
    case 0
    then show ?thesis using Cons.prems assms(1)
      by (auto simp: attempt_def uncancelled_def result_simps split: sum.splits)
  next
    case (Suc k)
    obtain e where e: "attempt pv creds call request n a = Err e" "is_fallback_eligible (pe_category e)"
      using Cons.prems(3) Suc by fastforce
    have "\<forall>j < k. \<exists>e. attempt pv creds call request (Suc n + j) (refs ! j) = Err e \<and>
        is_fallback_eligible (pe_category e)"
      using Cons.prems(3) Suc by fastforce
    then have "walk_chain pv creds call request (Suc n) refs = Ok r"
      using Cons.IH [of k "Suc n"] Cons.prems(1,2) Suc by simp
    then show ?thesis using e Cons.prems(1) Suc assms(1)
      by (auto simp: attempt_def uncancelled_def classify_failure_def result_simps Let_def split: sum.splits)
  qed
qed simp

text \<open>The loop ends before its last line: the last model's failure is surfaced as such.\<close>

lemma walk_chain_exhausted:
  "refs \<noteq> [] \<Longrightarrow> walk_chain pv creds call request n refs \<noteq> Err FallbackExhaustedRun"
proof (induction refs arbitrary: n)
  case (Cons a refs)
  then show ?case
    by (cases refs) (auto simp: classify_failure_def Let_def split: sum.splits)
qed simp

lemma walk_chain_Err:
  "walk_chain pv creds call request n refs = Err f \<Longrightarrow> refs \<noteq> [] \<Longrightarrow>
   f = Superseded \<or> (\<exists>i < length refs. \<exists>e. f = ProviderFailed e \<and>
     attempt pv creds call request (n + i) (refs ! i) = Err e \<and>
     (Suc i = length refs \<or> \<not> is_fallback_eligible (pe_category e)))"
proof (induction refs arbitrary: n)
  case (Cons a refs)
  have step: "f = Superseded \<or>
      (\<exists>e. attempt pv creds call request n a = Err e \<and>
         (f = ProviderFailed e \<and> (refs = [] \<or> \<not> is_fallback_eligible (pe_category e)) \<or>
          refs \<noteq> [] \<and> walk_chain pv creds call request (Suc n) refs = Err f))"
    using Cons.prems(1)
    by (auto simp: attempt_def classify_failure_def Let_def split: if_splits sum.splits)
  then consider "f = Superseded"
    | e where "attempt pv creds call request n a = Err e" "f = ProviderFailed e"
      "refs = [] \<or> \<not> is_fallback_eligible (pe_category e)"
    | "refs \<noteq> []" "walk_chain pv creds call request (Suc n) refs = Err f"
    by blast
  then show ?case
  proof cases
    case 2
    then show ?thesis by (intro disjI2 exI [of _ 0]) auto
  next
    case 3
    show ?thesis
    proof (cases "f = Superseded")
      case False
      then obtain i e where "i < length refs" "f = ProviderFailed e"
        "attempt pv creds call request (Suc n + i) (refs ! i) = Err e"
        "Suc i = length refs \<or> \<not> is_fallback_eligible (pe_category e)"
        using Cons.IH [OF 3(2,1)] by blast
      then show ?thesis by (intro disjI2 exI [of _ "Suc i"]) auto
    qed simp
  qed simp
qed simp

lemma aggregate_text:
  "aggregate_from a items = (sent, Ok r) \<Longrightarrow>
   cr_content r = ag_content a @ concat (List.map_filter
     (\<lambda>e. case e of TurnTextDelta d \<Rightarrow> Some d | TurnReasoningDelta _ \<Rightarrow> None) sent)"
proof (induction a items arbitrary: sent rule: aggregate_from.induct)
  case (2 a i items)
  then show ?case
    by (auto simp: aggregate_response_def map_filter_simps
        split: if_splits option.splits sum.splits stream_event.splits prod.splits)
qed (auto simp: aggregate_response_def map_filter_simps)

end
