(* ===== verification/Content_Store.thy ===== *)
theory Content_Store
  imports Invoke
begin

text \<open>
  The rows of one session and their sealed contents: content references
  (\<^verbatim>\<open>smista-core/src/api/content_ref.rs\<close>), secret contents (\<^verbatim>\<open>smista-storage/src/types.rs\<close>),
  their mapping to tables (\<^verbatim>\<open>orchestrator/crypto.rs\<close>), the run state
  (\<^verbatim>\<open>entity/session_run_state.rs\<close>) and the session rows a run reads and writes.

  Record ids are the uuids as text; every row of the store belongs to the one user and
  session it models, which is what the ownership checks of the storage layer establish.
  Timestamps are left out: rows are listed in the order they were written, as
  \<open>ORDER BY created_at\<close> lists them.
\<close>

section \<open>Content references\<close>

datatype content_ref = MessageRef string | ToolCallRef string | DiffRef string | PlanRef string
  | MemoryRef string | TraceRef string | RunInputRef string

fun kind_tag :: "content_ref \<Rightarrow> string" where
  "kind_tag (MessageRef _) = ''message''"
| "kind_tag (ToolCallRef _) = ''tool_call''"
| "kind_tag (DiffRef _) = ''diff''"
| "kind_tag (PlanRef _) = ''plan''"
| "kind_tag (MemoryRef _) = ''memory''"
| "kind_tag (TraceRef _) = ''trace''"
| "kind_tag (RunInputRef _) = ''run_input''"

fun ref_id :: "content_ref \<Rightarrow> string" where
  "ref_id (MessageRef i) = i"
| "ref_id (ToolCallRef i) = i"
| "ref_id (DiffRef i) = i"
| "ref_id (PlanRef i) = i"
| "ref_id (MemoryRef i) = i"
| "ref_id (TraceRef i) = i"
| "ref_id (RunInputRef i) = i"

definition ref_separator :: char where
  "ref_separator = CHR '':''"

definition show_ref :: "content_ref \<Rightarrow> string" where
  "show_ref r = kind_tag r @ ref_separator # ref_id r"

definition ref_from_str :: "string \<Rightarrow> (core_error, content_ref) result" where
  "ref_from_str s =
     (case split_once ref_separator s of
        None \<Rightarrow> Err (Parse (InvalidContentRef s))
      | Some (kind, i) \<Rightarrow>
          if i = [] then Err (Parse (InvalidContentRef s))
          else if kind = ''message'' then Ok (MessageRef i)
          else if kind = ''tool_call'' then Ok (ToolCallRef i)
          else if kind = ''diff'' then Ok (DiffRef i)
          else if kind = ''plan'' then Ok (PlanRef i)
          else if kind = ''memory'' then Ok (MemoryRef i)
          else if kind = ''trace'' then Ok (TraceRef i)
          else if kind = ''run_input'' then Ok (RunInputRef i)
          else Err (Parse (InvalidContentRef s)))"

interpretation content_reference: text_codec show_ref ref_from_str "\<lambda>r. ref_id r \<noteq> []"
proof
  fix r :: content_ref and s
  have tag: "ref_separator \<notin> set (kind_tag r)"
    by (cases r) (simp_all add: ref_separator_def)
  show "ref_from_str (show_ref r) = Ok r" if "ref_id r \<noteq> []"
    unfolding ref_from_str_def show_ref_def split_once_append [OF tag] using that by (cases r) simp_all
  show "ref_id r \<noteq> []" if "ref_from_str s = Ok r"
    using that by (auto simp: ref_from_str_def split: option.splits prod.splits if_splits)
qed

section \<open>Secret contents\<close>

record content_envelope =
  ce_version :: nat
  ce_algorithm :: string
  ce_key_id :: string
  ce_nonce :: string
  ce_ciphertext :: string

record encrypted_payload =
  ep_version :: nat
  ep_algorithm :: string
  ep_key_id :: string
  ep_nonce :: string
  ep_ciphertext :: string

datatype secret_content = Plaintext string | Encrypted content_envelope

fun as_plaintext :: "secret_content \<Rightarrow> string option" where
  "as_plaintext (Plaintext t) = Some t"
| "as_plaintext (Encrypted _) = None"

definition payload_to_envelope :: "encrypted_payload \<Rightarrow> content_envelope" where
  "payload_to_envelope p =
     \<lparr>ce_version = ep_version p, ce_algorithm = ep_algorithm p, ce_key_id = ep_key_id p,
      ce_nonce = ep_nonce p, ce_ciphertext = ep_ciphertext p\<rparr>"

definition envelope_to_payload :: "content_envelope \<Rightarrow> encrypted_payload" where
  "envelope_to_payload e =
     \<lparr>ep_version = ce_version e, ep_algorithm = ce_algorithm e, ep_key_id = ce_key_id e,
      ep_nonce = ce_nonce e, ep_ciphertext = ce_ciphertext e\<rparr>"

lemma envelope_payload [simp]:
  "envelope_to_payload (payload_to_envelope p) = p"
  "payload_to_envelope (envelope_to_payload e) = e"
  by (simp_all add: payload_to_envelope_def envelope_to_payload_def)

section \<open>Tables\<close>

fun content_ref_table :: "content_ref \<Rightarrow> string" where
  "content_ref_table (MessageRef _) = ''session_message''"
| "content_ref_table (ToolCallRef _) = ''session_tool_call''"
| "content_ref_table (DiffRef _) = ''session_diff''"
| "content_ref_table (PlanRef _) = ''session_plan''"
| "content_ref_table (MemoryRef _) = ''context_memory''"
| "content_ref_table (TraceRef _) = ''trace_event''"
| "content_ref_table (RunInputRef _) = ''session_run_input''"

definition record_id_to_content_ref :: "string \<Rightarrow> string \<Rightarrow> content_ref option" where
  "record_id_to_content_ref table i =
     (if table = ''session_message'' then Some (MessageRef i)
      else if table = ''session_tool_call'' then Some (ToolCallRef i)
      else if table = ''session_diff'' then Some (DiffRef i)
      else if table = ''session_plan'' then Some (PlanRef i)
      else if table = ''context_memory'' then Some (MemoryRef i)
      else if table = ''trace_event'' then Some (TraceRef i)
      else if table = ''session_run_input'' then Some (RunInputRef i)
      else None)"

lemma table_ref: "record_id_to_content_ref (content_ref_table r) (ref_id r) = Some r"
  by (cases r) (simp_all add: record_id_to_content_ref_def)

text \<open>\<open>BTreeMap<ContentRef, _>\<close>, read by lookup; the order of its keys is not modelled.\<close>

type_synonym 'v ref_map = "(content_ref \<times> 'v) list"

fun ref_insert :: "content_ref \<Rightarrow> 'v \<Rightarrow> 'v ref_map \<Rightarrow> 'v ref_map" where
  "ref_insert k v [] = [(k, v)]"
| "ref_insert k v ((l, w) # m) = (if k = l then (k, v) # m else (l, w) # ref_insert k v m)"

lemma map_of_ref_insert: "map_of (ref_insert k v m) = (map_of m)(k \<mapsto> v)"
  by (induction k v m rule: ref_insert.induct) (auto simp: fun_eq_iff)

section \<open>The run state\<close>

datatype resume_step = BuildPrompt | InvokeModel | NextTurn | Finalize

record tool_wait =
  tw_call_id :: string
  tw_tool_name :: string
  tw_requires_approval :: tool_approval
  tw_records_diff :: bool

datatype pending_write =
    PendingMessage string message_role provider string
  | PendingToolCall string string
  | PendingPlan string
  | PendingDiff string string

datatype approval_kind = RemoteDisclosure | CostLimit | PlanApproval

datatype run_phase = Idle
  | AwaitingDecrypt "(string \<times> string) list" resume_step
  | AwaitingTool "tool_wait list" resume_step "pending_write list"
  | AwaitingApproval string approval_kind json resume_step "pending_write list"
  | AwaitingEncrypt "pending_write list" resume_step

record active_turn =
  at_lease :: string

record run_state =
  rs_run_id :: string
  rs_turn :: nat
  rs_phase :: run_phase
  rs_active :: "active_turn option"

definition new_run_state :: "string \<Rightarrow> run_phase \<Rightarrow> run_state" where
  "new_run_state run_id phase =
     \<lparr>rs_run_id = run_id, rs_turn = 0, rs_phase = phase, rs_active = None\<rparr>"

fun pending_content_ref :: "pending_write \<Rightarrow> content_ref" where
  "pending_content_ref (PendingMessage i _ _ _) = MessageRef i"
| "pending_content_ref (PendingToolCall i _) = ToolCallRef i"
| "pending_content_ref (PendingPlan i) = PlanRef i"
| "pending_content_ref (PendingDiff i _) = DiffRef i"

section \<open>Rows\<close>

datatype tool_call_status = PendingCall | RunningCall | CompletedCall | FailedCall
datatype diff_status = ProposedDiff | AppliedDiff | RejectedDiff
datatype plan_status = DraftPlan | ApprovedPlan | RejectedPlan
datatype approval_decision = Approved | Rejected

record message_row =
  mr_id :: string
  mr_role :: message_role
  mr_route_provider :: provider
  mr_route_model :: string
  mr_content :: secret_content

record tool_call_row =
  tr_id :: string
  tr_tool_name :: string
  tr_status :: tool_call_status
  tr_arguments :: secret_content
  tr_result :: "secret_content option"
  tr_error :: "secret_content option"

record plan_row =
  pr_id :: string
  pr_path :: string
  pr_status :: plan_status
  pr_content :: "secret_content option"

record diff_row =
  dr_id :: string
  dr_path :: string
  dr_status :: diff_status
  dr_content :: secret_content

record approval_row =
  ar_target_type :: string
  ar_target_id :: string
  ar_decision :: approval_decision
  ar_reason :: "string option"

record memory_row =
  mm_id :: string
  mm_key :: "string option"
  mm_content :: secret_content

record trace_row =
  tx_id :: string
  tx_content :: secret_content

end
