(* ===== verification/Registry.thy ===== *)
theory Registry
  imports Prelude "HOL-Library.Word"
begin

text \<open>
  The registry of in-flight turns (\<^verbatim>\<open>orchestrator/registry.rs\<close>): per session the token of
  the turn that is live, superseded and cancelled when a newer turn begins.

  A cancellation token is a shared object: it is its index in the order of creation, and
  the registry state lists the tokens that were tripped. The nonce is the \<open>u64\<close> the atomic
  counter hands out, wrap-around included.
\<close>

section \<open>Tokens and the registry\<close>

record turn_token =
  tt_nonce :: "64 word"
  tt_token :: nat  \<comment> \<open>identity of the cancellation token\<close>

record in_flight =
  fl_live :: "string \<Rightarrow> turn_token option"
  fl_counter :: "64 word"
  fl_created :: nat  \<comment> \<open>cancellation tokens created so far\<close>
  fl_cancelled :: "nat list"

definition empty_registry :: in_flight where
  "empty_registry = \<lparr>fl_live = (\<lambda>_. None), fl_counter = 0, fl_created = 0, fl_cancelled = []\<rparr>"

definition begin_turn :: "string \<Rightarrow> in_flight \<Rightarrow> turn_token \<times> in_flight" where
  "begin_turn session r =
     (let token = \<lparr>tt_nonce = fl_counter r, tt_token = fl_created r\<rparr>
      in (token, r\<lparr>fl_counter := fl_counter r + 1, fl_created := Suc (fl_created r),
                   fl_live := (fl_live r)(session \<mapsto> token),
                   fl_cancelled := (case fl_live r session of
                      Some previous \<Rightarrow> tt_token previous # fl_cancelled r
                    | None \<Rightarrow> fl_cancelled r)\<rparr>))"

definition cancel_turn :: "string \<Rightarrow> in_flight \<Rightarrow> in_flight" where
  "cancel_turn session r =
     (case fl_live r session of
        Some live \<Rightarrow> r\<lparr>fl_cancelled := tt_token live # fl_cancelled r\<rparr>
      | None \<Rightarrow> r)"

definition finish_turn :: "string \<Rightarrow> turn_token \<Rightarrow> in_flight \<Rightarrow> in_flight" where
  "finish_turn session token r =
     (if (\<exists>live\<in>set_option (fl_live r session). tt_nonce live = tt_nonce token)
      then r\<lparr>fl_live := (fl_live r)(session := None)\<rparr> else r)"

definition is_cancelled :: "in_flight \<Rightarrow> turn_token \<Rightarrow> bool" where
  "is_cancelled r token \<longleftrightarrow> tt_token token \<in> set (fl_cancelled r)"

section \<open>The contract of a registry of turns\<close>

text \<open>
  What the run loop relies on, for any registry: \<open>live\<close> names the turn of a session,
  \<open>good\<close> is the invariant, \<open>room\<close> says another turn may begin, and \<open>issued\<close> says a token came from the registry and is still
  told apart from the ones issued since.
\<close>

locale turn_registry =
  fixes start :: "'s \<Rightarrow> 'r \<Rightarrow> 't \<times> 'r"
    and stop :: "'s \<Rightarrow> 't \<Rightarrow> 'r \<Rightarrow> 'r"
    and live :: "'r \<Rightarrow> 's \<Rightarrow> 't option"
    and cancelled :: "'r \<Rightarrow> 't \<Rightarrow> bool"
    and good :: "'r \<Rightarrow> bool"
    and room :: "'r \<Rightarrow> bool"
    and issued :: "'r \<Rightarrow> 't \<Rightarrow> bool"
  assumes good_start: "good r \<Longrightarrow> room r \<Longrightarrow> start s r = (t, r') \<Longrightarrow> good r'"
    and good_stop: "good r \<Longrightarrow> good (stop s t r)"
    and live_start: "good r \<Longrightarrow> start s r = (t, r') \<Longrightarrow> live r' = (live r)(s \<mapsto> t)"
    and fresh_start: "good r \<Longrightarrow> start s r = (t, r') \<Longrightarrow> \<not> cancelled r' t"
    and supersedes: "good r \<Longrightarrow> start s r = (t, r') \<Longrightarrow> live r s = Some p \<Longrightarrow> cancelled r' p"
    and cancel_only: "good r \<Longrightarrow> start s r = (t, r') \<Longrightarrow> issued r q \<Longrightarrow> cancelled r' q \<Longrightarrow>
      cancelled r q \<or> live r s = Some q"
    and live_stop: "good r \<Longrightarrow> issued r t \<Longrightarrow>
      live (stop s t r) = (if live r s = Some t then (live r)(s := None) else live r)"
    and cancelled_stop: "cancelled (stop s t r) = cancelled r"
begin

text \<open>A turn that ends after it was superseded leaves the newer turn in place.\<close>

lemma stale_stop:
  assumes "good r" "issued r old" "live r s = Some new" "new \<noteq> old"
  shows "live (stop s old r) s = Some new"
  using live_stop [OF assms(1,2)] assms(3,4) by simp

lemma own_stop:
  assumes "good r" "issued r t" "live r s = Some t"
  shows "live (stop s t r) s = None"
  using live_stop [OF assms(1,2)] assms(3) by simp

lemma other_session:
  assumes "good r" "start s r = (t, r')" "s' \<noteq> s"
  shows "live r' s' = live r s'"
  using live_start [OF assms(1,2)] assms(3) by simp

lemma other_uncancelled:
  assumes "good r" "start s r = (t, r')" "issued r q" "\<not> cancelled r q" "live r s \<noteq> Some q"
  shows "\<not> cancelled r' q"
  using cancel_only [OF assms(1,2,3)] assms(4,5) by blast

end

section \<open>The registry keeps the contract\<close>

text \<open>
  The counter counts the tokens created, so two nonces coincide only for tokens whose
  creations are a multiple of \<open>2 ^ 64\<close> apart.
\<close>

definition registry_good :: "in_flight \<Rightarrow> bool" where
  "registry_good r \<longleftrightarrow> fl_counter r = of_nat (fl_created r) \<and> fl_created r < 2 ^ 64 \<and>
     (\<forall>s t. fl_live r s = Some t \<longrightarrow> tt_token t < fl_created r \<and> tt_nonce t = of_nat (tt_token t)) \<and>
     (\<forall>k\<in>set (fl_cancelled r). k < fl_created r)"

definition token_issued :: "in_flight \<Rightarrow> turn_token \<Rightarrow> bool" where
  "token_issued r t \<longleftrightarrow> tt_token t < fl_created r \<and> tt_nonce t = of_nat (tt_token t)"

lemma nonce_inj:
  assumes "a < 2 ^ 64" "b < 2 ^ 64" "(of_nat a :: 64 word) = of_nat b"
  shows "a = b"
proof -
  have "unat (of_nat a :: 64 word) = a" "unat (of_nat b :: 64 word) = b"
    using assms(1,2) by (simp_all add: unat_of_nat)
  then show ?thesis using assms(3) by metis
qed

lemma token_eqI: "tt_token a = tt_token b \<Longrightarrow> tt_nonce a = tt_nonce b \<Longrightarrow> a = (b :: turn_token)"
  by simp

lemma finish_live:
  assumes "registry_good r" "token_issued r t"
  shows "fl_live (finish_turn s t r) =
    (if fl_live r s = Some t then (fl_live r)(s := None) else fl_live r)"
proof (cases "fl_live r s")
  case (Some l)
  have l: "tt_token l < fl_created r" "tt_nonce l = of_nat (tt_token l)"
    and t: "tt_token t < fl_created r" "tt_nonce t = of_nat (tt_token t)"
    and bound: "fl_created r < 2 ^ 64"
    using assms Some by (auto simp: registry_good_def token_issued_def)
  have "tt_token l < 2 ^ 64" "tt_token t < 2 ^ 64"
    using l(1) t(1) bound by (blast intro: less_trans)+
  with l(2) t(2) have "tt_nonce l = tt_nonce t \<longleftrightarrow> l = t"
    using nonce_inj by (metis token_eqI)
  with Some show ?thesis by (auto simp: finish_turn_def)
qed (simp add: finish_turn_def)

text \<open>The bound leaves room for one more token: the registry of a process that has begun
  fewer than \<open>2 ^ 64 - 1\<close> turns.\<close>

definition registry_room :: "in_flight \<Rightarrow> bool" where
  "registry_room r \<longleftrightarrow> Suc (fl_created r) < 2 ^ 64"

lemma begin_good:
  "registry_good r \<Longrightarrow> registry_room r \<Longrightarrow> begin_turn s r = (t, r') \<Longrightarrow> registry_good r'"
  by (auto simp: registry_good_def registry_room_def begin_turn_def Let_def less_Suc_eq
      split: option.splits if_splits)

lemma finish_good: "registry_good r \<Longrightarrow> registry_good (finish_turn s t r)"
  by (auto simp: registry_good_def finish_turn_def)

lemma begin_issued: "registry_good r \<Longrightarrow> begin_turn s r = (t, r') \<Longrightarrow> token_issued r' t"
  by (auto simp: registry_good_def token_issued_def begin_turn_def Let_def)


interpretation registry: turn_registry begin_turn finish_turn fl_live is_cancelled
  registry_good registry_room token_issued
proof
  fix r r' :: in_flight and s :: string and t q p :: turn_token
  assume good: "registry_good r"
  show "registry_good (finish_turn s t r)" by (rule finish_good [OF good])
  show "fl_live (finish_turn s t r) =
      (if fl_live r s = Some t then (fl_live r)(s := None) else fl_live r)" if "token_issued r t"
    by (rule finish_live [OF good that])
  assume start: "begin_turn s r = (t, r')"
  show "registry_good r'" if "registry_room r" by (rule begin_good [OF good that start])
  show "fl_live r' = (fl_live r)(s \<mapsto> t)" using start by (auto simp: begin_turn_def Let_def)
  show "\<not> is_cancelled r' t"
  proof -
    have "k < fl_created r" if "k \<in> set (fl_cancelled r)" for k
      using good that by (simp add: registry_good_def)
    moreover have "tt_token l < fl_created r" if "fl_live r s = Some l" for l
      using good that by (auto simp: registry_good_def)
    ultimately show ?thesis
      using start by (fastforce simp: is_cancelled_def begin_turn_def Let_def split: option.splits)
  qed
  show "is_cancelled r' p" if "fl_live r s = Some p"
    using start that by (auto simp: is_cancelled_def begin_turn_def Let_def)
  show "is_cancelled r q \<or> fl_live r s = Some q" if q: "token_issued r q" "is_cancelled r' q"
  proof (cases "fl_live r s")
    case (Some l)
    show ?thesis
    proof (cases "tt_token q = tt_token l")
      case True
      then have "q = l" using good Some q(1)
        by (intro token_eqI) (simp_all add: registry_good_def token_issued_def)
      then show ?thesis using Some by simp
    next
      case False
      then show ?thesis using q(2) start Some by (auto simp: is_cancelled_def begin_turn_def Let_def)
    qed
  qed (use q start in \<open>auto simp: is_cancelled_def begin_turn_def Let_def\<close>)
next
  show "is_cancelled (finish_turn s t r) = is_cancelled r" for s t r
    by (simp add: fun_eq_iff is_cancelled_def finish_turn_def)
qed

lemma empty_good: "registry_good empty_registry"
  by (simp add: registry_good_def empty_registry_def)

section \<open>Turns of one process\<close>

text \<open>
  The registry as the requests of a process drive it, in any interleaving. \<open>started\<close>
  records, for the proofs, which session each token was created for and which turns ended.
\<close>

record history =
  hi_registry :: in_flight
  hi_started :: "(string \<times> turn_token) list"
  hi_ended :: "turn_token list"

inductive registry_step :: "history \<Rightarrow> history \<Rightarrow> bool" where
  Begin: "registry_room (hi_registry h) \<Longrightarrow> begin_turn s (hi_registry h) = (t, r) \<Longrightarrow>
     registry_step h \<lparr>hi_registry = r, hi_started = (s, t) # hi_started h, hi_ended = hi_ended h\<rparr>"
| End: "(s, t) \<in> set (hi_started h) \<Longrightarrow>
     registry_step h \<lparr>hi_registry = finish_turn s t (hi_registry h), hi_started = hi_started h,
       hi_ended = t # hi_ended h\<rparr>"

inductive_cases registry_stepE: "registry_step h h'"

inductive registry_run :: "history \<Rightarrow> bool" where
  Start: "registry_run \<lparr>hi_registry = empty_registry, hi_started = [], hi_ended = []\<rparr>"
| Step: "registry_run h \<Longrightarrow> registry_step h h' \<Longrightarrow> registry_run h'"

text \<open>A turn that has neither ended nor been cancelled is the live one of its session.\<close>

definition history_good :: "history \<Rightarrow> bool" where
  "history_good h \<longleftrightarrow> registry_good (hi_registry h) \<and>
     (\<forall>(s, t)\<in>set (hi_started h). token_issued (hi_registry h) t \<and>
        (t \<in> set (hi_ended h) \<or> is_cancelled (hi_registry h) t \<or> fl_live (hi_registry h) s = Some t))"

lemma issued_begin: "token_issued r q \<Longrightarrow> begin_turn s r = (t, r') \<Longrightarrow> token_issued r' q"
  by (auto simp: token_issued_def begin_turn_def Let_def)

lemma cancelled_begin: "is_cancelled r q \<Longrightarrow> begin_turn s r = (t, r') \<Longrightarrow> is_cancelled r' q"
  by (auto simp: is_cancelled_def begin_turn_def Let_def split: option.splits)

lemma issued_finish: "token_issued (finish_turn s t r) q \<longleftrightarrow> token_issued r q"
  by (simp add: token_issued_def finish_turn_def)

lemma history_step: "registry_step h h' \<Longrightarrow> history_good h \<Longrightarrow> history_good h'"
proof (induction rule: registry_step.induct)
  case (Begin h s t r)
  have good: "registry_good (hi_registry h)" using Begin.prems by (simp add: history_good_def)
  have r: "registry_good r" "token_issued r t" "fl_live r = (fl_live (hi_registry h))(s \<mapsto> t)"
    using registry.good_start [OF good Begin.hyps] begin_issued [OF good Begin.hyps(2)]
      registry.live_start [OF good Begin.hyps(2)] by auto
  have "q \<in> set (hi_ended h) \<or> is_cancelled r q \<or> fl_live r u = Some q" "token_issued r q"
    if "(u, q) \<in> set (hi_started h)" for u q
  proof -
    from that Begin.prems have q: "token_issued (hi_registry h) q"
      "q \<in> set (hi_ended h) \<or> is_cancelled (hi_registry h) q \<or> fl_live (hi_registry h) u = Some q"
      by (auto simp: history_good_def)
    show "token_issued r q" using issued_begin [OF q(1) Begin.hyps(2)] .
    show "q \<in> set (hi_ended h) \<or> is_cancelled r q \<or> fl_live r u = Some q"
      using q(2) r(3) cancelled_begin [OF _ Begin.hyps(2)]
        registry.supersedes [OF good Begin.hyps(2)] by (cases "u = s") auto
  qed
  then show ?case using r by (auto simp: history_good_def)
next
  case (End s t h)
  then have good: "registry_good (hi_registry h)" and t: "token_issued (hi_registry h) t"
    by (auto simp: history_good_def)
  have "q \<in> set (t # hi_ended h) \<or> is_cancelled (hi_registry h) q \<or>
      fl_live (finish_turn s t (hi_registry h)) u = Some q" "token_issued (hi_registry h) q"
    if "(u, q) \<in> set (hi_started h)" for u q
    using that End.prems registry.live_stop [OF good t, of s] by (auto simp: history_good_def)
  then show ?case
    using registry.good_stop [OF good]
    by (auto simp: history_good_def issued_finish registry.cancelled_stop)
qed

lemma registry_run_good: "registry_run h \<Longrightarrow> history_good h"
  by (induction rule: registry_run.induct)
    (auto intro: history_step, simp add: history_good_def empty_good)

end
