(* ===== verification/Run_Store.thy ===== *)
theory Run_Store
  imports Content_Store Registry
begin

text \<open>
  The state a run reads and writes, the effects of its operations, and the storage
  operations themselves (\<^verbatim>\<open>session.rs\<close>, \<^verbatim>\<open>smista-storage/src/database/surreal.rs\<close>,
  \<^verbatim>\<open>orchestrator/persist.rs\<close>, \<^verbatim>\<open>orchestrator/trace_emit.rs\<close>).

  A computation takes the store and either does not return (\<open>None\<close>) or returns an
  outcome and the store it leaves, errors included: what was written before an error stays
  written. Any storage operation can fail: \<open>st_faults\<close> says which of them do, by their
  position in the history of the session, and every theorem holds for all fault patterns.

  Third-party code is the record \<open>runtime\<close>: uuids, the JSON codec of the persisted bundle
  and trace payloads, the catalogs the providers list and what they answer, by round.
\<close>

section \<open>Run inputs\<close>

record execute_policy =
  xp_classification :: classification_config
  xp_routing :: routing_policy
  xp_tools :: tools_config
  xp_privacy :: privacy_policy

record local_preferences =
  lp_auto_apply :: bool
  lp_local_only :: bool
  lp_no_network :: bool

record execute_request =
  xr_input :: task_input
  xr_workspace :: workspace
  xr_policy :: execute_policy
  xr_local_preferences :: local_preferences
  xr_attachments :: attachments

record run_input_bundle =
  rb_version :: nat
  rb_input :: task_input
  rb_attachments :: attachments
  rb_git_diff :: "string option"

record workspace_meta =
  wm_root :: string
  wm_git_branch :: "string option"
  wm_referenced_paths :: "string list"
  wm_active_file :: "string option"

record run_input_meta =
  ri_policy :: execute_policy
  ri_local_preferences :: local_preferences
  ri_workspace :: workspace_meta

definition bundle_version :: nat where "bundle_version = 1"

definition no_attachments :: attachments where
  "no_attachments = \<lparr>at_files = [], at_instructions = [], at_invoked_skills = [], at_available_skills = []\<rparr>"

definition for_injection :: "string \<Rightarrow> run_input_bundle" where
  "for_injection text =
     \<lparr>rb_version = bundle_version,
      rb_input = \<lparr>ti_text = text, ti_command = None, ti_explicit_model = None\<rparr>,
      rb_attachments = no_attachments, rb_git_diff = None\<rparr>"

definition split_execute_request :: "execute_request \<Rightarrow> run_input_meta \<times> run_input_bundle" where
  "split_execute_request r =
     (\<lparr>ri_policy = xr_policy r, ri_local_preferences = xr_local_preferences r,
       ri_workspace = \<lparr>wm_root = ws_root (xr_workspace r), wm_git_branch = ws_git_branch (xr_workspace r),
         wm_referenced_paths = ws_referenced_paths (xr_workspace r),
         wm_active_file = ws_active_file (xr_workspace r)\<rparr>\<rparr>,
      \<lparr>rb_version = bundle_version, rb_input = xr_input r, rb_attachments = xr_attachments r,
       rb_git_diff = ws_git_diff (xr_workspace r)\<rparr>)"

definition rebuild_workspace :: "run_input_meta \<Rightarrow> run_input_bundle \<Rightarrow> workspace" where
  "rebuild_workspace meta bundle =
     \<lparr>ws_root = wm_root (ri_workspace meta), ws_git_branch = wm_git_branch (ri_workspace meta),
      ws_git_diff = rb_git_diff bundle, ws_referenced_paths = wm_referenced_paths (ri_workspace meta),
      ws_active_file = wm_active_file (ri_workspace meta)\<rparr>"

lemma rebuild_split:
  "split_execute_request r = (meta, bundle) \<Longrightarrow> rebuild_workspace meta bundle = xr_workspace r"
  by (auto simp: split_execute_request_def rebuild_workspace_def)

record run_input_row =
  iw_run_id :: string
  iw_meta :: run_input_meta
  iw_plan_active :: bool
  iw_content :: secret_content

section \<open>Traces\<close>

datatype trace_payload =
    ClassificationTrace classification
  | RoutingTrace provider string "string option" bool bool string
  | ContextTrace "string option" candidate_kind bool string
  | MessageTrace message_role provider string
  | ToolCallTrace string tool_call_status "json option"
  | ApprovalTrace string string approval_decision "string option"
  | CostTrace provider string nat nat "rat option"

section \<open>The store\<close>

record store =
  st_session_id :: string
  st_open :: bool
  st_encrypted :: bool
  st_run_state :: "run_state option"
  st_run_input :: "run_input_row option"
  st_messages :: "message_row list"
  st_tool_calls :: "tool_call_row list"
  st_plans :: "plan_row list"
  st_diffs :: "diff_row list"
  st_approvals :: "approval_row list"
  st_decisions :: "routing_decision list"
  st_references :: "context_reference list"
  st_context_memory :: "memory_row list"
  st_user_memory :: "memory_fact list"
  st_traces :: "trace_row list"
  st_minted :: nat  \<comment> \<open>uuids minted so far\<close>
  st_clock :: nat  \<comment> \<open>storage operations so far\<close>
  st_faults :: "nat \<Rightarrow> storage_error option"
  st_rounds :: nat  \<comment> \<open>model invocations so far\<close>
  st_sent :: "turn_event list"  \<comment> \<open>what the sink was sent\<close>
  st_registry :: in_flight  \<comment> \<open>the process's in-flight turns\<close>

record runtime =
  en_externs :: externs
  en_uuid :: "nat \<Rightarrow> string"  \<comment> \<open>\<open>Uuid::now_v7\<close>\<close>
  en_parse_uuid :: "string \<Rightarrow> string option"  \<comment> \<open>\<open>Uuid::parse_str\<close>, as canonical text\<close>
  en_encode :: "run_input_bundle \<Rightarrow> string"  \<comment> \<open>\<open>serde_json\<close> on the bundle\<close>
  en_decode :: "string \<Rightarrow> run_input_bundle option"
  en_encode_json :: "json \<Rightarrow> string"
  en_encode_trace :: "trace_payload \<Rightarrow> string"
  en_catalog :: "nat \<Rightarrow> catalog"
  en_credentialed :: "provider list"  \<comment> \<open>the keys of the credentials\<close>
  en_secrets :: "provider \<Rightarrow> string option"  \<comment> \<open>the credentials of the request\<close>
  en_providers :: "nat \<Rightarrow> providers"
  en_fuel :: nat  \<comment> \<open>rounds of denied calls the model of the loop follows\<close>

section \<open>Effects\<close>

type_synonym 'a io = "store \<Rightarrow> ((orchestrator_error, 'a) result \<times> store) option"

definition ret :: "'a \<Rightarrow> 'a io" where
  "ret a = (\<lambda>s. Some (Ok a, s))"

definition throw :: "orchestrator_error \<Rightarrow> 'a io" where
  "throw e = (\<lambda>s. Some (Err e, s))"

definition bind_io :: "'a io \<Rightarrow> ('a \<Rightarrow> 'b io) \<Rightarrow> 'b io" where
  "bind_io m f = (\<lambda>s. case m s of
       None \<Rightarrow> None
     | Some (Inl e, s') \<Rightarrow> Some (Inl e, s')
     | Some (Inr a, s') \<Rightarrow> f a s')"

definition seq_io :: "unit io \<Rightarrow> 'b io \<Rightarrow> 'b io" where
  "seq_io m n = bind_io m (\<lambda>_. n)"

text \<open>\<open>match m.await\<close>: run \<open>m\<close> and look at its outcome.\<close>

definition attempt_io :: "'a io \<Rightarrow> (orchestrator_error, 'a) result io" where
  "attempt_io m = (\<lambda>s. case m s of None \<Rightarrow> None | Some (r, s') \<Rightarrow> Some (Ok r, s'))"

definition lift_result :: "(orchestrator_error, 'a) result \<Rightarrow> 'a io" where
  "lift_result r = (\<lambda>s. Some (r, s))"

definition when_io :: "bool \<Rightarrow> unit io \<Rightarrow> unit io" where
  "when_io b m = (if b then m else ret ())"

fun for_each :: "('a \<Rightarrow> unit io) \<Rightarrow> 'a list \<Rightarrow> unit io" where
  "for_each f [] = ret ()"
| "for_each f (x # xs) = seq_io (f x) (for_each f xs)"

fun map_io :: "('a \<Rightarrow> 'b io) \<Rightarrow> 'a list \<Rightarrow> 'b list io" where
  "map_io f [] = ret []"
| "map_io f (x # xs) = bind_io (f x) (\<lambda>y. bind_io (map_io f xs) (\<lambda>ys. ret (y # ys)))"

definition get_io :: "(store \<Rightarrow> 'a) \<Rightarrow> 'a io" where
  "get_io f = (\<lambda>s. Some (Ok (f s), s))"

text \<open>One storage operation: it may fault; an error leaves the rows as they were.\<close>

definition db :: "(store \<Rightarrow> (storage_error, 'a \<times> store) result) \<Rightarrow> 'a io" where
  "db f = (\<lambda>s0.
     let s = s0\<lparr>st_clock := Suc (st_clock s0)\<rparr>
     in case st_faults s0 (st_clock s0) of
          Some e \<Rightarrow> Some (Err (SessionFailed (DatabaseError e)), s)
        | None \<Rightarrow>
           (case f s of
              Inl e \<Rightarrow> Some (Err (SessionFailed (DatabaseError e)), s)
            | Inr (a, s') \<Rightarrow> Some (Ok a, s')))"

definition mint :: "runtime \<Rightarrow> string io" where
  "mint rt = (\<lambda>s. Some (Ok (en_uuid rt (st_minted s)), s\<lparr>st_minted := Suc (st_minted s)\<rparr>))"

section \<open>Storage operations\<close>

definition acquire_run_lock :: "run_state \<Rightarrow> run_state option io" where
  "acquire_run_lock state = db (\<lambda>s.
     case Option.bind (st_run_state s) rs_active of
       Some _ \<Rightarrow> Ok (None, s)
     | None \<Rightarrow> Ok (Some state, s\<lparr>st_run_state := Some state\<rparr>))"

definition set_run_state :: "run_state \<Rightarrow> unit io" where
  "set_run_state state = db (\<lambda>s. Ok ((), s\<lparr>st_run_state := Some state\<rparr>))"

definition get_run_state :: "run_state option io" where
  "get_run_state = db (\<lambda>s. Ok (st_run_state s, s))"

definition set_run_input :: "run_input_row \<Rightarrow> unit io" where
  "set_run_input row = db (\<lambda>s. Ok ((), s\<lparr>st_run_input := Some row\<rparr>))"

definition get_run_input :: "run_input_row option io" where
  "get_run_input = db (\<lambda>s. Ok (st_run_input s, s))"

text \<open>\<open>create\<close> refuses a record id that is taken.\<close>

definition taken :: storage_error where
  "taken = Backend ''record already exists''"

definition append_message :: "message_row \<Rightarrow> unit io" where
  "append_message row = db (\<lambda>s.
     if mr_id row \<in> mr_id ` set (st_messages s) then Err taken
     else Ok ((), s\<lparr>st_messages := st_messages s @ [row]\<rparr>))"

definition append_tool_call :: "tool_call_row \<Rightarrow> unit io" where
  "append_tool_call row = db (\<lambda>s.
     if tr_id row \<in> tr_id ` set (st_tool_calls s) then Err taken
     else Ok ((), s\<lparr>st_tool_calls := st_tool_calls s @ [row]\<rparr>))"

definition append_plan :: "plan_row \<Rightarrow> unit io" where
  "append_plan row = db (\<lambda>s.
     if pr_id row \<in> pr_id ` set (st_plans s) then Err taken
     else Ok ((), s\<lparr>st_plans := st_plans s @ [row]\<rparr>))"

definition append_diff :: "diff_row \<Rightarrow> unit io" where
  "append_diff row = db (\<lambda>s.
     if dr_id row \<in> dr_id ` set (st_diffs s) then Err taken
     else Ok ((), s\<lparr>st_diffs := st_diffs s @ [row]\<rparr>))"

definition append_approval :: "approval_row \<Rightarrow> unit io" where
  "append_approval row = db (\<lambda>s. Ok ((), s\<lparr>st_approvals := st_approvals s @ [row]\<rparr>))"

definition append_routing_decision :: "routing_decision \<Rightarrow> unit io" where
  "append_routing_decision row = db (\<lambda>s. Ok ((), s\<lparr>st_decisions := st_decisions s @ [row]\<rparr>))"

definition append_context_reference :: "context_reference \<Rightarrow> unit io" where
  "append_context_reference row = db (\<lambda>s. Ok ((), s\<lparr>st_references := st_references s @ [row]\<rparr>))"

text \<open>A status transition of a row that is not there is refused.\<close>

definition set_tool_call_outcome ::
  "string \<Rightarrow> tool_call_status \<Rightarrow> secret_content option \<Rightarrow> secret_content option \<Rightarrow> unit io" where
  "set_tool_call_outcome i status stored_result stored_error = db (\<lambda>s.
     if i \<notin> tr_id ` set (st_tool_calls s) then Err RecordNotFound
     else Ok ((), s\<lparr>st_tool_calls :=
       map (\<lambda>r. if tr_id r = i
         then r\<lparr>tr_status := status, tr_result := stored_result, tr_error := stored_error\<rparr> else r)
         (st_tool_calls s)\<rparr>))"

definition set_plan_status :: "string \<Rightarrow> plan_status \<Rightarrow> unit io" where
  "set_plan_status i status = db (\<lambda>s.
     if i \<notin> pr_id ` set (st_plans s) then Err RecordNotFound
     else Ok ((), s\<lparr>st_plans :=
       map (\<lambda>r. if pr_id r = i then r\<lparr>pr_status := status\<rparr> else r) (st_plans s)\<rparr>))"

definition set_diff_status :: "string \<Rightarrow> diff_status \<Rightarrow> unit io" where
  "set_diff_status i status = db (\<lambda>s.
     if i \<notin> dr_id ` set (st_diffs s) then Err RecordNotFound
     else Ok ((), s\<lparr>st_diffs :=
       map (\<lambda>r. if dr_id r = i then r\<lparr>dr_status := status\<rparr> else r) (st_diffs s)\<rparr>))"

text \<open>\<open>set_content\<close>, at the three tables the run reseals.\<close>

definition set_memory_content :: "string \<Rightarrow> secret_content \<Rightarrow> unit io" where
  "set_memory_content i content = db (\<lambda>s.
     if i \<notin> mm_id ` set (st_context_memory s) then Err RecordNotFound
     else Ok ((), s\<lparr>st_context_memory :=
       map (\<lambda>r. if mm_id r = i then r\<lparr>mm_content := content\<rparr> else r) (st_context_memory s)\<rparr>))"

definition set_trace_content :: "string \<Rightarrow> secret_content \<Rightarrow> unit io" where
  "set_trace_content i content = db (\<lambda>s.
     if i \<notin> tx_id ` set (st_traces s) then Err RecordNotFound
     else Ok ((), s\<lparr>st_traces :=
       map (\<lambda>r. if tx_id r = i then r\<lparr>tx_content := content\<rparr> else r) (st_traces s)\<rparr>))"

definition set_run_input_content :: "secret_content \<Rightarrow> unit io" where
  "set_run_input_content content = db (\<lambda>s.
     case st_run_input s of
       None \<Rightarrow> Err RecordNotFound
     | Some row \<Rightarrow> Ok ((), s\<lparr>st_run_input := Some (row\<lparr>iw_content := content\<rparr>)\<rparr>))"

text \<open>\<open>get_content\<close>: the sealable field of the row a reference addresses.\<close>

fun content_of :: "store \<Rightarrow> content_ref \<Rightarrow> secret_content option" where
  "content_of s (MessageRef i) = map_option mr_content (List.find (\<lambda>r. mr_id r = i) (st_messages s))"
| "content_of s (ToolCallRef i) = Option.bind (List.find (\<lambda>r. tr_id r = i) (st_tool_calls s)) tr_result"
| "content_of s (DiffRef i) = map_option dr_content (List.find (\<lambda>r. dr_id r = i) (st_diffs s))"
| "content_of s (PlanRef i) = Option.bind (List.find (\<lambda>r. pr_id r = i) (st_plans s)) pr_content"
| "content_of s (MemoryRef i) = map_option mm_content (List.find (\<lambda>r. mm_id r = i) (st_context_memory s))"
| "content_of s (TraceRef i) = map_option tx_content (List.find (\<lambda>r. tx_id r = i) (st_traces s))"
| "content_of s (RunInputRef i) =
     (if i = st_session_id s then map_option iw_content (st_run_input s) else None)"

definition get_content :: "content_ref \<Rightarrow> secret_content option io" where
  "get_content r = db (\<lambda>s. Ok (content_of s r, s))"

section \<open>Traces: best effort\<close>

definition record_trace :: "runtime \<Rightarrow> trace_payload \<Rightarrow> unit io" where
  "record_trace rt payload =
     bind_io (mint rt) (\<lambda>i.
       bind_io (attempt_io (db (\<lambda>s. Ok ((), s\<lparr>st_traces := st_traces s @
         [\<lparr>tx_id = i, tx_content = Plaintext (en_encode_trace rt payload)\<rparr>]\<rparr>)))) (\<lambda>_. ret ()))"

definition record_resolution :: "runtime \<Rightarrow> resolved_turn \<Rightarrow> unit io" where
  "record_resolution rt t =
     seq_io (record_trace rt (ClassificationTrace (rt_classification t)))
     (seq_io (record_trace rt (let d = rt_routing t in
        RoutingTrace (rd_provider d) (rd_model d) (rd_matched_rule d) (rd_fallback_used d)
          (rd_override_used d) (rd_reason d)))
       (for_each (\<lambda>r. record_trace rt (ContextTrace (ref_path r) (ref_kind r) (ref_included r) (ref_reason r)))
         (res_references (rt_context t))))"

definition record_message_event :: "runtime \<Rightarrow> message_role \<Rightarrow> provider \<Rightarrow> string \<Rightarrow> unit io" where
  "record_message_event rt role p model = record_trace rt (MessageTrace role p model)"

definition record_cost_event :: "runtime \<Rightarrow> usage \<Rightarrow> provider \<Rightarrow> string \<Rightarrow> unit io" where
  "record_cost_event rt u p model = record_trace rt (CostTrace p model
     (case u_input_tokens u of Some n \<Rightarrow> n | None \<Rightarrow> 0)
     (case u_output_tokens u of Some n \<Rightarrow> n | None \<Rightarrow> 0) (u_actual_cost u))"

definition record_tool_request :: "runtime \<Rightarrow> string \<Rightarrow> json option \<Rightarrow> unit io" where
  "record_tool_request rt name arguments = record_trace rt (ToolCallTrace name PendingCall arguments)"

definition record_tool_result :: "runtime \<Rightarrow> string \<Rightarrow> bool \<Rightarrow> unit io" where
  "record_tool_result rt name is_error =
     record_trace rt (ToolCallTrace name (if is_error then FailedCall else CompletedCall) None)"

definition record_approval_event ::
  "runtime \<Rightarrow> string \<Rightarrow> string \<Rightarrow> approval_decision \<Rightarrow> string option \<Rightarrow> unit io" where
  "record_approval_event rt target_type target_id decision reason =
     record_trace rt (ApprovalTrace target_type target_id decision reason)"

section \<open>Persisting the work of a turn\<close>

definition persist_run_input ::
  "runtime \<Rightarrow> string \<Rightarrow> run_input_meta \<Rightarrow> run_input_bundle \<Rightarrow> bool \<Rightarrow> unit io" where
  "persist_run_input rt run_id meta bundle encrypted =
     set_run_input \<lparr>iw_run_id = run_id, iw_meta = meta,
       iw_plan_active = (ti_command (rb_input bundle) = Some Plan),
       iw_content = Plaintext (if encrypted then [] else en_encode rt bundle)\<rparr>"

definition persist_plaintext_message ::
  "runtime \<Rightarrow> message_role \<Rightarrow> provider \<Rightarrow> string \<Rightarrow> string \<Rightarrow> string io" where
  "persist_plaintext_message rt role p model text =
     bind_io (mint rt) (\<lambda>i.
       seq_io (append_message \<lparr>mr_id = i, mr_role = role, mr_route_provider = p, mr_route_model = model,
                 mr_content = Plaintext text\<rparr>)
         (ret i))"

definition persist_proposed_diff :: "string \<Rightarrow> string \<Rightarrow> string \<Rightarrow> unit io" where
  "persist_proposed_diff i path body =
     append_diff \<lparr>dr_id = i, dr_path = path, dr_status = ProposedDiff, dr_content = Plaintext body\<rparr>"

record persisted_call =
  pc_call_id :: string
  pc_name :: string
  pc_arguments :: json
  pc_requires_approval :: tool_approval
  pc_records_diff :: bool

definition persist_call :: "runtime \<Rightarrow> client_call \<Rightarrow> persisted_call io" where
  "persist_call rt c =
     (let call = cl_call c;
          diff = diff_for_tool_call (tc_name call) (tc_arguments call)
      in bind_io (mint rt) (\<lambda>i.
         seq_io (append_tool_call \<lparr>tr_id = i, tr_tool_name = tc_name call, tr_status = PendingCall,
                   tr_arguments = Plaintext (en_encode_json rt (tc_arguments call)),
                   tr_result = None, tr_error = None\<rparr>)
        (seq_io (case diff of
                   Some (path, body) \<Rightarrow> persist_proposed_diff i path body
                 | None \<Rightarrow> ret ())
          (ret \<lparr>pc_call_id = i, pc_name = tc_name call, pc_arguments = tc_arguments call,
                pc_requires_approval = cl_requires_approval c, pc_records_diff = (diff \<noteq> None)\<rparr>))))"

definition persist_tool_request ::
  "runtime \<Rightarrow> provider \<Rightarrow> string \<Rightarrow> string \<Rightarrow> client_call list \<Rightarrow> persisted_call list io" where
  "persist_tool_request rt p model assistant_text client =
     bind_io (persist_plaintext_message rt Assistant p model assistant_text) (\<lambda>_.
       map_io (persist_call rt) client)"

definition persist_plan_draft :: "runtime \<Rightarrow> string \<Rightarrow> string io" where
  "persist_plan_draft rt body =
     bind_io (mint rt) (\<lambda>i.
       seq_io (append_plan \<lparr>pr_id = i, pr_path = ''PLAN.md'', pr_status = DraftPlan,
                 pr_content = Some (Plaintext body)\<rparr>)
         (ret i))"

definition write_sealed_message ::
  "string \<Rightarrow> message_role \<Rightarrow> provider \<Rightarrow> string \<Rightarrow> secret_content \<Rightarrow> unit io" where
  "write_sealed_message i role p model content =
     append_message \<lparr>mr_id = i, mr_role = role, mr_route_provider = p, mr_route_model = model,
       mr_content = content\<rparr>"

definition write_sealed_plan :: "string \<Rightarrow> secret_content \<Rightarrow> unit io" where
  "write_sealed_plan i content =
     append_plan \<lparr>pr_id = i, pr_path = ''PLAN.md'', pr_status = DraftPlan, pr_content = Some content\<rparr>"

definition write_sealed_diff :: "string \<Rightarrow> string \<Rightarrow> secret_content \<Rightarrow> unit io" where
  "write_sealed_diff i path content =
     append_diff \<lparr>dr_id = i, dr_path = path, dr_status = ProposedDiff, dr_content = content\<rparr>"

definition write_sealed_tool_call ::
  "string \<Rightarrow> string \<Rightarrow> tool_call_status \<Rightarrow> secret_content option \<Rightarrow> secret_content option \<Rightarrow> unit io" where
  "write_sealed_tool_call i name status stored_result stored_error =
     append_tool_call \<lparr>tr_id = i, tr_tool_name = name, tr_status = status,
       tr_arguments = Plaintext [], tr_result = stored_result, tr_error = stored_error\<rparr>"

definition persist_approval ::
  "runtime \<Rightarrow> string \<Rightarrow> string \<Rightarrow> approval_decision \<Rightarrow> string option \<Rightarrow> unit io" where
  "persist_approval rt target_type target_id decision reason =
     bind_io (mint rt) (\<lambda>_. append_approval
       \<lparr>ar_target_type = target_type, ar_target_id = target_id, ar_decision = decision,
        ar_reason = reason\<rparr>)"

definition persist_routing_decision :: "runtime \<Rightarrow> routing_decision \<Rightarrow> unit io" where
  "persist_routing_decision rt decision = bind_io (mint rt) (\<lambda>_. append_routing_decision decision)"

definition persist_context_references :: "runtime \<Rightarrow> context_reference list \<Rightarrow> unit io" where
  "persist_context_references rt references =
     for_each (\<lambda>r. bind_io (mint rt) (\<lambda>_. append_context_reference r)) references"

section \<open>What computations keep\<close>

text \<open>
  \<open>keeps P I m\<close>: run from a store with \<open>P\<close>, every outcome of \<open>m\<close>, an error included, leaves
  a store with \<open>P\<close>, and a result satisfies \<open>I\<close>.
\<close>

definition keeps :: "(store \<Rightarrow> bool) \<Rightarrow> ('a \<Rightarrow> bool) \<Rightarrow> 'a io \<Rightarrow> bool" where
  "keeps P I m \<longleftrightarrow> (\<forall>s r s'. P s \<longrightarrow> m s = Some (r, s') \<longrightarrow> P s' \<and> (\<forall>a. r = Ok a \<longrightarrow> I a))"

abbreviation any :: "'a \<Rightarrow> bool" where
  "any \<equiv> \<lambda>_. True"

named_theorems keeps_rules

lemma keeps_ret [keeps_rules]: "I a \<Longrightarrow> keeps P I (ret a)"
  by (simp add: keeps_def ret_def)

lemma keeps_throw [keeps_rules]: "keeps P I (throw e)"
  by (simp add: keeps_def throw_def)

lemma keeps_lift [keeps_rules]: "(\<And>a. r = Ok a \<Longrightarrow> I a) \<Longrightarrow> keeps P I (lift_result r)"
  by (simp add: keeps_def lift_result_def)

lemma keeps_get: "(\<And>s. P s \<Longrightarrow> I (f s)) \<Longrightarrow> keeps P I (get_io f)"
  by (simp add: keeps_def get_io_def)

lemma keeps_get_any [keeps_rules]: "keeps P any (get_io f)"
  by (simp add: keeps_def get_io_def)

lemma bind_io_cases:
  assumes "bind_io m f s = Some (r, s')"
  obtains e where "m s = Some (Err e, s')" "r = Err e"
  | a t where "m s = Some (Ok a, t)" "f a t = Some (r, s')"
  using assms by (auto simp: bind_io_def split: option.splits sum.splits)

lemma keeps_bind:
  assumes "keeps P J m" "\<And>a. J a \<Longrightarrow> keeps P I (f a)"
  shows "keeps P I (bind_io m f)"
  unfolding keeps_def
proof (intro allI impI)
  fix s r s'
  assume s: "P s" "bind_io m f s = Some (r, s')"
  show "P s' \<and> (\<forall>a. r = Ok a \<longrightarrow> I a)"
    using s(2)
  proof (cases rule: bind_io_cases)
    case (1 e)
    then show ?thesis using assms(1) s(1) by (auto simp: keeps_def)
  next
    case (2 a t)
    then have "P t" "J a" using assms(1) s(1) by (auto simp: keeps_def)
    then show ?thesis using assms(2) 2(2) unfolding keeps_def by blast
  qed
qed

lemma keeps_bind_any [keeps_rules]:
  "keeps P any m \<Longrightarrow> (\<And>a. keeps P I (f a)) \<Longrightarrow> keeps P I (bind_io m f)"
  by (rule keeps_bind)

lemma keeps_seq [keeps_rules]: "keeps P any m \<Longrightarrow> keeps P I n \<Longrightarrow> keeps P I (seq_io m n)"
  unfolding seq_io_def by (rule keeps_bind)

lemma keeps_attempt: "keeps P I m \<Longrightarrow> keeps P (\<lambda>r. \<forall>a. r = Ok a \<longrightarrow> I a) (attempt_io m)"
  by (auto simp: keeps_def attempt_io_def split: option.splits)

lemma keeps_attempt_any [keeps_rules]: "keeps P any m \<Longrightarrow> keeps P any (attempt_io m)"
  by (auto simp: keeps_def attempt_io_def split: option.splits)

lemma keeps_when [keeps_rules]: "(b \<Longrightarrow> keeps P any m) \<Longrightarrow> keeps P any (when_io b m)"
  by (simp add: when_io_def keeps_ret)

lemma keeps_if [keeps_rules]:
  "(b \<Longrightarrow> keeps P I m) \<Longrightarrow> (\<not> b \<Longrightarrow> keeps P I n) \<Longrightarrow> keeps P I (if b then m else n)"
  by simp

lemma keeps_option [keeps_rules]:
  "(x = None \<Longrightarrow> keeps P I m) \<Longrightarrow> (\<And>a. x = Some a \<Longrightarrow> keeps P I (f a)) \<Longrightarrow>
   keeps P I (case x of None \<Rightarrow> m | Some a \<Rightarrow> f a)"
  by (cases x) simp_all

lemma keeps_sum [keeps_rules]:
  "(\<And>a. x = Inl a \<Longrightarrow> keeps P I (f a)) \<Longrightarrow> (\<And>a. x = Inr a \<Longrightarrow> keeps P I (g a)) \<Longrightarrow>
   keeps P I (case x of Inl a \<Rightarrow> f a | Inr a \<Rightarrow> g a)"
  by (cases x) simp_all

lemma keeps_prod [keeps_rules]:
  "(\<And>a b. x = (a, b) \<Longrightarrow> keeps P I (f a b)) \<Longrightarrow> keeps P I (case x of (a, b) \<Rightarrow> f a b)"
  by (cases x) simp

lemma keeps_for_each [keeps_rules]:
  "(\<And>x. x \<in> set xs \<Longrightarrow> keeps P any (f x)) \<Longrightarrow> keeps P any (for_each f xs)"
  by (induction xs) (auto intro!: keeps_ret keeps_seq)

lemma keeps_map [keeps_rules]:
  "(\<And>x. x \<in> set xs \<Longrightarrow> keeps P any (f x)) \<Longrightarrow> keeps P any (map_io f xs)"
  by (induction xs) (auto intro!: keeps_ret keeps_bind_any)

lemma keeps_mono: "keeps P I m \<Longrightarrow> (\<And>a. I a \<Longrightarrow> J a) \<Longrightarrow> keeps P J m"
  unfolding keeps_def by blast

text \<open>An invariant that the bookkeeping of the store, its clock and its ids, cannot break.\<close>

locale store_invariant =
  fixes P :: "store \<Rightarrow> bool"
  assumes tick: "P s \<Longrightarrow> P (s\<lparr>st_clock := n\<rparr>)"
    and minted: "P s \<Longrightarrow> P (s\<lparr>st_minted := n\<rparr>)"
begin

lemma keeps_mint: "keeps P any (mint rt)"
  by (simp add: keeps_def mint_def minted)

lemma keeps_db:
  assumes "\<And>s a s'. P s \<Longrightarrow> f s = Ok (a, s') \<Longrightarrow> P s' \<and> I a"
  shows "keeps P I (db f)"
  unfolding keeps_def
proof (intro allI impI)
  fix s r s'
  assume s: "P s" "db f s = Some (r, s')"
  let ?s = "s\<lparr>st_clock := Suc (st_clock s)\<rparr>"
  from s(2) consider "s' = ?s" "\<forall>a. r \<noteq> Ok a" | a where "f ?s = Ok (a, s')" "r = Ok a"
    by (auto simp: db_def Let_def split: option.splits sum.splits)
  then show "P s' \<and> (\<forall>a. r = Ok a \<longrightarrow> I a)"
    by cases (use assms [OF tick [OF s(1)]] tick [OF s(1)] in auto)
qed

text \<open>A storage operation that only reads.\<close>

lemma keeps_read: "keeps P any (db (\<lambda>s. Ok (f s, s)))"
  by (rule keeps_db) auto

end

text \<open>An invariant that the rows a turn authors cannot break: \<open>encrypted\<close> is the session's flag.\<close>

locale row_invariant = store_invariant +
  fixes encrypted :: bool
  assumes decision: "P s \<Longrightarrow> P (s\<lparr>st_decisions := ds\<rparr>)"
    and reference: "P s \<Longrightarrow> P (s\<lparr>st_references := rs\<rparr>)"
    and trace: "P s \<Longrightarrow> P (s\<lparr>st_traces := ts\<rparr>)"
    and message: "\<not> encrypted \<Longrightarrow> P s \<Longrightarrow> P (s\<lparr>st_messages := ms\<rparr>)"
    and tool_call: "\<not> encrypted \<Longrightarrow> P s \<Longrightarrow> P (s\<lparr>st_tool_calls := cs\<rparr>)"
    and plan: "\<not> encrypted \<Longrightarrow> P s \<Longrightarrow> P (s\<lparr>st_plans := ps\<rparr>)"
    and diff: "\<not> encrypted \<Longrightarrow> P s \<Longrightarrow> P (s\<lparr>st_diffs := fs\<rparr>)"
begin

lemma keeps_record_trace: "keeps P any (record_trace rt payload)"
  unfolding record_trace_def
  by (intro keeps_rules keeps_mint keeps_db) (auto intro: trace)

lemma keeps_trace_events:
  "keeps P any (record_resolution rt t)" "keeps P any (record_message_event rt role p model)"
  "keeps P any (record_cost_event rt u p model)" "keeps P any (record_tool_request rt name arguments)"
  "keeps P any (record_tool_result rt name is_error)"
  "keeps P any (record_approval_event rt target i decision reason)"
  unfolding record_resolution_def record_message_event_def record_cost_event_def
    record_tool_request_def record_tool_result_def record_approval_event_def
  by (intro keeps_rules keeps_record_trace)+

lemma keeps_persist_decision: "keeps P any (persist_routing_decision rt d)"
  unfolding persist_routing_decision_def append_routing_decision_def
  by (intro keeps_rules keeps_mint keeps_db) (auto intro: decision)

lemma keeps_persist_references: "keeps P any (persist_context_references rt refs)"
  unfolding persist_context_references_def append_context_reference_def
  by (intro keeps_rules keeps_mint keeps_db) (auto intro: reference)

lemma keeps_persist_message: "\<not> encrypted \<Longrightarrow> keeps P any (persist_plaintext_message rt role p model text)"
  unfolding persist_plaintext_message_def append_message_def
  by (intro keeps_rules keeps_mint keeps_db) (auto intro: message split: if_splits)

lemma keeps_persist_plan: "\<not> encrypted \<Longrightarrow> keeps P any (persist_plan_draft rt body)"
  unfolding persist_plan_draft_def append_plan_def
  by (intro keeps_rules keeps_mint keeps_db) (auto intro: plan split: if_splits)

lemma keeps_persist_call: "\<not> encrypted \<Longrightarrow> keeps P any (persist_call rt c)"
  unfolding persist_call_def persist_proposed_diff_def append_tool_call_def append_diff_def Let_def
  by (intro keeps_rules keeps_mint keeps_db) (auto intro: tool_call diff split: if_splits)

lemma keeps_persist_tool_request:
  "\<not> encrypted \<Longrightarrow> keeps P any (persist_tool_request rt p model text client)"
  unfolding persist_tool_request_def
  by (intro keeps_rules keeps_persist_message keeps_persist_call)

end

text \<open>An invariant that a whole turn cannot break: it also invokes models.\<close>

locale turn_invariant = row_invariant +
  assumes invoked: "P s \<Longrightarrow> P (s\<lparr>st_rounds := n, st_sent := e\<rparr>)"

end
