(* ===== verification/Turn.thy ===== *)
theory Turn
  imports Run_Store
begin

text \<open>
  One turn of a run (\<^verbatim>\<open>orchestrator/turn.rs\<close>, \<^verbatim>\<open>orchestrator/recall.rs\<close>): recall, resolve,
  prompt, invoke, and branch on what the model asked for. Rounds in which every call was
  denied go round the loop again; \<open>en_fuel\<close> bounds them, and running out is \<open>None\<close>.
\<close>

section \<open>Recall\<close>

datatype recalled = Ready recalled_context | NeedsDecrypt "content_ref list"

definition resolve_secret ::
  "secret_content \<Rightarrow> string \<Rightarrow> string \<Rightarrow> string ref_map \<Rightarrow> string option \<times> content_ref list" where
  "resolve_secret content table i decrypted =
     (case as_plaintext content of
        Some text \<Rightarrow> (Some text, [])
      | None \<Rightarrow>
          (case record_id_to_content_ref table i of
             None \<Rightarrow> (None, [])
           | Some reference \<Rightarrow>
               (case map_of decrypted reference of
                  Some text \<Rightarrow> (Some text, [])
                | None \<Rightarrow> (None, [reference]))))"

fun recall_messages ::
  "message_row list \<Rightarrow> string ref_map \<Rightarrow> recalled_message list \<times> content_ref list" where
  "recall_messages [] decrypted = ([], [])"
| "recall_messages (m # ms) decrypted =
     (let (text, need) = resolve_secret (mr_content m) ''session_message'' (mr_id m) decrypted;
          (rest, needs) = recall_messages ms decrypted
      in ((case text of
             Some t \<Rightarrow> \<lparr>rec_role = mr_role m, rec_path = None, rec_content = t\<rparr> # rest
           | None \<Rightarrow> rest), need @ needs))"

fun recall_memory :: "memory_row list \<Rightarrow> string ref_map \<Rightarrow> memory_fact list \<times> content_ref list" where
  "recall_memory [] decrypted = ([], [])"
| "recall_memory (m # ms) decrypted =
     (let (text, need) = resolve_secret (mm_content m) ''context_memory'' (mm_id m) decrypted;
          (rest, needs) = recall_memory ms decrypted
      in ((case text of
             Some t \<Rightarrow> \<lparr>mf_key = (case mm_key m of Some k \<Rightarrow> k | None \<Rightarrow> []), mf_content = t\<rparr> # rest
           | None \<Rightarrow> rest), need @ needs))"

definition recall :: "string ref_map \<Rightarrow> recalled io" where
  "recall decrypted =
     bind_io (db (\<lambda>s. Ok (st_messages s, s))) (\<lambda>messages.
     bind_io (db (\<lambda>s. Ok (st_context_memory s, s))) (\<lambda>memory.
     bind_io (db (\<lambda>s. Ok (st_user_memory s, s))) (\<lambda>user_memory.
       let (texts, need_messages) = recall_messages messages decrypted;
           (facts, need_memory) = recall_memory memory decrypted;
           needs = need_messages @ need_memory
       in if needs \<noteq> [] then ret (NeedsDecrypt needs)
          else ret (Ready \<lparr>rc_messages = texts, rc_user_memory = user_memory,
                           rc_context_memory = facts\<rparr>))))"

section \<open>The turn's inputs and outcome\<close>

datatype bundle_source = Loaded run_input_bundle | Stored secret_content

record turn_cx =
  cx_meta :: run_input_meta
  cx_bundle :: bundle_source
  cx_seal_run_input :: bool
  cx_plan_active :: bool
  cx_encrypted :: bool
  cx_decrypted :: "string ref_map"
  cx_sink :: bool

record deferred =
  df_to_encrypt :: "string ref_map"
  df_pending :: "pending_write list"

definition no_deferred :: deferred where
  "no_deferred = \<lparr>df_to_encrypt = [], df_pending = []\<rparr>"

record tool_request =
  tq_call_id :: string
  tq_name :: string
  tq_arguments :: json
  tq_requires_approval :: tool_approval

record completed_data =
  cd_resolved :: resolved_turn
  cd_content :: string
  cd_usage :: usage
  cd_deferred :: deferred

record awaiting_tool_data =
  wt_tool_requests :: "tool_request list"
  wt_calls :: "tool_wait list"
  wt_deferred :: deferred

record awaiting_approval_data =
  wa_approval_id :: string
  wa_detail :: json
  wa_deferred :: deferred

datatype turn_step = CompletedStep completed_data
  | ToolStep awaiting_tool_data
  | ApprovalStep awaiting_approval_data
  | DecryptStep "content_ref list" "string ref_map"
  | ErroredStep orchestrator_error

definition resolve_bundle ::
  "runtime \<Rightarrow> secret_content \<Rightarrow> string \<Rightarrow> string ref_map \<Rightarrow>
   (orchestrator_error, run_input_bundle option) result" where
  "resolve_bundle rt content session_id decrypted =
     (case (case as_plaintext content of
              Some text \<Rightarrow> Some text
            | None \<Rightarrow> map_of decrypted (RunInputRef session_id)) of
        None \<Rightarrow> Ok None
      | Some text \<Rightarrow>
          (case en_decode rt text of
             Some bundle \<Rightarrow> Ok (Some bundle)
           | None \<Rightarrow> Err (InternalFailure ''run-input bundle decode'')))"

section \<open>Authoring rows\<close>

definition author_message ::
  "runtime \<Rightarrow> turn_cx \<Rightarrow> deferred \<Rightarrow> message_role \<Rightarrow> provider \<Rightarrow> string \<Rightarrow> string \<Rightarrow> deferred io" where
  "author_message rt cx d role p model text =
     (if cx_encrypted cx
      then bind_io (mint rt) (\<lambda>i. ret
        \<lparr>df_to_encrypt = ref_insert (MessageRef i) text (df_to_encrypt d),
         df_pending = df_pending d @ [PendingMessage i role p model]\<rparr>)
      else bind_io (persist_plaintext_message rt role p model text) (\<lambda>_. ret d))"

definition author_plan :: "runtime \<Rightarrow> turn_cx \<Rightarrow> deferred \<Rightarrow> string \<Rightarrow> (string \<times> deferred) io" where
  "author_plan rt cx d body =
     (if cx_encrypted cx
      then bind_io (mint rt) (\<lambda>i. ret (i,
        \<lparr>df_to_encrypt = ref_insert (PlanRef i) body (df_to_encrypt d),
         df_pending = df_pending d @ [PendingPlan i]\<rparr>))
      else bind_io (persist_plan_draft rt body) (\<lambda>i. ret (i, d)))"

text \<open>One client-bound call of an encrypted turn: its rows are deferred.\<close>

definition defer_call ::
  "runtime \<Rightarrow> deferred \<Rightarrow> client_call \<Rightarrow> (tool_request \<times> tool_wait \<times> deferred) io" where
  "defer_call rt d c =
     (let call = cl_call c;
          diff = diff_for_tool_call (tc_name call) (tc_arguments call)
      in bind_io (mint rt) (\<lambda>i.
         let d1 = d\<lparr>df_pending := df_pending d @ [PendingToolCall i (tc_name call)]\<rparr>;
             d2 = (case diff of
                     Some (path, body) \<Rightarrow>
                       \<lparr>df_to_encrypt = ref_insert (DiffRef i) body (df_to_encrypt d1),
                        df_pending = df_pending d1 @ [PendingDiff i path]\<rparr>
                   | None \<Rightarrow> d1)
         in ret (\<lparr>tq_call_id = i, tq_name = tc_name call, tq_arguments = tc_arguments call,
                  tq_requires_approval = cl_requires_approval c\<rparr>,
                 \<lparr>tw_call_id = i, tw_tool_name = tc_name call,
                  tw_requires_approval = cl_requires_approval c, tw_records_diff = (diff \<noteq> None)\<rparr>,
                 d2)))"

fun defer_calls ::
  "runtime \<Rightarrow> deferred \<Rightarrow> client_call list \<Rightarrow> (tool_request list \<times> tool_wait list \<times> deferred) io" where
  "defer_calls rt d [] = ret ([], [], d)"
| "defer_calls rt d (c # cs) =
     bind_io (defer_call rt d c) (\<lambda>(q, w, d1).
       bind_io (defer_calls rt d1 cs) (\<lambda>(qs, ws, d2). ret (q # qs, w # ws, d2)))"

definition author_tool_request ::
  "runtime \<Rightarrow> turn_cx \<Rightarrow> deferred \<Rightarrow> provider \<Rightarrow> string \<Rightarrow> string \<Rightarrow> client_call list \<Rightarrow>
   (tool_request list \<times> tool_wait list \<times> deferred) io" where
  "author_tool_request rt cx d p model assistant_text client =
     (if cx_encrypted cx
      then bind_io (author_message rt cx d Assistant p model assistant_text) (\<lambda>d1.
             defer_calls rt d1 client)
      else bind_io (persist_tool_request rt p model assistant_text client) (\<lambda>calls. ret
        (map (\<lambda>c. \<lparr>tq_call_id = pc_call_id c, tq_name = pc_name c, tq_arguments = pc_arguments c,
                   tq_requires_approval = pc_requires_approval c\<rparr>) calls,
         map (\<lambda>c. \<lparr>tw_call_id = pc_call_id c, tw_tool_name = pc_name c,
                   tw_requires_approval = pc_requires_approval c,
                   tw_records_diff = pc_records_diff c\<rparr>) calls, d)))"

section \<open>A round\<close>

definition preamble :: string where
  "preamble = ''You are a capable assistant. Complete the task you are given accurately and '' @
     ''concisely, using the tools available to you.''"

definition resolve_args_of ::
  "runtime \<Rightarrow> turn_cx \<Rightarrow> run_input_bundle \<Rightarrow> recalled_context \<Rightarrow> nat \<Rightarrow> resolve_args" where
  "resolve_args_of rt cx bundle context rounds =
     (let policy = ri_policy (cx_meta cx) in
      \<lparr>ra_input = rb_input bundle, ra_workspace = rebuild_workspace (cx_meta cx) bundle,
       ra_attachments = rb_attachments bundle, ra_recalled = context,
       ra_classification = xp_classification policy, ra_routing = xp_routing policy,
       ra_privacy = xp_privacy policy, ra_requirements = no_requirements,
       ra_catalog = en_catalog rt rounds, ra_credentialed = en_credentialed rt,
       ra_local_only = lp_local_only (ri_local_preferences (cx_meta cx))\<rparr>)"

definition request_of ::
  "turn_cx \<Rightarrow> run_input_bundle \<Rightarrow> recalled_context \<Rightarrow> resolved_turn \<Rightarrow> request_message list \<Rightarrow>
   completion_request" where
  "request_of cx bundle context t followups =
     (let tools = offered_tools (xp_tools (ri_policy (cx_meta cx)))
            (at_invoked_skills (rb_attachments bundle)) (at_available_skills (rb_attachments bundle))
      in \<lparr>cq_messages = build_messages preamble (rt_context t) (rc_messages context)
             (rb_input bundle) followups,
          cq_parameters = md_default_parameters (rt_model t), cq_tools = tools,
          cq_tool_choice = (if tools = [] then NoChoice else AutoChoice)\<rparr>)"

definition invoke_io ::
  "runtime \<Rightarrow> turn_cx \<Rightarrow> resolved_turn \<Rightarrow> completion_request \<Rightarrow> completion_response io" where
  "invoke_io rt cx t request = (\<lambda>s.
     let (sent, r) = invoke (en_providers rt (st_rounds s)) t (en_secrets rt) request (cx_sink cx)
     in Some (r, s\<lparr>st_rounds := Suc (st_rounds s), st_sent := st_sent s @ sent\<rparr>))"

definition refusals :: "completion_response \<Rightarrow> mediated \<Rightarrow> request_message list" where
  "refusals response m =
     AssistantMsg (cr_content response) (cr_tool_calls response) #
     map (\<lambda>(call, reason). ToolResultMsg (tc_call_id call) reason True) (denied_calls m)"

datatype round_end = Done turn_step | Again deferred "request_message list"

definition complete_turn ::
  "runtime \<Rightarrow> turn_cx \<Rightarrow> deferred \<Rightarrow> resolved_turn \<Rightarrow> completion_response \<Rightarrow> turn_step io" where
  "complete_turn rt cx d t response =
     (let p = rd_provider (rt_routing t); model = rd_model (rt_routing t) in
      if cx_plan_active cx
      then bind_io (author_plan rt cx d (cr_content response)) (\<lambda>(plan_id, d1).
           bind_io (mint rt) (\<lambda>approval_id. ret (ApprovalStep
             \<lparr>wa_approval_id = approval_id, wa_detail = JObj [(''plan'', JStr plan_id)],
              wa_deferred = d1\<rparr>)))
      else let usage = priced (cr_usage response) (rt_model t) in
           bind_io (author_message rt cx d Assistant p model (cr_content response)) (\<lambda>d1.
           seq_io (record_message_event rt Assistant p model)
          (seq_io (record_cost_event rt usage p model)
             (ret (CompletedStep \<lparr>cd_resolved = t, cd_content = cr_content response,
                cd_usage = usage, cd_deferred = d1\<rparr>)))))"

definition pause_turn ::
  "runtime \<Rightarrow> turn_cx \<Rightarrow> deferred \<Rightarrow> resolved_turn \<Rightarrow> completion_response \<Rightarrow> client_call list \<Rightarrow> turn_step io" where
  "pause_turn rt cx d t response client =
     (let p = rd_provider (rt_routing t); model = rd_model (rt_routing t) in
      bind_io (author_tool_request rt cx d p model (cr_content response) client) (\<lambda>(requests, calls, d1).
      seq_io (record_message_event rt Assistant p model)
     (seq_io (for_each (\<lambda>c. record_tool_request rt (tc_name (cl_call c)) (Some (tc_arguments (cl_call c)))) client)
        (ret (ToolStep \<lparr>wt_tool_requests = requests, wt_calls = calls, wt_deferred = d1\<rparr>)))))"

definition turn_round ::
  "runtime \<Rightarrow> turn_cx \<Rightarrow> run_input_bundle \<Rightarrow> recalled_context \<Rightarrow> bool \<Rightarrow> deferred \<Rightarrow>
   request_message list \<Rightarrow> round_end io" where
  "turn_round rt cx bundle context user_recorded d followups =
     bind_io (get_io st_rounds) (\<lambda>rounds.
     bind_io (lift_result (map_err ResolverFailed
       (resolve (en_externs rt) (resolve_args_of rt cx bundle context rounds)))) (\<lambda>t.
     seq_io (persist_routing_decision rt (rt_routing t))
    (seq_io (persist_context_references rt (res_references (rt_context t)))
    (seq_io (record_resolution rt t)
    (bind_io (if user_recorded then ret d
              else bind_io (author_message rt cx d User (rd_provider (rt_routing t))
                     (rd_model (rt_routing t)) (ti_text (rb_input bundle))) (\<lambda>d1.
                   seq_io (record_message_event rt User (rd_provider (rt_routing t)) (rd_model (rt_routing t)))
                     (ret d1))) (\<lambda>d1.
     let request = request_of cx bundle context t followups
     in bind_io (invoke_io rt cx t request) (\<lambda>response.
        if cr_tool_calls response = []
        then bind_io (complete_turn rt cx d1 t response) (\<lambda>step. ret (Done step))
        else let m = mediate (cr_tool_calls response) (map td_name (cq_tools request))
                       (xp_tools (ri_policy (cx_meta cx))) (cx_plan_active cx)
             in if client_calls m = [] then ret (Again d1 (followups @ refusals response m))
                else bind_io (pause_turn rt cx d1 t response (client_calls m)) (\<lambda>step. ret (Done step)))))))))"

fun turn_rounds ::
  "runtime \<Rightarrow> turn_cx \<Rightarrow> nat \<Rightarrow> run_input_bundle option \<Rightarrow> string \<Rightarrow> bool \<Rightarrow> deferred \<Rightarrow>
   request_message list \<Rightarrow> turn_step io" where
  "turn_rounds rt cx 0 bundle session_id user_recorded d followups = (\<lambda>s. None)"
| "turn_rounds rt cx (Suc fuel) bundle session_id user_recorded d followups =
     bind_io (recall (cx_decrypted cx)) (\<lambda>recalled.
     case recalled of
       NeedsDecrypt references \<Rightarrow>
         ret (DecryptStep (references @ (if bundle = None then [RunInputRef session_id] else []))
                (df_to_encrypt d))
     | Ready context \<Rightarrow>
        (case bundle of
           None \<Rightarrow> ret (DecryptStep [RunInputRef session_id] (df_to_encrypt d))
         | Some b \<Rightarrow>
             bind_io (turn_round rt cx b context user_recorded d followups) (\<lambda>outcome.
             case outcome of
               Done step \<Rightarrow> ret step
             | Again d1 followups1 \<Rightarrow> turn_rounds rt cx fuel bundle session_id True d1 followups1)))"

definition run_turn_inner ::
  "runtime \<Rightarrow> turn_cx \<Rightarrow> resume_step \<Rightarrow> request_message list \<Rightarrow> turn_step io" where
  "run_turn_inner rt cx resume followups =
     bind_io (get_io st_session_id) (\<lambda>session_id.
     bind_io (lift_result (case cx_bundle cx of
                Loaded b \<Rightarrow> Ok (Some b)
              | Stored content \<Rightarrow> resolve_bundle rt content session_id (cx_decrypted cx))) (\<lambda>bundle.
     let d = (case bundle of
                Some b \<Rightarrow>
                  if cx_seal_run_input cx \<and> cx_encrypted cx
                  then no_deferred\<lparr>df_to_encrypt := ref_insert (RunInputRef session_id) (en_encode rt b) []\<rparr>
                  else no_deferred
              | None \<Rightarrow> no_deferred)
     in turn_rounds rt cx (en_fuel rt) bundle session_id (resume \<noteq> BuildPrompt) d followups))"

definition run_turn ::
  "runtime \<Rightarrow> turn_cx \<Rightarrow> resume_step \<Rightarrow> request_message list \<Rightarrow> turn_step io" where
  "run_turn rt cx resume followups =
     bind_io (attempt_io (run_turn_inner rt cx resume followups)) (\<lambda>r.
       case r of Inr step \<Rightarrow> ret step | Inl e \<Rightarrow> ret (ErroredStep e))"

section \<open>What a turn keeps\<close>

text \<open>A pause for tools of an encrypted turn carries the rows it has yet to write.\<close>

definition step_pending :: "bool \<Rightarrow> turn_step \<Rightarrow> bool" where
  "step_pending encrypted step \<longleftrightarrow>
     (\<forall>d. step = ToolStep d \<longrightarrow> encrypted \<longrightarrow> df_pending (wt_deferred d) \<noteq> [])"

definition step_ok :: "bool \<Rightarrow> turn_step \<Rightarrow> bool" where
  "step_ok encrypted step \<longleftrightarrow> step_pending encrypted step \<and> (\<forall>e. step \<noteq> ErroredStep e)"

context row_invariant begin

lemma keeps_recall: "keeps P any (recall d)"
  unfolding recall_def Let_def by (intro keeps_rules keeps_read) simp_all

lemma keeps_author_message:
  "cx_encrypted cx = encrypted \<Longrightarrow>
   keeps P (\<lambda>d'. encrypted \<longrightarrow> df_pending d' \<noteq> []) (author_message rt cx d role p model text)"
  unfolding author_message_def
  by (intro keeps_rules keeps_mint keeps_persist_message) simp_all

lemma keeps_author_plan:
  "cx_encrypted cx = encrypted \<Longrightarrow> keeps P any (author_plan rt cx d body)"
  unfolding author_plan_def
  by (intro keeps_rules keeps_mint keeps_persist_plan) simp_all

lemma keeps_defer_calls:
  "df_pending d \<noteq> [] \<Longrightarrow> keeps P (\<lambda>(q, w, d'). df_pending d' \<noteq> []) (defer_calls rt d cs)"
proof (induction rt d cs rule: defer_calls.induct)
  case (2 rt d c cs)
  have "keeps P (\<lambda>(q, w, d'). df_pending d' \<noteq> []) (defer_call rt d c)"
    unfolding defer_call_def Let_def
    by (intro keeps_rules keeps_mint) (auto split: option.splits)
  then show ?case using 2
    by (auto intro!: keeps_bind [where J = "\<lambda>(q, w, d'). df_pending d' \<noteq> []"] keeps_ret)
qed (simp add: keeps_ret)

lemma keeps_author_tool_request:
  assumes "cx_encrypted cx = encrypted"
  shows "keeps P (\<lambda>(q, w, d'). encrypted \<longrightarrow> df_pending d' \<noteq> [])
    (author_tool_request rt cx d p model text client)"
proof (cases encrypted)
  case True
  show ?thesis
    unfolding author_tool_request_def using assms True
    by (auto intro!: keeps_bind [OF keeps_author_message [OF assms]]
        keeps_mono [OF keeps_defer_calls])
next
  case False
  show ?thesis
    unfolding author_tool_request_def using assms False
    by (auto intro!: keeps_bind_any keeps_persist_tool_request keeps_ret)
qed

lemma keeps_complete_turn:
  assumes "cx_encrypted cx = encrypted"
  shows "keeps P (step_ok encrypted) (complete_turn rt cx d t response)"
  unfolding complete_turn_def Let_def
  by (intro keeps_rules keeps_mint keeps_trace_events keeps_author_plan [OF assms]
      keeps_mono [OF keeps_author_message [OF assms]])
    (simp_all add: step_ok_def step_pending_def)

lemma keeps_pause_turn:
  assumes "cx_encrypted cx = encrypted"
  shows "keeps P (step_ok encrypted) (pause_turn rt cx d t response client)"
  unfolding pause_turn_def Let_def
  by (rule keeps_bind [OF keeps_author_tool_request [OF assms]], clarify)
    (intro keeps_rules keeps_trace_events, auto simp: step_ok_def step_pending_def)

end

context turn_invariant begin

lemma keeps_invoke: "keeps P any (invoke_io rt cx t request)"
  by (auto simp: keeps_def invoke_io_def invoked split: prod.splits)

lemma keeps_turn_round:
  assumes "cx_encrypted cx = encrypted"
  shows "keeps P (\<lambda>r. \<forall>step. r = Done step \<longrightarrow> step_ok encrypted step)
    (turn_round rt cx bundle context recorded d followups)"
  unfolding turn_round_def Let_def
  by (intro keeps_rules keeps_persist_decision keeps_persist_references keeps_trace_events
      keeps_invoke keeps_mono [OF keeps_author_message [OF assms]]
      keeps_bind [OF keeps_complete_turn [OF assms]] keeps_bind [OF keeps_pause_turn [OF assms]])
    simp_all

lemma keeps_diverge: "keeps P I (\<lambda>s. None)"
  by (simp add: keeps_def)

lemma keeps_turn_rounds:
  assumes "cx_encrypted cx = encrypted"
  shows "keeps P (step_ok encrypted) (turn_rounds rt cx fuel bundle sid recorded d followups)"
proof (induction fuel arbitrary: recorded d followups)
  case 0
  then show ?case by (simp add: keeps_diverge)
next
  case (Suc fuel)
  have "keeps P (step_ok encrypted) (case outcome of Done step \<Rightarrow> ret step
      | Again d1 f1 \<Rightarrow> turn_rounds rt cx fuel bundle sid True d1 f1)"
    if "\<forall>step. outcome = Done step \<longrightarrow> step_ok encrypted step" for outcome
    using that Suc by (cases outcome) (simp_all add: keeps_ret)
  then have body: "keeps P (step_ok encrypted) (case bundle of
       None \<Rightarrow> ret (DecryptStep [RunInputRef sid] (df_to_encrypt d))
     | Some b \<Rightarrow> bind_io (turn_round rt cx b ctx recorded d followups) (\<lambda>outcome.
         case outcome of Done step \<Rightarrow> ret step
         | Again d1 f1 \<Rightarrow> turn_rounds rt cx fuel bundle sid True d1 f1))" for ctx
    by (intro keeps_option keeps_ret keeps_bind [OF keeps_turn_round [OF assms]])
      (simp_all add: step_ok_def step_pending_def)
  show ?case
    unfolding turn_rounds.simps
  proof (rule keeps_bind_any [OF keeps_recall])
    fix r
    show "keeps P (step_ok encrypted) (case r of
        NeedsDecrypt references \<Rightarrow>
          ret (DecryptStep (references @ (if bundle = None then [RunInputRef sid] else [])) (df_to_encrypt d))
      | Ready ctx \<Rightarrow> (case bundle of
          None \<Rightarrow> ret (DecryptStep [RunInputRef sid] (df_to_encrypt d))
        | Some b \<Rightarrow> bind_io (turn_round rt cx b ctx recorded d followups) (\<lambda>outcome.
            case outcome of Done step \<Rightarrow> ret step
            | Again d1 f1 \<Rightarrow> turn_rounds rt cx fuel bundle sid True d1 f1)))"
      using body by (cases r) (simp_all add: keeps_ret step_ok_def step_pending_def)
  qed
qed

lemma keeps_run_turn_inner:
  assumes "cx_encrypted cx = encrypted"
  shows "keeps P (step_ok encrypted) (run_turn_inner rt cx resume followups)"
  unfolding run_turn_inner_def Let_def
  by (intro keeps_rules keeps_turn_rounds [OF assms]) simp_all

lemma keeps_run_turn:
  assumes "cx_encrypted cx = encrypted"
  shows "keeps P (step_pending encrypted) (run_turn rt cx resume followups)"
  unfolding run_turn_def
  by (rule keeps_bind [OF keeps_attempt [OF keeps_run_turn_inner [OF assms]]])
    (auto intro!: keeps_sum keeps_ret simp: step_ok_def step_pending_def)

end

text \<open>The trivial invariant, for what results alone satisfy.\<close>

interpretation anything: turn_invariant "\<lambda>_. True" encrypted for encrypted
  by unfold_locales simp_all

section \<open>The errors of a turn\<close>

text \<open>A turn never rejects a continuation: that error is the admission's alone.\<close>

definition never_rejects :: "'a io \<Rightarrow> bool" where
  "never_rejects m \<longleftrightarrow> (\<forall>s s'. m s \<noteq> Some (Err UnexpectedContinuation, s'))"

named_theorems rejects_rules

lemma never_rejects_basic [rejects_rules]:
  "never_rejects (ret a)" "never_rejects (get_io f)" "never_rejects (mint rt)"
  "never_rejects (attempt_io m)" "never_rejects (\<lambda>s. None)"
  by (auto simp: never_rejects_def ret_def get_io_def mint_def attempt_io_def split: option.splits)

lemma never_rejects_throw [rejects_rules]: "e \<noteq> UnexpectedContinuation \<Longrightarrow> never_rejects (throw e)"
  by (simp add: never_rejects_def throw_def)

lemma never_rejects_lift [rejects_rules]:
  "r \<noteq> Err UnexpectedContinuation \<Longrightarrow> never_rejects (lift_result r)"
  by (simp add: never_rejects_def lift_result_def)

lemma never_rejects_db [rejects_rules]: "never_rejects (db f)"
  by (auto simp: never_rejects_def db_def Let_def split: option.splits sum.splits)

lemma never_rejects_bind [rejects_rules]:
  "never_rejects m \<Longrightarrow> (\<And>a. never_rejects (f a)) \<Longrightarrow> never_rejects (bind_io m f)"
  unfolding never_rejects_def by (fastforce elim: bind_io_cases)

lemma never_rejects_seq [rejects_rules]:
  "never_rejects m \<Longrightarrow> never_rejects n \<Longrightarrow> never_rejects (seq_io m n)"
  unfolding seq_io_def by (rule never_rejects_bind)

lemma never_rejects_if [rejects_rules]:
  "never_rejects m \<Longrightarrow> never_rejects n \<Longrightarrow> never_rejects (if b then m else n)"
  by simp

lemma never_rejects_when [rejects_rules]: "never_rejects m \<Longrightarrow> never_rejects (when_io b m)"
  by (simp add: when_io_def never_rejects_basic)

lemma never_rejects_option [rejects_rules]:
  "never_rejects m \<Longrightarrow> (\<And>a. never_rejects (f a)) \<Longrightarrow>
   never_rejects (case x of None \<Rightarrow> m | Some a \<Rightarrow> f a)"
  by (cases x) simp_all

lemma never_rejects_sum [rejects_rules]:
  "(\<And>a. never_rejects (f a)) \<Longrightarrow> (\<And>a. never_rejects (g a)) \<Longrightarrow>
   never_rejects (case x of Inl a \<Rightarrow> f a | Inr a \<Rightarrow> g a)"
  by (cases x) simp_all

lemma never_rejects_prod [rejects_rules]:
  "(\<And>a b. never_rejects (f a b)) \<Longrightarrow> never_rejects (case x of (a, b) \<Rightarrow> f a b)"
  by (cases x) simp

lemma never_rejects_for_each [rejects_rules]: "(\<And>x. never_rejects (f x)) \<Longrightarrow> never_rejects (for_each f xs)"
  by (induction xs) (auto intro: rejects_rules)

lemma never_rejects_map [rejects_rules]: "(\<And>x. never_rejects (f x)) \<Longrightarrow> never_rejects (map_io f xs)"
  by (induction xs) (auto intro: rejects_rules)

lemma walk_chain_never_rejects:
  "walk_chain pv creds call request n refs \<noteq> Err UnexpectedContinuation"
  using walk_chain_Err [of pv creds call request n refs UnexpectedContinuation]
  by (cases refs) auto

lemma aggregate_never_rejects':
  "aggregate_from a items = (sent, r) \<Longrightarrow> r \<noteq> Err UnexpectedContinuation"
  by (induction a items arbitrary: sent r rule: aggregate_from.induct)
    (auto split: option.splits sum.splits stream_event.splits prod.splits if_splits)

lemma aggregate_never_rejects: "snd (aggregate_from a items) \<noteq> Err UnexpectedContinuation"
  using aggregate_never_rejects' by (metis prod.collapse)

lemma invoke_never_rejects: "snd (invoke pv t creds request sink) \<noteq> Err UnexpectedContinuation"
  using walk_chain_never_rejects [of pv creds "pv_stream pv" request 0 "candidate_chain t"]
    walk_chain_never_rejects [of pv creds "pv_complete pv" request 0 "candidate_chain t"]
    aggregate_never_rejects [of no_aggregate]
  by (auto simp: invoke_def invoke_complete_def invoke_stream_def aggregate_stream_def split: sum.splits)

lemma never_rejects_invoke: "never_rejects (invoke_io rt cx t request)"
  unfolding never_rejects_def invoke_io_def
  using invoke_never_rejects by (auto split: prod.splits) (metis snd_conv)

lemmas turn_defs = persist_plaintext_message_def persist_plan_draft_def persist_tool_request_def
  persist_call_def persist_proposed_diff_def persist_routing_decision_def persist_context_references_def
  append_message_def append_plan_def append_tool_call_def append_diff_def append_routing_decision_def
  append_context_reference_def record_resolution_def record_message_event_def record_cost_event_def
  record_tool_request_def record_trace_def

lemma never_rejects_author:
  "never_rejects (author_message rt cx d role p model text)"
  "never_rejects (author_plan rt cx d body)"
  unfolding author_message_def author_plan_def turn_defs by (intro rejects_rules)+

lemma never_rejects_defer_calls: "never_rejects (defer_calls rt d cs)"
  by (induction rt d cs rule: defer_calls.induct)
    (auto simp: defer_call_def Let_def intro!: rejects_rules)

lemma never_rejects_tool_request: "never_rejects (author_tool_request rt cx d p model text client)"
  unfolding author_tool_request_def turn_defs Let_def
  by (intro rejects_rules never_rejects_author never_rejects_defer_calls)

lemma never_rejects_recall: "never_rejects (recall d)"
  unfolding recall_def Let_def by (intro rejects_rules)

lemma never_rejects_round: "never_rejects (turn_round rt cx bundle context recorded d followups)"
  unfolding turn_round_def complete_turn_def pause_turn_def Let_def persist_routing_decision_def
    persist_context_references_def append_routing_decision_def append_context_reference_def
    record_resolution_def record_message_event_def record_cost_event_def record_tool_request_def
    record_trace_def
  by (intro rejects_rules never_rejects_author never_rejects_tool_request never_rejects_invoke)
    (auto simp: map_err_Err)

lemma never_rejects_rounds: "never_rejects (turn_rounds rt cx fuel bundle sid recorded d followups)"
  by (induction fuel arbitrary: recorded d followups)
    (auto intro!: rejects_rules never_rejects_recall never_rejects_round
      split: recalled.split round_end.split)

lemma run_turn_never_rejects:
  "run_turn rt cx resume followups s = Some (Ok (ErroredStep e), s') \<Longrightarrow> e \<noteq> UnexpectedContinuation"
proof -
  have "never_rejects (run_turn_inner rt cx resume followups)"
    unfolding run_turn_inner_def Let_def
    by (intro rejects_rules never_rejects_rounds)
      (auto simp: resolve_bundle_def split: bundle_source.splits option.splits)
  moreover have "keeps any (step_ok (cx_encrypted cx)) (run_turn_inner rt cx resume followups)"
    by (rule anything.keeps_run_turn_inner) simp
  ultimately show "run_turn rt cx resume followups s = Some (Ok (ErroredStep e), s') \<Longrightarrow>
      e \<noteq> UnexpectedContinuation"
    by (auto simp: run_turn_def bind_io_def attempt_io_def ret_def never_rejects_def keeps_def
        step_ok_def split: option.splits sum.splits prod.splits) blast
qed

end
