(* ===== verification/Run_Machine.thy ===== *)
theory Run_Machine
  imports Turn
begin

text \<open>
  The run state machine (\<^verbatim>\<open>orchestrator.rs\<close>): admission under the run lock, one handler per
  continuation, the checkpoints a turn pauses at, and settling.
\<close>

section \<open>The protocol\<close>

datatype continue_kind = ToolResultsKind | ApprovalDecisionsKind | DecryptedKind | SealedKind
  | InjectKind | BreakKind

record tool_result =
  tl_call_id :: string
  tl_content :: string
  tl_is_error :: bool
  tl_decision :: "approval_decision option"

record approval_entry =
  an_approval_id :: string
  an_decision :: approval_decision
  an_reason :: "string option"

record user_message =
  um_text :: string
  um_ciphertext :: "encrypted_payload option"

datatype continue_request =
    ToolResults "tool_result list" "encrypted_payload ref_map"
  | ApprovalDecisions "approval_entry list" "encrypted_payload ref_map"
  | Decrypted "string ref_map" "encrypted_payload ref_map"
  | Sealed "encrypted_payload ref_map"
  | Inject "user_message list"
  | Break

record routing_outcome =
  ro_task_type :: task_intent
  ro_provider :: provider
  ro_model :: string
  ro_matched_rule :: "string option"
  ro_fallback_used :: bool
  ro_override_used :: bool

record completed_turn =
  ct_content :: string
  ct_provider :: provider
  ct_model :: string
  ct_classification :: classification
  ct_routing :: routing_outcome
  ct_context :: context_outcome
  ct_usage :: usage
  ct_to_encrypt :: "string ref_map"

datatype turn_outcome =
    CompletedOutcome completed_turn
  | ToolOutcome "tool_request list" "string ref_map"
  | ApprovalOutcome string approval_kind json "string ref_map"
  | DecryptOutcome "encrypted_payload ref_map" "string ref_map"
  | IdleOutcome

record turn_response =
  tp_outcome :: turn_outcome
  tp_allowed_continuations :: "continue_kind list"

fun continue_kind_of :: "continue_request \<Rightarrow> continue_kind" where
  "continue_kind_of (ToolResults _ _) = ToolResultsKind"
| "continue_kind_of (ApprovalDecisions _ _) = ApprovalDecisionsKind"
| "continue_kind_of (Decrypted _ _) = DecryptedKind"
| "continue_kind_of (Sealed _) = SealedKind"
| "continue_kind_of (Inject _) = InjectKind"
| "continue_kind_of Break = BreakKind"

definition supersedes_turn :: "continue_kind \<Rightarrow> bool" where
  "supersedes_turn k \<longleftrightarrow> k = BreakKind \<or> k = InjectKind"

definition routing_outcome_of :: "routing_decision \<Rightarrow> routing_outcome" where
  "routing_outcome_of d =
     \<lparr>ro_task_type = rd_intent d, ro_provider = rd_provider d, ro_model = rd_model d,
      ro_matched_rule = rd_matched_rule d, ro_fallback_used = rd_fallback_used d,
      ro_override_used = rd_override_used d\<rparr>"

definition idle_response :: turn_response where
  "idle_response = \<lparr>tp_outcome = IdleOutcome, tp_allowed_continuations = []\<rparr>"

section \<open>The lock\<close>

text \<open>\<open>registry.begin\<close> and \<open>registry.finish\<close> are in memory: they do not fail.\<close>

definition begin_io :: "turn_token io" where
  "begin_io = (\<lambda>s. let (token, r) = begin_turn (st_session_id s) (st_registry s)
                   in Some (Ok token, s\<lparr>st_registry := r\<rparr>))"

definition finish_io :: "turn_token \<Rightarrow> unit io" where
  "finish_io token = (\<lambda>s. Some (Ok (),
     s\<lparr>st_registry := finish_turn (st_session_id s) token (st_registry s)\<rparr>))"

definition release :: "string \<Rightarrow> nat \<Rightarrow> run_phase \<Rightarrow> unit io" where
  "release run_id turn phase =
     set_run_state ((new_run_state run_id phase)\<lparr>rs_turn := turn, rs_active := None\<rparr>)"

definition mark_active :: "run_state \<Rightarrow> unit io" where
  "mark_active state = set_run_state (state\<lparr>rs_active := Some \<lparr>at_lease = rs_run_id state\<rparr>\<rparr>)"

definition acquire :: "runtime \<Rightarrow> (string \<times> turn_token) io" where
  "acquire rt =
     bind_io (mint rt) (\<lambda>run_id.
     bind_io (acquire_run_lock ((new_run_state run_id Idle)
         \<lparr>rs_active := Some \<lparr>at_lease = run_id\<rparr>\<rparr>)) (\<lambda>acquired.
     if acquired = None then throw Busy
     else bind_io begin_io (\<lambda>token. ret (run_id, token))))"

definition abort :: "string \<Rightarrow> turn_token \<Rightarrow> unit io" where
  "abort run_id token =
     bind_io (attempt_io (release run_id 0 Idle)) (\<lambda>_. finish_io token)"

definition settle ::
  "(orchestrator_error, turn_response) result \<Rightarrow> string \<Rightarrow> turn_token \<Rightarrow> (nat \<times> run_phase) option \<Rightarrow>
   turn_response io" where
  "settle outcome run_id token restore =
     (case outcome of
        Inr response \<Rightarrow> seq_io (finish_io token) (ret response)
      | Inl e \<Rightarrow>
          (case (preserves_checkpoint e, restore) of
             (True, Some (turn, phase)) \<Rightarrow>
               bind_io (attempt_io (release run_id turn phase)) (\<lambda>_.
                 seq_io (finish_io token) (throw e))
           | _ \<Rightarrow> seq_io (abort run_id token) (throw e)))"

definition is_encrypted :: "bool io" where
  "is_encrypted = db (\<lambda>s. Ok (st_open s \<and> st_encrypted s, s))"

definition open_session :: "unit io" where
  "open_session = bind_io (db (\<lambda>s. Ok (st_open s, s))) (\<lambda>found.
     if found then ret () else throw (SessionFailed SessionNotFound))"

section \<open>Sealed content\<close>

definition sealed_content ::
  "encrypted_payload ref_map \<Rightarrow> content_ref \<Rightarrow> (orchestrator_error, secret_content) result" where
  "sealed_content sealed reference =
     (case map_of sealed reference of
        Some payload \<Rightarrow> Ok (Encrypted (payload_to_envelope payload))
      | None \<Rightarrow> Err (InternalFailure (''missing ciphertext for '' @ ref_id reference)))"

definition parse_id :: "runtime \<Rightarrow> string \<Rightarrow> string \<Rightarrow> string io" where
  "parse_id rt i message =
     lift_result (case en_parse_uuid rt i of Some u \<Rightarrow> Ok u | None \<Rightarrow> Err (InternalFailure message))"

fun flush_pending_message ::
  "runtime \<Rightarrow> encrypted_payload ref_map \<Rightarrow> pending_write \<Rightarrow> unit io" where
  "flush_pending_message rt sealed (PendingMessage i role p model) =
     bind_io (lift_result (sealed_content sealed (MessageRef i))) (\<lambda>content.
     bind_io (parse_id rt i ''pending message id is not a uuid'') (\<lambda>u.
       write_sealed_message u role p model content))"
| "flush_pending_message rt sealed _ = ret ()"

definition flush_pending_messages ::
  "runtime \<Rightarrow> pending_write list \<Rightarrow> encrypted_payload ref_map \<Rightarrow> unit io" where
  "flush_pending_messages rt pending sealed = for_each (flush_pending_message rt sealed) pending"

fun write_one_plan :: "runtime \<Rightarrow> encrypted_payload ref_map \<Rightarrow> pending_write \<Rightarrow> unit io" where
  "write_one_plan rt sealed (PendingPlan i) =
     bind_io (lift_result (sealed_content sealed (PlanRef i))) (\<lambda>content.
     bind_io (parse_id rt i ''pending plan id is not a uuid'') (\<lambda>u. write_sealed_plan u content))"
| "write_one_plan rt sealed _ = ret ()"

definition write_pending_plan ::
  "runtime \<Rightarrow> pending_write list \<Rightarrow> encrypted_payload ref_map \<Rightarrow> unit io" where
  "write_pending_plan rt pending sealed = for_each (write_one_plan rt sealed) pending"

fun write_one_diff :: "runtime \<Rightarrow> encrypted_payload ref_map \<Rightarrow> pending_write \<Rightarrow> unit io" where
  "write_one_diff rt sealed (PendingDiff i path) =
     bind_io (lift_result (sealed_content sealed (DiffRef i))) (\<lambda>content.
     bind_io (parse_id rt i ''pending diff id is not a uuid'') (\<lambda>u. write_sealed_diff u path content))"
| "write_one_diff rt sealed _ = ret ()"

definition write_pending_diff ::
  "runtime \<Rightarrow> pending_write list \<Rightarrow> encrypted_payload ref_map \<Rightarrow> unit io" where
  "write_pending_diff rt pending sealed = for_each (write_one_diff rt sealed) pending"

definition clear_rows :: "('r \<Rightarrow> string) \<Rightarrow> ('r \<Rightarrow> secret_content) \<Rightarrow> 'r list \<Rightarrow> (string \<times> string) list" where
  "clear_rows key content rows =
     List.map_filter (\<lambda>r. map_option (\<lambda>text. (key r, text)) (as_plaintext (content r))) rows"

definition clear_context_memory :: "(string \<times> string) list io" where
  "clear_context_memory = db (\<lambda>s. Ok (clear_rows mm_id mm_content (st_context_memory s), s))"

definition clear_traces :: "(string \<times> string) list io" where
  "clear_traces = db (\<lambda>s. Ok (clear_rows tx_id tx_content (st_traces s), s))"

fun reseal_one_memory :: "runtime \<Rightarrow> content_ref \<times> encrypted_payload \<Rightarrow> unit io" where
  "reseal_one_memory rt (MemoryRef i, payload) =
     bind_io (parse_id rt i ''sealed memory id is not a uuid'') (\<lambda>u.
       set_memory_content u (Encrypted (payload_to_envelope payload)))"
| "reseal_one_memory rt _ = ret ()"

definition reseal_memory :: "runtime \<Rightarrow> encrypted_payload ref_map \<Rightarrow> unit io" where
  "reseal_memory rt sealed = for_each (reseal_one_memory rt) sealed"

fun reseal_one_trace :: "runtime \<Rightarrow> content_ref \<times> encrypted_payload \<Rightarrow> unit io" where
  "reseal_one_trace rt (TraceRef i, payload) =
     bind_io (parse_id rt i ''sealed trace id is not a uuid'') (\<lambda>u.
       set_trace_content u (Encrypted (payload_to_envelope payload)))"
| "reseal_one_trace rt _ = ret ()"

definition reseal_traces :: "runtime \<Rightarrow> encrypted_payload ref_map \<Rightarrow> unit io" where
  "reseal_traces rt sealed = for_each (reseal_one_trace rt) sealed"

definition reseal_run_input :: "encrypted_payload ref_map \<Rightarrow> unit io" where
  "reseal_run_input sealed =
     bind_io (get_io st_session_id) (\<lambda>session_id.
     case map_of sealed (RunInputRef session_id) of
       Some payload \<Rightarrow> set_run_input_content (Encrypted (payload_to_envelope payload))
     | None \<Rightarrow> ret ())"

definition run_input_unsealed :: "bool io" where
  "run_input_unsealed = bind_io get_run_input (\<lambda>row. ret
     (case row of Some r \<Rightarrow> as_plaintext (iw_content r) = Some [] | None \<Rightarrow> False))"

definition validate_required_seals ::
  "pending_write list \<Rightarrow> encrypted_payload ref_map \<Rightarrow> unit io" where
  "validate_required_seals pending sealed =
     bind_io run_input_unsealed (\<lambda>unsealed.
     bind_io (get_io st_session_id) (\<lambda>session_id.
     let required = map pending_content_ref pending @ (if unsealed then [RunInputRef session_id] else [])
     in case List.find (\<lambda>r. map_of sealed r = None) required of
          Some _ \<Rightarrow> throw UnexpectedContinuation
        | None \<Rightarrow> ret ()))"

fun pending_tool_name :: "pending_write list \<Rightarrow> string \<Rightarrow> string option" where
  "pending_tool_name [] call_id = None"
| "pending_tool_name (PendingToolCall i name # ws) call_id =
     (if i = call_id then Some name else pending_tool_name ws call_id)"
| "pending_tool_name (_ # ws) call_id = pending_tool_name ws call_id"

definition build_to_decrypt ::
  "runtime \<Rightarrow> content_ref list \<Rightarrow> encrypted_payload ref_map io" where
  "build_to_decrypt rt references =
     bind_io (map_io (\<lambda>reference.
       bind_io (lift_result (case en_parse_uuid rt (ref_id reference) of
                  Some u \<Rightarrow> Ok u | None \<Rightarrow> Err (SessionFailed SessionNotFound))) (\<lambda>u.
       bind_io (get_content reference) (\<lambda>content. ret
         (case content of
            Some (Encrypted envelope) \<Rightarrow> [(reference, envelope_to_payload envelope)]
          | _ \<Rightarrow> [])))) references) (\<lambda>entries. ret (concat entries))"

section \<open>Checkpoints\<close>

definition finish_completed :: "string \<Rightarrow> completed_data \<Rightarrow> turn_response io" where
  "finish_completed run_id data =
     (let d = cd_deferred data; t = cd_resolved data;
          respond = (\<lambda>allowed to_encrypt. ret
            \<lparr>tp_outcome = CompletedOutcome
               \<lparr>ct_content = cd_content data, ct_provider = rd_provider (rt_routing t),
                ct_model = rd_model (rt_routing t), ct_classification = rt_classification t,
                ct_routing = routing_outcome_of (rt_routing t), ct_context = res_outcome (rt_context t),
                ct_usage = cd_usage data, ct_to_encrypt = to_encrypt\<rparr>,
             tp_allowed_continuations = allowed\<rparr>)
      in if df_pending d \<noteq> []
         then bind_io clear_context_memory (\<lambda>memories.
              bind_io clear_traces (\<lambda>traces.
              let to_encrypt = fold (\<lambda>(i, text). ref_insert (TraceRef i) text) traces
                   (fold (\<lambda>(i, text). ref_insert (MemoryRef i) text) memories (df_to_encrypt d))
              in seq_io (release run_id 1 (AwaitingEncrypt (df_pending d) Finalize))
                   (respond [SealedKind, BreakKind] to_encrypt)))
         else seq_io (release run_id 1 Idle) (respond [] []))"

definition pause_for_tools :: "string \<Rightarrow> awaiting_tool_data \<Rightarrow> turn_response io" where
  "pause_for_tools run_id data =
     seq_io (release run_id 0 (AwaitingTool (wt_calls data) NextTurn (df_pending (wt_deferred data))))
       (ret \<lparr>tp_outcome = ToolOutcome (wt_tool_requests data) (df_to_encrypt (wt_deferred data)),
             tp_allowed_continuations = [ToolResultsKind, InjectKind, BreakKind]\<rparr>)"

definition pause_for_approval :: "string \<Rightarrow> awaiting_approval_data \<Rightarrow> turn_response io" where
  "pause_for_approval run_id data =
     seq_io (release run_id 0 (AwaitingApproval (wa_approval_id data) PlanApproval (wa_detail data)
         NextTurn (df_pending (wa_deferred data))))
       (ret \<lparr>tp_outcome = ApprovalOutcome (wa_approval_id data) PlanApproval (wa_detail data)
               (df_to_encrypt (wa_deferred data)),
             tp_allowed_continuations = [ApprovalDecisionsKind, BreakKind]\<rparr>)"

definition pause_for_decrypt ::
  "runtime \<Rightarrow> string \<Rightarrow> content_ref list \<Rightarrow> string ref_map \<Rightarrow> turn_response io" where
  "pause_for_decrypt rt run_id references to_encrypt =
     bind_io (build_to_decrypt rt references) (\<lambda>to_decrypt.
     let records = List.map_filter (\<lambda>r. map_option (\<lambda>u. (content_ref_table r, u))
                     (en_parse_uuid rt (ref_id r))) references
     in seq_io (release run_id 0 (AwaitingDecrypt records BuildPrompt))
          (ret \<lparr>tp_outcome = DecryptOutcome to_decrypt to_encrypt,
                tp_allowed_continuations = [DecryptedKind, BreakKind]\<rparr>))"

fun finish_step :: "runtime \<Rightarrow> string \<Rightarrow> turn_step \<Rightarrow> turn_response io" where
  "finish_step rt run_id (CompletedStep data) = finish_completed run_id data"
| "finish_step rt run_id (ToolStep data) = pause_for_tools run_id data"
| "finish_step rt run_id (ApprovalStep data) = pause_for_approval run_id data"
| "finish_step rt run_id (DecryptStep references to_encrypt) =
     pause_for_decrypt rt run_id references to_encrypt"
| "finish_step rt run_id (ErroredStep e) = throw e"

section \<open>Execute\<close>

definition execute :: "runtime \<Rightarrow> execute_request \<Rightarrow> bool \<Rightarrow> turn_response io" where
  "execute rt request sink =
     seq_io open_session
    (bind_io (acquire rt) (\<lambda>(run_id, token).
     let (meta, bundle) = split_execute_request request in
     bind_io is_encrypted (\<lambda>encrypted.
     bind_io (attempt_io (persist_run_input rt run_id meta bundle encrypted)) (\<lambda>stored.
     case stored of
       Inl e \<Rightarrow> seq_io (abort run_id token) (throw e)
     | Inr _ \<Rightarrow>
         let cx = \<lparr>cx_meta = meta, cx_bundle = Loaded bundle, cx_seal_run_input = True,
                   cx_plan_active = (ti_command (rb_input bundle) = Some Plan),
                   cx_encrypted = encrypted, cx_decrypted = [], cx_sink = sink\<rparr>
         in bind_io (attempt_io (bind_io (run_turn rt cx BuildPrompt []) (finish_step rt run_id))) (\<lambda>outcome.
              settle outcome run_id token None)))))"

section \<open>Continuations\<close>

record continuation_cx =
  cc_state :: run_state
  cc_run_id :: string
  cc_meta :: run_input_meta
  cc_bundle :: bundle_source
  cc_plan_active :: bool
  cc_sink :: bool

definition run_continuation_turn ::
  "runtime \<Rightarrow> continuation_cx \<Rightarrow> resume_step \<Rightarrow> request_message list \<Rightarrow> string ref_map \<Rightarrow> turn_step io" where
  "run_continuation_turn rt cx resume followups decrypted =
     bind_io (case cc_bundle cx of
                Loaded b \<Rightarrow> ret (Loaded b)
              | Stored _ \<Rightarrow> bind_io get_run_input (\<lambda>row.
                  case row of
                    None \<Rightarrow> throw (InternalFailure ''run input is missing'')
                  | Some r \<Rightarrow> ret (Stored (iw_content r)))) (\<lambda>bundle.
     bind_io is_encrypted (\<lambda>encrypted.
       run_turn rt \<lparr>cx_meta = cc_meta cx, cx_bundle = bundle, cx_seal_run_input = False,
         cx_plan_active = cc_plan_active cx, cx_encrypted = encrypted, cx_decrypted = decrypted,
         cx_sink = cc_sink cx\<rparr> resume followups))"

definition run_and_finish ::
  "runtime \<Rightarrow> continuation_cx \<Rightarrow> resume_step \<Rightarrow> request_message list \<Rightarrow> string ref_map \<Rightarrow> turn_response io" where
  "run_and_finish rt cx resume followups decrypted =
     bind_io (run_continuation_turn rt cx resume followups decrypted) (finish_step rt (cc_run_id cx))"

definition continuation_trace_context :: "routing_decision option io" where
  "continuation_trace_context =
     bind_io (attempt_io (db (\<lambda>s. Ok (if st_open s then Some (st_decisions s) else None, s)))) (\<lambda>r. ret
       (case r of
          Inr (Some ds) \<Rightarrow> (if ds = [] then None else Some (last ds))
        | _ \<Rightarrow> None))"

definition cancel_outstanding_tools :: "runtime \<Rightarrow> run_phase \<Rightarrow> unit io" where
  "cancel_outstanding_tools rt phase =
     (case phase of
        AwaitingTool calls _ _ \<Rightarrow> for_each (\<lambda>wait.
          case en_parse_uuid rt (tw_call_id wait) of
            None \<Rightarrow> ret ()
          | Some u \<Rightarrow> set_tool_call_outcome u FailedCall None
                        (Some (Plaintext ''cancelled by supersede''))) calls
      | _ \<Rightarrow> ret ())"

definition record_result ::
  "runtime \<Rightarrow> run_phase \<Rightarrow> encrypted_payload ref_map \<Rightarrow> routing_decision option \<Rightarrow> tool_result \<Rightarrow>
   request_message io" where
  "record_result rt phase sealed trace_ctx r =
     (let (calls, pending) = (case phase of AwaitingTool cs _ p \<Rightarrow> (cs, p) | _ \<Rightarrow> ([], []));
          status = (if tl_is_error r then FailedCall else CompletedCall);
          outcome = (\<lambda>content. if tl_is_error r then (None, Some content) else (Some content, None))
      in bind_io (parse_id rt (tl_call_id r) ''tool call id is not a uuid'') (\<lambda>u.
         seq_io
           (if pending \<noteq> []
            then bind_io (lift_result (case pending_tool_name pending (tl_call_id r) of
                    Some name \<Rightarrow> Ok name
                  | None \<Rightarrow> Err (InternalFailure ''tool result for an unrecorded call''))) (\<lambda>name.
                 bind_io (lift_result (sealed_content sealed (ToolCallRef (tl_call_id r)))) (\<lambda>content.
                   let (stored_result, stored_error) = outcome content
                   in write_sealed_tool_call u name status stored_result stored_error))
            else let (stored_result, stored_error) = outcome (Plaintext (tl_content r))
                 in set_tool_call_outcome u status stored_result stored_error)
        (seq_io (when_io (list_ex (\<lambda>w. tw_records_diff w \<and> tw_call_id w = tl_call_id r) calls)
             (set_diff_status u (if tl_is_error r then RejectedDiff else AppliedDiff)))
        (seq_io (case (trace_ctx, List.find (\<lambda>w. tw_call_id w = tl_call_id r) calls) of
                   (Some _, Some w) \<Rightarrow> record_tool_result rt (tw_tool_name w) (tl_is_error r)
                 | _ \<Rightarrow> ret ())
        (seq_io (case tl_decision r of
                   None \<Rightarrow> ret ()
                 | Some decision \<Rightarrow>
                     seq_io (persist_approval rt ''tool_call'' (tl_call_id r) decision None)
                       (when_io (trace_ctx \<noteq> None)
                         (record_approval_event rt ''tool_call'' (tl_call_id r) decision None)))
          (ret (ToolResultMsg (tl_call_id r) (tl_content r) (tl_is_error r))))))))"

definition answers_calls :: "tool_wait list \<Rightarrow> tool_result list \<Rightarrow> bool" where
  "answers_calls calls results \<longleftrightarrow>
     length (map tl_call_id results) = card (set (map tl_call_id results)) \<and>
     set (map tl_call_id results) = set (map tw_call_id calls)"

definition resume_tool_results ::
  "runtime \<Rightarrow> continuation_cx \<Rightarrow> tool_result list \<Rightarrow> encrypted_payload ref_map \<Rightarrow> turn_response io" where
  "resume_tool_results rt cx results sealed =
     (case rs_phase (cc_state cx) of
        AwaitingTool calls resume pending \<Rightarrow>
          if \<not> answers_calls calls results then throw UnexpectedContinuation
          else
            seq_io (when_io (pending \<noteq> [])
              (seq_io (validate_required_seals pending sealed)
              (seq_io (flush_pending_messages rt pending sealed)
              (seq_io (write_pending_diff rt pending sealed) (reseal_run_input sealed)))))
           (bind_io continuation_trace_context (\<lambda>trace_ctx.
            bind_io (map_io (record_result rt (rs_phase (cc_state cx)) sealed trace_ctx) results) (\<lambda>followups.
              run_and_finish rt cx NextTurn followups [])))
      | _ \<Rightarrow> throw UnexpectedContinuation)"

definition resume_inject :: "runtime \<Rightarrow> continuation_cx \<Rightarrow> user_message list \<Rightarrow> turn_response io" where
  "resume_inject rt cx messages =
     seq_io (cancel_outstanding_tools rt (rs_phase (cc_state cx)))
       (run_and_finish rt
          (cx\<lparr>cc_bundle := Loaded (for_injection (join [newline] (map um_text messages)))\<rparr>)
          BuildPrompt [] [])"

definition resume_break :: "runtime \<Rightarrow> continuation_cx \<Rightarrow> turn_response io" where
  "resume_break rt cx =
     seq_io (cancel_outstanding_tools rt (rs_phase (cc_state cx)))
    (seq_io (release (cc_run_id cx) (rs_turn (cc_state cx)) Idle)
       (ret idle_response))"

definition resume_decrypted ::
  "runtime \<Rightarrow> continuation_cx \<Rightarrow> string ref_map \<Rightarrow> encrypted_payload ref_map \<Rightarrow> turn_response io" where
  "resume_decrypted rt cx plaintext encrypted =
     (case rs_phase (cc_state cx) of
        AwaitingDecrypt records resume \<Rightarrow>
          seq_io (validate_required_seals [] encrypted)
         (seq_io (reseal_run_input encrypted)
            (run_and_finish rt cx resume [] plaintext))
      | _ \<Rightarrow> throw UnexpectedContinuation)"

definition resume_sealed ::
  "runtime \<Rightarrow> continuation_cx \<Rightarrow> encrypted_payload ref_map \<Rightarrow> turn_response io" where
  "resume_sealed rt cx sealed =
     (case rs_phase (cc_state cx) of
        AwaitingEncrypt pending resume \<Rightarrow>
          seq_io (validate_required_seals pending sealed)
         (seq_io (flush_pending_messages rt pending sealed)
         (seq_io (write_pending_plan rt pending sealed)
         (seq_io (reseal_memory rt sealed)
         (seq_io (reseal_traces rt sealed)
         (seq_io (reseal_run_input sealed)
         (seq_io (release (cc_run_id cx) (rs_turn (cc_state cx)) Idle)
            (ret idle_response)))))))
      | _ \<Rightarrow> throw UnexpectedContinuation)"

definition plan_id_from_detail :: "runtime \<Rightarrow> json \<Rightarrow> (orchestrator_error, string) result" where
  "plan_id_from_detail rt detail =
     (case Option.bind (Option.bind (json_get detail ''plan'') json_str) (en_parse_uuid rt) of
        Some u \<Rightarrow> Ok u
      | None \<Rightarrow> Err (InternalFailure ''approval detail has no plan id''))"

definition clear_plan_active :: "unit io" where
  "clear_plan_active = bind_io get_run_input (\<lambda>row.
     case row of
       None \<Rightarrow> throw (InternalFailure ''run input vanished before plan accept'')
     | Some r \<Rightarrow> set_run_input (r\<lparr>iw_plan_active := False\<rparr>))"

definition resume_approvals ::
  "runtime \<Rightarrow> continuation_cx \<Rightarrow> approval_entry list \<Rightarrow> encrypted_payload ref_map \<Rightarrow> turn_response io" where
  "resume_approvals rt cx decisions sealed =
     (let resumed = cx\<lparr>cc_plan_active := False\<rparr>;
          idle = seq_io (release (cc_run_id cx) (rs_turn (cc_state cx)) Idle) (ret idle_response)
      in case rs_phase (cc_state cx) of
           AwaitingApproval approval_id kind detail resume pending \<Rightarrow>
             (case List.find (\<lambda>e. an_approval_id e = approval_id) decisions of
                None \<Rightarrow> throw UnexpectedContinuation
              | Some entry \<Rightarrow>
                  let approved = (an_decision entry = Approved) in
                  bind_io continuation_trace_context (\<lambda>trace_ctx.
                  if kind = PlanApproval
                  then bind_io (lift_result (plan_id_from_detail rt detail)) (\<lambda>plan_id.
                       seq_io (when_io (pending \<noteq> [])
                         (seq_io (validate_required_seals pending sealed)
                         (seq_io (flush_pending_messages rt pending sealed)
                         (seq_io (write_pending_plan rt pending sealed) (reseal_run_input sealed)))))
                      (seq_io (persist_approval rt ''plan'' plan_id (an_decision entry) (an_reason entry))
                      (seq_io (when_io (trace_ctx \<noteq> None)
                         (record_approval_event rt ''plan'' plan_id (an_decision entry) (an_reason entry)))
                      (seq_io (set_plan_status plan_id (if approved then ApprovedPlan else RejectedPlan))
                         (if \<not> approved then idle
                          else seq_io clear_plan_active
                                 (run_and_finish rt resumed NextTurn [] []))))))
                  else seq_io (persist_approval rt ''gate'' approval_id (an_decision entry) (an_reason entry))
                      (seq_io (when_io (trace_ctx \<noteq> None)
                         (record_approval_event rt ''gate'' approval_id (an_decision entry) (an_reason entry)))
                         (if \<not> approved then idle
                          else run_and_finish rt resumed InvokeModel [] []))))
         | _ \<Rightarrow> throw UnexpectedContinuation)"

fun dispatch_continuation ::
  "runtime \<Rightarrow> continuation_cx \<Rightarrow> continue_request \<Rightarrow> turn_response io" where
  "dispatch_continuation rt cx (ToolResults results encrypted) = resume_tool_results rt cx results encrypted"
| "dispatch_continuation rt cx (ApprovalDecisions decisions encrypted) =
     resume_approvals rt cx decisions encrypted"
| "dispatch_continuation rt cx (Inject messages) = resume_inject rt cx messages"
| "dispatch_continuation rt cx (Decrypted plaintext encrypted) =
     resume_decrypted rt cx plaintext encrypted"
| "dispatch_continuation rt cx (Sealed encrypted) = resume_sealed rt cx encrypted"
| "dispatch_continuation rt cx Break = resume_break rt cx"

definition admit :: "run_state \<Rightarrow> string \<Rightarrow> continue_kind \<Rightarrow> turn_token io" where
  "admit state run_id kind =
     (if supersedes_turn kind
      then bind_io begin_io (\<lambda>token.
           bind_io (attempt_io (mark_active state)) (\<lambda>marked.
           case marked of
             Inl e \<Rightarrow> seq_io (abort run_id token) (throw e)
           | Inr _ \<Rightarrow> ret token))
      else bind_io (acquire_run_lock (state\<lparr>rs_active := Some \<lparr>at_lease = rs_run_id state\<rparr>\<rparr>)) (\<lambda>acquired.
           if acquired = None then throw Busy else begin_io))"

definition advance :: "runtime \<Rightarrow> continue_request \<Rightarrow> bool \<Rightarrow> turn_response io" where
  "advance rt continuation sink =
     seq_io open_session
    (bind_io get_run_state (\<lambda>found.
     case found of
       None \<Rightarrow> throw NoActiveRun
     | Some state \<Rightarrow>
         bind_io (parse_id rt (rs_run_id state) ''stored run id is not a uuid'') (\<lambda>run_id.
         bind_io get_run_input (\<lambda>row.
         case row of
           None \<Rightarrow> throw (InternalFailure ''run input is missing'')
         | Some r \<Rightarrow>
             bind_io (admit state run_id (continue_kind_of continuation)) (\<lambda>token.
             let cx = \<lparr>cc_state = state, cc_run_id = run_id, cc_meta = iw_meta r,
                       cc_bundle = Stored (iw_content r), cc_plan_active = iw_plan_active r,
                       cc_sink = sink\<rparr>
             in bind_io (attempt_io (dispatch_continuation rt cx continuation)) (\<lambda>outcome.
                  settle outcome run_id token (Some (rs_turn state, rs_phase state))))))))"

end
