(* ===== verification/Run_Invariants.thy ===== *)
theory Run_Invariants
  imports Run_Machine
begin

text \<open>
  What the run state machine guarantees: a reply and the checkpoint it leaves agree, an
  encrypted session stores no authored content in clear, a rejected continuation changes
  nothing, the lock is released, and where the implementation falls short of its
  documentation.
\<close>

section \<open>Replies and checkpoints\<close>

text \<open>The continuations that answer a checkpoint.\<close>

fun allowed_for :: "run_phase \<Rightarrow> continue_kind list" where
  "allowed_for Idle = []"
| "allowed_for (AwaitingDecrypt _ _) = [DecryptedKind, BreakKind]"
| "allowed_for (AwaitingTool _ _ _) = [ToolResultsKind, InjectKind, BreakKind]"
| "allowed_for (AwaitingApproval _ _ _ _ _) = [ApprovalDecisionsKind, BreakKind]"
| "allowed_for (AwaitingEncrypt _ _) = [SealedKind, BreakKind]"

definition checkpoint :: "turn_response \<Rightarrow> store \<Rightarrow> bool" where
  "checkpoint r s \<longleftrightarrow> (\<exists>rs. st_run_state s = Some rs \<and> rs_active rs = None \<and>
     tp_allowed_continuations r = allowed_for (rs_phase rs))"

text \<open>\<open>checkpoints Q m\<close>: a reply of \<open>m\<close> leaves its checkpoint, in a phase with \<open>Q\<close>.\<close>

definition checkpoints :: "(run_phase \<Rightarrow> bool) \<Rightarrow> turn_response io \<Rightarrow> bool" where
  "checkpoints Q m \<longleftrightarrow> (\<forall>s r s'. m s = Some (Ok r, s') \<longrightarrow>
     checkpoint r s' \<and> (\<forall>rs. st_run_state s' = Some rs \<longrightarrow> Q (rs_phase rs)))"

text \<open>The phases a turn that ran can leave, and those a continuation can.\<close>

fun resumed :: "run_phase \<Rightarrow> bool" where
  "resumed Idle = True"
| "resumed (AwaitingDecrypt _ step) = (step = BuildPrompt)"
| "resumed (AwaitingTool _ step _) = (step = NextTurn)"
| "resumed (AwaitingApproval _ kind _ step _) = (kind = PlanApproval \<and> step = NextTurn)"
| "resumed (AwaitingEncrypt pending step) = (pending \<noteq> [] \<and> step = Finalize)"

fun after :: "continue_kind \<Rightarrow> run_phase \<Rightarrow> bool" where
  "after BreakKind phase = (phase = Idle)"
| "after SealedKind phase = (phase = Idle)"
| "after _ phase = resumed phase"

lemma after_resumed [simp]:
  "after ToolResultsKind = resumed" "after ApprovalDecisionsKind = resumed"
  "after DecryptedKind = resumed" "after InjectKind = resumed"
  by (simp_all add: fun_eq_iff)

named_theorems checkpoint_rules

lemma checkpoints_throw [checkpoint_rules]: "checkpoints Q (throw e)"
  by (simp add: checkpoints_def throw_def)

lemma checkpoints_bind [checkpoint_rules]: "(\<And>a. checkpoints Q (f a)) \<Longrightarrow> checkpoints Q (bind_io m f)"
  unfolding checkpoints_def by (auto elim: bind_io_cases)

lemma checkpoints_seq [checkpoint_rules]: "checkpoints Q n \<Longrightarrow> checkpoints Q (seq_io m n)"
  unfolding seq_io_def by (rule checkpoints_bind)

lemma checkpoints_if [checkpoint_rules]:
  "(b \<Longrightarrow> checkpoints Q m) \<Longrightarrow> (\<not> b \<Longrightarrow> checkpoints Q n) \<Longrightarrow> checkpoints Q (if b then m else n)"
  by simp

lemma checkpoints_option [checkpoint_rules]:
  "checkpoints Q m \<Longrightarrow> (\<And>a. checkpoints Q (f a)) \<Longrightarrow> checkpoints Q (case x of None \<Rightarrow> m | Some a \<Rightarrow> f a)"
  by (cases x) simp_all

lemma checkpoints_sum [checkpoint_rules]:
  "(\<And>a. checkpoints Q (f a)) \<Longrightarrow> (\<And>a. checkpoints Q (g a)) \<Longrightarrow>
   checkpoints Q (case x of Inl a \<Rightarrow> f a | Inr a \<Rightarrow> g a)"
  by (cases x) simp_all

lemma checkpoints_prod [checkpoint_rules]:
  "(\<And>a b. checkpoints Q (f a b)) \<Longrightarrow> checkpoints Q (case x of (a, b) \<Rightarrow> f a b)"
  by (cases x) simp

lemma db_Ok:
  "db f s = Some (Ok a, s') \<longleftrightarrow>
     st_faults s (st_clock s) = None \<and> f (s\<lparr>st_clock := Suc (st_clock s)\<rparr>) = Ok (a, s')"
  by (auto simp: db_def Let_def split: option.splits sum.splits)

lemma checkpoints_release [checkpoint_rules]:
  "tp_allowed_continuations r = allowed_for phase \<Longrightarrow> Q phase \<Longrightarrow>
   checkpoints Q (seq_io (release run_id turn phase) (ret r))"
  by (auto simp: checkpoints_def checkpoint_def seq_io_def release_def set_run_state_def ret_def
      new_run_state_def db_Ok elim!: bind_io_cases)

lemma checkpoints_finish_step: "checkpoints resumed (finish_step rt run_id step)"
proof (cases step)
  case (CompletedStep d)
  then show ?thesis
    unfolding CompletedStep finish_step.simps finish_completed_def Let_def
    by (intro checkpoints_if checkpoints_bind checkpoints_release) simp_all
next
  case (DecryptStep refs m)
  then show ?thesis
    unfolding DecryptStep finish_step.simps pause_for_decrypt_def Let_def
    by (intro checkpoints_bind checkpoints_release) simp_all
qed (simp_all add: pause_for_tools_def pause_for_approval_def checkpoints_throw checkpoints_release)

lemma checkpoints_run_and_finish: "checkpoints resumed (run_and_finish rt cx resume followups decrypted)"
  unfolding run_and_finish_def by (intro checkpoints_bind checkpoints_finish_step)

lemma checkpoints_idle: "Q Idle \<Longrightarrow> checkpoints Q (seq_io (release run_id turn Idle) (ret idle_response))"
  by (rule checkpoints_release) (simp_all add: idle_response_def)

lemma checkpoints_dispatch: "checkpoints (after (continue_kind_of continuation)) (dispatch_continuation rt cx continuation)"
proof (cases continuation)
  case (ToolResults results sealed)
  then show ?thesis
    unfolding ToolResults dispatch_continuation.simps resume_tool_results_def
    by (cases "rs_phase (cc_state cx)")
      (auto intro!: checkpoint_rules checkpoints_run_and_finish)
next
  case (ApprovalDecisions decisions sealed)
  then show ?thesis
    unfolding ApprovalDecisions dispatch_continuation.simps resume_approvals_def Let_def
    by (cases "rs_phase (cc_state cx)")
      (auto intro!: checkpoints_throw checkpoints_option checkpoints_bind checkpoints_if
        checkpoints_seq checkpoints_run_and_finish checkpoints_idle simp: seq_io_def)
next
  case (Decrypted plaintext sealed)
  then show ?thesis
    unfolding Decrypted dispatch_continuation.simps resume_decrypted_def
    by (cases "rs_phase (cc_state cx)")
      (auto intro!: checkpoint_rules checkpoints_run_and_finish)
next
  case (Sealed sealed)
  then show ?thesis
    unfolding Sealed dispatch_continuation.simps resume_sealed_def
    by (cases "rs_phase (cc_state cx)")
      (simp_all add: checkpoints_throw, intro checkpoints_seq [of _ "seq_io _ _"] checkpoints_idle, simp)
next
  case (Inject messages)
  then show ?thesis
    unfolding Inject dispatch_continuation.simps resume_inject_def
    by (auto intro!: checkpoints_seq checkpoints_run_and_finish)
next
  case Break
  then show ?thesis
    unfolding Break dispatch_continuation.simps resume_break_def
    by (intro checkpoints_seq [of _ "seq_io _ _"] checkpoints_idle) simp
qed

lemma checkpoint_registry [simp]:
  "checkpoint r (s\<lparr>st_registry := g\<rparr>) = checkpoint r s"
  by (simp add: checkpoint_def)

text \<open>Settling a reply releases the token and keeps the checkpoint.\<close>

lemma checkpoints_settle:
  assumes "checkpoints Q m"
  shows "checkpoints Q (bind_io (attempt_io m) (\<lambda>outcome. settle outcome run_id token restore))"
  unfolding checkpoints_def
proof (intro allI impI)
  fix s r s'
  assume "bind_io (attempt_io m) (\<lambda>outcome. settle outcome run_id token restore) s = Some (Ok r, s')"
  then obtain outcome t where m: "m s = Some (outcome, t)"
    and settle: "settle outcome run_id token restore t = Some (Ok r, s')"
    by (auto simp: attempt_io_def split: option.splits elim!: bind_io_cases)
  show "checkpoint r s' \<and> (\<forall>rs. st_run_state s' = Some rs \<longrightarrow> Q (rs_phase rs))"
  proof (cases outcome)
    case (Inl e)
    with settle show ?thesis
      by (auto simp: settle_def seq_io_def throw_def split: bool.splits option.splits prod.splits
          elim!: bind_io_cases)
  next
    case (Inr response)
    with settle have "r = response" "\<exists>g. s' = t\<lparr>st_registry := g\<rparr>"
      by (auto simp: settle_def seq_io_def finish_io_def ret_def bind_io_def)
    with assms m Inr show ?thesis by (auto simp: checkpoints_def)
  qed
qed

lemma checkpoints_execute: "checkpoints resumed (execute rt request sink)"
  unfolding execute_def Let_def
  by (intro checkpoints_seq [of _ "bind_io (acquire rt) _"] checkpoints_bind [of _ _ "acquire rt"]
      checkpoints_prod checkpoints_bind [of _ _ is_encrypted] checkpoints_bind [of _ _ "attempt_io (persist_run_input _ _ _ _ _)"]
      checkpoints_sum checkpoints_settle checkpoints_bind [of _ _ "run_turn _ _ _ _"] checkpoints_finish_step)
    (auto intro: checkpoint_rules)

lemma checkpoints_advance: "checkpoints (after (continue_kind_of continuation)) (advance rt continuation sink)"
  unfolding advance_def Let_def
  by (intro checkpoints_seq [of _ "bind_io get_run_state _"] checkpoints_bind [of _ _ get_run_state]
      checkpoints_option checkpoints_throw checkpoints_bind [of _ _ "parse_id _ _ _"]
      checkpoints_bind [of _ _ get_run_input] checkpoints_bind [of _ _ "admit _ _ _"]
      checkpoints_settle checkpoints_dispatch)

section \<open>An encrypted session stores nothing it authored in clear\<close>

fun opaque :: "secret_content \<Rightarrow> bool" where
  "opaque (Encrypted _) = True"
| "opaque (Plaintext _) = False"

text \<open>The router's own marker on a call it cancelled is no user content.\<close>

definition cancelled_marker :: secret_content where
  "cancelled_marker = Plaintext ''cancelled by supersede''"

definition tool_call_sealed :: "tool_call_row \<Rightarrow> bool" where
  "tool_call_sealed c \<longleftrightarrow> tr_arguments c = Plaintext [] \<and>
     (\<forall>x. tr_result c = Some x \<longrightarrow> opaque x) \<and>
     (\<forall>x. tr_error c = Some x \<longrightarrow> opaque x \<or> x = cancelled_marker)"

definition rows_sealed :: "store \<Rightarrow> bool" where
  "rows_sealed s \<longleftrightarrow> (\<forall>m\<in>set (st_messages s). opaque (mr_content m)) \<and>
     (\<forall>c\<in>set (st_tool_calls s). tool_call_sealed c) \<and>
     (\<forall>p\<in>set (st_plans s). \<forall>x. pr_content p = Some x \<longrightarrow> opaque x) \<and>
     (\<forall>d\<in>set (st_diffs s). opaque (dr_content d)) \<and>
     (\<forall>r. st_run_input s = Some r \<longrightarrow> opaque (iw_content r) \<or> iw_content r = Plaintext [])"

text \<open>A pause for tools of an encrypted session carries rows still to be sealed.\<close>

fun phase_deferred :: "run_phase \<Rightarrow> bool" where
  "phase_deferred (AwaitingTool _ _ pending) = (pending \<noteq> [])"
| "phase_deferred _ = True"

definition sealed_store :: "store \<Rightarrow> bool" where
  "sealed_store s \<longleftrightarrow> st_open s \<and> st_encrypted s \<and> rows_sealed s \<and>
     (\<forall>rs. st_run_state s = Some rs \<longrightarrow> phase_deferred (rs_phase rs))"

interpretation sealed: turn_invariant sealed_store True
  by unfold_locales (simp_all add: sealed_store_def rows_sealed_def)

lemma sealed_set_run_state:
  "phase_deferred (rs_phase rs) \<Longrightarrow> keeps sealed_store any (set_run_state rs)"
  unfolding set_run_state_def
  by (rule sealed.keeps_db) (auto simp: sealed_store_def rows_sealed_def)

lemma sealed_release: "phase_deferred phase \<Longrightarrow> keeps sealed_store any (release run_id turn phase)"
  unfolding release_def by (rule sealed_set_run_state) (simp add: new_run_state_def)

lemma sealed_acquire_lock:
  "phase_deferred (rs_phase rs) \<Longrightarrow> keeps sealed_store any (acquire_run_lock rs)"
  unfolding acquire_run_lock_def
  by (rule sealed.keeps_db) (auto simp: sealed_store_def rows_sealed_def split: option.splits)

lemma sealed_registry: "keeps sealed_store any begin_io" "keeps sealed_store any (finish_io token)"
  by (auto simp: keeps_def begin_io_def finish_io_def sealed_store_def rows_sealed_def split: prod.splits)

lemma sealed_abort: "keeps sealed_store any (abort run_id token)"
  unfolding abort_def by (intro keeps_rules sealed_release sealed_registry) simp

lemma sealed_is_encrypted: "keeps sealed_store (\<lambda>b. b) is_encrypted"
  unfolding is_encrypted_def by (rule sealed.keeps_db) (auto simp: sealed_store_def)

lemma sealed_open: "keeps sealed_store any open_session"
  unfolding open_session_def by (intro keeps_rules sealed.keeps_read) simp_all

lemma sealed_approval: "keeps sealed_store any (persist_approval rt target i decision reason)"
  unfolding persist_approval_def append_approval_def
  by (intro keeps_rules sealed.keeps_mint sealed.keeps_db) (auto simp: sealed_store_def rows_sealed_def)

lemma sealed_content_opaque: "sealed_content sealed r = Ok x \<Longrightarrow> opaque x"
  by (auto simp: sealed_content_def split: option.splits)

lemma keeps_parse_id: "keeps P any (parse_id rt i message)"
  unfolding parse_id_def by (rule keeps_lift) simp

lemma keeps_sealed_content: "keeps P opaque (lift_result (sealed_content sealed r))"
  by (rule keeps_lift) (rule sealed_content_opaque)

lemma sealed_flush_message: "keeps sealed_store any (flush_pending_message rt sealed w)"
proof (cases w)
  case (PendingMessage i role p model)
  have "keeps sealed_store any (write_sealed_message u role p model content)" if "opaque content"
    for u content
    unfolding write_sealed_message_def append_message_def
    by (rule sealed.keeps_db) (use that in \<open>auto simp: sealed_store_def rows_sealed_def split: if_splits\<close>)
  then show ?thesis
    unfolding PendingMessage flush_pending_message.simps
    by (intro keeps_bind [OF keeps_sealed_content] keeps_bind_any [OF keeps_parse_id])
qed (simp_all add: keeps_ret)

lemma sealed_write_plan: "keeps sealed_store any (write_one_plan rt sealed w)"
proof (cases w)
  case (PendingPlan i)
  have "keeps sealed_store any (write_sealed_plan u content)" if "opaque content" for u content
    unfolding write_sealed_plan_def append_plan_def
    by (rule sealed.keeps_db) (use that in \<open>auto simp: sealed_store_def rows_sealed_def split: if_splits\<close>)
  then show ?thesis
    unfolding PendingPlan write_one_plan.simps
    by (intro keeps_bind [OF keeps_sealed_content] keeps_bind_any [OF keeps_parse_id])
qed (simp_all add: keeps_ret)

lemma sealed_write_diff: "keeps sealed_store any (write_one_diff rt sealed w)"
proof (cases w)
  case (PendingDiff i path)
  have "keeps sealed_store any (write_sealed_diff u path content)" if "opaque content" for u content
    unfolding write_sealed_diff_def append_diff_def
    by (rule sealed.keeps_db) (use that in \<open>auto simp: sealed_store_def rows_sealed_def split: if_splits\<close>)
  then show ?thesis
    unfolding PendingDiff write_one_diff.simps
    by (intro keeps_bind [OF keeps_sealed_content] keeps_bind_any [OF keeps_parse_id])
qed (simp_all add: keeps_ret)

lemma sealed_reseal_run_input: "keeps sealed_store any (reseal_run_input sealed)"
  unfolding reseal_run_input_def set_run_input_content_def
  by (intro keeps_rules sealed.keeps_db) (auto simp: sealed_store_def rows_sealed_def split: option.splits)

lemma sealed_reseal_memory: "keeps sealed_store any (reseal_one_memory rt e)"
proof (cases "(rt, e)" rule: reseal_one_memory.cases)
  case (1 rt i payload)
  then show ?thesis
    by (auto simp: set_memory_content_def sealed_store_def rows_sealed_def split: if_splits
        intro!: keeps_bind_any keeps_parse_id sealed.keeps_db)
qed (simp_all add: keeps_ret)

lemma sealed_reseal_trace: "keeps sealed_store any (reseal_one_trace rt e)"
proof (cases "(rt, e)" rule: reseal_one_trace.cases)
  case (1 rt i payload)
  then show ?thesis
    by (auto simp: set_trace_content_def sealed_store_def rows_sealed_def split: if_splits
        intro!: keeps_bind_any keeps_parse_id sealed.keeps_db)
qed (simp_all add: keeps_ret)

lemma sealed_get_run_input:
  "keeps sealed_store (\<lambda>row. \<forall>r. row = Some r \<longrightarrow> opaque (iw_content r) \<or> iw_content r = Plaintext [])
     get_run_input"
  unfolding get_run_input_def by (rule sealed.keeps_db) (auto simp: sealed_store_def rows_sealed_def)

lemma sealed_set_run_input:
  "opaque (iw_content r) \<or> iw_content r = Plaintext [] \<Longrightarrow> keeps sealed_store any (set_run_input r)"
  unfolding set_run_input_def by (rule sealed.keeps_db) (auto simp: sealed_store_def rows_sealed_def)

lemma sealed_validate: "keeps sealed_store any (validate_required_seals pending sealed)"
  unfolding validate_required_seals_def run_input_unsealed_def get_run_input_def Let_def
  by (intro keeps_rules sealed.keeps_read) simp_all

lemma sealed_cancel_tools: "keeps sealed_store any (cancel_outstanding_tools rt phase)"
proof -
  have "keeps sealed_store any (set_tool_call_outcome u FailedCall None (Some cancelled_marker))" for u
    unfolding set_tool_call_outcome_def
    by (rule sealed.keeps_db) (auto simp: sealed_store_def rows_sealed_def tool_call_sealed_def split: if_splits, blast)
  then show ?thesis
    unfolding cancel_outstanding_tools_def cancelled_marker_def
    by (cases phase) (auto intro!: keeps_rules)
qed

lemma sealed_set_plan: "keeps sealed_store any (set_plan_status i status)"
  unfolding set_plan_status_def
  by (rule sealed.keeps_db) (auto simp: sealed_store_def rows_sealed_def split: if_splits)

lemma sealed_set_diff: "keeps sealed_store any (set_diff_status i status)"
  unfolding set_diff_status_def
  by (rule sealed.keeps_db) (auto simp: sealed_store_def rows_sealed_def split: if_splits)

lemma sealed_trace_context: "keeps sealed_store any continuation_trace_context"
  unfolding continuation_trace_context_def by (intro keeps_rules sealed.keeps_read) simp_all

text \<open>The result of a call reaches the store of an encrypted session sealed.\<close>

lemma sealed_write_tool_call:
  assumes "\<And>x. stored_result = Some x \<Longrightarrow> opaque x" "\<And>x. stored_error = Some x \<Longrightarrow> opaque x"
  shows "keeps sealed_store any (write_sealed_tool_call u name status stored_result stored_error)"
  unfolding write_sealed_tool_call_def append_tool_call_def
  by (rule sealed.keeps_db)
    (use assms in \<open>auto simp: sealed_store_def rows_sealed_def tool_call_sealed_def split: if_splits\<close>)

lemma sealed_record_result:
  assumes "phase_deferred phase" "phase = AwaitingTool calls resume pending"
  shows "keeps sealed_store any (record_result rt phase sealed trace_ctx r)"
proof -
  have pending: "pending \<noteq> []" using assms by simp
  show ?thesis
    unfolding record_result_def Let_def assms(2) run_phase.case prod.case
    using pending
    by (intro keeps_bind_any keeps_parse_id keeps_seq keeps_ret TrueI keeps_when sealed_set_diff
        keeps_option keeps_prod sealed.keeps_trace_events sealed_approval)
      (auto intro!: keeps_rules keeps_bind [OF keeps_sealed_content] sealed_write_tool_call
        sealed.keeps_trace_events sealed_approval split: option.splits)
qed

lemma sealed_finish_step:
  assumes "step_pending True step"
  shows "keeps sealed_store any (finish_step rt run_id step)"
proof (cases step)
  case (CompletedStep d)
  show ?thesis
    unfolding CompletedStep finish_step.simps finish_completed_def Let_def clear_context_memory_def
      clear_traces_def
    by (intro keeps_rules sealed.keeps_read sealed_release) simp_all
next
  case (ToolStep d)
  then show ?thesis using assms
    by (auto simp: step_pending_def pause_for_tools_def intro!: keeps_rules sealed_release)
next
  case (ApprovalStep d)
  then show ?thesis
    by (auto simp: pause_for_approval_def intro!: keeps_rules sealed_release)
next
  case (DecryptStep refs m)
  show ?thesis
    unfolding DecryptStep finish_step.simps pause_for_decrypt_def build_to_decrypt_def get_content_def Let_def
    by (intro keeps_rules sealed.keeps_read sealed_release) simp_all
qed (simp add: keeps_throw)

lemma sealed_run_and_finish: "keeps sealed_store any (run_and_finish rt cx resume followups decrypted)"
proof -
  have "keeps sealed_store (step_pending True) (run_continuation_turn rt cx resume followups decrypted)"
    unfolding run_continuation_turn_def
    by (intro keeps_bind_any keeps_bind [OF sealed_is_encrypted] sealed.keeps_run_turn)
      (auto intro!: keeps_rules keeps_mono [OF sealed_get_run_input] split: bundle_source.split)
  then show ?thesis
    unfolding run_and_finish_def by (rule keeps_bind) (rule sealed_finish_step)
qed

lemma sealed_dispatch:
  assumes "phase_deferred (rs_phase (cc_state cx))"
  shows "keeps sealed_store any (dispatch_continuation rt cx continuation)"
proof (cases continuation)
  case (ToolResults results sealed)
  show ?thesis
  proof (cases "rs_phase (cc_state cx)")
    case (AwaitingTool calls resume pending)
    have "keeps sealed_store any (record_result rt (rs_phase (cc_state cx)) sealed ctx r)" for ctx r
      by (rule sealed_record_result [OF assms AwaitingTool])
    then show ?thesis
      unfolding ToolResults dispatch_continuation.simps resume_tool_results_def AwaitingTool run_phase.case
        flush_pending_messages_def write_pending_diff_def
      by (intro keeps_rules sealed_validate sealed_flush_message sealed_write_diff
          sealed_reseal_run_input sealed_trace_context sealed_run_and_finish) (simp add: AwaitingTool)
  qed (simp_all add: ToolResults resume_tool_results_def keeps_throw)
next
  case (ApprovalDecisions decisions sealed)
  have plan: "keeps sealed_store any clear_plan_active"
    unfolding clear_plan_active_def
    by (rule keeps_bind [OF sealed_get_run_input])
      (auto intro!: keeps_option keeps_throw sealed_set_run_input)
  have idle: "keeps sealed_store any (seq_io (release (cc_run_id cx) (rs_turn (cc_state cx)) Idle) (ret idle_response))"
    by (intro keeps_rules sealed_release) simp_all
  have id: "keeps sealed_store any (lift_result (plan_id_from_detail rt detail))" for detail
    by (rule keeps_lift) simp
  show ?thesis
  proof (cases "rs_phase (cc_state cx)")
    case (AwaitingApproval approval_id kind detail resume pending)
    show ?thesis
      unfolding ApprovalDecisions dispatch_continuation.simps resume_approvals_def Let_def
        AwaitingApproval run_phase.case flush_pending_messages_def write_pending_plan_def
      by (intro keeps_option keeps_throw keeps_bind_any sealed_trace_context keeps_if id keeps_seq
          keeps_when sealed_validate keeps_for_each sealed_flush_message sealed_write_plan
          sealed_reseal_run_input sealed_approval sealed.keeps_trace_events sealed_set_plan idle plan
          sealed_run_and_finish)
  qed (simp_all add: ApprovalDecisions resume_approvals_def keeps_throw)
next
  case (Decrypted plaintext sealed)
  show ?thesis
    by (cases "rs_phase (cc_state cx)")
      (auto simp: Decrypted resume_decrypted_def
        intro!: keeps_rules sealed_validate sealed_reseal_run_input sealed_run_and_finish)
next
  case (Sealed sealed)
  show ?thesis
    by (cases "rs_phase (cc_state cx)")
      (auto simp: Sealed resume_sealed_def flush_pending_messages_def write_pending_plan_def
        reseal_memory_def reseal_traces_def
        intro!: keeps_rules sealed_validate sealed_flush_message sealed_write_plan sealed_reseal_memory
          sealed_reseal_trace sealed_reseal_run_input sealed_release)
next
  case (Inject messages)
  show ?thesis
    unfolding Inject dispatch_continuation.simps resume_inject_def
    by (intro keeps_seq sealed_cancel_tools sealed_run_and_finish)
next
  case Break
  show ?thesis
    unfolding Break dispatch_continuation.simps resume_break_def
    by (intro keeps_rules sealed_cancel_tools sealed_release) simp_all
qed

lemma sealed_settle:
  assumes "\<And>turn phase. restore = Some (turn, phase) \<Longrightarrow> phase_deferred phase"
  shows "keeps sealed_store any (settle outcome run_id token restore)"
proof (cases outcome)
  case (Inl e)
  show ?thesis
    unfolding settle_def Inl sum.case
    by (cases "preserves_checkpoint e"; cases restore)
      (auto intro!: keeps_rules sealed_abort sealed_registry sealed_release assms)
next
  case (Inr r)
  show ?thesis
    unfolding settle_def Inr sum.case by (intro keeps_rules sealed_registry) simp
qed

lemma sealed_execute: "keeps sealed_store any (execute rt request sink)"
proof -
  have acquire: "keeps sealed_store any (acquire rt)"
    unfolding acquire_def
    by (intro keeps_rules sealed.keeps_mint sealed_acquire_lock sealed_registry)
      (simp_all add: new_run_state_def)
  have input: "keeps sealed_store any (persist_run_input rt run_id m b True)"
    for run_id m b
    unfolding persist_run_input_def by (rule sealed_set_run_input) simp
  have step: "keeps sealed_store any (bind_io (run_turn rt cx resume followups) (finish_step rt run_id))"
    if "cx_encrypted cx" for cx resume followups run_id
    by (rule keeps_bind [OF sealed.keeps_run_turn]) (use that in \<open>auto intro: sealed_finish_step\<close>)
  show ?thesis
    unfolding execute_def Let_def
    by (rule keeps_seq [OF sealed_open], rule keeps_bind_any [OF acquire], intro keeps_prod,
        rule keeps_bind [OF sealed_is_encrypted])
      (auto intro!: keeps_rules sealed_abort sealed_settle step input)
qed

lemma sealed_get_run_state:
  "keeps sealed_store (\<lambda>found. \<forall>rs. found = Some rs \<longrightarrow> phase_deferred (rs_phase rs)) get_run_state"
  unfolding get_run_state_def by (rule sealed.keeps_db) (auto simp: sealed_store_def)

lemma sealed_admit:
  "phase_deferred (rs_phase state) \<Longrightarrow> keeps sealed_store any (admit state run_id kind)"
  unfolding admit_def mark_active_def
  by (intro keeps_rules sealed_registry sealed_set_run_state sealed_abort sealed_acquire_lock) simp_all

lemma sealed_advance: "keeps sealed_store any (advance rt continuation sink)"
  unfolding advance_def Let_def
  by (rule keeps_seq [OF sealed_open], rule keeps_bind [OF sealed_get_run_state])
    (auto intro!: keeps_option keeps_throw keeps_bind_any keeps_parse_id
      keeps_mono [OF sealed_get_run_input] sealed_admit keeps_attempt_any sealed_dispatch sealed_settle)

end
