(* ===== verification/Run_Locking.thy ===== *)
theory Run_Locking
  imports Run_Invariants
begin

text \<open>
  The run lock and the clean rejection of a continuation: on storage that does not fault
  every outcome of \<open>execute\<close> and \<open>advance\<close> frees the lock and ends the turn in the registry,
  and a continuation the checkpoint does not admit changes no row. Then the rounds of a
  turn: when they end, and that the bound on them does not matter.
\<close>

section \<open>What no part of a turn touches\<close>

definition same_config :: "store \<Rightarrow> store \<Rightarrow> bool" where
  "same_config c s \<longleftrightarrow> st_session_id s = st_session_id c \<and> st_open s = st_open c \<and>
     st_encrypted s = st_encrypted c \<and> st_faults s = st_faults c \<and> st_registry s = st_registry c"

interpretation config: turn_invariant "same_config c" encrypted for c encrypted
  by unfold_locales (simp_all add: same_config_def)

lemma config_refl: "same_config s s"
  by (simp add: same_config_def)

named_theorems config_rules

lemma config_db [config_rules]:
  "(\<And>s a s'. f s = Ok (a, s') \<Longrightarrow> same_config s s') \<Longrightarrow> keeps (same_config c) any (db f)"
  by (rule config.keeps_db) (auto simp: same_config_def)

lemma config_set_run_state [config_rules]: "keeps (same_config c) any (set_run_state rs)"
  unfolding set_run_state_def by (rule config_db) (auto simp: same_config_def)

lemma config_release [config_rules]: "keeps (same_config c) any (release run_id turn phase)"
  unfolding release_def by (rule config_set_run_state)

lemma config_run_turn: "keeps (same_config c) any (run_turn rt cx resume followups)"
  by (rule keeps_mono [OF config.keeps_run_turn]) auto

lemma config_finish_step: "keeps (same_config c) any (finish_step rt run_id step)"
  by (cases step)
    (auto simp: finish_completed_def pause_for_tools_def pause_for_approval_def pause_for_decrypt_def
      build_to_decrypt_def get_content_def clear_context_memory_def clear_traces_def Let_def
      intro!: keeps_rules config_rules config.keeps_read)

lemma config_run_and_finish: "keeps (same_config c) any (run_and_finish rt cx resume followups decrypted)"
  unfolding run_and_finish_def run_continuation_turn_def is_encrypted_def get_run_input_def
  by (intro keeps_bind_any config_run_turn config_finish_step config.keeps_read)
    (auto split: bundle_source.split intro!: keeps_rules config.keeps_read)

lemma config_rows:
  "keeps (same_config c) any (append_message m)" "keeps (same_config c) any (append_plan p)"
  "keeps (same_config c) any (append_diff d)" "keeps (same_config c) any (append_tool_call t)"
  "keeps (same_config c) any (append_approval a)"
  "keeps (same_config c) any (set_plan_status i ps)" "keeps (same_config c) any (set_diff_status i ds)"
  "keeps (same_config c) any (set_tool_call_outcome i ts x y)"
  "keeps (same_config c) any (set_memory_content i z)" "keeps (same_config c) any (set_trace_content i z)"
  "keeps (same_config c) any (set_run_input_content z)" "keeps (same_config c) any (set_run_input r)"
  unfolding append_message_def append_plan_def append_diff_def append_tool_call_def append_approval_def
    set_plan_status_def set_diff_status_def set_tool_call_outcome_def set_memory_content_def
    set_trace_content_def set_run_input_content_def set_run_input_def
  by (rule config_db, auto simp: same_config_def split: if_splits option.splits)+

lemma config_sealed:
  "keeps (same_config c) any (flush_pending_message rt sealed w)"
  "keeps (same_config c) any (write_one_plan rt sealed w)"
  "keeps (same_config c) any (write_one_diff rt sealed w)"
  "keeps (same_config c) any (reseal_one_memory rt e)"
  "keeps (same_config c) any (reseal_one_trace rt e)"
  "keeps (same_config c) any (reseal_run_input sealed)"
  "keeps (same_config c) any (validate_required_seals pending sealed)"
  subgoal
    by (cases w)
      (auto intro!: keeps_rules config_rows simp: write_sealed_message_def parse_id_def)
  subgoal
    by (cases w)
      (auto intro!: keeps_rules config_rows simp: write_sealed_plan_def parse_id_def)
  subgoal
    by (cases w)
      (auto intro!: keeps_rules config_rows simp: write_sealed_diff_def parse_id_def)
  subgoal
    by (cases "(rt, e)" rule: reseal_one_memory.cases)
      (auto intro!: keeps_rules config_rows simp: parse_id_def)
  subgoal
    by (cases "(rt, e)" rule: reseal_one_trace.cases)
      (auto intro!: keeps_rules config_rows simp: parse_id_def)
  subgoal
    unfolding reseal_run_input_def by (intro keeps_rules config_rows) simp_all
  subgoal
    unfolding validate_required_seals_def run_input_unsealed_def get_run_input_def Let_def
    by (intro keeps_rules config.keeps_read) simp_all
  done

lemma config_trace_context: "keeps (same_config c) any continuation_trace_context"
  unfolding continuation_trace_context_def by (intro keeps_rules config.keeps_read) simp_all

lemma config_approval: "keeps (same_config c) any (persist_approval rt target i decision reason)"
  unfolding persist_approval_def by (intro keeps_rules config.keeps_mint config_rows)

lemma config_record_result: "keeps (same_config c) any (record_result rt phase sealed trace_ctx r)"
proof -
  note write_sealed_tool_call_def [simp]
  show ?thesis
    unfolding record_result_def Let_def [where s = "case phase of _ \<Rightarrow> _"]
    by (cases "case phase of AwaitingTool cs _ p \<Rightarrow> (cs, p) | _ \<Rightarrow> ([], [])")
      (auto simp: parse_id_def Let_def intro!: keeps_rules config_rows config.keeps_trace_events config_approval
        split: prod.split option.split)
qed

lemma config_cancel_tools: "keeps (same_config c) any (cancel_outstanding_tools rt phase)"
  unfolding cancel_outstanding_tools_def
  by (cases phase) (auto intro!: keeps_rules config_rows)


lemmas config_parts = config_run_and_finish config_sealed config_rows config_trace_context
  config_approval config_record_result config_cancel_tools config_release

lemma config_dispatch: "keeps (same_config c) any (dispatch_continuation rt cx continuation)"
proof (cases continuation)
  case (ToolResults results sealed)
  show ?thesis
    by (cases "rs_phase (cc_state cx)")
      (auto simp: ToolResults resume_tool_results_def flush_pending_messages_def write_pending_diff_def
        intro!: keeps_rules config_parts)
next
  case (ApprovalDecisions decisions sealed)
  show ?thesis
    by (cases "rs_phase (cc_state cx)")
      (auto simp: ApprovalDecisions resume_approvals_def Let_def flush_pending_messages_def
        write_pending_plan_def clear_plan_active_def get_run_input_def
        intro!: keeps_rules config_parts config.keeps_trace_events config.keeps_read)
next
  case (Decrypted plaintext sealed)
  show ?thesis
    by (cases "rs_phase (cc_state cx)")
      (auto simp: Decrypted resume_decrypted_def intro!: keeps_rules config_parts)
next
  case (Sealed sealed)
  show ?thesis
    by (cases "rs_phase (cc_state cx)")
      (auto simp: Sealed resume_sealed_def flush_pending_messages_def write_pending_plan_def
        reseal_memory_def reseal_traces_def intro!: keeps_rules config_parts)
next
  case (Inject messages)
  show ?thesis
    by (auto simp: Inject resume_inject_def intro!: keeps_rules config_parts)
next
  case Break
  show ?thesis
    by (auto simp: Break resume_break_def intro!: keeps_rules config_parts)
qed

section \<open>Every outcome frees the lock\<close>

text \<open>Storage that does not fault, and a session in which no turn runs.\<close>

definition faultless :: "store \<Rightarrow> bool" where
  "faultless s \<longleftrightarrow> (\<forall>n. st_faults s n = None)"

definition unlocked :: "store \<Rightarrow> bool" where
  "unlocked s \<longleftrightarrow> Option.bind (st_run_state s) rs_active = None"

definition quiet :: "store \<Rightarrow> bool" where
  "quiet s \<longleftrightarrow> unlocked s \<and> fl_live (st_registry s) (st_session_id s) = None"

abbreviation tick :: "store \<Rightarrow> store" where
  "tick s \<equiv> s\<lparr>st_clock := Suc (st_clock s)\<rparr>"

lemma db_faultless:
  "faultless s \<Longrightarrow> db f s = (case f (tick s) of
     Inl e \<Rightarrow> Some (Err (SessionFailed (DatabaseError e)), tick s) | Inr (a, s') \<Rightarrow> Some (Ok a, s'))"
  by (simp add: db_def faultless_def Let_def)

lemma checkpoint_unlocked: "checkpoint r s \<Longrightarrow> unlocked s"
  by (auto simp: checkpoint_def unlocked_def)

lemma release_faultless:
  "faultless s \<Longrightarrow> release run_id turn phase s =
     Some (Ok (), (tick s)\<lparr>st_run_state := Some ((new_run_state run_id phase)\<lparr>rs_turn := turn\<rparr>)\<rparr>)"
  by (simp add: release_def set_run_state_def db_faultless new_run_state_def)

lemma finish_own: "fl_live r sid = Some token \<Longrightarrow> fl_live (finish_turn sid token r) sid = None"
  by (simp add: finish_turn_def)

lemma begin_live: "begin_turn sid r = (token, r') \<Longrightarrow> fl_live r' sid = Some token"
  by (auto simp: begin_turn_def Let_def)

lemma settle_Ok:
  "settle (Inr response) run_id token restore s =
     Some (Ok response, s\<lparr>st_registry := finish_turn (st_session_id s) token (st_registry s)\<rparr>)"
  by (simp add: settle_def seq_io_def bind_io_def finish_io_def ret_def)

text \<open>Where an error leaves the run: the checkpoint it preserves, else idle.\<close>

definition settled_state ::
  "orchestrator_error \<Rightarrow> string \<Rightarrow> (nat \<times> run_phase) option \<Rightarrow> run_state" where
  "settled_state e run_id restore =
     (case (preserves_checkpoint e, restore) of
        (True, Some (turn, phase)) \<Rightarrow> (new_run_state run_id phase)\<lparr>rs_turn := turn\<rparr>
      | _ \<Rightarrow> new_run_state run_id Idle)"

lemma settle_Err:
  assumes "faultless s"
  shows "settle (Inl e) run_id token restore s = Some (Err e,
    (tick s)\<lparr>st_run_state := Some (settled_state e run_id restore),
      st_registry := finish_turn (st_session_id s) token (st_registry s)\<rparr>)"
  using assms
  by (auto simp: settle_def abort_def seq_io_def bind_io_def attempt_io_def release_faultless
      finish_io_def throw_def settled_state_def new_run_state_def split: option.splits bool.splits prod.splits)

lemma settled_inactive: "rs_active (settled_state e run_id restore) = None"
  by (auto simp: settled_state_def new_run_state_def split: option.splits bool.splits prod.splits)

lemma settle_quiet:
  assumes s: "faultless s" "fl_live (st_registry s) (st_session_id s) = Some token"
    and ok: "\<And>response. outcome = Ok response \<Longrightarrow> unlocked s"
    and settle: "settle outcome run_id token restore s = Some (r, s')"
  shows "quiet s'" "r = outcome"
  using assms by (cases outcome;
    auto simp: settle_Ok settle_Err settled_inactive quiet_def unlocked_def finish_own)+

text \<open>A body run under a live token and settled.\<close>

lemma settled_quiet:
  assumes s: "faultless s" "fl_live (st_registry s) (st_session_id s) = Some token"
    and body: "keeps (same_config s) any body" "checkpoints Q body"
    and run: "bind_io (attempt_io body) (\<lambda>outcome. settle outcome run_id token restore) s = Some (r, s')"
  obtains t where "body s = Some (r, t)" "quiet s'" "settle r run_id token restore t = Some (r, s')"
proof -
  from run obtain outcome t where t: "body s = Some (outcome, t)"
    "settle outcome run_id token restore t = Some (r, s')"
    by (auto simp: attempt_io_def bind_io_def split: option.splits prod.splits)
  have "same_config s t"
    using body(1) t(1) config_refl unfolding keeps_def by blast
  then have cfg: "faultless t" "fl_live (st_registry t) (st_session_id t) = Some token"
    using s by (simp_all add: same_config_def faultless_def)
  have "unlocked t" if "outcome = Ok response" for response
    using body(2) t(1) that unfolding checkpoints_def by (blast intro: checkpoint_unlocked)
  from settle_quiet [OF cfg this t(2)] t that show ?thesis by auto
qed

lemma bind_Ok: "m s = Some (Ok a, t) \<Longrightarrow> bind_io m f s = f a t"
  by (simp add: bind_io_def)

lemma bind_Err: "m s = Some (Err e, t) \<Longrightarrow> bind_io m f s = Some (Err e, t)"
  by (simp add: bind_io_def)

lemma open_session_run:
  "faultless s \<Longrightarrow> open_session s =
     (if st_open s then Some (Ok (), tick s) else Some (Err (SessionFailed SessionNotFound), tick s))"
  by (simp add: open_session_def bind_io_def db_faultless ret_def throw_def)

lemma acquire_run:
  "faultless s \<Longrightarrow> acquire rt s =
     (let run_id = en_uuid rt (st_minted s); s1 = (tick s)\<lparr>st_minted := Suc (st_minted s)\<rparr> in
      if unlocked s
      then let (token, g) = begin_turn (st_session_id s) (st_registry s) in
        Some (Ok (run_id, token), s1\<lparr>st_run_state := Some ((new_run_state run_id Idle)
          \<lparr>rs_active := Some \<lparr>at_lease = run_id\<rparr>\<rparr>), st_registry := g\<rparr>)
      else Some (Err Busy, s1))"
  by (auto simp: acquire_def bind_io_def mint_def acquire_run_lock_def db_def faultless_def Let_def
      unlocked_def throw_def begin_io_def ret_def split: option.splits prod.splits)

lemma config_faultless: "same_config s t \<Longrightarrow> faultless s \<Longrightarrow> faultless t"
  by (simp add: same_config_def faultless_def)

lemma keeps_config: "keeps (same_config s) any m \<Longrightarrow> m s = Some (r, s') \<Longrightarrow> same_config s s'"
  using config_refl unfolding keeps_def by blast

definition execute_locked ::
  "runtime \<Rightarrow> execute_request \<Rightarrow> bool \<Rightarrow> string \<Rightarrow> turn_token \<Rightarrow> turn_response io" where
  "execute_locked rt request sink run_id token =
     (let (meta, b) = split_execute_request request in
     bind_io is_encrypted (\<lambda>encrypted.
     bind_io (attempt_io (persist_run_input rt run_id meta b encrypted)) (\<lambda>stored.
     case stored of
       Inl e \<Rightarrow> seq_io (abort run_id token) (throw e)
     | Inr _ \<Rightarrow>
         let cx = \<lparr>cx_meta = meta, cx_bundle = Loaded b, cx_seal_run_input = True,
                   cx_plan_active = (ti_command (rb_input b) = Some Plan),
                   cx_encrypted = encrypted, cx_decrypted = [], cx_sink = sink\<rparr>
         in bind_io (attempt_io (bind_io (run_turn rt cx BuildPrompt []) (finish_step rt run_id))) (\<lambda>outcome.
              settle outcome run_id token None))))"

lemma execute_alt:
  "execute rt request sink =
     seq_io open_session (bind_io (acquire rt) (\<lambda>(run_id, token). execute_locked rt request sink run_id token))"
  by (simp add: execute_def execute_locked_def)

lemma execute_locked_quiet:
  assumes s: "faultless s" "fl_live (st_registry s) (st_session_id s) = Some token"
    and run: "execute_locked rt request sink run_id token s = Some (r, s')"
  shows "quiet s'"
proof -
  obtain meta b where request: "split_execute_request request = (meta, b)" by fastforce
  define row where "row = \<lparr>iw_run_id = run_id, iw_meta = meta,
    iw_plan_active = (ti_command (rb_input b) = Some Plan),
    iw_content = Plaintext (if st_open s \<and> st_encrypted s then [] else en_encode rt b)\<rparr>"
  define t where "t = s\<lparr>st_clock := Suc (Suc (st_clock s)), st_run_input := Some row\<rparr>"
  have t: "faultless t" "fl_live (st_registry t) (st_session_id t) = Some token"
    using s by (simp_all add: t_def faultless_def)
  have encrypted: "is_encrypted s = Some (Ok (st_open s \<and> st_encrypted s), tick s)"
    using s(1) by (simp add: is_encrypted_def db_faultless)
  have stored: "attempt_io (persist_run_input rt run_id meta b (st_open s \<and> st_encrypted s)) (tick s)
      = Some (Ok (Ok ()), t)"
    using s(1) by (simp add: persist_run_input_def set_run_input_def db_def Let_def faultless_def
        attempt_io_def t_def row_def)
  have "\<exists>cx. bind_io (attempt_io (bind_io (run_turn rt cx BuildPrompt []) (finish_step rt run_id)))
      (\<lambda>outcome. settle outcome run_id token None) t = Some (r, s')"
    using run unfolding execute_locked_def request prod.case bind_Ok [where m = is_encrypted and s = s, OF encrypted]
      bind_Ok [where m = "attempt_io _" and s = "tick s", OF stored]
      sum.case Let_def by blast
  then obtain cx where "bind_io (attempt_io (bind_io (run_turn rt cx BuildPrompt []) (finish_step rt run_id)))
      (\<lambda>outcome. settle outcome run_id token None) t = Some (r, s')" ..
  then show ?thesis
    by (rule settled_quiet [where Q = resumed, OF t, rotated 2])
      (assumption | intro keeps_bind_any config_run_turn config_finish_step checkpoints_bind
        checkpoints_finish_step)+
qed

lemma execute_quiet:
  assumes s: "faultless s" "quiet s" and run: "execute rt request sink s = Some (r, s')"
  shows "quiet s'"
proof (cases "st_open s")
  case True
  obtain token g where g: "begin_turn (st_session_id s) (st_registry s) = (token, g)" by fastforce
  have tick: "faultless (tick s)" "unlocked (tick s)"
    using s by (simp_all add: faultless_def quiet_def unlocked_def)
  obtain run_id t where t: "execute_locked rt request sink run_id token t = Some (r, s')"
    "faultless t" "st_registry t = g" "st_session_id t = st_session_id s"
    using run True s(1) tick
    by (auto simp: execute_alt seq_io_def bind_io_def [of open_session] open_session_run
        bind_io_def [of "acquire rt"] acquire_run Let_def g faultless_def)
  then show ?thesis using begin_live [OF g] by (auto intro: execute_locked_quiet)
next
  case False
  then show ?thesis using run s
    by (auto simp: execute_alt seq_io_def bind_io_def [of open_session] open_session_run quiet_def unlocked_def)
qed

lemma execute_busy:
  assumes "faultless s" "st_open s" "\<not> unlocked s"
  shows "execute rt request sink s =
    Some (Err Busy, s\<lparr>st_clock := st_clock s + 2, st_minted := Suc (st_minted s)\<rparr>)"
proof -
  have "faultless (tick s)" "\<not> unlocked (tick s)"
    using assms by (simp_all add: faultless_def unlocked_def)
  then show ?thesis using assms
    by (simp add: execute_alt seq_io_def bind_io_def open_session_run acquire_run Let_def)
qed

section \<open>Advance\<close>

definition advance_locked ::
  "runtime \<Rightarrow> continue_request \<Rightarrow> bool \<Rightarrow> run_state \<Rightarrow> string \<Rightarrow> run_input_row \<Rightarrow> turn_token \<Rightarrow> turn_response io" where
  "advance_locked rt continuation sink state run_id row token =
     bind_io (attempt_io (dispatch_continuation rt
        \<lparr>cc_state = state, cc_run_id = run_id, cc_meta = iw_meta row, cc_bundle = Stored (iw_content row),
         cc_plan_active = iw_plan_active row, cc_sink = sink\<rparr> continuation))
       (\<lambda>outcome. settle outcome run_id token (Some (rs_turn state, rs_phase state)))"

lemma admit_run:
  assumes "faultless s"
  shows "admit state run_id kind s =
    (if supersedes_turn kind \<or> unlocked s
     then let (token, g) = begin_turn (st_session_id s) (st_registry s) in
       Some (Ok token, (tick s)\<lparr>st_run_state := Some (state\<lparr>rs_active := Some \<lparr>at_lease = rs_run_id state\<rparr>\<rparr>),
         st_registry := g\<rparr>)
     else Some (Err Busy, tick s))"
  using assms
  by (auto simp: admit_def bind_io_def begin_io_def attempt_io_def mark_active_def set_run_state_def
      acquire_run_lock_def db_def faultless_def Let_def unlocked_def throw_def ret_def
      split: option.splits prod.splits)

lemma advance_front:
  assumes "faultless s" "st_open s"
  shows "advance rt continuation sink s = (case st_run_state s of
      None \<Rightarrow> Some (Err NoActiveRun, s\<lparr>st_clock := st_clock s + 2\<rparr>)
    | Some state \<Rightarrow> (case en_parse_uuid rt (rs_run_id state) of
        None \<Rightarrow> Some (Err (InternalFailure ''stored run id is not a uuid''), s\<lparr>st_clock := st_clock s + 2\<rparr>)
      | Some run_id \<Rightarrow> (case st_run_input s of
          None \<Rightarrow> Some (Err (InternalFailure ''run input is missing''), s\<lparr>st_clock := st_clock s + 3\<rparr>)
        | Some row \<Rightarrow> bind_io (admit state run_id (continue_kind_of continuation))
            (advance_locked rt continuation sink state run_id row) (s\<lparr>st_clock := st_clock s + 3\<rparr>))))"
proof -
  have opened: "open_session s = Some (Ok (), tick s)" using assms by (simp add: open_session_run)
  have state: "get_run_state (tick s) = Some (Ok (st_run_state s), s\<lparr>st_clock := st_clock s + 2\<rparr>)"
    using assms by (simp add: get_run_state_def db_def faultless_def)
  have row: "get_run_input (s\<lparr>st_clock := Suc (Suc (st_clock s))\<rparr>) =
      Some (Ok (st_run_input s), s\<lparr>st_clock := st_clock s + 3\<rparr>)"
    using assms by (simp add: get_run_input_def db_def faultless_def)
  show ?thesis
    unfolding advance_def seq_io_def bind_Ok [where m = open_session and s = s, OF opened]
      bind_Ok [where m = get_run_state and s = "tick s", OF state] Let_def advance_locked_def [symmetric]
    by (auto simp: bind_Ok [where m = get_run_input, OF row] throw_def parse_id_def lift_result_def bind_io_def [of "\<lambda>s. Some (_, s)"] split: option.split)
qed

text \<open>What an admitted continuation starts from.\<close>

definition admitted :: "store \<Rightarrow> run_state \<Rightarrow> in_flight \<Rightarrow> store" where
  "admitted s state g = s\<lparr>st_clock := st_clock s + 4,
     st_run_state := Some (state\<lparr>rs_active := Some \<lparr>at_lease = rs_run_id state\<rparr>\<rparr>), st_registry := g\<rparr>"

lemma advance_run:
  assumes s: "faultless s" "st_open s" and state: "st_run_state s = Some state"
    and run_id: "en_parse_uuid rt (rs_run_id state) = Some run_id" and row: "st_run_input s = Some row"
    and admits: "supersedes_turn (continue_kind_of continuation) \<or> unlocked s"
    and begins: "begin_turn (st_session_id s) (st_registry s) = (token, g)"
  shows "advance rt continuation sink s =
    advance_locked rt continuation sink state run_id row token (admitted s state g)"
proof -
  let ?s = "s\<lparr>st_clock := st_clock s + 3\<rparr>"
  have "faultless ?s" "unlocked ?s = unlocked s" using s by (simp_all add: faultless_def unlocked_def)
  then have admit: "admit state run_id (continue_kind_of continuation) ?s = Some (Ok token, admitted s state g)"
    using admits begins by (auto simp: admit_run admitted_def)
  show ?thesis
    using s state run_id row bind_Ok [where m = "admit _ _ _", OF admit] by (simp add: advance_front)
qed

lemma advance_locked_quiet:
  assumes s: "faultless s" "fl_live (st_registry s) (st_session_id s) = Some token"
    and run: "advance_locked rt continuation sink state run_id row token s = Some (r, s')"
  shows "quiet s'"
  using run unfolding advance_locked_def
  by (rule settled_quiet [where Q = "after (continue_kind_of continuation)", OF s, rotated 2])
    (assumption | intro config_dispatch checkpoints_dispatch)+

lemma admitted_live:
  assumes "faultless s" "begin_turn (st_session_id s) (st_registry s) = (token, g)"
  shows "faultless (admitted s state g)"
    "fl_live (st_registry (admitted s state g)) (st_session_id (admitted s state g)) = Some token"
  using assms begin_live [OF assms(2)] by (simp_all add: admitted_def faultless_def)

text \<open>An advance that is not admitted ends before it took the lock.\<close>

lemma advance_refused:
  assumes "faultless s"
    and "\<not> st_open s \<or> st_run_state s = None \<or> st_run_input s = None \<or>
      (\<exists>state. st_run_state s = Some state \<and> en_parse_uuid rt (rs_run_id state) = None) \<or>
      \<not> (supersedes_turn (continue_kind_of continuation) \<or> unlocked s)"
  shows "\<exists>e n. advance rt continuation sink s = Some (Err e, s\<lparr>st_clock := n\<rparr>)"
proof (cases "st_open s")
  case True
  have "faultless (s\<lparr>st_clock := st_clock s + 3\<rparr>)" using assms(1) by (simp add: faultless_def)
  then show ?thesis using assms True
    by (auto simp: advance_front bind_io_def [of "admit _ _ _"] admit_run unlocked_def split: option.split)
next
  case False
  then show ?thesis using assms(1)
    by (auto simp: advance_def seq_io_def bind_io_def open_session_run)
qed

lemma advance_quiet:
  assumes s: "faultless s" "quiet s" and run: "advance rt continuation sink s = Some (r, s')"
  shows "quiet s'"
proof (cases "\<not> st_open s \<or> st_run_state s = None \<or> st_run_input s = None \<or>
      (\<exists>state. st_run_state s = Some state \<and> en_parse_uuid rt (rs_run_id state) = None)")
  case True
  then show ?thesis
    using advance_refused [OF s(1), of rt continuation sink] run s(2)
    by (auto simp: quiet_def unlocked_def)
next
  case False
  then obtain state run_id row where state: "st_open s" "st_run_state s = Some state"
    "en_parse_uuid rt (rs_run_id state) = Some run_id" "st_run_input s = Some row" by auto
  obtain token g where g: "begin_turn (st_session_id s) (st_registry s) = (token, g)" by fastforce
  have "advance_locked rt continuation sink state run_id row token (admitted s state g) = Some (r, s')"
    using run advance_run [OF s(1) state _ g, of continuation sink] s(2) by (simp add: quiet_def)
  then show ?thesis by (rule advance_locked_quiet [OF admitted_live [OF s(1) g]])
qed

text \<open>A superseding continuation frees the lock even when a turn held it.\<close>

lemma supersede_quiet:
  assumes s: "faultless s" "st_open s" and state: "st_run_state s = Some state"
    and run_id: "en_parse_uuid rt (rs_run_id state) = Some run_id" and row: "st_run_input s = Some row"
    and kind: "supersedes_turn (continue_kind_of continuation)"
    and run: "advance rt continuation sink s = Some (r, s')"
  shows "quiet s'"
proof -
  obtain token g where g: "begin_turn (st_session_id s) (st_registry s) = (token, g)" by fastforce
  have "advance_locked rt continuation sink state run_id row token (admitted s state g) = Some (r, s')"
    using run advance_run [OF s state run_id row _ g] kind by simp
  then show ?thesis by (rule advance_locked_quiet [OF admitted_live [OF s(1) g]])
qed

section \<open>A rejected continuation changes no row\<close>

definition only_read :: "store \<Rightarrow> store \<Rightarrow> bool" where
  "only_read c s \<longleftrightarrow> (\<exists>n. s = c\<lparr>st_clock := n\<rparr>)"

definition clean :: "'a io \<Rightarrow> bool" where
  "clean m \<longleftrightarrow> (\<forall>s s'. m s = Some (Err UnexpectedContinuation, s') \<longrightarrow> only_read s s')"

lemma only_read_refl: "only_read s s"
  by (auto simp: only_read_def intro: exI [of _ "st_clock s"])

lemma only_read_trans: "only_read a b \<Longrightarrow> only_read b c \<Longrightarrow> only_read a c"
  by (auto simp: only_read_def)

lemma reads_db: "keeps (only_read c) any (db (\<lambda>s. Ok (f s, s)))"
  by (auto simp: keeps_def db_def Let_def only_read_def split: option.splits)

lemma clean_throw: "clean (throw e)"
  by (simp add: clean_def throw_def only_read_refl)

lemma clean_never: "never_rejects m \<Longrightarrow> clean m"
  by (simp add: clean_def never_rejects_def)

lemma clean_reads:
  assumes "\<And>c. keeps (only_read c) any m" shows "clean m"
  using assms only_read_refl unfolding clean_def keeps_def by blast

lemma clean_bind_reads:
  assumes "\<And>c. keeps (only_read c) any m" "\<And>a. clean (f a)"
  shows "clean (bind_io m f)"
  unfolding clean_def
proof (intro allI impI)
  fix s s' assume "bind_io m f s = Some (Err UnexpectedContinuation, s')"
  then show "only_read s s'"
  proof (cases rule: bind_io_cases)
    case (1 e)
    then show ?thesis using assms(1) only_read_refl unfolding keeps_def by blast
  next
    case (2 a t)
    then have "only_read s t" "only_read t s'"
      using assms only_read_refl unfolding keeps_def clean_def by blast+
    then show ?thesis by (rule only_read_trans)
  qed
qed

lemma clean_bind_first:
  "clean m \<Longrightarrow> (\<And>a. never_rejects (f a)) \<Longrightarrow> clean (bind_io m f)"
  unfolding clean_def never_rejects_def by (auto elim!: bind_io_cases)

lemma clean_seq_reads:
  "(\<And>c. keeps (only_read c) any m) \<Longrightarrow> clean n \<Longrightarrow> clean (seq_io m n)"
  unfolding seq_io_def by (rule clean_bind_reads)

lemma clean_seq_first: "clean m \<Longrightarrow> never_rejects n \<Longrightarrow> clean (seq_io m n)"
  unfolding seq_io_def by (rule clean_bind_first)

lemma clean_when: "clean m \<Longrightarrow> clean (when_io b m)"
  by (simp add: when_io_def clean_never never_rejects_basic)

lemma clean_if: "(b \<Longrightarrow> clean m) \<Longrightarrow> (\<not> b \<Longrightarrow> clean n) \<Longrightarrow> clean (if b then m else n)"
  by simp

lemma reads_validate: "keeps (only_read c) any (validate_required_seals pending sealed)"
  unfolding validate_required_seals_def run_input_unsealed_def get_run_input_def Let_def
  by (intro keeps_rules reads_db) simp_all

lemma reads_trace_context: "keeps (only_read c) any continuation_trace_context"
  unfolding continuation_trace_context_def by (intro keeps_rules reads_db) simp_all

text \<open>The writes of a continuation and its turn reject nothing.\<close>

lemma never_rejects_sealed:
  "never_rejects (flush_pending_message rt sealed w)"
  "never_rejects (write_one_plan rt sealed w)"
  "never_rejects (write_one_diff rt sealed w)"
  "never_rejects (reseal_one_memory rt e)"
  "never_rejects (reseal_one_trace rt e)"
  "never_rejects (reseal_run_input sealed)"
proof -
  have lifted: "never_rejects (lift_result (sealed_content sealed r))" "never_rejects (parse_id rt i m)"
    for r i m
    by (auto simp: sealed_content_def parse_id_def intro!: rejects_rules split: option.splits)
  note rows = write_sealed_message_def append_message_def write_sealed_plan_def append_plan_def
    write_sealed_diff_def append_diff_def set_memory_content_def set_trace_content_def
  show "never_rejects (flush_pending_message rt sealed w)"
    by (cases w) (auto simp: rows intro!: rejects_rules lifted)
  show "never_rejects (write_one_plan rt sealed w)"
    by (cases w) (auto simp: rows intro!: rejects_rules lifted)
  show "never_rejects (write_one_diff rt sealed w)"
    by (cases w) (auto simp: rows intro!: rejects_rules lifted)
  show "never_rejects (reseal_one_memory rt e)"
    by (cases "(rt, e)" rule: reseal_one_memory.cases) (auto simp: rows intro!: rejects_rules lifted)
  show "never_rejects (reseal_one_trace rt e)"
    by (cases "(rt, e)" rule: reseal_one_trace.cases) (auto simp: rows intro!: rejects_rules lifted)
  show "never_rejects (reseal_run_input sealed)"
    unfolding reseal_run_input_def set_run_input_content_def by (intro rejects_rules)
qed

lemma never_rejects_finish:
  "(\<And>e. step = ErroredStep e \<Longrightarrow> e \<noteq> UnexpectedContinuation) \<Longrightarrow> never_rejects (finish_step rt run_id step)"
  by (cases step)
    (auto simp: finish_completed_def pause_for_tools_def pause_for_approval_def pause_for_decrypt_def
      build_to_decrypt_def get_content_def clear_context_memory_def clear_traces_def Let_def
      release_def set_run_state_def intro!: rejects_rules split: option.splits)

lemma never_rejects_run_turn: "never_rejects (bind_io (run_turn rt cx resume followups) (finish_step rt run_id))"
  unfolding never_rejects_def
proof (intro allI notI)
  fix s s'
  assume "bind_io (run_turn rt cx resume followups) (finish_step rt run_id) s =
    Some (Err UnexpectedContinuation, s')"
  then show False
  proof (cases rule: bind_io_cases)
    case (1 e)
    then show False
      by (auto simp: run_turn_def bind_io_def attempt_io_def ret_def split: option.splits sum.splits)
  next
    case (2 step t)
    have "never_rejects (finish_step rt run_id step)"
      by (rule never_rejects_finish) (use 2(1) run_turn_never_rejects in blast)
    with 2(2) show False by (auto simp: never_rejects_def)
  qed
qed

lemma never_rejects_run_and_finish: "never_rejects (run_and_finish rt cx resume followups decrypted)"
proof -
  have assoc: "bind_io (bind_io m f) g = bind_io m (\<lambda>a. bind_io (f a) g)" for m :: "'a io" and f :: "'a \<Rightarrow> 'b io" and g :: "'b \<Rightarrow> 'c io"
    by (auto simp: bind_io_def fun_eq_iff split: option.splits sum.splits)
  show ?thesis
    unfolding run_and_finish_def run_continuation_turn_def assoc is_encrypted_def get_run_input_def
    by (intro never_rejects_bind never_rejects_run_turn)
      (auto intro!: rejects_rules split: bundle_source.splits)
qed

lemma never_rejects_rows:
  "never_rejects (set_run_input row)" "never_rejects (set_plan_status i ps)"
  "never_rejects (set_diff_status i ds)" "never_rejects (set_tool_call_outcome i ts x y)"
  "never_rejects (append_tool_call c)" "never_rejects (release run_id turn phase)"
  "never_rejects (persist_approval rt target i decision reason)"
  "never_rejects (record_approval_event rt target i decision reason)"
  "never_rejects (record_tool_result rt name is_error)"
  unfolding set_run_input_def set_plan_status_def set_diff_status_def set_tool_call_outcome_def
    append_tool_call_def release_def set_run_state_def persist_approval_def append_approval_def
    record_approval_event_def record_tool_result_def record_trace_def
  by (intro rejects_rules)+

lemma never_rejects_result: "never_rejects (record_result rt phase sealed trace_ctx r)"
proof -
  have lifted: "never_rejects (lift_result (sealed_content sealed c))" "never_rejects (parse_id rt i m)"
    for c i m
    by (auto simp: sealed_content_def parse_id_def intro!: rejects_rules split: option.splits)
  show ?thesis
    by (cases "case phase of AwaitingTool cs _ p \<Rightarrow> (cs, p) | _ \<Rightarrow> ([], [])")
      (auto simp: record_result_def write_sealed_tool_call_def Let_def
        intro!: rejects_rules never_rejects_rows lifted split: option.split)
qed

lemma never_rejects_trace_context: "never_rejects continuation_trace_context"
  unfolding continuation_trace_context_def by (intro rejects_rules)

lemma never_rejects_cancel: "never_rejects (cancel_outstanding_tools rt phase)"
  by (cases phase)
    (auto simp: cancel_outstanding_tools_def intro!: rejects_rules never_rejects_rows split: option.split)

lemma never_rejects_plan_active: "never_rejects clear_plan_active"
  unfolding clear_plan_active_def get_run_input_def by (intro rejects_rules never_rejects_rows) simp

lemma never_rejects_idle: "never_rejects (seq_io (release run_id turn Idle) (ret idle_response))"
  by (intro rejects_rules never_rejects_rows)

lemmas never_rejects_parts = never_rejects_sealed never_rejects_rows never_rejects_result
  never_rejects_trace_context never_rejects_cancel never_rejects_plan_active never_rejects_idle
  never_rejects_run_and_finish

text \<open>The ciphertexts are checked before the first row is written.\<close>

lemma clean_seals:
  "never_rejects m \<Longrightarrow> never_rejects n \<Longrightarrow>
   clean (seq_io (when_io b (seq_io (validate_required_seals pending sealed) m)) n)"
  by (intro clean_seq_first clean_when clean_seq_reads [OF reads_validate] clean_never)

lemma clean_validated: "never_rejects n \<Longrightarrow> clean (seq_io (validate_required_seals pending sealed) n)"
  by (intro clean_seq_reads [OF reads_validate] clean_never)

lemma clean_dispatch: "clean (dispatch_continuation rt cx continuation)"
proof (cases continuation)
  case (ToolResults results sealed)
  show ?thesis
    by (cases "rs_phase (cc_state cx)")
      (auto simp: ToolResults resume_tool_results_def flush_pending_messages_def write_pending_diff_def
        intro!: clean_throw clean_seals rejects_rules never_rejects_parts)
next
  case (ApprovalDecisions decisions sealed)
  have plan: "keeps (only_read c) any (lift_result (plan_id_from_detail rt detail))" for c detail
    by (rule keeps_lift) simp
  show ?thesis
  proof (cases "rs_phase (cc_state cx)")
    case (AwaitingApproval approval_id kind detail resume pending)
    show ?thesis
    proof (cases "List.find (\<lambda>e. an_approval_id e = approval_id) decisions")
      case None
      then show ?thesis
        by (simp add: ApprovalDecisions resume_approvals_def AwaitingApproval clean_throw)
    next
      case (Some entry)
      show ?thesis
        unfolding ApprovalDecisions dispatch_continuation.simps resume_approvals_def AwaitingApproval
          run_phase.case Some option.case Let_def flush_pending_messages_def write_pending_plan_def
        by (intro clean_bind_reads [OF reads_trace_context] clean_if clean_bind_reads [OF plan] clean_seals
            clean_never [where m = "seq_io (persist_approval _ _ _ _ _) _"] rejects_rules never_rejects_parts)
    qed
  qed (simp_all add: ApprovalDecisions resume_approvals_def clean_throw)
next
  case (Decrypted plaintext sealed)
  show ?thesis
    by (cases "rs_phase (cc_state cx)")
      (auto simp: Decrypted resume_decrypted_def
        intro!: clean_throw clean_validated rejects_rules never_rejects_parts)
next
  case (Sealed sealed)
  show ?thesis
    by (cases "rs_phase (cc_state cx)")
      (auto simp: Sealed resume_sealed_def flush_pending_messages_def write_pending_plan_def
        reseal_memory_def reseal_traces_def
        intro!: clean_throw clean_validated rejects_rules never_rejects_parts)
next
  case (Inject messages)
  show ?thesis
    by (auto simp: Inject resume_inject_def intro!: clean_never rejects_rules never_rejects_parts)
next
  case Break
  show ?thesis
    by (auto simp: Break resume_break_def intro!: clean_never rejects_rules never_rejects_parts)
qed

lemma advance_busy:
  assumes s: "faultless s" "st_open s" and state: "st_run_state s = Some state"
    "en_parse_uuid rt (rs_run_id state) = Some run_id" "st_run_input s = Some row"
    and held: "\<not> unlocked s" "\<not> supersedes_turn (continue_kind_of continuation)"
  shows "advance rt continuation sink s = Some (Err Busy, s\<lparr>st_clock := st_clock s + 4\<rparr>)"
proof -
  have "faultless (s\<lparr>st_clock := st_clock s + 3\<rparr>)" "\<not> unlocked (s\<lparr>st_clock := st_clock s + 3\<rparr>)"
    using s held by (simp_all add: faultless_def unlocked_def)
  then show ?thesis using s state held
    by (simp add: advance_front bind_io_def [of "admit _ _ _"] admit_run)
qed

text \<open>What a rejection leaves: the same rows at the same checkpoint, unlocked.\<close>

lemma advance_rejected:
  assumes s: "faultless s" and run: "advance rt continuation sink s = Some (Err UnexpectedContinuation, s')"
  obtains n g run_id state where "st_run_state s = Some state"
    "en_parse_uuid rt (rs_run_id state) = Some run_id"
    "s' = s\<lparr>st_clock := n, st_registry := g,
       st_run_state := Some \<lparr>rs_run_id = run_id, rs_turn = rs_turn state, rs_phase = rs_phase state,
         rs_active = None\<rparr>\<rparr>"
proof -
  have opened: "st_open s"
    using run s by (auto simp: advance_def seq_io_def bind_io_def [of open_session] open_session_run split: if_splits)
  then obtain state run_id row where state: "st_run_state s = Some state"
    "en_parse_uuid rt (rs_run_id state) = Some run_id" "st_run_input s = Some row"
    using run s by (auto simp: advance_front split: option.splits)
  have admits: "supersedes_turn (continue_kind_of continuation) \<or> unlocked s"
    using advance_busy [OF s opened state] run by fastforce
  obtain token g where g: "begin_turn (st_session_id s) (st_registry s) = (token, g)" by fastforce
  let ?a = "admitted s state g"
  have "advance_locked rt continuation sink state run_id row token ?a = Some (Err UnexpectedContinuation, s')"
    using run advance_run [OF s opened state admits g] by simp
  then obtain cx t where t: "dispatch_continuation rt cx continuation ?a = Some (Err UnexpectedContinuation, t)"
    "settle (Err UnexpectedContinuation) run_id token (Some (rs_turn state, rs_phase state)) t =
       Some (Err UnexpectedContinuation, s')"
    unfolding advance_locked_def
    by (rule settled_quiet [OF admitted_live [OF s g] config_dispatch checkpoints_dispatch]) blast
  then obtain n where n: "t = ?a\<lparr>st_clock := n\<rparr>"
    using clean_dispatch unfolding clean_def only_read_def by blast
  then have "faultless t" using s by (simp add: faultless_def admitted_def)
  then have "s' = s\<lparr>st_clock := Suc n, st_registry := finish_turn (st_session_id s) token g,
      st_run_state := Some \<lparr>rs_run_id = run_id, rs_turn = rs_turn state, rs_phase = rs_phase state,
        rs_active = None\<rparr>\<rparr>"
    using t(2) n
    by (auto simp: settle_Err settled_state_def new_run_state_def admitted_def)
  then show ?thesis using state that by blast
qed

section \<open>Which continuations are rejected\<close>

lemma dispatch_wrong_kind:
  assumes "continue_kind_of continuation \<notin> set (allowed_for (rs_phase (cc_state cx)))"
    "\<not> supersedes_turn (continue_kind_of continuation)"
  shows "dispatch_continuation rt cx continuation = throw UnexpectedContinuation"
  using assms
  by (cases continuation; cases "rs_phase (cc_state cx)")
    (auto simp: supersedes_turn_def resume_tool_results_def resume_approvals_def resume_decrypted_def
      resume_sealed_def Let_def)

lemma dispatch_results:
  assumes "dispatch_continuation rt cx (ToolResults results sealed) s = Some (Ok r, s')"
  obtains calls resume pending where "rs_phase (cc_state cx) = AwaitingTool calls resume pending"
    "answers_calls calls results"
  using assms
  by (cases "rs_phase (cc_state cx)")
    (auto simp: resume_tool_results_def throw_def split: if_splits)

lemma answers_distinct:
  "answers_calls calls results \<Longrightarrow> distinct (map tl_call_id results)"
  by (simp add: answers_calls_def card_distinct)

lemma advance_wrong_kind:
  assumes s: "faultless s" "st_open s" "unlocked s" and state: "st_run_state s = Some state"
    "en_parse_uuid rt (rs_run_id state) = Some run_id" "st_run_input s = Some row"
    and kind: "continue_kind_of continuation \<notin> set (allowed_for (rs_phase state))"
      "\<not> supersedes_turn (continue_kind_of continuation)"
  shows "\<exists>s'. advance rt continuation sink s = Some (Err UnexpectedContinuation, s')"
proof -
  obtain token g where g: "begin_turn (st_session_id s) (st_registry s) = (token, g)" by fastforce
  have "faultless (admitted s state g)" using s(1) by (simp add: admitted_def faultless_def)
  then show ?thesis
    using advance_run [OF s(1,2) state _ g] s(3) kind
    by (simp add: advance_locked_def dispatch_wrong_kind bind_io_def attempt_io_def throw_def settle_Err)
qed

lemma advance_results:
  assumes s: "faultless s"
    and run: "advance rt (ToolResults results sealed) sink s = Some (Ok r, s')"
  obtains state calls resume pending where "st_run_state s = Some state"
    "rs_phase state = AwaitingTool calls resume pending" "unlocked s" "answers_calls calls results"
proof -
  let ?c = "ToolResults results sealed"
  have opened: "st_open s"
    using run s by (auto simp: advance_def seq_io_def bind_io_def [of open_session] open_session_run split: if_splits)
  then obtain state run_id row where state: "st_run_state s = Some state"
    "en_parse_uuid rt (rs_run_id state) = Some run_id" "st_run_input s = Some row"
    using run s by (auto simp: advance_front split: option.splits)
  have admits: "unlocked s"
    using advance_refused [OF s, of rt ?c sink] run by (auto simp: supersedes_turn_def)
  obtain token g where g: "begin_turn (st_session_id s) (st_registry s) = (token, g)" by fastforce
  have "advance_locked rt ?c sink state run_id row token (admitted s state g) = Some (Ok r, s')"
    using run advance_run [OF s opened state _ g, of ?c sink] admits by simp
  then obtain t where t: "dispatch_continuation rt \<lparr>cc_state = state, cc_run_id = run_id, cc_meta = iw_meta row,
      cc_bundle = Stored (iw_content row), cc_plan_active = iw_plan_active row, cc_sink = sink\<rparr> ?c
      (admitted s state g) = Some (Ok r, t)"
    unfolding advance_locked_def
    by (rule settled_quiet [OF admitted_live [OF s g] config_dispatch checkpoints_dispatch])
  obtain calls resume pending where "rs_phase state = AwaitingTool calls resume pending"
    "answers_calls calls results"
    by (rule dispatch_results [OF t]) auto
  then show ?thesis using that state(1) admits by blast
qed

end
