(* ===== verification/Lifecycle.thy ===== *)
theory Lifecycle
  imports Run_Locking
begin

text \<open>
  The protocol a client sees, as an abstract machine over phases, and the simulation: on
  storage that does not fault every continuation of an idle session is one of its
  transitions. Then sessions as sequences of requests, and what holds of all of them.
\<close>

section \<open>The abstract machine\<close>

datatype verdict = Accepted | Refused | Failed

inductive transition :: "run_phase \<Rightarrow> continue_kind \<Rightarrow> verdict \<Rightarrow> run_phase \<Rightarrow> bool" where
  Accept: "k \<in> set (allowed_for p) \<or> supersedes_turn k \<Longrightarrow> after k q \<Longrightarrow> transition p k Accepted q"
| Refuse: "\<not> supersedes_turn k \<Longrightarrow> transition p k Refused p"
| Fail: "k \<in> set (allowed_for p) \<or> supersedes_turn k \<Longrightarrow> transition p k Failed Idle"

inductive_cases transition_acceptedE: "transition p k Accepted q"
inductive_cases transition_refusedE: "transition p k Refused q"
inductive_cases transition_failedE: "transition p k Failed q"

inductive_simps transition_refused [simp]: "transition p k Refused q"
inductive_simps transition_accepted [simp]: "transition p k Accepted q"
inductive_simps transition_failed [simp]: "transition p k Failed q"

fun verdict_of :: "(orchestrator_error, 'a) result \<Rightarrow> verdict" where
  "verdict_of (Inr _) = Accepted"
| "verdict_of (Inl UnexpectedContinuation) = Refused"
| "verdict_of (Inl _) = Failed"

lemma verdict_Failed: "e \<noteq> UnexpectedContinuation \<Longrightarrow> verdict_of (Inl e) = Failed"
  by (cases e) simp_all

lemma supersede_never_rejects:
  "supersedes_turn (continue_kind_of continuation) \<Longrightarrow>
   never_rejects (dispatch_continuation rt cx continuation)"
  by (cases continuation)
    (auto simp: supersedes_turn_def resume_inject_def resume_break_def
      intro!: rejects_rules never_rejects_parts)

section \<open>The simulation\<close>

lemma settled_phase:
  assumes s: "faultless s" "fl_live (st_registry s) (st_session_id s) = Some token"
    and body: "keeps (same_config s) any body" "checkpoints Q body"
    and run: "bind_io (attempt_io body) (\<lambda>outcome. settle outcome run_id token (Some (turn, phase))) s =
      Some (r, s')"
  shows "\<exists>rs. st_run_state s' = Some rs \<and> rs_active rs = None \<and>
    (case verdict_of r of Accepted \<Rightarrow> Q (rs_phase rs) | Refused \<Rightarrow> rs_phase rs = phase
       | Failed \<Rightarrow> rs_phase rs = Idle)"
proof -
  obtain t where t: "body s = Some (r, t)" "settle r run_id token (Some (turn, phase)) t = Some (r, s')"
    using settled_quiet [OF s body run] by blast
  have cfg: "faultless t" using keeps_config [OF body(1) t(1)] s(1) by (rule config_faultless)
  show ?thesis
  proof (cases r)
    case (Inl e)
    then show ?thesis
      using t(2) cfg
      by (cases "e = UnexpectedContinuation")
        (auto simp: settle_Err settled_state_def new_run_state_def verdict_Failed
          split: option.splits bool.splits elim: preserves_checkpoint.elims)
  next
    case (Inr response)
    then show ?thesis
      using t body(2) unfolding checkpoints_def checkpoint_def by (fastforce simp: settle_Ok)
  qed
qed

lemma simulation:
  assumes s: "faultless s" "st_open s" "unlocked s" and state: "st_run_state s = Some state"
    "en_parse_uuid rt (rs_run_id state) = Some run_id" "st_run_input s = Some row"
    and run: "advance rt continuation sink s = Some (r, s')"
  shows "\<exists>rs. st_run_state s' = Some rs \<and> rs_active rs = None \<and>
    transition (rs_phase state) (continue_kind_of continuation) (verdict_of r) (rs_phase rs)"
proof -
  let ?k = "continue_kind_of continuation"
  obtain token g where g: "begin_turn (st_session_id s) (st_registry s) = (token, g)" by fastforce
  have locked: "advance_locked rt continuation sink state run_id row token (admitted s state g) = Some (r, s')"
    using run advance_run [OF s(1,2) state _ g, of continuation sink] s(3) by simp
  note live = admitted_live [OF s(1) g, of state]
  obtain rs where rs: "st_run_state s' = Some rs" "rs_active rs = None"
    "case verdict_of r of Accepted \<Rightarrow> after ?k (rs_phase rs) | Refused \<Rightarrow> rs_phase rs = rs_phase state
       | Failed \<Rightarrow> rs_phase rs = Idle"
    using settled_phase [OF live config_dispatch checkpoints_dispatch locked [unfolded advance_locked_def]]
    by blast
  obtain cx t where t: "cc_state cx = state"
    "dispatch_continuation rt cx continuation (admitted s state g) = Some (r, t)"
    using settled_quiet [OF live config_dispatch checkpoints_dispatch locked [unfolded advance_locked_def]]
    by (metis continuation_cx.select_convs(1))
  have allowed: "?k \<in> set (allowed_for (rs_phase state)) \<or> supersedes_turn ?k"
    if "verdict_of r \<noteq> Refused"
  proof (rule ccontr)
    assume "\<not> ?thesis"
    then have "dispatch_continuation rt cx continuation = throw UnexpectedContinuation"
      using t(1) by (simp add: dispatch_wrong_kind)
    then show False using t(2) that by (auto simp: throw_def)
  qed
  have refused: "\<not> supersedes_turn ?k" if "verdict_of r = Refused"
  proof
    assume "supersedes_turn ?k"
    moreover have "r = Err UnexpectedContinuation" using that by (cases r rule: verdict_of.cases) auto
    ultimately show False using supersede_never_rejects [of continuation rt cx] t(2)
      by (auto simp: never_rejects_def)
  qed
  show ?thesis
    using rs allowed refused by (cases "verdict_of r") auto
qed

section \<open>Sessions as sequences of requests\<close>

text \<open>
  What can happen to the store of one session between two requests: a request is served,
  whatever its outcome and the process's providers then, or the memory tool records a fact.
\<close>

inductive session_step :: "store \<Rightarrow> store \<Rightarrow> bool" where
  Executed: "execute rt request sink s = Some (r, s') \<Longrightarrow> session_step s s'"
| Advanced: "advance rt continuation sink s = Some (r, s') \<Longrightarrow> session_step s s'"
| Remembered: "session_step s (s\<lparr>st_context_memory := st_context_memory s @ [m]\<rparr>)"

inductive session_run :: "store \<Rightarrow> store \<Rightarrow> bool" where
  Here: "session_run s s"
| There: "session_run s t \<Longrightarrow> session_step t u \<Longrightarrow> session_run s u"

inductive_cases session_stepE: "session_step s s'"

lemma session_keeps:
  assumes "session_run s t" "P s" "\<And>a b. session_step a b \<Longrightarrow> P a \<Longrightarrow> P b"
  shows "P t"
  using assms(1,2) by (induction rule: session_run.induct) (auto intro: assms(3))

lemma keepsD: "keeps P I m \<Longrightarrow> P s \<Longrightarrow> m s = Some (r, s') \<Longrightarrow> P s'"
  by (simp add: keeps_def)

lemma sealed_step: "session_step s s' \<Longrightarrow> sealed_store s \<Longrightarrow> sealed_store s'"
proof (induction rule: session_step.induct)
  case (Remembered s m)
  then show ?case by (simp add: sealed_store_def rows_sealed_def)
qed (auto intro: keepsD [OF sealed_execute] keepsD [OF sealed_advance])

interpretation faults: turn_invariant faultless encrypted for encrypted
  by unfold_locales (simp_all add: faultless_def)

lemma faults_config:
  assumes "\<And>c. keeps (same_config c) any m" shows "keeps faultless any m"
  unfolding keeps_def by (auto dest: keeps_config [OF assms] intro: config_faultless)

lemma faults_registry: "keeps faultless any begin_io" "keeps faultless any (finish_io token)"
  by (auto simp: keeps_def begin_io_def finish_io_def faultless_def split: prod.splits)

lemma faults_set_run_state: "keeps faultless any (set_run_state rs)"
  by (intro faults_config config_set_run_state)

lemma faults_release: "keeps faultless any (release run_id turn phase)"
  by (intro faults_config config_release)

lemma faults_lock: "keeps faultless any (acquire_run_lock rs)"
  unfolding acquire_run_lock_def by (rule faults.keeps_db) (auto simp: faultless_def split: option.splits)

lemma faults_abort: "keeps faultless any (abort run_id token)"
  unfolding abort_def by (intro keeps_rules faults_release faults_registry)

lemma faults_settle: "keeps faultless any (settle outcome run_id token restore)"
proof (cases outcome)
  case (Inl e)
  show ?thesis
    unfolding settle_def Inl sum.case
    by (cases "preserves_checkpoint e"; cases restore)
      (auto intro!: keeps_rules faults_abort faults_registry faults_release)
next
  case (Inr r)
  show ?thesis
    unfolding settle_def Inr sum.case by (intro keeps_rules faults_registry) simp
qed

lemma faults_open: "keeps faultless any open_session"
  unfolding open_session_def by (intro keeps_rules faults.keeps_read) simp_all

lemma faults_execute: "keeps faultless any (execute rt request sink)"
proof -
  have turn: "keeps faultless any (bind_io (run_turn rt cx resume followups) (finish_step rt run_id))"
    for cx resume followups run_id
    by (intro faults_config keeps_bind_any config_run_turn config_finish_step)
  show ?thesis
    unfolding execute_def Let_def acquire_def is_encrypted_def persist_run_input_def set_run_input_def
    by (intro keeps_rules faults_open faults.keeps_mint faults_lock faults_registry faults.keeps_read
        faults_abort faults_settle turn)
      (auto intro!: faults.keeps_db keeps_rules simp: faultless_def)
qed

lemma faults_advance: "keeps faultless any (advance rt continuation sink)"
proof -
  have body: "keeps faultless any (dispatch_continuation rt cx continuation)" for cx
    by (intro faults_config config_dispatch)
  show ?thesis
    unfolding advance_def Let_def admit_def mark_active_def get_run_state_def get_run_input_def parse_id_def
    by (intro keeps_rules faults_open faults.keeps_read faults_registry faults_set_run_state faults_abort
        faults_lock faults_settle body) simp_all
qed

lemma quiet_step:
  assumes "session_step s s'" "faultless s \<and> quiet s" shows "faultless s' \<and> quiet s'"
  using assms
proof (induction rule: session_step.induct)
  case (Executed rt request sink s r s')
  then show ?case by (auto intro: execute_quiet keepsD [OF faults_execute])
next
  case (Advanced rt continuation sink s r s')
  then show ?case by (auto intro: advance_quiet keepsD [OF faults_advance])
qed (simp_all add: faultless_def quiet_def unlocked_def)

end
