(* ===== verification/Turn_Rounds.thy ===== *)
theory Turn_Rounds
  imports Turn
begin

text \<open>
  The rounds of a turn: a round always ends, the turn ends at the first round whose answer
  asks for no call, and the fuel that bounds the rounds changes no result.
\<close>

definition returns :: "'a io \<Rightarrow> bool" where
  "returns m \<longleftrightarrow> (\<forall>s. m s \<noteq> None)"

named_theorems returns_rules

lemma returns_basic [returns_rules]:
  "returns (ret a)" "returns (throw e)" "returns (get_io f)" "returns (mint rt)" "returns (lift_result r)"
  "returns (db g)" "returns (invoke_io rt cx t request)"
  by (auto simp: returns_def ret_def throw_def get_io_def mint_def lift_result_def db_def Let_def
      invoke_io_def split: option.splits sum.splits prod.splits)

lemma returns_bind [returns_rules]:
  "returns m \<Longrightarrow> (\<And>a. returns (f a)) \<Longrightarrow> returns (bind_io m f)"
  by (auto simp: returns_def bind_io_def split: option.splits sum.splits)

lemma returns_seq [returns_rules]: "returns m \<Longrightarrow> returns n \<Longrightarrow> returns (seq_io m n)"
  unfolding seq_io_def by (rule returns_bind)

lemma returns_attempt [returns_rules]: "returns m \<Longrightarrow> returns (attempt_io m)"
  by (auto simp: returns_def attempt_io_def split: option.splits)

lemma returns_if [returns_rules]: "returns m \<Longrightarrow> returns n \<Longrightarrow> returns (if b then m else n)"
  by simp

lemma returns_option [returns_rules]:
  "returns m \<Longrightarrow> (\<And>a. returns (f a)) \<Longrightarrow> returns (case x of None \<Rightarrow> m | Some a \<Rightarrow> f a)"
  by (cases x) simp_all

lemma returns_prod [returns_rules]:
  "(\<And>a b. returns (f a b)) \<Longrightarrow> returns (case x of (a, b) \<Rightarrow> f a b)"
  by (cases x) simp

lemma returns_for_each [returns_rules]: "(\<And>x. returns (f x)) \<Longrightarrow> returns (for_each f xs)"
  by (induction xs) (auto intro: returns_rules)

lemma returns_map [returns_rules]: "(\<And>x. returns (f x)) \<Longrightarrow> returns (map_io f xs)"
  by (induction xs) (auto intro: returns_rules)

lemma returns_defer_calls: "returns (defer_calls rt d cs)"
  by (induction rt d cs rule: defer_calls.induct)
    (auto simp: defer_call_def Let_def intro!: returns_rules)

lemma returns_author:
  "returns (author_message rt cx d role p model text)" "returns (author_plan rt cx d body)"
  "returns (author_tool_request rt cx d p model text client)"
  unfolding author_tool_request_def author_message_def author_plan_def turn_defs Let_def
  by (intro returns_rules returns_defer_calls)+

lemma returns_turn_round: "returns (turn_round rt cx bundle ctx recorded d followups)"
  unfolding turn_round_def complete_turn_def pause_turn_def Let_def persist_routing_decision_def
    persist_context_references_def append_routing_decision_def append_context_reference_def
    record_resolution_def record_message_event_def record_cost_event_def record_tool_request_def
    record_trace_def
  by (intro returns_rules returns_author)

lemma returns_recall: "returns (recall d)"
  unfolding recall_def Let_def by (intro returns_rules)

section \<open>Rounds and invocations\<close>

interpretation rounds: row_invariant "\<lambda>s. st_rounds s = n" encrypted for n encrypted
  by unfold_locales simp_all

lemma rounds_events:
  "keeps (\<lambda>s. st_rounds s = n) any (record_message_event rt role p model)"
  by (rule rounds.keeps_trace_events)

lemma rounds_author: "keeps (\<lambda>s. st_rounds s = n) any (author_message rt cx d role p model text)"
  by (rule keeps_mono [OF rounds.keeps_author_message]) auto

text \<open>A round that goes round again invoked a model once, and the answer asked for calls.\<close>

definition asks_for_calls :: "(orchestrator_error, completion_response) result \<Rightarrow> bool" where
  "asks_for_calls r \<longleftrightarrow> (\<exists>response. r = Ok response \<and> cr_tool_calls response \<noteq> [])"

definition answer_at ::
  "runtime \<Rightarrow> turn_cx \<Rightarrow> nat \<Rightarrow> resolved_turn \<Rightarrow> completion_request \<Rightarrow>
   (orchestrator_error, completion_response) result" where
  "answer_at rt cx n t request = snd (invoke (en_providers rt n) t (en_secrets rt) request (cx_sink cx))"

definition again_from :: "runtime \<Rightarrow> turn_cx \<Rightarrow> nat \<Rightarrow> round_end io \<Rightarrow> bool" where
  "again_from rt cx n m \<longleftrightarrow> (\<forall>s d followups s'. st_rounds s = n \<longrightarrow>
     m s = Some (Ok (Again d followups), s') \<longrightarrow>
     st_rounds s' = Suc n \<and> (\<exists>t request. asks_for_calls (answer_at rt cx n t request)))"

lemma again_bind:
  assumes "keeps (\<lambda>s. st_rounds s = n) any m" "\<And>a. again_from rt cx n (f a)"
  shows "again_from rt cx n (bind_io m f)"
  unfolding again_from_def
proof (intro allI impI)
  fix s d followups s'
  assume s: "st_rounds s = n" and run: "bind_io m f s = Some (Ok (Again d followups), s')"
  from run obtain a t where t: "m s = Some (Ok a, t)" "f a t = Some (Ok (Again d followups), s')"
    by (auto elim!: bind_io_cases)
  then have "st_rounds t = n" using assms(1) s unfolding keeps_def by blast
  then show "st_rounds s' = Suc n \<and> (\<exists>t request. asks_for_calls (answer_at rt cx n t request))"
    using assms(2) t(2) unfolding again_from_def by blast
qed

lemma again_seq:
  "keeps (\<lambda>s. st_rounds s = n) any m \<Longrightarrow> again_from rt cx n k \<Longrightarrow> again_from rt cx n (seq_io m k)"
  unfolding seq_io_def by (rule again_bind)

definition never_again :: "round_end io \<Rightarrow> bool" where
  "never_again m \<longleftrightarrow> (\<forall>s d followups s'. m s \<noteq> Some (Ok (Again d followups), s'))"

lemma done_never_again: "never_again (bind_io m (\<lambda>step. ret (Done step)))"
  by (auto simp: never_again_def ret_def elim!: bind_io_cases)

lemma again_invoke:
  assumes "\<And>response. cr_tool_calls response = [] \<Longrightarrow> never_again (f response)"
    "\<And>response. never_again (f response) \<or> (\<exists>a. f response = ret a)"
  shows "again_from rt cx n (bind_io (invoke_io rt cx t request) f)"
  unfolding again_from_def
proof (intro allI impI)
  fix s d followups s'
  assume s: "st_rounds s = n" "bind_io (invoke_io rt cx t request) f s = Some (Ok (Again d followups), s')"
  from s(2) obtain response u where u: "invoke_io rt cx t request s = Some (Ok response, u)"
    "f response u = Some (Ok (Again d followups), s')"
    by (auto elim!: bind_io_cases)
  have "cr_tool_calls response \<noteq> []" "\<exists>a. f response = ret a"
    using u(2) assms unfolding never_again_def by blast+
  moreover have "answer_at rt cx n t request = Ok response" "st_rounds u = Suc n"
    using u(1) s(1) by (auto simp: invoke_io_def answer_at_def split: prod.splits)
  moreover have "s' = u" using u(2) calculation(2) by (auto simp: ret_def)
  ultimately show "st_rounds s' = Suc n \<and> (\<exists>t request. asks_for_calls (answer_at rt cx n t request))"
    unfolding asks_for_calls_def by blast
qed

lemma turn_round_again: "again_from rt cx n (turn_round rt cx bundle ctx recorded d followups)"
proof -
  have recorded: "keeps (\<lambda>s. st_rounds s = n) any (if recorded then ret d
      else bind_io (author_message rt cx d User p model body) (\<lambda>d1.
        seq_io (record_message_event rt User p model) (ret d1)))" for p model body
    by (intro keeps_rules rounds_author rounds_events) simp_all
  show "again_from rt cx n (turn_round rt cx bundle ctx recorded d followups)"
    unfolding turn_round_def Let_def
    by (rule again_bind [OF keeps_get_any], rule again_bind [OF keeps_lift [OF TrueI]],
        rule again_seq [OF rounds.keeps_persist_decision], rule again_seq [OF rounds.keeps_persist_references],
        rule again_seq [OF rounds.keeps_trace_events(1)], rule again_bind [OF recorded], rule again_invoke)
      (auto simp: done_never_again)
qed

section \<open>The loop of rounds\<close>

text \<open>More fuel changes no result.\<close>

lemma turn_rounds_more:
  "turn_rounds rt cx fuel b sid recorded d followups s = Some x \<Longrightarrow>
   turn_rounds rt cx (fuel + k) b sid recorded d followups s = Some x"
proof (induction fuel arbitrary: b recorded d followups s)
  case (Suc fuel)
  note more = Suc.IH
  show ?case using Suc.prems
    by (auto simp: bind_io_def more split: option.splits sum.splits recalled.splits round_end.splits
        prod.splits)
qed simp

text \<open>If fuel runs out, every round asked for calls.\<close>

lemma turn_rounds_none:
  assumes "turn_rounds rt cx fuel bundle sid recorded d followups s = None" "k < fuel"
  shows "\<exists>t request. asks_for_calls (answer_at rt cx (st_rounds s + k) t request)"
  using assms
proof (induction fuel arbitrary: recorded d followups s k)
  case (Suc fuel)
  have recalls: "keeps (\<lambda>u. st_rounds u = st_rounds s) any (recall (cx_decrypted cx))"
    by (rule rounds.keeps_recall)
  obtain outcome t where t: "recall (cx_decrypted cx) s = Some (outcome, t)"
    using returns_recall [of "cx_decrypted cx"] unfolding returns_def by fast
  have t_rounds: "st_rounds t = st_rounds s" using recalls t unfolding keeps_def by blast
  obtain ctx b where ctx: "outcome = Ok (Ready ctx)" "bundle = Some b"
    using Suc.prems(1) t
    by (auto simp: bind_io_def ret_def split: sum.splits recalled.splits option.splits)
  obtain out u where u: "turn_round rt cx b ctx recorded d followups t = Some (out, u)"
    using returns_turn_round [of rt cx b ctx recorded d followups] unfolding returns_def by fast
  obtain d1 f1 where again: "out = Ok (Again d1 f1)"
    "turn_rounds rt cx fuel bundle sid True d1 f1 u = None"
    using Suc.prems(1) t ctx u
    by (auto simp: bind_io_def ret_def split: sum.splits round_end.splits)
  have asked: "st_rounds u = Suc (st_rounds s)"
    "\<exists>t request. asks_for_calls (answer_at rt cx (st_rounds s) t request)"
    using turn_round_again [of rt cx "st_rounds s" b ctx recorded d followups] u again(1) t_rounds
    unfolding again_from_def by blast+
  show ?case
  proof (cases k)
    case 0
    then show ?thesis using asked(2) by simp
  next
    case (Suc k')
    then show ?thesis using Suc.IH [OF again(2), of k'] Suc.prems(2) asked(1) by simp
  qed
qed simp

lemma run_turn_none:
  assumes "run_turn rt cx resume followups s = None" "k < en_fuel rt"
  shows "\<exists>t request. asks_for_calls (answer_at rt cx (st_rounds s + k) t request)"
proof -
  have "run_turn_inner rt cx resume followups s = None"
    using assms(1) by (auto simp: run_turn_def bind_io_def attempt_io_def ret_def split: option.splits sum.splits)
  then obtain b sid recorded d where
    "turn_rounds rt cx (en_fuel rt) b sid recorded d followups s = None"
    by (auto simp: run_turn_inner_def bind_io_def get_io_def lift_result_def Let_def split: sum.splits)
  then show ?thesis using assms(2) by (rule turn_rounds_none)
qed

end
