(* ===== verification/Samples.thy ===== *)
theory Samples
  imports Lifecycle Turn_Rounds
begin

text \<open>
  Concrete inputs the properties are instantiated at: third-party code that satisfies the
  laws assumed of it, one local and one remote model, a policy, a request and a session.
\<close>

section \<open>Third-party code\<close>

text \<open>Globs without wildcards, and a distance that only tells equal from different.\<close>

definition sample_externs :: externs where
  "sample_externs = \<lparr>glob_ok = (\<lambda>g. g \<noteq> ''[''), glob_build = (\<lambda>ps. Some (\<lambda>p. p \<in> set ps)),
     osa_distance = (\<lambda>a b. if a = b then 0 else 1)\<rparr>"

lemma sample_laws: "glob_law sample_externs" "osa_law sample_externs"
  by (auto simp: glob_law_def osa_law_def sample_externs_def)

section \<open>Models and policy\<close>

definition plain_parameters :: model_parameters where
  "plain_parameters = \<lparr>mp_temperature = None, mp_top_p = None, mp_max_tokens = None, mp_extra = []\<rparr>"

definition local_model :: model_descriptor where
  "local_model = \<lparr>md_provider = Ollama, md_model = ''llama'', md_display_name = None, md_local = True,
     md_auth = NoAuth, md_capabilities = no_capabilities, md_max_context_tokens = 8000,
     md_max_output_tokens = None, md_input_cost = None, md_output_cost = None,
     md_default_parameters = plain_parameters, md_provider_options = None\<rparr>"

definition remote_model :: model_descriptor where
  "remote_model = local_model\<lparr>md_provider := Anthropic, md_model := ''claude'', md_local := False\<rparr>"

definition local_ref :: model_reference where
  "local_ref = \<lparr>mr_provider = Ollama, mr_model = ''llama''\<rparr>"

definition remote_ref :: model_reference where
  "remote_ref = \<lparr>mr_provider = Anthropic, mr_model = ''claude''\<rparr>"

definition sample_catalog :: catalog where
  "sample_catalog r = (if r = local_ref then Some local_model
     else if r = remote_ref then Some remote_model else None)"

lemma sample_catalog_wf: "catalog_wf sample_catalog"
  by (simp add: catalog_wf_def sample_catalog_def local_model_def remote_model_def local_ref_def
      remote_ref_def descriptor_reference_def)

text \<open>One rule: edits go to the remote model, and fall back to the local one.\<close>

definition edit_rule :: routing_rule where
  "edit_rule = \<lparr>rule_name = ''edits'', rule_priority = 10, rule_effort = MediumEffort,
     rule_intent = Some Edit, rule_paths = [], rule_local_only = False,
     rule_requires_capabilities = None, rule_model = remote_ref, rule_fallbacks = [local_ref],
     rule_required_permissions = [], rule_cost_limit = None\<rparr>"

definition sample_routing :: routing_policy where
  "sample_routing = \<lparr>rp_rules = [edit_rule],
     rp_default = Some \<lparr>dr_model = local_ref, dr_fallbacks = [remote_ref]\<rparr>\<rparr>"

definition open_privacy :: privacy_policy where
  "open_privacy = \<lparr>restricted_paths = [], remote = \<lparr>remote_mode = None, blocked_paths = []\<rparr>,
     local_models = \<lparr>local_mode = None\<rparr>\<rparr>"

definition sample_policy :: execute_policy where
  "sample_policy = \<lparr>xp_classification = default_classification, xp_routing = sample_routing,
     xp_tools = [(shell_tool, Deny)], xp_privacy = open_privacy\<rparr>"

section \<open>A request\<close>

definition bare_workspace :: workspace where
  "bare_workspace = \<lparr>ws_root = ''/r'', ws_git_branch = None, ws_git_diff = None,
     ws_referenced_paths = [], ws_active_file = None\<rparr>"

definition sample_input :: task_input where
  "sample_input = \<lparr>ti_text = ''hi'', ti_command = None, ti_explicit_model = None\<rparr>"

definition sample_request :: execute_request where
  "sample_request = \<lparr>xr_input = sample_input, xr_workspace = bare_workspace, xr_policy = sample_policy,
     xr_local_preferences = \<lparr>lp_auto_apply = False, lp_local_only = False, lp_no_network = False\<rparr>,
     xr_attachments = no_attachments\<rparr>"

section \<open>Providers and the process\<close>

definition answer :: "string \<Rightarrow> tool_call list \<Rightarrow> completion_response" where
  "answer body calls = \<lparr>cr_content = body, cr_tool_calls = calls, cr_usage = no_usage,
     cr_finish_reason = StopFinish\<rparr>"

definition sample_providers :: "completion_response \<Rightarrow> providers" where
  "sample_providers response = \<lparr>pv_configured = (\<lambda>_. True), pv_cancelled_before = (\<lambda>_. False),
     pv_cancelled_during = (\<lambda>_. False), pv_resolve = (\<lambda>_ _ _. Ok ()),
     pv_complete = (\<lambda>_ _ _. Ok response), pv_stream = (\<lambda>_ _ _. Ok [])\<rparr>"

definition sample_bundle :: run_input_bundle where
  "sample_bundle = snd (split_execute_request sample_request)"

definition sample_runtime :: "(nat \<Rightarrow> completion_response) \<Rightarrow> runtime" where
  "sample_runtime answers = \<lparr>en_externs = sample_externs, en_uuid = (\<lambda>n. ''u'' @ show_nat n),
     en_parse_uuid = (\<lambda>s. Some s), en_encode = (\<lambda>_. ''bundle''),
     en_decode = (\<lambda>s. if s = ''bundle'' then Some sample_bundle else None),
     en_encode_json = (\<lambda>_. ''json''), en_encode_trace = (\<lambda>_. ''trace''),
     en_catalog = (\<lambda>_. sample_catalog), en_credentialed = [], en_secrets = (\<lambda>_. None),
     en_providers = (\<lambda>n. sample_providers (answers n)), en_fuel = 3\<rparr>"

definition fresh_store :: "bool \<Rightarrow> store" where
  "fresh_store encrypted = \<lparr>st_session_id = ''s'', st_open = True, st_encrypted = encrypted,
     st_run_state = None, st_run_input = None, st_messages = [], st_tool_calls = [], st_plans = [],
     st_diffs = [], st_approvals = [], st_decisions = [], st_references = [], st_context_memory = [],
     st_user_memory = [], st_traces = [], st_minted = 0, st_clock = 0, st_faults = (\<lambda>_. None),
     st_rounds = 0, st_sent = [], st_registry = empty_registry\<rparr>"

definition hello :: "nat \<Rightarrow> completion_response" where
  "hello n = answer ''hello'' []"

definition read_call :: tool_call where
  "read_call = \<lparr>tc_call_id = ''c'', tc_name = read_file_tool, tc_arguments = JObj [(''path'', JStr ''a'')]\<rparr>"

text \<open>The first answer asks to read a file, the later ones end the turn.\<close>

definition reads :: "nat \<Rightarrow> completion_response" where
  "reads n = (if n = 0 then answer ''reading'' [read_call] else answer ''done'' [])"

section \<open>Requests that run\<close>

definition answered :: "('a \<times> store) option \<Rightarrow> bool" where
  "answered x \<longleftrightarrow> (\<exists>a s. x = Some (a, s))"

fun outcome_of :: "((orchestrator_error, 'a) result \<times> store) option \<Rightarrow> verdict option" where
  "outcome_of None = None"
| "outcome_of (Some (r, s)) = Some (verdict_of r)"

lemma outcome_Accepted: "outcome_of x = Some Accepted \<Longrightarrow> \<exists>a s. x = Some (Ok a, s)"
  by (cases x rule: outcome_of.cases) (auto elim: verdict_of.elims)

lemma outcome_Refused: "outcome_of x = Some Refused \<Longrightarrow> \<exists>s. x = Some (Err UnexpectedContinuation, s)"
  by (cases x rule: outcome_of.cases) (auto elim: verdict_of.elims)

section \<open>A paused session\<close>

definition read_wait :: tool_wait where
  "read_wait = \<lparr>tw_call_id = ''c0'', tw_tool_name = read_file_tool, tw_requires_approval = AllowCall,
     tw_records_diff = False\<rparr>"

definition paused_at :: "run_phase \<Rightarrow> run_state" where
  "paused_at phase = (new_run_state ''u0'' phase)"

definition sample_row :: run_input_row where
  "sample_row = \<lparr>iw_run_id = ''u0'', iw_meta = fst (split_execute_request sample_request),
     iw_plan_active = False, iw_content = Plaintext ''bundle''\<rparr>"

definition waiting_store :: store where
  "waiting_store = (fresh_store False)\<lparr>
     st_run_state := Some (paused_at (AwaitingTool [read_wait] NextTurn [])),
     st_run_input := Some sample_row,
     st_tool_calls := [\<lparr>tr_id = ''c0'', tr_tool_name = read_file_tool, tr_status = PendingCall,
       tr_arguments = Plaintext ''json'', tr_result = None, tr_error = None\<rparr>],
     st_minted := 9, st_rounds := 1\<rparr>"

definition read_result :: tool_result where
  "read_result = \<lparr>tl_call_id = ''c0'', tl_content = ''text'', tl_is_error = False, tl_decision = None\<rparr>"

abbreviation results_of :: "tool_result list \<Rightarrow> continue_request" where
  "results_of results \<equiv> continue_request.ToolResults results []"

lemma waiting_facts: "faultless waiting_store" "quiet waiting_store" "unlocked waiting_store" "st_open waiting_store"
  "st_run_state waiting_store = Some (paused_at (AwaitingTool [read_wait] NextTurn []))"
  "st_run_input waiting_store = Some sample_row"
  by (simp_all add: waiting_store_def fresh_store_def faultless_def quiet_def unlocked_def paused_at_def
      new_run_state_def empty_registry_def)

lemma fresh_facts: "faultless (fresh_store e)" "quiet (fresh_store e)" "unlocked (fresh_store e)"
  "st_open (fresh_store e)" "sealed_store (fresh_store True)"
  by (simp_all add: fresh_store_def faultless_def quiet_def unlocked_def empty_registry_def
      sealed_store_def rows_sealed_def)

section \<open>Resolutions\<close>

definition sample_args :: "task_intent option \<Rightarrow> context_file list \<Rightarrow> privacy_policy \<Rightarrow> bool \<Rightarrow> resolve_args" where
  "sample_args command files privacy local_only =
     \<lparr>ra_input = sample_input\<lparr>ti_command := command\<rparr>, ra_workspace = bare_workspace,
      ra_attachments = no_attachments\<lparr>at_files := files\<rparr>, ra_recalled = empty_recall,
      ra_classification = default_classification, ra_routing = sample_routing, ra_privacy = privacy,
      ra_requirements = no_requirements, ra_catalog = sample_catalog, ra_credentialed = [],
      ra_local_only = local_only\<rparr>"

definition secret_file :: context_file where
  "secret_file = \<lparr>cf_path = ''k'', cf_content = ''key'', cf_required = True\<rparr>"

definition secret_privacy :: privacy_policy where
  "secret_privacy = open_privacy\<lparr>restricted_paths := [''k'']\<rparr>"

abbreviation secret_args :: resolve_args where
  "secret_args \<equiv> sample_args (Some Edit) [secret_file] secret_privacy False"

abbreviation edit_args :: resolve_args where
  "edit_args \<equiv> sample_args (Some Edit) [] open_privacy False"

fun chosen :: "(resolver_error, resolved_turn) result \<Rightarrow> (model_reference \<times> model_reference list) option" where
  "chosen (Inl e) = None"
| "chosen (Inr t) = Some (descriptor_reference (rt_model t), rt_fallbacks t)"

lemma chosen_Ok: "chosen r = Some c \<Longrightarrow> \<exists>t. r = Ok t \<and> c = (descriptor_reference (rt_model t), rt_fallbacks t)"
  by (cases r) auto

section \<open>What the samples do\<close>

lemma hello_runs: "outcome_of (execute (sample_runtime hello) sample_request False (fresh_store False)) = Some Accepted"
  by code_simp

lemma hello_seals: "outcome_of (execute (sample_runtime hello) sample_request False (fresh_store True)) = Some Accepted"
  by code_simp

lemma resume_runs: "outcome_of (advance (sample_runtime reads) (results_of [read_result]) False waiting_store) = Some Accepted"
  by code_simp

lemma partial_refused: "outcome_of (advance (sample_runtime reads) (results_of []) False waiting_store) = Some Refused"
  by code_simp

lemmas sample_defs = sample_args_def sample_input_def bare_workspace_def no_attachments_def
  empty_recall_def default_classification_def sample_routing_def edit_rule_def sample_catalog_def
  local_ref_def remote_ref_def local_model_def remote_model_def open_privacy_def secret_file_def
  secret_privacy_def sample_externs_def plain_parameters_def

lemmas resolve_defs = resolve_def normalize_def classify_def touched_files_def match_policy_def
  first_matching_rule_def task_matches_def nt_intent_def build_candidates_def raw_candidates_def
  dedupe_def file_candidate_def is_restricted_for_remote_def compile_globs_def path_in_focus_def
  has_restricted_required_content_def required_tokens_def estimate_tokens_def chars_per_token_def
  select_def usable_def requires_api_key_def auth_requires_api_key_def effective_requirements_def
  can_handle_def required_def flagged_def fits_context_def no_requirements_def no_capabilities_def
  route_model_def route_fallbacks_def matched_rule_def override_used_def finalize_def
  effective_budget_def default_reply_reserve_def remaining_fallbacks_def descriptor_reference_def

lemma edit_resolves: "chosen (resolve sample_externs edit_args) = Some (remote_ref, [local_ref])"
  by (simp add: sample_defs resolve_defs result_simps Let_def)

lemma secret_resolves: "chosen (resolve sample_externs secret_args) = Some (local_ref, [])"
  by (simp add: sample_defs resolve_defs result_simps Let_def)

text \<open>What the model is asked.\<close>

definition hello_request :: completion_request where
  "hello_request = \<lparr>cq_messages = [UserMsg ''hello''], cq_parameters = plain_parameters, cq_tools = [],
     cq_tool_choice = AutoChoice\<rparr>"

end
