(* ===== verification/Findings.thy ===== *)
theory Findings
  imports Samples
begin

text \<open>
  Where the program departs from its documentation or from what it means to do, each shown
  on the model: behaviours of the definitions of the other theories, at concrete inputs or
  in general.
\<close>

section \<open>Routing\<close>

text \<open>
  A turn that must stay local is resolved to a local model, but the fallbacks the invocation
  walks are not filtered: when the local model fails retryably, a remote one answers.
\<close>

definition local_fails :: providers where
  "local_fails = (sample_providers (answer ''remote'' []))\<lparr>pv_complete := (\<lambda>_ r _.
     if r = local_ref
     then Err \<lparr>pe_category = ProviderUnavailable, pe_message = [], pe_provider = Ollama, pe_model = None\<rparr>
     else Ok (answer ''remote'' []))\<rparr>"

lemma local_only_turn_reaches_remote:
  "\<exists>t. resolve sample_externs (sample_args None [] open_privacy True) = Ok t \<and>
     md_local (rt_model t) \<and> candidate_chain t = [local_ref, remote_ref] \<and>
     invoke_complete local_fails t (\<lambda>_. None) hello_request = Ok (answer ''remote'' [])"
proof -
  obtain t where t: "resolve sample_externs (sample_args None [] open_privacy True) = Ok t"
    "rt_model t = local_model" "rt_fallbacks t = [remote_ref]" "rd_provider (rt_routing t) = Ollama"
    "rd_model (rt_routing t) = ''llama''"
    by (simp add: sample_defs resolve_defs result_simps rules_by_priority_def Let_def)
  then show ?thesis
    by (auto simp: candidate_chain_def invoke_complete_def local_fails_def sample_providers_def
        resolve_model_def classify_failure_def is_fallback_eligible_def local_model_def local_ref_def
        remote_ref_def)
qed

text \<open>One malformed glob disables a whole list of path patterns.\<close>

lemma invalid_glob_disables_rule:
  "g \<in> set globs \<Longrightarrow> \<not> glob_ok x g \<Longrightarrow> \<not> paths_match x globs paths"
  by (auto simp: paths_match_def list_all_iff)

section \<open>Runs\<close>

text \<open>
  A superseded turn that settles writes an idle run state over the one of the turn that
  replaced it: the lock is released while the newer turn is still live.
\<close>

lemma superseded_turn_clobbers_lock:
  assumes "faultless s" "fl_live (st_registry s) (st_session_id s) = Some newer"
    and "tt_nonce newer \<noteq> tt_nonce older"
  shows "\<exists>s'. settle (Err Superseded) run_id older restore s = Some (Err Superseded, s') \<and>
    Option.bind (st_run_state s') rs_active = None \<and>
    fl_live (st_registry s') (st_session_id s') = Some newer"
  using assms
  by (auto simp: settle_Err settled_state_def new_run_state_def finish_turn_def)

text \<open>An encrypted run paused for a tool, and the client's sealed reply.\<close>

definition sealed_payload :: encrypted_payload where
  "sealed_payload = \<lparr>ep_version = 1, ep_algorithm = ''aes'', ep_key_id = ''k'', ep_nonce = ''n'',
     ep_ciphertext = ''c''\<rparr>"

definition sealed_waiting :: store where
  "sealed_waiting = (fresh_store True)\<lparr>
     st_run_state := Some (paused_at (AwaitingTool [read_wait] NextTurn
       [PendingMessage ''m1'' User Ollama ''llama'', PendingMessage ''m2'' Assistant Ollama ''llama'',
        PendingToolCall ''c0'' read_file_tool])),
     st_run_input := Some (sample_row\<lparr>iw_content := Plaintext []\<rparr>),
     st_minted := 9, st_rounds := 1\<rparr>"

definition all_seals :: "encrypted_payload ref_map" where
  "all_seals = map (\<lambda>r. (r, sealed_payload))
     [MessageRef ''m1'', MessageRef ''m2'', ToolCallRef ''c0'', RunInputRef ''s'']"

text \<open>
  The results of an encrypted run's tools never reach the model: the messages were sealed by
  the very reply that carries the results, so the turn pauses to decrypt them, and when it
  resumes the results are gone and the run starts over from its prompt.
\<close>

lemma encrypted_tool_results_lost:
  "(case advance (sample_runtime reads) (continue_request.ToolResults [read_result] all_seals) False
      sealed_waiting of
      Some (Inr r, s') \<Rightarrow> tp_allowed_continuations r = [DecryptedKind, BreakKind] \<and> st_rounds s' = 1 \<and>
        (case st_run_state s' of
           Some rs \<Rightarrow> (case rs_phase rs of AwaitingDecrypt _ step \<Rightarrow> step = BuildPrompt | _ \<Rightarrow> False)
         | None \<Rightarrow> False)
    | _ \<Rightarrow> False)"
  by code_simp

text \<open>
  Break on such a pause fails: the rows of the calls it would mark cancelled are deferred
  and do not exist yet.
\<close>

lemma encrypted_break_fails:
  "(case advance (sample_runtime reads) Break False sealed_waiting of
      Some (Inl e, s') \<Rightarrow> e = SessionFailed (DatabaseError RecordNotFound)
    | _ \<Rightarrow> False)"
  by code_simp

end
