(* ===== verification/Preview.thy ===== *)
theory Preview
  imports Lifecycle Turn_Rounds
begin

text \<open>
  The preview of a request (\<^verbatim>\<open>orchestrator/preview.rs\<close>, \<^verbatim>\<open>api/preview.rs\<close>, and \<^verbatim>\<open>preview\<close> in
  \<^verbatim>\<open>orchestrator.rs\<close>): the resolution an execution would start with, its cost range and the
  permissions of its route. No model is invoked and no row is written. Token counts are naturals
  and prices rationals, as in the pricing of a turn.
\<close>

section \<open>Data\<close>

record cost_range =
  cg_min :: rat
  cg_max :: rat
  cg_currency :: string

record required_permission =
  qp_permission :: string
  qp_mode :: permission_mode

record preview_response =
  pw_classification :: classification
  pw_routing :: routing_decision
  pw_included_context :: "string list"
  pw_excluded_context :: "string list"
  pw_estimated_cost :: cost_range
  pw_required_permissions :: "required_permission list"

definition assumed_reply_tokens :: nat where
  "assumed_reply_tokens = 4096"

section \<open>Cost\<close>

definition preview_input_tokens :: "resolved_turn \<Rightarrow> string \<Rightarrow> nat" where
  "preview_input_tokens t input_text =
     (\<Sum>c\<leftarrow>res_included (rt_context t). cand_tokens c) + estimate_tokens input_text"

definition reply_tokens :: "model_descriptor \<Rightarrow> nat" where
  "reply_tokens model = (case md_max_output_tokens model of None \<Rightarrow> assumed_reply_tokens | Some n \<Rightarrow> n)"

definition estimate_cost :: "resolved_turn \<Rightarrow> string \<Rightarrow> cost_range" where
  "estimate_cost t input_text =
     (case (md_input_cost (rt_model t), md_output_cost (rt_model t)) of
        (Some input_rate, Some output_rate) \<Rightarrow>
          let unit = rat_of_nat tokens_per_rate_unit;
              input_cost = rat_of_nat (preview_input_tokens t input_text) / unit * input_rate
          in \<lparr>cg_min = input_cost,
              cg_max = input_cost + rat_of_nat (reply_tokens (rt_model t)) / unit * output_rate,
              cg_currency = ''USD''\<rparr>
      | _ \<Rightarrow> \<lparr>cg_min = 0, cg_max = 0, cg_currency = ''USD''\<rparr>)"

section \<open>Permissions\<close>

definition effective_permissions :: "tools_config \<Rightarrow> tools_config \<Rightarrow> tools_config" where
  "effective_permissions base demands =
     (case narrow base demands of Inr effective \<Rightarrow> effective | Inl _ \<Rightarrow> base)"

definition required_permissions :: "resolved_turn \<Rightarrow> tools_config \<Rightarrow> required_permission list" where
  "required_permissions t base =
     map (\<lambda>(tool, mode). \<lparr>qp_permission = tool, qp_mode = mode\<rparr>)
       (effective_permissions base (rt_required_permissions t))"

section \<open>The preview\<close>

definition preview_response_of :: "resolved_turn \<Rightarrow> task_input \<Rightarrow> tools_config \<Rightarrow> preview_response" where
  "preview_response_of t input base =
     \<lparr>pw_classification = rt_classification t, pw_routing = rt_routing t,
      pw_included_context = co_included (res_outcome (rt_context t)),
      pw_excluded_context = co_excluded (res_outcome (rt_context t)),
      pw_estimated_cost = estimate_cost t (ti_text input),
      pw_required_permissions = required_permissions t base\<rparr>"

text \<open>A history that is still sealed is previewed as an empty one.\<close>

definition previewed_recall :: "recalled \<Rightarrow> recalled_context" where
  "previewed_recall r = (case r of Ready known \<Rightarrow> known | NeedsDecrypt _ \<Rightarrow> empty_recall)"

definition preview :: "runtime \<Rightarrow> execute_request \<Rightarrow> preview_response io" where
  "preview rt request =
     seq_io open_session
    (let (meta, bundle) = split_execute_request request in
     bind_io (recall []) (\<lambda>r.
     bind_io (get_io st_rounds) (\<lambda>rounds.
     bind_io (lift_result (map_err ResolverFailed (resolve (en_externs rt)
       \<lparr>ra_input = rb_input bundle, ra_workspace = rebuild_workspace meta bundle,
        ra_attachments = rb_attachments bundle, ra_recalled = previewed_recall r,
        ra_classification = xp_classification (ri_policy meta), ra_routing = xp_routing (ri_policy meta),
        ra_privacy = xp_privacy (ri_policy meta), ra_requirements = no_requirements,
        ra_catalog = en_catalog rt rounds, ra_credentialed = en_credentialed rt,
        ra_local_only = lp_local_only (ri_local_preferences meta)\<rparr>))) (\<lambda>t.
       ret (preview_response_of t (rb_input bundle) (xp_tools (ri_policy meta)))))))"

section \<open>The estimate\<close>

lemma rated_estimate:
  assumes "md_input_cost (rt_model t) = Some i" "md_output_cost (rt_model t) = Some out"
  shows "cg_min (estimate_cost t x) = rat_of_nat (preview_input_tokens t x) / rat_of_nat tokens_per_rate_unit * i"
    "cg_max (estimate_cost t x) = cg_min (estimate_cost t x) +
       rat_of_nat (reply_tokens (rt_model t)) / rat_of_nat tokens_per_rate_unit * out"
  using assms by (simp_all add: estimate_cost_def Let_def)

lemma unrated_estimate:
  assumes "md_input_cost (rt_model t) = None \<or> md_output_cost (rt_model t) = None"
  shows "cg_min (estimate_cost t x) = 0" "cg_max (estimate_cost t x) = 0"
  using assms by (auto simp: estimate_cost_def split: option.splits)

lemma rate_unit: "0 < rat_of_nat tokens_per_rate_unit"
  by (simp add: tokens_per_rate_unit_def)

lemma tokens_cost_mono:
  "m \<le> n \<Longrightarrow> 0 \<le> r \<Longrightarrow>
   rat_of_nat m / rat_of_nat tokens_per_rate_unit * r \<le> rat_of_nat n / rat_of_nat tokens_per_rate_unit * r"
  using rate_unit by (intro mult_right_mono divide_right_mono) simp_all

lemma estimate_bounds_price:
  assumes "md_input_cost (rt_model t) = Some i" "md_output_cost (rt_model t) = Some out" "0 \<le> i" "0 \<le> out"
    and "u_input_tokens u = Some (preview_input_tokens t x)" "u_output_tokens u = Some n"
    and "n \<le> reply_tokens (rt_model t)"
  shows "\<exists>c. u_actual_cost (priced u (rt_model t)) = Some c \<and>
    cg_min (estimate_cost t x) \<le> c \<and> c \<le> cg_max (estimate_cost t x)"
proof -
  have "0 \<le> rat_of_nat n / rat_of_nat tokens_per_rate_unit * out"
    using tokens_cost_mono [of 0 n out] assms(4) by simp
  then show ?thesis
    using assms(1,2,5,6) tokens_cost_mono [OF assms(7,4)]
    by (simp add: priced_def rated_estimate [OF assms(1,2)] Let_def)
qed

section \<open>The permissions\<close>

text \<open>No tool of the project is shown with a looser mode than the project gives it.\<close>

lemma effective_never_looser:
  assumes "bt_wf base" "distinct (map fst demands)" "mode_for base tool = Some m"
  shows "\<exists>n. mode_for (effective_permissions base demands) tool = Some n \<and> m \<le> n"
proof (cases "narrow base demands")
  case (Inl e)
  then show ?thesis using assms(3) by (simp add: effective_permissions_def)
next
  case (Inr r)
  then show ?thesis
    using narrow_get [OF Inr assms(1,2), of tool] narrow_tightens [OF Inr assms(1,2)] assms(3)
    by (auto simp: effective_permissions_def mode_for_def split: option.splits)
qed

text \<open>What a rule demands of a tool is shown, and a turn never looks at it: the offer and the
  mediation of a turn know the tools of the project only.\<close>

lemma shown_but_not_applied:
  assumes "bt_wf base" "mode_for base tool = Some Allow"
  shows "mode_for (effective_permissions base [(tool, Deny)]) tool = Some Deny"
    "cq_tools (request_of cx bundle known (t\<lparr>rt_required_permissions := demands\<rparr>) followups) =
     cq_tools (request_of cx bundle known t followups)"
proof -
  have "narrow base [(tool, Deny)] = Ok (bt_insert tool Deny base)"
    using assms(2) by (simp add: mode_for_def less_permission_mode_def)
  then show "mode_for (effective_permissions base [(tool, Deny)]) tool = Some Deny"
    using assms(1) by (simp add: effective_permissions_def mode_for_def bt_get_insert)
qed (simp add: request_of_def Let_def)

section \<open>A preview reads\<close>

lemma preview_runs:
  assumes "preview rt request s = Some (Ok p, s')" "split_execute_request request = (meta, b)"
  obtains u r u' t where "open_session s = Some (Ok (), u)" "recall [] u = Some (Ok r, u')"
    "resolve (en_externs rt) \<lparr>ra_input = rb_input b, ra_workspace = rebuild_workspace meta b,
        ra_attachments = rb_attachments b, ra_recalled = previewed_recall r,
        ra_classification = xp_classification (ri_policy meta), ra_routing = xp_routing (ri_policy meta),
        ra_privacy = xp_privacy (ri_policy meta), ra_requirements = no_requirements,
        ra_catalog = en_catalog rt (st_rounds u'), ra_credentialed = en_credentialed rt,
        ra_local_only = lp_local_only (ri_local_preferences meta)\<rparr> = Ok t"
    "p = preview_response_of t (rb_input b) (xp_tools (ri_policy meta))"
proof -
  from assms(1) obtain u where u: "open_session s = Some (Ok (), u)"
    "bind_io (recall []) (\<lambda>r. bind_io (get_io st_rounds) (\<lambda>rounds.
       bind_io (lift_result (map_err ResolverFailed (resolve (en_externs rt)
         \<lparr>ra_input = rb_input b, ra_workspace = rebuild_workspace meta b,
        ra_attachments = rb_attachments b, ra_recalled = previewed_recall r,
        ra_classification = xp_classification (ri_policy meta), ra_routing = xp_routing (ri_policy meta),
        ra_privacy = xp_privacy (ri_policy meta), ra_requirements = no_requirements,
        ra_catalog = en_catalog rt rounds, ra_credentialed = en_credentialed rt,
        ra_local_only = lp_local_only (ri_local_preferences meta)\<rparr>))) (\<lambda>t.
       ret (preview_response_of t (rb_input b) (xp_tools (ri_policy meta)))))) u = Some (Ok p, s')"
    unfolding preview_def assms(2) seq_io_def Let_def prod.case by (rule bind_io_cases) simp_all
  from u(2) obtain r u' where r: "recall [] u = Some (Ok r, u')" by (rule bind_io_cases) simp_all
  with u(2) show thesis
    using that [OF u(1) r] by (auto simp: bind_io_def get_io_def lift_result_def ret_def result_simps split: sum.splits)
qed

lemma preview_reads: "keeps (only_read c) any (preview rt request)"
  unfolding preview_def open_session_def recall_def Let_def
  by (auto split: prod.split intro!: keeps_rules reads_db)

lemma preview_returns: "\<exists>r s'. preview rt request s = Some (r, s')"
proof -
  have "returns (preview rt request)"
    unfolding preview_def open_session_def Let_def
    by (cases "split_execute_request request") (auto intro!: returns_rules returns_recall)
  then show ?thesis unfolding returns_def by (metis option.collapse surj_pair)
qed

section \<open>What the execution makes of it\<close>

text \<open>The fields a recall reads.\<close>

definition same_past :: "store \<Rightarrow> store \<Rightarrow> bool" where
  "same_past c s \<longleftrightarrow> st_messages s = st_messages c \<and> st_context_memory s = st_context_memory c \<and>
     st_user_memory s = st_user_memory c \<and> st_rounds s = st_rounds c"

interpretation past: store_invariant "same_past c" for c
  by unfold_locales (simp_all add: same_past_def)

lemma recalled_past:
  assumes "recall [] s = Some (Ok r, s')" "recall [] u = Some (Ok r', u')" "same_past s u"
  shows "r' = r"
  using assms
  by (auto simp: recall_def bind_io_def db_def ret_def same_past_def Let_def
      split: option.splits sum.splits prod.splits if_splits)

lemma past_acquire: "keeps (same_past c) any (acquire rt)"
proof -
  have "keeps (same_past c) any begin_io"
    by (auto simp: keeps_def begin_io_def same_past_def split: prod.splits)
  then show ?thesis
    unfolding acquire_def acquire_run_lock_def
    by (intro keeps_rules past.keeps_mint past.keeps_db) (auto simp: same_past_def split: option.splits)
qed

lemma past_stored: "keeps (same_past c) any (persist_run_input rt run_id meta b encrypted)"
  unfolding persist_run_input_def set_run_input_def by (rule past.keeps_db) (auto simp: same_past_def)

text \<open>A turn that completes in a round carries the resolution of that round and the answer to the one
  invocation it made in it.\<close>

definition answered :: "runtime \<Rightarrow> turn_cx \<Rightarrow> run_input_bundle \<Rightarrow> recalled_context \<Rightarrow> nat \<Rightarrow> completed_data \<Rightarrow> bool" where
  "answered rt cx b known n cd \<longleftrightarrow>
     resolve (en_externs rt) (resolve_args_of rt cx b known n) = Ok (cd_resolved cd) \<and>
     (\<exists>request response. answer_at rt cx n (cd_resolved cd) request = Ok response \<and> cd_content cd = cr_content response)"

definition ends_in :: "nat \<Rightarrow> nat \<Rightarrow> (completed_data \<Rightarrow> bool) \<Rightarrow> round_end io \<Rightarrow> bool" where
  "ends_in n k Q m \<longleftrightarrow> (\<forall>s cd s'. st_rounds s = n \<longrightarrow> m s = Some (Ok (Done (CompletedStep cd)), s') \<longrightarrow>
     Q cd \<and> st_rounds s' = k)"

named_theorems ends_rules

lemma ends_bind:
  assumes "keeps (\<lambda>s. st_rounds s = n) any m" "\<And>a. ends_in n k Q (f a)"
  shows "ends_in n k Q (bind_io m f)"
  unfolding ends_in_def
proof (intro allI impI)
  fix s cd s'
  assume s: "st_rounds s = n" "bind_io m f s = Some (Ok (Done (CompletedStep cd)), s')"
  then obtain a t where t: "m s = Some (Ok a, t)" "f a t = Some (Ok (Done (CompletedStep cd)), s')"
    by (auto elim!: bind_io_cases)
  then have "st_rounds t = n" using assms(1) s(1) unfolding keeps_def by blast
  then show "Q cd \<and> st_rounds s' = k" using assms(2) t(2) unfolding ends_in_def by blast
qed

lemma ends_seq:
  "keeps (\<lambda>s. st_rounds s = n) any m \<Longrightarrow> ends_in n k Q l \<Longrightarrow> ends_in n k Q (seq_io m l)"
  unfolding seq_io_def by (rule ends_bind)

lemma ends_get:
  assumes "ends_in n k Q (f n)"
  shows "ends_in n k Q (bind_io (get_io st_rounds) f)"
  unfolding ends_in_def
proof (intro allI impI)
  fix s cd s'
  assume s: "st_rounds s = n" "bind_io (get_io st_rounds) f s = Some (Ok (Done (CompletedStep cd)), s')"
  then have "f n s = Some (Ok (Done (CompletedStep cd)), s')" by (simp add: bind_io_def get_io_def)
  then show "Q cd \<and> st_rounds s' = k" using assms s(1) unfolding ends_in_def by blast
qed

lemma ends_lift:
  assumes "\<And>t. r = Ok t \<Longrightarrow> ends_in n k Q (f t)"
  shows "ends_in n k Q (bind_io (lift_result r) f)"
proof (cases r)
  case (Inl e)
  then show ?thesis by (simp add: ends_in_def bind_io_def lift_result_def)
next
  case (Inr t)
  then have "bind_io (lift_result r) f = f t" by (simp add: bind_io_def lift_result_def fun_eq_iff)
  then show ?thesis using assms Inr by simp
qed

lemma ends_invoke:
  assumes "\<And>response. answer_at rt cx n t request = Ok response \<Longrightarrow> ends_in (Suc n) k Q (f response)"
  shows "ends_in n k Q (bind_io (invoke_io rt cx t request) f)"
proof -
  have called: "st_rounds s' = Suc (st_rounds s) \<and> r = answer_at rt cx (st_rounds s) t request"
    if "invoke_io rt cx t request s = Some (r, s')" for r s s'
    using that by (auto simp: invoke_io_def answer_at_def split: prod.splits)
  show ?thesis
    unfolding ends_in_def
  proof (intro allI impI)
    fix s cd s'
    assume s: "st_rounds s = n"
      "bind_io (invoke_io rt cx t request) f s = Some (Ok (Done (CompletedStep cd)), s')"
    from s(2) obtain a u where u: "invoke_io rt cx t request s = Some (Ok a, u)"
      "f a u = Some (Ok (Done (CompletedStep cd)), s')" by (rule bind_io_cases) simp_all
    then have "st_rounds u = Suc n" "answer_at rt cx n t request = Ok a" using called s(1) by metis+
    then show "Q cd \<and> st_rounds s' = k" using assms u(2) unfolding ends_in_def by blast
  qed
qed

lemma ends_again: "ends_in n k Q (ret (Again d followups))"
  by (simp add: ends_in_def ret_def)

lemma ends_if: "ends_in n k Q m \<Longrightarrow> ends_in n k Q l \<Longrightarrow> ends_in n k Q (if b then m else l)"
  by simp

lemma ends_step:
  assumes "keeps (\<lambda>s. st_rounds s = n) (\<lambda>step. \<forall>cd. step = CompletedStep cd \<longrightarrow> Q cd) m"
  shows "ends_in n n Q (bind_io m (\<lambda>step. ret (Done step)))"
  unfolding ends_in_def
proof (intro allI impI)
  fix s cd s'
  assume s: "st_rounds s = n" "bind_io m (\<lambda>step. ret (Done step)) s = Some (Ok (Done (CompletedStep cd)), s')"
  then have "m s = Some (Ok (CompletedStep cd), s')"
    by (auto simp: ret_def elim!: bind_io_cases)
  then show "Q cd \<and> st_rounds s' = n" using assms s(1) unfolding keeps_def by blast
qed

lemma complete_ends:
  "(\<And>cd. cd_resolved cd = t \<Longrightarrow> cd_content cd = cr_content response \<Longrightarrow> Q cd) \<Longrightarrow>
   keeps (\<lambda>s. st_rounds s = n) (\<lambda>step. \<forall>cd. step = CompletedStep cd \<longrightarrow> Q cd) (complete_turn rt cx d t response)"
  unfolding complete_turn_def Let_def
  by (intro keeps_rules rounds.keeps_mint rounds.keeps_trace_events rounds.keeps_author_plan [OF refl] rounds_author)
    simp_all

lemma pause_ends:
  "keeps (\<lambda>s. st_rounds s = n) (\<lambda>step. \<forall>cd. step = CompletedStep cd \<longrightarrow> Q cd)
     (pause_turn rt cx d t response client)"
  unfolding pause_turn_def Let_def
  by (rule keeps_bind [OF rounds.keeps_author_tool_request [OF refl]], clarify)
    (intro keeps_rules rounds.keeps_trace_events, auto)

lemma round_ends:
  "ends_in n (Suc n) (answered rt cx b known n)
     (turn_round rt cx b known recorded d followups)"
proof -
  have user: "keeps (\<lambda>s. st_rounds s = n) any (if recorded then ret d
      else bind_io (author_message rt cx d User p model body) (\<lambda>d1.
        seq_io (record_message_event rt User p model) (ret d1)))" for p model body
    by (intro keeps_rules rounds_author rounds_events) simp_all
  show ?thesis
    unfolding turn_round_def Let_def
    by (rule ends_get, rule ends_lift, rule ends_seq [OF rounds.keeps_persist_decision],
        rule ends_seq [OF rounds.keeps_persist_references], rule ends_seq [OF rounds.keeps_trace_events(1)],
        rule ends_bind [OF user], rule ends_invoke, intro ends_if ends_again ends_step complete_ends pause_ends)
      (auto simp: result_simps answered_def)
qed

lemma turn_rounds_completed:
  assumes "turn_rounds rt cx fuel (Some b) sid recorded d followups s = Some (Ok (CompletedStep cd), s')"
  shows "st_rounds s < st_rounds s' \<and> (st_rounds s' = Suc (st_rounds s) \<longrightarrow>
    (\<exists>known u. recall (cx_decrypted cx) s = Some (Ok (Ready known), u) \<and>
       answered rt cx b known (st_rounds s) cd))"
  using assms
proof (induction fuel arbitrary: recorded d followups s)
  case (Suc fuel)
  from Suc.prems obtain known u where r: "recall (cx_decrypted cx) s = Some (Ok (Ready known), u)"
    "bind_io (turn_round rt cx b known recorded d followups) (\<lambda>ending. case ending of Done step \<Rightarrow> ret step
       | Again d1 followups1 \<Rightarrow> turn_rounds rt cx fuel (Some b) sid True d1 followups1) u =
     Some (Ok (CompletedStep cd), s')"
    unfolding turn_rounds.simps by (rule bind_io_cases) (auto simp: ret_def split: recalled.splits)
  have n: "st_rounds u = st_rounds s" using rounds.keeps_recall r(1) unfolding keeps_def by blast
  from r(2) obtain ending v where v: "turn_round rt cx b known recorded d followups u = Some (Ok ending, v)"
    "(case ending of Done step \<Rightarrow> ret step
      | Again d1 followups1 \<Rightarrow> turn_rounds rt cx fuel (Some b) sid True d1 followups1) v =
     Some (Ok (CompletedStep cd), s')"
    by (rule bind_io_cases) simp_all
  show ?case
  proof (cases ending)
    case (Done step)
    then have "step = CompletedStep cd" "s' = v" using v(2) by (auto simp: ret_def)
    then show ?thesis
      using round_ends [of "st_rounds u" rt cx b known recorded d followups] v(1) r(1) n
      unfolding ends_in_def Done by (metis (no_types, lifting) \<open>s' = v\<close> \<open>step = CompletedStep cd\<close> lessI)
  next
    case (Again d1 followups1)
    then have "st_rounds v = Suc (st_rounds u)"
      using turn_round_again [of rt cx "st_rounds u" b known recorded d followups] v(1)
      unfolding again_from_def by blast
    moreover have "st_rounds v < st_rounds s'"
      using Suc.IH [of True d1 followups1 v] v(2) Again by simp
    ultimately show ?thesis using n by simp
  qed
qed simp

lemma run_turn_completed:
  assumes "run_turn rt cx resume followups s = Some (Ok (CompletedStep cd), s')" "cx_bundle cx = Loaded b"
  shows "\<exists>sid recorded d. turn_rounds rt cx (en_fuel rt) (Some b) sid recorded d followups s =
    Some (Ok (CompletedStep cd), s')"
proof -
  have "run_turn_inner rt cx resume followups s = Some (Ok (CompletedStep cd), s')"
    using assms(1) by (auto simp: run_turn_def bind_io_def attempt_io_def ret_def split: option.splits sum.splits)
  then show ?thesis
    using assms(2) by (auto simp: run_turn_inner_def bind_io_def get_io_def lift_result_def Let_def)
qed

lemma rounds_finish: "keeps (\<lambda>s. st_rounds s = n) any (finish_step rt run_id step)"
  by (cases step)
    (auto simp: finish_completed_def pause_for_tools_def pause_for_approval_def pause_for_decrypt_def
      build_to_decrypt_def get_content_def clear_context_memory_def clear_traces_def Let_def release_def
      set_run_state_def intro!: keeps_rules rounds.keeps_db)

lemma finish_reports:
  assumes "finish_step rt run_id step s = Some (Ok response, s')" "tp_outcome response = CompletedOutcome c"
  shows "\<exists>cd. step = CompletedStep cd \<and> ct_classification c = rt_classification (cd_resolved cd) \<and>
    ct_routing c = routing_outcome_of (rt_routing (cd_resolved cd)) \<and>
    ct_provider c = rd_provider (rt_routing (cd_resolved cd)) \<and>
    ct_model c = rd_model (rt_routing (cd_resolved cd)) \<and> ct_context c = res_outcome (rt_context (cd_resolved cd)) \<and>
    ct_content c = cd_content cd"
proof -
  have reported: "keeps (\<lambda>_. True) (\<lambda>response. \<forall>c. tp_outcome response = CompletedOutcome c \<longrightarrow>
      (\<exists>cd. step = CompletedStep cd \<and> ct_classification c = rt_classification (cd_resolved cd) \<and>
        ct_routing c = routing_outcome_of (rt_routing (cd_resolved cd)) \<and>
        ct_provider c = rd_provider (rt_routing (cd_resolved cd)) \<and>
        ct_model c = rd_model (rt_routing (cd_resolved cd)) \<and>
        ct_context c = res_outcome (rt_context (cd_resolved cd)) \<and> ct_content c = cd_content cd)) (finish_step rt run_id step)"
  proof -
    have anything: "keeps (\<lambda>_. True) any m" for m :: "'x io" by (simp add: keeps_def)
    show ?thesis
      by (cases step)
        (auto simp: finish_completed_def pause_for_tools_def pause_for_approval_def pause_for_decrypt_def
          build_to_decrypt_def Let_def intro!: keeps_if keeps_bind_any keeps_seq anything keeps_ret keeps_throw)
  qed
  then show ?thesis using assms unfolding keeps_def by blast
qed

lemma past_refl: "same_past s s"
  by (simp add: same_past_def)

lemma pastD: "keeps (same_past c) any m \<Longrightarrow> m s = Some (r, s') \<Longrightarrow> same_past c s \<Longrightarrow> same_past c s'"
  unfolding keeps_def by blast

lemma past_open: "keeps (same_past c) any open_session"
  unfolding open_session_def by (intro keeps_rules past.keeps_read) simp_all

lemma past_encrypted: "keeps (same_past c) any is_encrypted"
  unfolding is_encrypted_def by (rule past.keeps_read)

lemma settle_answers:
  assumes "settle r run_id token restore s = Some (Ok response, s')"
  shows "r = Ok response \<and> st_rounds s' = st_rounds s"
  using assms
  by (cases r) (auto simp: settle_def seq_io_def finish_io_def bind_io_def ret_def throw_def
      split: option.splits sum.splits prod.splits bool.splits)

lemma execute_completes:
  assumes "execute rt request sink s = Some (Ok response, s')" "tp_outcome response = CompletedOutcome c"
    and "split_execute_request request = (meta, b)"
  shows "\<exists>encrypted u cd v. same_past s u \<and> st_rounds s' = st_rounds v \<and>
    run_turn rt \<lparr>cx_meta = meta, cx_bundle = Loaded b, cx_seal_run_input = True,
       cx_plan_active = (ti_command (rb_input b) = Some Plan), cx_encrypted = encrypted, cx_decrypted = [],
       cx_sink = sink\<rparr> BuildPrompt [] u = Some (Ok (CompletedStep cd), v) \<and>
    ct_classification c = rt_classification (cd_resolved cd) \<and>
    ct_routing c = routing_outcome_of (rt_routing (cd_resolved cd)) \<and>
    ct_provider c = rd_provider (rt_routing (cd_resolved cd)) \<and>
    ct_model c = rd_model (rt_routing (cd_resolved cd)) \<and> ct_context c = res_outcome (rt_context (cd_resolved cd)) \<and>
    ct_content c = cd_content cd"
proof -
  let ?cx = "\<lambda>encrypted. \<lparr>cx_meta = meta, cx_bundle = Loaded b, cx_seal_run_input = True,
       cx_plan_active = (ti_command (rb_input b) = Some Plan), cx_encrypted = encrypted, cx_decrypted = [],
       cx_sink = sink\<rparr>"
  from assms(1) obtain u1 where u1: "open_session s = Some (Ok (), u1)"
    "bind_io (acquire rt) (\<lambda>(run_id, token). execute_locked rt request sink run_id token) u1 = Some (Ok response, s')"
    unfolding execute_alt seq_io_def by (rule bind_io_cases) simp_all
  from u1(2) obtain run_id token u2 where u2: "acquire rt u1 = Some (Ok (run_id, token), u2)"
    "execute_locked rt request sink run_id token u2 = Some (Ok response, s')"
    by (rule bind_io_cases) (simp_all split: prod.splits)
  from u2(2) obtain encrypted u3 where u3: "is_encrypted u2 = Some (Ok encrypted, u3)"
    "bind_io (attempt_io (persist_run_input rt run_id meta b encrypted)) (\<lambda>stored. case stored of
       Inl e \<Rightarrow> seq_io (abort run_id token) (throw e)
     | Inr _ \<Rightarrow> bind_io (attempt_io (bind_io (run_turn rt (?cx encrypted) BuildPrompt []) (finish_step rt run_id)))
         (\<lambda>outcome. settle outcome run_id token None)) u3 = Some (Ok response, s')"
    unfolding execute_locked_def assms(3) prod.case Let_def by (rule bind_io_cases) simp_all
  from u3(2) obtain u4 where u4: "persist_run_input rt run_id meta b encrypted u3 = Some (Ok (), u4)"
    "bind_io (attempt_io (bind_io (run_turn rt (?cx encrypted) BuildPrompt []) (finish_step rt run_id)))
         (\<lambda>outcome. settle outcome run_id token None) u4 = Some (Ok response, s')"
    by (rule bind_io_cases)
      (auto simp: attempt_io_def seq_io_def throw_def bind_io_def split: option.splits sum.splits)
  from u4(2) obtain u5 where u5:
    "bind_io (run_turn rt (?cx encrypted) BuildPrompt []) (finish_step rt run_id) u4 = Some (Ok response, u5)"
    "st_rounds s' = st_rounds u5"
    by (rule bind_io_cases) (auto simp: attempt_io_def dest: settle_answers split: option.splits)
  from u5(1) obtain step v where v: "run_turn rt (?cx encrypted) BuildPrompt [] u4 = Some (Ok step, v)"
    "finish_step rt run_id step v = Some (Ok response, u5)"
    by (rule bind_io_cases) simp_all
  have "same_past s u4"
    by (rule pastD [OF past_stored u4(1) pastD [OF past_encrypted u3(1)
        pastD [OF past_acquire u2(1) pastD [OF past_open u1(1) past_refl]]]])
  moreover have "st_rounds s' = st_rounds v" using rounds_finish v(2) u5(2) unfolding keeps_def by metis
  ultimately show ?thesis using finish_reports [OF v(2) assms(2)] v(1) by blast
qed

lemma past_recall: "keeps (same_past c) any (recall d)"
  unfolding recall_def Let_def by (intro keeps_rules past.keeps_read) simp_all

lemma past_preview: "keeps (same_past c) any (preview rt request)"
  unfolding preview_def Let_def
  by (intro keeps_rules past_open past_recall) simp_all

text \<open>
  A request that completes in its first round is routed as it was previewed, and the previewed model
  has answered it unless its failure could be retried.
\<close>

lemma invoked_first:
  assumes "answer_at rt cx n t request = Ok response" "\<not> cx_sink cx"
  shows "attempt (en_providers rt n) (en_secrets rt) (pv_complete (en_providers rt n)) request 0
      \<lparr>mr_provider = rd_provider (rt_routing t), mr_model = rd_model (rt_routing t)\<rparr> = Ok response \<or>
    (\<exists>e. attempt (en_providers rt n) (en_secrets rt) (pv_complete (en_providers rt n)) request 0
      \<lparr>mr_provider = rd_provider (rt_routing t), mr_model = rd_model (rt_routing t)\<rparr> = Err e \<and>
      is_fallback_eligible (pe_category e))"
  using assms walk_chain_step [of "en_providers rt n" "en_secrets rt" "pv_complete (en_providers rt n)" request 0]
  by (fastforce simp: answer_at_def invoke_def invoke_complete_def candidate_chain_def)

lemma completed_as_previewed:
  assumes "preview rt request s = Some (Ok p, s0)" "execute rt request sink s0 = Some (Ok response, s')"
    and "tp_outcome response = CompletedOutcome c" "st_rounds s' = Suc (st_rounds s0)"
  shows "ct_classification c = pw_classification p \<and> ct_routing c = routing_outcome_of (pw_routing p) \<and>
    ct_provider c = rd_provider (pw_routing p) \<and> ct_model c = rd_model (pw_routing p) \<and>
    co_included (ct_context c) = pw_included_context p \<and> co_excluded (ct_context c) = pw_excluded_context p \<and>
    (\<not> sink \<longrightarrow> (\<exists>request.
      (\<exists>answer. attempt (en_providers rt (st_rounds s0)) (en_secrets rt) (pv_complete (en_providers rt (st_rounds s0)))
           request 0 \<lparr>mr_provider = rd_provider (pw_routing p), mr_model = rd_model (pw_routing p)\<rparr> = Ok answer \<and>
         ct_content c = cr_content answer) \<or>
      (\<exists>e. attempt (en_providers rt (st_rounds s0)) (en_secrets rt) (pv_complete (en_providers rt (st_rounds s0)))
           request 0 \<lparr>mr_provider = rd_provider (pw_routing p), mr_model = rd_model (pw_routing p)\<rparr> = Err e \<and>
         is_fallback_eligible (pe_category e))))"
proof -
  obtain meta b where mb: "split_execute_request request = (meta, b)" by fastforce
  obtain u r u' t where u: "open_session s = Some (Ok (), u)" "recall [] u = Some (Ok r, u')"
    and t: "resolve (en_externs rt) \<lparr>ra_input = rb_input b, ra_workspace = rebuild_workspace meta b,
        ra_attachments = rb_attachments b, ra_recalled = previewed_recall r,
        ra_classification = xp_classification (ri_policy meta), ra_routing = xp_routing (ri_policy meta),
        ra_privacy = xp_privacy (ri_policy meta), ra_requirements = no_requirements,
        ra_catalog = en_catalog rt (st_rounds u'), ra_credentialed = en_credentialed rt,
        ra_local_only = lp_local_only (ri_local_preferences meta)\<rparr> = Ok t"
    and p: "p = preview_response_of t (rb_input b) (xp_tools (ri_policy meta))"
    using preview_runs [OF assms(1) mb] by metis
  obtain encrypted w cd v where w: "same_past s0 w" "st_rounds s' = st_rounds v"
    "run_turn rt \<lparr>cx_meta = meta, cx_bundle = Loaded b, cx_seal_run_input = True,
       cx_plan_active = (ti_command (rb_input b) = Some Plan), cx_encrypted = encrypted, cx_decrypted = [],
       cx_sink = sink\<rparr> BuildPrompt [] w = Some (Ok (CompletedStep cd), v)"
    and c: "ct_classification c = rt_classification (cd_resolved cd)"
    "ct_routing c = routing_outcome_of (rt_routing (cd_resolved cd))"
    "ct_provider c = rd_provider (rt_routing (cd_resolved cd))"
    "ct_model c = rd_model (rt_routing (cd_resolved cd))" "ct_context c = res_outcome (rt_context (cd_resolved cd))"
    "ct_content c = cd_content cd"
    using execute_completes [OF assms(2,3) mb] by blast
  have past: "same_past s s0" "same_past s u" "same_past s u'"
    using pastD [OF past_preview assms(1) past_refl] pastD [OF past_open u(1) past_refl]
      pastD [OF past_recall u(2) pastD [OF past_open u(1) past_refl]] by blast+
  obtain known w' where known: "recall [] w = Some (Ok (Ready known), w')"
    "answered rt \<lparr>cx_meta = meta, cx_bundle = Loaded b, cx_seal_run_input = True,
       cx_plan_active = (ti_command (rb_input b) = Some Plan), cx_encrypted = encrypted, cx_decrypted = [],
       cx_sink = sink\<rparr> b known (st_rounds w) cd"
    using run_turn_completed [OF w(3)] turn_rounds_completed w(1,2) assms(4)
    by (fastforce simp: same_past_def)
  have "same_past u w" using past(1,2) w(1) by (simp add: same_past_def)
  then have "r = Ready known" using recalled_past [OF u(2) known(1)] by simp
  moreover have "st_rounds w = st_rounds u'" using past w(1) by (simp add: same_past_def)
  ultimately have served: "cd_resolved cd = t"
    using t known(2) by (simp add: answered_def resolve_args_of_def previewed_recall_def Let_def)
  obtain request response where answer: "answer_at rt \<lparr>cx_meta = meta, cx_bundle = Loaded b, cx_seal_run_input = True,
       cx_plan_active = (ti_command (rb_input b) = Some Plan), cx_encrypted = encrypted, cx_decrypted = [],
       cx_sink = sink\<rparr> (st_rounds s0) t request = Ok response" "ct_content c = cr_content response"
    using known(2) w(1) c(6) unfolding answered_def served by (auto simp: same_past_def)
  show ?thesis
    using c(1-5) p served invoked_first [OF answer(1)] answer(2) by (auto simp: preview_response_of_def)
qed

end
