(* ===== verification/Run_Liveness.thy ===== *)
theory Run_Liveness
  imports Preview
begin

text \<open>
  When a superseding continuation returns: all that may not end is the loop of rounds of the turn
  that an injection starts, and it ends when some answer of the models asks for no call.
\<close>

lemma bind_io_None:
  "bind_io m f s = None \<Longrightarrow> m s = None \<or> (\<exists>a t. m s = Some (Ok a, t) \<and> f a t = None)"
  by (auto simp: bind_io_def split: option.splits sum.splits)

lemma returns_finish_step: "returns (finish_step rt run_id step)"
  by (cases step)
    (auto simp: finish_completed_def pause_for_tools_def pause_for_approval_def pause_for_decrypt_def
      build_to_decrypt_def get_content_def clear_context_memory_def clear_traces_def Let_def release_def
      set_run_state_def intro!: returns_rules)

lemma returns_finish_io: "returns (finish_io token)"
  by (simp add: returns_def finish_io_def)

lemma returns_release: "returns (release run_id turn phase)" "returns (abort run_id token)"
  unfolding abort_def release_def set_run_state_def by (intro returns_rules returns_finish_io)+

lemma returns_settle: "returns (settle outcome run_id token restore)"
proof (cases outcome)
  case (Inl e)
  then show ?thesis
    by (cases "preserves_checkpoint e"; cases restore) (auto simp: settle_def intro!: returns_rules returns_release returns_finish_io)
next
  case (Inr response)
  then show ?thesis by (simp add: settle_def returns_rules returns_finish_io)
qed

lemma rounds_set_outcome: "keeps (\<lambda>s. st_rounds s = n) any (set_tool_call_outcome i status x y)"
  unfolding set_tool_call_outcome_def by (rule rounds.keeps_db) (auto split: if_splits)

lemma supersede_keeps_rounds:
  "returns (cancel_outstanding_tools rt phase)" "keeps (\<lambda>s. st_rounds s = n) any (cancel_outstanding_tools rt phase)"
proof -
  show "returns (cancel_outstanding_tools rt phase)"
    unfolding cancel_outstanding_tools_def set_tool_call_outcome_def
    by (cases phase) (simp_all, (intro returns_rules)+)
  show "keeps (\<lambda>s. st_rounds s = n) any (cancel_outstanding_tools rt phase)"
    unfolding cancel_outstanding_tools_def
    by (cases phase) (auto intro!: keeps_rules rounds_set_outcome)
qed

text \<open>No answer that a turn of this sink gets at its round \<open>k\<close> asks for calls.\<close>

definition settles_at :: "runtime \<Rightarrow> bool \<Rightarrow> nat \<Rightarrow> bool" where
  "settles_at rt sink n \<longleftrightarrow>
     (\<forall>cx t request. cx_sink cx = sink \<longrightarrow> \<not> asks_for_calls (answer_at rt cx n t request))"

lemma run_and_finish_returns:
  assumes "k < en_fuel rt" "settles_at rt (cc_sink cx) (st_rounds s + k)"
  shows "run_and_finish rt cx resume followups decrypted s \<noteq> None"
proof
  assume none: "run_and_finish rt cx resume followups decrypted s = None"
  have "run_continuation_turn rt cx resume followups decrypted s = None"
    using bind_io_None [OF none [unfolded run_and_finish_def]] returns_finish_step unfolding returns_def by blast
  then obtain b u where b: "(case cc_bundle cx of Loaded b \<Rightarrow> ret (Loaded b)
        | Stored _ \<Rightarrow> bind_io get_run_input (\<lambda>row. case row of
              None \<Rightarrow> throw (InternalFailure ''run input is missing'')
            | Some r \<Rightarrow> ret (Stored (iw_content r)))) s = Some (Ok b, u)"
      "bind_io is_encrypted (\<lambda>encrypted. run_turn rt \<lparr>cx_meta = cc_meta cx, cx_bundle = b, cx_seal_run_input = False,
         cx_plan_active = cc_plan_active cx, cx_encrypted = encrypted, cx_decrypted = decrypted,
         cx_sink = cc_sink cx\<rparr> resume followups) u = None"
    unfolding run_continuation_turn_def
    by (elim bind_io_None [THEN disjE])
      (auto simp: get_run_input_def bind_io_def ret_def throw_def db_def Let_def split: bundle_source.splits option.splits)
  have "keeps (\<lambda>s. st_rounds s = n) any (case cc_bundle cx of Loaded b \<Rightarrow> ret (Loaded b)
        | Stored _ \<Rightarrow> bind_io get_run_input (\<lambda>row. case row of
              None \<Rightarrow> throw (InternalFailure ''run input is missing'')
            | Some r \<Rightarrow> ret (Stored (iw_content r))))" for n
    by (cases "cc_bundle cx") (auto simp: get_run_input_def intro!: keeps_rules rounds.keeps_db)
  then have u: "st_rounds u = st_rounds s" using b(1) unfolding keeps_def by blast
  have "is_encrypted u \<noteq> None" using returns_basic(6) unfolding is_encrypted_def returns_def by blast
  then obtain encrypted v where v: "is_encrypted u = Some (Ok encrypted, v)"
      "run_turn rt \<lparr>cx_meta = cc_meta cx, cx_bundle = b, cx_seal_run_input = False,
         cx_plan_active = cc_plan_active cx, cx_encrypted = encrypted, cx_decrypted = decrypted,
         cx_sink = cc_sink cx\<rparr> resume followups v = None"
    using bind_io_None [OF b(2)] by (elim disjE exE conjE) (simp, rule that)
  have "keeps (\<lambda>s. st_rounds s = n) any is_encrypted" for n
    unfolding is_encrypted_def by (auto intro!: keeps_rules rounds.keeps_db)
  then have "st_rounds v = st_rounds s" using v(1) u unfolding keeps_def by metis
  with run_turn_none [OF v(2) assms(1)] assms(2) show False unfolding settles_at_def by fastforce
qed

lemma superseding_returns:
  assumes "faultless s" "st_open s" "st_run_state s = Some state"
    "en_parse_uuid rt (rs_run_id state) = Some run_id" "st_run_input s = Some row"
    "supersedes_turn (continue_kind_of continuation)"
    "continuation = Break \<or> (k < en_fuel rt \<and> settles_at rt sink (st_rounds s + k))"
  shows "\<exists>r s'. advance rt continuation sink s = Some (r, s')"
proof -
  obtain token g where g: "begin_turn (st_session_id s) (st_registry s) = (token, g)" by fastforce
  let ?cx = "\<lparr>cc_state = state, cc_run_id = run_id, cc_meta = iw_meta row, cc_bundle = Stored (iw_content row),
         cc_plan_active = iw_plan_active row, cc_sink = sink\<rparr>" and ?s = "admitted s state g"
  have "dispatch_continuation rt ?cx continuation ?s \<noteq> None"
  proof (cases continuation)
    case Break
    have "returns (resume_break rt ?cx)"
      unfolding resume_break_def release_def set_run_state_def by (intro returns_rules supersede_keeps_rounds)
    with Break show ?thesis by (simp add: returns_def)
  next
    case (Inject messages)
    let ?cx' = "?cx\<lparr>cc_bundle := Loaded (for_injection (join [newline] (map um_text messages)))\<rparr>"
    obtain r u where u: "cancel_outstanding_tools rt (rs_phase state) ?s = Some (r, u)"
      using supersede_keeps_rounds(1) unfolding returns_def by (metis not_None_eq surj_pair)
    have "st_rounds ?s = st_rounds s" by (simp add: admitted_def)
    then have "st_rounds u = st_rounds s"
      using supersede_keeps_rounds(2) u unfolding keeps_def by blast
    then have "run_and_finish rt ?cx' BuildPrompt [] [] u \<noteq> None"
      using run_and_finish_returns [of k rt ?cx' u] assms(7) Inject by simp
    with Inject u show ?thesis
      by (auto simp: resume_inject_def seq_io_def bind_io_def split: sum.split)
  qed (use assms(6) in \<open>simp_all add: supersedes_turn_def\<close>)
  then have "advance_locked rt continuation sink state run_id row token ?s \<noteq> None"
    using returns_settle unfolding advance_locked_def bind_io_def attempt_io_def returns_def
    by (auto split: option.splits sum.splits)
  then show ?thesis
    using advance_run [OF assms(1-5) _ g] assms(6) by auto
qed

end
