(* ===== verification/Preview_Guarantees.thy ===== *)
theory Preview_Guarantees
  imports Preview Samples
begin

text \<open>
  What a preview promises: it tells what the execution that follows it does, and it changes nothing.
\<close>

text \<open>
  C30. A preview tells how an execution goes: the request that is executed after its preview, and
  completes in its first round, is classified and routed as previewed, with the context previewed as
  included and as excluded. Unless the previewed model fails in a way that may be retried on a
  fallback, the content of an execution that is not streamed is that model's answer; when a fallback
  has answered instead, the reply still names the previewed model and the fallback flag of the preview.
\<close>

theorem executed_as_previewed:
  assumes "preview rt request s = Some (Ok p, s0)" "execute rt request sink s0 = Some (Ok response, s')"
    and "tp_outcome response = CompletedOutcome c" "st_rounds s' = Suc (st_rounds s0)"
  shows "ct_classification c = pw_classification p \<and> ct_routing c = routing_outcome_of (pw_routing p) \<and>
    ct_provider c = rd_provider (pw_routing p) \<and> ct_model c = rd_model (pw_routing p) \<and>
    co_included (ct_context c) = pw_included_context p \<and> co_excluded (ct_context c) = pw_excluded_context p \<and>
    (\<not> sink \<longrightarrow> (\<exists>request.
      (\<exists>answer. attempt (en_providers rt (st_rounds s0)) (en_secrets rt) (pv_complete (en_providers rt (st_rounds s0)))
           request 0 \<lparr>mr_provider = rd_provider (pw_routing p), mr_model = rd_model (pw_routing p)\<rparr> = Ok answer \<and>
         ct_content c = cr_content answer) \<or>
      (\<exists>e. attempt (en_providers rt (st_rounds s0)) (en_secrets rt) (pv_complete (en_providers rt (st_rounds s0)))
           request 0 \<lparr>mr_provider = rd_provider (pw_routing p), mr_model = rd_model (pw_routing p)\<rparr> = Err e \<and>
         is_fallback_eligible (pe_category e))))"
  by (rule completed_as_previewed [OF assms])

definition after_preview :: store where
  "after_preview = (fresh_store False)\<lparr>st_clock := 4\<rparr>"

fun previewed_in_four :: "((orchestrator_error, preview_response) result \<times> store) option \<Rightarrow> bool" where
  "previewed_in_four (Some (Inr p, s)) = (st_clock s = 4)"
| "previewed_in_four _ = False"

fun completed_once :: "((orchestrator_error, turn_response) result \<times> store) option \<Rightarrow> bool" where
  "completed_once (Some (Inr response, s)) =
     ((case tp_outcome response of CompletedOutcome c \<Rightarrow> True | _ \<Rightarrow> False) \<and> st_rounds s = 1)"
| "completed_once _ = False"

lemma sample_previews: "previewed_in_four (preview (sample_runtime hello) sample_request (fresh_store False))"
  by code_simp

lemma sample_completes: "completed_once (execute (sample_runtime hello) sample_request False after_preview)"
  by code_simp

lemma sample_previewed:
  "\<exists>p. preview (sample_runtime hello) sample_request (fresh_store False) = Some (Ok p, after_preview)"
proof -
  obtain p s0 where p: "preview (sample_runtime hello) sample_request (fresh_store False) = Some (Ok p, s0)"
    "st_clock s0 = 4"
    using sample_previews by (auto elim: previewed_in_four.elims)
  moreover have "only_read (fresh_store False) s0"
    using preview_reads p(1) only_read_refl unfolding keeps_def by blast
  ultimately show ?thesis by (auto simp: only_read_def after_preview_def)
qed

lemma sample_completed:
  "\<exists>response s' c. execute (sample_runtime hello) sample_request False after_preview = Some (Ok response, s') \<and>
     tp_outcome response = CompletedOutcome c \<and> st_rounds s' = 1"
  using sample_completes by (auto elim!: completed_once.elims split: turn_outcome.splits)

lemma executed_as_previewed_witness:
  "\<exists>p response s' c. preview (sample_runtime hello) sample_request (fresh_store False) = Some (Ok p, after_preview) \<and>
     execute (sample_runtime hello) sample_request False after_preview = Some (Ok response, s') \<and>
     tp_outcome response = CompletedOutcome c \<and> ct_model c = rd_model (pw_routing p) \<and>
     ct_content c = ''hello''"
proof -
  obtain p where p: "preview (sample_runtime hello) sample_request (fresh_store False) = Some (Ok p, after_preview)"
    using sample_previewed by blast
  obtain response s' c where run: "execute (sample_runtime hello) sample_request False after_preview = Some (Ok response, s')"
    "tp_outcome response = CompletedOutcome c" "st_rounds s' = 1"
    using sample_completed by blast
  have "st_rounds s' = Suc (st_rounds after_preview)" using run(3) by (simp add: after_preview_def fresh_store_def)
  note seen = executed_as_previewed [OF p run(1,2) this]
  have "ct_content c = ''hello''"
    using seen by (auto simp: sample_runtime_def sample_providers_def attempt_def resolve_model_def hello_def answer_def result_simps)
  with seen show ?thesis using p run(1,2) by blast
qed

end
