(* ===== verification/Storage_Db.thy ===== *)
theory Storage_Db
  imports Content_Store
begin

text \<open>
  The database of many users (\<^verbatim>\<open>smista-storage/src/database/surreal.rs\<close> and its entities):
  users, tokens, sessions, the rows that belong to a session, their paired contents and the
  memories of users. \<open>Run_Store\<close> is the view one run has of one of its sessions.

  Rows carry the columns a query reads: identity, owner, timestamps, key and event type.
  Identities are uuids as text. Two rows of one table share no identity. Transactions are
  atomic, so an operation either happens or leaves the database as it was; faults of the
  backend itself are not repeated here.
\<close>

section \<open>Tables\<close>

record user_entity =
  us_id :: string
  us_api_key_hash :: string
  us_disabled_at :: "nat option"

record auth_token =
  ak_id :: string
  ak_user :: string
  ak_hash :: string
  ak_created :: nat
  ak_expires :: nat
  ak_revoked :: "nat option"

record session_entity =
  se_id :: string
  se_user :: string
  se_title :: "string option"
  se_scope :: "string option"
  se_encrypted :: bool
  se_key_id :: "string option"
  se_created :: nat
  se_updated :: nat
  se_archived :: "nat option"

datatype child_table = MessageTable | ToolCallTable | PlanTable | DiffTable | TraceTable
  | ContextMemoryTable | RoutingTable | ReferenceTable | ApprovalTable | RunStateTable | RunInputTable

datatype trace_event_type = MessageEvent | ClassificationEvent | RoutingDecisionEvent
  | ContextSelectionEvent | ToolCallEvent | ApprovalEvent | CostEvent

datatype row_status = PlanState plan_status | DiffState diff_status | CallState tool_call_status

text \<open>A row that belongs to a session, of any of its tables.\<close>

record child_row =
  ch_table :: child_table
  ch_id :: string
  ch_session :: string
  ch_user :: string
  ch_created :: nat
  ch_updated :: nat
  ch_key :: "string option"
  ch_event :: "trace_event_type option"
  ch_status :: "row_status option"  \<comment> \<open>of a plan, diff or tool call\<close>
  ch_settled :: "nat option"  \<comment> \<open>approved, applied or completed at\<close>
  ch_active :: "string option"  \<comment> \<open>the lease of a run state\<close>

type_synonym content_row = "string \<rightharpoonup> secret_content"

record user_memory =
  um_id :: string
  um_user :: string
  um_key :: "string option"
  um_created :: nat
  um_updated :: nat

record database =
  db_users :: "user_entity list"
  db_tokens :: "auth_token list"
  db_sessions :: "session_entity list"
  db_children :: "child_row list"
  db_contents :: "child_table \<times> string \<rightharpoonup> content_row"
  db_user_memory :: "user_memory list"
  db_user_memory_content :: "string \<rightharpoonup> string"

type_synonym 'a dbop = "database \<Rightarrow> (storage_error, 'a) result \<times> database"

definition new_session ::
  "nat \<Rightarrow> string \<Rightarrow> string \<Rightarrow> string option \<Rightarrow> string option \<Rightarrow> string option \<Rightarrow> session_entity" where
  "new_session now i user title scope key_id =
     \<lparr>se_id = i, se_user = user, se_title = title, se_scope = scope, se_encrypted = (key_id \<noteq> None),
      se_key_id = key_id, se_created = now, se_updated = now, se_archived = None\<rparr>"

definition new_auth_token :: "nat \<Rightarrow> string \<Rightarrow> string \<Rightarrow> user_entity \<Rightarrow> nat \<Rightarrow> auth_token" where
  "new_auth_token now i hash user duration =
     \<lparr>ak_id = i, ak_user = us_id user, ak_hash = hash, ak_created = now, ak_expires = now + duration,
      ak_revoked = None\<rparr>"

definition new_user_memory :: "nat \<Rightarrow> string \<Rightarrow> string \<Rightarrow> string option \<Rightarrow> user_memory" where
  "new_user_memory now i user key =
     \<lparr>um_id = i, um_user = user, um_key = key, um_created = now, um_updated = now\<rparr>"

definition new_context_memory :: "nat \<Rightarrow> string \<Rightarrow> string \<Rightarrow> string \<Rightarrow> string option \<Rightarrow> child_row" where
  "new_context_memory now i session user key =
     \<lparr>ch_table = ContextMemoryTable, ch_id = i, ch_session = session, ch_user = user,
      ch_created = now, ch_updated = now, ch_key = key, ch_event = None, ch_status = None,
      ch_settled = None, ch_active = None\<rparr>"

section \<open>Rows\<close>

definition key_of :: "child_row \<Rightarrow> child_table \<times> string" where
  "key_of r = (ch_table r, ch_id r)"

text \<open>The tables that pair each row with a content row.\<close>

fun has_content :: "child_table \<Rightarrow> bool" where
  "has_content RoutingTable = False"
| "has_content ReferenceTable = False"
| "has_content ApprovalTable = False"
| "has_content RunStateTable = False"
| "has_content _ = True"

text \<open>The field of a content row that can be sealed.\<close>

fun sealable_content_field :: "child_table \<Rightarrow> string option" where
  "sealable_content_field ToolCallTable = Some ''result''"
| "sealable_content_field RoutingTable = None"
| "sealable_content_field ReferenceTable = None"
| "sealable_content_field ApprovalTable = None"
| "sealable_content_field RunStateTable = None"
| "sealable_content_field _ = Some ''content''"

definition find_row :: "child_table \<Rightarrow> string \<Rightarrow> database \<Rightarrow> child_row option" where
  "find_row t i db = List.find (\<lambda>r. key_of r = (t, i)) (db_children db)"

text \<open>A response of several rows cannot be taken as an optional row: the driver reports it.\<close>

definition take_option :: "'r list \<Rightarrow> (storage_error, 'r option) result" where
  "take_option rows = (case rows of [] \<Rightarrow> Ok None | [r] \<Rightarrow> Ok (Some r) | _ \<Rightarrow> Err (Backend ''not a single row''))"

definition pair_by_key :: "('m \<Rightarrow> 'k) \<Rightarrow> ('k \<rightharpoonup> 'c) \<Rightarrow> 'm list \<Rightarrow> ('m \<times> 'c) list" where
  "pair_by_key key contents bases =
     List.map_filter (\<lambda>base. map_option (Pair base) (contents (key base))) bases"

definition oldest_first :: "('r \<Rightarrow> nat) \<Rightarrow> 'r list \<Rightarrow> 'r list" where
  "oldest_first time rows = sort_by (\<lambda>a b. cmp (time a) (time b)) rows"

definition newest_first :: "('r \<Rightarrow> nat) \<Rightarrow> 'r list \<Rightarrow> 'r list" where
  "newest_first time rows = sort_by (\<lambda>a b. cmp (time b) (time a)) rows"

section \<open>Users and tokens\<close>

definition create_user :: "user_entity \<Rightarrow> user_entity dbop" where
  "create_user user db =
     (if us_id user \<in> us_id ` set (db_users db) \<or>
         us_api_key_hash user \<in> us_api_key_hash ` set (db_users db) then (Err (Backend ''record exists''), db)
      else (Ok user, db\<lparr>db_users := db_users db @ [user]\<rparr>))"

definition get_user :: "string \<Rightarrow> database \<Rightarrow> user_entity option" where
  "get_user i db = List.find (\<lambda>u. us_id u = i) (db_users db)"

definition create_token :: "auth_token \<Rightarrow> auth_token dbop" where
  "create_token token db =
     (if ak_id token \<in> ak_id ` set (db_tokens db) \<or> ak_hash token \<in> ak_hash ` set (db_tokens db) \<or>
         ak_user token \<notin> us_id ` set (db_users db)
      then (Err (Backend ''record exists''), db)
      else (Ok token, db\<lparr>db_tokens := db_tokens db @ [token]\<rparr>))"

definition get_token :: "string \<Rightarrow> database \<Rightarrow> auth_token option" where
  "get_token i db = List.find (\<lambda>t. ak_id t = i) (db_tokens db)"

definition token_active :: "nat \<Rightarrow> auth_token \<Rightarrow> bool" where
  "token_active now t \<longleftrightarrow> now < ak_expires t \<and> ak_revoked t = None"

definition get_active_token :: "nat \<Rightarrow> string \<Rightarrow> database \<Rightarrow> auth_token option" where
  "get_active_token now i db = List.find (\<lambda>t. ak_id t = i \<and> token_active now t) (db_tokens db)"

definition revoke_token :: "nat \<Rightarrow> string \<Rightarrow> unit dbop" where
  "revoke_token now i db =
     (if i \<notin> ak_id ` set (db_tokens db) then (Err RecordNotFound, db)
      else (Ok (), db\<lparr>db_tokens :=
        map (\<lambda>t. if ak_id t = i then t\<lparr>ak_revoked := Some now\<rparr> else t) (db_tokens db)\<rparr>))"

section \<open>Sessions\<close>

definition create_session :: "session_entity \<Rightarrow> session_entity dbop" where
  "create_session session db =
     (if se_id session \<in> se_id ` set (db_sessions db) \<or> se_user session \<notin> us_id ` set (db_users db)
      then (Err (Backend ''record exists''), db)
      else (Ok session, db\<lparr>db_sessions := db_sessions db @ [session]\<rparr>))"

definition get_session :: "string \<Rightarrow> string \<Rightarrow> database \<Rightarrow> session_entity option" where
  "get_session user i db =
     (case List.find (\<lambda>s. se_id s = i) (db_sessions db) of
        Some s \<Rightarrow> if se_user s = user then Some s else None
      | None \<Rightarrow> None)"

definition list_sessions :: "string \<Rightarrow> database \<Rightarrow> session_entity list" where
  "list_sessions user db = newest_first se_updated (filter (\<lambda>s. se_user s = user) (db_sessions db))"

definition search_sessions ::
  "string \<Rightarrow> string option \<Rightarrow> string option \<Rightarrow> database \<Rightarrow> session_entity list" where
  "search_sessions user scope title db =
     newest_first se_updated (filter (\<lambda>s. se_user s = user \<and>
       (case scope of None \<Rightarrow> True | Some x \<Rightarrow> se_scope s = Some x) \<and>
       (case title of None \<Rightarrow> True
        | Some x \<Rightarrow> (case se_title s of Some t \<Rightarrow> str_contains (to_lowercase t) (to_lowercase x)
                   | None \<Rightarrow> False))) (db_sessions db))"

definition update_session :: "string \<Rightarrow> session_entity \<Rightarrow> session_entity dbop" where
  "update_session user session db =
     (case List.find (\<lambda>s. se_id s = se_id session) (db_sessions db) of
        Some stored \<Rightarrow>
          if se_user stored = user \<and> se_user session = user
          then (Ok session, db\<lparr>db_sessions :=
            map (\<lambda>s. if se_id s = se_id session then session else s) (db_sessions db)\<rparr>)
          else (Err RecordNotFound, db)
      | None \<Rightarrow> (Err RecordNotFound, db))"

definition archive_session :: "nat \<Rightarrow> string \<Rightarrow> string \<Rightarrow> unit dbop" where
  "archive_session now user i db =
     (if get_session user i db = None then (Err RecordNotFound, db)
      else (Ok (), db\<lparr>db_sessions :=
        map (\<lambda>s. if se_id s = i then s\<lparr>se_archived := Some now\<rparr> else s) (db_sessions db)\<rparr>))"

text \<open>
  The cascades are scripts of deletions, one per table; the order is theirs. A content row
  is found through its base row, so it is deleted first.
\<close>

definition cascade_tables :: "child_table list" where
  "cascade_tables = [MessageTable, ToolCallTable, PlanTable, DiffTable, TraceTable, ContextMemoryTable,
     RoutingTable, ReferenceTable, ApprovalTable, RunStateTable, RunInputTable]"

definition delete_rows :: "child_table \<Rightarrow> (child_row \<Rightarrow> bool) \<Rightarrow> database \<Rightarrow> database" where
  "delete_rows t p db =
     (let doomed = key_of ` set (filter (\<lambda>r. ch_table r = t \<and> p r) (db_children db))
      in db\<lparr>db_contents := (\<lambda>k. if has_content t \<and> k \<in> doomed then None else db_contents db k),
            db_children := filter (\<lambda>r. \<not> (ch_table r = t \<and> p r)) (db_children db)\<rparr>)"

definition delete_session_cascade :: "string list \<Rightarrow> database \<Rightarrow> database" where
  "delete_session_cascade targets db =
     (let cleared = fold (\<lambda>t. delete_rows t (\<lambda>r. ch_session r \<in> set targets)) cascade_tables db
      in cleared\<lparr>db_sessions := filter (\<lambda>s. se_id s \<notin> set targets) (db_sessions cleared)\<rparr>)"

definition delete_session :: "string \<Rightarrow> string \<Rightarrow> unit dbop" where
  "delete_session user i db =
     (if get_session user i db = None then (Err RecordNotFound, db)
      else (Ok (), delete_session_cascade [i] db))"

section \<open>Rows of a session\<close>

definition session_owned :: "string \<Rightarrow> string \<Rightarrow> database \<Rightarrow> bool" where
  "session_owned user session db \<longleftrightarrow>
     (\<exists>s\<in>set (db_sessions db). se_id s = session \<and> se_user s = user)"

definition write_owned :: "string \<Rightarrow> child_row \<Rightarrow> database \<Rightarrow> bool" where
  "write_owned user row db \<longleftrightarrow> ch_user row = user \<and> session_owned user (ch_session row) db"

definition create_row :: "child_row \<Rightarrow> content_row option \<Rightarrow> child_row dbop" where
  "create_row row content db =
     (if key_of row \<in> key_of ` set (db_children db) then (Err (Backend ''record exists''), db)
      else (Ok row, db\<lparr>db_children := db_children db @ [row],
        db_contents := (case content of
           Some c \<Rightarrow> (db_contents db)(key_of row \<mapsto> c) | None \<Rightarrow> db_contents db)\<rparr>))"

definition append_row :: "string \<Rightarrow> child_row \<Rightarrow> content_row option \<Rightarrow> child_row dbop" where
  "append_row user row content db =
     (if \<not> write_owned user row db then (Err RecordNotFound, db) else create_row row content db)"

definition upsert_row :: "child_row \<Rightarrow> content_row option \<Rightarrow> child_row dbop" where
  "upsert_row row content db =
     (Ok row, db\<lparr>db_children :=
        (if key_of row \<in> key_of ` set (db_children db)
         then map (\<lambda>r. if key_of r = key_of row then row else r) (db_children db)
         else db_children db @ [row]),
        db_contents := (case content of
           Some c \<Rightarrow> (db_contents db)(key_of row \<mapsto> c) | None \<Rightarrow> db_contents db)\<rparr>)"

definition put_run_state :: "string \<Rightarrow> child_row \<Rightarrow> child_row dbop" where
  "put_run_state user row db =
     (if \<not> write_owned user row db then (Err RecordNotFound, db) else upsert_row row None db)"

definition put_run_input :: "string \<Rightarrow> child_row \<Rightarrow> content_row \<Rightarrow> child_row dbop" where
  "put_run_input user row content db =
     (if \<not> write_owned user row db then (Err RecordNotFound, db) else upsert_row row (Some content) db)"

definition take_run_lock :: "string \<Rightarrow> child_row \<Rightarrow> child_row option dbop" where
  "take_run_lock user row db =
     (if \<not> write_owned user row db then (Err RecordNotFound, db)
      else if (\<exists>r\<in>set_option (find_row (ch_table row) (ch_id row) db). ch_active r \<noteq> None)
           then (Ok None, db)
      else (Ok (Some row), snd (upsert_row row None db)))"

definition read_row :: "child_table \<Rightarrow> string \<Rightarrow> string \<Rightarrow> database \<Rightarrow> child_row option" where
  "read_row t user i db =
     (case find_row t i db of
        Some r \<Rightarrow> if ch_user r = user then Some r else None | None \<Rightarrow> None)"

definition change_row :: "child_table \<Rightarrow> string \<Rightarrow> (child_row \<Rightarrow> child_row) \<Rightarrow> database \<Rightarrow> database" where
  "change_row t i f db =
     db\<lparr>db_children := map (\<lambda>r. if key_of r = (t, i) then f r else r) (db_children db)\<rparr>"

definition change_plan_status :: "nat \<Rightarrow> string \<Rightarrow> string \<Rightarrow> plan_status \<Rightarrow> child_row dbop" where
  "change_plan_status now user i status db =
     (let f = (\<lambda>r. r\<lparr>ch_status := Some (PlanState status), ch_updated := now,
                      ch_settled := (if status = ApprovedPlan then Some now else None)\<rparr>)
      in case read_row PlanTable user i db of
           None \<Rightarrow> (Err RecordNotFound, db)
         | Some r \<Rightarrow> (Ok (f r), change_row PlanTable i f db))"

definition change_diff_status :: "nat \<Rightarrow> string \<Rightarrow> string \<Rightarrow> diff_status \<Rightarrow> child_row dbop" where
  "change_diff_status now user i status db =
     (let f = (\<lambda>r. r\<lparr>ch_status := Some (DiffState status),
                      ch_settled := (if status = AppliedDiff then Some now else None)\<rparr>)
      in case read_row DiffTable user i db of
           None \<Rightarrow> (Err RecordNotFound, db)
         | Some r \<Rightarrow> (Ok (f r), change_row DiffTable i f db))"

text \<open>The arguments a tool call was stored with stay; its result and error are replaced.\<close>

definition change_tool_call_outcome ::
  "nat \<Rightarrow> string \<Rightarrow> string \<Rightarrow> tool_call_status \<Rightarrow> secret_content option \<Rightarrow> secret_content option \<Rightarrow>
   child_row dbop" where
  "change_tool_call_outcome now user i status outcome failure db =
     (let f = (\<lambda>r. r\<lparr>ch_status := Some (CallState status),
                      ch_settled := (if status = CompletedCall \<or> status = FailedCall then Some now else None)\<rparr>)
      in case read_row ToolCallTable user i db of
           None \<Rightarrow> (Err RecordNotFound, db)
         | Some r \<Rightarrow>
             (case db_contents db (ToolCallTable, i) of
                None \<Rightarrow> (Err RecordNotFound, db)
              | Some c \<Rightarrow>
                  (Ok (f r), (change_row ToolCallTable i f db)\<lparr>db_contents := (db_contents db)
                     ((ToolCallTable, i) \<mapsto> c(''result'' := outcome, ''error'' := failure))\<rparr>)))"

definition put_content :: "string \<Rightarrow> child_table \<Rightarrow> string \<Rightarrow> secret_content \<Rightarrow> unit dbop" where
  "put_content user t i content db =
     (case sealable_content_field t of
        None \<Rightarrow> (Err RecordNotFound, db)
      | Some field \<Rightarrow>
          if read_row t user i db = None then (Err RecordNotFound, db)
          else (Ok (), db\<lparr>db_contents := (db_contents db)((t, i) :=
            map_option (\<lambda>c. c(field \<mapsto> content)) (db_contents db (t, i)))\<rparr>))"

definition read_content ::
  "string \<Rightarrow> child_table \<Rightarrow> string \<Rightarrow> database \<Rightarrow> (storage_error, secret_content option) result" where
  "read_content user t i db =
     (case sealable_content_field t of
        None \<Rightarrow> Err RecordNotFound
      | Some field \<Rightarrow>
          if read_row t user i db = None then Ok None
          else Ok (Option.bind (db_contents db (t, i)) (\<lambda>c. c field)))"

definition list_session_rows :: "child_table \<Rightarrow> string \<Rightarrow> database \<Rightarrow> child_row list" where
  "list_session_rows t session db =
     oldest_first ch_created (filter (\<lambda>r. ch_table r = t \<and> ch_session r = session) (db_children db))"

definition owned_rows :: "child_table \<Rightarrow> string \<Rightarrow> string \<Rightarrow> database \<Rightarrow> child_row list" where
  "owned_rows t user session db =
     filter (\<lambda>r. ch_table r = t \<and> ch_session r = session \<and> ch_user r = user) (db_children db)"

definition list_messages_with_content ::
  "string \<Rightarrow> string \<Rightarrow> database \<Rightarrow> (child_row \<times> content_row) list" where
  "list_messages_with_content user session db =
     pair_by_key key_of (db_contents db) (oldest_first ch_created (owned_rows MessageTable user session db))"

definition list_session_trace_content ::
  "string \<Rightarrow> string \<Rightarrow> database \<Rightarrow> (child_row \<times> content_row) list" where
  "list_session_trace_content user session db =
     pair_by_key key_of (db_contents db) (oldest_first ch_created (owned_rows TraceTable user session db))"

record session_state =
  ss_session :: session_entity
  ss_rows :: "child_table \<Rightarrow> child_row list"

definition get_session_state :: "string \<Rightarrow> string \<Rightarrow> database \<Rightarrow> session_state option" where
  "get_session_state user i db =
     map_option (\<lambda>s. \<lparr>ss_session = s, ss_rows = (\<lambda>t. list_session_rows t (se_id s) db)\<rparr>)
       (get_session user i db)"

definition trace_session :: "string \<Rightarrow> string \<Rightarrow> database \<Rightarrow> session_entity option" where
  "trace_session user i db =
     (case get_session user i db of
        Some s \<Rightarrow> if se_archived s = None then Some s else None | None \<Rightarrow> None)"

text \<open>A page of the trace: \<open>LIMIT limit START offset\<close>.\<close>

definition get_session_trace_events ::
  "string \<Rightarrow> string \<Rightarrow> nat \<Rightarrow> nat \<Rightarrow> database \<Rightarrow> (child_row \<times> content_row) list option" where
  "get_session_trace_events user i limit offset db =
     map_option (\<lambda>s. pair_by_key key_of (db_contents db)
         (take limit (drop offset (list_session_rows TraceTable (se_id s) db))))
       (trace_session user i db)"

definition get_session_cost_events ::
  "string \<Rightarrow> string \<Rightarrow> database \<Rightarrow> (child_row \<times> content_row) list option" where
  "get_session_cost_events user i db =
     map_option (\<lambda>s. pair_by_key key_of (db_contents db)
         (filter (\<lambda>r. ch_event r = Some CostEvent) (list_session_rows TraceTable (se_id s) db)))
       (trace_session user i db)"

section \<open>Memories\<close>

text \<open>
  A keyed memory is recorded in place of the one its owner filed under that key; a memory
  without key is always added.
\<close>

definition create_user_memory :: "user_memory \<Rightarrow> string \<Rightarrow> user_memory dbop" where
  "create_user_memory memory content db =
     (if um_id memory \<in> um_id ` set (db_user_memory db) \<or> um_user memory \<notin> us_id ` set (db_users db)
      then (Err (Backend ''record exists''), db)
      else (Ok memory, db\<lparr>db_user_memory := db_user_memory db @ [memory],
        db_user_memory_content := (db_user_memory_content db)(um_id memory \<mapsto> content)\<rparr>))"

definition replace_user_memory :: "user_memory \<Rightarrow> nat \<Rightarrow> string \<Rightarrow> user_memory dbop" where
  "replace_user_memory existing now content db =
     (Ok (existing\<lparr>um_updated := now\<rparr>), db\<lparr>
        db_user_memory := map (\<lambda>m. if um_id m = um_id existing then m\<lparr>um_updated := now\<rparr> else m)
          (db_user_memory db),
        db_user_memory_content := (db_user_memory_content db)
          (um_id existing := map_option (\<lambda>_. content) (db_user_memory_content db (um_id existing)))\<rparr>)"

definition user_memories_keyed :: "string \<Rightarrow> string \<Rightarrow> database \<Rightarrow> user_memory list" where
  "user_memories_keyed user key db =
     filter (\<lambda>m. um_user m = user \<and> um_key m = Some key) (db_user_memory db)"

definition record_user_memory :: "string \<Rightarrow> user_memory \<Rightarrow> string \<Rightarrow> user_memory dbop" where
  "record_user_memory user memory content db =
     (if um_user memory \<noteq> user then (Err RecordNotFound, db)
      else (case um_key memory of
              None \<Rightarrow> create_user_memory memory content db
            | Some key \<Rightarrow>
                (case take_option (user_memories_keyed user key db) of
                   Inl e \<Rightarrow> (Err e, db)
                 | Inr (Some existing) \<Rightarrow> replace_user_memory existing (um_updated memory) content db
                 | Inr None \<Rightarrow> create_user_memory memory content db)))"

definition get_user_memory :: "string \<Rightarrow> string \<Rightarrow> database \<Rightarrow> user_memory option" where
  "get_user_memory user i db =
     (case List.find (\<lambda>m. um_id m = i) (db_user_memory db) of
        Some m \<Rightarrow> if um_user m = user then Some m else None | None \<Rightarrow> None)"

datatype memory_ref = MemoryById string | MemoryByKey string

definition update_user_memory :: "nat \<Rightarrow> string \<Rightarrow> memory_ref \<Rightarrow> string \<Rightarrow> user_memory dbop" where
  "update_user_memory now user target content db =
     (case (case target of
              MemoryById i \<Rightarrow> Ok (get_user_memory user i db)
            | MemoryByKey key \<Rightarrow> take_option (user_memories_keyed user key db)) of
        Inl e \<Rightarrow> (Err e, db)
      | Inr None \<Rightarrow> (Err RecordNotFound, db)
      | Inr (Some existing) \<Rightarrow> replace_user_memory existing now content db)"

definition list_user_memory :: "string \<Rightarrow> database \<Rightarrow> user_memory list" where
  "list_user_memory user db = newest_first um_updated (filter (\<lambda>m. um_user m = user) (db_user_memory db))"

definition list_user_memory_with_content :: "string \<Rightarrow> database \<Rightarrow> (user_memory \<times> string) list" where
  "list_user_memory_with_content user db =
     pair_by_key um_id (db_user_memory_content db) (list_user_memory user db)"

definition forget_user_memory :: "string \<Rightarrow> string \<Rightarrow> unit dbop" where
  "forget_user_memory user i db =
     (if get_user_memory user i db = None then (Err RecordNotFound, db)
      else (Ok (), db\<lparr>db_user_memory := filter (\<lambda>m. um_id m \<noteq> i) (db_user_memory db),
                       db_user_memory_content := (db_user_memory_content db)(i := None)\<rparr>))"

definition replace_context_memory :: "child_row \<Rightarrow> nat \<Rightarrow> secret_content \<Rightarrow> child_row dbop" where
  "replace_context_memory existing now content db =
     (Ok (existing\<lparr>ch_updated := now\<rparr>),
      (change_row ContextMemoryTable (ch_id existing) (\<lambda>r. r\<lparr>ch_updated := now\<rparr>) db)\<lparr>db_contents :=
         (db_contents db)((ContextMemoryTable, ch_id existing) :=
           map_option (\<lambda>c. c(''content'' \<mapsto> content)) (db_contents db (ContextMemoryTable, ch_id existing)))\<rparr>)"

definition context_memories_keyed :: "string \<Rightarrow> string \<Rightarrow> database \<Rightarrow> child_row list" where
  "context_memories_keyed session key db =
     filter (\<lambda>r. ch_table r = ContextMemoryTable \<and> ch_session r = session \<and> ch_key r = Some key)
       (db_children db)"

definition record_context_memory :: "string \<Rightarrow> child_row \<Rightarrow> secret_content \<Rightarrow> child_row dbop" where
  "record_context_memory user memory content db =
     (if \<not> write_owned user memory db then (Err RecordNotFound, db)
      else (case ch_key memory of
              None \<Rightarrow> create_row memory (Some [''content'' \<mapsto> content]) db
            | Some key \<Rightarrow>
                (case take_option (context_memories_keyed (ch_session memory) key db) of
                   Inl e \<Rightarrow> (Err e, db)
                 | Inr (Some existing) \<Rightarrow> replace_context_memory existing (ch_updated memory) content db
                 | Inr None \<Rightarrow> create_row memory (Some [''content'' \<mapsto> content]) db)))"

definition get_context_memory :: "string \<Rightarrow> string \<Rightarrow> string \<Rightarrow> database \<Rightarrow> child_row option" where
  "get_context_memory user session i db =
     (case find_row ContextMemoryTable i db of
        Some r \<Rightarrow> if ch_user r = user \<and> ch_session r = session then Some r else None
      | None \<Rightarrow> None)"

definition update_context_memory ::
  "nat \<Rightarrow> string \<Rightarrow> string \<Rightarrow> memory_ref \<Rightarrow> secret_content \<Rightarrow> child_row dbop" where
  "update_context_memory now user session target content db =
     (case (case target of
              MemoryById i \<Rightarrow> Ok (get_context_memory user session i db)
            | MemoryByKey key \<Rightarrow>
                take_option (filter (\<lambda>r. ch_user r = user) (context_memories_keyed session key db))) of
        Inl e \<Rightarrow> (Err e, db)
      | Inr None \<Rightarrow> (Err RecordNotFound, db)
      | Inr (Some existing) \<Rightarrow> replace_context_memory existing now content db)"

definition list_context_memory :: "string \<Rightarrow> string \<Rightarrow> database \<Rightarrow> child_row list" where
  "list_context_memory user session db =
     newest_first ch_updated (owned_rows ContextMemoryTable user session db)"

definition list_context_memory_with_content ::
  "string \<Rightarrow> string \<Rightarrow> database \<Rightarrow> (child_row \<times> content_row) list" where
  "list_context_memory_with_content user session db =
     pair_by_key key_of (db_contents db) (list_context_memory user session db)"

definition forget_context_memory :: "string \<Rightarrow> string \<Rightarrow> string \<Rightarrow> unit dbop" where
  "forget_context_memory user session i db =
     (if get_context_memory user session i db = None then (Err RecordNotFound, db)
      else (Ok (), db\<lparr>db_children := filter (\<lambda>r. key_of r \<noteq> (ContextMemoryTable, i)) (db_children db),
                       db_contents := (db_contents db)((ContextMemoryTable, i) := None)\<rparr>))"

section \<open>Cleanup\<close>

definition delete_expired_tokens :: "nat \<Rightarrow> database \<Rightarrow> database" where
  "delete_expired_tokens now db =
     db\<lparr>db_tokens := filter (\<lambda>t. \<not> (ak_expires t \<le> now \<or> ak_revoked t \<noteq> None)) (db_tokens db)\<rparr>"

definition day :: nat where
  "day = 86400"

definition purge_sessions :: "(session_entity \<Rightarrow> bool) \<Rightarrow> database \<Rightarrow> database" where
  "purge_sessions doomed db =
     delete_session_cascade (map se_id (filter doomed (db_sessions db))) db"

text \<open>A cutoff before the epoch is no cutoff: nothing is that old.\<close>

definition purge_old_sessions :: "nat \<Rightarrow> nat \<Rightarrow> database \<Rightarrow> database" where
  "purge_old_sessions now days db =
     purge_sessions (\<lambda>s. se_archived s = None \<and> se_updated s < now - days * day) db"

definition purge_archived_sessions :: "nat \<Rightarrow> nat \<Rightarrow> database \<Rightarrow> database" where
  "purge_archived_sessions now days db =
     purge_sessions (\<lambda>s. \<exists>t\<in>set_option (se_archived s). t < now - days * day) db"

definition purge_traces :: "nat \<Rightarrow> nat \<Rightarrow> database \<Rightarrow> database" where
  "purge_traces now days db = delete_rows TraceTable (\<lambda>r. ch_created r < now - days * day) db"

text \<open>
  One pass of the retention service (\<^verbatim>\<open>smista-router/src/retention.rs\<close>): the four purges in turn;
  each goes on whatever became of the one before.
\<close>

record retention_config =
  rc_trace_days :: nat
  rc_session_days :: nat
  rc_archived_days :: nat

definition cleanup :: "nat \<Rightarrow> retention_config \<Rightarrow> database \<Rightarrow> database" where
  "cleanup now c db =
     purge_traces now (rc_trace_days c)
       (purge_archived_sessions now (rc_archived_days c)
         (purge_old_sessions now (rc_session_days c)
           (delete_expired_tokens now db)))"

end
