(* ===== verification/Tenancy.thy ===== *)
theory Tenancy
  imports Storage_Db
begin

text \<open>
  Users do not see each other: no operation a user makes changes a row another user owns,
  and what a user reads depends on the rows that user owns alone. The invariant behind it:
  identities are unique, every row of a session names the session's owner, and content rows
  are exactly those of the rows that have one.
\<close>

section \<open>The invariant\<close>

definition keyed_by_session :: "child_row \<Rightarrow> bool" where
  "keyed_by_session r \<longleftrightarrow>
     (ch_table r = RunStateTable \<or> ch_table r = RunInputTable \<longrightarrow> ch_id r = ch_session r)"

definition db_wf :: "database \<Rightarrow> bool" where
  "db_wf d \<longleftrightarrow>
     distinct (map se_id (db_sessions d)) \<and> distinct (map key_of (db_children d)) \<and>
     distinct (map um_id (db_user_memory d)) \<and>
     (\<forall>r\<in>set (db_children d). session_owned (ch_user r) (ch_session r) d \<and> keyed_by_session r) \<and>
     dom (db_contents d) = key_of ` {r\<in>set (db_children d). has_content (ch_table r)} \<and>
     dom (db_user_memory_content d) = um_id ` set (db_user_memory d)"

definition empty_database :: database where
  "empty_database = \<lparr>db_users = [], db_tokens = [], db_sessions = [], db_children = [],
     db_contents = (\<lambda>_. None), db_user_memory = [], db_user_memory_content = (\<lambda>_. None)\<rparr>"

lemma empty_wf: "db_wf empty_database"
  by (simp add: db_wf_def empty_database_def)

lemma db_wfD:
  assumes "db_wf d"
  shows "distinct (map se_id (db_sessions d))" "distinct (map key_of (db_children d))"
    "distinct (map um_id (db_user_memory d))"
    "\<And>r. r \<in> set (db_children d) \<Longrightarrow> session_owned (ch_user r) (ch_session r) d"
    "\<And>r. r \<in> set (db_children d) \<Longrightarrow> keyed_by_session r"
    "dom (db_contents d) = key_of ` {r\<in>set (db_children d). has_content (ch_table r)}"
    "dom (db_user_memory_content d) = um_id ` set (db_user_memory d)"
  using assms by (simp_all add: db_wf_def)

lemma db_wfI:
  assumes "distinct (map se_id (db_sessions d))" "distinct (map key_of (db_children d))"
    and "distinct (map um_id (db_user_memory d))"
    and "\<And>r. r \<in> set (db_children d) \<Longrightarrow> session_owned (ch_user r) (ch_session r) d \<and> keyed_by_session r"
    and "dom (db_contents d) = key_of ` {r\<in>set (db_children d). has_content (ch_table r)}"
    and "dom (db_user_memory_content d) = um_id ` set (db_user_memory d)"
  shows "db_wf d"
  using assms by (simp add: db_wf_def)

lemma session_owned_cong: "db_sessions d' = db_sessions d \<Longrightarrow> session_owned u s d' = session_owned u s d"
  by (simp add: session_owned_def)

section \<open>What a user sees\<close>

definition rows_of :: "string \<Rightarrow> database \<Rightarrow> child_row list" where
  "rows_of u d = filter (\<lambda>r. ch_user r = u) (db_children d)"

definition visible ::
  "string \<Rightarrow> database \<Rightarrow> session_entity list \<times> (user_memory \<times> string option) list \<times>
   (child_row \<times> content_row option) list" where
  "visible u d =
     (filter (\<lambda>s. se_user s = u) (db_sessions d),
      map (\<lambda>m. (m, db_user_memory_content d (um_id m))) (filter (\<lambda>m. um_user m = u) (db_user_memory d)),
      map (\<lambda>r. (r, db_contents d (key_of r))) (rows_of u d))"

lemma visible_eqI:
  assumes "filter (\<lambda>s. se_user s = v) (db_sessions d') = filter (\<lambda>s. se_user s = v) (db_sessions d)"
    and "filter (\<lambda>m. um_user m = v) (db_user_memory d') = filter (\<lambda>m. um_user m = v) (db_user_memory d)"
    and "rows_of v d' = rows_of v d"
    and "\<And>m. m \<in> set (db_user_memory d) \<Longrightarrow> um_user m = v \<Longrightarrow>
      db_user_memory_content d' (um_id m) = db_user_memory_content d (um_id m)"
    and "\<And>r. r \<in> set (db_children d) \<Longrightarrow> ch_user r = v \<Longrightarrow>
      db_contents d' (key_of r) = db_contents d (key_of r)"
  shows "visible v d' = visible v d"
  using assms by (auto simp: visible_def rows_of_def)

lemma filter_map_other:
  assumes "\<And>x. x \<in> set xs \<Longrightarrow> p x \<Longrightarrow> \<not> q x \<and> \<not> q (f x)"
  shows "filter q (map (\<lambda>x. if p x then f x else x) xs) = filter q xs"
  using assms by (induction xs) auto

lemma filter_filter_other:
  assumes "\<And>x. x \<in> set xs \<Longrightarrow> q x \<Longrightarrow> p x"
  shows "filter q (filter p xs) = filter q xs"
  using assms by (induction xs) auto

lemma map_key_kept:
  "(\<And>x. x \<in> set xs \<Longrightarrow> p x \<Longrightarrow> k (f x) = k x) \<Longrightarrow>
   map k (map (\<lambda>x. if p x then f x else x) xs) = map k xs"
  by (induction xs) auto

lemma map_mem_cond:
  "y \<in> set (map (\<lambda>x. if p x then f x else x) xs) \<longleftrightarrow> (\<exists>x\<in>set xs. y = (if p x then f x else x))"
  by auto

lemma distinct_map_eq: "distinct (map k xs) \<Longrightarrow> x \<in> set xs \<Longrightarrow> y \<in> set xs \<Longrightarrow> k x = k y \<Longrightarrow> x = y"
  by (induction xs) (auto simp: image_iff)

lemma distinct_map_filter': "distinct (map k xs) \<Longrightarrow> distinct (map k (filter p xs))"
  by (induction xs) auto

lemma find_key_Some: "List.find p xs = Some x \<Longrightarrow> x \<in> set xs \<and> p x"
  by (induction xs) (auto split: if_splits)

lemma find_row_Some:
  assumes "db_wf d" "find_row t i d = Some x"
  shows "x \<in> set (db_children d)" "key_of x = (t, i)"
    "\<And>r. r \<in> set (db_children d) \<Longrightarrow> key_of r = (t, i) \<Longrightarrow> r = x"
proof -
  show x: "x \<in> set (db_children d)" "key_of x = (t, i)"
    using find_key_Some [OF assms(2) [unfolded find_row_def]] by simp_all
  show "r = x" if "r \<in> set (db_children d)" "key_of r = (t, i)" for r
    using distinct_map_eq [OF db_wfD(2) [OF assms(1)] that(1) x(1)] that(2) x(2) by simp
qed

lemma read_row_found:
  "read_row t u i d = Some x \<Longrightarrow> find_row t i d = Some x \<and> ch_user x = u"
  by (simp add: read_row_def split: option.splits if_splits)

lemma read_row_Some:
  assumes "db_wf d" "read_row t u i d = Some x"
  shows "x \<in> set (db_children d)" "key_of x = (t, i)" "ch_user x = u"
    "\<And>r. r \<in> set (db_children d) \<Longrightarrow> key_of r = (t, i) \<Longrightarrow> r = x"
  using find_row_Some [OF assms(1)] read_row_found [OF assms(2)] by blast+

lemma get_session_Some:
  assumes "get_session u i d = Some s"
  shows "s \<in> set (db_sessions d)" "se_id s = i" "se_user s = u"
proof -
  have "List.find (\<lambda>s. se_id s = i) (db_sessions d) = Some s" "se_user s = u"
    using assms by (simp_all add: get_session_def split: option.splits if_splits)
  then show "s \<in> set (db_sessions d)" "se_id s = i" "se_user s = u" using find_key_Some by fast+
qed

lemma one_owner:
  assumes "db_wf d" "session_owned u i d" "session_owned v i d"
  shows "u = v"
  using assms distinct_map_eq [OF db_wfD(1)] by (fastforce simp: session_owned_def)

section \<open>Operations that keep to their user\<close>

definition isolated :: "string \<Rightarrow> (database \<Rightarrow> database) \<Rightarrow> bool" where
  "isolated u f \<longleftrightarrow> (\<forall>d. db_wf d \<longrightarrow> db_wf (f d) \<and> (\<forall>v. v \<noteq> u \<longrightarrow> visible v (f d) = visible v d))"

lemma isolatedI:
  assumes "\<And>d. db_wf d \<Longrightarrow> db_wf (f d)"
    and "\<And>d v. db_wf d \<Longrightarrow> v \<noteq> u \<Longrightarrow> visible v (f d) = visible v d"
  shows "isolated u f"
  using assms by (simp add: isolated_def)

lemma isolated_id: "isolated u (\<lambda>d. d)"
  by (simp add: isolated_def)

lemma isolated_choose:
  assumes "\<And>d. db_wf d \<Longrightarrow> f d = d \<or> (\<exists>g. f d = g d \<and> isolated u g)"
  shows "isolated u f"
proof -
  have "db_wf (f d) \<and> (\<forall>v. v \<noteq> u \<longrightarrow> visible v (f d) = visible v d)" if "db_wf d" for d
    using assms [OF that] that by (auto simp: isolated_def)
  then show ?thesis by (simp add: isolated_def)
qed

lemma image_Collect_mem: "{y \<in> f ` A. P y} = f ` {x \<in> A. P (f x)}"
  by auto

text \<open>A row rewritten in place, with its key, session and owner kept.\<close>

lemma map_rows_wf:
  assumes "db_wf d"
    and g: "\<And>r. key_of (g r) = key_of r" "\<And>r. ch_session (g r) = ch_session r" "\<And>r. ch_user (g r) = ch_user r"
  shows "db_wf (d\<lparr>db_children := map g (db_children d)\<rparr>)"
proof (rule db_wfI)
  have t: "ch_table (g r) = ch_table r" "ch_id (g r) = ch_id r" for r
    using g(1) [of r] by (simp_all add: key_of_def)
  have "{r \<in> g ` set (db_children d). has_content (ch_table r)} =
      g ` {r \<in> set (db_children d). has_content (ch_table r)}"
    unfolding image_Collect_mem t ..
  then show "dom (db_contents (d\<lparr>db_children := map g (db_children d)\<rparr>)) =
      key_of ` {r \<in> set (db_children (d\<lparr>db_children := map g (db_children d)\<rparr>)). has_content (ch_table r)}"
    using db_wfD(6) [OF assms(1)] by (simp add: image_image g)
  show "session_owned (ch_user r) (ch_session r) (d\<lparr>db_children := map g (db_children d)\<rparr>) \<and>
      keyed_by_session r" if "r \<in> set (db_children (d\<lparr>db_children := map g (db_children d)\<rparr>))" for r
    using that db_wfD(4,5) [OF assms(1)] g t by (auto simp: session_owned_def keyed_by_session_def)
qed (use db_wfD [OF assms(1)] in \<open>simp_all add: g comp_def\<close>)

lemma change_row_wf:
  assumes "db_wf d" "\<And>r. key_of (f r) = key_of r \<and> ch_session (f r) = ch_session r \<and> ch_user (f r) = ch_user r"
  shows "db_wf (change_row t i f d)"
  unfolding change_row_def by (rule map_rows_wf) (use assms in simp_all)

lemma change_row_visible:
  assumes "db_wf d" "read_row t u i d = Some x" "v \<noteq> u" "\<And>r. ch_user (f r) = ch_user r"
  shows "visible v (change_row t i f d) = visible v d"
proof -
  have "ch_user r \<noteq> v \<and> ch_user (f r) \<noteq> v" if "r \<in> set (db_children d)" "key_of r = (t, i)" for r
    using read_row_Some(3,4) [OF assms(1,2)] that assms(3,4) by metis
  then have "filter (\<lambda>r. ch_user r = v) (map (\<lambda>r. if key_of r = (t, i) then f r else r) (db_children d)) =
      filter (\<lambda>r. ch_user r = v) (db_children d)"
    by (intro filter_map_other) blast
  then have "rows_of v (change_row t i f d) = rows_of v d"
    by (simp add: rows_of_def change_row_def)
  then show ?thesis by (intro visible_eqI) (simp_all add: change_row_def)
qed

text \<open>A content rewritten, of a row that has one.\<close>

lemma contents_wf:
  assumes "db_wf d" "key_of r = k" "r \<in> set (db_children d)" "has_content (ch_table r)"
  shows "db_wf (d\<lparr>db_contents := (db_contents d)(k \<mapsto> c)\<rparr>)"
  using assms by (auto simp: db_wf_def session_owned_def)

lemma map_content_wf:
  assumes "db_wf d"
  shows "db_wf (d\<lparr>db_contents := (db_contents d)(k := map_option f (db_contents d k))\<rparr>)"
proof -
  have "dom ((db_contents d)(k := map_option f (db_contents d k))) = dom (db_contents d)" by auto
  then show ?thesis using assms by (simp add: db_wf_def session_owned_def)
qed

lemma map_content_visible:
  assumes "db_wf d" "read_row t u i d = Some x" "v \<noteq> u"
  shows "visible v (d\<lparr>db_contents := (db_contents d)((t, i) := c)\<rparr>) = visible v d"
proof -
  have "key_of r \<noteq> (t, i)" if "r \<in> set (db_children d)" "ch_user r = v" for r
    using read_row_Some(3,4) [OF assms(1,2)] that assms(3) by metis
  then show ?thesis by (intro visible_eqI) (simp_all add: rows_of_def)
qed

section \<open>Each operation\<close>

lemma isolated_create_session: "se_user s = u \<Longrightarrow> isolated u (\<lambda>d. snd (create_session s d))"
  by (rule isolatedI)
    (auto simp: create_session_def db_wf_def session_owned_def visible_def rows_of_def)

lemma sessions_changed_wf:
  assumes "db_wf d" "\<And>s. se_id (f s) = se_id s" "\<And>s. s \<in> set (db_sessions d) \<Longrightarrow> se_user (f s) = se_user s"
  shows "db_wf (d\<lparr>db_sessions := map f (db_sessions d)\<rparr>)"
proof -
  have "session_owned w i (d\<lparr>db_sessions := map f (db_sessions d)\<rparr>)" if "session_owned w i d" for w i
    using that assms(2,3) by (auto simp: session_owned_def)
  then show ?thesis using assms by (simp add: db_wf_def comp_def)
qed

lemma sessions_changed_visible:
  assumes "\<And>s. s \<in> set (db_sessions d) \<Longrightarrow> p s \<Longrightarrow> se_user s \<noteq> v \<and> se_user (f s) \<noteq> v"
  shows "visible v (d\<lparr>db_sessions := map (\<lambda>s. if p s then f s else s) (db_sessions d)\<rparr>) = visible v d"
  using filter_map_other [of "db_sessions d" p "\<lambda>s. se_user s = v" f] assms
  by (intro visible_eqI) (simp_all add: rows_of_def)

lemma session_of:
  assumes "db_wf d" "s \<in> set (db_sessions d)" "se_user s = u" "s' \<in> set (db_sessions d)" "se_id s' = se_id s"
  shows "se_user s' = u"
  using distinct_map_eq [OF db_wfD(1) [OF assms(1)] assms(4,2,5)] assms(3) by simp

lemma isolated_update_session: "isolated u (\<lambda>d. snd (update_session u s d))"
proof (rule isolatedI)
  fix d assume wf: "db_wf d"
  show "db_wf (snd (update_session u s d))"
  proof (cases "\<exists>t. List.find (\<lambda>x. se_id x = se_id s) (db_sessions d) = Some t \<and> se_user t = u \<and> se_user s = u")
    case True
    then obtain t where t: "t \<in> set (db_sessions d)" "se_id t = se_id s" "se_user t = u" "se_user s = u"
      using find_key_Some by fast
    have same: "se_user (if se_id x = se_id s then s else x) = se_user x" if "x \<in> set (db_sessions d)" for x
      using session_of [OF wf t(1,3) that] t(2,4) by simp
    have "db_wf (d\<lparr>db_sessions := map (\<lambda>x. if se_id x = se_id s then s else x) (db_sessions d)\<rparr>)"
      by (rule sessions_changed_wf [OF wf]) (use same in auto)
    then show ?thesis using wf by (auto simp: update_session_def split: option.splits)
  qed (use wf in \<open>auto simp: update_session_def split: option.splits\<close>)
next
  fix d v assume wf: "db_wf d" and v: "v \<noteq> u"
  have "visible v (d\<lparr>db_sessions := map (\<lambda>x. if se_id x = se_id s then s else x) (db_sessions d)\<rparr>) =
      visible v d"
    if "List.find (\<lambda>x. se_id x = se_id s) (db_sessions d) = Some t" "se_user t = u" "se_user s = u" for t
  proof (rule sessions_changed_visible)
    fix x assume "x \<in> set (db_sessions d)" "se_id x = se_id s"
    then show "se_user x \<noteq> v \<and> se_user s \<noteq> v"
      using find_key_Some [OF that(1)] session_of [OF wf, of t u x] that(2,3) v by auto
  qed
  then show "visible v (snd (update_session u s d)) = visible v d"
    by (auto simp: update_session_def split: option.splits)
qed

lemma isolated_archive_session: "isolated u (\<lambda>d. snd (archive_session now u i d))"
proof (rule isolatedI)
  fix d assume wf: "db_wf d"
  show "db_wf (snd (archive_session now u i d))"
    using sessions_changed_wf [OF wf, of "\<lambda>s. if se_id s = i then s\<lparr>se_archived := Some now\<rparr> else s"] wf
    by (simp add: archive_session_def)
next
  fix d v assume wf: "db_wf d" and v: "v \<noteq> u"
  show "visible v (snd (archive_session now u i d)) = visible v d"
  proof (cases "get_session u i d")
    case (Some s)
    have "visible v (d\<lparr>db_sessions :=
        map (\<lambda>s. if se_id s = i then s\<lparr>se_archived := Some now\<rparr> else s) (db_sessions d)\<rparr>) = visible v d"
      by (rule sessions_changed_visible)
        (use session_of [OF wf get_session_Some(1,3) [OF Some]] get_session_Some(2) [OF Some] v in auto)
    then show ?thesis by (simp add: archive_session_def)
  qed (simp add: archive_session_def)
qed

text \<open>The cascade, whatever the order of its tables.\<close>

lemma delete_rows_simps [simp]:
  "db_children (delete_rows t p d) = filter (\<lambda>r. \<not> (ch_table r = t \<and> p r)) (db_children d)"
  "db_sessions (delete_rows t p d) = db_sessions d"
  "db_users (delete_rows t p d) = db_users d"
  "db_tokens (delete_rows t p d) = db_tokens d"
  "db_user_memory (delete_rows t p d) = db_user_memory d"
  "db_user_memory_content (delete_rows t p d) = db_user_memory_content d"
  by (simp_all add: delete_rows_def Let_def)

lemma delete_rows_contents:
  "db_contents (delete_rows t p d) k =
     (if fst k = t \<and> has_content t \<and> (\<exists>r\<in>set (db_children d). key_of r = k \<and> p r) then None
      else db_contents d k)"
  by (auto simp: delete_rows_def Let_def key_of_def)

lemma fold_delete_rows [simp]:
  "db_children (fold (\<lambda>t. delete_rows t p) ts d) =
     filter (\<lambda>r. \<not> (ch_table r \<in> set ts \<and> p r)) (db_children d)"
  "db_sessions (fold (\<lambda>t. delete_rows t p) ts d) = db_sessions d"
  "db_users (fold (\<lambda>t. delete_rows t p) ts d) = db_users d"
  "db_tokens (fold (\<lambda>t. delete_rows t p) ts d) = db_tokens d"
  "db_user_memory (fold (\<lambda>t. delete_rows t p) ts d) = db_user_memory d"
  "db_user_memory_content (fold (\<lambda>t. delete_rows t p) ts d) = db_user_memory_content d"
  by (induction ts arbitrary: d) (auto intro: filter_cong)

lemma fold_delete_contents:
  "db_contents (fold (\<lambda>t. delete_rows t p) ts d) k =
     (if fst k \<in> set ts \<and> has_content (fst k) \<and> (\<exists>r\<in>set (db_children d). key_of r = k \<and> p r) then None
      else db_contents d k)"
proof (induction ts arbitrary: d)
  case (Cons t ts)
  show ?case unfolding fold_simps comp_def Cons delete_rows_contents by (auto simp: key_of_def)
qed simp

lemma cascade_complete: "t \<in> set cascade_tables"
  by (cases t) (simp_all add: cascade_tables_def)

lemma cascade_rows [simp]:
  "db_children (delete_session_cascade ss d) = filter (\<lambda>r. ch_session r \<notin> set ss) (db_children d)"
  "db_sessions (delete_session_cascade ss d) = filter (\<lambda>s. se_id s \<notin> set ss) (db_sessions d)"
  "db_users (delete_session_cascade ss d) = db_users d"
  "db_tokens (delete_session_cascade ss d) = db_tokens d"
  "db_user_memory (delete_session_cascade ss d) = db_user_memory d"
  "db_user_memory_content (delete_session_cascade ss d) = db_user_memory_content d"
  by (simp_all add: delete_session_cascade_def Let_def cascade_complete)

lemma cascade_contents:
  "db_contents (delete_session_cascade ss d) k =
     (if has_content (fst k) \<and> (\<exists>r\<in>set (db_children d). key_of r = k \<and> ch_session r \<in> set ss) then None
      else db_contents d k)"
  by (simp add: delete_session_cascade_def Let_def fold_delete_contents cascade_complete)

text \<open>Removing rows with their contents keeps the invariant.\<close>

lemma removed_contents:
  assumes wf: "db_wf d"
    and contents: "\<And>k. c k = (if has_content (fst k) \<and> (\<exists>r\<in>set (db_children d). key_of r = k \<and> p r)
      then None else db_contents d k)"
  shows "dom c = key_of ` {r \<in> set (filter (\<lambda>r. \<not> p r) (db_children d)). has_content (ch_table r)}"
proof (intro set_eqI iffI)
  fix k assume "k \<in> dom c"
  then have "c k \<noteq> None" by auto
  then have "db_contents d k \<noteq> None" and
    k2: "\<not> (has_content (fst k) \<and> (\<exists>r\<in>set (db_children d). key_of r = k \<and> p r))"
    using contents [of k] by (metis, metis)
  then have k: "k \<in> dom (db_contents d)" by auto
  then obtain r where r: "r \<in> set (db_children d)" "has_content (ch_table r)" "k = key_of r"
    unfolding db_wfD(6) [OF wf] by blast
  then have "\<not> p r" using k2 by (auto simp: key_of_def)
  then show "k \<in> key_of ` {r \<in> set (filter (\<lambda>r. \<not> p r) (db_children d)). has_content (ch_table r)}"
    using r by auto
next
  fix k assume "k \<in> key_of ` {r \<in> set (filter (\<lambda>r. \<not> p r) (db_children d)). has_content (ch_table r)}"
  then obtain r where r: "r \<in> set (db_children d)" "\<not> p r" "has_content (ch_table r)" "k = key_of r" by auto
  then have "k \<in> dom (db_contents d)" unfolding db_wfD(6) [OF wf] by blast
  moreover have "\<not> (\<exists>x\<in>set (db_children d). key_of x = k \<and> p x)"
    using distinct_map_eq [OF db_wfD(2) [OF wf]] r by metis
  ultimately show "k \<in> dom c" using contents [of k] by auto
qed

lemma cascade_wf:
  assumes "db_wf d"
  shows "db_wf (delete_session_cascade ss d)"
proof (rule db_wfI)
  show "dom (db_contents (delete_session_cascade ss d)) =
      key_of ` {r \<in> set (db_children (delete_session_cascade ss d)). has_content (ch_table r)}"
    unfolding cascade_rows by (rule removed_contents [OF assms]) (simp add: cascade_contents)
  show "session_owned (ch_user r) (ch_session r) (delete_session_cascade ss d) \<and> keyed_by_session r"
    if "r \<in> set (db_children (delete_session_cascade ss d))" for r
    using that db_wfD(4,5) [OF assms, of r] by (auto simp: session_owned_def)
qed (use db_wfD [OF assms] in \<open>simp_all add: distinct_map_filter'\<close>)

lemma cascade_visible:
  assumes "db_wf d" "\<And>s. s \<in> set ss \<Longrightarrow> session_owned u s d" "v \<noteq> u"
  shows "visible v (delete_session_cascade ss d) = visible v d"
proof (rule visible_eqI)
  have other: "ch_session r \<notin> set ss" if "r \<in> set (db_children d)" "ch_user r = v" for r
    using db_wfD(4) [OF assms(1) that(1)] assms(2,3) one_owner [OF assms(1)] that(2) by metis
  show "rows_of v (delete_session_cascade ss d) = rows_of v d"
    unfolding rows_of_def cascade_rows by (rule filter_filter_other) (use other in simp)
  show "filter (\<lambda>s. se_user s = v) (db_sessions (delete_session_cascade ss d)) =
      filter (\<lambda>s. se_user s = v) (db_sessions d)"
    unfolding cascade_rows
  proof (rule filter_filter_other)
    fix s assume s: "s \<in> set (db_sessions d)" "se_user s = v"
    then have "session_owned v (se_id s) d" by (auto simp: session_owned_def)
    then show "se_id s \<notin> set ss" using assms(2,3) one_owner [OF assms(1)] by metis
  qed
  show "db_contents (delete_session_cascade ss d) (key_of r) = db_contents d (key_of r)"
    if "r \<in> set (db_children d)" "ch_user r = v" for r
    using other [OF that] distinct_map_eq [OF db_wfD(2) [OF assms(1)] _ that(1)]
    by (auto simp: cascade_contents)
qed simp_all

lemma isolated_delete_session: "isolated u (\<lambda>d. snd (delete_session u i d))"
proof (rule isolatedI)
  fix d assume "db_wf d"
  then show "db_wf (snd (delete_session u i d))" by (simp add: delete_session_def cascade_wf)
next
  fix d v assume "db_wf d" "v \<noteq> u"
  then show "visible v (snd (delete_session u i d)) = visible v d"
    using cascade_visible [of d "[i]" u v] get_session_Some [of u i d]
    by (cases "get_session u i d") (auto simp: delete_session_def session_owned_def)
qed

text \<open>A row added to, or put in, a session the user owns.\<close>

definition paired :: "child_row \<Rightarrow> content_row option \<Rightarrow> bool" where
  "paired row content \<longleftrightarrow> (content \<noteq> None \<longleftrightarrow> has_content (ch_table row)) \<and> keyed_by_session row"

lemma create_row_wf:
  assumes wf: "db_wf d" and "session_owned (ch_user row) (ch_session row) d" "paired row content"
  shows "db_wf (snd (create_row row content d))"
proof (cases "key_of row \<in> key_of ` set (db_children d)")
  case False
  let ?c = "case content of Some c \<Rightarrow> (db_contents d)(key_of row \<mapsto> c) | None \<Rightarrow> db_contents d"
  let ?d = "d\<lparr>db_children := db_children d @ [row], db_contents := ?c\<rparr>"
  have "db_wf ?d"
  proof (rule db_wfI)
    show "distinct (map key_of (db_children ?d))" using db_wfD(2) [OF wf] False by simp
    have "{r \<in> set (db_children d @ [row]). has_content (ch_table r)} =
        {r \<in> set (db_children d). has_content (ch_table r)} \<union> (if content = None then {} else {row})"
      using assms(3) by (auto simp: paired_def)
    then show "dom (db_contents ?d) = key_of ` {r \<in> set (db_children ?d). has_content (ch_table r)}"
      using db_wfD(6) [OF wf] by (auto split: option.splits)
    show "session_owned (ch_user r) (ch_session r) ?d \<and> keyed_by_session r" if "r \<in> set (db_children ?d)" for r
      using that db_wfD(4,5) [OF wf] assms(2,3) by (auto simp: paired_def session_owned_def)
  qed (use db_wfD [OF wf] in simp_all)
  then show ?thesis using False by (simp add: create_row_def)
qed (simp add: create_row_def wf)

lemma create_row_visible:
  assumes "db_wf d" "ch_user row \<noteq> v"
  shows "visible v (snd (create_row row content d)) = visible v d"
proof (cases "key_of row \<in> key_of ` set (db_children d)")
  case False
  then have "key_of r \<noteq> key_of row" if "r \<in> set (db_children d)" for r using that by (metis imageI)
  then show ?thesis using False
    by (intro visible_eqI) (use assms(2) in \<open>simp_all add: create_row_def rows_of_def split: option.splits\<close>)
qed (simp add: create_row_def)

lemma isolated_append_row: "paired row content \<Longrightarrow> isolated u (\<lambda>d. snd (append_row u row content d))"
  by (rule isolatedI)
    (auto simp: append_row_def write_owned_def create_row_wf create_row_visible)

lemma upsert_row_wf:
  assumes wf: "db_wf d" and "session_owned (ch_user row) (ch_session row) d" "paired row content"
  shows "db_wf (snd (upsert_row row content d))"
proof (cases "key_of row \<in> key_of ` set (db_children d)")
  case False
  then have "snd (upsert_row row content d) = snd (create_row row content d)"
    by (simp add: upsert_row_def create_row_def)
  then show ?thesis using create_row_wf [OF assms] by simp
next
  case True
  let ?g = "\<lambda>r. if key_of r = key_of row then row else r"
  let ?c = "case content of Some c \<Rightarrow> (db_contents d)(key_of row \<mapsto> c) | None \<Rightarrow> db_contents d"
  let ?d = "d\<lparr>db_children := map ?g (db_children d), db_contents := ?c\<rparr>"
  have g: "key_of (?g r) = key_of r" "ch_table (?g r) = ch_table r" for r by (simp_all add: key_of_def)
  have img: "{r \<in> ?g ` set (db_children d). has_content (ch_table r)} =
      ?g ` {r \<in> set (db_children d). has_content (ch_table r)}"
    unfolding image_Collect_mem g(2) ..
  have k: "key_of row \<in> dom (db_contents d) \<longleftrightarrow> has_content (ch_table row)"
    using True unfolding db_wfD(6) [OF wf] by (auto simp: key_of_def)
  then have dom: "dom ?c = dom (db_contents d)"
    using assms(3) by (cases content) (auto simp: paired_def)
  have "db_wf ?d"
  proof (rule db_wfI)
    show "distinct (map key_of (db_children ?d))"
      using db_wfD(2) [OF wf] by (simp add: comp_def g)
    show "dom (db_contents ?d) = key_of ` {r \<in> set (db_children ?d). has_content (ch_table r)}"
    proof -
      have "key_of ` {r \<in> set (db_children ?d). has_content (ch_table r)} =
          key_of ` ?g ` {r \<in> set (db_children d). has_content (ch_table r)}"
        using img by simp
      also have "\<dots> = key_of ` {r \<in> set (db_children d). has_content (ch_table r)}"
        unfolding image_image g ..
      finally show ?thesis using dom db_wfD(6) [OF wf] by simp
    qed
    show "session_owned (ch_user r) (ch_session r) ?d \<and> keyed_by_session r" if "r \<in> set (db_children ?d)" for r
    proof -
      have "r = row \<or> r \<in> set (db_children d)" using that by (auto split: if_splits)
      then show ?thesis using db_wfD(4,5) [OF wf] assms(2,3) by (auto simp: paired_def session_owned_def)
    qed
  qed (use db_wfD [OF wf] in simp_all)
  then show ?thesis using True by (simp add: upsert_row_def)
qed

lemma upsert_row_visible:
  assumes wf: "db_wf d" and "session_owned u (ch_session row) d" "ch_user row = u" "v \<noteq> u"
    and "ch_table row = RunStateTable \<or> ch_table row = RunInputTable" "keyed_by_session row"
  shows "visible v (snd (upsert_row row content d)) = visible v d"
proof -
  have other: "key_of r \<noteq> key_of row" if "r \<in> set (db_children d)" "ch_user r = v" for r
  proof
    assume "key_of r = key_of row"
    then have "ch_session r = ch_session row"
      using db_wfD(5) [OF wf that(1)] assms(5,6) by (auto simp: key_of_def keyed_by_session_def)
    then show False using db_wfD(4) [OF wf that(1)] one_owner [OF wf] assms(2,4) that(2) by metis
  qed
  have "filter (\<lambda>r. ch_user r = v) (map (\<lambda>r. if key_of r = key_of row then row else r) (db_children d)) =
      filter (\<lambda>r. ch_user r = v) (db_children d)"
    by (rule filter_map_other) (use other assms(3,4) in auto)
  then show ?thesis using other assms(3,4)
    by (intro visible_eqI) (auto simp: upsert_row_def rows_of_def split: option.splits)
qed

lemma isolated_put_run_state:
  "ch_table row = RunStateTable \<Longrightarrow> keyed_by_session row \<Longrightarrow> isolated u (\<lambda>d. snd (put_run_state u row d))"
  by (rule isolatedI)
    (auto simp: put_run_state_def write_owned_def paired_def intro!: upsert_row_wf upsert_row_visible)

lemma isolated_put_run_input:
  "ch_table row = RunInputTable \<Longrightarrow> keyed_by_session row \<Longrightarrow>
   isolated u (\<lambda>d. snd (put_run_input u row content d))"
  by (rule isolatedI)
    (auto simp: put_run_input_def write_owned_def paired_def intro!: upsert_row_wf upsert_row_visible)

lemma isolated_take_run_lock:
  "ch_table row = RunStateTable \<Longrightarrow> keyed_by_session row \<Longrightarrow> isolated u (\<lambda>d. snd (take_run_lock u row d))"
  by (rule isolatedI)
    (auto simp: take_run_lock_def write_owned_def paired_def intro!: upsert_row_wf upsert_row_visible)

lemma change_contents:
  "(change_row t i f d)\<lparr>db_contents := c\<rparr> = change_row t i f (d\<lparr>db_contents := c\<rparr>)"
  by (simp add: change_row_def)

lemma isolated_change_row:
  assumes "\<And>r. key_of (f r) = key_of r \<and> ch_session (f r) = ch_session r \<and> ch_user (f r) = ch_user r"
    and "db_wf d" "read_row t u i d = Some x"
  shows "db_wf (change_row t i f d)" "v \<noteq> u \<Longrightarrow> visible v (change_row t i f d) = visible v d"
  using change_row_wf [OF assms(2,1)] change_row_visible [OF assms(2,3), of v f] assms(1) by simp_all

lemma isolated_plan_status: "isolated u (\<lambda>d. snd (change_plan_status now u i status d))"
  by (rule isolatedI)
    (auto simp: change_plan_status_def Let_def key_of_def split: option.splits intro!: isolated_change_row)

lemma isolated_diff_status: "isolated u (\<lambda>d. snd (change_diff_status now u i status d))"
  by (rule isolatedI)
    (auto simp: change_diff_status_def Let_def key_of_def split: option.splits intro!: isolated_change_row)

text \<open>Row and content of one key together.\<close>

lemma isolated_change_both:
  fixes g :: "content_row \<Rightarrow> content_row"
  assumes f: "\<And>r. key_of (f r) = key_of r \<and> ch_session (f r) = ch_session r \<and> ch_user (f r) = ch_user r"
    and wf: "db_wf d" and x: "read_row t u i d = Some x"
  defines "d' \<equiv> (change_row t i f d)\<lparr>db_contents :=
      (db_contents d)((t, i) := map_option g (db_contents d (t, i)))\<rparr>"
  shows "db_wf d'" "v \<noteq> u \<Longrightarrow> visible v d' = visible v d"
proof -
  let ?e = "d\<lparr>db_contents := (db_contents d)((t, i) := map_option g (db_contents d (t, i)))\<rparr>"
  have d': "d' = change_row t i f ?e" by (simp add: d'_def change_row_def)
  have e: "db_wf ?e" by (rule map_content_wf [OF wf])
  have y: "read_row t u i ?e = Some x" using x by (simp add: read_row_def find_row_def)
  show "db_wf d'" unfolding d' by (rule change_row_wf [OF e f])
  show "visible v d' = visible v d" if "v \<noteq> u"
    using isolated_change_row(2) [OF f e y that] map_content_visible [OF wf x that] unfolding d' by simp
qed

lemma isolated_tool_call_outcome: "isolated u (\<lambda>d. snd (change_tool_call_outcome now u i status r e d))"
proof -
  let ?f = "\<lambda>r. r\<lparr>ch_status := Some (CallState status),
      ch_settled := (if status = CompletedCall \<or> status = FailedCall then Some now else None)\<rparr>"
  let ?g = "\<lambda>c. c(''result'' := r, ''error'' := e)"
  let ?changed = "\<lambda>d. (change_row ToolCallTable i ?f d)\<lparr>db_contents :=
         (db_contents d)((ToolCallTable, i) := map_option ?g (db_contents d (ToolCallTable, i)))\<rparr>"
  have f: "key_of (?f x) = key_of x \<and> ch_session (?f x) = ch_session x \<and> ch_user (?f x) = ch_user x" for x
    by (simp add: key_of_def)
  have eq: "snd (change_tool_call_outcome now u i status r e d) =
      (if read_row ToolCallTable u i d = None \<or> db_contents d (ToolCallTable, i) = None then d else ?changed d)" for d
    by (auto simp: change_tool_call_outcome_def Let_def split: option.splits)
  have "db_wf (?changed d) \<and> (\<forall>v. v \<noteq> u \<longrightarrow> visible v (?changed d) = visible v d)"
    if "db_wf d" "read_row ToolCallTable u i d = Some x" for d x
    using isolated_change_both [OF f that] by blast
  note keeps = this
  have "db_wf (snd (change_tool_call_outcome now u i status r e d)) \<and>
      (\<forall>v. v \<noteq> u \<longrightarrow> visible v (snd (change_tool_call_outcome now u i status r e d)) = visible v d)"
    if wf: "db_wf d" for d
  proof (cases "read_row ToolCallTable u i d = None \<or> db_contents d (ToolCallTable, i) = None")
    case False
    then obtain x where "read_row ToolCallTable u i d = Some x" by auto
    from keeps [OF wf this] show ?thesis unfolding eq if_not_P [OF False] .
  next
    case True
    show ?thesis unfolding eq if_P [OF True] using wf by blast
  qed
  then show ?thesis unfolding isolated_def by blast
qed

lemma isolated_put_content: "isolated u (\<lambda>d. snd (put_content u t i content d))"
  by (rule isolatedI)
    (auto simp: put_content_def map_content_wf intro!: map_content_visible split: option.splits)

text \<open>Memories of the user.\<close>

lemma isolated_create_user_memory:
  assumes "um_user m = u"
  shows "isolated u (\<lambda>d. snd (create_user_memory m c d))"
proof (rule isolatedI)
  fix d assume wf: "db_wf d"
  show "db_wf (snd (create_user_memory m c d))"
    using wf by (auto simp: create_user_memory_def db_wf_def session_owned_def)
  show "visible v (snd (create_user_memory m c d)) = visible v d" if "v \<noteq> u" for v
    using assms that
    by (intro visible_eqI) (auto simp: create_user_memory_def rows_of_def image_iff)
qed

lemma replace_user_memory_wf:
  assumes wf: "db_wf d"
  shows "db_wf (snd (replace_user_memory m now c d))"
proof -
  let ?g = "\<lambda>x. if um_id x = um_id m then x\<lparr>um_updated := now\<rparr> else x"
  let ?d = "snd (replace_user_memory m now c d)"
  have ids: "map um_id (map ?g (db_user_memory d)) = map um_id (db_user_memory d)"
    by (rule map_key_kept) simp
  have rows: "db_user_memory ?d = map ?g (db_user_memory d)" by (simp add: replace_user_memory_def)
  show ?thesis
  proof (rule db_wfI)
    show "distinct (map um_id (db_user_memory ?d))" unfolding rows ids by (rule db_wfD(3) [OF wf])
    have "dom (db_user_memory_content ?d) = dom (db_user_memory_content d)"
      by (auto simp: replace_user_memory_def)
    then show "dom (db_user_memory_content ?d) = um_id ` set (db_user_memory ?d)"
      unfolding db_wfD(7) [OF wf] set_map [symmetric] rows ids .
  qed (use db_wfD [OF wf] in \<open>simp_all add: replace_user_memory_def session_owned_def\<close>)
qed

lemma replace_user_memory_visible:
  assumes "db_wf d" "m \<in> set (db_user_memory d)" "um_user m = u" "v \<noteq> u"
  shows "visible v (snd (replace_user_memory m now c d)) = visible v d"
proof -
  have other: "um_id x \<noteq> um_id m" if "x \<in> set (db_user_memory d)" "um_user x = v" for x
    using distinct_map_eq [OF db_wfD(3) [OF assms(1)] that(1) assms(2)] assms(3,4) that(2) by blast
  have "filter (\<lambda>x. um_user x = v) (map (\<lambda>x. if um_id x = um_id m then x\<lparr>um_updated := now\<rparr> else x)
      (db_user_memory d)) = filter (\<lambda>x. um_user x = v) (db_user_memory d)"
    by (rule filter_map_other) (use other in auto)
  then show ?thesis using other
    by (intro visible_eqI) (simp_all add: replace_user_memory_def rows_of_def)
qed

lemma take_option_mem: "take_option xs = Inr (Some x) \<Longrightarrow> x \<in> set xs"
  by (auto simp: take_option_def split: list.splits)

lemma isolated_record_user_memory: "isolated u (\<lambda>d. snd (record_user_memory u m c d))"
proof (rule isolatedI)
  fix d assume wf: "db_wf d"
  note create = isolated_create_user_memory [unfolded isolated_def, rule_format, OF _ wf]
  show "db_wf (snd (record_user_memory u m c d))"
    using create [of m u] wf replace_user_memory_wf [OF wf]
    by (auto simp: record_user_memory_def split: option.splits sum.splits)
  show "visible v (snd (record_user_memory u m c d)) = visible v d" if "v \<noteq> u" for v
    using create [of m u] replace_user_memory_visible [OF wf _ _ that] that
    by (auto simp: record_user_memory_def user_memories_keyed_def dest!: take_option_mem
        split: option.splits sum.splits)
qed

lemma get_user_memory_Some:
  assumes "get_user_memory u i d = Some m"
  shows "m \<in> set (db_user_memory d) \<and> um_id m = i \<and> um_user m = u"
proof -
  have "List.find (\<lambda>m. um_id m = i) (db_user_memory d) = Some m" "um_user m = u"
    using assms by (simp_all add: get_user_memory_def split: option.splits if_splits)
  then show ?thesis using find_key_Some by fast
qed

lemma isolated_update_user_memory: "isolated u (\<lambda>d. snd (update_user_memory now u target c d))"
proof (rule isolatedI)
  fix d assume wf: "db_wf d"
  show "db_wf (snd (update_user_memory now u target c d))"
    using wf replace_user_memory_wf [OF wf]
    by (auto simp: update_user_memory_def split: option.splits sum.splits)
  show "visible v (snd (update_user_memory now u target c d)) = visible v d" if "v \<noteq> u" for v
    using replace_user_memory_visible [OF wf _ _ that]
    by (auto simp: update_user_memory_def user_memories_keyed_def dest!: take_option_mem get_user_memory_Some
        split: option.splits sum.splits memory_ref.splits)
qed

lemma isolated_forget_user_memory: "isolated u (\<lambda>d. snd (forget_user_memory u i d))"
proof (rule isolatedI)
  fix d assume wf: "db_wf d"
  show "db_wf (snd (forget_user_memory u i d))"
    using wf by (auto simp: forget_user_memory_def db_wf_def session_owned_def distinct_map_filter')
  show "visible v (snd (forget_user_memory u i d)) = visible v d" if v: "v \<noteq> u" for v
  proof (cases "get_user_memory u i d")
    case (Some m)
    have other: "um_id x \<noteq> i" if "x \<in> set (db_user_memory d)" "um_user x = v" for x
      using get_user_memory_Some [OF Some] distinct_map_eq [OF db_wfD(3) [OF wf] that(1), of m] that(2) v by metis
    have "filter (\<lambda>x. um_user x = v) (filter (\<lambda>m. um_id m \<noteq> i) (db_user_memory d)) =
        filter (\<lambda>x. um_user x = v) (db_user_memory d)"
      by (rule filter_filter_other) (use other in blast)
    then show ?thesis using other
      by (intro visible_eqI) (simp_all add: forget_user_memory_def rows_of_def Some)
  qed (simp add: forget_user_memory_def)
qed

text \<open>Memories of a session.\<close>

lemma isolated_replace_context_memory:
  assumes wf: "db_wf d" and r: "r \<in> set (db_children d)" "ch_table r = ContextMemoryTable" "ch_user r = u"
  shows "db_wf (snd (replace_context_memory r now c d))"
    and "v \<noteq> u \<Longrightarrow> visible v (snd (replace_context_memory r now c d)) = visible v d"
proof -
  have "find_row ContextMemoryTable (ch_id r) d \<noteq> None"
    using r by (auto simp: find_row_def find_None_iff key_of_def)
  then obtain x where x: "find_row ContextMemoryTable (ch_id r) d = Some x" by blast
  then have "r = x" using find_row_Some(3) [OF wf x r(1)] r(2) by (simp add: key_of_def)
  then have x: "read_row ContextMemoryTable u (ch_id r) d = Some x" using x r(3) by (simp add: read_row_def)
  note both = isolated_change_both [OF _ wf x, where f = "\<lambda>r. r\<lparr>ch_updated := now\<rparr>" and
    g = "\<lambda>m. m(''content'' \<mapsto> c)"]
  show "db_wf (snd (replace_context_memory r now c d))"
    using both(1) by (simp add: replace_context_memory_def key_of_def)
  show "visible v (snd (replace_context_memory r now c d)) = visible v d" if "v \<noteq> u"
    using both(2) [OF _ that] by (simp add: replace_context_memory_def key_of_def)
qed

lemma isolated_record_context_memory:
  assumes "ch_table r = ContextMemoryTable"
  shows "isolated u (\<lambda>d. snd (record_context_memory u r c d))"
proof (rule isolatedI)
  have p: "paired r (Some [''content'' \<mapsto> c])" using assms by (simp add: paired_def keyed_by_session_def)
  fix d assume wf: "db_wf d"
  have known: "x \<in> set (db_children d) \<and> ch_table x = ContextMemoryTable \<and> ch_user x = u"
    if "take_option (context_memories_keyed (ch_session r) key d) = Inr (Some x)" "write_owned u r d" for x key
  proof -
    have x: "x \<in> set (db_children d)" "ch_table x = ContextMemoryTable" "ch_session x = ch_session r"
      using take_option_mem [OF that(1)] by (simp_all add: context_memories_keyed_def)
    have "session_owned (ch_user x) (ch_session r) d" using db_wfD(4) [OF wf x(1)] x(3) by simp
    then show ?thesis using x one_owner [OF wf] that(2) by (auto simp: write_owned_def)
  qed
  show "db_wf (snd (record_context_memory u r c d))"
    using wf create_row_wf [OF wf _ p] isolated_replace_context_memory(1) [OF wf] known
    by (auto simp: record_context_memory_def write_owned_def split: option.splits sum.splits)
  show "visible v (snd (record_context_memory u r c d)) = visible v d" if "v \<noteq> u" for v
    using create_row_visible [OF wf, of r v] isolated_replace_context_memory(2) [OF wf _ _ _ that] known that
    by (auto simp: record_context_memory_def write_owned_def split: option.splits sum.splits)
qed

lemma get_context_memory_Some:
  assumes "db_wf d" "get_context_memory u s i d = Some r"
  shows "r \<in> set (db_children d) \<and> key_of r = (ContextMemoryTable, i) \<and> ch_user r = u \<and> ch_session r = s"
proof -
  have "find_row ContextMemoryTable i d = Some r" "ch_user r = u" "ch_session r = s"
    using assms(2) by (simp_all add: get_context_memory_def split: option.splits if_splits)
  then show ?thesis using find_row_Some [OF assms(1)] by blast
qed

lemma isolated_update_context_memory: "isolated u (\<lambda>d. snd (update_context_memory now u s target c d))"
proof (rule isolatedI)
  fix d assume wf: "db_wf d"
  let ?found = "case target of MemoryById i \<Rightarrow> Ok (get_context_memory u s i d)
    | MemoryByKey key \<Rightarrow> take_option (filter (\<lambda>r. ch_user r = u) (context_memories_keyed s key d))"
  have known: "x \<in> set (db_children d) \<and> ch_table x = ContextMemoryTable \<and> ch_user x = u"
    if "?found = Inr (Some x)" for x
  proof (cases target)
    case (MemoryById i)
    then show ?thesis using that get_context_memory_Some [OF wf, of u s i x] by (simp add: key_of_def)
  next
    case (MemoryByKey key)
    then show ?thesis using that
      by (auto dest!: take_option_mem simp: context_memories_keyed_def)
  qed
  have eq: "snd (update_context_memory now u s target c d) =
      (case ?found of Inr (Some x) \<Rightarrow> snd (replace_context_memory x now c d) | _ \<Rightarrow> d)"
    by (simp add: update_context_memory_def split: sum.splits option.splits)
  show "db_wf (snd (update_context_memory now u s target c d))"
    unfolding eq using wf isolated_replace_context_memory(1) [OF wf] known
    by (auto split: sum.splits option.splits)
  show "visible v (snd (update_context_memory now u s target c d)) = visible v d" if "v \<noteq> u" for v
    unfolding eq using isolated_replace_context_memory(2) [OF wf _ _ _ that] known
    by (auto split: sum.splits option.splits)
qed

lemma isolated_forget_context_memory: "isolated u (\<lambda>d. snd (forget_context_memory u s i d))"
proof (rule isolatedI)
  fix d assume wf: "db_wf d"
  let ?k = "(ContextMemoryTable, i)"
  let ?d = "d\<lparr>db_children := filter (\<lambda>r. key_of r \<noteq> ?k) (db_children d), db_contents := (db_contents d)(?k := None)\<rparr>"
  have "db_wf ?d"
  proof (rule db_wfI)
    have "dom ((db_contents d)(?k := None)) =
        key_of ` {r \<in> set (filter (\<lambda>r. \<not> key_of r = ?k) (db_children d)). has_content (ch_table r)}"
    proof (rule removed_contents [OF wf])
      fix k
      have "k \<noteq> ?k \<or> db_contents d k = None \<or> (\<exists>r\<in>set (db_children d). key_of r = k)"
        using db_wfD(6) [OF wf] by (metis (no_types, lifting) domIff image_iff mem_Collect_eq)
      then show "((db_contents d)(?k := None)) k =
          (if has_content (fst k) \<and> (\<exists>r\<in>set (db_children d). key_of r = k \<and> key_of r = ?k)
           then None else db_contents d k)"
        by auto
    qed
    then show "dom (db_contents ?d) = key_of ` {r \<in> set (db_children ?d). has_content (ch_table r)}" by simp
  qed (use db_wfD [OF wf] in \<open>simp_all add: distinct_map_filter' session_owned_def\<close>)
  then show "db_wf (snd (forget_context_memory u s i d))" using wf by (simp add: forget_context_memory_def)
  show "visible v (snd (forget_context_memory u s i d)) = visible v d" if v: "v \<noteq> u" for v
  proof (cases "get_context_memory u s i d")
    case (Some x)
    have other: "key_of r \<noteq> ?k" if "r \<in> set (db_children d)" "ch_user r = v" for r
      using get_context_memory_Some [OF wf Some] distinct_map_eq [OF db_wfD(2) [OF wf] that(1), of x] that(2) v
      by metis
    have "filter (\<lambda>r. ch_user r = v) (filter (\<lambda>r. key_of r \<noteq> ?k) (db_children d)) =
        filter (\<lambda>r. ch_user r = v) (db_children d)"
      by (rule filter_filter_other) (use other in blast)
    then show ?thesis using other
      by (intro visible_eqI) (simp_all add: forget_context_memory_def rows_of_def Some)
  qed (simp add: forget_context_memory_def)
qed

section \<open>Everything a user can do\<close>

inductive tenant_step :: "string \<Rightarrow> database \<Rightarrow> database \<Rightarrow> bool" for u where
  Create: "se_user s = u \<Longrightarrow> tenant_step u d (snd (create_session s d))"
| Update: "tenant_step u d (snd (update_session u s d))"
| Archive: "tenant_step u d (snd (archive_session now u i d))"
| Delete: "tenant_step u d (snd (delete_session u i d))"
| Append: "paired row content \<Longrightarrow> tenant_step u d (snd (append_row u row content d))"
| RunState: "ch_table row = RunStateTable \<Longrightarrow> keyed_by_session row \<Longrightarrow>
    tenant_step u d (snd (put_run_state u row d))"
| RunInput: "ch_table row = RunInputTable \<Longrightarrow> keyed_by_session row \<Longrightarrow>
    tenant_step u d (snd (put_run_input u row c d))"
| Lock: "ch_table row = RunStateTable \<Longrightarrow> keyed_by_session row \<Longrightarrow>
    tenant_step u d (snd (take_run_lock u row d))"
| PlanStatus: "tenant_step u d (snd (change_plan_status now u i plan d))"
| DiffStatus: "tenant_step u d (snd (change_diff_status now u i diff d))"
| CallOutcome: "tenant_step u d (snd (change_tool_call_outcome now u i call result failure d))"
| Content: "tenant_step u d (snd (put_content u t i secret d))"
| RecordUser: "tenant_step u d (snd (record_user_memory u m content d))"
| UpdateUser: "tenant_step u d (snd (update_user_memory now u target content d))"
| ForgetUser: "tenant_step u d (snd (forget_user_memory u i d))"
| RecordContext: "ch_table row = ContextMemoryTable \<Longrightarrow>
    tenant_step u d (snd (record_context_memory u row secret d))"
| UpdateContext: "tenant_step u d (snd (update_context_memory now u i target secret d))"
| ForgetContext: "tenant_step u d (snd (forget_context_memory u s i d))"

lemmas isolated_operations = isolated_create_session isolated_update_session isolated_archive_session
  isolated_delete_session isolated_append_row isolated_put_run_state isolated_put_run_input
  isolated_take_run_lock isolated_plan_status isolated_diff_status isolated_tool_call_outcome
  isolated_put_content isolated_record_user_memory isolated_update_user_memory
  isolated_forget_user_memory isolated_record_context_memory isolated_update_context_memory
  isolated_forget_context_memory

lemma tenant_step_isolated:
  assumes "tenant_step u d d'" "db_wf d"
  shows "db_wf d' \<and> (\<forall>v. v \<noteq> u \<longrightarrow> visible v d' = visible v d)"
  using assms
  by cases (simp_all add: isolated_operations [unfolded isolated_def, rule_format])

text \<open>A history: each step made by some user.\<close>

inductive tenant_run :: "(string \<Rightarrow> bool) \<Rightarrow> database \<Rightarrow> database \<Rightarrow> bool" for allowed where
  Done: "tenant_run allowed d d"
| More: "tenant_run allowed d e \<Longrightarrow> allowed u \<Longrightarrow> tenant_step u e f \<Longrightarrow> tenant_run allowed d f"

lemma tenant_run_isolated:
  assumes "tenant_run allowed d d'" "db_wf d"
  shows "db_wf d' \<and> (\<forall>v. \<not> allowed v \<longrightarrow> visible v d' = visible v d)"
  using assms
proof (induction rule: tenant_run.induct)
  case (More d e u f)
  have e: "db_wf e" "\<And>v. \<not> allowed v \<Longrightarrow> visible v e = visible v d" using More.IH More.prems by blast+
  have "db_wf f" "\<And>v. v \<noteq> u \<Longrightarrow> visible v f = visible v e"
    using tenant_step_isolated [OF More.hyps(3) e(1)] by blast+
  moreover have "v \<noteq> u" if "\<not> allowed v" for v using that More.hyps(2) by blast
  ultimately show ?case using e(2) by metis
qed simp

section \<open>Reads\<close>

lemma find_owned:
  "distinct (map k xs) \<Longrightarrow>
   (case List.find (\<lambda>x. k x = i) xs of Some x \<Rightarrow> if owner x = u then Some x else None | None \<Rightarrow> None) =
   List.find (\<lambda>x. k x = i) (filter (\<lambda>x. owner x = u) xs)"
proof (induction xs)
  case (Cons x xs)
  then show ?case
  proof (cases "k x = i")
    case True
    then have "List.find (\<lambda>y. k y = i) (filter (\<lambda>y. owner y = u) xs) = None"
      using Cons.prems True by (auto simp: find_None_iff image_iff)
    then show ?thesis using True by simp
  qed simp
qed simp

lemma visible_parts:
  assumes "visible u d' = visible u d"
  shows "filter (\<lambda>s. se_user s = u) (db_sessions d') = filter (\<lambda>s. se_user s = u) (db_sessions d)"
    and "filter (\<lambda>m. um_user m = u) (db_user_memory d') = filter (\<lambda>m. um_user m = u) (db_user_memory d)"
    and "rows_of u d' = rows_of u d"
    and "\<And>r. r \<in> set (rows_of u d) \<Longrightarrow> db_contents d' (key_of r) = db_contents d (key_of r)"
    and "\<And>m. m \<in> set (db_user_memory d) \<Longrightarrow> um_user m = u \<Longrightarrow>
      db_user_memory_content d' (um_id m) = db_user_memory_content d (um_id m)"
proof -
  have pairs: "xs = ys \<and> (\<forall>x\<in>set xs. f x = g x)" if "map (\<lambda>x. (x, f x)) xs = map (\<lambda>x. (x, g x)) ys"
    for f g :: "'x \<Rightarrow> 'y" and xs ys
    using that by (induction xs arbitrary: ys) (auto simp: Cons_eq_map_conv)
  show "filter (\<lambda>s. se_user s = u) (db_sessions d') = filter (\<lambda>s. se_user s = u) (db_sessions d)"
    using assms by (simp add: visible_def)
  have "map (\<lambda>m. (m, db_user_memory_content d' (um_id m))) (filter (\<lambda>m. um_user m = u) (db_user_memory d')) =
      map (\<lambda>m. (m, db_user_memory_content d (um_id m))) (filter (\<lambda>m. um_user m = u) (db_user_memory d))"
    using assms by (simp add: visible_def)
  from pairs [OF this] have contents: "\<forall>m\<in>set (filter (\<lambda>m. um_user m = u) (db_user_memory d')).
      db_user_memory_content d' (um_id m) = db_user_memory_content d (um_id m)" ..
  from pairs [OF \<open>map (\<lambda>m. (m, db_user_memory_content d' (um_id m))) _ = _\<close>]
  show memories: "filter (\<lambda>m. um_user m = u) (db_user_memory d') = filter (\<lambda>m. um_user m = u) (db_user_memory d)"
    by blast
  show "db_user_memory_content d' (um_id m) = db_user_memory_content d (um_id m)"
    if "m \<in> set (db_user_memory d)" "um_user m = u" for m
  proof -
    have "m \<in> set (filter (\<lambda>m. um_user m = u) (db_user_memory d'))" unfolding memories using that by simp
    then show ?thesis using contents by blast
  qed
  have "map (\<lambda>r. (r, db_contents d' (key_of r))) (rows_of u d') =
      map (\<lambda>r. (r, db_contents d (key_of r))) (rows_of u d)"
    using assms by (simp add: visible_def)
  note rows = pairs [OF this]
  show "rows_of u d' = rows_of u d" using rows by blast
  show "db_contents d' (key_of r) = db_contents d (key_of r)" if "r \<in> set (rows_of u d)" for r
    using rows that by auto
qed

lemma get_session_visible:
  assumes "db_wf d" "db_wf d'" "visible u d' = visible u d"
  shows "get_session u i d' = get_session u i d"
  unfolding get_session_def find_owned [OF db_wfD(1) [OF assms(1)]] find_owned [OF db_wfD(1) [OF assms(2)]]
  using visible_parts(1) [OF assms(3)] by simp

lemma read_row_visible:
  assumes "db_wf d" "db_wf d'" "visible u d' = visible u d"
  shows "read_row t u i d' = read_row t u i d"
  unfolding read_row_def find_row_def find_owned [OF db_wfD(2) [OF assms(1)]]
    find_owned [OF db_wfD(2) [OF assms(2)]]
  using visible_parts(3) [OF assms(3)] by (simp add: rows_of_def)

lemma session_rows_owned:
  assumes "db_wf d" "session_owned u s d"
  shows "filter (\<lambda>r. ch_table r = t \<and> ch_session r = s) (db_children d) =
    filter (\<lambda>r. ch_table r = t \<and> ch_session r = s) (rows_of u d)"
  using db_wfD(4) [OF assms(1)] one_owner [OF assms(1) _ assms(2)]
  by (auto simp: rows_of_def conj_commute intro!: filter_cong)

lemma list_session_rows_visible:
  assumes "db_wf d" "db_wf d'" "visible u d' = visible u d" "session_owned u s d" "session_owned u s d'"
  shows "list_session_rows t s d' = list_session_rows t s d"
    and "set (list_session_rows t s d) \<subseteq> set (rows_of u d)"
  using session_rows_owned [OF assms(1,4)] session_rows_owned [OF assms(2,5)] visible_parts(3) [OF assms(3)]
  by (auto simp: list_session_rows_def oldest_first_def set_sort_by)

lemma owned_rows_visible:
  assumes "visible u d' = visible u d"
  shows "owned_rows t u s d' = owned_rows t u s d" "set (owned_rows t u s d) \<subseteq> set (rows_of u d)"
proof -
  have "owned_rows t u s d = filter (\<lambda>r. ch_table r = t \<and> ch_session r = s) (rows_of u d)" for d
    by (auto simp: owned_rows_def rows_of_def intro!: filter_cong)
  then show "owned_rows t u s d' = owned_rows t u s d" "set (owned_rows t u s d) \<subseteq> set (rows_of u d)"
    using visible_parts(3) [OF assms] by auto
qed

lemma pair_by_key_cong:
  "(\<And>r. r \<in> set rs \<Longrightarrow> c (k r) = c' (k r)) \<Longrightarrow> pair_by_key k c rs = pair_by_key k c' rs"
  by (induction rs) (auto simp: pair_by_key_def map_filter_simps split: option.splits)

lemma sessions_visible:
  assumes "visible u d' = visible u d"
  shows "list_sessions u d' = list_sessions u d" "search_sessions u scope title d' = search_sessions u scope title d"
proof -
  have filters: "filter (\<lambda>s. se_user s = u \<and> q s) xs = filter q (filter (\<lambda>s. se_user s = u) xs)"
    for q and xs :: "session_entity list"
    by (induction xs) simp_all
  show "search_sessions u scope title d' = search_sessions u scope title d"
    unfolding search_sessions_def filters visible_parts(1) [OF assms] ..
qed (simp only: list_sessions_def visible_parts(1) [OF assms])

lemma contents_visible:
  assumes "visible u d' = visible u d" "set rows \<subseteq> set (rows_of u d)"
  shows "pair_by_key key_of (db_contents d') rows = pair_by_key key_of (db_contents d) rows"
  by (rule pair_by_key_cong) (use visible_parts(4) [OF assms(1)] assms(2) in blast)

lemma owned_visible:
  assumes "db_wf d" "db_wf d'" "visible u d' = visible u d" "get_session u i d = Some s"
  shows "list_session_rows t (se_id s) d' = list_session_rows t (se_id s) d"
    and "set (list_session_rows t (se_id s) d) \<subseteq> set (rows_of u d)"
proof -
  have "get_session u i d' = Some s" using assms(4) get_session_visible [OF assms(1-3)] by simp
  then have "session_owned u (se_id s) d" "session_owned u (se_id s) d'"
    using get_session_Some(1,3) [of u i _ s] assms(4) unfolding session_owned_def by blast+
  from list_session_rows_visible [OF assms(1-3) this]
  show "list_session_rows t (se_id s) d' = list_session_rows t (se_id s) d"
    and "set (list_session_rows t (se_id s) d) \<subseteq> set (rows_of u d)" .
qed

lemma session_state_visible:
  assumes "db_wf d" "db_wf d'" "visible u d' = visible u d"
  shows "get_session_state u i d' = get_session_state u i d"
  unfolding get_session_state_def get_session_visible [OF assms]
  by (cases "get_session u i d") (simp_all add: owned_visible(1) [OF assms])

lemma trace_visible:
  assumes "db_wf d" "db_wf d'" "visible u d' = visible u d"
  shows "get_session_trace_events u i limit offset d' = get_session_trace_events u i limit offset d"
    and "get_session_cost_events u i d' = get_session_cost_events u i d"
proof -
  have trace: "trace_session u i d' = trace_session u i d"
    by (simp only: trace_session_def get_session_visible [OF assms])
  have page: "pair_by_key key_of (db_contents d') (f (list_session_rows TraceTable (se_id s) d')) =
      pair_by_key key_of (db_contents d) (f (list_session_rows TraceTable (se_id s) d))"
    if "trace_session u i d = Some s" "\<And>xs. set (f xs) \<subseteq> set xs" for s f
  proof -
    have s: "get_session u i d = Some s" using that(1) by (auto simp: trace_session_def split: option.splits if_splits)
    show ?thesis unfolding owned_visible(1) [OF assms s]
      by (rule contents_visible [OF assms(3)]) (use that(2) owned_visible(2) [OF assms s] in blast)
  qed
  show "get_session_trace_events u i limit offset d' = get_session_trace_events u i limit offset d"
    unfolding get_session_trace_events_def trace
    using page [where f = "\<lambda>xs. take limit (drop offset xs)"]
    by (cases "trace_session u i d") (auto dest: in_set_takeD in_set_dropD)
  show "get_session_cost_events u i d' = get_session_cost_events u i d"
    unfolding get_session_cost_events_def trace
    using page [where f = "filter (\<lambda>r. ch_event r = Some CostEvent)"]
    by (cases "trace_session u i d") auto
qed

lemma rows_with_content_visible:
  assumes "visible u d' = visible u d"
  shows "list_messages_with_content u i d' = list_messages_with_content u i d"
    and "list_context_memory_with_content u i d' = list_context_memory_with_content u i d"
  unfolding list_messages_with_content_def list_context_memory_with_content_def list_context_memory_def
    owned_rows_visible(1) [OF assms]
  by (rule contents_visible [OF assms],
      use owned_rows_visible(2) [OF assms] in \<open>simp add: oldest_first_def newest_first_def set_sort_by\<close>)+

lemma content_visible:
  assumes "db_wf d" "db_wf d'" "visible u d' = visible u d"
  shows "read_content u t i d' = read_content u t i d"
proof (cases "read_row t u i d")
  case (Some r)
  then have "r \<in> set (rows_of u d)" "key_of r = (t, i)"
    using read_row_Some(1-3) [OF assms(1) Some] by (simp_all add: rows_of_def)
  then have "db_contents d' (t, i) = db_contents d (t, i)" using visible_parts(4) [OF assms(3)] by metis
  then show ?thesis by (simp add: read_content_def read_row_visible [OF assms] Some split: option.split)
qed (simp add: read_content_def read_row_visible [OF assms] split: option.splits)

lemma user_memory_visible:
  assumes same: "visible u d' = visible u d"
  shows "list_user_memory_with_content u d' = list_user_memory_with_content u d"
proof -
  have rows: "list_user_memory u d' = list_user_memory u d"
    by (simp only: list_user_memory_def visible_parts(2) [OF same])
  have "db_user_memory_content d' (um_id m) = db_user_memory_content d (um_id m)"
    if "m \<in> set (list_user_memory u d)" for m
  proof (rule visible_parts(5) [OF same])
    show "m \<in> set (db_user_memory d)" "um_user m = u"
      using that unfolding list_user_memory_def newest_first_def set_sort_by by simp_all
  qed
  then show ?thesis
    unfolding list_user_memory_with_content_def rows by (intro pair_by_key_cong)
qed

lemmas reads_visible = get_session_visible sessions_visible session_state_visible trace_visible
  rows_with_content_visible content_visible user_memory_visible

end
