(* ===== verification/Authentication.thy ===== *)
theory Authentication
  imports Tenancy Api_Error
begin

text \<open>
  Credentials and sign-in: the shape of API keys and session tokens
  (\<^verbatim>\<open>smista-core/src/credential.rs\<close>), the authenticator (\<^verbatim>\<open>smista-router/src/auth.rs\<close> and
  \<^verbatim>\<open>auth/\<close>) and the codes its errors are reported under (\<^verbatim>\<open>web/error.rs\<close>).

  The hash functions (\<^verbatim>\<open>argon2\<close>, \<^verbatim>\<open>sha-crypt\<close>) and the uuid parser are the parameter record
  \<open>auth_runtime\<close>; a salt is a number, and the identities and secrets that the code draws at
  random are arguments.
\<close>

section \<open>Credentials\<close>

record auth_runtime =
  ar_parse_uuid :: "string \<Rightarrow> string option"
  ar_argon2 :: "nat \<Rightarrow> string \<Rightarrow> string option"
  ar_argon2_verify :: "string \<Rightarrow> string \<Rightarrow> bool option"  \<comment> \<open>\<open>None\<close>: the hash does not parse\<close>
  ar_sha512 :: "nat \<Rightarrow> string \<Rightarrow> string option"
  ar_sha512_verify :: "string \<Rightarrow> string \<Rightarrow> bool"

definition dash :: char where
  "dash = CHR ''-''"

text \<open>\<open>Uuid::simple\<close>: the uuid without its hyphens.\<close>

definition simple_uuid :: "string \<Rightarrow> string" where
  "simple_uuid u = filter (\<lambda>c. c \<noteq> dash) u"

text \<open>The documented behaviour of the parser and of the hashes.\<close>

definition uuid_law :: "auth_runtime \<Rightarrow> string \<Rightarrow> bool" where
  "uuid_law rt u \<longleftrightarrow> ar_parse_uuid rt (simple_uuid u) = Some u"

definition hash_law :: "auth_runtime \<Rightarrow> bool" where
  "hash_law rt \<longleftrightarrow> (\<forall>salt secret h. ar_sha512 rt salt secret = Some h \<longrightarrow> ar_sha512_verify rt secret h)"

definition api_key_prefix :: string where
  "api_key_prefix = ''sk-smista-api01-''"

definition api_key_from_parts :: "string \<Rightarrow> string \<Rightarrow> string" where
  "api_key_from_parts user secret = api_key_prefix @ simple_uuid user @ dash # secret"

definition session_token_from_parts :: "string \<Rightarrow> string \<Rightarrow> string" where
  "session_token_from_parts token secret = simple_uuid token @ dash # secret"

definition parse_api_key_user_id :: "auth_runtime \<Rightarrow> string \<Rightarrow> (parse_error, string) result" where
  "parse_api_key_user_id rt key =
     (case strip_prefix api_key_prefix key of
        None \<Rightarrow> Err InvalidApiKey
      | Some body \<Rightarrow>
          (case split_once dash body of
             None \<Rightarrow> Err InvalidApiKey
           | Some (user, secret) \<Rightarrow>
               if secret = [] then Err InvalidApiKey
               else (case ar_parse_uuid rt user of Some u \<Rightarrow> Ok u | None \<Rightarrow> Err InvalidApiKey)))"

definition parse_session_token_id :: "auth_runtime \<Rightarrow> string \<Rightarrow> (parse_error, string) result" where
  "parse_session_token_id rt token =
     (case split_once dash token of
        None \<Rightarrow> Err InvalidSessionToken
      | Some (i, secret) \<Rightarrow>
          if secret = [] then Err InvalidSessionToken
          else (case ar_parse_uuid rt i of Some u \<Rightarrow> Ok u | None \<Rightarrow> Err InvalidSessionToken))"

lemma no_dash: "dash \<notin> set (simple_uuid u)"
  by (simp add: simple_uuid_def)

lemma api_key_parses:
  "uuid_law rt u \<Longrightarrow> secret \<noteq> [] \<Longrightarrow> parse_api_key_user_id rt (api_key_from_parts u secret) = Ok u"
  by (simp add: parse_api_key_user_id_def api_key_from_parts_def strip_prefix_def no_dash uuid_law_def)

lemma session_token_parses:
  "uuid_law rt i \<Longrightarrow> secret \<noteq> [] \<Longrightarrow> parse_session_token_id rt (session_token_from_parts i secret) = Ok i"
  by (simp add: parse_session_token_id_def session_token_from_parts_def no_dash uuid_law_def)

section \<open>The authenticator\<close>

datatype authenticator_error = ExpiredToken | InternalAuthError | InvalidApiKeyAuth | InvalidHash
  | InvalidToken | RevokedToken | UserNotFound

fun auth_error_code :: "authenticator_error \<Rightarrow> api_error_code" where
  "auth_error_code ExpiredToken = ApiTokenExpired"
| "auth_error_code InternalAuthError = ApiInternalError"
| "auth_error_code InvalidHash = ApiInternalError"
| "auth_error_code InvalidApiKeyAuth = ApiInvalidApiKey"
| "auth_error_code UserNotFound = ApiInvalidApiKey"
| "auth_error_code InvalidToken = ApiInvalidToken"
| "auth_error_code RevokedToken = ApiTokenRevoked"

record session_token =
  sn_expires_at :: nat
  sn_token :: string

definition new_user :: "string \<Rightarrow> string \<Rightarrow> user_entity" where
  "new_user i hash = \<lparr>us_id = i, us_api_key_hash = hash, us_disabled_at = None\<rparr>"

definition bootstrap_user ::
  "auth_runtime \<Rightarrow> nat \<Rightarrow> string \<Rightarrow> string \<Rightarrow> database \<Rightarrow>
   (authenticator_error, string \<times> string) result \<times> database" where
  "bootstrap_user rt salt user_id secret d =
     (let key = api_key_from_parts user_id secret
      in case ar_argon2 rt salt key of
           None \<Rightarrow> (Err InternalAuthError, d)
         | Some hash \<Rightarrow>
             (case create_user (new_user user_id hash) d of
                (Inl _, d') \<Rightarrow> (Err InternalAuthError, d')
              | (Inr _, d') \<Rightarrow> (Ok (user_id, key), d')))"

definition sign_in ::
  "auth_runtime \<Rightarrow> nat \<Rightarrow> nat \<Rightarrow> nat \<Rightarrow> string \<Rightarrow> string \<Rightarrow> string \<Rightarrow> database \<Rightarrow>
   (authenticator_error, session_token) result \<times> database" where
  "sign_in rt now ttl salt token_id secret api_key d =
     (case parse_api_key_user_id rt api_key of
        Inl _ \<Rightarrow> (Err InvalidApiKeyAuth, d)
      | Inr user_id \<Rightarrow>
          (case get_user user_id d of
             None \<Rightarrow> (Err UserNotFound, d)
           | Some user \<Rightarrow>
               (case ar_argon2_verify rt api_key (us_api_key_hash user) of
                  None \<Rightarrow> (Err InvalidHash, d)
                | Some False \<Rightarrow> (Err InvalidApiKeyAuth, d)
                | Some True \<Rightarrow>
                    let token = session_token_from_parts token_id secret
                    in case ar_sha512 rt salt token of
                         None \<Rightarrow> (Err InternalAuthError, d)
                       | Some hash \<Rightarrow>
                           let row = new_auth_token now token_id hash user ttl
                           in case create_token row d of
                                (Inl _, d') \<Rightarrow> (Err InternalAuthError, d')
                              | (Inr _, d') \<Rightarrow>
                                  (Ok \<lparr>sn_expires_at = ak_expires row, sn_token = token\<rparr>, d'))))"

definition authenticate_token ::
  "auth_runtime \<Rightarrow> nat \<Rightarrow> string \<Rightarrow> database \<Rightarrow> (authenticator_error, string) result" where
  "authenticate_token rt now token d =
     (case parse_session_token_id rt token of
        Inl _ \<Rightarrow> Err InvalidToken
      | Inr i \<Rightarrow>
          (case get_token i d of
             None \<Rightarrow> Err InvalidToken
           | Some stored \<Rightarrow>
               if \<not> ar_sha512_verify rt token (ak_hash stored) then Err InvalidToken
               else if ak_revoked stored \<noteq> None then Err RevokedToken
               else if ak_expires stored \<le> now then Err ExpiredToken
               else Ok (ak_user stored)))"

definition sign_out ::
  "auth_runtime \<Rightarrow> nat \<Rightarrow> string \<Rightarrow> database \<Rightarrow> (authenticator_error, unit) result \<times> database" where
  "sign_out rt now token d =
     (case parse_session_token_id rt token of
        Inl _ \<Rightarrow> (Err InvalidToken, d)
      | Inr i \<Rightarrow>
          (case revoke_token now i d of
             (Inl _, d') \<Rightarrow> (Err InternalAuthError, d')
           | (Inr _, d') \<Rightarrow> (Ok (), d')))"

section \<open>Lemmas on tokens\<close>

lemma get_user_id: "get_user i d = Some u \<Longrightarrow> us_id u = i"
  using find_key_Some by (fastforce simp: get_user_def)

lemma sign_in_Ok:
  assumes "sign_in rt now ttl salt token_id secret api_key d = (Ok t, d')"
  obtains user hash where
    "parse_api_key_user_id rt api_key = Ok (us_id user)" "get_user (us_id user) d = Some user"
    "ar_argon2_verify rt api_key (us_api_key_hash user) = Some True"
    "sn_token t = session_token_from_parts token_id secret" "sn_expires_at t = now + ttl"
    "ar_sha512 rt salt (sn_token t) = Some hash" "token_id \<notin> ak_id ` set (db_tokens d)"
    "d' = d\<lparr>db_tokens := db_tokens d @ [new_auth_token now token_id hash user ttl]\<rparr>"
proof -
  obtain u where u: "parse_api_key_user_id rt api_key = Inr u"
    using assms by (cases "parse_api_key_user_id rt api_key") (simp_all add: sign_in_def)
  obtain user where user: "get_user u d = Some user"
    using assms by (cases "get_user u d") (simp_all add: sign_in_def u)
  have verified: "ar_argon2_verify rt api_key (us_api_key_hash user) = Some True"
    using assms by (simp add: sign_in_def u user split: option.splits bool.splits)
  let ?token = "session_token_from_parts token_id secret"
  obtain hash where hash: "ar_sha512 rt salt ?token = Some hash"
    using assms by (cases "ar_sha512 rt salt ?token") (simp_all add: sign_in_def u user verified Let_def)
  have "token_id \<notin> ak_id ` set (db_tokens d) \<and> sn_token t = ?token \<and> sn_expires_at t = now + ttl \<and>
      d' = d\<lparr>db_tokens := db_tokens d @ [new_auth_token now token_id hash user ttl]\<rparr>"
    using assms
    by (auto simp: sign_in_def u user verified hash Let_def create_token_def new_auth_token_def split: if_splits)
  then show thesis using u user verified hash get_user_id [OF user] by (intro that [of user hash]) simp_all
qed

lemma find_append_fresh:
  "(\<forall>x\<in>set xs. \<not> p x) \<Longrightarrow> List.find p (xs @ [y]) = (if p y then Some y else None)"
  by (induction xs) auto

lemma find_map_id:
  assumes "\<And>x. k (f x) = k x"
  shows "List.find (\<lambda>x. k x = i) (map f xs) = map_option f (List.find (\<lambda>x. k x = i) xs)"
  using assms by (induction xs) auto

lemma get_token_revoked:
  "get_token i (snd (revoke_token now j d)) =
     map_option (\<lambda>t. if ak_id t = j then t\<lparr>ak_revoked := Some now\<rparr> else t) (get_token i d)"
proof (cases "j \<in> ak_id ` set (db_tokens d)")
  case True
  then show ?thesis by (simp add: revoke_token_def get_token_def find_map_id)
next
  case False
  have "map_option (\<lambda>t. if ak_id t = j then t\<lparr>ak_revoked := Some now\<rparr> else t) (get_token i d) = get_token i d"
    using False find_key_Some [of _ "db_tokens d"] by (cases "get_token i d") (force simp: get_token_def)+
  then show ?thesis using False by (simp add: revoke_token_def)
qed

lemma sign_out_Ok:
  assumes "sign_out rt now token d = (Ok (), d')"
  obtains i where "parse_session_token_id rt token = Ok i" "d' = snd (revoke_token now i d)"
  using assms by (auto simp: sign_out_def split: sum.splits prod.splits)

text \<open>Cleaning up tokens changes the reason a dead token is refused, never the outcome.\<close>

lemma authenticate_cleanup:
  assumes "distinct (map ak_id (db_tokens d))"
  shows "authenticate_token rt now token (delete_expired_tokens now d) = Ok u \<longleftrightarrow> authenticate_token rt now token d = Ok u"
proof -
  have find: "List.find (\<lambda>t. ak_id t = i) (filter p (db_tokens d)) =
      (case get_token i d of Some t \<Rightarrow> if p t then Some t else None | None \<Rightarrow> None)" for i p
    using find_owned [OF assms, where owner = p and u = True and i = i]
    unfolding eq_True get_token_def by (rule sym)
  have "get_token i (delete_expired_tokens now d) =
      (case get_token i d of Some t \<Rightarrow> if token_active now t then Some t else None | None \<Rightarrow> None)" for i
    unfolding delete_expired_tokens_def
    by (subst get_token_def) (auto simp: find token_active_def split: option.split)
  then show ?thesis
    by (auto simp: authenticate_token_def token_active_def split: sum.splits option.splits if_splits)
qed

text \<open>The life of a token: accepted until it expires, refused for ever once signed out.\<close>

lemma signed_in_token:
  assumes "sign_in rt now ttl salt token_id secret api_key d = (Ok t, d')"
    and "hash_law rt" "uuid_law rt token_id" "secret \<noteq> []"
  shows "\<exists>row. parse_session_token_id rt (sn_token t) = Ok token_id \<and> get_token token_id d' = Some row \<and>
    ar_sha512_verify rt (sn_token t) (ak_hash row) \<and> ak_revoked row = None \<and>
    ak_expires row = sn_expires_at t \<and> parse_api_key_user_id rt api_key = Ok (ak_user row)"
  using assms(1)
proof (rule sign_in_Ok)
  fix user hash
  assume user: "parse_api_key_user_id rt api_key = Ok (us_id user)"
    and t: "sn_token t = session_token_from_parts token_id secret" "sn_expires_at t = now + ttl"
    and hash: "ar_sha512 rt salt (sn_token t) = Some hash"
    and fresh: "token_id \<notin> ak_id ` set (db_tokens d)"
    and d': "d' = d\<lparr>db_tokens := db_tokens d @ [new_auth_token now token_id hash user ttl]\<rparr>"
  have "\<forall>x\<in>set (db_tokens d). ak_id x \<noteq> token_id" using fresh by auto
  then have "get_token token_id d' = Some (new_auth_token now token_id hash user ttl)"
    by (simp add: get_token_def d' find_append_fresh new_auth_token_def)
  moreover have "ar_sha512_verify rt (sn_token t) hash" using assms(2) hash by (auto simp: hash_law_def)
  ultimately show ?thesis using session_token_parses [OF assms(3,4)] user t
    by (simp add: new_auth_token_def)
qed

lemma authenticate_row:
  assumes "parse_session_token_id rt token = Ok i" "get_token i d = Some row" "ar_sha512_verify rt token (ak_hash row)"
  shows "authenticate_token rt now token d =
    (if ak_revoked row \<noteq> None then Err RevokedToken else if ak_expires row \<le> now then Err ExpiredToken
     else Ok (ak_user row))"
  using assms by (simp add: authenticate_token_def)

lemma get_token_id: "get_token i d = Some t \<Longrightarrow> ak_id t = i \<and> t \<in> set (db_tokens d)"
  using find_key_Some by (fastforce simp: get_token_def)

lemma sign_out_row:
  assumes "parse_session_token_id rt token = Ok i" "get_token i d = Some row"
  shows "sign_out rt now token d = (Ok (), snd (revoke_token now i d))"
    and "get_token i (snd (revoke_token now i d)) = Some (row\<lparr>ak_revoked := Some now\<rparr>)"
proof -
  have "i \<in> ak_id ` set (db_tokens d)" using get_token_id [OF assms(2)] by auto
  then show "sign_out rt now token d = (Ok (), snd (revoke_token now i d))"
    using assms by (simp add: sign_out_def revoke_token_def)
  show "get_token i (snd (revoke_token now i d)) = Some (row\<lparr>ak_revoked := Some now\<rparr>)"
    using get_token_id [OF assms(2)] assms(2) by (simp add: get_token_revoked)
qed

end
