(* ===== verification/Retention.thy ===== *)
theory Retention
  imports Tenancy
begin

text \<open>
  What a pass of the retention service removes: exactly the sessions whose window is over,
  with every row that belongs to them, and the trace events past theirs. Everything else
  stays, and so does the invariant of the database.
\<close>

definition cutoff :: "nat \<Rightarrow> nat \<Rightarrow> nat" where
  "cutoff now days = now - days * day"

definition expired :: "nat \<Rightarrow> retention_config \<Rightarrow> session_entity \<Rightarrow> bool" where
  "expired now c s \<longleftrightarrow>
     (case se_archived s of
        None \<Rightarrow> se_updated s < cutoff now (rc_session_days c)
      | Some t \<Rightarrow> t < cutoff now (rc_archived_days c))"

lemma delete_rows_wf:
  assumes "db_wf d" "has_content t"
  shows "db_wf (delete_rows t p d)"
proof (rule db_wfI)
  show "dom (db_contents (delete_rows t p d)) =
      key_of ` {r \<in> set (db_children (delete_rows t p d)). has_content (ch_table r)}"
    unfolding delete_rows_simps
  proof (rule removed_contents [OF assms(1)])
    fix k :: "child_table \<times> string"
    show "db_contents (delete_rows t p d) k =
        (if has_content (fst k) \<and> (\<exists>r\<in>set (db_children d). key_of r = k \<and> ch_table r = t \<and> p r)
         then None else db_contents d k)"
      using assms(2) by (auto simp: delete_rows_contents key_of_def)
  qed
  show "session_owned (ch_user r) (ch_session r) (delete_rows t p d) \<and> keyed_by_session r"
    if "r \<in> set (db_children (delete_rows t p d))" for r
    using that db_wfD(4,5) [OF assms(1), of r] by (simp add: session_owned_def)
qed (use db_wfD [OF assms(1)] in \<open>simp_all add: distinct_map_filter'\<close>)

lemma purge_sessions_wf: "db_wf d \<Longrightarrow> db_wf (purge_sessions p d)"
  unfolding purge_sessions_def by (rule cascade_wf)

lemma purged_iff:
  assumes "db_wf d" "s \<in> set (db_sessions d)"
  shows "se_id s \<in> se_id ` set (filter p (db_sessions d)) \<longleftrightarrow> p s"
  using distinct_map_eq [OF db_wfD(1) [OF assms(1)] _ assms(2)] assms(2) by auto

lemma purge_sessions_kept:
  assumes "db_wf d"
  shows "db_sessions (purge_sessions p d) = filter (\<lambda>s. \<not> p s) (db_sessions d)"
    and "db_children (purge_sessions p d) =
      filter (\<lambda>r. \<not> (\<exists>s\<in>set (db_sessions d). se_id s = ch_session r \<and> p s)) (db_children d)"
proof -
  show "db_sessions (purge_sessions p d) = filter (\<lambda>s. \<not> p s) (db_sessions d)"
    unfolding purge_sessions_def cascade_rows set_map
    by (rule filter_cong [OF refl]) (simp only: purged_iff [OF assms] simp_thms)
  show "db_children (purge_sessions p d) =
      filter (\<lambda>r. \<not> (\<exists>s\<in>set (db_sessions d). se_id s = ch_session r \<and> p s)) (db_children d)"
    unfolding purge_sessions_def cascade_rows set_map
    by (rule filter_cong [OF refl]) (auto simp: image_iff)
qed

lemma cleanup_wf: "db_wf d \<Longrightarrow> db_wf (cleanup now c d)"
proof -
  have "db_wf (delete_expired_tokens now d)" if "db_wf d"
    using that by (simp add: delete_expired_tokens_def db_wf_def session_owned_def)
  then show "db_wf d \<Longrightarrow> db_wf (cleanup now c d)"
    by (simp add: cleanup_def purge_traces_def purge_archived_sessions_def purge_old_sessions_def
        purge_sessions_wf delete_rows_wf)
qed

lemma cleanup_sessions:
  assumes "db_wf d"
  shows "db_sessions (cleanup now c d) = filter (\<lambda>s. \<not> expired now c s) (db_sessions d)"
proof -
  let ?a = "delete_expired_tokens now d"
  have a: "db_wf ?a" "db_sessions ?a = db_sessions d"
    using assms by (simp_all add: delete_expired_tokens_def db_wf_def session_owned_def)
  let ?b = "purge_old_sessions now (rc_session_days c) ?a"
  have b: "db_wf ?b" unfolding purge_old_sessions_def by (rule purge_sessions_wf [OF a(1)])
  show ?thesis
    unfolding cleanup_def purge_traces_def delete_rows_simps purge_archived_sessions_def
      purge_sessions_kept(1) [OF b]
    unfolding purge_old_sessions_def purge_sessions_kept(1) [OF a(1)] a(2) filter_filter
    by (auto simp: expired_def cutoff_def split: option.splits intro!: filter_cong)
qed

text \<open>The rows of kept sessions, old trace events apart.\<close>

lemma cleanup_rows:
  assumes "db_wf d"
  shows "db_children (cleanup now c d) =
    filter (\<lambda>r. (\<exists>s\<in>set (db_sessions d). se_id s = ch_session r \<and> \<not> expired now c s) \<and>
        \<not> (ch_table r = TraceTable \<and> ch_created r < cutoff now (rc_trace_days c))) (db_children d)"
proof -
  let ?a = "delete_expired_tokens now d"
  have a: "db_wf ?a" "db_sessions ?a = db_sessions d" "db_children ?a = db_children d"
    using assms by (simp_all add: delete_expired_tokens_def db_wf_def session_owned_def)
  let ?b = "purge_old_sessions now (rc_session_days c) ?a"
  have b: "db_wf ?b" unfolding purge_old_sessions_def by (rule purge_sessions_wf [OF a(1)])
  have bs: "db_sessions ?b = filter (\<lambda>s. \<not> (se_archived s = None \<and> se_updated s < cutoff now (rc_session_days c)))
      (db_sessions d)"
    unfolding purge_old_sessions_def purge_sessions_kept(1) [OF a(1)] a(2) cutoff_def ..
  have bc: "db_children ?b = filter (\<lambda>r. \<not> (\<exists>s\<in>set (db_sessions d). se_id s = ch_session r \<and>
      se_archived s = None \<and> se_updated s < cutoff now (rc_session_days c))) (db_children d)"
    unfolding purge_old_sessions_def purge_sessions_kept(2) [OF a(1)] a(2,3) cutoff_def ..
  have one: "s = s'" if "s \<in> set (db_sessions d)" "s' \<in> set (db_sessions d)" "se_id s = se_id s'" for s s'
    using distinct_map_eq [OF db_wfD(1) [OF assms]] that by blast
  have owner: "\<exists>s\<in>set (db_sessions d). se_id s = ch_session r" if "r \<in> set (db_children d)" for r
    using db_wfD(4) [OF assms that] by (auto simp: session_owned_def)
  show ?thesis
    unfolding cleanup_def purge_traces_def delete_rows_simps purge_archived_sessions_def
      purge_sessions_kept(2) [OF b] bs bc filter_filter cutoff_def [symmetric]
  proof (rule filter_cong [OF refl])
    fix r assume "r \<in> set (db_children d)"
    then obtain s where s: "s \<in> set (db_sessions d)" "se_id s = ch_session r" using owner by blast
    have "(\<exists>x\<in>set (filter Q (db_sessions d)). se_id x = ch_session r \<and> P x) \<longleftrightarrow> Q s \<and> P s" for P Q
    proof -
      have "x = s" if "x \<in> set (db_sessions d)" "se_id x = ch_session r" for x
        using one [OF that(1) s(1)] that(2) s(2) by simp
      then show ?thesis using s unfolding set_filter by blast
    qed
    note only = this [where Q = "\<lambda>_. True", simplified] this
    show "(\<not> (\<exists>s\<in>set (db_sessions d). se_id s = ch_session r \<and> se_archived s = None \<and>
          se_updated s < cutoff now (rc_session_days c)) \<and>
        \<not> (\<exists>s\<in>set (filter (\<lambda>s. \<not> (se_archived s = None \<and> se_updated s < cutoff now (rc_session_days c)))
            (db_sessions d)). se_id s = ch_session r \<and>
              (\<exists>t\<in>set_option (se_archived s). t < cutoff now (rc_archived_days c)))) \<and>
        \<not> (ch_table r = TraceTable \<and> ch_created r < cutoff now (rc_trace_days c)) \<longleftrightarrow>
      (\<exists>s\<in>set (db_sessions d). se_id s = ch_session r \<and> \<not> expired now c s) \<and>
        \<not> (ch_table r = TraceTable \<and> ch_created r < cutoff now (rc_trace_days c))"
      unfolding only by (auto simp: expired_def split: option.splits)
  qed
qed

end
