(* ===== verification/Usage_Report.thy ===== *)
theory Usage_Report
  imports Tenancy "HOL-Library.Word"
begin

text \<open>
  The usage report of a session (\<^verbatim>\<open>smista-router/src/usage.rs\<close>): the cost events of its trace
  folded into a total and two breakdowns.

  Token counts are \<open>u64\<close> and request counts \<open>u32\<close>, added with wrap-around as the release
  build does; costs are decimals, which \<open>parse_cost\<close> reads from their text. A trace event is
  assembled from its row, whose routing columns \<open>columns\<close> yields, and its content, which
  \<open>parse_payload\<close> decodes.
\<close>

section \<open>Cost events\<close>

record cost_payload =
  cp_provider :: provider
  cp_model :: string
  cp_input_tokens :: "64 word"
  cp_output_tokens :: "64 word"
  cp_cost :: "string option"

text \<open>The payload of another event is kept as the JSON it serializes to.\<close>

datatype payload = CostPayload cost_payload | OtherPayload string
datatype event_payload = PlaintextPayload payload | EncryptedPayload encrypted_payload

record trace_event =
  ev_event_type :: "trace_event_type option"  \<comment> \<open>\<open>None\<close> only on a row of another table\<close>
  ev_task_type :: task_intent
  ev_provider :: provider
  ev_model :: string
  ev_matched_rule :: "string option"
  ev_created :: nat
  ev_payload :: event_payload

record trace_codec =
  tc_columns :: "child_row \<Rightarrow> task_intent \<times> provider \<times> string \<times> string option"
  tc_payload :: "string \<Rightarrow> payload option"

fun assemble_payload :: "trace_codec \<Rightarrow> secret_content \<Rightarrow> (storage_error, event_payload) result" where
  "assemble_payload codec (Plaintext json) =
     (case tc_payload codec json of
        Some p \<Rightarrow> Ok (PlaintextPayload p) | None \<Rightarrow> Err (Backend ''malformed payload''))"
| "assemble_payload codec (Encrypted envelope) = Ok (EncryptedPayload (envelope_to_payload envelope))"

fun assemble_trace_events ::
  "trace_codec \<Rightarrow> (child_row \<times> content_row) list \<Rightarrow> (storage_error, trace_event list) result" where
  "assemble_trace_events codec [] = Ok []"
| "assemble_trace_events codec ((r, c) # rest) =
     (case c ''content'' of
        None \<Rightarrow> assemble_trace_events codec rest
      | Some content \<Rightarrow>
          (case assemble_payload codec content of
             Inl e \<Rightarrow> Err e
           | Inr p \<Rightarrow>
               (case assemble_trace_events codec rest of
                  Inl e \<Rightarrow> Err e
                | Inr es \<Rightarrow>
                    (case tc_columns codec r of (task, prov, model, rule) \<Rightarrow>
                       Ok (\<lparr>ev_event_type = ch_event r, ev_task_type = task, ev_provider = prov, ev_model = model,
                            ev_matched_rule = rule, ev_created = ch_created r, ev_payload = p\<rparr> # es)))))"

fun cost_payload_of :: "event_payload \<Rightarrow> cost_payload option" where
  "cost_payload_of (PlaintextPayload (CostPayload c)) = Some c"
| "cost_payload_of _ = None"

abbreviation event_cost :: "trace_event \<Rightarrow> cost_payload option" where
  "event_cost e \<equiv> cost_payload_of (ev_payload e)"

section \<open>Tallies\<close>

record usage_tally =
  ta_input :: "64 word"
  ta_output :: "64 word"
  ta_cost :: "rat option"
  ta_has_tokens :: bool
  ta_requests :: "32 word"

definition empty_tally :: usage_tally where
  "empty_tally = \<lparr>ta_input = 0, ta_output = 0, ta_cost = None, ta_has_tokens = False, ta_requests = 0\<rparr>"

definition tally_add :: "(string \<Rightarrow> rat option) \<Rightarrow> cost_payload option \<Rightarrow> usage_tally \<Rightarrow> usage_tally" where
  "tally_add parse_cost cost t0 =
     (let t = t0\<lparr>ta_requests := ta_requests t0 + 1\<rparr>
      in case cost of
           None \<Rightarrow> t
         | Some c \<Rightarrow>
             t\<lparr>ta_input := ta_input t + cp_input_tokens c,
               ta_output := ta_output t + cp_output_tokens c,
               ta_has_tokens := True,
               ta_cost :=
                 (case Option.bind (cp_cost c) parse_cost of
                    Some amount \<Rightarrow> Some ((case ta_cost t of Some x \<Rightarrow> x | None \<Rightarrow> 0) + amount)
                  | None \<Rightarrow> ta_cost t)\<rparr>)"

definition into_usage :: "usage_tally \<Rightarrow> usage" where
  "into_usage t = no_usage\<lparr>
     u_input_tokens := (if ta_has_tokens t then Some (unat (ta_input t)) else None),
     u_output_tokens := (if ta_has_tokens t then Some (unat (ta_output t)) else None),
     u_total_tokens := (if ta_has_tokens t then Some (unat (ta_input t + ta_output t)) else None),
     u_currency := (if ta_cost t \<noteq> None then Some ''USD'' else None),
     u_estimated_cost := ta_cost t\<rparr>"

section \<open>The report\<close>

record ('k) usage_entry =
  en_key :: 'k
  en_usage :: usage
  en_requests :: "32 word"

record session_usage_response =
  su_total :: usage
  su_by_model :: "(provider \<times> string) usage_entry list"
  su_by_task_type :: "task_intent usage_entry list"

text \<open>The bucket of a key takes the cost; the first cost of a key opens its bucket.\<close>

fun bump :: "(string \<Rightarrow> rat option) \<Rightarrow> 'k \<Rightarrow> cost_payload option \<Rightarrow> ('k \<times> usage_tally) list \<Rightarrow>
    ('k \<times> usage_tally) list" where
  "bump parse_cost k cost [] = [(k, tally_add parse_cost cost empty_tally)]"
| "bump parse_cost k cost ((l, t) # buckets) =
     (if l = k then (l, tally_add parse_cost cost t) # buckets
      else (l, t) # bump parse_cost k cost buckets)"

fun to_entry :: "'k \<times> usage_tally \<Rightarrow> 'k usage_entry" where
  "to_entry (k, t) = \<lparr>en_key = k, en_usage = into_usage t, en_requests = ta_requests t\<rparr>"

definition model_key :: "trace_event \<Rightarrow> provider \<times> string" where
  "model_key e = (ev_provider e, ev_model e)"

definition aggregate_usage :: "(string \<Rightarrow> rat option) \<Rightarrow> trace_event list \<Rightarrow> session_usage_response" where
  "aggregate_usage parse_cost events =
     (case foldl (\<lambda>(tot, by_model, by_task). \<lambda>e.
         (tally_add parse_cost (event_cost e) tot,
          bump parse_cost (model_key e) (event_cost e) by_model,
          bump parse_cost (ev_task_type e) (event_cost e) by_task)) (empty_tally, [], []) events of
        (tot, by_model, by_task) \<Rightarrow>
          \<lparr>su_total = into_usage tot, su_by_model = map to_entry by_model,
           su_by_task_type = map to_entry by_task\<rparr>)"

definition session_usage ::
  "trace_codec \<Rightarrow> (string \<Rightarrow> rat option) \<Rightarrow> string \<Rightarrow> string \<Rightarrow> database \<Rightarrow>
   (storage_error, session_usage_response option) result" where
  "session_usage codec parse_cost user session db =
     (case get_session_cost_events user session db of
        None \<Rightarrow> Ok None
      | Some rows \<Rightarrow>
          (case assemble_trace_events codec rows of
             Inl e \<Rightarrow> Err e
           | Inr events \<Rightarrow> Ok (Some (aggregate_usage parse_cost events))))"

section \<open>Grouping\<close>

text \<open>What a breakdown means: every key once, in the order first seen, with the tally of its events.\<close>

definition tally_of :: "(string \<Rightarrow> rat option) \<Rightarrow> trace_event list \<Rightarrow> usage_tally" where
  "tally_of parse_cost events = foldl (\<lambda>t e. tally_add parse_cost (event_cost e) t) empty_tally events"

definition first_seen :: "'k list \<Rightarrow> 'k list" where
  "first_seen ks = foldl (\<lambda>seen k. if k \<in> set seen then seen else seen @ [k]) [] ks"

definition grouped ::
  "(string \<Rightarrow> rat option) \<Rightarrow> (trace_event \<Rightarrow> 'k) \<Rightarrow> trace_event list \<Rightarrow> ('k \<times> usage_tally) list" where
  "grouped parse_cost key events =
     map (\<lambda>k. (k, tally_of parse_cost (filter (\<lambda>e. key e = k) events))) (first_seen (map key events))"

lemma tally_of_simps [simp]:
  "tally_of pc [] = empty_tally"
  "tally_of pc [e] = tally_add pc (event_cost e) empty_tally"
  "tally_of pc (es @ [e]) = tally_add pc (event_cost e) (tally_of pc es)"
  by (simp_all add: tally_of_def)

lemma first_seen_snoc [simp]:
  "first_seen [] = []"
  "first_seen (ks @ [k]) = (if k \<in> set (first_seen ks) then first_seen ks else first_seen ks @ [k])"
  by (simp_all add: first_seen_def)

lemma set_first_seen [simp]: "set (first_seen ks) = set ks"
  by (induction ks rule: rev_induct) auto

lemma distinct_first_seen [simp]: "distinct (first_seen ks)"
  by (induction ks rule: rev_induct) auto

lemma bump_map:
  "distinct ks \<Longrightarrow> bump pc k c (map (\<lambda>l. (l, f l)) ks) =
     map (\<lambda>l. (l, if l = k then tally_add pc c (f l) else f l)) ks @
       (if k \<in> set ks then [] else [(k, tally_add pc c empty_tally)])"
  by (induction ks) auto

lemma bump_grouped:
  "bump pc (key e) (event_cost e) (grouped pc key es) = grouped pc key (es @ [e])"
proof -
  have none: "filter (\<lambda>x. key x = key e) es = []" if "key e \<notin> key ` set es"
    using that by (metis (mono_tags, lifting) filter_False imageI)
  show ?thesis
    unfolding grouped_def by (auto simp: bump_map none)
qed

lemma aggregate_fold:
  "foldl (\<lambda>(tot, by_model, by_task). \<lambda>e.
      (tally_add pc (event_cost e) tot,
       bump pc (model_key e) (event_cost e) by_model,
       bump pc (ev_task_type e) (event_cost e) by_task)) (empty_tally, [], []) events =
   (tally_of pc events, grouped pc model_key events, grouped pc ev_task_type events)"
proof (induction events rule: rev_induct)
  case (snoc e es)
  then show ?case by (simp add: bump_grouped)
qed (simp add: grouped_def)

lemma aggregate_groups:
  "aggregate_usage pc events =
     \<lparr>su_total = into_usage (tally_of pc events),
      su_by_model = map to_entry (grouped pc model_key events),
      su_by_task_type = map to_entry (grouped pc ev_task_type events)\<rparr>"
  unfolding aggregate_usage_def aggregate_fold by simp

section \<open>Sums\<close>

text \<open>The buckets of either breakdown add up to the total, in every column.\<close>

lemma sum_bump_map:
  fixes g :: "usage_tally \<Rightarrow> 'a::comm_monoid_add"
  assumes "distinct ks" "\<And>c t. g (tally_add pc c t) = g t + h c" "g empty_tally = 0"
  shows "(\<Sum>(l, t)\<leftarrow>bump pc k c (map (\<lambda>l. (l, f l)) ks). g t) = (\<Sum>l\<leftarrow>ks. g (f l)) + h c"
  using assms(1) by (induction ks) (auto simp: assms(2,3) comp_def ac_simps)

lemma sum_grouped:
  fixes g :: "usage_tally \<Rightarrow> 'a::comm_monoid_add"
  assumes "\<And>c t. g (tally_add pc c t) = g t + h c" "g empty_tally = 0"
  shows "(\<Sum>(l, t)\<leftarrow>grouped pc key events. g t) = g (tally_of pc events)"
proof (induction events rule: rev_induct)
  case (snoc e es)
  let ?f = "\<lambda>k. tally_of pc (filter (\<lambda>e. key e = k) es)"
  have "(\<Sum>(l, t)\<leftarrow>grouped pc key (es @ [e]). g t) =
      (\<Sum>(l, t)\<leftarrow>bump pc (key e) (event_cost e) (map (\<lambda>l. (l, ?f l)) (first_seen (map key es))). g t)"
    unfolding bump_grouped [symmetric] by (simp add: grouped_def)
  also have "\<dots> = (\<Sum>l\<leftarrow>first_seen (map key es). g (?f l)) + h (event_cost e)"
    by (rule sum_bump_map) (simp_all add: assms)
  also have "(\<Sum>l\<leftarrow>first_seen (map key es). g (?f l)) = g (tally_of pc es)"
    using snoc.IH by (simp add: grouped_def comp_def)
  finally show ?case by (simp add: assms(1))
qed (simp add: grouped_def assms(2))

definition tokens_in :: "cost_payload option \<Rightarrow> 64 word" where
  "tokens_in c = (case c of Some p \<Rightarrow> cp_input_tokens p | None \<Rightarrow> 0)"

definition tokens_out :: "cost_payload option \<Rightarrow> 64 word" where
  "tokens_out c = (case c of Some p \<Rightarrow> cp_output_tokens p | None \<Rightarrow> 0)"

lemma tally_columns:
  "ta_requests (tally_add pc c t) = ta_requests t + 1"
  "ta_input (tally_add pc c t) = ta_input t + tokens_in c"
  "ta_output (tally_add pc c t) = ta_output t + tokens_out c"
  by (simp_all add: tally_add_def tokens_in_def tokens_out_def Let_def split: option.split)

lemma empty_columns: "ta_requests empty_tally = 0" "ta_input empty_tally = 0" "ta_output empty_tally = 0"
  by (simp_all add: empty_tally_def)

lemmas grouped_requests = sum_grouped [where g = ta_requests and h = "\<lambda>_. 1", OF tally_columns(1) empty_columns(1)]
  and grouped_input = sum_grouped [where g = ta_input and h = tokens_in, OF tally_columns(2) empty_columns(2)]
  and grouped_output = sum_grouped [where g = ta_output and h = tokens_out, OF tally_columns(3) empty_columns(3)]

lemma requests_of: "ta_requests (tally_of pc events) = of_nat (length events)"
  by (induction events rule: rev_induct) (simp_all add: tally_columns empty_columns)

text \<open>Below the width of a counter a tally is the exact sum.\<close>

lemma input_of:
  "(\<Sum>e\<leftarrow>events. unat (tokens_in (event_cost e))) < 2 ^ 64 \<Longrightarrow>
   unat (ta_input (tally_of pc events)) = (\<Sum>e\<leftarrow>events. unat (tokens_in (event_cost e)))"
proof (induction events rule: rev_induct)
  case (snoc e es)
  then have "unat (ta_input (tally_of pc es)) + unat (tokens_in (event_cost e)) < 2 ^ LENGTH(64)" by simp
  then show ?case using snoc by (simp add: tally_columns unat_add_lem [THEN iffD1])
qed (simp add: empty_columns)

text \<open>A report with no readable cost event omits its tokens.\<close>

lemma has_tokens_iff: "ta_has_tokens (tally_of pc events) \<longleftrightarrow> (\<exists>e\<in>set events. event_cost e \<noteq> None)"
  by (induction events rule: rev_induct)
    (auto simp: empty_tally_def tally_add_def Let_def split: option.split)

end
