(* ===== verification/Redaction.thy ===== *)
theory Redaction
  imports Core_Model Rust_Text
begin

text \<open>
  What providers report when a call fails (\<^verbatim>\<open>smista-providers/src/error.rs\<close>): the category a
  failure is given, from the transport, the status or the wording, and the scrubbing of
  credentials from its message.

  The errors of the HTTP client and of the provider library are third-party types; the
  datatypes below keep what the classifiers look at.
\<close>

section \<open>Words of a message\<close>

definition is_whitespace :: "char \<Rightarrow> bool" where
  "is_whitespace c \<longleftrightarrow> (let n = code c in 9 \<le> n \<and> n \<le> 13 \<or> n = 32 \<or> n = 133 \<or> n = 160)"

definition split_whitespace :: "string \<Rightarrow> string list" where
  "split_whitespace s = filter (\<lambda>w. w \<noteq> []) (split_when is_whitespace s)"

definition word :: "string \<Rightarrow> bool" where
  "word w \<longleftrightarrow> w \<noteq> [] \<and> (\<forall>c\<in>set w. \<not> is_whitespace c)"

lemma split_when_word: "\<forall>c\<in>set w. \<not> p c \<Longrightarrow> split_when p w = [w]"
  by (induction w) auto

lemma split_when_append: "\<forall>c\<in>set w. \<not> p c \<Longrightarrow> p c \<Longrightarrow> split_when p (w @ c # s) = w # split_when p s"
  by (induction w) auto

lemma split_whitespace_words: "w \<in> set (split_whitespace s) \<Longrightarrow> word w"
  using split_when_free [of is_whitespace s] by (auto simp: split_whitespace_def word_def)

lemma split_join: "\<forall>w\<in>set ws. word w \<Longrightarrow> split_whitespace (join '' '' ws) = ws"
proof (induction ws rule: induct_list012)
  case (2 w)
  then show ?case by (simp add: split_whitespace_def word_def split_when_word)
next
  case (3 w v ws)
  have space: "is_whitespace CHR '' ''" by (simp add: is_whitespace_def code_def of_char_def)
  have "\<forall>c\<in>set w. \<not> is_whitespace c" "w \<noteq> []" using 3(3) by (simp_all add: word_def)
  with 3 show ?case
    using split_when_append [where p = is_whitespace, OF _ space] by (simp add: split_whitespace_def)
qed (simp add: split_whitespace_def)

section \<open>Scrubbing\<close>

definition redacted_mark :: string where
  "redacted_mark = ''[redacted]''"

definition secret_prefixes :: "string list" where
  "secret_prefixes = [''sk-'', ''xai-'', ''ghp_'', ''gho_'', ''github_pat_'']"

text \<open>
  \<open>match_indices\<close> yields disjoint occurrences; no prefix overlaps itself, so these are all of
  its occurrences.
\<close>

definition match_indices :: "string \<Rightarrow> string \<Rightarrow> nat list" where
  "match_indices needle s = filter (\<lambda>i. take (length needle) (drop i s) = needle) [0..<length s]"

lemma prefixes_disjoint:
  "list_all (\<lambda>p. list_all (\<lambda>k. take (length p - k) p \<noteq> drop k p) [1..<length p]) secret_prefixes"
  by code_simp

definition boundary :: "char \<Rightarrow> bool" where
  "boundary c \<longleftrightarrow> c \<in> {CHR ''='', CHR '':'', CHR 0x22, CHR 0x27, CHR 0x60, CHR ''('', CHR ''['', CHR ''{'', CHR '',''}"

definition has_secret :: "string \<Rightarrow> bool" where
  "has_secret token \<longleftrightarrow> list_ex (\<lambda>prefix.
     list_ex (\<lambda>i. (i = 0 \<or> boundary (token ! (i - 1))) \<and> i + length prefix < length token)
       (match_indices prefix token)) secret_prefixes"

definition is_bearer :: "string \<Rightarrow> bool" where
  "is_bearer token \<longleftrightarrow> to_ascii_lowercase token = ''bearer''"

fun redact_tokens :: "bool \<Rightarrow> string list \<Rightarrow> string list" where
  "redact_tokens after_bearer [] = []"
| "redact_tokens after_bearer (token # tokens) =
     (if after_bearer then redacted_mark # redact_tokens False tokens
      else if is_bearer token then token # redact_tokens True tokens
      else if has_secret token then redacted_mark # redact_tokens False tokens
      else token # redact_tokens False tokens)"

definition redact :: "string \<Rightarrow> string" where
  "redact message = join '' '' (redact_tokens False (split_whitespace message))"

definition provider_error_of ::
  "provider_error_category \<Rightarrow> provider \<Rightarrow> string option \<Rightarrow> string \<Rightarrow> provider_error" where
  "provider_error_of category p model message =
     \<lparr>pe_category = category, pe_message = redact message, pe_provider = p, pe_model = model\<rparr>"

lemma mark_word [simp]: "word redacted_mark"
  by (simp add: word_def redacted_mark_def is_whitespace_def code_def of_char_def)

lemma mark_is_no_secret [simp]: "\<not> has_secret redacted_mark" "\<not> is_bearer redacted_mark"
  by code_simp+

lemma redact_words: "\<forall>w\<in>set ts. word w \<Longrightarrow> \<forall>w\<in>set (redact_tokens b ts). word w"
  by (induction b ts rule: redact_tokens.induct) auto

lemma tokens_of_redact:
  "split_whitespace (redact m) = redact_tokens False (split_whitespace m)"
  unfolding redact_def using split_whitespace_words redact_words by (blast intro: split_join)

lemma redact_tokens_idem: "redact_tokens b (redact_tokens b ts) = redact_tokens b ts"
  by (induction b ts rule: redact_tokens.induct) auto

lemma redact_tokens_secret: "t \<in> set (redact_tokens b ts) \<Longrightarrow> has_secret t \<Longrightarrow> is_bearer t"
  by (induction b ts rule: redact_tokens.induct) (auto split: if_splits)

text \<open>A bearer keyword is no secret itself.\<close>

lemma bearer_is_no_secret: "is_bearer t \<Longrightarrow> \<not> has_secret t"
proof
  assume b: "is_bearer t" and s: "has_secret t"
  from b have len: "length t = 6" using length_map [of ascii_lower t] by (simp add: is_bearer_def to_ascii_lowercase_def)
  from s obtain p i where p: "p \<in> set secret_prefixes" and i: "take (length p) (drop i t) = p" "i + length p < length t"
    by (auto simp: has_secret_def match_indices_def list_ex_iff)
  have "i < 6" using i(2) len by simp
  have "map ascii_lower p = take (length p) (drop i ''bearer'')"
    using i(1) b by (metis drop_map is_bearer_def take_map to_ascii_lowercase_def)
  moreover have "list_all (\<lambda>p. list_all (\<lambda>i. map ascii_lower p \<noteq> take (length p) (drop i ''bearer'')) [0..<6]) secret_prefixes"
    by code_simp
  ultimately show False using p \<open>i < 6\<close> by (auto simp: list_all_iff)
qed

lemma redact_after_bearer:
  "Suc i < length (redact_tokens b ts) \<Longrightarrow> is_bearer (redact_tokens b ts ! i) \<Longrightarrow>
   redact_tokens b ts ! Suc i = redacted_mark"
proof (induction b ts arbitrary: i rule: redact_tokens.induct)
  case (2 b t ts)
  have head: "redact_tokens True us \<noteq> [] \<Longrightarrow> redact_tokens True us ! 0 = redacted_mark" for us
    by (cases us) auto
  show ?case
  proof (cases i)
    case 0
    then show ?thesis using 2 head [of ts] by (auto split: if_splits)
  next
    case (Suc j)
    then show ?thesis using 2 by (auto split: if_splits)
  qed
qed simp

text \<open>Nothing else is replaced: a token stays or becomes the mark.\<close>

lemma redact_pointwise: "list_all2 (\<lambda>t r. r = t \<or> r = redacted_mark) ts (redact_tokens b ts)"
  by (induction b ts rule: redact_tokens.induct) auto

section \<open>Categories\<close>

definition context_length_markers :: "string list" where
  "context_length_markers = [''context length'', ''context window'', ''maximum context'', ''maximum tokens'',
     ''too many tokens'']"

definition model_not_found_markers :: "string list" where
  "model_not_found_markers = [''model not found'', ''model_not_found'', ''does not exist'', ''no such model'',
     ''unknown model'']"

definition rate_limit_markers :: "string list" where
  "rate_limit_markers = [''rate limit'', ''rate_limit'', ''too many requests'']"

definition authentication_markers :: "string list" where
  "authentication_markers = [''insufficient_quota'', ''quota exceeded'', ''exceeded your current quota'', ''billing'']"

definition invalid_credentials_markers :: "string list" where
  "invalid_credentials_markers = [''invalid api key'', ''incorrect api key'', ''invalid_api_key'',
     ''invalid authentication'', ''no api key'']"

definition timeout_markers :: "string list" where
  "timeout_markers = [''timed out'', ''timeout'', ''deadline exceeded'']"

definition mentions :: "string \<Rightarrow> string list \<Rightarrow> bool" where
  "mentions message markers \<longleftrightarrow> list_ex (str_contains (to_ascii_lowercase message)) markers"

definition categorize_message :: "string \<Rightarrow> provider_error_category" where
  "categorize_message m =
     (if mentions m context_length_markers then ContextLength
      else if mentions m model_not_found_markers then ModelNotFound
      else if mentions m rate_limit_markers then RateLimit
      else if mentions m authentication_markers then Authentication
      else if mentions m invalid_credentials_markers then InvalidCredentials
      else if mentions m timeout_markers then Timeout
      else Unknown)"

definition message_or :: "string \<Rightarrow> provider_error_category \<Rightarrow> provider_error_category" where
  "message_or m fallback = (case categorize_message m of Unknown \<Rightarrow> fallback | c \<Rightarrow> c)"

text \<open>What the classifier asks of a \<open>reqwest::Error\<close>, and the errors that carry one.\<close>

record transport_error =
  te_is_timeout :: bool
  te_is_connect :: bool
  te_status :: "nat option"

datatype error_source = Reqwest transport_error | OtherSource string

datatype http_error = InvalidStatusCode nat | InvalidStatusCodeWithMessage nat string
  | HttpInstance error_source | OtherHttpError

datatype completion_error = CompletionHttp http_error | CompletionUrl | CompletionJson
  | CompletionRequest error_source | CompletionResponse string | CompletionProvider string
  | ProviderResponse "nat option" string

definition category_from_reqwest :: "transport_error \<Rightarrow> provider_error_category" where
  "category_from_reqwest e =
     (if te_is_timeout e then Timeout
      else if te_is_connect e then ProviderUnavailable
      else (case te_status e of Some n \<Rightarrow> category_of_status n | None \<Rightarrow> Unknown))"

fun category_from_source :: "error_source \<Rightarrow> provider_error_category" where
  "category_from_source (Reqwest e) = category_from_reqwest e"
| "category_from_source (OtherSource m) = categorize_message m"

fun category_from_http :: "http_error \<Rightarrow> provider_error_category" where
  "category_from_http (InvalidStatusCode n) = category_of_status n"
| "category_from_http (InvalidStatusCodeWithMessage n m) = message_or m (category_of_status n)"
| "category_from_http (HttpInstance s) = category_from_source s"
| "category_from_http OtherHttpError = Unknown"

fun category_from_completion :: "completion_error \<Rightarrow> provider_error_category" where
  "category_from_completion (CompletionHttp e) = category_from_http e"
| "category_from_completion CompletionUrl = InvalidRequest"
| "category_from_completion CompletionJson = InvalidRequest"
| "category_from_completion (CompletionRequest s) = category_from_source s"
| "category_from_completion (CompletionResponse m) = message_or m InvalidRequest"
| "category_from_completion (CompletionProvider m) = message_or m Unknown"
| "category_from_completion (ProviderResponse status body) =
     message_or body (case status of Some n \<Rightarrow> category_of_status n | None \<Rightarrow> Unknown)"

text \<open>The wording wins over the status, and the case of its letters does not matter.\<close>

lemma message_or_eq:
  "message_or m c = (if categorize_message m = Unknown then c else categorize_message m)"
  by (simp add: message_or_def split: provider_error_category.split)

lemma categorize_ignores_case: "categorize_message (to_ascii_lowercase m) = categorize_message m"
  by (simp add: categorize_message_def mentions_def)

text \<open>
  A failure no other model would cure is not retried, whatever status came with it: a full
  context window, a missing model, or (unless it also speaks of a rate limit) a spent quota.
\<close>

lemma final_wording:
  assumes "mentions m context_length_markers \<or> mentions m model_not_found_markers \<or>
    mentions m authentication_markers \<and> \<not> mentions m rate_limit_markers"
  shows "\<not> is_fallback_eligible (category_from_completion (ProviderResponse status m))"
  using assms by (auto simp: message_or_eq categorize_message_def is_fallback_eligible_def)

end
