(* ===== verification/Storage_Guarantees.thy ===== *)
theory Storage_Guarantees
  imports Authentication Retention Memory Usage_Report Redaction
begin

text \<open>
  What the stored data of an installation guarantees to its users: isolation, deletion and
  retention that remove exactly what they should, sessions that end, memories that are kept, and
  reports that add up.
\<close>

text \<open>
  C16. Users do not interfere: whatever sequence of operations other users run on the shared
  database, all a user can read (sessions, rows, contents, memories) is what it was before.
\<close>

theorem users_do_not_interfere:
  assumes "tenant_run allowed d d'" "db_wf d" "\<not> allowed v"
  shows "db_wf d' \<and> visible v d' = visible v d \<and> list_sessions v d' = list_sessions v d \<and>
    get_session v i d' = get_session v i d \<and> get_session_state v i d' = get_session_state v i d \<and>
    list_messages_with_content v i d' = list_messages_with_content v i d \<and>
    read_content v t i d' = read_content v t i d \<and>
    list_user_memory_with_content v d' = list_user_memory_with_content v d"
proof -
  have run: "db_wf d'" "visible v d' = visible v d" using tenant_run_isolated [OF assms(1,2)] assms(3) by blast+
  note reads = get_session_visible [OF assms(2) run] sessions_visible(1) [OF run(2)]
    session_state_visible [OF assms(2) run] rows_with_content_visible(1) [OF run(2)]
    content_visible [OF assms(2) run] user_memory_visible [OF run(2)]
  show ?thesis using run unfolding reads by blast
qed

definition session_a :: session_entity where
  "session_a = \<lparr>se_id = ''s1'', se_user = ''a'', se_title = None, se_scope = None, se_encrypted = False,
     se_key_id = None, se_created = 0, se_updated = 0, se_archived = None\<rparr>"

definition session_b :: session_entity where
  "session_b = session_a\<lparr>se_id := ''s2'', se_user := ''b''\<rparr>"

definition two_users :: database where
  "two_users = snd (create_user (new_user ''b'' ''hb'') (snd (create_user (new_user ''a'' ''ha'') empty_database)))"

definition two_sessions :: database where
  "two_sessions = snd (create_session session_b (snd (create_session session_a two_users)))"

lemma two_users_eq: "two_users = empty_database\<lparr>db_users := [new_user ''a'' ''ha'', new_user ''b'' ''hb'']\<rparr>"
  by (simp add: two_users_def create_user_def new_user_def empty_database_def)

lemma two_sessions_eq: "two_sessions = two_users\<lparr>db_sessions := [session_a, session_b]\<rparr>"
  by (simp add: two_sessions_def create_session_def two_users_eq new_user_def empty_database_def session_a_def
      session_b_def)

lemma two_sessions_wf: "db_wf two_sessions"
  by (simp add: db_wf_def two_sessions_eq two_users_eq empty_database_def session_a_def session_b_def)

lemma users_do_not_interfere_witness:
  "list_sessions ''b'' (snd (delete_session ''a'' ''s1'' two_sessions)) = list_sessions ''b'' two_sessions \<and>
   list_sessions ''a'' (snd (delete_session ''a'' ''s1'' two_sessions)) \<noteq> list_sessions ''a'' two_sessions"
proof -
  have "tenant_run (\<lambda>u. u = ''a'') two_sessions (snd (delete_session ''a'' ''s1'' two_sessions))"
    by (rule tenant_run.More [OF tenant_run.Done refl tenant_step.Delete])
  then have "list_sessions ''b'' (snd (delete_session ''a'' ''s1'' two_sessions)) = list_sessions ''b'' two_sessions"
    using users_do_not_interfere [of "\<lambda>u. u = ''a''" _ _ "''b''"] two_sessions_wf by simp
  moreover have "list_sessions ''a'' (snd (delete_session ''a'' ''s1'' two_sessions)) = []"
    by (simp add: list_sessions_def delete_session_def get_session_def two_sessions_eq session_a_def session_b_def
        newest_first_def)
  moreover have "list_sessions ''a'' two_sessions \<noteq> []"
    by (simp add: list_sessions_def two_sessions_eq session_a_def session_b_def newest_first_def)
  ultimately show ?thesis by simp
qed

text \<open>
  C17. Deleting a session leaves nothing of it: the session, the rows of every table that belong to
  it and their contents are gone, and every other session, row and content is as it was.
\<close>

theorem deleted_session_leaves_nothing:
  assumes "db_wf d" "delete_session u i d = (Ok (), d')"
  shows "db_sessions d' = filter (\<lambda>s. se_id s \<noteq> i) (db_sessions d) \<and>
    db_children d' = filter (\<lambda>r. ch_session r \<noteq> i) (db_children d) \<and>
    dom (db_contents d') = key_of ` {r \<in> set (db_children d). ch_session r \<noteq> i \<and> has_content (ch_table r)} \<and>
    (\<forall>k\<in>dom (db_contents d'). db_contents d' k = db_contents d k) \<and>
    db_user_memory d' = db_user_memory d \<and> db_tokens d' = db_tokens d"
proof -
  have d': "d' = delete_session_cascade [i] d" using assms(2) by (auto simp: delete_session_def split: if_splits)
  have "dom (db_contents d') = key_of ` {r \<in> set (db_children d'). has_content (ch_table r)}"
    using db_wfD [OF cascade_wf [OF assms(1), of "[i]"]] unfolding d' by blast
  moreover have "db_contents d' k = db_contents d k" if "k \<in> dom (db_contents d')" for k
    using that unfolding d' cascade_contents by (auto split: if_splits)
  ultimately show ?thesis unfolding d' cascade_rows by auto
qed

lemma deleted_session_leaves_nothing_witness:
  "\<exists>d'. delete_session ''a'' ''s1'' two_sessions = (Ok (), d') \<and> db_sessions d' = [session_b]"
proof -
  obtain d' where d': "delete_session ''a'' ''s1'' two_sessions = (Ok (), d')"
    by (auto simp: delete_session_def get_session_def two_sessions_eq session_a_def session_b_def)
  show ?thesis using deleted_session_leaves_nothing [OF two_sessions_wf d'] d'
    by (auto simp: two_sessions_eq session_a_def session_b_def)
qed

text \<open>
  C18. The retention job removes exactly what has aged out: sessions past the limit of their kind,
  the rows of those sessions, and old trace events; the database stays consistent.
\<close>

theorem cleanup_is_exact:
  assumes "db_wf d"
  shows "db_wf (cleanup now c d) \<and>
    db_sessions (cleanup now c d) = filter (\<lambda>s. \<not> expired now c s) (db_sessions d) \<and>
    db_children (cleanup now c d) =
      filter (\<lambda>r. (\<exists>s\<in>set (db_sessions d). se_id s = ch_session r \<and> \<not> expired now c s) \<and>
        \<not> (ch_table r = TraceTable \<and> ch_created r < cutoff now (rc_trace_days c))) (db_children d)"
  using cleanup_wf [OF assms] cleanup_sessions [OF assms] cleanup_rows [OF assms] by blast

lemma cleanup_is_exact_witness:
  "db_sessions (cleanup (11 * day) \<lparr>rc_trace_days = 1, rc_session_days = 10, rc_archived_days = 1\<rparr>
     (two_sessions\<lparr>db_sessions := [session_a, session_b\<lparr>se_updated := 2 * day\<rparr>]\<rparr>)) =
   [session_b\<lparr>se_updated := 2 * day\<rparr>]"
proof -
  have wf: "db_wf (two_sessions\<lparr>db_sessions := [session_a, session_b\<lparr>se_updated := 2 * day\<rparr>]\<rparr>)"
    by (simp add: db_wf_def two_sessions_eq two_users_eq empty_database_def session_a_def session_b_def)
  show ?thesis using cleanup_is_exact [OF wf]
    by (simp add: expired_def cutoff_def session_a_def session_b_def day_def)
qed

text \<open>
  C19. The life of a session token: after a sign-in the token authenticates the user of the API key
  until it expires, and once signed out it is refused for ever.
\<close>

theorem session_token_life:
  assumes "sign_in rt now ttl salt token_id secret api_key d = (Ok t, d')"
    and "hash_law rt" "uuid_law rt token_id" "secret \<noteq> []"
  shows "\<exists>user d2. parse_api_key_user_id rt api_key = Ok user \<and>
    authenticate_token rt later (sn_token t) d' = (if now + ttl \<le> later then Err ExpiredToken else Ok user) \<and>
    sign_out rt leave (sn_token t) d' = (Ok (), d2) \<and>
    authenticate_token rt later (sn_token t) d2 = Err RevokedToken"
proof -
  obtain row where row: "parse_session_token_id rt (sn_token t) = Ok token_id" "get_token token_id d' = Some row"
    "ar_sha512_verify rt (sn_token t) (ak_hash row)" "ak_revoked row = None" "ak_expires row = sn_expires_at t"
    "parse_api_key_user_id rt api_key = Ok (ak_user row)"
    using signed_in_token [OF assms] by blast
  have ttl: "sn_expires_at t = now + ttl" using assms(1) by (rule sign_in_Ok)
  have out: "sign_out rt leave (sn_token t) d' = (Ok (), snd (revoke_token leave token_id d'))"
    "get_token token_id (snd (revoke_token leave token_id d')) = Some (row\<lparr>ak_revoked := Some leave\<rparr>)"
    using sign_out_row [OF row(1,2)] by blast+
  have "authenticate_token rt later (sn_token t) (snd (revoke_token leave token_id d')) = Err RevokedToken"
    using authenticate_row [OF row(1) out(2)] row(3) by simp
  then show ?thesis using out(1) row(4-6) ttl authenticate_row [OF row(1-3), of later] by auto
qed

text \<open>A runtime whose hashes are the secrets themselves and whose uuids are their own text.\<close>

definition plain_auth :: auth_runtime where
  "plain_auth = \<lparr>ar_parse_uuid = Some, ar_argon2 = (\<lambda>_. Some), ar_argon2_verify = (\<lambda>k h. Some (k = h)),
     ar_sha512 = (\<lambda>_. Some), ar_sha512_verify = (=)\<rparr>"

definition one_user :: database where
  "one_user = snd (bootstrap_user plain_auth 0 ''a1'' ''key'' empty_database)"

lemma plain_sign_in:
  "\<exists>t d'. sign_in plain_auth 5 10 0 ''t1'' ''pw'' (api_key_from_parts ''a1'' ''key'') one_user = (Ok t, d')"
  by (simp add: one_user_def bootstrap_user_def create_user_def sign_in_def plain_auth_def Let_def
      parse_api_key_user_id_def api_key_from_parts_def strip_prefix_def no_dash get_user_def new_user_def
      create_token_def empty_database_def)
    (simp add: simple_uuid_def dash_def new_auth_token_def)

lemma session_token_life_witness:
  "\<exists>(t :: session_token) d' d2. authenticate_token plain_auth 14 (sn_token t) d' = Ok ''a1'' \<and>
     authenticate_token plain_auth 15 (sn_token t) d' = Err ExpiredToken \<and>
     sign_out plain_auth 9 (sn_token t) d' = (Ok (), d2) \<and>
     authenticate_token plain_auth 14 (sn_token t) d2 = Err RevokedToken"
proof -
  obtain t d' where run: "sign_in plain_auth 5 10 0 ''t1'' ''pw'' (api_key_from_parts ''a1'' ''key'') one_user = (Ok t, d')"
    using plain_sign_in by blast
  have laws: "hash_law plain_auth" "uuid_law plain_auth ''t1''" "(''pw'' :: string) \<noteq> []"
    by (simp_all add: hash_law_def uuid_law_def plain_auth_def simple_uuid_def dash_def)
  have key: "parse_api_key_user_id plain_auth (api_key_from_parts ''a1'' ''key'') = Ok ''a1''"
    by (rule api_key_parses) (simp_all add: uuid_law_def plain_auth_def simple_uuid_def dash_def)
  show ?thesis proof -
    obtain user d2 where u: "parse_api_key_user_id plain_auth (api_key_from_parts ''a1'' ''key'') = Ok user"
      "authenticate_token plain_auth 14 (sn_token t) d' = (if 5 + 10 \<le> (14 :: nat) then Err ExpiredToken else Ok user)"
      "sign_out plain_auth 9 (sn_token t) d' = (Ok (), d2)" "authenticate_token plain_auth 14 (sn_token t) d2 = Err RevokedToken"
      using session_token_life [OF run laws, of 14 9] by blast
    moreover have "authenticate_token plain_auth 15 (sn_token t) d' = Err ExpiredToken"
      using session_token_life [OF run laws, of 15 9] by auto
    moreover have "user = ''a1''" using key u(1) by simp
    ultimately have "authenticate_token plain_auth 14 (sn_token t) d' = Ok ''a1'' \<and>
      authenticate_token plain_auth 15 (sn_token t) d' = Err ExpiredToken \<and> sign_out plain_auth 9 (sn_token t) d' = (Ok (), d2) \<and>
      authenticate_token plain_auth 14 (sn_token t) d2 = Err RevokedToken" by simp
    then show ?thesis by blast
  qed
qed

definition store_good ::
  "(nat \<Rightarrow> string) \<Rightarrow> (string \<Rightarrow> string option) \<Rightarrow> memory_scope \<Rightarrow> memory_store \<Rightarrow> memory_state \<Rightarrow> bool" where
  "store_good mint parse scope st =
     (case st of UserStore \<Rightarrow> user_good mint parse scope | SessionStore \<Rightarrow> session_good mint parse scope)"

definition remembered ::
  "(nat \<Rightarrow> string) \<Rightarrow> (string \<Rightarrow> string option) \<Rightarrow> memory_scope \<Rightarrow> memory_store \<Rightarrow> string \<Rightarrow> memory_state \<Rightarrow> string option" where
  "remembered mint parse scope st k s = map_option me_content (mo_by_key (memory_backend mint parse scope st) k s)"

text \<open>
  C20. What a model records it finds again: after a successful record under a key the store holds
  that text under the key and is unchanged elsewhere, and a forget of the key always succeeds and
  removes just that entry, for the memories of a user and for those of a session.
\<close>

theorem memory_is_kept:
  assumes "store_good mint parse scope st s"
    and "memory_call (memory_backend mint parse scope)
      \<lparr>ma_op = RecordOp, ma_scope = st, ma_key = k, ma_value = Some text\<rparr> s = (Ok msg, s')"
  shows "store_good mint parse scope st s' \<and>
    remembered mint parse scope st k' s' = (if k' = k then Some text else remembered mint parse scope st k' s) \<and>
    (\<exists>msg' s''. memory_call (memory_backend mint parse scope)
        \<lparr>ma_op = ForgetOp, ma_scope = st, ma_key = k, ma_value = None\<rparr> s' = (Ok msg', s'') \<and>
      remembered mint parse scope st k' s'' = (if k' = k then None else remembered mint parse scope st k' s))"
proof (cases st)
  case UserStore
  let ?ops = "memory_backend mint parse scope"
  have ops: "mo_put (?ops UserStore) = put_user_memory mint scope" "mo_forget (?ops UserStore) = erase_user_memory parse scope"
    "mo_by_key (?ops UserStore) = get_user_memory_by_key scope" by simp_all
  have g: "user_good mint parse scope s" using assms(1) UserStore by (simp add: store_good_def)
  note call = assms(2) [unfolded UserStore]
  have g': "user_good mint parse scope s'"
    using user_memories.call_good [where ops = ?ops and st = UserStore, OF g ops, of RecordOp k "Some text"] call by simp
  note kept = user_memories.call_record [where ops = ?ops and st = UserStore, OF g ops(1) call, unfolded user_memories.holds_def]
  from user_memories.call_forget(1) [where ops = ?ops and st = UserStore, OF g' ops, of k None] obtain msg' s'' where
    f: "memory_call ?ops \<lparr>ma_op = ForgetOp, ma_scope = UserStore, ma_key = k, ma_value = None\<rparr> s' = (Inr msg', s'')"
    by (metis prod.collapse)
  note gone = user_memories.call_forget(2) [where ops = ?ops and st = UserStore, OF g' ops, of k' k None,
      unfolded user_memories.holds_def f]
  show ?thesis using g' f kept [of k'] gone UserStore by (simp add: store_good_def remembered_def)
next
  case SessionStore
  let ?ops = "memory_backend mint parse scope"
  have ops: "mo_put (?ops SessionStore) = put_session_memory mint scope"
    "mo_forget (?ops SessionStore) = erase_session_memory parse scope"
    "mo_by_key (?ops SessionStore) = get_session_memory_by_key scope" by simp_all
  have g: "session_good mint parse scope s" using assms(1) SessionStore by (simp add: store_good_def)
  note call = assms(2) [unfolded SessionStore]
  have g': "session_good mint parse scope s'"
    using context_memories.call_good [where ops = ?ops and st = SessionStore, OF g ops, of RecordOp k "Some text"] call by simp
  note kept = context_memories.call_record [where ops = ?ops and st = SessionStore, OF g ops(1) call, unfolded context_memories.holds_def]
  from context_memories.call_forget(1) [where ops = ?ops and st = SessionStore, OF g' ops, of k None] obtain msg' s'' where
    f: "memory_call ?ops \<lparr>ma_op = ForgetOp, ma_scope = SessionStore, ma_key = k, ma_value = None\<rparr> s' = (Inr msg', s'')"
    by (metis prod.collapse)
  note gone = context_memories.call_forget(2) [where ops = ?ops and st = SessionStore, OF g' ops, of k' k None,
      unfolded context_memories.holds_def f]
  show ?thesis using g' f kept [of k'] gone SessionStore by (simp add: store_good_def remembered_def)
qed

lemma memory_is_kept_witness:
  "\<exists>msg s'. memory_call (memory_backend show_nat Some \<lparr>sc_user = ''a'', sc_session = ''s1''\<rparr>)
      \<lparr>ma_op = RecordOp, ma_scope = UserStore, ma_key = ''os'', ma_value = Some ''linux''\<rparr> (two_sessions, 0) = (Ok msg, s') \<and>
    remembered show_nat Some \<lparr>sc_user = ''a'', sc_session = ''s1''\<rparr> UserStore ''os'' s' = Some ''linux''"
proof -
  let ?scope = "\<lparr>sc_user = ''a'', sc_session = ''s1''\<rparr>"
  have good: "store_good show_nat Some ?scope UserStore (two_sessions, 0)"
    using two_sessions_wf
    by (simp add: store_good_def user_good_def keys_good_def mint_law_def user_ids_def two_sessions_eq two_users_eq
        empty_database_def)
  obtain msg s' where run: "memory_call (memory_backend show_nat Some ?scope)
      \<lparr>ma_op = RecordOp, ma_scope = UserStore, ma_key = ''os'', ma_value = Some ''linux''\<rparr> (two_sessions, 0) = (Ok msg, s')"
    by (simp add: memory_call_def put_user_memory_def record_user_memory_def new_user_memory_def two_sessions_eq
        two_users_eq empty_database_def new_user_def Let_def user_memories_keyed_def take_option_def create_user_memory_def)
  show ?thesis using memory_is_kept [OF good run, of "''os''"] run by auto
qed

definition buckets_add_up :: "(string \<Rightarrow> rat option) \<Rightarrow> (trace_event \<Rightarrow> 'k) \<Rightarrow> trace_event list \<Rightarrow> 'k usage_entry list \<Rightarrow> bool" where
  "buckets_add_up pc key events entries \<longleftrightarrow>
     distinct (map en_key entries) \<and> set (map en_key entries) = key ` set events \<and>
     (\<Sum>en\<leftarrow>entries. en_requests en) = of_nat (length events) \<and>
     entries = map (\<lambda>k. to_entry (k, tally_of pc (filter (\<lambda>e. key e = k) events))) (map en_key entries)"

lemma grouped_add_up: "buckets_add_up pc key events (map to_entry (grouped pc key events))"
proof -
  have keys: "map en_key (map to_entry (grouped pc key events)) = first_seen (map key events)"
    by (simp add: grouped_def comp_def)
  have "(\<Sum>en\<leftarrow>map to_entry (grouped pc key events). en_requests en) = (\<Sum>(l, t)\<leftarrow>grouped pc key events. ta_requests t)"
    by (simp add: comp_def case_prod_unfold) (metis (no_types, lifting) prod.collapse to_entry.simps usage_entry.select_convs(3))
  then have "(\<Sum>en\<leftarrow>map to_entry (grouped pc key events). en_requests en) = of_nat (length events)"
    using grouped_requests [of pc key events] requests_of [of pc events] by simp
  then show ?thesis unfolding buckets_add_up_def keys by (simp add: grouped_def comp_def)
qed

text \<open>
  A usage report adds up: either breakdown has every key once and its requests and tokens sum to
  the total, the total counts every event, and below the width of a counter it is the exact sum.
\<close>

lemma usage_adds_up:
  assumes "(\<Sum>e\<leftarrow>events. unat (tokens_in (event_cost e))) < 2 ^ 64"
  shows "buckets_add_up pc model_key events (su_by_model (aggregate_usage pc events)) \<and>
    buckets_add_up pc ev_task_type events (su_by_task_type (aggregate_usage pc events)) \<and>
    su_total (aggregate_usage pc events) = into_usage (tally_of pc events) \<and>
    unat (ta_input (tally_of pc events)) = (\<Sum>e\<leftarrow>events. unat (tokens_in (event_cost e)))"
  using input_of [OF assms, of pc] by (simp add: aggregate_groups grouped_add_up)

text \<open>A word that carries a key: a known prefix at the start or after a delimiter, and more behind it.\<close>

definition credential_word :: "string \<Rightarrow> bool" where
  "credential_word w \<longleftrightarrow>
     (\<exists>prefix\<in>{''sk-'', ''xai-'', ''ghp_'', ''gho_'', ''github_pat_''}. \<exists>a b. w = a @ prefix @ b \<and> b \<noteq> [] \<and>
        (a = [] \<or> last a \<in> {CHR ''='', CHR '':'', CHR 0x22, CHR 0x27, CHR 0x60, CHR ''('', CHR ''['', CHR ''{'', CHR '',''}))"

lemma match_indices_iff:
  "(\<exists>i\<in>set (match_indices p w). (i = 0 \<or> boundary (w ! (i - 1))) \<and> i + length p < length w) \<longleftrightarrow>
   (\<exists>a b. w = a @ p @ b \<and> b \<noteq> [] \<and> (a = [] \<or> boundary (last a)))" (is "?l = ?r")
proof
  assume ?l
  then obtain i where i: "i < length w" "take (length p) (drop i w) = p" "i = 0 \<or> boundary (w ! (i - 1))"
      "i + length p < length w"
    by (auto simp: match_indices_def)
  have "w = take i w @ p @ drop (i + length p) w"
    using i(2) by (metis add.commute append_take_drop_id drop_drop)
  moreover have "take i w \<noteq> [] \<Longrightarrow> last (take i w) = w ! (i - 1)"
    using i(1) by (simp add: last_conv_nth)
  ultimately show ?r using i(1,3,4) by (metis drop_eq_Nil linorder_not_less take_eq_Nil2)
next
  assume ?r
  then obtain a b where ab: "w = a @ p @ b" "b \<noteq> []" "a = [] \<or> boundary (last a)" by blast
  have "boundary (w ! (length a - 1))" if "a \<noteq> []"
    using ab(1,3) that by (simp add: nth_append last_conv_nth)
  moreover have "length a \<in> set (match_indices p w)" using ab(1,2) by (simp add: match_indices_def)
  ultimately show ?l using ab(1,2) by (intro bexI [of _ "length a"]) auto
qed

lemma has_secret_iff: "has_secret w \<longleftrightarrow> credential_word w"
proof -
  have "has_secret w \<longleftrightarrow> (\<exists>p\<in>set secret_prefixes. \<exists>a b. w = a @ p @ b \<and> b \<noteq> [] \<and> (a = [] \<or> boundary (last a)))"
    unfolding has_secret_def list_ex_iff match_indices_iff by (rule refl)
  then show ?thesis by (simp add: secret_prefixes_def credential_word_def boundary_def)
qed

lemma redact_tokens_nth:
  "i < length ts \<Longrightarrow> redact_tokens b ts ! i =
     (if (if i = 0 then b else is_bearer (redact_tokens b ts ! (i - 1))) \<or> has_secret (ts ! i)
      then redacted_mark else ts ! i)"
proof (induction b ts arbitrary: i rule: redact_tokens.induct)
  case (2 b t ts)
  show ?case
  proof (cases i)
    case 0
    then show ?thesis using bearer_is_no_secret [of t] by auto
  next
    case (Suc j)
    then show ?thesis using 2 bearer_is_no_secret [of t] by (cases j) auto
  qed
qed simp

text \<open>
  C21. The message of a provider error is the provider's, word by word, but for the credentials that
  are recognised in it: a word is replaced by the mark exactly when it carries a key of a known prefix
  at its start or after a delimiter, or follows the word bearer (in any case); every other word is
  shown as it was. No recognised key is left, and redacting twice is redacting once. A bearer token
  whose keyword is glued to a quote or a field name is not recognised.
\<close>

theorem provider_errors_are_redacted:
  fixes message :: string
  defines "words \<equiv> split_whitespace message"
  assumes "shown = split_whitespace (pe_message (provider_error_of category p model message))"
  shows "length shown = length words \<and>
    (\<forall>i<length words. shown ! i =
       (if 0 < i \<and> to_ascii_lowercase (shown ! (i - 1)) = ''bearer'' \<or> credential_word (words ! i)
        then ''[redacted]'' else words ! i)) \<and>
    (\<forall>t\<in>set shown. \<not> credential_word t) \<and>
    redact (redact message) = redact message"
proof -
  have eq: "shown = redact_tokens False words"
    using assms by (simp add: provider_error_of_def tokens_of_redact)
  have "redact (redact message) = redact message"
    using tokens_of_redact [of message] redact_tokens_idem [of False "split_whitespace message"]
    by (simp add: redact_def [of "redact message"]) (simp add: redact_def)
  moreover have "\<not> credential_word t" if "t \<in> set shown" for t
    using redact_tokens_secret [OF that [unfolded eq]] bearer_is_no_secret unfolding has_secret_iff by blast
  moreover have "length shown = length words"
    using redact_pointwise [of words False] unfolding eq by (simp add: list_all2_lengthD)
  moreover have "shown ! i = (if 0 < i \<and> to_ascii_lowercase (shown ! (i - 1)) = ''bearer'' \<or> credential_word (words ! i)
        then ''[redacted]'' else words ! i)" if "i < length words" for i
    using redact_tokens_nth [OF that, of False] unfolding eq
    by (simp add: has_secret_iff is_bearer_def redacted_mark_def)
  ultimately show ?thesis by blast
qed

lemma provider_errors_are_redacted_witness:
  "split_whitespace (redact ''key=sk-abc Bearer xyz gone'') = [''[redacted]'', ''Bearer'', ''[redacted]'', ''gone'']"
proof -
  let ?m = "''key=sk-abc Bearer xyz gone''"
  let ?shown = "split_whitespace (redact ?m)"
  have words: "split_whitespace ?m = [''key=sk-abc'', ''Bearer'', ''xyz'', ''gone'']" by code_simp
  have keys: "credential_word ''key=sk-abc''" "\<not> credential_word ''Bearer''" "\<not> credential_word ''xyz''" "\<not> credential_word ''gone''"
    unfolding has_secret_iff [symmetric] by code_simp+
  have lower: "to_ascii_lowercase ''[redacted]'' = ''[redacted]''" "to_ascii_lowercase ''Bearer'' = ''bearer''"
    by code_simp+
  have shown: "length ?shown = 4" "\<forall>i<4. ?shown ! i =
       (if 0 < i \<and> to_ascii_lowercase (?shown ! (i - 1)) = ''bearer'' \<or> credential_word (split_whitespace ?m ! i)
        then ''[redacted]'' else split_whitespace ?m ! i)"
    using provider_errors_are_redacted [OF refl, of Unknown Ollama None ?m] by (simp_all add: provider_error_of_def words)
  have "?shown ! 0 = ''[redacted]''" using shown(2) keys by (simp add: words)
  moreover from this have "?shown ! 1 = ''Bearer''" using shown(2) [rule_format, of 1] keys lower by (simp add: words)
  moreover from this have "?shown ! 2 = ''[redacted]''" using shown(2) [rule_format, of 2] lower by (simp add: words numeral_2_eq_2)
  moreover from this have "?shown ! 3 = ''gone''" using shown(2) [rule_format, of 3] keys lower by (simp add: words numeral_3_eq_3 numeral_2_eq_2)
  ultimately show ?thesis
    using shown(1) by (intro nth_equalityI) (auto simp: less_Suc_eq numeral_eq_Suc)
qed

end
