(* ===== verification/Cli_Tools.thy ===== *)
theory Cli_Tools
  imports Run_Machine
begin

text \<open>
  The tools the client runs on the user's machine (\<^verbatim>\<open>smista-cli/src/tools.rs\<close>): reading,
  writing and editing files of the workspace, and the shell.

  The machine is a \<open>disk\<close>: the text files by their real path, the path the operating system
  reaches for a given one when it follows symbolic links, and the paths that can be created or
  written. The client checks the path it is given; the file operations follow the links on it.
  The shell is an argument, a program on the disk.
\<close>

section \<open>Paths\<close>

datatype path_component = RootDir | CurDir | ParentDir | NormalPart string

type_synonym path = "path_component list"

fun part_component :: "string \<Rightarrow> path_component" where
  "part_component w = (if w = ''.'' then CurDir else if w = ''..'' then ParentDir else NormalPart w)"

text \<open>\<open>Path::components\<close>: no empty parts, and \<open>.\<close> only where a relative path starts with it.\<close>

definition parts_of :: "string \<Rightarrow> path" where
  "parts_of p = map part_component
     (filter (\<lambda>w. w \<noteq> [] \<and> w \<noteq> ''.'') (split_when (\<lambda>c. c = CHR ''/'') p))"

definition is_absolute :: "string \<Rightarrow> bool" where
  "is_absolute p \<longleftrightarrow> p \<noteq> [] \<and> hd p = CHR ''/''"

definition path_components :: "string \<Rightarrow> path" where
  "path_components p =
     (if is_absolute p then RootDir # parts_of p
      else if hd (split_when (\<lambda>c. c = CHR ''/'') p) = ''.'' then CurDir # parts_of p
      else parts_of p)"

definition path_join :: "string \<Rightarrow> string \<Rightarrow> string" where
  "path_join cwd p =
     (if is_absolute p then p
      else if cwd = [] \<or> last cwd = CHR ''/'' then cwd @ p else cwd @ ''/'' @ p)"

fun normalize_step :: "path \<Rightarrow> path_component \<Rightarrow> path" where
  "normalize_step acc CurDir = acc"
| "normalize_step acc ParentDir = (if acc = [] \<or> acc = [RootDir] then acc else butlast acc)"
| "normalize_step acc (NormalPart n) = acc @ [NormalPart n]"
| "normalize_step acc RootDir = [RootDir]"

definition normalize_path :: "path \<Rightarrow> path" where
  "normalize_path p = foldl normalize_step [] p"

fun component_text :: "path_component \<Rightarrow> string" where
  "component_text RootDir = []"
| "component_text CurDir = ''.''"
| "component_text ParentDir = ''..''"
| "component_text (NormalPart n) = n"

definition show_path :: "path \<Rightarrow> string" where
  "show_path p = (if p = [RootDir] then ''/'' else join ''/'' (map component_text p))"

definition starts_with_path :: "path \<Rightarrow> path \<Rightarrow> bool" where
  "starts_with_path base p \<longleftrightarrow> take (length base) p = base"

definition resolve_path :: "string \<Rightarrow> string \<Rightarrow> (string, path) result" where
  "resolve_path cwd p =
     (let base = normalize_path (path_components cwd);
          normalized = normalize_path (path_components (path_join cwd p))
      in if starts_with_path base normalized then Ok normalized
         else Err (''path '' @ show_path normalized @ '' is outside the workspace '' @ show_path base))"

lemma resolved_inside:
  "resolve_path cwd p = Ok q \<Longrightarrow> starts_with_path (normalize_path (path_components cwd)) q"
  by (auto simp: resolve_path_def Let_def split: if_splits)

text \<open>A normalized path is a root, if any, and then names only.\<close>

definition normal_path :: "path \<Rightarrow> bool" where
  "normal_path p \<longleftrightarrow> (\<forall>c\<in>set p. c \<noteq> CurDir \<and> c \<noteq> ParentDir) \<and> RootDir \<notin> set (tl p)"

lemma normalize_step_normal: "normal_path acc \<Longrightarrow> normal_path (normalize_step acc c)"
proof (cases c)
  case ParentDir
  assume "normal_path acc"
  moreover have "set (butlast acc) \<subseteq> set acc" "set (tl (butlast acc)) \<subseteq> set (tl acc)"
    by (cases acc; auto dest: in_set_butlastD split: if_splits)+
  ultimately show ?thesis using ParentDir unfolding normal_path_def by auto
next
  case (NormalPart n)
  assume "normal_path acc"
  then show ?thesis using NormalPart unfolding normal_path_def by (cases acc) auto
qed (auto simp: normal_path_def)

lemma normalize_normal: "normal_path (normalize_path p)"
proof -
  have "normal_path acc \<Longrightarrow> normal_path (foldl normalize_step acc p)" for acc
    by (induction p arbitrary: acc) (simp_all add: normalize_step_normal)
  from this [of "[]"] show ?thesis by (simp add: normalize_path_def) (simp add: normal_path_def)
qed

section \<open>The machine\<close>

record disk =
  dk_files :: "path \<rightharpoonup> string"  \<comment> \<open>by real path\<close>
  dk_real :: "path \<Rightarrow> path"  \<comment> \<open>where a path leads when its symbolic links are followed\<close>
  dk_makes :: "path \<Rightarrow> bool"  \<comment> \<open>the directories that can be created or exist\<close>
  dk_writes :: "path \<Rightarrow> bool"  \<comment> \<open>the files that can be written\<close>

record shell_output =
  so_stdout :: string
  so_stderr :: string
  so_success :: bool
  so_status :: string

type_synonym shell = "string \<Rightarrow> string \<Rightarrow> disk \<Rightarrow> shell_output option \<times> disk"

record local_call =
  lc_call_id :: string
  lc_name :: string
  lc_arguments :: json
  lc_decision :: "approval_decision option"

definition required_string :: "json \<Rightarrow> string \<Rightarrow> (string, string) result" where
  "required_string arguments field =
     (case Option.bind (json_get arguments field) json_str of
        Some s \<Rightarrow> Ok s
      | None \<Rightarrow> Err (''missing string argument '' @ CHR 0x60 # field @ [CHR 0x60]))"

section \<open>The tools\<close>

definition read_file :: "string \<Rightarrow> json \<Rightarrow> disk \<Rightarrow> (string, string) result \<times> disk" where
  "read_file cwd arguments d =
     (case and_then (required_string arguments ''path'') (resolve_path cwd) of
        Inl e \<Rightarrow> (Err e, d)
      | Inr p \<Rightarrow>
          (case dk_files d (dk_real d p) of
             Some text \<Rightarrow> (Ok text, d)
           | None \<Rightarrow> (Err (''failed to read '' @ show_path p), d)))"

definition write_text :: "path \<Rightarrow> string \<Rightarrow> disk \<Rightarrow> (string, unit) result \<times> disk" where
  "write_text p content d =
     (if dk_writes d p then (Ok (), d\<lparr>dk_files := (dk_files d)(dk_real d p \<mapsto> content)\<rparr>)
      else (Err (''failed to write '' @ show_path p), d))"

definition write_file :: "string \<Rightarrow> json \<Rightarrow> disk \<Rightarrow> (string, string) result \<times> disk" where
  "write_file cwd arguments d =
     (case and_then (required_string arguments ''path'') (resolve_path cwd) of
        Inl e \<Rightarrow> (Err e, d)
      | Inr p \<Rightarrow>
          (case required_string arguments ''content'' of
             Inl e \<Rightarrow> (Err e, d)
           | Inr content \<Rightarrow>
               if butlast p \<noteq> [] \<and> \<not> dk_makes d (butlast p)
               then (Err (''failed to create '' @ show_path (butlast p)), d)
               else (case write_text p content d of
                       (Inl e, d') \<Rightarrow> (Err e, d')
                     | (Inr _, d') \<Rightarrow> (Ok (''wrote '' @ show_path p), d'))))"

definition replace_first :: "string \<Rightarrow> string \<Rightarrow> string \<Rightarrow> string" where
  "replace_first old new text =
     (case split_once_str old text of Some (a, b) \<Rightarrow> a @ new @ b | None \<Rightarrow> text)"

definition edit_file :: "string \<Rightarrow> json \<Rightarrow> disk \<Rightarrow> (string, string) result \<times> disk" where
  "edit_file cwd arguments d =
     (case and_then (required_string arguments ''path'') (resolve_path cwd) of
        Inl e \<Rightarrow> (Err e, d)
      | Inr p \<Rightarrow>
          (case (required_string arguments ''old'', required_string arguments ''new'') of
             (Inl e, _) \<Rightarrow> (Err e, d)
           | (Inr _, Inl e) \<Rightarrow> (Err e, d)
           | (Inr old, Inr new) \<Rightarrow>
               (case dk_files d (dk_real d p) of
                  None \<Rightarrow> (Err (''failed to read '' @ show_path p), d)
                | Some text \<Rightarrow>
                    if \<not> str_contains text old
                    then (Err (''old text was not found in '' @ show_path p), d)
                    else (case write_text p (replace_first old new text) d of
                            (Inl e, d') \<Rightarrow> (Err e, d')
                          | (Inr _, d') \<Rightarrow> (Ok (''edited '' @ show_path p), d')))))"

definition run_shell :: "shell \<Rightarrow> string \<Rightarrow> json \<Rightarrow> disk \<Rightarrow> (string, string) result \<times> disk" where
  "run_shell sh cwd arguments d =
     (case required_string arguments ''command'' of
        Inl e \<Rightarrow> (Err e, d)
      | Inr command \<Rightarrow>
          (case sh cwd command d of
             (None, d') \<Rightarrow> (Err ''failed to run shell command'', d')
           | (Some o', d') \<Rightarrow>
               let content = (if so_stderr o' = [] then so_stdout o'
                              else if so_stdout o' = [] then so_stderr o'
                              else so_stdout o' @ so_stderr o')
               in if so_success o' then (Ok content, d')
                  else (Err (''shell command exited with '' @ so_status o' @ '': '' @ content), d')))"

definition run_tool :: "shell \<Rightarrow> string \<Rightarrow> string \<Rightarrow> json \<Rightarrow> disk \<Rightarrow> (string, string) result \<times> disk" where
  "run_tool sh cwd name arguments d =
     (if name = read_file_tool then read_file cwd arguments d
      else if name = write_file_tool then write_file cwd arguments d
      else if name = edit_file_tool then edit_file cwd arguments d
      else if name = shell_tool then run_shell sh cwd arguments d
      else (Err (''unsupported tool: '' @ name), d))"

definition execute_tool :: "shell \<Rightarrow> string \<Rightarrow> local_call \<Rightarrow> disk \<Rightarrow> tool_result \<times> disk" where
  "execute_tool sh cwd call d =
     (case run_tool sh cwd (lc_name call) (lc_arguments call) d of
        (Inr content, d') \<Rightarrow>
          (\<lparr>tl_call_id = lc_call_id call, tl_content = content, tl_is_error = False,
            tl_decision = lc_decision call\<rparr>, d')
      | (Inl e, d') \<Rightarrow>
          (\<lparr>tl_call_id = lc_call_id call, tl_content = e, tl_is_error = True,
            tl_decision = lc_decision call\<rparr>, d'))"

section \<open>Containment\<close>

definition workspace_root :: "string \<Rightarrow> path" where
  "workspace_root cwd = normalize_path (path_components cwd)"

text \<open>Where the workspace really is, and that no link in it leads out.\<close>

definition real_root :: "string \<Rightarrow> disk \<Rightarrow> path" where
  "real_root cwd d = dk_real d (workspace_root cwd)"

definition links_inside :: "string \<Rightarrow> disk \<Rightarrow> bool" where
  "links_inside cwd d \<longleftrightarrow>
     (\<forall>p. starts_with_path (workspace_root cwd) p \<longrightarrow> starts_with_path (real_root cwd d) (dk_real d p))"

text \<open>Two disks that a tool confined to the workspace cannot tell apart.\<close>

definition same_workspace :: "string \<Rightarrow> disk \<Rightarrow> disk \<Rightarrow> bool" where
  "same_workspace cwd d d' \<longleftrightarrow> dk_real d = dk_real d' \<and> dk_makes d = dk_makes d' \<and> dk_writes d = dk_writes d' \<and>
     (\<forall>p. starts_with_path (real_root cwd d) p \<longrightarrow> dk_files d p = dk_files d' p)"

definition confined :: "string \<Rightarrow> (disk \<Rightarrow> (string, string) result \<times> disk) \<Rightarrow> bool" where
  "confined cwd f \<longleftrightarrow>
     (\<forall>d p. links_inside cwd d \<longrightarrow> \<not> starts_with_path (real_root cwd d) p \<longrightarrow> dk_files (snd (f d)) p = dk_files d p) \<and>
     (\<forall>d d'. links_inside cwd d \<longrightarrow> same_workspace cwd d d' \<longrightarrow>
        fst (f d) = fst (f d') \<and> same_workspace cwd (snd (f d)) (snd (f d')))"

lemma resolved_in_root: "resolve_path cwd p = Inr q \<Longrightarrow> starts_with_path (workspace_root cwd) q"
  using resolved_inside unfolding workspace_root_def by auto

lemma and_then_Inr: "and_then r f = Inr y \<longleftrightarrow> (\<exists>x. r = Inr x \<and> f x = Inr y)"
  by (cases r) auto

lemma target_inside:
  "and_then (required_string arguments ''path'') (resolve_path cwd) = Inr p \<Longrightarrow> links_inside cwd d \<Longrightarrow>
   starts_with_path (real_root cwd d) (dk_real d p)"
  by (auto simp: and_then_Inr links_inside_def resolved_in_root)

lemma target_same:
  "and_then (required_string arguments ''path'') (resolve_path cwd) = Inr p \<Longrightarrow> links_inside cwd d \<Longrightarrow>
   same_workspace cwd d d' \<Longrightarrow> dk_files d' (dk_real d' p) = dk_files d (dk_real d p)"
  using target_inside [of arguments cwd p d] unfolding same_workspace_def by metis

lemma write_text_outside:
  "starts_with_path base (dk_real d p) \<Longrightarrow> \<not> starts_with_path base q \<Longrightarrow> dk_files (snd (write_text p c d)) q = dk_files d q"
  by (auto simp: write_text_def)

lemma write_text_same:
  assumes "same_workspace cwd d d'"
  shows "fst (write_text p c d) = fst (write_text p c d') \<and>
    same_workspace cwd (snd (write_text p c d)) (snd (write_text p c d'))"
  using assms by (auto simp: write_text_def same_workspace_def real_root_def)

lemma confined_read: "confined cwd (read_file cwd arguments)"
  unfolding confined_def
proof (intro conjI allI impI)
  fix d d' assume links: "links_inside cwd d" and same: "same_workspace cwd d d'"
  show "fst (read_file cwd arguments d) = fst (read_file cwd arguments d')"
    using target_same [OF _ links same] by (auto simp: read_file_def split: sum.split option.split)
  show "same_workspace cwd (snd (read_file cwd arguments d)) (snd (read_file cwd arguments d'))"
    using same by (auto simp: read_file_def split: sum.split option.split)
qed (auto simp: read_file_def split: sum.split option.split)

lemma confined_write: "confined cwd (write_file cwd arguments)"
proof (cases "and_then (required_string arguments ''path'') (resolve_path cwd)")
  case (Inr p)
  show ?thesis unfolding confined_def
  proof (intro conjI allI impI)
    fix d q assume "links_inside cwd d" "\<not> starts_with_path (real_root cwd d) q"
    then show "dk_files (snd (write_file cwd arguments d)) q = dk_files d q"
      using write_text_outside [OF target_inside [OF Inr], of d q]
      by (auto simp: write_file_def Inr split: sum.split prod.split) (metis snd_conv)+
  next
    fix d d' assume same: "same_workspace cwd d d'"
    then have makes: "dk_makes d = dk_makes d'" by (simp add: same_workspace_def)
    show "fst (write_file cwd arguments d) = fst (write_file cwd arguments d')"
      "same_workspace cwd (snd (write_file cwd arguments d)) (snd (write_file cwd arguments d'))"
      using write_text_same [OF same, of p] same makes
      by (auto simp: write_file_def Inr split: sum.split prod.split) (metis fst_conv snd_conv Inl_Inr_False sum.inject)+
  qed
qed (simp add: confined_def write_file_def)

lemma confined_edit: "confined cwd (edit_file cwd arguments)"
proof (cases "and_then (required_string arguments ''path'') (resolve_path cwd)")
  case (Inr p)
  show ?thesis unfolding confined_def
  proof (intro conjI allI impI)
    fix d q assume "links_inside cwd d" "\<not> starts_with_path (real_root cwd d) q"
    then show "dk_files (snd (edit_file cwd arguments d)) q = dk_files d q"
      using write_text_outside [OF target_inside [OF Inr], of d q]
      by (auto simp: edit_file_def Inr split: sum.split prod.split option.split) (metis snd_conv)+
  next
    fix d d' assume links: "links_inside cwd d" and same: "same_workspace cwd d d'"
    note agree = target_same [OF Inr links same]
    show "fst (edit_file cwd arguments d) = fst (edit_file cwd arguments d')"
      "same_workspace cwd (snd (edit_file cwd arguments d)) (snd (edit_file cwd arguments d'))"
      using write_text_same [OF same, of p] same agree
      by (auto simp: edit_file_def Inr split: sum.split prod.split option.split) (metis fst_conv snd_conv Inl_Inr_False sum.inject)+
  qed
qed (simp add: confined_def edit_file_def)

lemma confined_tools: "name \<noteq> shell_tool \<Longrightarrow> confined cwd (run_tool sh cwd name arguments)"
  using confined_read confined_write confined_edit
  by (auto simp: run_tool_def [abs_def] confined_def)

text \<open>A link out of the workspace is followed: the path is checked as text only.\<close>

lemma link_escapes:
  assumes "required_string arguments ''path'' = Ok p" "required_string arguments ''content'' = Ok content"
    and "resolve_path cwd p = Ok q" "dk_makes d (butlast q)" "dk_writes d q"
  shows "run_tool sh cwd write_file_tool arguments d =
    (Ok (''wrote '' @ show_path q), d\<lparr>dk_files := (dk_files d)(dk_real d q \<mapsto> content)\<rparr>)"
  using assms by (simp add: run_tool_def write_file_def write_text_def read_file_tool_def write_file_tool_def)

text \<open>Editing replaces the first occurrence of the old text, where there is one.\<close>

lemma split_once_str_Some: "split_once_str old t = Some (a, b) \<Longrightarrow> t = a @ old @ b"
  by (induction old t arbitrary: a b rule: split_once_str.induct)
    (auto split: if_splits option.splits simp: strip_prefix_Some)

lemma replace_first_eq:
  "str_contains t old \<Longrightarrow> \<exists>a b. t = a @ old @ b \<and> replace_first old new t = a @ new @ b"
proof -
  assume "str_contains t old"
  then have "split_once_str old t \<noteq> None"
  proof (induction t)
    case (Cons c cs)
    then show ?case by (auto simp: strip_prefix_def split: option.split)
  qed simp
  then obtain a b where s: "split_once_str old t = Some (a, b)" by auto
  then show ?thesis using split_once_str_Some [OF s] by (auto simp: replace_first_def)
qed

end
