(* ===== verification/Cli_Protocol.thy ===== *)
theory Cli_Protocol
  imports Cli_Tools Usage_Report
begin

text \<open>
  What the parts of the command line client say to each other: the commands of the terminal to
  the worker (\<^verbatim>\<open>router_client/cmd.rs\<close>) and the messages of the worker to the terminal
  (\<^verbatim>\<open>router_client/msg.rs\<close>), under \<^verbatim>\<open>smista-cli/src/app\<close>.
\<close>

section \<open>Commands\<close>

datatype decision_scope = OnceScope | SessionScope

record user_decision =
  ud_id :: string
  ud_outcome :: approval_decision
  ud_scope :: decision_scope
  ud_reason :: "string option"

record submitted_result =
  sr_call_id :: string
  sr_content :: string
  sr_is_error :: bool

datatype continue_execution = SubmitResults "submitted_result list"
  | SubmitDecisions "user_decision list" | InjectMessages "string list" | BreakRun

record execute_args =
  xa_prompt :: string
  xa_files :: "string list"
  xa_plan :: bool
  xa_model :: "model_reference option"

datatype cli_cmd = ExecuteCmd execute_args | ContinueCmd continue_execution | ClearCmd
  | ListModelsCmd | ListProvidersCmd | ListSessionsCmd | ResumeSessionCmd string
  | GetUsageCmd | GetTraceCmd | PreviewCmd execute_args | GetRouterStatusCmd

section \<open>Messages\<close>

record approval_prompt =
  ap_id :: string
  ap_title :: string
  ap_detail :: string
  ap_tool_name :: "string option"
  ap_wildcard_alias :: "string option"

record listed_model =
  lm_reference :: model_reference
  lm_provider :: string
  lm_id :: string
  lm_display_name :: string

record listed_provider =
  lv_name :: string
  lv_local :: bool

record listed_session =
  ls_id :: string
  ls_title :: "string option"
  ls_scope :: "string option"
  ls_updated_at :: string

record resumed_session =
  rz_id :: string
  rz_title :: string
  rz_messages :: "(string \<times> string) list"  \<comment> \<open>role and content\<close>

record trace_line =
  tn_event_type :: string
  tn_task_type :: string
  tn_provider :: string
  tn_model :: string
  tn_matched_rule :: "string option"
  tn_created_at :: string
  tn_payload :: string

record preview_summary =
  pv_routing :: routing_decision
  pv_source :: string
  pv_reason :: string
  pv_confidence :: "string option"
  pv_included :: "string list"
  pv_excluded :: "string list"
  pv_cost_min :: string
  pv_cost_max :: string
  pv_cost_currency :: string
  pv_permissions :: "(string \<times> string) list"

datatype cli_msg = AssistantTurnMsg string "string option"
  | ContentChunkMsg string | ReasoningChunkMsg string
  | ToolCallStartedMsg string string  \<comment> \<open>call id and name\<close>
  | ApprovalPromptMsg approval_prompt
  | ModelsListMsg "listed_model list" | ProvidersListMsg "listed_provider list"
  | SessionsListMsg "listed_session list" | ResumedSessionMsg resumed_session
  | UsageMsg session_usage_response | TraceMsg "trace_line list" | PreviewMsg preview_summary
  | RouterStatusMsg string string  \<comment> \<open>status and version\<close>
  | SessionClosedMsg "string option" "session_usage_response option"
  | ErrorMsg string | IdleMsg | ThinkingMsg | InterruptedMsg

end
