(* ===== verification/Utf8_Text.thy ===== *)
theory Utf8_Text
  imports Rust_Text
begin

text \<open>
  Byte positions in a \<open>String\<close>. Rust indexes text by byte and panics inside a character; a
  scalar below U+0080 takes one byte and one up to U+00FF takes two.
\<close>

definition utf8_width :: "char \<Rightarrow> nat" where
  "utf8_width c = (if code c < 128 then 1 else 2)"

definition byte_len :: "string \<Rightarrow> nat" where
  "byte_len s = sum_list (map utf8_width s)"

text \<open>Splitting at a byte; \<open>None\<close> where Rust panics.\<close>

fun split_at :: "nat \<Rightarrow> string \<Rightarrow> (string \<times> string) option" where
  "split_at n [] = (if n = 0 then Some ([], []) else None)"
| "split_at n (c # cs) =
     (if n = 0 then Some ([], c # cs)
      else if utf8_width c \<le> n then map_option (\<lambda>(a, b). (c # a, b)) (split_at (n - utf8_width c) cs)
      else None)"

text \<open>The byte of the character at an index, or the end of the text.\<close>

definition char_to_byte_index :: "string \<Rightarrow> nat \<Rightarrow> nat" where
  "char_to_byte_index s i = byte_len (take i s)"

text \<open>\<open>String::insert\<close>, and \<open>String::remove\<close> of the character there, if any.\<close>

definition insert_at :: "nat \<Rightarrow> char \<Rightarrow> string \<Rightarrow> string option" where
  "insert_at n c s = map_option (\<lambda>(a, b). a @ c # b) (split_at n s)"

definition remove_at :: "nat \<Rightarrow> string \<Rightarrow> (char option \<times> string) option" where
  "remove_at n s =
     map_option (\<lambda>(a, b). case b of [] \<Rightarrow> (None, s) | c # b' \<Rightarrow> (Some c, a @ b')) (split_at n s)"

lemma utf8_width_pos [simp]: "0 < utf8_width c"
  by (simp add: utf8_width_def)

lemma byte_len_simps [simp]:
  "byte_len [] = 0" "byte_len (c # s) = utf8_width c + byte_len s" "byte_len (a @ b) = byte_len a + byte_len b"
  by (simp_all add: byte_len_def)

lemma byte_len_0 [simp]: "byte_len s = 0 \<longleftrightarrow> s = []"
  using utf8_width_pos by (cases s) (auto simp: neq0_conv)

lemma length_le_bytes: "length s \<le> byte_len s"
proof (induction s)
  case (Cons c s)
  then show ?case using utf8_width_pos [of c] by (simp del: utf8_width_pos)
qed simp

lemma split_at_byte_len [simp]: "split_at (byte_len a) (a @ b) = Some (a, b)"
proof (induction a)
  case Nil
  then show ?case by (cases b) auto
qed auto

lemma split_at_Some: "split_at n s = Some (a, b) \<longleftrightarrow> s = a @ b \<and> n = byte_len a"
proof
  show "split_at n s = Some (a, b) \<Longrightarrow> s = a @ b \<and> n = byte_len a"
    by (induction n s arbitrary: a rule: split_at.induct) (auto split: if_splits)
qed auto

lemma split_at_index: "split_at (char_to_byte_index s i) s = Some (take i s, drop i s)"
  by (simp add: char_to_byte_index_def split_at_Some)

lemma insert_at_index [simp]: "insert_at (char_to_byte_index s i) c s = Some (take i s @ c # drop i s)"
  by (simp add: insert_at_def split_at_index)

lemma remove_at_index [simp]:
  "remove_at (char_to_byte_index s i) s =
     Some (if i < length s then (Some (s ! i), take i s @ drop (Suc i) s) else (None, s))"
  by (auto simp: remove_at_def split_at_index Cons_nth_drop_Suc [symmetric])

lemma char_to_byte_index_mono: "i \<le> j \<Longrightarrow> char_to_byte_index s i \<le> char_to_byte_index s j"
proof -
  assume "i \<le> j"
  then have "take j s = take i s @ drop i (take j s)" by (metis append_take_drop_id min.absorb1 take_take)
  then show ?thesis unfolding char_to_byte_index_def by (metis byte_len_simps(3) le_add1)
qed

end
