(* ===== verification/Prompt_State.thy ===== *)
theory Prompt_State
  imports Prompt_Editor
begin

text \<open>
  \<open>PromptState\<close> (\<^verbatim>\<open>smista-cli/src/app/tui/state/prompt.rs\<close>): which of the three prompts of
  \<open>Prompt_Editor\<close> a key acts on and how it changes from one into another.

  \<open>prompt_good\<close> is the invariant, \<open>line_edit\<close> the abstract line editor: text, cursor and a floor
  the cursor does not pass, the slash of a command. The lemmas show that every key is served and
  that the prompt is the line.
\<close>

section \<open>The prompt\<close>

datatype prompt_state = EmptyPrompt | CommandPrompt command_prompt | TextPrompt text_prompt | FilePrompt file_prompt

definition without_completion :: "file_prompt \<Rightarrow> prompt_state" where
  "without_completion p =
     (if fp_command p
      then (let c = new_command_prompt (case strip_prefix ''/'' (pt_input p) of Some s \<Rightarrow> s | None \<Rightarrow> pt_input p)
            in CommandPrompt (c\<lparr>pt_cursor := min (pt_cursor p - 1) (length (pt_input c))\<rparr>))
      else TextPrompt \<lparr>pt_input = pt_input p, pt_cursor = pt_cursor p\<rparr>)"

definition prompt_push :: "char \<Rightarrow> prompt_state \<Rightarrow> prompt_state option" where
  "prompt_push c s =
     (case s of
        EmptyPrompt \<Rightarrow>
          Some (if c = CHR ''/'' then CommandPrompt (new_command_prompt [])
                else if c = CHR ''@'' then FilePrompt (new_file_prompt ''@'' 1 False)
                else TextPrompt (new_text_prompt [c]))
      | TextPrompt p \<Rightarrow>
          map_option (\<lambda>q. if c = CHR ''@'' \<and> pt_cursor p = length (pt_input p)
                          then FilePrompt (new_file_prompt (pt_input q) (byte_len (pt_input q)) False)
                          else TextPrompt q) (edit_insert c p)
      | FilePrompt p \<Rightarrow>
          map_option (\<lambda>q. if is_whitespace c then without_completion q else FilePrompt q) (file_insert c p)
      | CommandPrompt p \<Rightarrow>
          map_option (\<lambda>q. if c = CHR ''@'' \<and> cp_command p = PreviewSlash \<and> pt_cursor p = length (pt_input p)
                          then (let input = CHR ''/'' # pt_input q
                                in FilePrompt (new_file_prompt input (byte_len input) True))
                          else CommandPrompt (reparse q)) (edit_insert c p))"

fun prompt_push_str :: "string \<Rightarrow> prompt_state \<Rightarrow> prompt_state option" where
  "prompt_push_str [] s = Some s"
| "prompt_push_str (c # cs) s = Option.bind (prompt_push c s) (prompt_push_str cs)"

definition replace_with_input :: "string \<Rightarrow> prompt_state" where
  "replace_with_input input =
     (if input = [] then EmptyPrompt
      else (case strip_prefix ''/'' input of
              Some command \<Rightarrow> CommandPrompt (new_command_prompt command)
            | None \<Rightarrow> TextPrompt (new_text_prompt input)))"

definition text_or_empty :: "text_prompt \<Rightarrow> prompt_state" where
  "text_or_empty p = (if pt_input p = [] then EmptyPrompt else TextPrompt p)"

definition prompt_backspace :: "prompt_state \<Rightarrow> (char option \<times> prompt_state) option" where
  "prompt_backspace s =
     (case s of
        EmptyPrompt \<Rightarrow> Some (None, EmptyPrompt)
      | TextPrompt p \<Rightarrow> map_option (map_prod id text_or_empty) (edit_backspace p)
      | FilePrompt p \<Rightarrow>
          map_option (map_prod id (\<lambda>q.
            if pt_input q = [] then EmptyPrompt
            else if char_to_byte_index (pt_input q) (pt_cursor q) < fp_mention q then without_completion q
            else FilePrompt q)) (file_backspace p)
      | CommandPrompt p \<Rightarrow>
          if pt_input p = [] \<and> pt_cursor p = 0 then Some (Some CHR ''/'', EmptyPrompt)
          else map_option (map_prod id (\<lambda>q. CommandPrompt (reparse q))) (edit_backspace p))"

definition prompt_delete :: "prompt_state \<Rightarrow> (char option \<times> prompt_state) option" where
  "prompt_delete s =
     (case s of
        EmptyPrompt \<Rightarrow> Some (None, EmptyPrompt)
      | TextPrompt p \<Rightarrow> map_option (map_prod id text_or_empty) (remove_at_cursor p)
      | FilePrompt p \<Rightarrow> map_option (map_prod id FilePrompt) (file_delete p)
      | CommandPrompt p \<Rightarrow> map_option (map_prod id (\<lambda>q. CommandPrompt (reparse q))) (remove_at_cursor p))"

fun prompt_input :: "prompt_state \<Rightarrow> string" where
  "prompt_input EmptyPrompt = []"
| "prompt_input (TextPrompt p) = pt_input p"
| "prompt_input (FilePrompt p) = pt_input p"
| "prompt_input (CommandPrompt p) = CHR ''/'' # pt_input p"

fun cursor_position :: "prompt_state \<Rightarrow> nat" where
  "cursor_position EmptyPrompt = 0"
| "cursor_position (TextPrompt p) = pt_cursor p"
| "cursor_position (FilePrompt p) = pt_cursor p"
| "cursor_position (CommandPrompt p) = pt_cursor p + 1"

fun prompt_left :: "prompt_state \<Rightarrow> prompt_state" where
  "prompt_left EmptyPrompt = EmptyPrompt"
| "prompt_left (TextPrompt p) = TextPrompt (cursor_left p)"
| "prompt_left (FilePrompt p) = without_completion (cursor_left p)"
| "prompt_left (CommandPrompt p) = CommandPrompt (cursor_left p)"

definition at_end_or_plain :: "file_prompt \<Rightarrow> prompt_state" where
  "at_end_or_plain p = (if pt_cursor p \<noteq> length (pt_input p) then without_completion p else FilePrompt p)"

fun prompt_right :: "prompt_state \<Rightarrow> prompt_state" where
  "prompt_right EmptyPrompt = EmptyPrompt"
| "prompt_right (TextPrompt p) = TextPrompt (cursor_right p)"
| "prompt_right (FilePrompt p) = at_end_or_plain (cursor_right p)"
| "prompt_right (CommandPrompt p) = CommandPrompt (cursor_right p)"

fun prompt_home :: "prompt_state \<Rightarrow> prompt_state" where
  "prompt_home EmptyPrompt = EmptyPrompt"
| "prompt_home (TextPrompt p) = TextPrompt (cursor_home p)"
| "prompt_home (FilePrompt p) = without_completion (cursor_home p)"
| "prompt_home (CommandPrompt p) = CommandPrompt (cursor_home p)"

fun prompt_end :: "prompt_state \<Rightarrow> prompt_state" where
  "prompt_end EmptyPrompt = EmptyPrompt"
| "prompt_end (TextPrompt p) = TextPrompt (cursor_end p)"
| "prompt_end (FilePrompt p) = FilePrompt (cursor_end p)"
| "prompt_end (CommandPrompt p) = CommandPrompt (cursor_end p)"

fun prompt_vertical :: "vertical_direction \<Rightarrow> prompt_state \<Rightarrow> prompt_state" where
  "prompt_vertical d EmptyPrompt = EmptyPrompt"
| "prompt_vertical d (TextPrompt p) = TextPrompt (cursor_vertical d p)"
| "prompt_vertical d (FilePrompt p) = at_end_or_plain (cursor_vertical d p)"
| "prompt_vertical d (CommandPrompt p) = CommandPrompt (cursor_vertical d p)"

fun prompt_text :: "prompt_state \<Rightarrow> string option" where
  "prompt_text (TextPrompt p) = Some (pt_input p)"
| "prompt_text (FilePrompt p) = (if fp_command p then None else Some (pt_input p))"
| "prompt_text _ = None"

fun prompt_suggestion :: "prompt_state \<Rightarrow> string option" where
  "prompt_suggestion (CommandPrompt p) = cp_suggestion p"
| "prompt_suggestion (FilePrompt p) = fp_suggestion p"
| "prompt_suggestion _ = None"

fun accept_suggestion :: "prompt_state \<Rightarrow> (bool \<times> prompt_state) option" where
  "accept_suggestion (CommandPrompt p) = Some (map_prod id CommandPrompt (accept_command p))"
| "accept_suggestion (FilePrompt p) = map_option (map_prod id FilePrompt) (accept_file p)"
| "accept_suggestion s = Some (False, s)"

fun file_query :: "prompt_state \<Rightarrow> string option option" where
  "file_query (FilePrompt p) = map_option Some (mention_query p)"
| "file_query s = Some None"

fun on_file_prompt :: "(file_prompt \<Rightarrow> file_prompt option) \<Rightarrow> prompt_state \<Rightarrow> prompt_state option" where
  "on_file_prompt f (FilePrompt p) = map_option FilePrompt (f p)"
| "on_file_prompt f s = Some s"

definition replace_file_matches :: "string list \<Rightarrow> prompt_state \<Rightarrow> prompt_state option" where
  "replace_file_matches found = on_file_prompt (replace_matches found)"

definition next_file_match :: "prompt_state \<Rightarrow> prompt_state option" where
  "next_file_match = on_file_prompt next_match"

definition previous_file_match :: "prompt_state \<Rightarrow> prompt_state option" where
  "previous_file_match = on_file_prompt previous_match"

fun cancel_completion :: "prompt_state \<Rightarrow> bool \<times> prompt_state" where
  "cancel_completion (FilePrompt p) = (True, without_completion p)"
| "cancel_completion s = (False, s)"

section \<open>The invariant\<close>

definition mention_good :: "file_prompt \<Rightarrow> bool" where
  "mention_good p \<longleftrightarrow>
     (\<exists>before query. pt_input p = before @ ''@'' @ query \<and> fp_mention p = byte_len (before @ ''@'') \<and>
        (fp_command p \<longrightarrow> before \<noteq> [] \<and> hd before = CHR ''/''))"

definition completion_good :: "file_prompt \<Rightarrow> bool" where
  "completion_good p \<longleftrightarrow>
     (fp_selected p < length (fp_matches p) \<or> fp_matches p = [] \<and> fp_selected p = 0) \<and>
     Some (fp_suggestion p) = map_option fp_suggestion (refresh_suggestion p)"

fun prompt_good :: "prompt_state \<Rightarrow> bool" where
  "prompt_good EmptyPrompt = True"
| "prompt_good (TextPrompt p) = (pt_input p \<noteq> [] \<and> pt_cursor p \<le> length (pt_input p))"
| "prompt_good (CommandPrompt p) = (reparse p = p)"
| "prompt_good (FilePrompt p) = (pt_cursor p = length (pt_input p) \<and> mention_good p \<and> completion_good p)"

section \<open>Editing\<close>

lemma edit_insert_eq:
  "edit_insert c p = Some (p\<lparr>pt_input := take (pt_cursor p) (pt_input p) @ c # drop (pt_cursor p) (pt_input p),
     pt_cursor := pt_cursor p + 1\<rparr>)"
  by (simp add: edit_insert_def)

lemma remove_at_cursor_eq:
  "remove_at_cursor p =
     Some (if pt_cursor p < length (pt_input p)
           then (Some (pt_input p ! pt_cursor p),
                 p\<lparr>pt_input := take (pt_cursor p) (pt_input p) @ drop (Suc (pt_cursor p)) (pt_input p)\<rparr>)
           else (None, p))"
  by (simp add: remove_at_cursor_def)

lemma reparse_good [simp]: "reparse (reparse p) = reparse p"
  by (cases "split_command_input (pt_input p)") (simp add: reparse_def)

lemma reparse_parts [simp]:
  "pt_input (reparse p) = pt_input p" "pt_cursor (reparse p) = min (pt_cursor p) (length (pt_input p))"
  by (cases "split_command_input (pt_input p)"; simp add: reparse_def)+

lemma reparse_cursor: "reparse p = p \<Longrightarrow> pt_cursor p \<le> length (pt_input p)"
  by (metis reparse_parts(2) min.cobounded2)

lemma reparse_move:
  assumes "reparse p = p" "i \<le> length (pt_input p)"
  shows "reparse (p\<lparr>pt_cursor := i\<rparr>) = p\<lparr>pt_cursor := i\<rparr>"
  using assms by (cases p; cases "split_command_input (pt_input p)") (simp add: reparse_def)

lemma new_command_good [simp]: "reparse (new_command_prompt s) = new_command_prompt s"
  by (cases "split_command_input s") (simp add: reparse_def new_command_prompt_def)

lemma new_command_parts [simp]:
  "pt_input (new_command_prompt s) = s" "pt_cursor (new_command_prompt s) = length s"
  by (cases "split_command_input s"; simp add: new_command_prompt_def)+

text \<open>Leaving a completion keeps the text and the cursor.\<close>

lemma without_completion_good:
  assumes "pt_input p \<noteq> []" "pt_cursor p \<le> length (pt_input p)" "fp_command p \<Longrightarrow> hd (pt_input p) = CHR ''/''"
  shows "prompt_good (without_completion p)" "prompt_input (without_completion p) = pt_input p"
    "cursor_position (without_completion p) = (if fp_command p then max 1 (pt_cursor p) else pt_cursor p)"
proof -
  have "fp_command p \<Longrightarrow> \<exists>s. pt_input p = CHR ''/'' # s"
    using assms by (metis list.collapse)
  then show "prompt_good (without_completion p)" "prompt_input (without_completion p) = pt_input p"
    "cursor_position (without_completion p) = (if fp_command p then max 1 (pt_cursor p) else pt_cursor p)"
    using assms by (auto simp: without_completion_def strip_prefix_def Let_def reparse_move)
qed

lemma new_file_good:
  assumes "command \<Longrightarrow> before \<noteq> [] \<and> hd before = CHR ''/''"
  shows "prompt_good (FilePrompt (new_file_prompt (before @ ''@'') (byte_len (before @ ''@'')) command))"
proof -
  have "mention_good (new_file_prompt (before @ ''@'') (byte_len (before @ ''@'')) command)"
    using assms unfolding mention_good_def by (intro exI [of _ before] exI [of _ "[]"]) (simp add: new_file_prompt_def)
  then show ?thesis
    by (simp add: completion_good_def new_file_prompt_def refresh_suggestion_def selected_match_def)
qed

lemma no_matches_good:
  "fp_matches p = [] \<Longrightarrow> fp_selected p = 0 \<Longrightarrow> fp_suggestion p = None \<Longrightarrow> completion_good p"
  by (simp add: completion_good_def refresh_suggestion_def selected_match_def)

lemma clear_matches_parts [simp]:
  "pt_input (clear_matches p) = pt_input p" "pt_cursor (clear_matches p) = pt_cursor p"
  "fp_mention (clear_matches p) = fp_mention p" "fp_command (clear_matches p) = fp_command p"
  "completion_good (clear_matches p)"
  by (simp_all add: clear_matches_def no_matches_good)

lemma mention_cong:
  "pt_input p = pt_input q \<Longrightarrow> fp_mention p = fp_mention q \<Longrightarrow> fp_command p = fp_command q \<Longrightarrow>
   mention_good p = mention_good q"
  by (simp add: mention_good_def)

section \<open>The prompt as a line\<close>

record line =
  ln_floor :: nat
  ln_text :: string
  ln_cursor :: nat

datatype edit = TypeChar char | EraseBefore | EraseAt | GoLeft | GoRight | GoHome | GoEnd

definition empty_line :: line where
  "empty_line = \<lparr>ln_floor = 0, ln_text = [], ln_cursor = 0\<rparr>"

fun line_edit :: "edit \<Rightarrow> line \<Rightarrow> line" where
  "line_edit (TypeChar c) l =
     (if ln_text l = [] then \<lparr>ln_floor = (if c = CHR ''/'' then 1 else 0), ln_text = [c], ln_cursor = 1\<rparr>
      else l\<lparr>ln_text := take (ln_cursor l) (ln_text l) @ c # drop (ln_cursor l) (ln_text l),
             ln_cursor := ln_cursor l + 1\<rparr>)"
| "line_edit EraseBefore l =
     (if ln_floor l < ln_cursor l
      then l\<lparr>ln_text := take (ln_cursor l - 1) (ln_text l) @ drop (ln_cursor l) (ln_text l),
             ln_cursor := ln_cursor l - 1\<rparr>
      else if length (ln_text l) = ln_floor l then empty_line else l)"
| "line_edit EraseAt l =
     l\<lparr>ln_text := take (ln_cursor l) (ln_text l) @ drop (Suc (ln_cursor l)) (ln_text l)\<rparr>"
| "line_edit GoLeft l = l\<lparr>ln_cursor := max (ln_floor l) (ln_cursor l - 1)\<rparr>"
| "line_edit GoRight l = l\<lparr>ln_cursor := min (ln_cursor l + 1) (length (ln_text l))\<rparr>"
| "line_edit GoHome l = l\<lparr>ln_cursor := ln_floor l\<rparr>"
| "line_edit GoEnd l = l\<lparr>ln_cursor := length (ln_text l)\<rparr>"

fun prompt_edit :: "edit \<Rightarrow> prompt_state \<Rightarrow> prompt_state option" where
  "prompt_edit (TypeChar c) s = prompt_push c s"
| "prompt_edit EraseBefore s = map_option snd (prompt_backspace s)"
| "prompt_edit EraseAt s = map_option snd (prompt_delete s)"
| "prompt_edit GoLeft s = Some (prompt_left s)"
| "prompt_edit GoRight s = Some (prompt_right s)"
| "prompt_edit GoHome s = Some (prompt_home s)"
| "prompt_edit GoEnd s = Some (prompt_end s)"

fun floor_of :: "prompt_state \<Rightarrow> nat" where
  "floor_of (CommandPrompt p) = 1"
| "floor_of (FilePrompt p) = (if fp_command p then 1 else 0)"
| "floor_of s = 0"

definition line_of :: "prompt_state \<Rightarrow> line" where
  "line_of s = \<lparr>ln_floor = floor_of s, ln_text = prompt_input s, ln_cursor = cursor_position s\<rparr>"

lemma floor_without [simp]: "floor_of (without_completion p) = (if fp_command p then 1 else 0)"
  by (simp add: without_completion_def Let_def)

lemma mention_parts:
  assumes "mention_good p"
  shows "pt_input p \<noteq> []" "fp_command p \<Longrightarrow> hd (pt_input p) = CHR ''/''" "fp_command p \<Longrightarrow> 2 \<le> length (pt_input p)"
  using assms by (auto simp: mention_good_def Suc_le_eq)

text \<open>What a completion becomes when it is left, as a line.\<close>

lemma without_completion_line:
  assumes "mention_good p" "pt_cursor p \<le> length (pt_input p)"
  shows "prompt_good (without_completion p)"
    "line_of (without_completion p) =
       \<lparr>ln_floor = (if fp_command p then 1 else 0), ln_text = pt_input p,
        ln_cursor = (if fp_command p then max 1 (pt_cursor p) else pt_cursor p)\<rparr>"
  using without_completion_good [of p] mention_parts [OF assms(1)] assms(2) by (simp_all add: line_of_def)

lemma mention_append:
  assumes "mention_good p" "pt_input q = pt_input p @ s" "fp_mention q = fp_mention p" "fp_command q = fp_command p"
  shows "mention_good q"
proof -
  from assms(1) obtain before query
    where p: "pt_input p = before @ ''@'' @ query" "fp_mention p = byte_len (before @ ''@'')"
      "fp_command p \<longrightarrow> before \<noteq> [] \<and> hd before = CHR ''/''"
    unfolding mention_good_def by blast
  then show ?thesis
    using assms(2-4) unfolding mention_good_def by (intro exI [of _ before] exI [of _ "query @ s"]) simp
qed

lemma type_in_line:
  assumes "prompt_good s"
  shows "\<exists>s'. prompt_push c s = Some s' \<and> prompt_good s' \<and> line_of s' = line_edit (TypeChar c) (line_of s)"
proof (cases s)
  case EmptyPrompt
  have "prompt_good (FilePrompt (new_file_prompt ''@'' 1 False))"
    using new_file_good [of False "[]"] by (simp add: utf8_width_def code_def)
  with EmptyPrompt show ?thesis
    by (auto simp: prompt_push_def line_of_def new_text_prompt_def new_file_prompt_def)
next
  case (TextPrompt p)
  then have good: "pt_input p \<noteq> []" "pt_cursor p \<le> length (pt_input p)" using assms by simp_all
  show ?thesis
  proof (cases "c = CHR ''@'' \<and> pt_cursor p = length (pt_input p)")
    case True
    with TextPrompt good new_file_good [of False "pt_input p"] show ?thesis
      by (simp add: prompt_push_def edit_insert_eq line_of_def new_file_prompt_def)
  next
    case False
    with TextPrompt good show ?thesis
      by (auto simp: prompt_push_def edit_insert_eq line_of_def)
  qed
next
  case (FilePrompt p)
  then have good: "pt_cursor p = length (pt_input p)" "mention_good p" using assms by simp_all
  define q where "q = clear_matches (p\<lparr>pt_input := pt_input p @ [c], pt_cursor := pt_cursor p + 1\<rparr>)"
  have ins: "file_insert c p = Some q" using good(1) by (simp add: file_insert_def edit_insert_eq q_def)
  have q: "mention_good q" "pt_cursor q = length (pt_input q)" "pt_input q = pt_input p @ [c]"
    "pt_cursor q = pt_cursor p + 1" "fp_command q = fp_command p" "completion_good q"
    using mention_append [OF good(2), of q "[c]"] good(1) by (simp_all add: q_def)
  then show ?thesis
    using FilePrompt good ins without_completion_line [OF q(1)] mention_parts(1) [OF good(2)]
    by (auto simp: prompt_push_def line_of_def)
next
  case (CommandPrompt p)
  then have good: "reparse p = p" using assms by simp
  note cursor = reparse_cursor [OF good]
  show ?thesis
  proof (cases "c = CHR ''@'' \<and> cp_command p = PreviewSlash \<and> pt_cursor p = length (pt_input p)")
    case True
    with CommandPrompt good new_file_good [of True "CHR ''/'' # pt_input p"] show ?thesis
      by (simp add: prompt_push_def edit_insert_eq line_of_def new_file_prompt_def Let_def)
  next
    case False
    with CommandPrompt good cursor show ?thesis
      by (auto simp: prompt_push_def edit_insert_eq line_of_def Let_def)
  qed
qed

lemma mention_unfold:
  assumes "mention_good p"
  obtains before query where "pt_input p = before @ ''@'' @ query" "fp_mention p = byte_len (before @ ''@'')"
    "fp_command p \<Longrightarrow> before \<noteq> [] \<and> hd before = CHR ''/''"
  using assms unfolding mention_good_def by blast

lemma file_backspace_line:
  assumes good: "pt_cursor p = length (pt_input p)" "mention_good p"
  shows "\<exists>s'. map_option snd (prompt_backspace (FilePrompt p)) = Some s' \<and> prompt_good s' \<and>
    line_of s' = line_edit EraseBefore (line_of (FilePrompt p))"
proof -
  from good(2) obtain before query where p: "pt_input p = before @ ''@'' @ query"
    "fp_mention p = byte_len (before @ ''@'')" "fp_command p \<Longrightarrow> before \<noteq> [] \<and> hd before = CHR ''/''"
    by (rule mention_unfold) blast
  have floor: "(if fp_command p then 1 else 0) < length (pt_input p)" using p by (auto simp: Suc_le_eq)
  define q where "q = clear_matches (p\<lparr>pt_cursor := length (pt_input p) - 1, pt_input := butlast (pt_input p)\<rparr>)"
  have erased: "file_backspace p = Some (Some (last (pt_input p)), q)"
    using good(1) p(1) by (simp add: file_backspace_def remove_at_cursor_eq q_def butlast_conv_take last_conv_nth nth_append)
  have q: "pt_input q = butlast (pt_input p)" "pt_cursor q = length (pt_input q)" "fp_mention q = fp_mention p"
    "fp_command q = fp_command p" "completion_good q"
    by (simp_all add: q_def)
  have bytes: "char_to_byte_index (pt_input q) (pt_cursor q) = byte_len (pt_input q)"
    by (simp add: char_to_byte_index_def q(2))
  have line: "line_edit EraseBefore (line_of (FilePrompt p)) =
      \<lparr>ln_floor = (if fp_command p then 1 else 0), ln_text = pt_input q, ln_cursor = length (pt_input q)\<rparr>"
    using floor good(1) by (simp add: line_of_def q(1) butlast_conv_take)
  show ?thesis
  proof (cases query rule: rev_cases)
    case Nil
    then have input: "pt_input q = before" using p(1) q(1) by (simp add: butlast_append)
    have left: "byte_len (pt_input q) < fp_mention q" using input p(2) q(3) by simp
    show ?thesis
    proof (cases "before = []")
      case True
      then have "\<not> fp_command p" using p(3) by blast
      with True input show ?thesis unfolding line
        by (simp add: prompt_backspace_def erased line_of_def)
    next
      case False
      have "prompt_good (without_completion q)" "line_of (without_completion q) =
          \<lparr>ln_floor = (if fp_command p then 1 else 0), ln_text = pt_input q, ln_cursor = length (pt_input q)\<rparr>"
        using without_completion_good [of q] p(3) False q(2,4) input
        by (auto simp: line_of_def Suc_le_eq max_def)
      then show ?thesis using False input left bytes
        by (simp add: prompt_backspace_def erased line del: line_edit.simps)
    qed
  next
    case (snoc query' c)
    then have input: "pt_input q = before @ ''@'' @ query'" using p(1) q(1) by (simp add: butlast_append)
    have "mention_good q"
      unfolding mention_good_def using input p(2,3) q(3,4) by (intro exI [of _ before] exI [of _ query']) simp
    then show ?thesis using input p(2) q bytes
      by (simp add: prompt_backspace_def erased line del: line_edit.simps) (simp add: line_of_def)
  qed
qed

lemma erase_before_line:
  assumes "prompt_good s"
  shows "\<exists>s'. map_option snd (prompt_backspace s) = Some s' \<and> prompt_good s' \<and>
    line_of s' = line_edit EraseBefore (line_of s)"
proof (cases s)
  case (TextPrompt p)
  then have good: "pt_input p \<noteq> []" "pt_cursor p \<le> length (pt_input p)" using assms by simp_all
  show ?thesis
  proof (cases "pt_cursor p")
    case 0
    with TextPrompt good show ?thesis
      by (simp add: prompt_backspace_def edit_backspace_def text_or_empty_def line_of_def)
  next
    case (Suc n)
    with TextPrompt good show ?thesis
      by (simp add: prompt_backspace_def edit_backspace_def remove_at_cursor_eq text_or_empty_def line_of_def)
        (auto simp: line_of_def Suc_le_eq)
  qed
next
  case (FilePrompt p)
  then show ?thesis using file_backspace_line [of p] assms by simp
next
  case (CommandPrompt p)
  then have good: "reparse p = p" using assms by simp
  note cursor = reparse_cursor [OF good]
  show ?thesis
  proof (cases "pt_cursor p")
    case 0
    with CommandPrompt good show ?thesis
      by (simp add: prompt_backspace_def edit_backspace_def line_of_def empty_line_def)
  next
    case (Suc n)
    with CommandPrompt good cursor show ?thesis
      by (simp add: prompt_backspace_def edit_backspace_def remove_at_cursor_eq line_of_def)
  qed
qed (simp add: prompt_backspace_def line_of_def empty_line_def)

lemma erase_at_line:
  assumes "prompt_good s"
  shows "\<exists>s'. map_option snd (prompt_delete s) = Some s' \<and> prompt_good s' \<and>
    line_of s' = line_edit EraseAt (line_of s)"
proof (cases s)
  case (TextPrompt p)
  then have good: "pt_input p \<noteq> []" "pt_cursor p \<le> length (pt_input p)" using assms by simp_all
  show ?thesis
  proof (cases "pt_cursor p < length (pt_input p)")
    case True
    with TextPrompt good show ?thesis
      by (auto simp: prompt_delete_def remove_at_cursor_eq text_or_empty_def line_of_def)
  next
    case False
    with TextPrompt good show ?thesis
      by (auto simp: prompt_delete_def remove_at_cursor_eq text_or_empty_def line_of_def)
  qed
next
  case (CommandPrompt p)
  then have good: "reparse p = p" using assms by simp
  note cursor = reparse_cursor [OF good]
  with CommandPrompt good show ?thesis
    by (auto simp: prompt_delete_def remove_at_cursor_eq line_of_def)
qed (use assms in \<open>simp_all add: prompt_delete_def file_delete_def remove_at_cursor_eq line_of_def\<close>)

lemma move_line:
  assumes "prompt_good s" "e = GoLeft \<and> f = prompt_left \<or> e = GoRight \<and> f = prompt_right \<or>
    e = GoHome \<and> f = prompt_home \<or> e = GoEnd \<and> f = prompt_end"
  shows "prompt_good (f s) \<and> line_of (f s) = line_edit e (line_of s)"
proof (cases s)
  case (CommandPrompt p)
  then have good: "reparse p = p" using assms by simp
  note cursor = reparse_cursor [OF good]
  show ?thesis using assms(2) CommandPrompt good cursor
    by (auto simp: cursor_left_def cursor_right_def cursor_home_def cursor_end_def reparse_move line_of_def)
next
  case (FilePrompt p)
  then have good: "pt_cursor p = length (pt_input p)" "mention_good p" "completion_good p" using assms by simp_all
  have moved: "prompt_good (without_completion (p\<lparr>pt_cursor := i\<rparr>))"
    "line_of (without_completion (p\<lparr>pt_cursor := i\<rparr>)) =
       \<lparr>ln_floor = (if fp_command p then 1 else 0), ln_text = pt_input p,
        ln_cursor = (if fp_command p then max 1 i else i)\<rparr>" if "i \<le> length (pt_input p)" for i
    using without_completion_line [of "p\<lparr>pt_cursor := i\<rparr>"] good(2) that
    by (simp_all add: mention_cong [of "p\<lparr>pt_cursor := i\<rparr>" p])
  have same: "p\<lparr>pt_cursor := length (pt_input p)\<rparr> = p" using good(1) by (metis text_prompt.surjective text_prompt.update_convs(2))
  show ?thesis using assms(2) FilePrompt good moved mention_parts [OF good(2)]
    by (auto simp: cursor_left_def cursor_right_def cursor_home_def cursor_end_def at_end_or_plain_def same line_of_def)
qed (use assms in \<open>auto simp: cursor_left_def cursor_right_def cursor_home_def cursor_end_def line_of_def\<close>)

text \<open>Every edit is served, and does to the shown text what the line editor does.\<close>

lemma prompt_edit_line:
  assumes "prompt_good s"
  shows "\<exists>s'. prompt_edit e s = Some s' \<and> prompt_good s' \<and> line_of s' = line_edit e (line_of s)"
proof (cases e)
  case (TypeChar c)
  then show ?thesis using type_in_line [OF assms] by simp
next
  case EraseBefore
  then show ?thesis using erase_before_line [OF assms] by (metis prompt_edit.simps(2))
next
  case EraseAt
  then show ?thesis using erase_at_line [OF assms] by (metis prompt_edit.simps(3))
qed (use move_line [OF assms, of GoLeft prompt_left] move_line [OF assms, of GoRight prompt_right]
    move_line [OF assms, of GoHome prompt_home] move_line [OF assms, of GoEnd prompt_end] in simp_all)

fun prompt_edits :: "edit list \<Rightarrow> prompt_state \<Rightarrow> prompt_state option" where
  "prompt_edits [] s = Some s"
| "prompt_edits (e # es) s = Option.bind (prompt_edit e s) (prompt_edits es)"

lemma prompt_edits_line:
  "prompt_good s \<Longrightarrow>
   \<exists>s'. prompt_edits es s = Some s' \<and> prompt_good s' \<and> line_of s' = fold line_edit es (line_of s)"
proof (induction es arbitrary: s)
  case (Cons e es)
  from prompt_edit_line [OF Cons.prems, of e] obtain s1
    where s1: "prompt_edit e s = Some s1" "prompt_good s1" "line_of s1 = line_edit e (line_of s)" by blast
  with Cons.IH [OF s1(2)] show ?case by simp
qed simp

lemma push_str_edits: "prompt_push_str cs s = prompt_edits (map TypeChar cs) s"
  by (induction cs arbitrary: s) (auto split: Option.bind_split)

text \<open>A character typed anywhere is taken back by one backspace.\<close>

lemma type_erase_line:
  assumes "ln_floor l \<le> ln_cursor l" "ln_cursor l \<le> length (ln_text l)" "ln_text l = [] \<longrightarrow> l = empty_line"
  shows "line_edit EraseBefore (line_edit (TypeChar c) l) = l"
  using assms by (cases "ln_text l") (auto simp: empty_line_def)

lemma good_line:
  assumes "prompt_good s"
  shows "floor_of s \<le> cursor_position s" "cursor_position s \<le> length (prompt_input s)"
    "prompt_input s = [] \<longleftrightarrow> s = EmptyPrompt"
proof -
  have "floor_of s \<le> cursor_position s \<and> cursor_position s \<le> length (prompt_input s) \<and>
    (prompt_input s = [] \<longleftrightarrow> s = EmptyPrompt)"
  proof (cases s)
    case (CommandPrompt p)
    then show ?thesis using assms reparse_cursor [of p] by simp
  next
    case (FilePrompt p)
    then have "mention_good p" "pt_cursor p = length (pt_input p)" using assms by simp_all
    with FilePrompt mention_parts [of p] show ?thesis by (auto simp: Suc_le_eq)
  qed (use assms in simp_all)
  then show "floor_of s \<le> cursor_position s" "cursor_position s \<le> length (prompt_input s)"
    "prompt_input s = [] \<longleftrightarrow> s = EmptyPrompt" by simp_all
qed

lemma type_then_erase:
  assumes "prompt_good s"
  shows "\<exists>s'. prompt_edits [TypeChar c, EraseBefore] s = Some s' \<and> prompt_good s' \<and> line_of s' = line_of s"
proof -
  have "line_edit EraseBefore (line_edit (TypeChar c) (line_of s)) = line_of s"
    using good_line [OF assms] by (intro type_erase_line) (auto simp: line_of_def empty_line_def)
  then show ?thesis using prompt_edits_line [OF assms, of "[TypeChar c, EraseBefore]"] by simp
qed

section \<open>Rows\<close>

lemma rows_are_lines:
  assumes "CHR 0x0A \<notin> set b"
  shows "map (\<lambda>r. take (lr_len r) (drop (lr_start r) (a @ b @ cs))) (rows_from (length a) (length b) cs) =
    split_when (\<lambda>c. c = CHR 0x0A) (b @ cs)"
  using assms
proof (induction cs arbitrary: a b)
  case Nil
  then have "split_when (\<lambda>c. c = CHR 0x0A) b = [b]" by (intro split_when_word) auto
  then show ?case by simp
next
  case (Cons c cs)
  show ?case
  proof (cases "c = CHR 0x0A")
    case True
    have "map (\<lambda>r. take (lr_len r) (drop (lr_start r) ((a @ b @ [c]) @ [] @ cs)))
        (rows_from (length (a @ b @ [c])) (length []) cs) = split_when (\<lambda>c. c = CHR 0x0A) ([] @ cs)"
      using Cons.IH [of "[]" "a @ b @ [c]"] by simp
    moreover have "split_when (\<lambda>c. c = CHR 0x0A) (b @ c # cs) = b # split_when (\<lambda>c. c = CHR 0x0A) cs"
      using True Cons.prems by (intro split_when_append) auto
    ultimately show ?thesis using True by (simp add: add.assoc)
  next
    case False
    then show ?thesis using Cons.IH [of "b @ [c]" a] Cons.prems by simp
  qed
qed

lemma logical_rows_lines:
  "map (\<lambda>r. take (lr_len r) (drop (lr_start r) s)) (logical_rows s) = split_when (\<lambda>c. c = CHR 0x0A) s"
  using rows_are_lines [of "[]" "[]" s] by (simp add: logical_rows_def)

lemma rows_inside: "r \<in> set (rows_from start len cs) \<Longrightarrow> lr_start r + lr_len r \<le> start + len + length cs"
  by (induction start len cs rule: rows_from.induct) (auto split: if_splits)

lemma move_vertical_inside: "i \<le> length s \<Longrightarrow> move_vertical s i d \<le> length s"
proof -
  assume i: "i \<le> length s"
  have row: "lr_start (logical_rows s ! k) + min column (lr_len (logical_rows s ! k)) \<le> length s"
    if "k < length (logical_rows s)" for k column
  proof -
    have "lr_start (logical_rows s ! k) + lr_len (logical_rows s ! k) \<le> length s"
      using rows_inside [of "logical_rows s ! k" 0 0 s] that by (simp add: logical_rows_def)
    then show ?thesis by simp
  qed
  show ?thesis
  proof (cases "row_column_for_cursor (logical_rows s) i")
    case (Some rc)
    then obtain k column where rc: "rc = (k, column)" "k < length (logical_rows s)"
      by (auto simp: row_column_for_cursor_def dest!: find_SomeD simp: in_set_enumerate_eq)
    show ?thesis using i rc row Some
      by (cases d) (auto simp: move_vertical_def Let_def)
  qed (use i in \<open>simp add: move_vertical_def\<close>)
qed

section \<open>Every operation keeps the prompt good\<close>

lemma vertical_good:
  assumes "prompt_good s"
  shows "prompt_good (prompt_vertical d s) \<and> prompt_input (prompt_vertical d s) = prompt_input s"
proof (cases s)
  case (FilePrompt p)
  then have good: "pt_cursor p = length (pt_input p)" "mention_good p" "completion_good p" using assms by simp_all
  let ?i = "move_vertical (pt_input p) (pt_cursor p) d"
  have i: "?i \<le> length (pt_input p)" using good(1) move_vertical_inside by simp
  have "prompt_good (without_completion (p\<lparr>pt_cursor := ?i\<rparr>))"
    "prompt_input (without_completion (p\<lparr>pt_cursor := ?i\<rparr>)) = pt_input p"
    using without_completion_good [of "p\<lparr>pt_cursor := ?i\<rparr>"] mention_parts [OF good(2)] i by simp_all
  moreover have "completion_good (p\<lparr>pt_cursor := j\<rparr>) = completion_good p" for j
    by (simp add: completion_good_def refresh_suggestion_def selected_match_def option.map_comp comp_def case_prod_unfold
        split: option.split)
  ultimately show ?thesis using FilePrompt good
    by (auto simp: cursor_vertical_def at_end_or_plain_def mention_cong [of "p\<lparr>pt_cursor := j\<rparr>" p for j])
next
  case (CommandPrompt p)
  then have good: "reparse p = p" using assms by simp
  with CommandPrompt reparse_cursor [OF good] show ?thesis
    by (simp add: cursor_vertical_def reparse_move move_vertical_inside)
qed (use assms move_vertical_inside in \<open>simp_all add: cursor_vertical_def\<close>)

lemma cancel_good: "prompt_good s \<Longrightarrow> prompt_good (snd (cancel_completion s))"
  using without_completion_good(1) mention_parts by (cases s) auto

lemma replace_good: "prompt_good (replace_with_input input)"
  by (simp add: replace_with_input_def new_text_prompt_def split: option.split)

lemma replace_input: "prompt_input (replace_with_input input) = input"
  by (auto simp: replace_with_input_def new_text_prompt_def strip_prefix_Some split: option.split)

lemma split_mention:
  assumes "mention_good p"
  obtains before query where "split_at (fp_mention p) (pt_input p) = Some (before, query)"
    "pt_input p = before @ query" "fp_mention p = byte_len before" "\<exists>b. before = b @ ''@''"
proof -
  from assms obtain b query where "pt_input p = b @ ''@'' @ query" "fp_mention p = byte_len (b @ ''@'')"
    by (rule mention_unfold) blast
  then show ?thesis using that [of "b @ ''@''" query] split_at_byte_len [of "b @ ''@''" query] by simp
qed

lemma mention_query_good: "mention_good p \<Longrightarrow> \<exists>query. mention_query p = Some query"
  by (erule split_mention) (simp add: mention_query_def)

lemma refresh_good:
  assumes "mention_good p" "fp_selected p < length (fp_matches p) \<or> fp_matches p = [] \<and> fp_selected p = 0"
    and "pt_cursor p = length (pt_input p)"
  shows "\<exists>q. refresh_suggestion p = Some q \<and> prompt_good (FilePrompt q) \<and> pt_input q = pt_input p"
proof -
  from assms(1) obtain before query where
    split: "split_at (fp_mention p) (pt_input p) = Some (before, query)" by (rule split_mention)
  show ?thesis
  proof (cases "selected_match p")
    case None
    then show ?thesis using assms
      by (auto simp: refresh_suggestion_def completion_good_def selected_match_def
          mention_cong [of "p\<lparr>fp_suggestion := x\<rparr>" p for x])
  next
    case (Some path)
    then show ?thesis using assms split
      by (auto simp: refresh_suggestion_def completion_good_def selected_match_def
          mention_cong [of "p\<lparr>fp_suggestion := x\<rparr>" p for x])
  qed
qed

lemma position_inside: "position_of path ps = Some i \<Longrightarrow> i < length ps"
  by (simp add: position_of_def Let_def split: if_splits)

lemma matches_good:
  assumes "prompt_good (FilePrompt p)"
  shows "\<exists>q. replace_matches found p = Some q \<and> prompt_good (FilePrompt q) \<and> pt_input q = pt_input p"
    and "\<exists>q. next_match p = Some q \<and> prompt_good (FilePrompt q) \<and> pt_input q = pt_input p"
    and "\<exists>q. previous_match p = Some q \<and> prompt_good (FilePrompt q) \<and> pt_input q = pt_input p"
proof -
  have p: "mention_good p" "pt_cursor p = length (pt_input p)" "completion_good p" using assms by simp_all
  have new: "\<exists>q. refresh_suggestion (p\<lparr>fp_selected := i, fp_matches := ms\<rparr>) = Some q \<and>
      prompt_good (FilePrompt q) \<and> pt_input q = pt_input p" if "i < length ms \<or> ms = [] \<and> i = 0" for i ms
    using refresh_good [of "p\<lparr>fp_selected := i, fp_matches := ms\<rparr>"] p that
    by (simp add: mention_cong [of "p\<lparr>fp_selected := i, fp_matches := ms\<rparr>" p])
  have moved: "\<exists>q. refresh_suggestion (p\<lparr>fp_selected := i\<rparr>) = Some q \<and>
      prompt_good (FilePrompt q) \<and> pt_input q = pt_input p" if "i < length (fp_matches p)" for i
    using refresh_good [of "p\<lparr>fp_selected := i\<rparr>"] p that by (simp add: mention_cong [of "p\<lparr>fp_selected := i\<rparr>" p])
  show "\<exists>q. replace_matches found p = Some q \<and> prompt_good (FilePrompt q) \<and> pt_input q = pt_input p"
    unfolding replace_matches_def Let_def
    by (intro new) (auto split: option.split simp: position_inside bind_eq_Some_conv)
  show "\<exists>q. next_match p = Some q \<and> prompt_good (FilePrompt q) \<and> pt_input q = pt_input p"
    using assms moved by (cases "fp_matches p = []") (simp_all add: next_match_def)
  show "\<exists>q. previous_match p = Some q \<and> prompt_good (FilePrompt q) \<and> pt_input q = pt_input p"
  proof (cases "fp_matches p = []")
    case False
    then have "fp_selected p < length (fp_matches p)" using p(3) by (auto simp: completion_good_def)
    then show ?thesis using False moved by (auto simp: previous_match_def)
  qed (use assms in \<open>simp add: previous_match_def\<close>)
qed

text \<open>What is accepted is what was suggested.\<close>

lemma accept_file_good:
  assumes "prompt_good (FilePrompt p)"
  shows "\<exists>b q. accept_file p = Some (b, q) \<and> prompt_good (FilePrompt q) \<and> (b \<longleftrightarrow> fp_suggestion p \<noteq> None) \<and>
    pt_input q = (case fp_suggestion p of None \<Rightarrow> pt_input p | Some t \<Rightarrow> t)"
proof -
  have p: "mention_good p" "pt_cursor p = length (pt_input p)" "completion_good p" using assms by simp_all
  from p(1) obtain before query where split: "split_at (fp_mention p) (pt_input p) = Some (before, query)"
    "pt_input p = before @ query" "fp_mention p = byte_len before" by (rule split_mention)
  have cut: "truncate_text (fp_mention p) (pt_input p) = Some before"
    using split by (auto simp: truncate_text_def)
  show ?thesis
  proof (cases "selected_match p")
    case None
    then have "fp_suggestion p = None" using p(3) by (simp add: completion_good_def refresh_suggestion_def)
    then show ?thesis using None assms by (auto simp: accept_file_def)
  next
    case (Some path)
    define q where "q = clear_matches (p\<lparr>pt_input := before @ path, pt_cursor := length (before @ path)\<rparr>)"
    have sugg: "fp_suggestion p = Some (before @ path)"
      using p(3) Some split(1) by (simp add: completion_good_def refresh_suggestion_def)
    from p(1) obtain b qr where b: "pt_input p = b @ ''@'' @ qr" "fp_mention p = byte_len (b @ ''@'')"
      "fp_command p \<Longrightarrow> b \<noteq> [] \<and> hd b = CHR ''/''" by (rule mention_unfold) blast
    have "before = b @ ''@''"
      using b(1,2) split(1) split_at_byte_len [of "b @ ''@''" qr] by simp
    then have "mention_good q"
      using b unfolding mention_good_def q_def by (intro exI [of _ b] exI [of _ path]) simp
    then have "prompt_good (FilePrompt q)" by (simp add: q_def)
    then show ?thesis using Some sugg cut by (auto simp: accept_file_def q_def)
  qed
qed

lemma suggestion_of_spec:
  "command_suggestion name = Some t \<Longrightarrow> \<exists>full c. t = CHR ''/'' # full \<and> (full, c) \<in> set command_specs \<and>
     full \<noteq> name \<and> (\<exists>rest. full = name @ rest)"
proof -
  assume "command_suggestion name = Some t"
  then obtain full c where f: "t = CHR ''/'' # full" "(full, c) \<in> set command_specs" "full \<noteq> name"
    "take (length name) full = name"
    by (auto simp: command_suggestion_def split: if_splits dest!: find_SomeD)
  have "full = name @ drop (length name) full" using append_take_drop_id [of "length name" full] f(4) by simp
  with f(1-3) show ?thesis by blast
qed

lemma accept_command_good: "reparse p = p \<Longrightarrow> reparse (snd (accept_command p)) = snd (accept_command p)"
  by (auto simp: accept_command_def Let_def split: option.split)

lemma accept_good:
  assumes "prompt_good s"
  shows "\<exists>b s'. accept_suggestion s = Some (b, s') \<and> prompt_good s'"
proof (cases s)
  case (CommandPrompt p)
  then show ?thesis using assms accept_command_good [of p] by (cases "accept_command p") simp
next
  case (FilePrompt p)
  then show ?thesis using accept_file_good [of p] assms by auto
qed (use assms in auto)

text \<open>An accepted command is a known one.\<close>

fun known_command :: "slash_command \<Rightarrow> bool" where
  "known_command (UnresolvedSlash _) = False"
| "known_command _ = True"

lemma specs_parse: "list_all (\<lambda>(name, c). parse_command name = c \<and> known_command c) command_specs"
  by code_simp

lemma spec_command: "(name, c) \<in> set command_specs \<Longrightarrow> parse_command name = c \<and> known_command c"
  using specs_parse by (auto simp: list_all_iff)

end
