(* ===== verification/Tui_State.thy ===== *)
theory Tui_State
  imports Cli_Protocol Prompt_State
begin

text \<open>
  The state of the terminal interface (\<^verbatim>\<open>smista-cli/src/app/tui/state.rs\<close> and
  \<^verbatim>\<open>tui/state/\<close>): the view that is open, the transcript, the recall of earlier inputs, and
  what each message of the worker changes.

  Rendering is not modelled; the transcript that was printed above the viewport
  (\<^verbatim>\<open>tui.rs\<close>) is. The start time of a thinking router is left out.
\<close>

section \<open>Lists\<close>

record 'a list_state =
  li_entries :: "'a list"
  li_index :: nat

definition page_step :: nat where
  "page_step = 8"

definition clamp_index :: "nat \<Rightarrow> 'a list_state \<Rightarrow> nat" where
  "clamp_index i l = (if li_entries l = [] then 0 else min i (length (li_entries l) - 1))"

definition new_list :: "'a list \<Rightarrow> 'a list_state" where
  "new_list xs = \<lparr>li_entries = xs, li_index = 0\<rparr>"

definition select_entry :: "nat \<Rightarrow> 'a list_state \<Rightarrow> 'a list_state" where
  "select_entry i l = l\<lparr>li_index := clamp_index i l\<rparr>"

definition list_selected :: "'a list_state \<Rightarrow> 'a option" where
  "list_selected l = (if li_index l < length (li_entries l) then Some (li_entries l ! li_index l) else None)"

datatype list_move = PreviousEntry | NextEntry | FirstEntry | LastEntry | PreviousPage | NextPage

text \<open>\<open>last\<close> clamps the largest index: the length stands for it.\<close>

fun move_list :: "list_move \<Rightarrow> 'a list_state \<Rightarrow> 'a list_state" where
  "move_list NextEntry l = select_entry (li_index l + 1) l"
| "move_list PreviousEntry l = l\<lparr>li_index := li_index l - 1\<rparr>"
| "move_list FirstEntry l = l\<lparr>li_index := 0\<rparr>"
| "move_list LastEntry l = l\<lparr>li_index := clamp_index (length (li_entries l)) l\<rparr>"
| "move_list PreviousPage l = l\<lparr>li_index := li_index l - page_step\<rparr>"
| "move_list NextPage l = select_entry (li_index l + page_step) l"

definition list_good :: "'a list_state \<Rightarrow> bool" where
  "list_good l \<longleftrightarrow> li_index l < length (li_entries l) \<or> li_entries l = [] \<and> li_index l = 0"

lemma clamp_good: "list_good (l\<lparr>li_index := clamp_index i l\<rparr>)"
  by (cases "li_entries l") (auto simp: list_good_def clamp_index_def)

lemma new_list_good [simp]: "list_good (new_list xs)"
  by (cases xs) (simp_all add: list_good_def new_list_def)

lemma move_list_good: "list_good l \<Longrightarrow> list_good (move_list m l)"
  by (cases m) (auto simp: select_entry_def clamp_good, auto simp: list_good_def)

text \<open>A selection exists unless the list is empty.\<close>

lemma selected_of_good: "list_good l \<Longrightarrow> list_selected l = None \<longleftrightarrow> li_entries l = []"
  by (auto simp: list_good_def list_selected_def)

section \<open>Views\<close>

record console =
  cn_prompt :: prompt_state
  cn_option :: nat

definition new_console :: console where
  "new_console = \<lparr>cn_prompt = EmptyPrompt, cn_option = 0\<rparr>"

definition next_approval_option :: "nat \<Rightarrow> console \<Rightarrow> console" where
  "next_approval_option options c =
     (if 0 < options then c\<lparr>cn_option := (cn_option c + 1) mod options\<rparr> else c)"

definition previous_approval_option :: "nat \<Rightarrow> console \<Rightarrow> console" where
  "previous_approval_option options c =
     (if options = 0 then c
      else c\<lparr>cn_option := (if cn_option c = 0 then options - 1 else cn_option c - 1)\<rparr>)"

definition approval_option_index :: "nat \<Rightarrow> console \<Rightarrow> nat" where
  "approval_option_index options c = min (cn_option c) (options - 1)"

record help_entry =
  he_input :: string
  he_usage :: string
  he_description :: string

definition help_entries :: "help_entry list" where
  "help_entries = map (\<lambda>(i, u, d). \<lparr>he_input = i, he_usage = u, he_description = d\<rparr>)
     [(''/chat'', ''/chat'', ''Leave plan mode and enter chat mode.''),
      (''/clear'', ''/clear'', ''Clear the terminal and end the current session.''),
      (''/help'', ''/help'', ''Show this command reference.''),
      (''/logs'', ''/logs [offset] [limit]'', ''Show retained application logs.''),
      (''/model'', ''/model [model]'', ''List models or set the preferred model.''),
      (''/plan'', ''/plan'', ''Enter plan mode.''),
      (''/preview'', ''/preview <prompt>'', ''Preview routing without invoking a model.''),
      (''/providers'', ''/providers'', ''List configured providers.''),
      (''/quit'', ''/quit | /q | /exit'', ''Close the interactive CLI.''),
      (''/resume'', ''/resume [session-id]'', ''List sessions or resume one.''),
      (''/skills'', ''/skills'', ''List available workspace skills.''),
      (''/status'', ''/status'', ''Show router status and version.''),
      (''/trace'', ''/trace'', ''Show the current session execution trace.''),
      (''/usage'', ''/usage'', ''Show current session token and cost usage.'')]"

datatype model_entry = AutoModel | ListedModel listed_model

record skill_entry =
  sk_name :: string
  sk_dir :: string
  sk_description :: string

datatype active_component = ConsoleView console | HelpView "help_entry list_state"
  | ModelsView "model_entry list_state" | ProvidersView "listed_provider list_state"
  | SessionsView "listed_session list_state" | SkillsView "skill_entry list_state"
  | UsageView session_usage_response

fun console_of :: "active_component \<Rightarrow> console option" where
  "console_of (ConsoleView c) = Some c"
| "console_of _ = None"

fun move_view :: "list_move \<Rightarrow> active_component \<Rightarrow> active_component" where
  "move_view m (HelpView l) = HelpView (move_list m l)"
| "move_view m (ModelsView l) = ModelsView (move_list m l)"
| "move_view m (ProvidersView l) = ProvidersView (move_list m l)"
| "move_view m (SessionsView l) = SessionsView (move_list m l)"
| "move_view m (SkillsView l) = SkillsView (move_list m l)"
| "move_view m v = v"

section \<open>The state\<close>

datatype log_level = TraceLevel | DebugLevel | InfoLevel | WarnLevel | ErrorLevel

record log_entry =
  lg_level :: log_level
  lg_message :: string

datatype history_entry = ApprovalEntry approval_prompt | AssistantEntry string | DiffEntry string string
  | LogEntry "log_entry list" | ErrorEntry string | NoticeEntry string | PreviewEntry preview_summary
  | ReasoningEntry string | ToolCallEntry string string | ToolResultEntry string string
  | TraceEntry "trace_line list" | UserEntry string

datatype execution_turn = StreamingTurn string string  \<comment> \<open>content and reasoning\<close>
  | ToolCallTurn string string  \<comment> \<open>call id and name\<close>
  | ApprovalTurn approval_prompt

datatype router_activity = RouterIdle | RouterInterrupted | RouterThinking

record tui =
  ui_active :: active_component
  ui_awaited :: "string option"
  ui_turn :: "execution_turn option"
  ui_history :: "history_entry list"
  ui_plan :: bool
  ui_model :: "model_reference option"
  ui_recall :: "string list"
  ui_recall_index :: "nat option"
  ui_router :: router_activity
  ui_exit :: bool
  ui_printed :: nat

definition new_tui :: tui where
  "new_tui = \<lparr>ui_active = ConsoleView new_console, ui_awaited = None, ui_turn = None, ui_history = [],
     ui_plan = False, ui_model = None, ui_recall = [], ui_recall_index = None,
     ui_router = RouterIdle, ui_exit = False, ui_printed = 0\<rparr>"

fun push_content :: "string \<Rightarrow> execution_turn \<Rightarrow> execution_turn" where
  "push_content chunk (StreamingTurn content reasoning) = StreamingTurn (content @ chunk) reasoning"
| "push_content chunk t = t"

fun push_reasoning :: "string \<Rightarrow> execution_turn \<Rightarrow> execution_turn" where
  "push_reasoning chunk (StreamingTurn content reasoning) = StreamingTurn content (reasoning @ chunk)"
| "push_reasoning chunk t = t"

definition push_history :: "history_entry \<Rightarrow> tui \<Rightarrow> tui" where
  "push_history e t = t\<lparr>ui_history := ui_history t @ [e]\<rparr>"

definition prompt_history_limit :: nat where
  "prompt_history_limit = 100"

definition push_prompt_history :: "string \<Rightarrow> tui \<Rightarrow> tui" where
  "push_prompt_history input t =
     (if \<forall>c\<in>set input. is_whitespace c then t
      else t\<lparr>ui_recall := (if length (ui_recall t) = prompt_history_limit then tl (ui_recall t) else ui_recall t)
                            @ [input],
             ui_recall_index := None\<rparr>)"

definition nth_input :: "nat \<Rightarrow> tui \<Rightarrow> string option" where
  "nth_input i t = (if i < length (ui_recall t) then Some (ui_recall t ! i) else None)"

definition previous_prompt_entry :: "tui \<Rightarrow> string option \<times> tui" where
  "previous_prompt_entry t =
     (if ui_recall t = [] then (None, t)
      else (let i = (case ui_recall_index t of None \<Rightarrow> length (ui_recall t) - 1 | Some i \<Rightarrow> i - 1)
            in (nth_input i t, t\<lparr>ui_recall_index := Some i\<rparr>)))"

datatype prompt_navigation = RecalledEntry string | ClearPrompt | UnchangedPrompt

definition next_prompt_entry :: "tui \<Rightarrow> prompt_navigation \<times> tui" where
  "next_prompt_entry t =
     (case ui_recall_index t of
        None \<Rightarrow> (UnchangedPrompt, t)
      | Some i \<Rightarrow>
          if length (ui_recall t) \<le> i + 1 then (ClearPrompt, t\<lparr>ui_recall_index := None\<rparr>)
          else ((case nth_input (i + 1) t of Some e \<Rightarrow> RecalledEntry e | None \<Rightarrow> ClearPrompt),
                t\<lparr>ui_recall_index := Some (i + 1)\<rparr>))"

definition clear_history :: "tui \<Rightarrow> tui" where
  "clear_history t = t\<lparr>ui_history := [], ui_turn := None\<rparr>"

definition show_console :: "tui \<Rightarrow> tui" where
  "show_console t = t\<lparr>ui_active := ConsoleView new_console\<rparr>"

definition show_help :: "tui \<Rightarrow> tui" where
  "show_help t = t\<lparr>ui_active := HelpView (new_list help_entries)\<rparr>"

definition show_models_list :: "listed_model list \<Rightarrow> tui \<Rightarrow> tui" where
  "show_models_list models t = t\<lparr>ui_active := ModelsView (new_list (AutoModel # map ListedModel models))\<rparr>"

definition match_model :: "string \<Rightarrow> listed_model list \<Rightarrow> model_reference option" where
  "match_model model models =
     map_option lm_reference (List.find (\<lambda>m. lm_id m = model \<or> lm_display_name m = model \<or>
       lm_provider m @ ''/'' @ lm_id m = model) models)"

definition model_order :: "listed_model \<Rightarrow> listed_model \<Rightarrow> ordering" where
  "model_order a b = then_cmp (cmp (lm_provider a) (lm_provider b)) (cmp (lm_display_name a) (lm_display_name b))"

text \<open>The usage line of a closed session; numbers and amounts are rendered by the argument.\<close>

definition close_session ::
  "(session_usage_response \<Rightarrow> string) \<Rightarrow> string option \<Rightarrow> session_usage_response option \<Rightarrow> tui \<Rightarrow> tui" where
  "close_session usage_line session usage t =
     (let t1 = show_console (clear_history (t\<lparr>ui_recall_index := None\<rparr>));
          t2 = (case usage of None \<Rightarrow> t1 | Some u \<Rightarrow> push_history (NoticeEntry (usage_line u)) t1)
      in case session of
           None \<Rightarrow> t2
         | Some i \<Rightarrow> push_history (NoticeEntry (''To continue this session, use the command: /resume '' @ i)) t2)"

definition streaming :: "execution_turn option \<Rightarrow> execution_turn" where
  "streaming turn = (case turn of Some e \<Rightarrow> e | None \<Rightarrow> StreamingTurn [] [])"

fun apply_msg :: "(session_usage_response \<Rightarrow> string) \<Rightarrow> cli_msg \<Rightarrow> tui \<Rightarrow> tui" where
  "apply_msg ul (ApprovalPromptMsg p) t = t\<lparr>ui_turn := Some (ApprovalTurn p)\<rparr>"
| "apply_msg ul (AssistantTurnMsg m _) t = push_history (AssistantEntry m) (t\<lparr>ui_turn := None\<rparr>)"
| "apply_msg ul (ErrorMsg e) t = push_history (ErrorEntry e) t"
| "apply_msg ul IdleMsg t = t\<lparr>ui_router := RouterIdle, ui_turn := None\<rparr>"
| "apply_msg ul InterruptedMsg t = t\<lparr>ui_router := RouterInterrupted, ui_turn := None\<rparr>"
| "apply_msg ul (ModelsListMsg models) t =
     (case ui_awaited t of
        Some awaited \<Rightarrow>
          (case match_model awaited models of
             Some r \<Rightarrow> t\<lparr>ui_awaited := None, ui_model := Some r\<rparr>
           | None \<Rightarrow> push_history (ErrorEntry (''Unknown model: \"'' @ awaited @
               ''\". List available models with '' @ CHR 0x60 # ''/model'' @ [CHR 0x60])) (t\<lparr>ui_awaited := None\<rparr>))
      | None \<Rightarrow> show_models_list (sort_by model_order models) t)"
| "apply_msg ul (PreviewMsg p) t = push_history (PreviewEntry p) t"
| "apply_msg ul (ProvidersListMsg ps) t = t\<lparr>ui_active := ProvidersView (new_list ps)\<rparr>"
| "apply_msg ul (ResumedSessionMsg s) t =
     (let t' = show_console (clear_history t)
      in t'\<lparr>ui_history := ui_history t' @ map (\<lambda>(_, m). AssistantEntry m) (rz_messages s)\<rparr>)"
| "apply_msg ul (RouterStatusMsg status version) t =
     push_history (NoticeEntry (''router '' @ status @ '' (version: '' @ version @ '')'')) t"
| "apply_msg ul (SessionClosedMsg i u) t = close_session ul i u t"
| "apply_msg ul (SessionsListMsg ss) t = t\<lparr>ui_active := SessionsView (new_list ss)\<rparr>"
| "apply_msg ul (ContentChunkMsg c) t = t\<lparr>ui_turn := Some (push_content c (streaming (ui_turn t)))\<rparr>"
| "apply_msg ul (ReasoningChunkMsg c) t = t\<lparr>ui_turn := Some (push_reasoning c (streaming (ui_turn t)))\<rparr>"
| "apply_msg ul ThinkingMsg t = t\<lparr>ui_router := RouterThinking\<rparr>"
| "apply_msg ul (ToolCallStartedMsg i name) t =
     push_history (ToolCallEntry name i) (t\<lparr>ui_turn := Some (ToolCallTurn i name)\<rparr>)"
| "apply_msg ul (TraceMsg events) t = push_history (TraceEntry events) t"
| "apply_msg ul (UsageMsg u) t = t\<lparr>ui_active := UsageView u\<rparr>"

section \<open>The printed transcript\<close>

text \<open>What a frame prints above the viewport.\<close>

definition insert_transcript :: "tui \<Rightarrow> history_entry list \<times> tui" where
  "insert_transcript t =
     (let printed = (if length (ui_history t) < ui_printed t then 0 else ui_printed t)
      in (drop printed (ui_history t), t\<lparr>ui_printed := length (ui_history t)\<rparr>))"

text \<open>A message, and the frame that follows; closing a session clears the screen.\<close>

definition is_session_closed :: "cli_msg \<Rightarrow> bool" where
  "is_session_closed m = (case m of SessionClosedMsg _ _ \<Rightarrow> True | _ \<Rightarrow> False)"

definition handle_client_msg ::
  "(session_usage_response \<Rightarrow> string) \<Rightarrow> cli_msg \<Rightarrow> tui \<Rightarrow> history_entry list \<times> tui" where
  "handle_client_msg ul m t =
     (let t' = apply_msg ul m t
      in insert_transcript (if is_session_closed m then t'\<lparr>ui_printed := 0\<rparr> else t'))"

end
