(* ===== verification/Tui_Input.thy ===== *)
theory Tui_Input
  imports Tui_State
begin

text \<open>
  What each key does (\<^verbatim>\<open>smista-cli/src/app/input_listener.rs\<close> and
  \<^verbatim>\<open>smista-cli/src/app/tui/input.rs\<close>): the decoding of terminal events, and the handlers of
  the console, of a running turn, of an approval prompt and of the list views. A handler yields
  the command for the worker, if any, and the new state; \<open>None\<close> is a panic.

  The file system, the discovered skills, the retained log and the parser of session ids are
  the parameter record \<open>tui_env\<close>.
\<close>

section \<open>Terminal events\<close>

datatype modifier = ShiftMod | ControlMod | AltMod | SuperMod | HyperMod | MetaMod

datatype key_kind = PressKind | RepeatKind | ReleaseKind

datatype key_code = CharKey char | BackspaceKey | DeleteKey | HomeKey | EndKey | PageUpKey
  | PageDownKey | EnterKey | TabKey | EscKey | UpKey | DownKey | LeftKey | RightKey | OtherKey

datatype terminal_event = KeyEvent key_code "modifier set" key_kind | PasteEvent string
  | ResizeEvent nat nat | OtherEvent

datatype input_event = InterruptInput | CharInput char | BackspaceInput | DeleteInput | HomeInput
  | EndInput | PageUpInput | PageDownInput | EnterInput | TabInput | EscapeInput | UpInput
  | DownInput | LeftInput | RightInput | NewlineInput | PasteInput string | ResizeInput

definition is_edit_key_event :: "key_kind \<Rightarrow> bool" where
  "is_edit_key_event k \<longleftrightarrow> k = PressKind \<or> k = RepeatKind"

definition decode_char :: "char \<Rightarrow> modifier set \<Rightarrow> key_kind \<Rightarrow> input_event option" where
  "decode_char c ms kind =
     (if c = CHR ''c'' \<and> ControlMod \<in> ms \<and> kind = PressKind then Some InterruptInput
      else if c \<in> {CHR ''j'', CHR ''m''} \<and> ControlMod \<in> ms \<and> is_edit_key_event kind then Some NewlineInput
      else if c \<in> {CHR 0x0A, CHR 0x0D} \<and> (ms = {} \<or> ControlMod \<in> ms) \<and> is_edit_key_event kind then Some NewlineInput
      else if c = CHR '' '' \<and> ms \<inter> {AltMod, SuperMod, MetaMod} \<noteq> {} \<and> is_edit_key_event kind then Some NewlineInput
      else if ms = {} \<and> is_edit_key_event kind then Some (CharInput c)
      else None)"

fun plain_key :: "key_code \<Rightarrow> input_event option" where
  "plain_key BackspaceKey = Some BackspaceInput"
| "plain_key DeleteKey = Some DeleteInput"
| "plain_key HomeKey = Some HomeInput"
| "plain_key EndKey = Some EndInput"
| "plain_key PageUpKey = Some PageUpInput"
| "plain_key PageDownKey = Some PageDownInput"
| "plain_key TabKey = Some TabInput"
| "plain_key UpKey = Some UpInput"
| "plain_key DownKey = Some DownInput"
| "plain_key LeftKey = Some LeftInput"
| "plain_key RightKey = Some RightInput"
| "plain_key _ = None"

fun decode_event :: "terminal_event \<Rightarrow> input_event option" where
  "decode_event (KeyEvent (CharKey c) ms kind) = decode_char c ms kind"
| "decode_event (KeyEvent EnterKey ms kind) =
     (if kind \<noteq> PressKind then None
      else if ms \<inter> {AltMod, SuperMod, MetaMod, ShiftMod, ControlMod} \<noteq> {} then Some NewlineInput
      else if ms = {} then Some EnterInput else None)"
| "decode_event (KeyEvent EscKey ms kind) = (if ms = {} \<and> kind = PressKind then Some EscapeInput else None)"
| "decode_event (KeyEvent k ms kind) = (if ms = {} \<and> is_edit_key_event kind then plain_key k else None)"
| "decode_event (PasteEvent content) = Some (PasteInput content)"
| "decode_event (ResizeEvent w h) = Some ResizeInput"
| "decode_event OtherEvent = None"

section \<open>Surroundings\<close>

record tui_env =
  te_cwd :: string
  te_read_dir :: "string \<Rightarrow> (string \<times> bool) list option"  \<comment> \<open>names, and whether a directory\<close>
  te_opens :: "string \<Rightarrow> bool"  \<comment> \<open>a file that opens\<close>
  te_skills :: "skill_entry list"
  te_logs :: "log_entry list"  \<comment> \<open>oldest first\<close>
  te_uuid :: "string \<Rightarrow> string option"

text \<open>The retained log, newest first, in windows; the oldest entry makes room.\<close>

definition log_capacity :: nat where
  "log_capacity = 2048"

definition push_log :: "log_entry \<Rightarrow> log_entry list \<Rightarrow> log_entry list" where
  "push_log e entries = (if length entries = log_capacity then tl entries else entries) @ [e]"

definition log_entries_at :: "nat \<Rightarrow> nat \<Rightarrow> log_entry list \<Rightarrow> log_entry list" where
  "log_entries_at offset limit entries = take limit (drop offset (rev entries))"

text \<open>\<open>str::parse::<usize>\<close> on 64 bits: decimal digits, a plus sign allowed.\<close>

definition parse_usize :: "string \<Rightarrow> nat option" where
  "parse_usize s =
     (let digits = (if s \<noteq> [] \<and> hd s = CHR ''+'' then tl s else s);
          value = foldl (\<lambda>n c. 10 * n + (code c - 48)) 0 digits
      in if digits = [] \<or> (\<exists>c\<in>set digits. \<not> is_ascii_digit c) \<or> 2 ^ 64 \<le> value then None
         else Some value)"

definition trim :: "string \<Rightarrow> string" where
  "trim s = rev (dropWhile is_whitespace (rev (dropWhile is_whitespace s)))"

definition split_parent :: "string \<Rightarrow> string \<times> string" where
  "split_parent query =
     (let name = rev (takeWhile (\<lambda>c. c \<noteq> CHR ''/'') (rev query))
      in (take (length query - length name) query, name))"

definition file_matches :: "tui_env \<Rightarrow> string \<Rightarrow> string list" where
  "file_matches env query =
     (case split_parent query of (typed_parent, prefix) \<Rightarrow>
        (case te_read_dir env (if is_absolute typed_parent then typed_parent
                               else path_join (te_cwd env) typed_parent) of
           None \<Rightarrow> []
         | Some entries \<Rightarrow>
             sort_by path_cmp
               (map (\<lambda>(name, dir). if dir then path_join (path_join typed_parent name) []
                                   else path_join typed_parent name)
                 (filter (\<lambda>(name, _). take (length prefix) name = prefix) entries))))"

text \<open>The files a prompt mentions, as a set: one of each path.\<close>

fun dedup_files :: "string list \<Rightarrow> string list" where
  "dedup_files [] = []"
| "dedup_files (p # ps) =
     (if \<exists>q\<in>set ps. path_components q = path_components p then dedup_files ps else p # dedup_files ps)"

definition mentioned_files :: "tui_env \<Rightarrow> string \<Rightarrow> string list" where
  "mentioned_files env prompt =
     (let mentions = filter (\<lambda>p. p \<noteq> []) (List.map_filter (strip_prefix ''@'') (split_whitespace prompt));
          paths = map (\<lambda>p. if is_absolute p then p else path_join (te_cwd env) p) mentions
      in dedup_files (filter (te_opens env) paths))"

section \<open>The prompt of the console\<close>

definition edit_prompt :: "(prompt_state \<Rightarrow> prompt_state option) \<Rightarrow> tui \<Rightarrow> tui option" where
  "edit_prompt f t =
     (case ui_active t of
        ConsoleView c \<Rightarrow>
          map_option (\<lambda>p. t\<lparr>ui_active := ConsoleView (c\<lparr>cn_prompt := p\<rparr>)\<rparr>) (f (cn_prompt c))
      | _ \<Rightarrow> Some t)"

definition set_prompt :: "prompt_state \<Rightarrow> tui \<Rightarrow> tui" where
  "set_prompt p t =
     (case ui_active t of ConsoleView c \<Rightarrow> t\<lparr>ui_active := ConsoleView (c\<lparr>cn_prompt := p\<rparr>)\<rparr> | _ \<Rightarrow> t)"

definition refresh_file_autocomplete :: "tui_env \<Rightarrow> tui \<Rightarrow> tui option" where
  "refresh_file_autocomplete env t =
     (case ui_active t of
        ConsoleView c \<Rightarrow>
          (case file_query (cn_prompt c) of
             None \<Rightarrow> None
           | Some None \<Rightarrow> Some t
           | Some (Some query) \<Rightarrow> edit_prompt (replace_file_matches (file_matches env query)) t)
      | _ \<Rightarrow> Some t)"

definition accept_prompt :: "prompt_state \<Rightarrow> prompt_state option" where
  "accept_prompt p = map_option snd (accept_suggestion p)"

definition is_completing :: "prompt_state \<Rightarrow> bool" where
  "is_completing p = (case p of FilePrompt _ \<Rightarrow> True | _ \<Rightarrow> False)"

text \<open>Whether the key belonged to the completion.\<close>

definition handle_file_autocomplete_input :: "tui_env \<Rightarrow> input_event \<Rightarrow> tui \<Rightarrow> (bool \<times> tui) option" where
  "handle_file_autocomplete_input env event t =
     (case ui_active t of
        ConsoleView c \<Rightarrow>
          if \<not> is_completing (cn_prompt c) then Some (False, t)
          else (case event of
                  DownInput \<Rightarrow> map_option (Pair True) (edit_prompt next_file_match t)
                | UpInput \<Rightarrow> map_option (Pair True) (edit_prompt previous_file_match t)
                | TabInput \<Rightarrow> map_option (Pair True) (Option.bind (edit_prompt accept_prompt t) (refresh_file_autocomplete env))
                | RightInput \<Rightarrow> map_option (Pair True) (Option.bind (edit_prompt accept_prompt t) (refresh_file_autocomplete env))
                | EscapeInput \<Rightarrow> map_option (Pair True) (edit_prompt (\<lambda>p. Some (snd (cancel_completion p))) t)
                | _ \<Rightarrow> Some (False, t))
      | _ \<Rightarrow> Some (False, t))"

definition handle_console_history_navigation :: "input_event \<Rightarrow> tui \<Rightarrow> tui" where
  "handle_console_history_navigation event t =
     (case ui_active t of
        ConsoleView c \<Rightarrow>
          (let recall = (cn_prompt c = EmptyPrompt \<or> ui_recall_index t \<noteq> None)
           in case event of
                UpInput \<Rightarrow>
                  if recall then (case previous_prompt_entry t of
                                    (Some entry, t') \<Rightarrow> set_prompt (replace_with_input entry) t'
                                  | (None, t') \<Rightarrow> t')
                  else set_prompt (prompt_vertical Up (cn_prompt c)) t
              | DownInput \<Rightarrow>
                  if recall then (case next_prompt_entry t of
                                    (RecalledEntry entry, t') \<Rightarrow> set_prompt (replace_with_input entry) t'
                                  | (ClearPrompt, t') \<Rightarrow> set_prompt EmptyPrompt t'
                                  | (UnchangedPrompt, t') \<Rightarrow> set_prompt (prompt_vertical Down (cn_prompt c)) t')
                  else set_prompt (prompt_vertical Down (cn_prompt c)) t
              | _ \<Rightarrow> t)
      | _ \<Rightarrow> t)"

section \<open>Commands\<close>

type_synonym reaction = "cli_cmd option \<times> tui"

definition complain :: "string \<Rightarrow> tui \<Rightarrow> reaction" where
  "complain e t = (None, push_history (ErrorEntry e) t)"

definition handle_prompt_exec :: "tui_env \<Rightarrow> string \<Rightarrow> tui \<Rightarrow> reaction" where
  "handle_prompt_exec env prompt t =
     (if prompt = [] then (None, t)
      else (Some (ExecuteCmd \<lparr>xa_prompt = prompt, xa_files = mentioned_files env prompt,
                              xa_plan = ui_plan t, xa_model = ui_model t\<rparr>),
            push_prompt_history prompt (push_history (UserEntry prompt) t)))"

definition default_log_limit :: nat where
  "default_log_limit = 100"

definition handle_log :: "tui_env \<Rightarrow> string list \<Rightarrow> tui \<Rightarrow> reaction" where
  "handle_log env args t =
     (let show_logs = (\<lambda>offset limit. (None, push_history (LogEntry (log_entries_at offset limit (te_logs env))) t))
      in case args of
           [] \<Rightarrow> show_logs 0 default_log_limit
         | [o1] \<Rightarrow> (case parse_usize o1 of
                      Some offset \<Rightarrow> show_logs offset default_log_limit
                    | None \<Rightarrow> complain (''Invalid offset argument '' @ o1) t)
         | [o1, l1] \<Rightarrow> (case (parse_usize o1, parse_usize l1) of
                          (Some offset, Some limit) \<Rightarrow> show_logs offset limit
                        | _ \<Rightarrow> complain (''Invalid offset or limit argument '' @ o1 @ '' '' @ l1) t)
         | _ \<Rightarrow> complain ''Expected at most two arguments after /log'' t)"

definition handle_model_command :: "string list \<Rightarrow> tui \<Rightarrow> reaction" where
  "handle_model_command args t =
     (if args = [] then (Some ListModelsCmd, t)
      else (let model = join '' '' args
            in if model = ''auto'' then (None, t\<lparr>ui_model := None\<rparr>)
               else (Some ListModelsCmd, t\<lparr>ui_awaited := Some model\<rparr>)))"

definition handle_preview_command :: "tui_env \<Rightarrow> string list \<Rightarrow> tui \<Rightarrow> reaction" where
  "handle_preview_command env args t =
     (if args = [] then complain ''No prompt provided for preview command'' t
      else (let prompt = join '' '' args
            in (Some (PreviewCmd \<lparr>xa_prompt = prompt, xa_files = mentioned_files env prompt,
                                  xa_plan = ui_plan t, xa_model = ui_model t\<rparr>), t)))"

definition handle_resume_command :: "tui_env \<Rightarrow> string list \<Rightarrow> tui \<Rightarrow> reaction" where
  "handle_resume_command env args t =
     (case args of
        [] \<Rightarrow> (Some ListSessionsCmd, t)
      | [i] \<Rightarrow> (case te_uuid env i of
                  Some session \<Rightarrow> (Some (ResumeSessionCmd session), t)
                | None \<Rightarrow> complain (''Invalid session id '' @ i) t)
      | _ \<Rightarrow> complain ''Expected at most one session id after /resume'' t)"

fun handle_command :: "tui_env \<Rightarrow> slash_command \<Rightarrow> string list \<Rightarrow> tui \<Rightarrow> reaction" where
  "handle_command env ChatSlash args t = (None, t\<lparr>ui_plan := False\<rparr>)"
| "handle_command env ClearSlash args t = (Some ClearCmd, t)"
| "handle_command env HelpSlash args t = (None, show_help t)"
| "handle_command env LogsSlash args t = handle_log env args t"
| "handle_command env ModelSlash args t = handle_model_command args t"
| "handle_command env PlanSlash args t = (None, t\<lparr>ui_plan := True\<rparr>)"
| "handle_command env PreviewSlash args t = handle_preview_command env args t"
| "handle_command env ProvidersSlash args t = (Some ListProvidersCmd, t)"
| "handle_command env QuitSlash args t = (None, t\<lparr>ui_exit := True\<rparr>)"
| "handle_command env ResumeSlash args t = handle_resume_command env args t"
| "handle_command env SkillsSlash args t = (None, t\<lparr>ui_active := SkillsView (new_list (te_skills env))\<rparr>)"
| "handle_command env StatusSlash args t = (Some GetRouterStatusCmd, t)"
| "handle_command env TraceSlash args t = (Some GetTraceCmd, t)"
| "handle_command env UsageSlash args t = (Some GetUsageCmd, t)"
| "handle_command env (UnresolvedSlash name) args t = complain (''Unknown command '' @ name) t"

definition handle_interrupt :: "tui \<Rightarrow> reaction" where
  "handle_interrupt t =
     (if ui_turn t \<noteq> None \<or> ui_router t = RouterThinking then (Some (ContinueCmd BreakRun), t)
      else (case ui_active t of
              ConsoleView c \<Rightarrow>
                if cn_prompt c \<noteq> EmptyPrompt then (None, set_prompt EmptyPrompt t) else (None, t\<lparr>ui_exit := True\<rparr>)
            | _ \<Rightarrow> (None, t\<lparr>ui_exit := True\<rparr>)))"

section \<open>The console\<close>

definition handle_enter :: "tui_env \<Rightarrow> console \<Rightarrow> tui \<Rightarrow> reaction option" where
  "handle_enter env c t =
     (case cn_prompt c of
        EmptyPrompt \<Rightarrow> Some (None, t)
      | FilePrompt p \<Rightarrow>
          if fp_command p
          then (case snd (cancel_completion (cn_prompt c)) of
                  CommandPrompt q \<Rightarrow>
                    (case resolved_command q of (command, args) \<Rightarrow>
                       Some (handle_command env command args
                         (push_prompt_history (prompt_input (CommandPrompt q)) (set_prompt EmptyPrompt t))))
                | _ \<Rightarrow> None)
          else Some (handle_prompt_exec env (trim (pt_input p)) (set_prompt EmptyPrompt t))
      | TextPrompt p \<Rightarrow> Some (handle_prompt_exec env (trim (pt_input p)) (set_prompt EmptyPrompt t))
      | CommandPrompt p \<Rightarrow>
          (case resolved_command p of (command, args) \<Rightarrow>
             Some (handle_command env command args
               (case command of
                  UnresolvedSlash _ \<Rightarrow> t
                | _ \<Rightarrow> push_prompt_history (prompt_input (cn_prompt c)) (set_prompt EmptyPrompt t)))))"

definition is_edit_input :: "input_event \<Rightarrow> bool" where
  "is_edit_input event =
     (case event of BackspaceInput \<Rightarrow> True | NewlineInput \<Rightarrow> True | TabInput \<Rightarrow> True | PasteInput _ \<Rightarrow> True
      | DeleteInput \<Rightarrow> True | CharInput _ \<Rightarrow> True | _ \<Rightarrow> False)"

definition quietly :: "tui option \<Rightarrow> reaction option" where
  "quietly = map_option (Pair None)"

definition edit_and_refresh :: "tui_env \<Rightarrow> (prompt_state \<Rightarrow> prompt_state option) \<Rightarrow> tui \<Rightarrow> reaction option" where
  "edit_and_refresh env f t = quietly (Option.bind (edit_prompt f t) (refresh_file_autocomplete env))"

definition right_or_accept :: "prompt_state \<Rightarrow> prompt_state option" where
  "right_or_accept p = map_option (\<lambda>(accepted, q). if accepted then q else prompt_right q) (accept_suggestion p)"

definition edit_console :: "tui_env \<Rightarrow> input_event \<Rightarrow> console \<Rightarrow> tui \<Rightarrow> reaction option" where
  "edit_console env event c t =
     (case event of
        BackspaceInput \<Rightarrow> edit_and_refresh env (\<lambda>p. map_option snd (prompt_backspace p)) t
      | NewlineInput \<Rightarrow> edit_and_refresh env (prompt_push CHR 0x0A) t
      | EnterInput \<Rightarrow> handle_enter env c t
      | TabInput \<Rightarrow> quietly (edit_prompt accept_prompt t)
      | PasteInput content \<Rightarrow> edit_and_refresh env (prompt_push_str content) t
      | DeleteInput \<Rightarrow> edit_and_refresh env (\<lambda>p. map_option snd (prompt_delete p)) t
      | LeftInput \<Rightarrow> quietly (edit_prompt (Some \<circ> prompt_left) t)
      | RightInput \<Rightarrow> quietly (edit_prompt right_or_accept t)
      | HomeInput \<Rightarrow> quietly (edit_prompt (Some \<circ> prompt_home) t)
      | EndInput \<Rightarrow> quietly (edit_prompt (Some \<circ> prompt_end) t)
      | UpInput \<Rightarrow> quietly (edit_prompt (Some \<circ> prompt_vertical Up) t)
      | DownInput \<Rightarrow> quietly (edit_prompt (Some \<circ> prompt_vertical Down) t)
      | InterruptInput \<Rightarrow> Some (handle_interrupt t)
      | EscapeInput \<Rightarrow> Some (handle_interrupt t)
      | CharInput ch \<Rightarrow> edit_and_refresh env (prompt_push ch) t
      | _ \<Rightarrow> Some (None, t))"

definition handle_input_on_console :: "tui_env \<Rightarrow> input_event \<Rightarrow> tui \<Rightarrow> reaction option" where
  "handle_input_on_console env event t =
     (case handle_file_autocomplete_input env event t of
        None \<Rightarrow> None
      | Some (True, t') \<Rightarrow> Some (None, t')
      | Some (False, t') \<Rightarrow>
          if event = UpInput \<or> event = DownInput
          then Some (None, handle_console_history_navigation event t')
          else (let t2 = (if is_edit_input event then t'\<lparr>ui_recall_index := None\<rparr> else t')
                in case ui_active t2 of
                     ConsoleView c \<Rightarrow> edit_console env event c t2
                   | _ \<Rightarrow> Some (None, t2)))"

section \<open>Approval prompts\<close>

datatype approval_choice = ApproveOnce | ApproveAlwaysForSession | RejectOption

definition changes_files_tool :: "string \<Rightarrow> bool" where
  "changes_files_tool name \<longleftrightarrow> name = write_file_tool \<or> name = edit_file_tool"

definition approval_allows_session_acceptance :: "approval_prompt \<Rightarrow> bool" where
  "approval_allows_session_acceptance p \<longleftrightarrow>
     (case ap_tool_name p of Some name \<Rightarrow> name = read_file_tool \<or> changes_files_tool name | None \<Rightarrow> False) \<or>
     ap_wildcard_alias p \<noteq> None"

definition approval_option_count :: "approval_prompt \<Rightarrow> nat" where
  "approval_option_count p = (if approval_allows_session_acceptance p then 3 else 2)"

definition approval_option :: "approval_prompt \<Rightarrow> nat \<Rightarrow> approval_choice" where
  "approval_option p i =
     (if approval_allows_session_acceptance p
      then (if i = 0 then ApproveOnce else if i = 1 then ApproveAlwaysForSession else RejectOption)
      else (if i = 0 then ApproveOnce else RejectOption))"

definition rejection_guidance :: string where
  "rejection_guidance =
     ''The user rejected this request. Ask what Smista should do differently before continuing.''"

fun approval_decision_for_option :: "approval_prompt \<Rightarrow> approval_choice \<Rightarrow> user_decision" where
  "approval_decision_for_option p ApproveOnce =
     \<lparr>ud_id = ap_id p, ud_outcome = Approved, ud_scope = OnceScope, ud_reason = None\<rparr>"
| "approval_decision_for_option p ApproveAlwaysForSession =
     \<lparr>ud_id = ap_id p, ud_outcome = Approved, ud_scope = SessionScope, ud_reason = None\<rparr>"
| "approval_decision_for_option p RejectOption =
     \<lparr>ud_id = ap_id p, ud_outcome = Rejected, ud_scope = OnceScope, ud_reason = Some rejection_guidance\<rparr>"

definition approval_command :: "approval_prompt \<Rightarrow> approval_choice \<Rightarrow> cli_cmd" where
  "approval_command p option = ContinueCmd (SubmitDecisions [approval_decision_for_option p option])"

definition active_approval_prompt :: "tui \<Rightarrow> approval_prompt option" where
  "active_approval_prompt t = (case ui_turn t of Some (ApprovalTurn p) \<Rightarrow> Some p | _ \<Rightarrow> None)"

definition on_console :: "(console \<Rightarrow> console) \<Rightarrow> tui \<Rightarrow> tui" where
  "on_console f t = (case ui_active t of ConsoleView c \<Rightarrow> t\<lparr>ui_active := ConsoleView (f c)\<rparr> | _ \<Rightarrow> t)"

definition selected_approval_command :: "approval_prompt \<Rightarrow> tui \<Rightarrow> cli_cmd" where
  "selected_approval_command p t =
     approval_command p (approval_option p
       (case console_of (ui_active t) of
          Some c \<Rightarrow> approval_option_index (approval_option_count p) c | None \<Rightarrow> 0))"

definition handle_input_on_execution_turn :: "input_event \<Rightarrow> tui \<Rightarrow> reaction" where
  "handle_input_on_execution_turn event t =
     (case active_approval_prompt t of
        None \<Rightarrow> if event = EscapeInput \<or> event = InterruptInput then handle_interrupt t else (None, t)
      | Some p \<Rightarrow>
          (let session = approval_allows_session_acceptance p; count = approval_option_count p
           in case event of
                UpInput \<Rightarrow> (None, on_console (previous_approval_option count) t)
              | DownInput \<Rightarrow> (None, on_console (next_approval_option count) t)
              | EnterInput \<Rightarrow> (Some (selected_approval_command p t), t)
              | CharInput ch \<Rightarrow>
                  if ch \<in> {CHR ''1'', CHR ''y''} then (Some (approval_command p ApproveOnce), t)
                  else if ch \<in> {CHR ''2'', CHR ''a''} \<and> session then (Some (approval_command p ApproveAlwaysForSession), t)
                  else if ch = CHR ''2'' \<and> \<not> session then (Some (approval_command p RejectOption), t)
                  else if ch = CHR ''3'' \<and> session then (Some (approval_command p RejectOption), t)
                  else if ch = CHR ''n'' then (Some (approval_command p RejectOption), t)
                  else (None, t)
              | EscapeInput \<Rightarrow> handle_interrupt t
              | InterruptInput \<Rightarrow> handle_interrupt t
              | _ \<Rightarrow> (None, t)))"

section \<open>Lists and dispatch\<close>

definition list_key :: "input_event \<Rightarrow> list_move option" where
  "list_key event =
     (case event of UpInput \<Rightarrow> Some PreviousEntry | DownInput \<Rightarrow> Some NextEntry | HomeInput \<Rightarrow> Some FirstEntry
      | EndInput \<Rightarrow> Some LastEntry | PageUpInput \<Rightarrow> Some PreviousPage | PageDownInput \<Rightarrow> Some NextPage
      | _ \<Rightarrow> None)"

definition handle_input_on_list :: "input_event \<Rightarrow> (tui \<Rightarrow> reaction) \<Rightarrow> tui \<Rightarrow> reaction" where
  "handle_input_on_list event on_enter t =
     (case list_key event of
        Some m \<Rightarrow> (None, t\<lparr>ui_active := move_view m (ui_active t)\<rparr>)
      | None \<Rightarrow>
          (case event of
             EnterInput \<Rightarrow> on_enter t
           | EscapeInput \<Rightarrow> (None, show_console t)
           | InterruptInput \<Rightarrow> (None, t\<lparr>ui_exit := True\<rparr>)
           | _ \<Rightarrow> (None, t)))"

definition handle_input_on_information :: "input_event \<Rightarrow> tui \<Rightarrow> reaction" where
  "handle_input_on_information event t =
     (if event = EnterInput \<or> event = EscapeInput then (None, show_console t)
      else if event = InterruptInput then (None, t\<lparr>ui_exit := True\<rparr>) else (None, t))"

definition select_help_command :: "tui \<Rightarrow> reaction" where
  "select_help_command t =
     (let command = (case ui_active t of HelpView l \<Rightarrow> map_option he_input (list_selected l) | _ \<Rightarrow> None);
          t' = show_console t
      in (None, case command of Some i \<Rightarrow> set_prompt (replace_with_input i) t' | None \<Rightarrow> t'))"

definition set_model :: "tui \<Rightarrow> reaction" where
  "set_model t =
     (None, show_console
       (case ui_active t of
          ModelsView l \<Rightarrow>
            (case list_selected l of
               Some AutoModel \<Rightarrow> t\<lparr>ui_model := None\<rparr>
             | Some (ListedModel m) \<Rightarrow> t\<lparr>ui_model := Some (lm_reference m)\<rparr>
             | None \<Rightarrow> t)
        | _ \<Rightarrow> t))"

definition resume_selected_session :: "tui \<Rightarrow> reaction" where
  "resume_selected_session t =
     (map_option (\<lambda>s. ResumeSessionCmd (ls_id s))
        (case ui_active t of SessionsView l \<Rightarrow> list_selected l | _ \<Rightarrow> None),
      show_console t)"

definition on_input :: "tui_env \<Rightarrow> input_event \<Rightarrow> tui \<Rightarrow> reaction option" where
  "on_input env event t =
     (case ui_active t of
        ConsoleView c \<Rightarrow>
          if ui_turn t \<noteq> None then Some (handle_input_on_execution_turn event t)
          else handle_input_on_console env event t
      | HelpView _ \<Rightarrow> Some (handle_input_on_list event select_help_command t)
      | UsageView _ \<Rightarrow> Some (handle_input_on_information event t)
      | ModelsView _ \<Rightarrow> Some (handle_input_on_list event set_model t)
      | SkillsView _ \<Rightarrow> Some (handle_input_on_list event (\<lambda>t. (None, show_console t)) t)
      | ProvidersView _ \<Rightarrow> Some (handle_input_on_list event (\<lambda>t. (None, show_console t)) t)
      | SessionsView _ \<Rightarrow> Some (handle_input_on_list event resume_selected_session t))"

text \<open>A key and the frame that follows: the command, what the frame prints, the new state.\<close>

definition handle_input_event ::
  "tui_env \<Rightarrow> input_event \<Rightarrow> tui \<Rightarrow> (cli_cmd option \<times> history_entry list \<times> tui) option" where
  "handle_input_event env event t =
     map_option (\<lambda>(cmd, t'). (cmd, insert_transcript t')) (on_input env event t)"

end
