(* ===== verification/Tui_Safety.thy ===== *)
theory Tui_Safety
  imports Tui_Input
begin

text \<open>
  What the terminal of \<open>Tui_Input\<close> keeps: \<open>tui_good\<close> is the invariant of its state, under which no
  key panics; an approval prompt is answered by one decision; the recall of inputs walks back and
  forth; the printed transcript is the history, except after a session was resumed.
\<close>

section \<open>The invariant\<close>

fun view_good :: "active_component \<Rightarrow> bool" where
  "view_good (ConsoleView c) = prompt_good (cn_prompt c)"
| "view_good (HelpView l) = list_good l"
| "view_good (ModelsView l) = list_good l"
| "view_good (ProvidersView l) = list_good l"
| "view_good (SessionsView l) = list_good l"
| "view_good (SkillsView l) = list_good l"
| "view_good (UsageView u) = True"

definition recall_good :: "tui \<Rightarrow> bool" where
  "recall_good t \<longleftrightarrow> length (ui_recall t) \<le> prompt_history_limit \<and>
     (\<forall>i. ui_recall_index t = Some i \<longrightarrow> i < length (ui_recall t)) \<and>
     (\<forall>e\<in>set (ui_recall t). \<exists>c\<in>set e. \<not> is_whitespace c)"

definition tui_good :: "tui \<Rightarrow> bool" where
  "tui_good t \<longleftrightarrow> view_good (ui_active t) \<and> recall_good t"

lemma new_tui_good: "tui_good new_tui"
  by (simp add: tui_good_def new_tui_def new_console_def recall_good_def)

lemma tui_good_fields [simp]:
  "tui_good (t\<lparr>ui_awaited := a\<rparr>) = tui_good t"
  "tui_good (t\<lparr>ui_turn := e\<rparr>) = tui_good t"
  "tui_good (t\<lparr>ui_history := h\<rparr>) = tui_good t"
  "tui_good (t\<lparr>ui_plan := b\<rparr>) = tui_good t"
  "tui_good (t\<lparr>ui_model := m\<rparr>) = tui_good t"
  "tui_good (t\<lparr>ui_router := r\<rparr>) = tui_good t"
  "tui_good (t\<lparr>ui_exit := x\<rparr>) = tui_good t"
  "tui_good (t\<lparr>ui_printed := n\<rparr>) = tui_good t"
  "tui_good (push_history he t) = tui_good t"
  by (simp_all add: tui_good_def recall_good_def push_history_def)

lemma tui_good_view: "tui_good t \<Longrightarrow> view_good v \<Longrightarrow> tui_good (t\<lparr>ui_active := v\<rparr>)"
  by (simp add: tui_good_def recall_good_def)

lemma tui_good_forget: "tui_good t \<Longrightarrow> tui_good (t\<lparr>ui_recall_index := None\<rparr>)"
  by (simp add: tui_good_def recall_good_def)

lemma tui_good_console: "tui_good t \<Longrightarrow> tui_good (show_console t)"
  by (simp add: show_console_def tui_good_view new_console_def)

lemma tui_good_remember: "tui_good t \<Longrightarrow> tui_good (push_prompt_history input t)"
  by (cases "ui_recall t")
    (auto simp: tui_good_def recall_good_def push_prompt_history_def prompt_history_limit_def)

lemma console_prompt: "tui_good t \<Longrightarrow> ui_active t = ConsoleView c \<Longrightarrow> prompt_good (cn_prompt c)"
  by (simp add: tui_good_def)

lemma set_prompt_good: "tui_good t \<Longrightarrow> prompt_good p \<Longrightarrow> tui_good (set_prompt p t)"
  by (simp add: set_prompt_def tui_good_view split: active_component.split)

lemma apply_msg_good: "tui_good t \<Longrightarrow> tui_good (apply_msg ul m t)"
  by (cases m)
    (auto simp: clear_history_def close_session_def Let_def show_models_list_def
      intro!: tui_good_view tui_good_console tui_good_forget split: option.split)

section \<open>No key panics\<close>

text \<open>An edit that serves every good prompt serves every good console.\<close>

lemma edit_prompt_total:
  assumes "tui_good t" "\<And>p. prompt_good p \<Longrightarrow> \<exists>q. f p = Some q \<and> prompt_good q"
  shows "\<exists>t'. edit_prompt f t = Some t' \<and> tui_good t'"
proof (cases "ui_active t")
  case (ConsoleView c)
  from assms(2) [OF console_prompt [OF assms(1) ConsoleView]] obtain q
    where "f (cn_prompt c) = Some q" "prompt_good q" by blast
  then show ?thesis using ConsoleView assms(1) by (simp add: edit_prompt_def tui_good_view)
qed (use assms(1) in \<open>simp_all add: edit_prompt_def\<close>)

lemma on_file_total:
  assumes "prompt_good s" "\<And>p. prompt_good (FilePrompt p) \<Longrightarrow> \<exists>q. f p = Some q \<and> prompt_good (FilePrompt q) \<and> pt_input q = pt_input p"
  shows "\<exists>q. on_file_prompt f s = Some q \<and> prompt_good q"
proof (cases s)
  case (FilePrompt p)
  then show ?thesis using assms(2) [of p] assms(1) by auto
qed (use assms(1) in simp_all)

lemma refresh_total:
  assumes "tui_good t"
  shows "\<exists>t'. refresh_file_autocomplete env t = Some t' \<and> tui_good t'"
proof (cases "ui_active t")
  case (ConsoleView c)
  note good = console_prompt [OF assms ConsoleView]
  show ?thesis
  proof (cases "cn_prompt c")
    case (FilePrompt p)
    then obtain query where "mention_query p = Some query" using good mention_query_good [of p] by auto
    moreover have "\<exists>t'. edit_prompt (replace_file_matches (file_matches env query)) t = Some t' \<and> tui_good t'" for query
      unfolding replace_file_matches_def
      by (rule edit_prompt_total [OF assms], erule on_file_total) (rule matches_good(1))
    ultimately show ?thesis using FilePrompt ConsoleView by (simp add: refresh_file_autocomplete_def)
  qed (use ConsoleView assms in \<open>simp_all add: refresh_file_autocomplete_def\<close>)
qed (use assms in \<open>simp_all add: refresh_file_autocomplete_def\<close>)

definition serves :: "reaction option \<Rightarrow> bool" where
  "serves r \<longleftrightarrow> (\<exists>cmd t. r = Some (cmd, t) \<and> tui_good t)"

lemma serves_quietly: "\<exists>t'. r = Some t' \<and> tui_good t' \<Longrightarrow> serves (quietly r)"
  by (auto simp: serves_def quietly_def)

lemma serves_edit:
  assumes "tui_good t" "\<And>p. prompt_good p \<Longrightarrow> \<exists>q. f p = Some q \<and> prompt_good q"
  shows "serves (edit_and_refresh env f t)"
proof -
  have "\<exists>t'. edit_prompt f t = Some t' \<and> tui_good t'"
    by (rule edit_prompt_total [OF assms(1)]) (rule assms(2))
  then obtain t' where "edit_prompt f t = Some t'" "tui_good t'" by blast
  with refresh_total [of t' env] show ?thesis
    unfolding edit_and_refresh_def by (intro serves_quietly) simp
qed

lemma edits_total:
  assumes "prompt_good p"
  shows "\<exists>q. prompt_push ch p = Some q \<and> prompt_good q"
    "\<exists>q. map_option snd (prompt_backspace p) = Some q \<and> prompt_good q"
    "\<exists>q. map_option snd (prompt_delete p) = Some q \<and> prompt_good q"
    "\<exists>q. prompt_push_str cs p = Some q \<and> prompt_good q"
    "\<exists>q. accept_prompt p = Some q \<and> prompt_good q"
    "\<exists>q. right_or_accept p = Some q \<and> prompt_good q"
proof -
  show "\<exists>q. prompt_push ch p = Some q \<and> prompt_good q" using type_in_line [OF assms] by blast
  show "\<exists>q. map_option snd (prompt_backspace p) = Some q \<and> prompt_good q" using erase_before_line [OF assms] by blast
  show "\<exists>q. map_option snd (prompt_delete p) = Some q \<and> prompt_good q" using erase_at_line [OF assms] by blast
  show "\<exists>q. prompt_push_str cs p = Some q \<and> prompt_good q"
    using prompt_edits_line [OF assms] unfolding push_str_edits by blast
  from accept_good [OF assms] obtain b q where q: "accept_suggestion p = Some (b, q)" "prompt_good q" by blast
  then show "\<exists>q. accept_prompt p = Some q \<and> prompt_good q" by (simp add: accept_prompt_def)
  show "\<exists>q. right_or_accept p = Some q \<and> prompt_good q"
    using q move_line [OF q(2), of GoRight prompt_right] by (auto simp: right_or_accept_def)
qed

lemma moves_good:
  "prompt_good p \<Longrightarrow> prompt_good (prompt_left p)" "prompt_good p \<Longrightarrow> prompt_good (prompt_home p)"
  "prompt_good p \<Longrightarrow> prompt_good (prompt_end p)" "prompt_good p \<Longrightarrow> prompt_good (prompt_vertical d p)"
  using move_line [of p GoLeft prompt_left] move_line [of p GoHome prompt_home]
    move_line [of p GoEnd prompt_end] vertical_good [of p d] by simp_all

lemma exec_good: "tui_good t \<Longrightarrow> tui_good (snd (handle_prompt_exec env prompt t))"
  by (simp add: handle_prompt_exec_def tui_good_remember)

lemma handle_log_good: "tui_good t \<Longrightarrow> tui_good (snd (handle_log env args t))"
  by (simp add: handle_log_def Let_def complain_def split: list.split option.split)

lemma handle_command_good: "tui_good t \<Longrightarrow> tui_good (snd (handle_command env command args t))"
  by (cases command)
    (auto simp: show_help_def tui_good_view complain_def handle_log_good handle_model_command_def
      handle_preview_command_def handle_resume_command_def Let_def split: list.split option.split)

lemma handle_interrupt_good: "tui_good t \<Longrightarrow> tui_good (snd (handle_interrupt t))"
  by (auto simp: handle_interrupt_def set_prompt_good split: active_component.split)

lemma serves_some: "tui_good (snd r) \<Longrightarrow> serves (Some r)"
  by (cases r) (simp add: serves_def)

lemma handle_enter_serves:
  assumes "tui_good t" "ui_active t = ConsoleView c"
  shows "serves (handle_enter env c t)"
proof -
  have cleared: "tui_good (set_prompt EmptyPrompt t)" using assms(1) by (simp add: set_prompt_good)
  then have kept: "tui_good (push_prompt_history i (set_prompt EmptyPrompt t))" for i by (rule tui_good_remember)
  have executed: "serves (Some (handle_prompt_exec env p (set_prompt EmptyPrompt t)))" for p
    by (rule serves_some [OF exec_good [OF cleared]])
  have commanded: "serves (Some (handle_command env command args t'))" if "tui_good t'" for command args t'
    by (rule serves_some [OF handle_command_good [OF that]])
  show ?thesis
  proof (cases "cn_prompt c")
    case EmptyPrompt
    then show ?thesis using assms by (simp add: handle_enter_def serves_some)
  next
    case (TextPrompt p)
    then show ?thesis using executed by (simp add: handle_enter_def)
  next
    case (FilePrompt p)
    then show ?thesis using executed commanded [OF kept]
      by (simp add: handle_enter_def without_completion_def Let_def split: prod.split)
  next
    case (CommandPrompt p)
    obtain command args where r: "resolved_command p = (command, args)" by fastforce
    have "tui_good (case command of UnresolvedSlash n \<Rightarrow> t | _ \<Rightarrow> push_prompt_history i (set_prompt EmptyPrompt t))" for i
      using kept assms(1) by (cases command) simp_all
    then show ?thesis using CommandPrompt r commanded by (simp add: handle_enter_def)
  qed
qed

lemma edit_console_serves:
  assumes "tui_good t" "ui_active t = ConsoleView c"
  shows "serves (edit_console env event c t)"
proof -
  have simple: "serves (quietly (edit_prompt (Some \<circ> f) t))" if "\<And>p. prompt_good p \<Longrightarrow> prompt_good (f p)" for f
    using that by (intro serves_quietly edit_prompt_total [OF assms(1)]) simp
  have accepts: "serves (quietly (edit_prompt accept_prompt t))" "serves (quietly (edit_prompt right_or_accept t))"
    by (intro serves_quietly edit_prompt_total [OF assms(1)] edits_total(5,6); assumption)+
  have interrupt: "serves (Some (handle_interrupt t))"
    by (rule serves_some [OF handle_interrupt_good [OF assms(1)]])
  have idle: "serves (Some (None, t))" using assms(1) by (simp add: serves_def)
  have edited: "serves (edit_and_refresh env (\<lambda>p. map_option snd (prompt_backspace p)) t)"
    "serves (edit_and_refresh env (\<lambda>p. map_option snd (prompt_delete p)) t)"
    "serves (edit_and_refresh env (prompt_push ch) t)" "serves (edit_and_refresh env (prompt_push_str cs) t)" for ch cs
    by (rule serves_edit [OF assms(1)], erule edits_total(2), rule serves_edit [OF assms(1)], erule edits_total(3),
        rule serves_edit [OF assms(1)], erule edits_total(1), rule serves_edit [OF assms(1)], erule edits_total(4))
  have moved: "serves (quietly (edit_prompt (Some \<circ> prompt_left) t))"
    "serves (quietly (edit_prompt (Some \<circ> prompt_home) t))" "serves (quietly (edit_prompt (Some \<circ> prompt_end) t))"
    "serves (quietly (edit_prompt (Some \<circ> prompt_vertical d) t))" for d
    by (rule simple, erule moves_good)+
  note enter = handle_enter_serves [OF assms]
  show ?thesis unfolding edit_console_def
    using edited moved enter accepts interrupt idle by (cases event) (simp_all only: input_event.case)
qed

lemma navigation_good:
  assumes "tui_good t"
  shows "tui_good (handle_console_history_navigation event t)"
proof (cases "ui_active t")
  case (ConsoleView c)
  note good = console_prompt [OF assms ConsoleView]
  have recall_shown: "tui_good (snd (previous_prompt_entry t))" "tui_good (snd (next_prompt_entry t))"
    using assms by (auto simp: previous_prompt_entry_def next_prompt_entry_def Let_def tui_good_def recall_good_def
        nth_input_def split: option.split)
  have up: "tui_good (set_prompt (prompt_vertical d (cn_prompt c)) t')" if "tui_good t'" for d t'
    using that moves_good(4) [OF good] by (rule set_prompt_good)
  show ?thesis
  proof (cases event)
    case UpInput
    then show ?thesis using ConsoleView recall_shown up [OF assms] replace_good
      by (cases "previous_prompt_entry t"; cases "fst (previous_prompt_entry t)")
        (auto simp: handle_console_history_navigation_def Let_def intro: set_prompt_good)
  next
    case DownInput
    then show ?thesis using ConsoleView recall_shown up [OF assms] up replace_good
      by (cases "next_prompt_entry t"; cases "fst (next_prompt_entry t)")
        (auto simp: handle_console_history_navigation_def Let_def intro: set_prompt_good)
  qed (use ConsoleView assms in \<open>simp_all add: handle_console_history_navigation_def\<close>)
qed (use assms in \<open>simp_all add: handle_console_history_navigation_def\<close>)

lemma autocomplete_total:
  assumes "tui_good t"
  shows "\<exists>b t'. handle_file_autocomplete_input env event t = Some (b, t') \<and> tui_good t'"
proof -
  have accept: "\<exists>t'. Option.bind (edit_prompt accept_prompt t) (refresh_file_autocomplete env) = Some t' \<and> tui_good t'"
  proof -
    have "\<exists>t'. edit_prompt accept_prompt t = Some t' \<and> tui_good t'"
      by (rule edit_prompt_total [OF assms]) (erule edits_total(5))
    then show ?thesis using refresh_total by (metis bind_eq_Some_conv)
  qed
  have moved: "\<exists>t'. edit_prompt next_file_match t = Some t' \<and> tui_good t'"
    "\<exists>t'. edit_prompt previous_file_match t = Some t' \<and> tui_good t'"
    "\<exists>t'. edit_prompt (\<lambda>p. Some (snd (cancel_completion p))) t = Some t' \<and> tui_good t'"
    unfolding next_file_match_def previous_file_match_def
    by (rule edit_prompt_total [OF assms], erule on_file_total, rule matches_good(2), assumption,
        rule edit_prompt_total [OF assms], erule on_file_total, rule matches_good(3), assumption,
        rule edit_prompt_total [OF assms], simp add: cancel_good)
  show ?thesis
  proof (cases "ui_active t")
    case (ConsoleView c)
    show ?thesis
    proof (cases "is_completing (cn_prompt c)")
      case True
      with ConsoleView show ?thesis using accept moved assms
        by (cases event) (auto simp: handle_file_autocomplete_input_def)
    qed (use ConsoleView assms in \<open>auto simp: handle_file_autocomplete_input_def\<close>)
  qed (use assms in \<open>auto simp: handle_file_autocomplete_input_def\<close>)
qed

lemma console_serves:
  assumes "tui_good t"
  shows "serves (handle_input_on_console env event t)"
proof -
  from autocomplete_total [OF assms] obtain b t' where
    t': "handle_file_autocomplete_input env event t = Some (b, t')" "tui_good t'" by blast
  define t2 where "t2 = (if is_edit_input event then t'\<lparr>ui_recall_index := None\<rparr> else t')"
  have t2: "tui_good t2" using t'(2) tui_good_forget unfolding t2_def by simp
  have "serves (Some (None, handle_console_history_navigation event t'))" "serves (Some (None, t'))"
    using t'(2) navigation_good unfolding serves_def by blast+
  moreover have "serves (case ui_active t2 of ConsoleView c \<Rightarrow> edit_console env event c t2 | _ \<Rightarrow> Some (None, t2))"
    using t2 edit_console_serves [OF t2] by (auto simp: serves_def [of "Some _"] split: active_component.split)
  ultimately show ?thesis
    unfolding handle_input_on_console_def t'(1) option.case prod.case Let_def t2_def [symmetric]
    by (cases b) auto
qed

lemma turn_good: "tui_good t \<Longrightarrow> tui_good (snd (handle_input_on_execution_turn event t))"
proof -
  assume t: "tui_good t"
  have "tui_good (on_console (previous_approval_option n) t)" "tui_good (on_console (next_approval_option n) t)" for n
    using t console_prompt [OF t]
    by (auto simp: on_console_def previous_approval_option_def next_approval_option_def
        split: active_component.split intro: tui_good_view)
  then show ?thesis using t handle_interrupt_good [OF t]
    by (cases event) (auto simp: handle_input_on_execution_turn_def Let_def split: option.split)
qed

lemma list_good_input:
  assumes "tui_good t" "tui_good (snd (on_enter t))"
  shows "tui_good (snd (handle_input_on_list event on_enter t))"
proof -
  have "view_good (move_view m (ui_active t))" for m
    using assms(1) by (cases "ui_active t") (auto simp: tui_good_def intro: move_list_good)
  then show ?thesis using assms tui_good_console [OF assms(1)]
    by (auto simp: handle_input_on_list_def tui_good_view split: option.split input_event.split)
qed

lemma enter_good:
  assumes "tui_good t"
  shows "tui_good (snd (select_help_command t))" "tui_good (snd (set_model t))"
    "tui_good (snd (resume_selected_session t))"
  using assms
  by (auto simp: select_help_command_def set_model_def resume_selected_session_def Let_def replace_good
      intro!: tui_good_console set_prompt_good split: option.split active_component.split model_entry.split)

lemma on_input_serves:
  assumes "tui_good t"
  shows "serves (on_input env event t)"
proof -
  show ?thesis
    using assms enter_good [OF assms] tui_good_console [OF assms] turn_good [OF assms] console_serves [OF assms]
    by (cases "ui_active t")
      (auto simp: on_input_def handle_input_on_information_def intro!: serves_some list_good_input)
qed

section \<open>Decisions\<close>

definition approving_key :: "input_event \<Rightarrow> bool" where
  "approving_key e \<longleftrightarrow> e = EnterInput \<or> e \<in> CharInput ` set ''1y2a''"

lemma handle_log_sends: "fst (handle_log env args t) = None"
  by (simp add: handle_log_def Let_def complain_def split: list.split option.split)

lemma handle_command_sends:
  "fst (handle_command env command args t) \<noteq> Some (ContinueCmd k)"
  by (cases command)
    (auto simp: handle_log_sends handle_model_command_def handle_preview_command_def handle_resume_command_def
      complain_def Let_def split: list.split option.split)

lemma handle_interrupt_sends: "fst (handle_interrupt t) = Some (ContinueCmd k) \<Longrightarrow> k = BreakRun"
  by (auto simp: handle_interrupt_def split: if_splits active_component.splits)

lemma handle_enter_sends: "handle_enter env c t = Some r \<Longrightarrow> fst r \<noteq> Some (ContinueCmd k)"
  using handle_command_sends
  by (auto simp: handle_enter_def handle_prompt_exec_def split: prompt_state.splits if_splits prod.splits)

lemma edit_console_sends: "edit_console env event c t = Some (Some (ContinueCmd k), t') \<Longrightarrow> k = BreakRun"
  using handle_interrupt_sends [of t k] handle_enter_sends [of env c t _ k]
  by (cases event) (auto simp: edit_console_def quietly_def edit_and_refresh_def)

lemma console_sends: "handle_input_on_console env event t = Some (Some (ContinueCmd k), t') \<Longrightarrow> k = BreakRun"
  by (auto simp: handle_input_on_console_def Let_def edit_console_sends
      split: option.splits prod.splits bool.splits if_splits active_component.splits)

lemma list_sends:
  assumes "fst (on_enter t) \<noteq> Some (ContinueCmd k)"
  shows "fst (handle_input_on_list event on_enter t) \<noteq> Some (ContinueCmd k)"
  using assms by (auto simp: handle_input_on_list_def split: option.split input_event.split)

lemma enter_sends:
  "fst (select_help_command t) \<noteq> Some (ContinueCmd k)" "fst (set_model t) \<noteq> Some (ContinueCmd k)"
  "fst (resume_selected_session t) \<noteq> Some (ContinueCmd k)"
  by (simp_all add: select_help_command_def set_model_def resume_selected_session_def Let_def
      split: active_component.split option.split)

lemma option_session: "approval_option p i = ApproveAlwaysForSession \<Longrightarrow> approval_allows_session_acceptance p"
  by (auto simp: approval_option_def split: if_splits)

lemma approval_key_sends:
  assumes "active_approval_prompt t = Some p" "fst (handle_input_on_execution_turn e t) = Some cmd"
  shows "fst (handle_interrupt t) = Some cmd \<or> (\<exists>option. cmd = approval_command p option \<and>
    (option = ApproveAlwaysForSession \<longrightarrow> approval_allows_session_acceptance p) \<and>
    (option \<noteq> RejectOption \<longrightarrow> approving_key e))"
proof (cases e)
  case (CharInput ch)
  show ?thesis
  proof (cases "cmd = approval_command p RejectOption")
    case False
    then have "cmd = approval_command p ApproveOnce \<and> approving_key e \<or>
      cmd = approval_command p ApproveAlwaysForSession \<and> approving_key e \<and> approval_allows_session_acceptance p"
      using assms CharInput
      by (auto simp: handle_input_on_execution_turn_def Let_def approving_key_def split: if_splits)
    then show ?thesis by blast
  qed blast
next
  case EnterInput
  then have "cmd = selected_approval_command p t" "approving_key e"
    using assms by (simp_all add: handle_input_on_execution_turn_def approving_key_def Let_def)
  then show ?thesis using option_session [of p] unfolding selected_approval_command_def by blast
qed (use assms in \<open>simp_all add: handle_input_on_execution_turn_def Let_def\<close>)

text \<open>The only continuations a key sends: the break of a run, and one decision on the prompt shown.\<close>

lemma continuation_sent:
  assumes "on_input env e t = Some (Some (ContinueCmd k), t')"
  shows "k = BreakRun \<or> (\<exists>p c option. ui_active t = ConsoleView c \<and> active_approval_prompt t = Some p \<and>
    k = SubmitDecisions [approval_decision_for_option p option] \<and>
    (option = ApproveAlwaysForSession \<longrightarrow> approval_allows_session_acceptance p) \<and>
    (option \<noteq> RejectOption \<longrightarrow> approving_key e))"
proof (cases "ui_active t")
  case (ConsoleView c)
  show ?thesis
  proof (cases "ui_turn t = None")
    case True
    then have "handle_input_on_console env e t = Some (Some (ContinueCmd k), t')"
      using assms ConsoleView by (simp add: on_input_def)
    then show ?thesis using console_sends by blast
  next
    case False
    then have sent: "handle_input_on_execution_turn e t = (Some (ContinueCmd k), t')"
      using assms ConsoleView by (simp add: on_input_def)
    show ?thesis
    proof (cases "active_approval_prompt t")
      case None
      then show ?thesis using sent handle_interrupt_sends [of t k]
        by (auto simp: handle_input_on_execution_turn_def split: if_splits)
    next
      case (Some p)
      have "fst (handle_input_on_execution_turn e t) = Some (ContinueCmd k)" using sent by simp
      from approval_key_sends [OF Some this] show ?thesis
        using handle_interrupt_sends [of t k] ConsoleView Some by (auto simp: approval_command_def)
    qed
  qed
next
  case (SkillsView l)
  then have "fst (handle_input_on_list e (\<lambda>t. (None, show_console t)) t) = Some (ContinueCmd k)" using assms by (simp add: on_input_def)
  moreover have "fst (handle_input_on_list e (\<lambda>t. (None, show_console t)) t) \<noteq> Some (ContinueCmd k)"
    by (rule list_sends) (simp add: enter_sends)
  ultimately show ?thesis by simp
next
  case (ProvidersView l)
  then have "fst (handle_input_on_list e (\<lambda>t. (None, show_console t)) t) = Some (ContinueCmd k)" using assms by (simp add: on_input_def)
  moreover have "fst (handle_input_on_list e (\<lambda>t. (None, show_console t)) t) \<noteq> Some (ContinueCmd k)"
    by (rule list_sends) (simp add: enter_sends)
  ultimately show ?thesis by simp
next
  case (HelpView l)
  then have "fst (handle_input_on_list e (select_help_command) t) = Some (ContinueCmd k)" using assms by (simp add: on_input_def)
  moreover have "fst (handle_input_on_list e (select_help_command) t) \<noteq> Some (ContinueCmd k)"
    by (rule list_sends) (simp add: enter_sends)
  ultimately show ?thesis by simp
next
  case (ModelsView l)
  then have "fst (handle_input_on_list e (set_model) t) = Some (ContinueCmd k)" using assms by (simp add: on_input_def)
  moreover have "fst (handle_input_on_list e (set_model) t) \<noteq> Some (ContinueCmd k)"
    by (rule list_sends) (simp add: enter_sends)
  ultimately show ?thesis by simp
next
  case (SessionsView l)
  then have "fst (handle_input_on_list e (resume_selected_session) t) = Some (ContinueCmd k)" using assms by (simp add: on_input_def)
  moreover have "fst (handle_input_on_list e (resume_selected_session) t) \<noteq> Some (ContinueCmd k)"
    by (rule list_sends) (simp add: enter_sends)
  ultimately show ?thesis by simp
next
  case (UsageView u)
  then show ?thesis using assms by (auto simp: on_input_def handle_input_on_information_def split: if_splits)
qed

section \<open>Recalling inputs\<close>

text \<open>The console after \<open>k\<close> steps back from an empty prompt.\<close>

definition recall_shown :: "tui \<Rightarrow> nat \<Rightarrow> tui" where
  "recall_shown t k =
     (if k = 0 then t
      else set_prompt (replace_with_input (ui_recall t ! (length (ui_recall t) - k)))
             (t\<lparr>ui_recall_index := Some (length (ui_recall t) - k)\<rparr>))"

lemma set_prompt_parts [simp]:
  "ui_recall (set_prompt p t) = ui_recall t" "ui_recall_index (set_prompt p t) = ui_recall_index t"
  "set_prompt p (set_prompt q t) = set_prompt p t"
  by (simp_all add: set_prompt_def split: active_component.split)

lemma set_prompt_index [simp]: "(set_prompt p t)\<lparr>ui_recall_index := i\<rparr> = set_prompt p (t\<lparr>ui_recall_index := i\<rparr>)"
  by (simp add: set_prompt_def split: active_component.split)

lemma set_prompt_console:
  "ui_active t = ConsoleView c \<Longrightarrow> ui_active (set_prompt p t) = ConsoleView (c\<lparr>cn_prompt := p\<rparr>)"
  by (simp add: set_prompt_def)

lemma recall_back:
  assumes "ui_active t = ConsoleView c" "cn_prompt c = EmptyPrompt" "ui_recall_index t = None" "k < length (ui_recall t)"
  shows "handle_console_history_navigation UpInput (recall_shown t k) = recall_shown t (Suc k)"
proof (cases k)
  case 0
  then show ?thesis using assms
    by (cases "ui_recall t") (auto simp: recall_shown_def handle_console_history_navigation_def previous_prompt_entry_def
        nth_input_def Let_def)
next
  case (Suc n)
  have "length (ui_recall t) - k - 1 = length (ui_recall t) - Suc k" by simp
  then show ?thesis using assms Suc
    by (cases "ui_recall t = []") (simp_all add: recall_shown_def handle_console_history_navigation_def set_prompt_console
        previous_prompt_entry_def nth_input_def Let_def)
qed

lemma recall_forward:
  assumes "ui_active t = ConsoleView c" "cn_prompt c = EmptyPrompt" "ui_recall_index t = None" "k < length (ui_recall t)"
  shows "handle_console_history_navigation DownInput (recall_shown t (Suc k)) = recall_shown t k"
proof (cases k)
  case 0
  have "set_prompt EmptyPrompt (t\<lparr>ui_recall_index := None\<rparr>) = t"
    using assms(1-3) by (cases t; cases c) (simp add: set_prompt_def)
  then show ?thesis using assms 0
    by (simp add: recall_shown_def handle_console_history_navigation_def set_prompt_console next_prompt_entry_def)
next
  case (Suc n)
  have "Suc (length (ui_recall t) - Suc k) = length (ui_recall t) - k" using assms(4) by simp
  then show ?thesis using assms Suc
    by (simp add: recall_shown_def handle_console_history_navigation_def set_prompt_console next_prompt_entry_def
        nth_input_def)
qed

text \<open>The keys are the navigation: a recalled input is never a file mention.\<close>

lemma replace_plain: "\<not> is_completing (replace_with_input i)"
  by (simp add: replace_with_input_def is_completing_def split: option.split)

lemma recall_key:
  assumes "ui_active t = ConsoleView c" "cn_prompt c = EmptyPrompt" "ui_turn t = None" "e = UpInput \<or> e = DownInput"
  shows "on_input env e (recall_shown t k) = Some (None, handle_console_history_navigation e (recall_shown t k))"
proof -
  obtain c' where c': "ui_active (recall_shown t k) = ConsoleView c'" "\<not> is_completing (cn_prompt c')"
    using assms(1,2) replace_plain by (cases "k = 0") (auto simp: recall_shown_def set_prompt_def is_completing_def)
  have "ui_turn (recall_shown t k) = None"
    using assms(1,3) by (simp add: recall_shown_def set_prompt_def)
  with c' assms(4) show ?thesis
    by (auto simp: on_input_def handle_input_on_console_def handle_file_autocomplete_input_def)
qed

section \<open>The transcript\<close>

lemma history_appended:
  assumes "\<not> is_session_closed m" "\<And>s. m \<noteq> ResumedSessionMsg s"
  shows "\<exists>new. ui_history (apply_msg ul m t) = ui_history t @ new" "ui_printed (apply_msg ul m t) = ui_printed t"
  using assms
  by (cases m; auto simp: is_session_closed_def push_history_def show_models_list_def split: option.split)+

text \<open>A message is printed once, after what was there.\<close>

lemma transcript_grows:
  assumes "ui_printed t = length (ui_history t)" "\<And>s. m \<noteq> ResumedSessionMsg s"
    and "handle_client_msg ul m t = (printed, t')"
  shows "ui_history t' = (if is_session_closed m then printed else ui_history t @ printed)"
    "ui_printed t' = length (ui_history t')"
proof -
  show "ui_history t' = (if is_session_closed m then printed else ui_history t @ printed)"
  proof (cases "is_session_closed m")
    case True
    then show ?thesis using assms(3) by (auto simp: handle_client_msg_def insert_transcript_def Let_def)
  next
    case False
    from history_appended [OF this assms(2), of ul t] obtain new
      where "ui_history (apply_msg ul m t) = ui_history t @ new" "ui_printed (apply_msg ul m t) = ui_printed t" by blast
    then show ?thesis using assms(1,3) False by (auto simp: handle_client_msg_def insert_transcript_def Let_def)
  qed
  show "ui_printed t' = length (ui_history t')"
    using assms(3) by (auto simp: handle_client_msg_def insert_transcript_def Let_def)
qed

text \<open>A resumed session loses as many entries as the screen held, when it has that many.\<close>

lemma resumed_transcript:
  assumes "ui_printed t = length (ui_history t)"
  shows "fst (handle_client_msg ul (ResumedSessionMsg s) t) =
    drop (if length (rz_messages s) < length (ui_history t) then 0 else length (ui_history t))
      (map (\<lambda>(_, m). AssistantEntry m) (rz_messages s))"
  using assms
  by (simp add: handle_client_msg_def insert_transcript_def is_session_closed_def Let_def show_console_def clear_history_def)

text \<open>A list of models that never comes leaves the name a later \<open>/model auto\<close> does not forget.\<close>

lemma awaited_model_survives_auto:
  assumes "ui_awaited t = Some name" "match_model name models = Some r"
  shows "ui_model (apply_msg ul (ModelsListMsg models) (snd (handle_model_command [''auto''] t))) = Some r"
  using assms by (simp add: handle_model_command_def)

text \<open>A key that carries Shift types nothing.\<close>

lemma shifted_char_ignored: "ShiftMod \<in> ms \<Longrightarrow> decode_event (KeyEvent (CharKey c) ms kind) \<noteq> Some (CharInput d)"
  by (auto simp: decode_char_def)

end
