(* ===== verification/Cli_Approvals.thy ===== *)
theory Cli_Approvals
  imports Redaction
begin

text \<open>
  Commands the user approves for a whole session
  (\<^verbatim>\<open>smista-cli/src/app/router_client/approvals.rs\<close> and \<^verbatim>\<open>approvals/alias.rs\<close>): the alias a
  command is filed under, and the store of approved aliases.
\<close>

section \<open>Aliases\<close>

record command_alias =
  ca_command :: string
  ca_args :: "string list"

datatype alias_error = EmptyAlias | NoCommandToken

definition is_ascii_alphanumeric :: "char \<Rightarrow> bool" where
  "is_ascii_alphanumeric c \<longleftrightarrow> (let n = code c in
     48 \<le> n \<and> n \<le> 57 \<or> 65 \<le> n \<and> n \<le> 90 \<or> 97 \<le> n \<and> n \<le> 122)"

definition is_alias_char :: "char \<Rightarrow> bool" where
  "is_alias_char c \<longleftrightarrow> is_ascii_alphanumeric c \<or> c \<in> {CHR ''_'', CHR ''-'', CHR ''.'', CHR ''/''}"

definition alias_part :: "string \<Rightarrow> string option" where
  "alias_part token =
     (if token \<noteq> [] \<and> hd token = CHR ''-'' then None
      else (let part = takeWhile is_alias_char token in if part \<noteq> [] then Some part else None))"

fun alias_args :: "string list \<Rightarrow> string list" where
  "alias_args [] = []"
| "alias_args (token # tokens) =
     (case alias_part token of
        None \<Rightarrow> []
      | Some arg \<Rightarrow> if length arg < length token then [arg] else arg # alias_args tokens)"

definition alias_of :: "string \<Rightarrow> (alias_error, command_alias) result" where
  "alias_of s =
     (case split_whitespace s of
        [] \<Rightarrow> Err EmptyAlias
      | first # tokens \<Rightarrow>
          (case alias_part first of
             None \<Rightarrow> Err NoCommandToken
           | Some command \<Rightarrow> Ok \<lparr>ca_command = command, ca_args = alias_args tokens\<rparr>))"

definition show_alias :: "command_alias \<Rightarrow> string" where
  "show_alias a =
     (if ca_args a = [] then ca_command a @ '' *''
      else ca_command a @ '' '' @ join '' '' (ca_args a) @ '' *'')"

section \<open>The store\<close>

type_synonym approvals = "command_alias list"

definition alias_for :: "string \<Rightarrow> (alias_error, string) result" where
  "alias_for command = (case alias_of command of Inl e \<Rightarrow> Err e | Inr a \<Rightarrow> Ok (show_alias a))"

definition approved :: "string \<Rightarrow> approvals \<Rightarrow> (alias_error, bool) result" where
  "approved command store = (case alias_of command of Inl e \<Rightarrow> Err e | Inr a \<Rightarrow> Ok (a \<in> set store))"

definition approve :: "string \<Rightarrow> approvals \<Rightarrow> (alias_error, unit) result \<times> approvals" where
  "approve command store =
     (case alias_of command of
        Inl e \<Rightarrow> (Err e, store)
      | Inr a \<Rightarrow> (Ok (), List.insert a store))"

definition approve_all :: "string list \<Rightarrow> approvals \<Rightarrow> approvals" where
  "approve_all commands store = foldl (\<lambda>s c. snd (approve c s)) store commands"

lemma approve_set:
  "set (snd (approve c store)) = set store \<union> (case alias_of c of Inr a \<Rightarrow> {a} | Inl _ \<Rightarrow> {})"
  by (auto simp: approve_def split: sum.split)

lemma approve_all_set: "set (approve_all cs store) = set store \<union> {a. \<exists>c\<in>set cs. alias_of c = Inr a}"
proof (induction cs arbitrary: store)
  case (Cons c cs)
  have first: "approve_all (c # cs) store = approve_all cs (snd (approve c store))"
    by (simp add: approve_all_def)
  show ?case unfolding first Cons.IH approve_set by (auto split: sum.splits)
qed (simp add: approve_all_def)

text \<open>A command is approved exactly when one of the same alias was.\<close>

lemma approved_iff:
  "approved c (approve_all cs []) = Inr True \<longleftrightarrow> (\<exists>a. alias_of c = Inr a \<and> (\<exists>c'\<in>set cs. alias_of c' = Inr a))"
  unfolding approved_def approve_all_set by (auto split: sum.splits)

section \<open>What an alias keeps\<close>

text \<open>A plain word: characters an alias keeps, and not an option.\<close>

definition plain_word :: "string \<Rightarrow> bool" where
  "plain_word w \<longleftrightarrow> w \<noteq> [] \<and> hd w \<noteq> CHR ''-'' \<and> (\<forall>c\<in>set w. is_alias_char c)"

lemma alias_part_plain: "plain_word w \<Longrightarrow> alias_part w = Some w"
proof -
  assume w: "plain_word w"
  then have "takeWhile is_alias_char w = w" by (simp add: plain_word_def takeWhile_eq_all_conv)
  moreover have "w \<noteq> []" "hd w \<noteq> CHR ''-''" using w by (simp_all add: plain_word_def)
  ultimately show ?thesis by (simp add: alias_part_def Let_def del: takeWhile_eq_all_conv)
qed

lemma alias_char_no_space: "is_alias_char c \<Longrightarrow> \<not> is_whitespace c"
proof -
  assume "is_alias_char c"
  moreover have "code CHR ''_'' = 95" "code CHR ''-'' = 45" "code CHR ''.'' = 46" "code CHR ''/'' = 47"
    by (simp_all add: code_def of_char_def)
  ultimately have "45 \<le> code c \<and> code c \<le> 122"
    unfolding is_alias_char_def is_ascii_alphanumeric_def Let_def by fastforce
  then show ?thesis by (auto simp: is_whitespace_def Let_def)
qed

lemma plain_word_word: "plain_word w \<Longrightarrow> word w"
  by (auto simp: plain_word_def word_def dest: alias_char_no_space)

lemma alias_args_plain: "\<forall>w\<in>set ws. plain_word w \<Longrightarrow> alias_args (ws @ rest) = ws @ alias_args rest"
  by (induction ws) (simp_all add: alias_part_plain)

lemma split_whitespace_append:
  assumes "is_whitespace c"
  shows "split_whitespace (a @ c # b) = split_whitespace a @ split_whitespace b"
proof -
  have "split_when is_whitespace (a @ c # b) = split_when is_whitespace a @ split_when is_whitespace b"
    using assms by (induction a) (auto split: list.split)
  then show ?thesis by (simp add: split_whitespace_def)
qed

lemma space [simp]: "is_whitespace CHR '' ''"
  by (simp add: is_whitespace_def code_def of_char_def)

text \<open>
  Whatever follows a shell operator is not part of the alias: the alias of a command of plain
  words is also the alias of that command followed by any other.
\<close>

lemma alias_plain:
  assumes "plain_word w" "\<forall>v\<in>set ws. plain_word v"
  shows "alias_of (join '' '' (w # ws)) = Inr \<lparr>ca_command = w, ca_args = ws\<rparr>"
proof -
  have "split_whitespace (join '' '' (w # ws)) = w # ws"
    using assms plain_word_word by (intro split_join) auto
  then show ?thesis using assms alias_args_plain [of ws "[]"] by (simp add: alias_of_def alias_part_plain)
qed

lemma alias_chained:
  assumes "plain_word w" "\<forall>v\<in>set ws. plain_word v"
  shows "alias_of (join '' '' (w # ws) @ '' && '' @ rest) = Inr \<lparr>ca_command = w, ca_args = ws\<rparr>"
proof -
  have words: "split_whitespace (join '' '' (w # ws)) = w # ws"
    using assms plain_word_word by (intro split_join) auto
  have amp: "split_whitespace ''&&'' = [''&&'']" by code_simp
  have "split_whitespace (join '' '' (w # ws) @ '' && '' @ rest) = (w # ws) @ ''&&'' # split_whitespace rest"
    using split_whitespace_append [of "CHR '' ''" "join '' '' (w # ws)" "''&&'' @ CHR '' '' # rest"]
      split_whitespace_append [of "CHR '' ''" "''&&''" rest] words amp by simp
  moreover have "alias_part ''&&'' = None" by code_simp
  ultimately show ?thesis
    using assms alias_args_plain [of ws "''&&'' # split_whitespace rest"]
    by (simp add: alias_of_def alias_part_plain)
qed

lemma approval_covers_chained:
  assumes "plain_word w" "\<forall>v\<in>set ws. plain_word v" "join '' '' (w # ws) \<in> set cs"
  shows "approved (join '' '' (w # ws) @ '' && '' @ rest) (approve_all cs []) = Inr True"
  unfolding approved_iff using alias_plain [OF assms(1,2)] alias_chained [OF assms(1,2)] assms(3) by blast

end
