(* ===== verification/Cli_Client.thy ===== *)
theory Cli_Client
  imports Cli_Protocol Cli_Approvals Utf8_Text
begin

text \<open>
  The worker of the command line client (\<^verbatim>\<open>smista-cli/src/app/router_client.rs\<close> and
  \<^verbatim>\<open>router_client/handler/\<close>): it takes the terminal's commands and the events of the router's
  stream, runs tools, keeps what the user approved, and answers the router.

  The worker is a state machine over stimuli: a command arrives, an opened stream yields an
  event or ends. What the router and the machine answer is the parameter record
  \<open>client_env\<close>; messages to the terminal, continuations to the router and tools that ran are
  logged in the state.
\<close>

section \<open>State\<close>

datatype client_phase = ClientIdle | AwaitingToolPhase | AwaitingApprovalPhase | StreamingPhase

record session_info =
  si_id :: string
  si_title :: string
  si_key_id :: "string option"

record client =
  cl_accept_edits :: bool
  cl_accept_reads :: bool
  cl_approvals :: approvals
  cl_results :: "tool_result btree"
  cl_requests :: "tool_request btree"
  cl_prompts :: "string list"
  cl_seals :: "string ref_map"
  cl_session :: "session_info option"
  cl_phase :: client_phase
  cl_disk :: disk
  cl_said :: "cli_msg list"
  cl_sent :: "continue_request list"
  cl_ran :: "tool_request list"

record client_env =
  ce_auto_apply :: bool
  ce_cwd :: string
  ce_shell :: shell
  ce_pretty :: "json \<Rightarrow> string"
  ce_encrypt :: "string \<Rightarrow> string \<Rightarrow> (string, encrypted_payload) result"
  ce_decrypt :: "encrypted_payload \<Rightarrow> (string, string) result"
  ce_create_session :: "string \<Rightarrow> (string, session_info) result"
  ce_open :: "continue_request list \<Rightarrow> (string, unit) result"
    \<comment> \<open>whether the last continuation sent opens a stream\<close>
  ce_interrupt :: "string \<Rightarrow> (string, unit) result"
  ce_fetch :: "string \<Rightarrow> (string, session_info \<times> (string \<times> (encrypted_payload + string)) list) result"
    \<comment> \<open>a session with its messages, sealed or in clear\<close>
  ce_usage :: "string \<Rightarrow> session_usage_response option"
  ce_query :: "session_info option \<Rightarrow> cli_cmd \<Rightarrow> cli_msg list"
    \<comment> \<open>what a command that only reads is answered with\<close>

datatype router_event = TextEvent string | ReasoningEvent string | ToolStartedEvent string string
  | ToolRequestedEvent tool_request | UsageEvent usage | TurnEndEvent string turn_outcome
  | EncryptEndEvent "string ref_map" | FailedEndEvent string

text \<open>
  The end of a turn carries one of the outcomes of \<open>Run_Machine\<close> with its trace identity, or
  one of the two it has no constructor for: a request to seal, and an error.
\<close>

definition say :: "cli_msg \<Rightarrow> client \<Rightarrow> client" where
  "say m c = c\<lparr>cl_said := cl_said c @ [m]\<rparr>"

definition bt_remove :: "string \<Rightarrow> 'v btree \<Rightarrow> 'v btree" where
  "bt_remove k m = filter (\<lambda>(l, _). l \<noteq> k) m"

definition new_client :: "client_env \<Rightarrow> disk \<Rightarrow> client" where
  "new_client env d = \<lparr>cl_accept_edits = ce_auto_apply env, cl_accept_reads = False, cl_approvals = [],
     cl_results = [], cl_requests = [], cl_prompts = [], cl_seals = [], cl_session = None,
     cl_phase = ClientIdle, cl_disk = d, cl_said = [], cl_sent = [], cl_ran = []\<rparr>"

definition reset_session_state :: "client_env \<Rightarrow> client \<Rightarrow> client" where
  "reset_session_state env c = c\<lparr>cl_session := None, cl_accept_edits := ce_auto_apply env,
     cl_accept_reads := False, cl_approvals := [], cl_seals := [], cl_prompts := [],
     cl_requests := [], cl_results := [], cl_phase := ClientIdle\<rparr>"

definition key_id :: "client \<Rightarrow> string option" where
  "key_id c = Option.bind (cl_session c) si_key_id"

definition clear_pending :: "client \<Rightarrow> client" where
  "clear_pending c = c\<lparr>cl_prompts := [], cl_requests := [], cl_results := []\<rparr>"

definition file_changing :: "string \<Rightarrow> bool" where
  "file_changing name \<longleftrightarrow> name = write_file_tool \<or> name = edit_file_tool"

definition shell_command :: "json \<Rightarrow> string option" where
  "shell_command arguments = Option.bind (json_get arguments ''command'') json_str"

section \<open>Sealing\<close>

fun seal_all :: "client_env \<Rightarrow> string \<Rightarrow> string ref_map \<Rightarrow> (string, encrypted_payload ref_map) result" where
  "seal_all env key [] = Ok []"
| "seal_all env key ((r, t) # m) =
     (case ce_encrypt env key t of
        Inl e \<Rightarrow> Err e
      | Inr p \<Rightarrow> (case seal_all env key m of Inl e \<Rightarrow> Err e | Inr ps \<Rightarrow> Ok ((r, p) # ps)))"

definition seal_content ::
  "client_env \<Rightarrow> string option \<Rightarrow> string ref_map \<Rightarrow> (string, encrypted_payload ref_map) result" where
  "seal_content env key plaintext =
     (if plaintext = [] then Ok []
      else (case key of
              None \<Rightarrow> Err ''router asked to seal content, but the current session has no encryption key''
            | Some k \<Rightarrow> seal_all env k plaintext))"

fun open_all :: "client_env \<Rightarrow> encrypted_payload ref_map \<Rightarrow> (string, string ref_map) result" where
  "open_all env [] = Ok []"
| "open_all env ((r, p) # m) =
     (case ce_decrypt env p of
        Inl e \<Rightarrow> Err e
      | Inr t \<Rightarrow> (case open_all env m of Inl e \<Rightarrow> Err e | Inr ts \<Rightarrow> Ok ((r, t) # ts)))"

definition results_request ::
  "client_env \<Rightarrow> tool_result list \<Rightarrow> client \<Rightarrow> (string, continue_request) result \<times> client" where
  "results_request env results c =
     (let plaintext = (if key_id c = None then cl_seals c
                       else foldl (\<lambda>m r. ref_insert (ToolCallRef (tl_call_id r)) (tl_content r) m) (cl_seals c) results)
      in case seal_content env (key_id c) plaintext of
           Inl e \<Rightarrow> (Err e, c)
         | Inr encrypted \<Rightarrow> (Ok (ToolResults results encrypted), c\<lparr>cl_seals := []\<rparr>))"

section \<open>Tools\<close>

definition run_request :: "client_env \<Rightarrow> tool_request \<Rightarrow> approval_decision option \<Rightarrow> client \<Rightarrow> tool_result \<times> client" where
  "run_request env r decision c =
     (case execute_tool (ce_shell env) (ce_cwd env)
            \<lparr>lc_call_id = tq_call_id r, lc_name = tq_name r, lc_arguments = tq_arguments r,
             lc_decision = decision\<rparr> (cl_disk c) of
        (result, d) \<Rightarrow> (result, c\<lparr>cl_disk := d, cl_ran := cl_ran c @ [r]\<rparr>))"

text \<open>\<open>None\<close>: the user has to be asked.\<close>

definition tool_call_decision :: "tool_request \<Rightarrow> client \<Rightarrow> approval_decision option option" where
  "tool_call_decision r c =
     (case tq_requires_approval r of
        AllowCall \<Rightarrow> Some None
      | AskCall \<Rightarrow>
          if cl_accept_edits c \<and> file_changing (tq_name r) then Some (Some Approved)
          else if cl_accept_reads c \<and> tq_name r = read_file_tool then Some (Some Approved)
          else (case shell_command (tq_arguments r) of
                  None \<Rightarrow> None
                | Some command \<Rightarrow>
                    (case approved command (cl_approvals c) of
                       Inr True \<Rightarrow> Some (Some Approved) | _ \<Rightarrow> None)))"

definition tool_approval_prompt :: "client_env \<Rightarrow> tool_request \<Rightarrow> approval_prompt" where
  "tool_approval_prompt env r =
     (let command = shell_command (tq_arguments r)
      in \<lparr>ap_id = tq_call_id r, ap_title = ''Approve '' @ tq_name r,
          ap_detail = (case command of
             Some t \<Rightarrow> t
           | None \<Rightarrow>
               (case (tq_name r = read_file_tool, Option.bind (json_get (tq_arguments r) ''path'') json_str) of
                  (True, Some p) \<Rightarrow> ''Path: '' @ p
                | _ \<Rightarrow> ce_pretty env (tq_arguments r))),
          ap_tool_name = Some (tq_name r),
          ap_wildcard_alias = Option.bind command (\<lambda>t. case alias_for t of Inr a \<Rightarrow> Some a | Inl _ \<Rightarrow> None)\<rparr>)"

definition handle_tool_call_requested :: "client_env \<Rightarrow> tool_request \<Rightarrow> client \<Rightarrow> client" where
  "handle_tool_call_requested env r c =
     (if bt_get (cl_results c) (tq_call_id r) \<noteq> None \<or> tq_call_id r \<in> set (cl_prompts c) then c
      else (case tool_call_decision r c of
              None \<Rightarrow>
                say (ApprovalPromptMsg (tool_approval_prompt env r))
                  (c\<lparr>cl_requests := bt_insert (tq_call_id r) r (cl_requests c),
                     cl_prompts := tq_call_id r # cl_prompts c, cl_phase := AwaitingToolPhase\<rparr>)
            | Some decision \<Rightarrow>
                (case run_request env r decision c of
                   (result, c') \<Rightarrow>
                     c'\<lparr>cl_results := bt_insert (tq_call_id r) result (cl_results c')\<rparr>)))"

section \<open>Continuations the user authors\<close>

datatype user_continuation = Ignored | Handled | Replace

definition run_approved_tool :: "client_env \<Rightarrow> tool_request \<Rightarrow> user_decision \<Rightarrow> client \<Rightarrow> tool_result \<times> client" where
  "run_approved_tool env r d c =
     (if ud_outcome d = Rejected
      then (\<lparr>tl_call_id = tq_call_id r,
             tl_content = (case ud_reason d of Some t \<Rightarrow> t | None \<Rightarrow> ''Tool request rejected by user''),
             tl_is_error = True, tl_decision = Some Rejected\<rparr>, c)
      else run_request env r (Some (ud_outcome d)) c)"

definition standing :: "user_decision \<Rightarrow> bool" where
  "standing d \<longleftrightarrow> ud_outcome d = Approved \<and> ud_scope d = SessionScope"

text \<open>What a session approval of a request leaves behind.\<close>

definition note_standing :: "tool_request \<Rightarrow> user_decision \<Rightarrow> client \<Rightarrow> (string, unit) result \<times> client" where
  "note_standing r d c =
     (if \<not> standing d then (Ok (), c)
      else (let c1 = (if file_changing (tq_name r) then c\<lparr>cl_accept_edits := True\<rparr> else c);
                c2 = (if tq_name r = read_file_tool then c1\<lparr>cl_accept_reads := True\<rparr> else c1)
            in case shell_command (tq_arguments r) of
                 None \<Rightarrow> (Ok (), c2)
               | Some command \<Rightarrow>
                   (case approve command (cl_approvals c2) of
                      (Inl EmptyAlias, _) \<Rightarrow> (Err ''command alias is empty'', c2)
                    | (Inl NoCommandToken, _) \<Rightarrow> (Err ''command alias has no command token'', c2)
                    | (Inr _, store) \<Rightarrow> (Ok (), c2\<lparr>cl_approvals := store\<rparr>))))"

fun answer_decisions ::
  "client_env \<Rightarrow> user_decision list \<Rightarrow> client \<Rightarrow> (string, tool_result list) result \<times> client" where
  "answer_decisions env [] c = (Ok [], c)"
| "answer_decisions env (d # ds) c =
     (case bt_get (cl_requests c) (ud_id d) of
        None \<Rightarrow> (Err (''no pending tool request matched decision '' @ CHR 0x60 # ud_id d @ [CHR 0x60]), c)
      | Some r \<Rightarrow>
          (case note_standing r d (c\<lparr>cl_requests := bt_remove (ud_id d) (cl_requests c),
                                    cl_prompts := filter (\<lambda>i. i \<noteq> ud_id d) (cl_prompts c)\<rparr>) of
             (Inl e, c1) \<Rightarrow> (Err e, c1)
           | (Inr _, c1) \<Rightarrow>
               (case run_approved_tool env r d c1 of
                  (result, c2) \<Rightarrow>
                    (case answer_decisions env ds c2 of
                       (Inl e, c3) \<Rightarrow> (Err e, c3)
                     | (Inr rest, c3) \<Rightarrow> (Ok (result # rest), c3)))))"

definition tool_approval_request ::
  "client_env \<Rightarrow> user_decision list \<Rightarrow> client \<Rightarrow> (string, continue_request) result \<times> client" where
  "tool_approval_request env decisions c =
     (case answer_decisions env decisions c of
        (Inl e, c') \<Rightarrow> (Err e, c')
      | (Inr results, c') \<Rightarrow> results_request env results c')"

definition approval_decisions_request ::
  "client_env \<Rightarrow> user_decision list \<Rightarrow> client \<Rightarrow> (string, continue_request) result \<times> client" where
  "approval_decisions_request env decisions c =
     (case seal_content env (key_id c) (cl_seals c) of
        Inl e \<Rightarrow> (Err e, c)
      | Inr encrypted \<Rightarrow>
          (Ok (ApprovalDecisions (map (\<lambda>d. \<lparr>an_approval_id = ud_id d, an_decision = ud_outcome d,
                                           an_reason = ud_reason d\<rparr>) decisions) encrypted),
           c\<lparr>cl_seals := []\<rparr>))"

fun inject_request :: "client_env \<Rightarrow> string option \<Rightarrow> string list \<Rightarrow> (string, user_message list) result" where
  "inject_request env key [] = Ok []"
| "inject_request env key (t # ts) =
     (case (case key of None \<Rightarrow> Ok None | Some k \<Rightarrow> (case ce_encrypt env k t of Inl e \<Rightarrow> Err e | Inr p \<Rightarrow> Ok (Some p))) of
        Inl e \<Rightarrow> Err e
      | Inr ciphertext \<Rightarrow>
          (case inject_request env key ts of
             Inl e \<Rightarrow> Err e
           | Inr ms \<Rightarrow> Ok (\<lparr>um_text = t, um_ciphertext = ciphertext\<rparr> # ms)))"

definition build_failed :: "string \<Rightarrow> client \<Rightarrow> user_continuation \<times> client" where
  "build_failed e c = (Handled, say (ErrorMsg (''failed to build continuation request: '' @ e)) c)"

definition post_continuation ::
  "client_env \<Rightarrow> continue_request \<Rightarrow> client \<Rightarrow> user_continuation \<times> client" where
  "post_continuation env request c0 =
     (let c = c0\<lparr>cl_sent := cl_sent c0 @ [request]\<rparr>
      in case ce_open env (cl_sent c) of
           Inr _ \<Rightarrow> (Replace, c\<lparr>cl_phase := StreamingPhase\<rparr>)
         | Inl e \<Rightarrow>
             (Handled, (say (ErrorMsg (''failed to send continuation request to router: '' @ e)) c)
                \<lparr>cl_phase := ClientIdle\<rparr>))"

definition open_built ::
  "client_env \<Rightarrow> (string, continue_request) result \<times> client \<Rightarrow> user_continuation \<times> client" where
  "open_built env built =
     (case built of (Inl e, c) \<Rightarrow> build_failed e c | (Inr request, c) \<Rightarrow> post_continuation env request c)"

definition open_user_continuation ::
  "client_env \<Rightarrow> continue_execution \<Rightarrow> client \<Rightarrow> user_continuation \<times> client" where
  "open_user_continuation env k c =
     (if cl_session c = None then (Ignored, c)
      else (case (cl_phase c, k) of
              (AwaitingToolPhase, SubmitResults rs) \<Rightarrow>
                open_built env (results_request env
                  (map (\<lambda>r. \<lparr>tl_call_id = sr_call_id r, tl_content = sr_content r, tl_is_error = sr_is_error r,
                            tl_decision = None\<rparr>) rs) c)
            | (AwaitingToolPhase, SubmitDecisions ds) \<Rightarrow> open_built env (tool_approval_request env ds c)
            | (AwaitingApprovalPhase, SubmitDecisions ds) \<Rightarrow> open_built env (approval_decisions_request env ds c)
            | (p, BreakRun) \<Rightarrow>
                if p = ClientIdle then (Ignored, c)
                else post_continuation env Break (say InterruptedMsg c)
            | (p, InjectMessages ts) \<Rightarrow>
                if p = ClientIdle then (Ignored, c)
                else open_built env
                  ((case inject_request env (key_id c) ts of Inl e \<Rightarrow> Err e | Inr ms \<Rightarrow> Ok (Inject ms)), c)
            | _ \<Rightarrow> (Ignored, c)))"

section \<open>Events of the stream\<close>

datatype stream_control = KeepDraining | SwapStream | StopDraining

definition stop_with :: "string \<Rightarrow> client \<Rightarrow> stream_control \<times> client" where
  "stop_with e c = (StopDraining, say (ErrorMsg e) (c\<lparr>cl_phase := ClientIdle\<rparr>))"

definition stream_continue_request ::
  "client_env \<Rightarrow> continue_request \<Rightarrow> string \<Rightarrow> client \<Rightarrow> stream_control \<times> client" where
  "stream_continue_request env request failure c0 =
     (let c = c0\<lparr>cl_sent := cl_sent c0 @ [request]\<rparr>
      in case ce_open env (cl_sent c) of
           Inr _ \<Rightarrow> (SwapStream, c\<lparr>cl_phase := StreamingPhase\<rparr>)
         | Inl e \<Rightarrow> stop_with (failure @ '': '' @ e) c)"

definition continue_with_tool_results ::
  "client_env \<Rightarrow> tool_result list \<Rightarrow> client \<Rightarrow> stream_control \<times> client" where
  "continue_with_tool_results env results c =
     (if cl_session c = None then stop_with ''Cannot submit tool results without an active session'' c
      else (case results_request env results c of
              (Inl e, c') \<Rightarrow> stop_with (''Failed to build tool results continuation: '' @ e) c'
            | (Inr request, c') \<Rightarrow> stream_continue_request env request ''Failed to submit tool results'' c'))"

definition handle_awaiting_tool :: "client_env \<Rightarrow> tool_request list \<Rightarrow> client \<Rightarrow> stream_control \<times> client" where
  "handle_awaiting_tool env requests c0 =
     (let c = foldl (\<lambda>c r. handle_tool_call_requested env r c) c0 requests
      in if \<not> list_all (\<lambda>r. bt_get (cl_results c) (tq_call_id r) \<noteq> None) requests
         then (StopDraining, c\<lparr>cl_phase := AwaitingToolPhase\<rparr>)
         else (let results = List.map_filter (\<lambda>r. bt_get (cl_results c) (tq_call_id r)) requests;
                   rest = foldl (\<lambda>m r. bt_remove (tq_call_id r) m) (cl_results c) requests
               in continue_with_tool_results env results
                    (c\<lparr>cl_results := rest, cl_prompts := [], cl_requests := []\<rparr>)))"

definition continue_with_decrypted ::
  "client_env \<Rightarrow> encrypted_payload ref_map \<Rightarrow> string ref_map \<Rightarrow> client \<Rightarrow> stream_control \<times> client" where
  "continue_with_decrypted env to_decrypt to_encrypt c =
     (if cl_session c = None then stop_with ''Cannot submit decrypted content without an active session'' c
      else (case open_all env to_decrypt of
              Inl e \<Rightarrow> stop_with (''Failed to decrypt continuation content: '' @ e) c
            | Inr opened \<Rightarrow>
                let plaintext = foldl (\<lambda>m (r, t). ref_insert r t m) opened to_encrypt
                in case seal_content env (key_id c) to_encrypt of
                     Inl e \<Rightarrow> stop_with (''Failed to seal continuation content: '' @ e) c
                   | Inr encrypted \<Rightarrow>
                       stream_continue_request env (Decrypted plaintext encrypted)
                         ''Failed to submit decrypted content'' c))"

definition continue_with_sealed :: "client_env \<Rightarrow> string ref_map \<Rightarrow> client \<Rightarrow> stream_control \<times> client" where
  "continue_with_sealed env to_encrypt c =
     (if cl_session c = None then stop_with ''Cannot submit sealed content without an active session'' c
      else (case seal_content env (key_id c) to_encrypt of
              Inl e \<Rightarrow> stop_with (''Failed to seal continuation content: '' @ e) c
            | Inr encrypted \<Rightarrow>
                stream_continue_request env (Sealed encrypted) ''Failed to submit sealed content'' c))"

fun approval_kind_name :: "approval_kind \<Rightarrow> string" where
  "approval_kind_name RemoteDisclosure = ''RemoteDisclosure''"
| "approval_kind_name CostLimit = ''CostLimit''"
| "approval_kind_name PlanApproval = ''Plan''"

fun handle_turn_end :: "client_env \<Rightarrow> string \<Rightarrow> turn_outcome \<Rightarrow> client \<Rightarrow> stream_control \<times> client" where
  "handle_turn_end env trace_id (CompletedOutcome turn) c =
     (let c' = say (AssistantTurnMsg (ct_content turn) (Some trace_id))
                 ((clear_pending c)\<lparr>cl_phase := ClientIdle\<rparr>)
      in if ct_to_encrypt turn = [] then (StopDraining, c')
         else continue_with_sealed env (ct_to_encrypt turn) c')"
| "handle_turn_end env trace_id (ToolOutcome requests to_encrypt) c =
     handle_awaiting_tool env requests (c\<lparr>cl_seals := to_encrypt\<rparr>)"
| "handle_turn_end env trace_id (ApprovalOutcome i kind detail to_encrypt) c =
     (StopDraining, say (ApprovalPromptMsg
        \<lparr>ap_id = i, ap_title = ''Approve '' @ approval_kind_name kind, ap_detail = ce_pretty env detail,
         ap_tool_name = None, ap_wildcard_alias = None\<rparr>)
        (c\<lparr>cl_seals := to_encrypt, cl_phase := AwaitingApprovalPhase\<rparr>))"
| "handle_turn_end env trace_id (DecryptOutcome to_decrypt to_encrypt) c =
     continue_with_decrypted env to_decrypt to_encrypt c"
| "handle_turn_end env trace_id IdleOutcome c =
     (StopDraining, (clear_pending c)\<lparr>cl_seals := [], cl_phase := ClientIdle\<rparr>)"

fun on_event :: "client_env \<Rightarrow> router_event \<Rightarrow> client \<Rightarrow> stream_control \<times> client" where
  "on_event env (TextEvent t) c = (KeepDraining, say (ContentChunkMsg t) c)"
| "on_event env (ReasoningEvent t) c = (KeepDraining, say (ReasoningChunkMsg t) c)"
| "on_event env (ToolStartedEvent i name) c = (KeepDraining, say (ToolCallStartedMsg i name) c)"
| "on_event env (ToolRequestedEvent r) c = (KeepDraining, handle_tool_call_requested env r c)"
| "on_event env (UsageEvent u) c = (KeepDraining, c)"
| "on_event env (TurnEndEvent i outcome) c = handle_turn_end env i outcome c"
| "on_event env (EncryptEndEvent to_encrypt) c = continue_with_sealed env to_encrypt c"
| "on_event env (FailedEndEvent message) c =
     (StopDraining, say (ErrorMsg message) ((clear_pending c)\<lparr>cl_seals := [], cl_phase := ClientIdle\<rparr>))"

section \<open>Sessions\<close>

definition is_ascii_whitespace :: "char \<Rightarrow> bool" where
  "is_ascii_whitespace c \<longleftrightarrow> code c \<in> {9, 10, 12, 13, 32}"

definition max_session_title_length :: nat where
  "max_session_title_length = 100"

text \<open>A prompt too long for a title has none.\<close>

fun title_words :: "string \<Rightarrow> string list \<Rightarrow> string option" where
  "title_words acc [] = Some acc"
| "title_words acc (w # ws) =
     (if max_session_title_length < byte_len acc + byte_len w + 1 then None
      else title_words (if acc = [] then w else acc @ '' '' @ w) ws)"

definition session_title :: "string \<Rightarrow> string" where
  "session_title prompt =
     (case title_words [] (filter (\<lambda>w. w \<noteq> []) (split_when is_ascii_whitespace prompt)) of
        Some t \<Rightarrow> t | None \<Rightarrow> [])"

definition session_or_new :: "client_env \<Rightarrow> string \<Rightarrow> client \<Rightarrow> (string, unit) result \<times> client" where
  "session_or_new env prompt c =
     (if cl_session c \<noteq> None then (Ok (), c)
      else (case ce_create_session env (session_title prompt) of
              Inl e \<Rightarrow> (Err e, c)
            | Inr info \<Rightarrow> (Ok (), c\<lparr>cl_session := Some info\<rparr>)))"

definition interrupt_active_run :: "client_env \<Rightarrow> client \<Rightarrow> (string, unit) result" where
  "interrupt_active_run env c =
     (if cl_phase c = ClientIdle then Ok ()
      else (case cl_session c of None \<Rightarrow> Ok () | Some s \<Rightarrow> ce_interrupt env (si_id s)))"

definition clear_session :: "client_env \<Rightarrow> client \<Rightarrow> client" where
  "clear_session env c =
     (let c' = (case interrupt_active_run env c of
                  Inl e \<Rightarrow> say (ErrorMsg (''Failed to terminate active run: '' @ e)) c | Inr _ \<Rightarrow> c);
          i = map_option si_id (cl_session c')
      in say (SessionClosedMsg i (Option.bind i (ce_usage env)))
           (say IdleMsg (reset_session_state env c')))"

text \<open>Messages that do not open are reported and left out.\<close>

fun render_messages ::
  "client_env \<Rightarrow> string \<Rightarrow> (string \<times> (encrypted_payload + string)) list \<Rightarrow> client \<Rightarrow>
   (string \<times> string) list \<times> client" where
  "render_messages env i [] c = ([], c)"
| "render_messages env i ((role, Inr t) # ms) c =
     (case render_messages env i ms c of (rest, c') \<Rightarrow> ((role, t) # rest, c'))"
| "render_messages env i ((role, Inl p) # ms) c =
     (case ce_decrypt env p of
        Inr t \<Rightarrow> (case render_messages env i ms c of (rest, c') \<Rightarrow> ((role, t) # rest, c'))
      | Inl e \<Rightarrow> render_messages env i ms
          (say (ErrorMsg (''Failed to decrypt message content for session '' @ i @ '': '' @ e)) c))"

definition resume_session :: "client_env \<Rightarrow> string \<Rightarrow> client \<Rightarrow> client" where
  "resume_session env i c =
     (let c1 = (case interrupt_active_run env c of
                  Inl e \<Rightarrow> say (ErrorMsg (''Failed to terminate active run: '' @ e)) c
                | Inr _ \<Rightarrow> reset_session_state env c)
      in case ce_fetch env i of
           Inl e \<Rightarrow> say (ErrorMsg (''Failed to get session '' @ i @ '': '' @ e)) c1
         | Inr (info, messages) \<Rightarrow>
             (case render_messages env i messages c1 of
                (rendered, c2) \<Rightarrow>
                  say (ResumedSessionMsg \<lparr>rz_id = si_id info, rz_title = si_title info, rz_messages = rendered\<rparr>)
                    (c2\<lparr>cl_session := Some info, cl_approvals := [], cl_phase := ClientIdle\<rparr>)))"

section \<open>The worker\<close>

text \<open>
  The worker waits for a command, waits for the router to accept a request, or drains a stream.
\<close>

datatype worker_mode = Waiting | Opening | Draining

datatype stimulus = CommandArrives cli_cmd | RequestAnswered "(string, unit) result"
  | EventArrives "(string, router_event) result" | StreamEnds

type_synonym worker = "worker_mode \<times> client"

definition settle_idle :: "client \<Rightarrow> worker" where
  "settle_idle c = (Waiting, if cl_phase c = ClientIdle then say IdleMsg c else c)"

definition after_drain :: "client \<Rightarrow> worker" where
  "after_drain c = settle_idle (if cl_phase c = StreamingPhase then c\<lparr>cl_phase := ClientIdle\<rparr> else c)"

fun handle_cmd :: "client_env \<Rightarrow> cli_cmd \<Rightarrow> client \<Rightarrow> worker" where
  "handle_cmd env (ExecuteCmd x) c =
     (if cl_phase c \<noteq> ClientIdle then (Waiting, c)
      else (case session_or_new env (xa_prompt x) c of
              (Inl e, c') \<Rightarrow> (Waiting, say (ErrorMsg (''Failed to initialize a new session: '' @ e)) c')
            | (Inr _, c') \<Rightarrow> (Opening, (say ThinkingMsg c')\<lparr>cl_phase := StreamingPhase\<rparr>)))"
| "handle_cmd env (PreviewCmd x) c =
     (case session_or_new env (xa_prompt x) c of
        (Inl e, c') \<Rightarrow> (Waiting, say (ErrorMsg (''Failed to initialize a new session: '' @ e)) c')
      | (Inr _, c') \<Rightarrow>
          (Waiting, say IdleMsg (foldl (\<lambda>c m. say m c) (say ThinkingMsg c')
             (ce_query env (cl_session c') (PreviewCmd x)))))"
| "handle_cmd env (ContinueCmd k) c =
     (if cl_session c = None then (Waiting, c)
      else (case open_user_continuation env k c of
              (Ignored, c') \<Rightarrow> (Waiting, c')
            | (Handled, c') \<Rightarrow> settle_idle c'
            | (Replace, c') \<Rightarrow> (Draining, c')))"
| "handle_cmd env (ResumeSessionCmd i) c = (Waiting, resume_session env i c)"
| "handle_cmd env ClearCmd c = (Waiting, clear_session env c)"
| "handle_cmd env cmd c = (Waiting, foldl (\<lambda>c m. say m c) c (ce_query env (cl_session c) cmd))"

fun worker_step :: "client_env \<Rightarrow> stimulus \<Rightarrow> worker \<Rightarrow> worker" where
  "worker_step env (CommandArrives cmd) (Waiting, c) = handle_cmd env cmd c"
| "worker_step env (CommandArrives (ContinueCmd k)) (Opening, c) =
     (case open_user_continuation env k c of
        (Ignored, c') \<Rightarrow> (Opening, c')
      | (Handled, c') \<Rightarrow> if cl_phase c' = ClientIdle then (Waiting, say IdleMsg c') else (Opening, c')
      | (Replace, c') \<Rightarrow> (Draining, c'))"
| "worker_step env (CommandArrives (ContinueCmd k)) (Draining, c) =
     (case open_user_continuation env k c of
        (Ignored, c') \<Rightarrow> (Draining, c')
      | (Handled, c') \<Rightarrow> if cl_phase c' = ClientIdle then after_drain c' else (Draining, c')
      | (Replace, c') \<Rightarrow> (Draining, c'))"
| "worker_step env (CommandArrives cmd) (mode, c) = (mode, c)"
| "worker_step env (RequestAnswered (Inr _)) (Opening, c) = (Draining, c)"
| "worker_step env (RequestAnswered (Inl e)) (Opening, c) =
     settle_idle (say (ErrorMsg (''Failed to execute prompt through router: '' @ e)) (c\<lparr>cl_phase := ClientIdle\<rparr>))"
| "worker_step env (RequestAnswered r) (mode, c) = (mode, c)"
| "worker_step env (EventArrives (Inl e)) (Draining, c) =
     after_drain (say (ErrorMsg (''Execution stream error: '' @ e)) (c\<lparr>cl_phase := ClientIdle\<rparr>))"
| "worker_step env (EventArrives (Inr event)) (Draining, c) =
     (case on_event env event c of
        (StopDraining, c') \<Rightarrow> after_drain c'
      | (_, c') \<Rightarrow> (Draining, c'))"
| "worker_step env (EventArrives e) (mode, c) = (mode, c)"
| "worker_step env StreamEnds (Draining, c) = after_drain c"
| "worker_step env StreamEnds (mode, c) = (mode, c)"

definition worker_run :: "client_env \<Rightarrow> stimulus list \<Rightarrow> worker \<Rightarrow> worker" where
  "worker_run env stimuli w = foldl (\<lambda>w s. worker_step env s w) w stimuli"

end
