(* ===== verification/Cli_Safety.thy ===== *)
theory Cli_Safety
  imports Cli_Client
begin

text \<open>
  What the worker of \<open>Cli_Client\<close> keeps through any run: which tools it may run without asking,
  that its phase agrees with what it waits for, and what its continuations carry.
\<close>

section \<open>Consent\<close>

text \<open>A session approval on a command that ran covers the commands of the same alias.\<close>

definition aliased :: "user_decision set \<Rightarrow> tool_request list \<Rightarrow> command_alias \<Rightarrow> bool" where
  "aliased hist used a \<longleftrightarrow> (\<exists>r\<in>set used. \<exists>command d. shell_command (tq_arguments r) = Some command \<and>
     alias_of command = Inr a \<and> d \<in> hist \<and> standing d \<and> ud_id d = tq_call_id r)"

text \<open>Why a request may have run, given what the user decided and the configuration.\<close>

definition consented :: "client_env \<Rightarrow> user_decision set \<Rightarrow> tool_request list \<Rightarrow> tool_request \<Rightarrow> bool" where
  "consented env hist used r \<longleftrightarrow>
     tq_requires_approval r = AllowCall \<or>
     (\<exists>d\<in>hist. ud_outcome d = Approved \<and> ud_id d = tq_call_id r) \<or>
     file_changing (tq_name r) \<and> (ce_auto_apply env \<or> (\<exists>d\<in>hist. standing d)) \<or>
     tq_name r = read_file_tool \<and> (\<exists>d\<in>hist. standing d) \<or>
     (\<exists>command a. shell_command (tq_arguments r) = Some command \<and> alias_of command = Inr a \<and> aliased hist used a)"

definition consent :: "client_env \<Rightarrow> user_decision set \<Rightarrow> client \<Rightarrow> bool" where
  "consent env hist c \<longleftrightarrow>
     (\<forall>r\<in>set (cl_ran c). consented env hist (cl_ran c) r) \<and>
     (cl_accept_edits c \<longrightarrow> ce_auto_apply env \<or> (\<exists>d\<in>hist. standing d)) \<and>
     (cl_accept_reads c \<longrightarrow> (\<exists>d\<in>hist. standing d)) \<and>
     (\<forall>a\<in>set (cl_approvals c). aliased hist (cl_ran c) a) \<and>
     (\<forall>(k, r)\<in>set (cl_requests c). k = tq_call_id r)"

lemma aliased_mono: "aliased hist used a \<Longrightarrow> hist \<subseteq> hist' \<Longrightarrow> set used \<subseteq> set used' \<Longrightarrow> aliased hist' used' a"
  unfolding aliased_def by blast

lemma consented_mono:
  "consented env hist used r \<Longrightarrow> hist \<subseteq> hist' \<Longrightarrow> set used \<subseteq> set used' \<Longrightarrow> consented env hist' used' r"
  using aliased_mono [of hist used _ hist' used'] unfolding consented_def by blast

lemma consent_mono: "consent env hist c \<Longrightarrow> hist \<subseteq> hist' \<Longrightarrow> consent env hist' c"
  using consented_mono [of env hist "cl_ran c" _ hist' "cl_ran c"] aliased_mono [of hist "cl_ran c" _ hist' "cl_ran c"]
  unfolding consent_def by blast

lemma consent_fields [simp]:
  "consent env hist (say m c) = consent env hist c"
  "consent env hist (c\<lparr>cl_results := a\<rparr>) = consent env hist c"
  "consent env hist (c\<lparr>cl_prompts := b\<rparr>) = consent env hist c"
  "consent env hist (c\<lparr>cl_seals := e\<rparr>) = consent env hist c"
  "consent env hist (c\<lparr>cl_session := f\<rparr>) = consent env hist c"
  "consent env hist (c\<lparr>cl_phase := p\<rparr>) = consent env hist c"
  "consent env hist (c\<lparr>cl_sent := q\<rparr>) = consent env hist c"
  "consent env hist (c\<lparr>cl_disk := d\<rparr>) = consent env hist c"
  by (simp_all add: consent_def say_def)

lemma consent_fewer:
  "consent env hist c \<Longrightarrow> set m \<subseteq> set (cl_requests c) \<Longrightarrow> consent env hist (c\<lparr>cl_requests := m\<rparr>)"
  by (auto simp: consent_def)

lemma consent_reset: "consent env hist c \<Longrightarrow> consent env hist (reset_session_state env c)"
  by (auto simp: consent_def reset_session_state_def)

lemma consent_clear: "consent env hist c \<Longrightarrow> consent env hist (clear_pending c)"
  by (auto simp: consent_def clear_pending_def)

lemma set_bt_remove: "set (bt_remove k m) \<subseteq> set m"
  by (auto simp: bt_remove_def)

lemma bt_insert_subset: "set (bt_insert k v m) \<subseteq> insert (k, v) (set m)"
  by (induction k v m rule: bt_insert.induct) auto

lemma run_request_fields [simp]:
  "cl_ran (snd (run_request env r dec c)) = cl_ran c @ [r]"
  "cl_accept_edits (snd (run_request env r dec c)) = cl_accept_edits c"
  "cl_accept_reads (snd (run_request env r dec c)) = cl_accept_reads c"
  "cl_approvals (snd (run_request env r dec c)) = cl_approvals c"
  "cl_requests (snd (run_request env r dec c)) = cl_requests c"
  "cl_phase (snd (run_request env r dec c)) = cl_phase c"
  "cl_session (snd (run_request env r dec c)) = cl_session c"
  by (simp_all add: run_request_def split: prod.split)

lemma run_request_id: "tl_call_id (fst (run_request env r dec c)) = tq_call_id r"
  by (auto simp: run_request_def execute_tool_def split: prod.split sum.split)

lemma consent_run:
  assumes "consent env hist c" "consented env hist (cl_ran c @ [r]) r"
  shows "consent env hist (snd (run_request env r dec c))"
  using assms consented_mono [of env hist "cl_ran c" _ hist "cl_ran c @ [r]"]
    aliased_mono [of hist "cl_ran c" _ hist "cl_ran c @ [r]"]
  by (auto simp: consent_def)

section \<open>Every step keeps consent\<close>

lemma decision_consented:
  assumes "consent env hist c" "tool_call_decision r c = Some dec"
  shows "consented env hist (cl_ran c) r"
proof (cases "tq_requires_approval r")
  case AskCall
  then show ?thesis using assms
    by (auto simp: tool_call_decision_def consent_def consented_def approved_def
        split: if_splits option.splits sum.splits bool.splits)
qed (simp add: consented_def)

lemma consent_requested: "consent env hist c \<Longrightarrow> consent env hist (handle_tool_call_requested env r c)"
proof (cases "tool_call_decision r c")
  case None
  assume c: "consent env hist c"
  have "consent env hist (c\<lparr>cl_requests := bt_insert (tq_call_id r) r (cl_requests c)\<rparr>)"
    using c bt_insert_subset [of "tq_call_id r" r "cl_requests c"] unfolding consent_def by auto
  then show ?thesis using c None by (simp add: handle_tool_call_requested_def)
next
  case (Some dec)
  assume c: "consent env hist c"
  have "consent env hist (snd (run_request env r dec c))"
    using decision_consented [OF c Some] by (intro consent_run [OF c]) (auto elim: consented_mono)
  then show ?thesis using c Some
    by (cases "run_request env r dec c") (simp add: handle_tool_call_requested_def)
qed

lemma consent_results: "consent env hist c \<Longrightarrow> consent env hist (snd (results_request env rs c))"
  by (auto simp: results_request_def Let_def split: sum.split)

lemma consent_posted: "consent env hist c \<Longrightarrow> consent env hist (snd (post_continuation env q c))"
  by (simp add: post_continuation_def Let_def split: sum.split)

lemma consent_built:
  "consent env hist (snd built) \<Longrightarrow> consent env hist (snd (open_built env built))"
  by (cases built) (auto simp: open_built_def build_failed_def consent_posted split: sum.split)

lemma bt_get_request:
  "consent env hist c \<Longrightarrow> bt_get (cl_requests c) i = Some r \<Longrightarrow> tq_call_id r = i"
  by (auto simp: consent_def dest!: map_of_SomeD)

text \<open>
  Between noting a session approval and running its request, the alias it adds is not yet
  covered by a request that ran.
\<close>

lemma note_standing_cases:
  assumes "note_standing r d c = (o', c')"
  shows "c'\<lparr>cl_approvals := cl_approvals c\<rparr> = c \<or> standing d" "cl_ran c' = cl_ran c"
    "cl_requests c' = cl_requests c" "cl_phase c' = cl_phase c" "cl_session c' = cl_session c"
    "cl_accept_edits c' \<longrightarrow> cl_accept_edits c \<or> standing d"
    "cl_accept_reads c' \<longrightarrow> cl_accept_reads c \<or> standing d"
    "a \<in> set (cl_approvals c') \<Longrightarrow> a \<in> set (cl_approvals c) \<or> standing d \<and> o' = Inr () \<and>
      (\<exists>command. shell_command (tq_arguments r) = Some command \<and> alias_of command = Inr a)"
  using assms
  by (auto simp: note_standing_def approve_def Let_def split: if_splits option.splits sum.splits alias_error.splits)

lemma consent_approved_run:
  assumes c: "consent env hist c" and d: "d \<in> hist" "ud_id d = tq_call_id r"
    and noted: "note_standing r d c = (Inr u, c')"
  shows "consent env hist (snd (run_approved_tool env r d c'))"
proof -
  note n = note_standing_cases [OF noted]
  have flags: "cl_accept_edits c' \<longrightarrow> ce_auto_apply env \<or> (\<exists>d\<in>hist. standing d)"
    "cl_accept_reads c' \<longrightarrow> (\<exists>d\<in>hist. standing d)" "\<forall>(k, r)\<in>set (cl_requests c'). k = tq_call_id r"
    using c d n(6,7) unfolding consent_def n(3) by blast+
  show ?thesis
  proof (cases "ud_outcome d")
    case Rejected
    then have "set (cl_approvals c') \<subseteq> set (cl_approvals c)" using n(8) by (auto simp: standing_def)
    then have "\<forall>a\<in>set (cl_approvals c'). aliased hist (cl_ran c) a" using c unfolding consent_def by blast
    then have "consent env hist c'" using c flags unfolding consent_def n(2) by blast
    then show ?thesis using Rejected by (simp add: run_approved_tool_def)
  next
    case Approved
    let ?used = "cl_ran c @ [r]"
    have new: "consented env hist ?used r" using Approved d unfolding consented_def by blast
    have old: "consented env hist ?used q" if "q \<in> set (cl_ran c)" for q
    proof (rule consented_mono)
      show "consented env hist (cl_ran c) q" using that c unfolding consent_def by blast
    qed auto
    have aliases: "aliased hist ?used a" if a: "a \<in> set (cl_approvals c')" for a
      using n(8) [OF a]
    proof
      assume "a \<in> set (cl_approvals c)"
      then have "aliased hist (cl_ran c) a" using c unfolding consent_def by blast
      then show ?thesis by (rule aliased_mono) auto
    next
      assume "standing d \<and> Inr u = Inr () \<and>
        (\<exists>command. shell_command (tq_arguments r) = Some command \<and> alias_of command = Inr a)"
      then show ?thesis using d unfolding aliased_def by auto
    qed
    have run: "snd (run_approved_tool env r d c') = snd (run_request env r (Some Approved) c')"
      using Approved by (simp add: run_approved_tool_def)
    have "\<forall>q\<in>set ?used. consented env hist ?used q" using new old by fastforce
    then show ?thesis using flags aliases unfolding run consent_def run_request_fields n(2) by blast
  qed
qed

lemma consent_noted:
  assumes c: "consent env hist c" and d: "d \<in> hist" and noted: "note_standing r d c = (Inl e, c')"
  shows "consent env hist c'"
proof -
  note n = note_standing_cases [OF noted]
  have "set (cl_approvals c') \<subseteq> set (cl_approvals c)" using n(8) by auto
  then have "\<forall>a\<in>set (cl_approvals c'). aliased hist (cl_ran c) a" using c unfolding consent_def by blast
  then show ?thesis using c d n(6,7) unfolding consent_def n(2,3) by blast
qed

lemma consent_answered:
  "consent env hist c \<Longrightarrow> set ds \<subseteq> hist \<Longrightarrow> consent env hist (snd (answer_decisions env ds c))"
proof (induction ds arbitrary: c)
  case (Cons d ds)
  have d: "d \<in> hist" and ds: "set ds \<subseteq> hist" using Cons.prems(2) by simp_all
  show ?case
  proof (cases "bt_get (cl_requests c) (ud_id d)")
    case (Some r)
    have id: "ud_id d = tq_call_id r" using bt_get_request [OF Cons.prems(1) Some] by simp
    let ?c = "c\<lparr>cl_requests := bt_remove (ud_id d) (cl_requests c),
      cl_prompts := filter (\<lambda>i. i \<noteq> ud_id d) (cl_prompts c)\<rparr>"
    have c: "consent env hist ?c" using Cons.prems(1) by (simp add: consent_fewer [OF _ set_bt_remove])
    obtain o' c1 where noted: "note_standing r d ?c = (o', c1)" by fastforce
    show ?thesis
    proof (cases o')
      case (Inl e)
      then show ?thesis using consent_noted [OF c d] noted Some by simp
    next
      case (Inr u)
      obtain res c2 where run: "run_approved_tool env r d c1 = (res, c2)" by fastforce
      have "consent env hist c2"
        using consent_approved_run [OF c d id] noted run unfolding Inr by (metis snd_conv)
      from Cons.IH [OF this ds] show ?thesis using Some noted run unfolding Inr
        by (simp split: prod.split sum.split) (metis snd_conv)
    qed
  qed (use Cons.prems in simp)
qed simp

fun cmd_decisions :: "cli_cmd \<Rightarrow> user_decision list" where
  "cmd_decisions (ContinueCmd (SubmitDecisions ds)) = ds"
| "cmd_decisions _ = []"

fun decisions_of :: "stimulus \<Rightarrow> user_decision list" where
  "decisions_of (CommandArrives cmd) = cmd_decisions cmd"
| "decisions_of _ = []"

lemma consent_user_continuation:
  assumes "consent env hist c" "set (cmd_decisions (ContinueCmd k)) \<subseteq> hist"
  shows "consent env hist (snd (open_user_continuation env k c))"
proof (cases "cl_session c = None")
  case False
  show ?thesis
  proof (cases k)
    case (SubmitResults rs)
    then show ?thesis using assms False
      by (auto simp: open_user_continuation_def split: client_phase.split intro!: consent_built consent_results)
  next
    case (SubmitDecisions ds)
    have answered: "consent env hist (snd (answer_decisions env ds c))"
      using assms SubmitDecisions by (intro consent_answered) auto
    have "consent env hist (snd (tool_approval_request env ds c))"
      using answered consent_results
      by (cases "answer_decisions env ds c") (auto simp: tool_approval_request_def split: sum.split)
    moreover have "consent env hist (snd (approval_decisions_request env ds c))"
      using assms by (simp add: approval_decisions_request_def split: sum.split)
    ultimately show ?thesis using assms False SubmitDecisions
      by (auto simp: open_user_continuation_def split: client_phase.split intro!: consent_built)
  next
    case (InjectMessages ts)
    then show ?thesis using assms False
      by (auto simp: open_user_continuation_def split: client_phase.split intro!: consent_built)
  next
    case BreakRun
    then show ?thesis using assms False
      by (auto simp: open_user_continuation_def split: client_phase.split intro!: consent_posted)
  qed
qed (use assms in \<open>simp add: open_user_continuation_def\<close>)

lemma consent_stop: "consent env hist c \<Longrightarrow> consent env hist (snd (stop_with e c))"
  by (simp add: stop_with_def)

lemma consent_stream_continue:
  "consent env hist c \<Longrightarrow> consent env hist (snd (stream_continue_request env q e c))"
  by (simp add: stream_continue_request_def Let_def consent_stop split: sum.split)

lemma consent_tool_results:
  assumes "consent env hist c"
  shows "consent env hist (snd (continue_with_tool_results env rs c))"
proof (cases "results_request env rs c")
  case (Pair r c')
  then have "consent env hist c'" using consent_results [OF assms, of rs] by simp
  then show ?thesis using assms Pair
    by (auto simp: continue_with_tool_results_def consent_stop consent_stream_continue split: sum.split)
qed

lemma consent_fold_requested:
  "consent env hist c \<Longrightarrow> consent env hist (foldl (\<lambda>c r. handle_tool_call_requested env r c) c rs)"
  by (induction rs arbitrary: c) (simp_all add: consent_requested)

lemma consent_awaiting_tool:
  assumes "consent env hist c"
  shows "consent env hist (snd (handle_awaiting_tool env rs c))"
proof -
  let ?c = "foldl (\<lambda>c r. handle_tool_call_requested env r c) c rs"
  have c: "consent env hist ?c" by (rule consent_fold_requested [OF assms])
  then have "consent env hist (?c\<lparr>cl_results := m, cl_prompts := [], cl_requests := []\<rparr>)" for m
    by (simp add: consent_def)
  then show ?thesis using c
    by (auto simp: handle_awaiting_tool_def Let_def intro!: consent_tool_results)
qed

lemma consent_sealed: "consent env hist c \<Longrightarrow> consent env hist (snd (continue_with_sealed env m c))"
  by (auto simp: continue_with_sealed_def consent_stop consent_stream_continue split: sum.split)

lemma consent_decrypted: "consent env hist c \<Longrightarrow> consent env hist (snd (continue_with_decrypted env p m c))"
  by (auto simp: continue_with_decrypted_def Let_def consent_stop consent_stream_continue split: sum.split)

lemma consent_turn_end: "consent env hist c \<Longrightarrow> consent env hist (snd (handle_turn_end env i outcome c))"
  by (cases outcome)
    (auto simp: Let_def consent_clear intro!: consent_sealed consent_awaiting_tool consent_decrypted)

lemma consent_event: "consent env hist c \<Longrightarrow> consent env hist (snd (on_event env event c))"
  by (cases event) (auto simp: consent_clear consent_requested intro!: consent_turn_end consent_sealed)

lemma consent_settle: "consent env hist c \<Longrightarrow> consent env hist (snd (settle_idle c))"
  by (simp add: settle_idle_def)

lemma consent_drained: "consent env hist c \<Longrightarrow> consent env hist (snd (after_drain c))"
  by (simp add: after_drain_def consent_settle)

lemma consent_says: "consent env hist c \<Longrightarrow> consent env hist (foldl (\<lambda>c m. say m c) c ms)"
  by (induction ms arbitrary: c) simp_all

lemma consent_session_or_new: "consent env hist c \<Longrightarrow> consent env hist (snd (session_or_new env p c))"
  by (simp add: session_or_new_def split: sum.split)

lemma consent_rendered: "consent env hist c \<Longrightarrow> consent env hist (snd (render_messages env i ms c))"
  by (induction env i ms c rule: render_messages.induct) (auto split: prod.split sum.split)

lemma consent_resume:
  assumes "consent env hist c"
  shows "consent env hist (resume_session env i c)"
proof -
  define c1 where "c1 = (case interrupt_active_run env c of
    Inl e \<Rightarrow> say (ErrorMsg (''Failed to terminate active run: '' @ e)) c
  | Inr _ \<Rightarrow> reset_session_state env c)"
  have c1: "consent env hist c1"
    using assms consent_reset unfolding c1_def by (simp split: sum.split)
  have "consent env hist (c2\<lparr>cl_session := x, cl_approvals := [], cl_phase := p\<rparr>)" if "consent env hist c2" for c2 x p
    using that by (simp add: consent_def)
  then show ?thesis using c1 consent_rendered [OF c1, of i]
    unfolding resume_session_def c1_def [symmetric] Let_def
    by (auto split: sum.split prod.split) (metis snd_conv)
qed

lemma consent_cleared: "consent env hist c \<Longrightarrow> consent env hist (clear_session env c)"
  by (simp add: clear_session_def Let_def consent_reset split: sum.split)

lemma consent_cmd:
  assumes "consent env hist c" "set (cmd_decisions cmd) \<subseteq> hist"
  shows "consent env hist (snd (handle_cmd env cmd c))"
proof (cases cmd)
  case (ContinueCmd k)
  then show ?thesis using consent_user_continuation [of env hist c k] assms
    by (auto simp: consent_settle split: prod.split user_continuation.split)
next
  case (ExecuteCmd x)
  then show ?thesis using consent_session_or_new [OF assms(1), of "xa_prompt x"] assms(1)
    by (auto split: prod.split sum.split)
next
  case (PreviewCmd x)
  then show ?thesis using consent_session_or_new [OF assms(1), of "xa_prompt x"]
    by (auto split: prod.split sum.split intro!: consent_says)
qed (use assms(1) in \<open>simp_all add: consent_resume consent_cleared consent_says\<close>)

lemma consent_step:
  assumes "consent env hist (snd w)" "set (decisions_of s) \<subseteq> hist"
  shows "consent env hist (snd (worker_step env s w))"
proof -
  obtain m c where w: "w = (m, c)" by fastforce
  have c: "consent env hist c" using assms(1) w by simp
  show ?thesis
  proof (cases s)
    case (CommandArrives cmd)
    have opened: "consent env hist c'" if "cmd = ContinueCmd k" "open_user_continuation env k c = (u, c')" for k u c'
      using consent_user_continuation [OF c, of k] assms(2) CommandArrives that by simp
    show ?thesis
    proof (cases m)
      case Waiting
      then show ?thesis using consent_cmd [OF c, of cmd] assms(2) CommandArrives w by simp
    next
      case Opening
      then show ?thesis using CommandArrives w c opened
        by (cases cmd) (auto split: prod.split user_continuation.split)
    next
      case Draining
      then show ?thesis using CommandArrives w c opened
        by (cases cmd) (auto split: prod.split user_continuation.split intro!: consent_drained)
    qed
  next
    case (RequestAnswered r)
    then show ?thesis using c w by (cases m; cases r) (auto simp: consent_settle)
  next
    case (EventArrives e)
    show ?thesis
    proof (cases m)
      case Draining
      show ?thesis
      proof (cases e)
        case (Inr event)
        then show ?thesis using consent_event [OF c, of event] EventArrives Draining w
          by (auto simp: consent_drained split: prod.split stream_control.split)
      qed (use EventArrives Draining c w in \<open>simp add: consent_drained\<close>)
    qed (use EventArrives c w in simp_all)
  next
    case StreamEnds
    then show ?thesis using c w by (cases m) (auto simp: consent_drained)
  qed
qed

lemma consent_run_worker:
  assumes "consent env hist (snd w)" "set (concat (map decisions_of ss)) \<subseteq> hist"
  shows "consent env hist (snd (worker_run env ss w))"
  using assms
proof (induction ss arbitrary: w)
  case (Cons s ss)
  then have "consent env hist (snd (worker_step env s w))" by (intro consent_step) auto
  from Cons.IH [OF this] Cons.prems show ?case by (simp add: worker_run_def)
qed (simp add: worker_run_def)

lemma consent_new: "consent env hist (new_client env d)"
  by (simp add: consent_def new_client_def)

text \<open>Whatever ran, ran by consent.\<close>

lemma ran_by_consent:
  assumes "r \<in> set (cl_ran (snd (worker_run env ss (Waiting, new_client env d))))"
  shows "consented env (set (concat (map decisions_of ss)))
    (cl_ran (snd (worker_run env ss (Waiting, new_client env d)))) r"
proof -
  have "consent env (set (concat (map decisions_of ss))) (snd (worker_run env ss (Waiting, new_client env d)))"
    by (rule consent_run_worker) (simp_all add: consent_new)
  then show ?thesis using assms by (auto simp: consent_def)
qed

lemma nothing_without_consent:
  assumes "\<not> ce_auto_apply env" "\<forall>d\<in>set (concat (map decisions_of ss)). ud_outcome d = Rejected"
    and "r \<in> set (cl_ran (snd (worker_run env ss (Waiting, new_client env d))))"
  shows "tq_requires_approval r = AllowCall"
proof -
  have none: "\<not> (ud_outcome d = Approved)" "\<not> standing d" if "d \<in> set (concat (map decisions_of ss))" for d
    using assms(2) that by (auto simp: standing_def)
  show ?thesis using ran_by_consent [OF assms(3)] assms(1) none
    unfolding consented_def aliased_def by blast
qed

end
