(* ===== verification/Cli_Rounds.thy ===== *)
theory Cli_Rounds
  imports Cli_Safety
begin

text \<open>
  The phase of the worker against what it waits for, what its continuations carry, and how the
  orchestrator of \<open>Run_Machine\<close> takes them.
\<close>

section \<open>Phases\<close>

text \<open>
  An active phase has a session; a worker that waits for commands is never streaming; one that
  waits for the router to accept a request is; one that drains a stream streams or has asked
  the user about a tool of it.
\<close>

fun coherent :: "worker \<Rightarrow> bool" where
  "coherent (mode, c) \<longleftrightarrow>
     (cl_phase c \<noteq> ClientIdle \<longrightarrow> cl_session c \<noteq> None) \<and>
     (case mode of
        Waiting \<Rightarrow> cl_phase c \<noteq> StreamingPhase
      | Opening \<Rightarrow> cl_phase c = StreamingPhase
      | Draining \<Rightarrow> cl_phase c = StreamingPhase \<or> cl_phase c = AwaitingToolPhase)"

lemma say_fields [simp]:
  "cl_phase (say m c) = cl_phase c" "cl_session (say m c) = cl_session c" "cl_seals (say m c) = cl_seals c"
  "cl_results (say m c) = cl_results c" "cl_sent (say m c) = cl_sent c" "cl_requests (say m c) = cl_requests c"
  "cl_accept_edits (say m c) = cl_accept_edits c" "cl_accept_reads (say m c) = cl_accept_reads c"
  "cl_approvals (say m c) = cl_approvals c"
  by (simp_all add: say_def)

lemma run_request_pair:
  "run_request env r dec c = (res, c') \<Longrightarrow> cl_session c' = cl_session c \<and> cl_phase c' = cl_phase c"
  using run_request_fields(6,7) [of env r dec c] by simp

lemma requested_fields:
  "cl_session (handle_tool_call_requested env r c) = cl_session c"
  "cl_phase (handle_tool_call_requested env r c) = cl_phase c \<or>
   cl_phase (handle_tool_call_requested env r c) = AwaitingToolPhase"
  by (auto simp: handle_tool_call_requested_def dest: run_request_pair split: option.split prod.split)

lemma results_fields [simp]:
  "cl_session (snd (results_request env rs c)) = cl_session c"
  "cl_phase (snd (results_request env rs c)) = cl_phase c"
  by (auto simp: results_request_def Let_def split: sum.split)

lemma approved_tool_fields [simp]:
  "cl_session (snd (run_approved_tool env r d c)) = cl_session c"
  "cl_phase (snd (run_approved_tool env r d c)) = cl_phase c"
  by (simp_all add: run_approved_tool_def)

lemma answered_fields [simp]:
  "cl_session (snd (answer_decisions env ds c)) = cl_session c"
  "cl_phase (snd (answer_decisions env ds c)) = cl_phase c"
proof -
  have "cl_session (snd (answer_decisions env ds c)) = cl_session c \<and>
    cl_phase (snd (answer_decisions env ds c)) = cl_phase c"
  proof (induction ds arbitrary: c)
    case (Cons d ds)
    show ?case
    proof (cases "bt_get (cl_requests c) (ud_id d)")
      case (Some r)
      obtain o' c1 where noted: "note_standing r d (c\<lparr>cl_requests := bt_remove (ud_id d) (cl_requests c),
        cl_prompts := filter (\<lambda>i. i \<noteq> ud_id d) (cl_prompts c)\<rparr>) = (o', c1)" by fastforce
      obtain res c2 where run: "run_approved_tool env r d c1 = (res, c2)" by fastforce
      have "cl_session c2 = cl_session c \<and> cl_phase c2 = cl_phase c"
        using note_standing_cases(4,5) [OF noted] approved_tool_fields [of env r d c1] run by simp
      then show ?thesis using Cons.IH [of c2] note_standing_cases(4,5) [OF noted] Some noted run
        by (cases o') (auto split: prod.split sum.split)
    qed simp
  qed simp
  then show "cl_session (snd (answer_decisions env ds c)) = cl_session c"
    "cl_phase (snd (answer_decisions env ds c)) = cl_phase c" by simp_all
qed

lemma approval_request_fields [simp]:
  "cl_session (snd (tool_approval_request env ds c)) = cl_session c"
  "cl_phase (snd (tool_approval_request env ds c)) = cl_phase c"
proof -
  obtain r c' where a: "answer_decisions env ds c = (r, c')" by fastforce
  have "cl_session c' = cl_session c" "cl_phase c' = cl_phase c" using answered_fields [of env ds c] a by simp_all
  then show "cl_session (snd (tool_approval_request env ds c)) = cl_session c"
    "cl_phase (snd (tool_approval_request env ds c)) = cl_phase c"
    using a by (cases r; simp add: tool_approval_request_def)+
qed

lemma standalone_fields [simp]:
  "cl_session (snd (approval_decisions_request env ds c)) = cl_session c"
  "cl_phase (snd (approval_decisions_request env ds c)) = cl_phase c"
  by (simp_all add: approval_decisions_request_def split: sum.split)

lemma posted_fields:
  "cl_session (snd (post_continuation env q c)) = cl_session c"
  "fst (post_continuation env q c) = Replace \<and> cl_phase (snd (post_continuation env q c)) = StreamingPhase \<or>
   fst (post_continuation env q c) = Handled \<and> cl_phase (snd (post_continuation env q c)) = ClientIdle"
  by (simp_all add: post_continuation_def Let_def split: sum.split)

text \<open>What opening a user's continuation can lead to.\<close>

lemma opened_fields:
  assumes "cl_session (snd built) = cl_session c" "cl_phase (snd built) = cl_phase c"
    and "open_built env built = (u, c')"
  shows "cl_session c' = cl_session c"
    "u = Replace \<and> cl_phase c' = StreamingPhase \<or> u = Handled \<and> (cl_phase c' = ClientIdle \<or> cl_phase c' = cl_phase c)"
proof -
  obtain r c0 where b: "built = (r, c0)" by fastforce
  show "cl_session c' = cl_session c"
    using assms posted_fields(1) [of env _ c0] b
    by (auto simp: open_built_def build_failed_def split: sum.splits) (metis snd_conv)
  show "u = Replace \<and> cl_phase c' = StreamingPhase \<or> u = Handled \<and> (cl_phase c' = ClientIdle \<or> cl_phase c' = cl_phase c)"
    using assms posted_fields(2) [of env _ c0] b
    by (auto simp: open_built_def build_failed_def split: sum.splits) (metis fst_conv snd_conv)+
qed

lemma user_continuation_fields:
  assumes "open_user_continuation env k c = (u, c')"
  shows "cl_session c' = cl_session c"
    "u = Ignored \<and> c' = c \<or> u = Replace \<and> cl_phase c' = StreamingPhase \<and> cl_session c \<noteq> None \<or>
     u = Handled \<and> (cl_phase c' = ClientIdle \<or> cl_phase c' = cl_phase c)"
proof -
  have "cl_session c' = cl_session c \<and> (u = Ignored \<and> c' = c \<or>
      u = Replace \<and> cl_phase c' = StreamingPhase \<and> cl_session c \<noteq> None \<or>
      u = Handled \<and> (cl_phase c' = ClientIdle \<or> cl_phase c' = cl_phase c))"
  proof (cases "cl_session c = None")
    case False
    have built: "cl_session c' = cl_session c \<and> (u = Replace \<and> cl_phase c' = StreamingPhase \<or>
        u = Handled \<and> (cl_phase c' = ClientIdle \<or> cl_phase c' = cl_phase c))"
      if "open_built env b = (u, c')" "cl_session (snd b) = cl_session c" "cl_phase (snd b) = cl_phase c" for b
      using opened_fields [OF that(2,3,1)] by blast
    show ?thesis
    proof (cases k)
      case (SubmitResults rs)
      then show ?thesis using assms False built
        by (auto simp: open_user_continuation_def split: client_phase.splits)
    next
      case (SubmitDecisions ds)
      then show ?thesis using assms False built
        by (auto simp: open_user_continuation_def split: client_phase.splits)
    next
      case (InjectMessages ts)
      then show ?thesis using assms False built
        by (auto simp: open_user_continuation_def split: client_phase.splits)
    next
      case BreakRun
      then show ?thesis using assms False posted_fields [of env Break "say InterruptedMsg c"]
        by (auto simp: open_user_continuation_def split: client_phase.splits if_splits)
    qed
  qed (use assms in \<open>simp add: open_user_continuation_def\<close>)
  then show "cl_session c' = cl_session c"
    "u = Ignored \<and> c' = c \<or> u = Replace \<and> cl_phase c' = StreamingPhase \<and> cl_session c \<noteq> None \<or>
     u = Handled \<and> (cl_phase c' = ClientIdle \<or> cl_phase c' = cl_phase c)" by blast+
qed

text \<open>A handler of the stream keeps the session, and goes on only while it streams or asks.\<close>

definition drains :: "client \<Rightarrow> stream_control \<times> client \<Rightarrow> bool" where
  "drains c r \<longleftrightarrow> cl_session (snd r) = cl_session c \<and>
     (fst r \<noteq> StopDraining \<longrightarrow> cl_phase (snd r) = StreamingPhase \<or> cl_phase (snd r) = AwaitingToolPhase) \<and>
     (cl_phase (snd r) \<noteq> ClientIdle \<longrightarrow> cl_session c \<noteq> None)"

lemma drains_stop: "cl_session c' = cl_session c \<Longrightarrow> drains c (stop_with e c')"
  by (simp add: drains_def stop_with_def)

lemma drains_continue:
  "cl_session c' = cl_session c \<Longrightarrow> cl_session c \<noteq> None \<Longrightarrow> drains c (stream_continue_request env q e c')"
  by (simp add: stream_continue_request_def Let_def drains_def stop_with_def split: sum.split)

lemma drains_results:
  assumes "cl_session c' = cl_session c"
  shows "drains c (continue_with_tool_results env rs c')"
proof (cases "cl_session c")
  case (Some s)
  obtain r c1 where r: "results_request env rs c' = (r, c1)" by fastforce
  then have "cl_session c1 = cl_session c" using results_fields(1) [of env rs c'] assms by simp
  then show ?thesis using Some assms r
    by (cases r) (auto simp: continue_with_tool_results_def intro!: drains_stop drains_continue)
qed (use assms in \<open>auto simp: continue_with_tool_results_def intro!: drains_stop\<close>)

lemma fold_requested_session:
  "cl_session (foldl (\<lambda>c r. handle_tool_call_requested env r c) c rs) = cl_session c"
  by (induction rs arbitrary: c) (simp_all add: requested_fields)

lemma drains_awaiting_tool:
  assumes "cl_session c' = cl_session c" "cl_session c \<noteq> None"
  shows "drains c (handle_awaiting_tool env rs c')"
proof -
  let ?c = "foldl (\<lambda>c r. handle_tool_call_requested env r c) c' rs"
  have s: "cl_session ?c = cl_session c" using assms(1) by (simp add: fold_requested_session)
  have "drains c (StopDraining, ?c\<lparr>cl_phase := AwaitingToolPhase\<rparr>)" using s assms(2) by (simp add: drains_def)
  then show ?thesis using s by (auto simp: handle_awaiting_tool_def Let_def intro!: drains_results)
qed

lemma drains_sealed:
  assumes "cl_session c' = cl_session c"
  shows "drains c (continue_with_sealed env m c')"
  using assms by (auto simp: continue_with_sealed_def intro!: drains_stop drains_continue split: sum.split)

lemma drains_decrypted:
  assumes "cl_session c' = cl_session c"
  shows "drains c (continue_with_decrypted env p m c')"
  using assms
  by (auto simp: continue_with_decrypted_def Let_def intro!: drains_stop drains_continue split: sum.split)

lemma drains_turn_end:
  assumes "cl_session c \<noteq> None"
  shows "drains c (handle_turn_end env i outcome c)"
proof (cases outcome)
  case (CompletedOutcome t)
  then show ?thesis using assms
    by (auto simp: Let_def clear_pending_def drains_def [of c "(StopDraining, _)"] intro!: drains_sealed)
next
  case (ToolOutcome rs m)
  then show ?thesis using assms by (auto intro!: drains_awaiting_tool)
next
  case (DecryptOutcome p m)
  then show ?thesis using assms by (auto intro!: drains_decrypted)
qed (use assms in \<open>simp_all add: drains_def clear_pending_def\<close>)

lemma drains_event:
  assumes "cl_session c \<noteq> None" "cl_phase c = StreamingPhase \<or> cl_phase c = AwaitingToolPhase"
  shows "drains c (on_event env event c)"
proof (cases event)
  case (ToolRequestedEvent r)
  then show ?thesis using assms requested_fields [of env r c] by (auto simp: drains_def)
next
  case (TurnEndEvent i outcome)
  then show ?thesis using assms by (simp add: drains_turn_end)
next
  case (EncryptEndEvent m)
  then show ?thesis by (simp add: drains_sealed)
qed (use assms in \<open>auto simp: drains_def clear_pending_def\<close>)

lemma coherent_settle: "(cl_phase c \<noteq> ClientIdle \<longrightarrow> cl_session c \<noteq> None) \<Longrightarrow> cl_phase c \<noteq> StreamingPhase \<Longrightarrow>
    coherent (settle_idle c)"
  by (simp add: settle_idle_def)

lemma coherent_drained: "(cl_phase c \<noteq> ClientIdle \<longrightarrow> cl_session c \<noteq> None) \<Longrightarrow> coherent (after_drain c)"
  by (auto simp: after_drain_def intro!: coherent_settle)

lemma says_fields [simp]:
  "cl_phase (foldl (\<lambda>c m. say m c) c ms) = cl_phase c" "cl_session (foldl (\<lambda>c m. say m c) c ms) = cl_session c"
  by (induction ms arbitrary: c) simp_all

lemma rendered_fields:
  "cl_phase (snd (render_messages env i ms c)) = cl_phase c \<and> cl_session (snd (render_messages env i ms c)) = cl_session c"
  by (induction env i ms c rule: render_messages.induct) (auto split: prod.split sum.split)

lemma session_or_new_fields:
  assumes "session_or_new env p c = (r, c')"
  shows "cl_phase c' = cl_phase c" "r = Inr () \<Longrightarrow> cl_session c' \<noteq> None"
    "cl_session c \<noteq> None \<Longrightarrow> cl_session c' = cl_session c"
  using assms by (auto simp: session_or_new_def split: if_splits sum.splits)

lemma coherent_resume:
  assumes "coherent (Waiting, c)"
  shows "coherent (Waiting, resume_session env i c)"
proof -
  define c1 where "c1 = (case interrupt_active_run env c of
    Inl e \<Rightarrow> say (ErrorMsg (''Failed to terminate active run: '' @ e)) c
  | Inr _ \<Rightarrow> reset_session_state env c)"
  have "coherent (Waiting, c1)"
    using assms unfolding c1_def by (simp add: reset_session_state_def split: sum.split)
  then show ?thesis
    unfolding resume_session_def c1_def [symmetric] Let_def
    by (auto split: sum.split prod.split)
qed

lemma coherent_cmd:
  assumes w: "coherent (Waiting, c)"
  shows "coherent (handle_cmd env cmd c)"
proof (cases cmd)
  case (ExecuteCmd x)
  obtain r c' where s: "session_or_new env (xa_prompt x) c = (r, c')" by fastforce
  then show ?thesis using ExecuteCmd w session_or_new_fields [OF s] by (cases r) auto
next
  case (PreviewCmd x)
  obtain r c' where s: "session_or_new env (xa_prompt x) c = (r, c')" by fastforce
  then show ?thesis using PreviewCmd w session_or_new_fields [OF s] by (cases r) auto
next
  case (ContinueCmd k)
  obtain u c' where o': "open_user_continuation env k c = (u, c')" by fastforce
  then show ?thesis using ContinueCmd w user_continuation_fields [OF o']
    by (cases u) (auto intro!: coherent_settle)
next
  case (ResumeSessionCmd i)
  then show ?thesis using coherent_resume [OF w] by simp
qed (use w in \<open>auto simp: clear_session_def reset_session_state_def Let_def\<close>)

lemma coherent_step:
  assumes "coherent w"
  shows "coherent (worker_step env s w)"
proof -
  obtain m c where w: "w = (m, c)" by fastforce
  show ?thesis
  proof (cases s)
    case (CommandArrives cmd)
    show ?thesis
    proof (cases m)
      case Waiting
      then show ?thesis using coherent_cmd assms w CommandArrives by simp
    next
      case Opening
      show ?thesis
      proof (cases cmd)
        case (ContinueCmd k)
        obtain u c' where o': "open_user_continuation env k c = (u, c')" by fastforce
        then show ?thesis using user_continuation_fields [OF o'] assms w Opening CommandArrives ContinueCmd
          by (cases u) auto
      qed (use assms w Opening CommandArrives in simp_all)
    next
      case Draining
      show ?thesis
      proof (cases cmd)
        case (ContinueCmd k)
        obtain u c' where o': "open_user_continuation env k c = (u, c')" by fastforce
        then show ?thesis using user_continuation_fields [OF o'] assms w Draining CommandArrives ContinueCmd
          by (cases u) (auto intro!: coherent_drained)
      qed (use assms w Draining CommandArrives in simp_all)
    qed
  next
    case (RequestAnswered r)
    then show ?thesis using assms w by (cases m; cases r) (auto intro!: coherent_settle)
  next
    case (EventArrives e)
    show ?thesis
    proof (cases m)
      case Draining
      show ?thesis
      proof (cases e)
        case (Inl x)
        then show ?thesis using EventArrives Draining w by (auto intro!: coherent_drained)
      next
        case (Inr event)
        obtain k c' where r: "on_event env event c = (k, c')" by fastforce
        have "drains c (k, c')" using drains_event [of c env event] r assms w Draining by auto
        then show ?thesis using EventArrives Draining Inr w r
          by (cases k) (auto simp: drains_def intro!: coherent_drained)
      qed
    qed (use assms w EventArrives in simp_all)
  next
    case StreamEnds
    then show ?thesis using assms w by (cases m) (auto intro!: coherent_drained)
  qed
qed

lemma coherent_run: "coherent w \<Longrightarrow> coherent (worker_run env ss w)"
  by (induction ss arbitrary: w) (simp_all add: worker_run_def coherent_step)

lemma coherent_new: "coherent (Waiting, new_client env d)"
  by (simp add: new_client_def)

section \<open>What a continuation carries\<close>

lemma seal_all_keys: "seal_all env k m = Inr ps \<Longrightarrow> map fst ps = map fst m"
  by (induction env k m arbitrary: ps rule: seal_all.induct) (auto split: sum.splits)

lemma seal_content_keys: "seal_content env k m = Inr ps \<Longrightarrow> map fst ps = map fst m"
  by (auto simp: seal_content_def seal_all_keys split: if_splits option.splits)

lemma set_ref_insert_keys: "fst ` set (ref_insert k v m) = insert k (fst ` set m)"
  by (induction k v m rule: ref_insert.induct) auto

lemma fold_ref_insert_keys:
  "fst ` set (foldl (\<lambda>m r. ref_insert (f r) (g r) m) m rs) = fst ` set m \<union> f ` set rs"
  by (induction rs arbitrary: m) (auto simp: set_ref_insert_keys)

text \<open>
  In an encrypted session every result and every content the router asked to seal is sealed.
\<close>

lemma results_request_sealed:
  assumes "results_request env rs c = (Inr q, c')"
  shows "\<exists>encrypted. q = ToolResults rs encrypted \<and> c' = c\<lparr>cl_seals := []\<rparr> \<and>
    fst ` set encrypted = fst ` set (cl_seals c) \<union>
      (if key_id c = None then {} else ToolCallRef ` tl_call_id ` set rs)"
proof -
  let ?m = "if key_id c = None then cl_seals c
    else foldl (\<lambda>m r. ref_insert (ToolCallRef (tl_call_id r)) (tl_content r) m) (cl_seals c) rs"
  obtain encrypted where e: "seal_content env (key_id c) ?m = Inr encrypted"
    "q = ToolResults rs encrypted" "c' = c\<lparr>cl_seals := []\<rparr>"
    using assms by (auto simp: results_request_def Let_def split: sum.splits)
  have "set (map fst encrypted) = set (map fst ?m)" by (simp only: seal_content_keys [OF e(1)])
  then show ?thesis using e(2,3)
    by (intro exI [of _ encrypted]) (auto simp: fold_ref_insert_keys)
qed

lemma seal_all_texts:
  "seal_all env k m = Inr ps \<Longrightarrow> map_of m ref = Some t \<Longrightarrow>
   \<exists>p. map_of ps ref = Some p \<and> ce_encrypt env k t = Inr p"
  by (induction env k m arbitrary: ps rule: seal_all.induct) (auto split: sum.splits if_splits)

lemma map_of_fold_ref_insert:
  "map_of (foldl (\<lambda>m r. ref_insert (f r) (g r) m) m rs) = foldl (\<lambda>m r. m(f r \<mapsto> g r)) (map_of m) rs"
  by (induction rs arbitrary: m) (simp_all add: map_of_ref_insert)

lemma fold_update_other: "k \<notin> f ` set rs \<Longrightarrow> foldl (\<lambda>m r. m(f r \<mapsto> g r)) m rs k = m k"
  by (induction rs arbitrary: m) auto

lemma fold_update_last:
  assumes "rs = before @ r # behind" "f r \<notin> f ` set behind"
  shows "foldl (\<lambda>m r. m(f r \<mapsto> g r)) m rs (f r) = Some (g r)"
  unfolding assms(1) using assms(2) by (simp add: fold_update_other)

lemma results_request_texts:
  assumes "results_request env rs c = (Inr (ToolResults rs encrypted), c')" "key_id c = Some key"
  shows "rs = before @ r # behind \<Longrightarrow> tl_call_id r \<notin> tl_call_id ` set behind \<Longrightarrow>
      \<exists>p. map_of encrypted (ToolCallRef (tl_call_id r)) = Some p \<and> ce_encrypt env key (tl_content r) = Inr p"
    and "ref \<notin> ToolCallRef ` tl_call_id ` set rs \<Longrightarrow> map_of (cl_seals c) ref = Some t \<Longrightarrow>
      \<exists>p. map_of encrypted ref = Some p \<and> ce_encrypt env key t = Inr p"
proof -
  let ?f = "\<lambda>r. ToolCallRef (tl_call_id r)"
  let ?m = "foldl (\<lambda>m r. ref_insert (?f r) (tl_content r) m) (cl_seals c) rs"
  have "seal_content env (Some key) ?m = Inr encrypted"
    using assms by (auto simp: results_request_def Let_def split: sum.splits)
  then have sealed: "\<exists>p. map_of encrypted ref = Some p \<and> ce_encrypt env key t = Inr p" if "map_of ?m ref = Some t" for ref t
    using that seal_all_texts by (auto simp: seal_content_def split: if_splits)
  show "\<exists>p. map_of encrypted (ToolCallRef (tl_call_id r)) = Some p \<and> ce_encrypt env key (tl_content r) = Inr p"
    if "rs = before @ r # behind" "tl_call_id r \<notin> tl_call_id ` set behind"
  proof (rule sealed)
    show "map_of ?m (?f r) = Some (tl_content r)"
      unfolding map_of_fold_ref_insert using that(2)
      by (intro fold_update_last [where f = ?f, OF that(1)]) auto
  qed
  show "\<exists>p. map_of encrypted ref = Some p \<and> ce_encrypt env key t = Inr p"
    if "ref \<notin> ToolCallRef ` tl_call_id ` set rs" "map_of (cl_seals c) ref = Some t"
  proof (rule sealed)
    have "ref \<notin> ?f ` set rs" using that(1) by auto
    then show "map_of ?m ref = Some t"
      unfolding map_of_fold_ref_insert using that(2) by (subst fold_update_other) auto
  qed
qed

lemma approved_tool_id: "tl_call_id (fst (run_approved_tool env r d c)) = tq_call_id r"
  by (simp add: run_approved_tool_def run_request_id)

text \<open>The results sent are those of the decisions, in their order.\<close>

lemma answered_ids:
  assumes "answer_decisions env ds c = (Inr rs, c')" "\<forall>(k, r)\<in>set (cl_requests c). k = tq_call_id r"
  shows "map tl_call_id rs = map ud_id ds"
  using assms
proof (induction ds arbitrary: c rs)
  case (Cons d ds)
  obtain r where r: "bt_get (cl_requests c) (ud_id d) = Some r" using Cons.prems(1) by (auto split: option.splits)
  have id: "tq_call_id r = ud_id d" using Cons.prems(2) map_of_SomeD [OF r] by auto
  let ?c = "c\<lparr>cl_requests := bt_remove (ud_id d) (cl_requests c),
    cl_prompts := filter (\<lambda>i. i \<noteq> ud_id d) (cl_prompts c)\<rparr>"
  obtain u c1 where noted: "note_standing r d ?c = (Inr u, c1)"
    using Cons.prems(1) r by (cases "note_standing r d ?c") (auto split: sum.splits)
  obtain res c2 where run: "run_approved_tool env r d c1 = (res, c2)" by fastforce
  obtain rest where rest: "answer_decisions env ds c2 = (Inr rest, c')" "rs = res # rest"
    using Cons.prems(1) r noted run by (auto split: prod.splits sum.splits)
  have "cl_requests c2 = cl_requests c1"
    using run unfolding run_approved_tool_def by (metis run_request_fields(5) snd_conv)
  also have "\<dots> = bt_remove (ud_id d) (cl_requests c)" using note_standing_cases(3) [OF noted] by simp
  finally have "\<forall>(k, r)\<in>set (cl_requests c2). k = tq_call_id r"
    using Cons.prems(2) set_bt_remove [of "ud_id d" "cl_requests c"] by auto
  from Cons.IH [OF rest(1) this] show ?case
    using approved_tool_id [of env r d c1] run rest(2) id by simp
qed simp

text \<open>
  The terminal submits the decision of one prompt at a time, and the orchestrator takes tool
  results only when they answer every call it waits for: with more than one outstanding call,
  the continuation a single approval produces is refused.
\<close>

lemma single_approval_refused:
  assumes keys: "\<forall>(k, r)\<in>set (cl_requests c). k = tq_call_id r"
    and request: "tool_approval_request env [d] c = (Inr q, c')"
    and state: "rs_phase (cc_state cx) = AwaitingTool calls resume pending"
    and calls: "set (map tw_call_id calls) \<noteq> {ud_id d}"
  shows "\<exists>results encrypted. q = ToolResults results encrypted \<and>
    resume_tool_results rt cx results encrypted = throw UnexpectedContinuation"
proof -
  obtain rs c1 where a: "answer_decisions env [d] c = (Inr rs, c1)" "results_request env rs c1 = (Inr q, c')"
    using request by (auto simp: tool_approval_request_def split: prod.splits sum.splits)
  obtain encrypted where q: "q = ToolResults rs encrypted" using results_request_sealed [OF a(2)] by blast
  have "map tl_call_id rs = [ud_id d]" using answered_ids [OF a(1) keys] by simp
  then have "\<not> answers_calls calls rs" using calls by (auto simp: answers_calls_def)
  then show ?thesis using q state by (auto simp: resume_tool_results_def)
qed

section \<open>Leaving a session\<close>

lemma cleared_forgets:
  "cl_accept_edits (clear_session env c) = ce_auto_apply env" "\<not> cl_accept_reads (clear_session env c)"
  "cl_approvals (clear_session env c) = []" "cl_session (clear_session env c) = None"
  "cl_phase (clear_session env c) = ClientIdle"
  by (simp_all add: clear_session_def Let_def reset_session_state_def)

lemma rendered_flags:
  "cl_accept_reads (snd (render_messages env i ms c)) = cl_accept_reads c \<and>
   cl_accept_edits (snd (render_messages env i ms c)) = cl_accept_edits c"
  by (induction env i ms c rule: render_messages.induct) (auto split: prod.split sum.split)

text \<open>
  Resuming another session forgets what was approved, unless the run of the session left could
  not be interrupted: then reads and edits stay approved in the session resumed.
\<close>

lemma resumed_flags:
  "cl_accept_reads (resume_session env i c) \<longleftrightarrow> (\<exists>e. interrupt_active_run env c = Inl e) \<and> cl_accept_reads c"
  "cl_accept_edits (resume_session env i c) \<longleftrightarrow>
     (if \<exists>e. interrupt_active_run env c = Inl e then cl_accept_edits c else ce_auto_apply env)"
proof -
  define c1 where "c1 = (case interrupt_active_run env c of
    Inl e \<Rightarrow> say (ErrorMsg (''Failed to terminate active run: '' @ e)) c
  | Inr _ \<Rightarrow> reset_session_state env c)"
  have "cl_accept_reads (resume_session env i c) = cl_accept_reads c1"
    "cl_accept_edits (resume_session env i c) = cl_accept_edits c1"
    using rendered_flags [of env i _ c1] unfolding resume_session_def c1_def [symmetric] Let_def
    by (auto split: sum.split prod.split) (metis snd_conv)+
  then show "cl_accept_reads (resume_session env i c) \<longleftrightarrow> (\<exists>e. interrupt_active_run env c = Inl e) \<and> cl_accept_reads c"
    "cl_accept_edits (resume_session env i c) \<longleftrightarrow>
       (if \<exists>e. interrupt_active_run env c = Inl e then cl_accept_edits c else ce_auto_apply env)"
    unfolding c1_def by (auto simp: reset_session_state_def split: sum.split)
qed

end
