(* ===== verification/App_Loop.thy ===== *)
theory App_Loop
  imports Tui_Safety Cli_Rounds
begin

text \<open>
  The interactive application (\<^verbatim>\<open>smista-cli/src/app.rs\<close>): the terminal of \<open>Tui_Input\<close> and the
  worker of \<open>Cli_Client\<close>, joined by a queue of commands and a queue of messages. A step is a key,
  a message the terminal takes, a command the worker takes, or something that happens to the
  worker: an answer, an event of its stream, its end.

  The messages said and not yet delivered are the queue towards the terminal. What the terminal
  was told and the decisions its keys sent are logged, to state what a user has seen and pressed.
\<close>

section \<open>The loop\<close>

record app =
  app_tui :: tui
  app_cmds :: "cli_cmd list"
  app_worker :: worker
  app_delivered :: "cli_msg list"
  app_pressed :: "(input_event \<times> approval_prompt \<times> user_decision) list"

definition new_app :: "client_env \<Rightarrow> disk \<Rightarrow> string option \<Rightarrow> app" where
  "new_app cenv d initial =
     \<lparr>app_tui = new_tui,
      app_cmds = (case initial of
        None \<Rightarrow> []
      | Some p \<Rightarrow> [ExecuteCmd \<lparr>xa_prompt = p, xa_files = [], xa_plan = False, xa_model = None\<rparr>]),
      app_worker = (Waiting, new_client cenv d), app_delivered = [], app_pressed = []\<rparr>"

text \<open>The decision a command carries, with the key and the prompt it was taken on.\<close>

definition presses :: "input_event \<Rightarrow> tui \<Rightarrow> cli_cmd option \<Rightarrow> (input_event \<times> approval_prompt \<times> user_decision) list" where
  "presses e t cmd =
     (case (cmd, active_approval_prompt t) of
        (Some (ContinueCmd (SubmitDecisions ds)), Some p) \<Rightarrow> map (\<lambda>d. (e, p, d)) ds
      | _ \<Rightarrow> [])"

definition press_key :: "tui_env \<Rightarrow> input_event \<Rightarrow> app \<Rightarrow> app option" where
  "press_key tenv e a =
     map_option (\<lambda>(cmd, _, t). a\<lparr>app_tui := t,
         app_cmds := app_cmds a @ (case cmd of None \<Rightarrow> [] | Some c \<Rightarrow> [c]),
         app_pressed := app_pressed a @ presses e (app_tui a) cmd\<rparr>)
       (handle_input_event tenv e (app_tui a))"

definition undelivered :: "app \<Rightarrow> cli_msg list" where
  "undelivered a = drop (length (app_delivered a)) (cl_said (snd (app_worker a)))"

definition deliver :: "(session_usage_response \<Rightarrow> string) \<Rightarrow> app \<Rightarrow> app" where
  "deliver ul a =
     (case undelivered a of
        [] \<Rightarrow> a
      | m # _ \<Rightarrow> a\<lparr>app_tui := snd (handle_client_msg ul m (app_tui a)),
                   app_delivered := app_delivered a @ [m]\<rparr>)"

definition take_command :: "client_env \<Rightarrow> app \<Rightarrow> app" where
  "take_command cenv a =
     (case app_cmds a of
        [] \<Rightarrow> a
      | c # cs \<Rightarrow> a\<lparr>app_cmds := cs, app_worker := worker_step cenv (CommandArrives c) (app_worker a)\<rparr>)"

inductive app_step ::
  "tui_env \<Rightarrow> client_env \<Rightarrow> (session_usage_response \<Rightarrow> string) \<Rightarrow> app \<Rightarrow> app \<Rightarrow> bool"
  for tenv cenv ul where
  Key: "press_key tenv e a = Some a' \<Longrightarrow> app_step tenv cenv ul a a'"
| Message: "app_step tenv cenv ul a (deliver ul a)"
| Command: "app_step tenv cenv ul a (take_command cenv a)"
| Answered: "app_step tenv cenv ul a (a\<lparr>app_worker := worker_step cenv (RequestAnswered r) (app_worker a)\<rparr>)"
| Event: "app_step tenv cenv ul a (a\<lparr>app_worker := worker_step cenv (EventArrives e) (app_worker a)\<rparr>)"
| Ended: "app_step tenv cenv ul a (a\<lparr>app_worker := worker_step cenv StreamEnds (app_worker a)\<rparr>)"

inductive_cases app_stepE: "app_step tenv cenv ul a a'"

inductive app_reachable ::
  "tui_env \<Rightarrow> client_env \<Rightarrow> (session_usage_response \<Rightarrow> string) \<Rightarrow> app \<Rightarrow> bool"
  for tenv cenv ul where
  Start: "app_reachable tenv cenv ul (new_app cenv d initial)"
| Step: "app_reachable tenv cenv ul a \<Longrightarrow> app_step tenv cenv ul a a' \<Longrightarrow> app_reachable tenv cenv ul a'"

section \<open>The invariant\<close>

definition decided :: "app \<Rightarrow> user_decision set" where
  "decided a = (\<lambda>(_, _, d). d) ` set (app_pressed a)"

text \<open>A decision is on a prompt that was delivered, and approves only by an approving key.\<close>

definition press_good :: "app \<Rightarrow> input_event \<times> approval_prompt \<times> user_decision \<Rightarrow> bool" where
  "press_good a = (\<lambda>(e, p, d). ApprovalPromptMsg p \<in> set (app_delivered a) \<and>
     (\<exists>option. d = approval_decision_for_option p option \<and>
        (option = ApproveAlwaysForSession \<longrightarrow> approval_allows_session_acceptance p) \<and>
        (option \<noteq> RejectOption \<longrightarrow> approving_key e)))"

definition app_good :: "client_env \<Rightarrow> app \<Rightarrow> bool" where
  "app_good cenv a \<longleftrightarrow>
     tui_good (app_tui a) \<and>
     coherent (app_worker a) \<and>
     consent cenv (decided a) (snd (app_worker a)) \<and>
     (\<forall>c\<in>set (app_cmds a). set (cmd_decisions c) \<subseteq> decided a) \<and>
     (\<forall>x\<in>set (app_pressed a). press_good a x) \<and>
     (\<forall>p. active_approval_prompt (app_tui a) = Some p \<longrightarrow> ApprovalPromptMsg p \<in> set (app_delivered a))"

lemma cmd_decisions_iff: "d \<in> set (cmd_decisions c) \<longleftrightarrow> (\<exists>ds. c = ContinueCmd (SubmitDecisions ds) \<and> d \<in> set ds)"
  by (cases c rule: cmd_decisions.cases) auto

section \<open>No key changes the turn that is shown\<close>

lemma prompt_keeps_turn:
  "edit_prompt f t = Some t' \<Longrightarrow> ui_turn t' = ui_turn t"
  "refresh_file_autocomplete env t = Some t' \<Longrightarrow> ui_turn t' = ui_turn t"
  "ui_turn (set_prompt p t) = ui_turn t"
  "ui_turn (push_prompt_history i t) = ui_turn t"
  "ui_turn (push_history e t) = ui_turn t"
  "ui_turn (show_console t) = ui_turn t"
  by (auto simp: edit_prompt_def refresh_file_autocomplete_def set_prompt_def push_prompt_history_def push_history_def
      show_console_def split: active_component.splits option.splits)

lemma autocomplete_keeps_turn:
  "handle_file_autocomplete_input env e t = Some (b, t') \<Longrightarrow> ui_turn t' = ui_turn t"
  by (auto simp: handle_file_autocomplete_input_def bind_eq_Some_conv prompt_keeps_turn
      split: active_component.splits if_splits input_event.splits)

lemma navigation_keeps_turn: "ui_turn (handle_console_history_navigation e t) = ui_turn t"
proof -
  have "ui_turn (snd (previous_prompt_entry t)) = ui_turn t" "ui_turn (snd (next_prompt_entry t)) = ui_turn t"
    by (simp_all add: previous_prompt_entry_def next_prompt_entry_def Let_def split: option.split)
  then show ?thesis
    by (auto simp: handle_console_history_navigation_def Let_def prompt_keeps_turn
        split: active_component.split input_event.split prod.split option.split prompt_navigation.split)
qed

lemma handle_log_keeps_turn: "ui_turn (snd (handle_log env args t)) = ui_turn t"
  by (simp add: handle_log_def Let_def complain_def prompt_keeps_turn split: list.split option.split)

lemma handle_command_keeps_turn: "ui_turn (snd (handle_command env command args t)) = ui_turn t"
  by (cases command)
    (auto simp: handle_log_keeps_turn handle_model_command_def handle_preview_command_def handle_resume_command_def
      complain_def show_help_def prompt_keeps_turn Let_def split: list.split option.split)

lemma handle_interrupt_keeps_turn: "ui_turn (snd (handle_interrupt t)) = ui_turn t"
  by (auto simp: handle_interrupt_def prompt_keeps_turn split: active_component.split)

lemma handle_enter_keeps_turn: "handle_enter env c t = Some r \<Longrightarrow> ui_turn (snd r) = ui_turn t"
proof -
  assume r: "handle_enter env c t = Some r"
  show ?thesis
  proof (cases "cn_prompt c")
    case (CommandPrompt p)
    obtain command args where p: "resolved_command p = (command, args)" by fastforce
    have "ui_turn (case command of UnresolvedSlash n \<Rightarrow> t | _ \<Rightarrow> push_prompt_history i (set_prompt EmptyPrompt t)) = ui_turn t" for i
      by (cases command) (simp_all add: prompt_keeps_turn)
    then show ?thesis using r CommandPrompt p by (auto simp: handle_enter_def handle_command_keeps_turn)
  qed (use r in \<open>auto simp: handle_enter_def handle_prompt_exec_def handle_command_keeps_turn prompt_keeps_turn
        split: prompt_state.splits if_splits prod.splits\<close>)
qed

lemma edit_console_keeps_turn: "edit_console env e c t = Some r \<Longrightarrow> ui_turn (snd r) = ui_turn t"
  using handle_enter_keeps_turn [of env c t r] handle_interrupt_keeps_turn [of t]
  by (cases e) (auto simp: edit_console_def quietly_def edit_and_refresh_def bind_eq_Some_conv prompt_keeps_turn)

lemma console_keeps_turn: "handle_input_on_console env e t = Some r \<Longrightarrow> ui_turn (snd r) = ui_turn t"
proof -
  assume r: "handle_input_on_console env e t = Some r"
  then obtain b t1 where t1: "handle_file_autocomplete_input env e t = Some (b, t1)"
    by (auto simp: handle_input_on_console_def split: option.splits)
  have turn: "ui_turn t1 = ui_turn t" by (rule autocomplete_keeps_turn [OF t1])
  show ?thesis
    using r t1 turn navigation_keeps_turn [of e t1]
      edit_console_keeps_turn [of env e _ "if is_edit_input e then t1\<lparr>ui_recall_index := None\<rparr> else t1" r]
    by (cases b) (auto simp: handle_input_on_console_def Let_def split: if_splits active_component.splits)
qed

lemma list_keeps_turn:
  "ui_turn (snd (on_enter t)) = ui_turn t \<Longrightarrow> ui_turn (snd (handle_input_on_list e on_enter t)) = ui_turn t"
  by (auto simp: handle_input_on_list_def prompt_keeps_turn split: option.split input_event.split)

lemma enter_keeps_turn:
  "ui_turn (snd (select_help_command t)) = ui_turn t" "ui_turn (snd (set_model t)) = ui_turn t"
  "ui_turn (snd (resume_selected_session t)) = ui_turn t"
  by (simp_all add: select_help_command_def set_model_def resume_selected_session_def Let_def prompt_keeps_turn
      split: active_component.split option.split model_entry.split)

lemma turn_input_keeps_turn: "ui_turn (snd (handle_input_on_execution_turn e t)) = ui_turn t"
  using handle_interrupt_keeps_turn [of t]
  by (cases e) (auto simp: handle_input_on_execution_turn_def Let_def on_console_def split: option.split active_component.split)

lemma on_input_keeps_turn:
  assumes "on_input env e t = Some r"
  shows "ui_turn (snd r) = ui_turn t"
proof (cases "ui_active t")
  case (ConsoleView c)
  then show ?thesis using assms turn_input_keeps_turn [of e t] console_keeps_turn [of env e t r]
    by (auto simp: on_input_def split: if_splits)
next
  case (UsageView u)
  then show ?thesis using assms
    by (auto simp: on_input_def handle_input_on_information_def prompt_keeps_turn split: if_splits)
qed (use assms in \<open>auto simp: on_input_def enter_keeps_turn prompt_keeps_turn intro!: list_keeps_turn\<close>)

text \<open>A prompt that is shown was there, or is the message.\<close>

lemma prompt_delivered:
  "active_approval_prompt (apply_msg ul m t) = Some p \<Longrightarrow> active_approval_prompt t = Some p \<or> m = ApprovalPromptMsg p"
proof -
  have streamed: "push_content ch (streaming u) = ApprovalTurn p \<Longrightarrow> u = Some (ApprovalTurn p)"
    "push_reasoning ch (streaming u) = ApprovalTurn p \<Longrightarrow> u = Some (ApprovalTurn p)" for ch u
    by (cases u; cases "streaming u"; simp add: streaming_def)+
  assume "active_approval_prompt (apply_msg ul m t) = Some p"
  then show ?thesis
    by (cases m)
      (auto simp: active_approval_prompt_def push_history_def show_models_list_def clear_history_def show_console_def
        close_session_def Let_def dest: streamed split: option.splits execution_turn.splits)
qed

section \<open>Every step keeps the invariant\<close>

lemma press_good_more:
  "press_good a x \<Longrightarrow> set (app_delivered a) \<subseteq> set (app_delivered a') \<Longrightarrow> press_good a' x"
  unfolding press_good_def by (cases x) auto

lemma new_app_good: "app_good cenv (new_app cenv d initial)"
  using consent_new [of cenv "{}" d]
  using new_tui_good coherent_new [of cenv d]
  by (auto simp del: coherent.simps simp: app_good_def new_app_def decided_def split: option.split)
    (simp add: active_approval_prompt_def new_tui_def)

lemma worker_kept:
  assumes "app_good cenv a" "set (decisions_of s) \<subseteq> decided a"
  shows "app_good cenv (a\<lparr>app_worker := worker_step cenv s (app_worker a)\<rparr>)"
  using assms consent_step [of cenv "decided a" "app_worker a" s] coherent_step
  by (simp add: app_good_def decided_def press_good_def)

lemma command_kept:
  assumes "app_good cenv a"
  shows "app_good cenv (take_command cenv a)"
proof (cases "app_cmds a")
  case (Cons c cs)
  have "app_good cenv (a\<lparr>app_cmds := cs\<rparr>)"
    using assms Cons by (auto simp: app_good_def decided_def press_good_def)
  moreover have "set (decisions_of (CommandArrives c)) \<subseteq> decided (a\<lparr>app_cmds := cs\<rparr>)"
    using assms Cons by (simp add: app_good_def decided_def)
  ultimately have "app_good cenv ((a\<lparr>app_cmds := cs\<rparr>)\<lparr>app_worker :=
      worker_step cenv (CommandArrives c) (app_worker (a\<lparr>app_cmds := cs\<rparr>))\<rparr>)" by (rule worker_kept)
  then show ?thesis using Cons by (simp add: take_command_def)
qed (use assms in \<open>simp add: take_command_def\<close>)

lemma deliver_kept:
  assumes "app_good cenv a"
  shows "app_good cenv (deliver ul a)"
proof (cases "undelivered a")
  case (Cons m ms)
  define t where "t = snd (handle_client_msg ul m (app_tui a))"
  have t: "tui_good t" "ui_turn t = ui_turn (apply_msg ul m (app_tui a))"
    using assms apply_msg_good [of "app_tui a" ul m]
    by (simp_all add: t_def app_good_def handle_client_msg_def insert_transcript_def Let_def)
  define a' where "a' = a\<lparr>app_tui := t, app_delivered := app_delivered a @ [m]\<rparr>"
  have "ApprovalPromptMsg p \<in> set (app_delivered a')" if "active_approval_prompt t = Some p" for p
    using prompt_delivered [of ul m "app_tui a" p] that t(2) assms
    by (auto simp: active_approval_prompt_def app_good_def a'_def)
  moreover have "\<forall>x\<in>set (app_pressed a'). press_good a' x"
  proof
    fix x assume "x \<in> set (app_pressed a')"
    then have "press_good a x" using assms unfolding app_good_def a'_def by simp
    then show "press_good a' x" by (rule press_good_more) (auto simp: a'_def)
  qed
  ultimately have "app_good cenv a'"
    using assms t(1) by (auto simp: app_good_def a'_def decided_def)
  then show ?thesis using Cons by (simp add: deliver_def a'_def t_def)
qed (use assms in \<open>simp add: deliver_def\<close>)

lemma key_kept:
  assumes "app_good cenv a" "press_key tenv e a = Some a'"
  shows "app_good cenv a'"
proof -
  from assms(2) obtain cmd t where t: "on_input tenv e (app_tui a) = Some (cmd, t)"
    "a' = a\<lparr>app_tui := snd (insert_transcript t), app_cmds := app_cmds a @ (case cmd of None \<Rightarrow> [] | Some c \<Rightarrow> [c]),
       app_pressed := app_pressed a @ presses e (app_tui a) cmd\<rparr>"
    by (auto simp: press_key_def handle_input_event_def)
  have good: "tui_good (snd (insert_transcript t))"
    using on_input_serves [of "app_tui a" tenv e] assms(1) t(1)
    by (auto simp: serves_def app_good_def insert_transcript_def)
  have shown: "active_approval_prompt (snd (insert_transcript t)) = active_approval_prompt (app_tui a)"
    using on_input_keeps_turn [OF t(1)] by (simp add: active_approval_prompt_def insert_transcript_def)
  have new: "set (cmd_decisions c) \<subseteq> (\<lambda>(_, _, d). d) ` set (presses e (app_tui a) cmd)" if "cmd = Some c" for c
  proof
    fix d assume "d \<in> set (cmd_decisions c)"
    then obtain ds where ds: "c = ContinueCmd (SubmitDecisions ds)" "d \<in> set ds" by (auto simp: cmd_decisions_iff)
    from continuation_sent [of tenv e "app_tui a" "SubmitDecisions ds" t] t(1) that ds(1)
    obtain p where "active_approval_prompt (app_tui a) = Some p" by auto
    then show "d \<in> (\<lambda>(_, _, d). d) ` set (presses e (app_tui a) cmd)"
      using that ds by (force simp: presses_def)
  qed
  have pressed: "press_good a x" if "x \<in> set (presses e (app_tui a) cmd)" for x
  proof -
    from that obtain ds p d where x: "cmd = Some (ContinueCmd (SubmitDecisions ds))"
      "active_approval_prompt (app_tui a) = Some p" "x = (e, p, d)" "d \<in> set ds"
      unfolding presses_def
      by (cases "active_approval_prompt (app_tui a)") (auto split: option.splits cli_cmd.splits continue_execution.splits)
    have "on_input tenv e (app_tui a) = Some (Some (ContinueCmd (SubmitDecisions ds)), t)" using t(1) x(1) by simp
    from continuation_sent [OF this] x(2) obtain option where
      o: "ds = [approval_decision_for_option p option]"
        "option = ApproveAlwaysForSession \<longrightarrow> approval_allows_session_acceptance p"
        "option \<noteq> RejectOption \<longrightarrow> approving_key e" by auto
    have "d = approval_decision_for_option p option" using o(1) x(4) by simp
    moreover have "ApprovalPromptMsg p \<in> set (app_delivered a)" using assms(1) x(2) unfolding app_good_def by blast
    ultimately show ?thesis using o(2,3) unfolding press_good_def x(3) prod.case by blast
  qed
  have more: "decided a \<subseteq> decided a'" "decided a' = decided a \<union> (\<lambda>(_, _, d). d) ` set (presses e (app_tui a) cmd)"
    by (auto simp: decided_def t(2) image_Un)
  have "press_good a' x = press_good a x" for x by (cases x) (simp add: press_good_def t(2))
  moreover have "consent cenv (decided a') (snd (app_worker a))"
    using assms(1) consent_mono [OF _ more(1)] by (simp add: app_good_def)
  moreover have "\<forall>c\<in>set (app_cmds a'). set (cmd_decisions c) \<subseteq> decided a'"
    using assms(1) new more by (auto simp: app_good_def t(2) split: option.splits)
  ultimately show ?thesis
    using assms(1) good shown pressed by (auto simp: app_good_def t(2))
qed

lemma reachable_good: "app_reachable tenv cenv ul a \<Longrightarrow> app_good cenv a"
proof (induction rule: app_reachable.induct)
  case (Step a a')
  from Step.hyps(2) show ?case
    by (rule app_stepE)
      (use Step.IH key_kept deliver_kept command_kept worker_kept in \<open>auto intro: worker_kept\<close>)
qed (rule new_app_good)

end
