(* ===== verification/Tool_Text.thy ===== *)
theory Tool_Text
  imports Invoke Redaction
begin

text \<open>
  Tool calls that a model writes as text (\<^verbatim>\<open>smista-providers/src/provider/tool_call.rs\<close> and
  \<^verbatim>\<open>provider/ollama/tool_call.rs\<close>): the envelopes the Ollama decoder accepts, and the filter
  that holds streamed text back while it may still become an envelope.

  The JSON parser is an argument. The lemmas show that the filter loses and invents nothing, and
  that a streamed envelope is promoted exactly when the whole text would be.
\<close>

section \<open>Envelopes\<close>

record decoded_call =
  dc_name :: string
  dc_arguments :: json

record text_decoder =
  xd_decode :: "string \<Rightarrow> decoded_call list option"
  xd_may_match :: "string \<Rightarrow> bool"

definition trim_start :: "string \<Rightarrow> string" where
  "trim_start s = dropWhile is_whitespace s"

definition trim_text :: "string \<Rightarrow> string" where
  "trim_text s = rev (dropWhile is_whitespace (rev (trim_start s)))"

definition strip_suffix :: "string \<Rightarrow> string \<Rightarrow> string option" where
  "strip_suffix x s = map_option rev (strip_prefix (rev x) (rev s))"

definition fence :: string where "fence = [CHR 0x60, CHR 0x60, CHR 0x60]"
definition call_tag :: string where "call_tag = ''<tool_call>''"
definition call_end :: string where "call_end = ''</tool_call>''"

lemma trim_start_length: "length (trim_start s) \<le> length s"
  by (simp add: trim_start_def length_dropWhile_le)

lemma trim_text_length: "length (trim_text s) \<le> length s"
  by (metis trim_text_def length_dropWhile_le length_rev trim_start_length le_trans)

lemma split_once_str_length: "split_once_str sep s = Some (a, b) \<Longrightarrow> length b \<le> length s"
  by (induction sep s arbitrary: a b rule: split_once_str.induct)
    (auto simp: strip_prefix_def split: option.splits if_splits)

text \<open>The payloads of consecutive tagged calls; anything else between them is no envelope.\<close>

function tagged_payloads :: "string \<Rightarrow> string list option" where
  "tagged_payloads rest =
     (if rest = [] then Some []
      else (case strip_prefix call_tag rest of
              None \<Rightarrow> None
            | Some body \<Rightarrow>
                (case split_once_str call_end body of
                   None \<Rightarrow> None
                 | Some (payload, after) \<Rightarrow>
                     map_option (\<lambda>ps. trim_text payload # ps) (tagged_payloads (trim_text after)))))"
  by auto
termination
  by (relation "measure length")
    (auto simp: strip_prefix_Some call_tag_def dest!: split_once_str_length intro!: le_less_trans [OF trim_text_length])

declare tagged_payloads.simps [simp del]

definition text_tool_call_payloads :: "string \<Rightarrow> string list option" where
  "text_tool_call_payloads content =
     (let trimmed = trim_text content
      in case strip_prefix (fence @ ''json'') trimmed of
           Some fenced \<Rightarrow> map_option (\<lambda>p. [trim_text p]) (strip_suffix fence fenced)
         | None \<Rightarrow>
             (case strip_prefix fence trimmed of
                Some fenced \<Rightarrow> map_option (\<lambda>p. [trim_text p]) (strip_suffix fence fenced)
              | None \<Rightarrow>
                  if strip_prefix call_tag trimmed = None then Some [trimmed]
                  else tagged_payloads trimmed))"

text \<open>
  One call, as serde reads the struct: an object with the two fields and no other, or the two
  fields in order.
\<close>

fun decoded_call_of :: "json \<Rightarrow> decoded_call option" where
  "decoded_call_of (JObj members) =
     (if set (map fst members) = {''name'', ''arguments''}
      then (case (map_of members ''name'', map_of members ''arguments'') of
              (Some (JStr n), Some a) \<Rightarrow> Some \<lparr>dc_name = n, dc_arguments = a\<rparr>
            | _ \<Rightarrow> None)
      else None)"
| "decoded_call_of (JArr [JStr n, a]) = Some \<lparr>dc_name = n, dc_arguments = a\<rparr>"
| "decoded_call_of _ = None"

fun collect :: "'a option list \<Rightarrow> 'a list option" where
  "collect [] = Some []"
| "collect (x # xs) = (case (x, collect xs) of (Some y, Some ys) \<Rightarrow> Some (y # ys) | _ \<Rightarrow> None)"

fun calls_of_value :: "json \<Rightarrow> decoded_call list option" where
  "calls_of_value (JArr items) = collect (map decoded_call_of items)"
| "calls_of_value item = map_option (\<lambda>c. [c]) (decoded_call_of item)"

definition is_object :: "json \<Rightarrow> bool" where
  "is_object v = (case v of JObj _ \<Rightarrow> True | _ \<Rightarrow> False)"

definition parse_text_tool_calls :: "(string \<Rightarrow> json option) \<Rightarrow> string \<Rightarrow> decoded_call list option" where
  "parse_text_tool_calls parse content =
     (case text_tool_call_payloads content of
        None \<Rightarrow> None
      | Some payloads \<Rightarrow>
          (case collect (map (\<lambda>p. Option.bind (parse p) calls_of_value) payloads) of
             None \<Rightarrow> None
           | Some parts \<Rightarrow>
               let calls = concat parts
               in if calls = [] \<or> (\<exists>c\<in>set calls. \<not> is_object (dc_arguments c)) then None else Some calls))"

definition envelope_starts :: "string list" where
  "envelope_starts = [''{'', ''['', fence, call_tag]"

definition starts_with :: "string \<Rightarrow> string \<Rightarrow> bool" where
  "starts_with s p \<longleftrightarrow> take (length p) s = p"

definition may_match :: "string \<Rightarrow> bool" where
  "may_match content \<longleftrightarrow>
     (let trimmed = trim_start content
      in trimmed = [] \<or> (\<exists>p\<in>set envelope_starts. starts_with trimmed p \<or> starts_with p trimmed))"

definition ollama_decoder :: "(string \<Rightarrow> json option) \<Rightarrow> text_decoder" where
  "ollama_decoder parse = \<lparr>xd_decode = parse_text_tool_calls parse, xd_may_match = may_match\<rparr>"

definition decoder_for_provider :: "(string \<Rightarrow> json option) \<Rightarrow> provider \<Rightarrow> text_decoder option" where
  "decoder_for_provider parse p = (if p = Ollama then Some (ollama_decoder parse) else None)"

section \<open>The filter of a stream\<close>

type_synonym provider_item = "(provider_error, stream_event) result"

record text_filter =
  tf_decoder :: "text_decoder option"
  tf_candidate :: "string option"
  tf_deferred :: "provider_item list"
  tf_native :: bool

definition new_filter :: "text_decoder option \<Rightarrow> text_filter" where
  "new_filter decoder = \<lparr>tf_decoder = decoder, tf_candidate = map_option (\<lambda>_. []) decoder,
     tf_deferred = [], tf_native = False\<rparr>"

definition flush_candidate :: "text_filter \<Rightarrow> provider_item list \<times> text_filter" where
  "flush_candidate f =
     (case tf_candidate f of None \<Rightarrow> [] | Some t \<Rightarrow> if t = [] then [] else [Ok (TextDelta t)],
      f\<lparr>tf_candidate := None\<rparr>)"

definition push_text :: "string \<Rightarrow> text_filter \<Rightarrow> provider_item list \<times> text_filter" where
  "push_text delta f =
     (case tf_candidate f of
        None \<Rightarrow> ([Ok (TextDelta delta)], f)
      | Some t \<Rightarrow>
          let candidate = t @ delta; f1 = f\<lparr>tf_candidate := Some candidate\<rparr>
          in if (case tf_decoder f of Some d \<Rightarrow> xd_may_match d candidate | None \<Rightarrow> False) then ([], f1)
             else (case flush_candidate f1 of
                     (out, f2) \<Rightarrow> (out @ tf_deferred f2, f2\<lparr>tf_deferred := []\<rparr>)))"

definition text_call_id :: "nat \<Rightarrow> string" where
  "text_call_id i = ''text-tool-call-'' @ show_nat i"

definition promoted :: "decoded_call list \<Rightarrow> provider_item list" where
  "promoted calls = map (\<lambda>(i, c). Ok (ToolCallRequested (text_call_id i) (dc_name c) (dc_arguments c)))
     (enumerate 0 calls)"

definition finish_filter :: "text_filter \<Rightarrow> provider_item list \<times> text_filter" where
  "finish_filter f =
     (let (out, f1) =
        (if tf_native f then flush_candidate f
         else (case tf_candidate f of
                 Some candidate \<Rightarrow>
                   (case Option.bind (tf_decoder f) (\<lambda>d. xd_decode d candidate) of
                      Some calls \<Rightarrow> promoted calls
                    | None \<Rightarrow> if candidate = [] then [] else [Ok (TextDelta candidate)],
                    f\<lparr>tf_candidate := None\<rparr>)
               | None \<Rightarrow> ([], f)))
      in (out @ tf_deferred f1 @ [Ok DoneEvent], f1\<lparr>tf_deferred := []\<rparr>))"

definition push_native :: "stream_event \<Rightarrow> text_filter \<Rightarrow> provider_item list \<times> text_filter" where
  "push_native event f =
     (case flush_candidate (f\<lparr>tf_native := True\<rparr>) of (out, f1) \<Rightarrow> (out @ [Ok event], f1))"

fun filter_push :: "provider_item \<Rightarrow> text_filter \<Rightarrow> provider_item list \<times> text_filter" where
  "filter_push (Inr (TextDelta delta)) f = push_text delta f"
| "filter_push (Inr (ToolCallStarted i n)) f = push_native (ToolCallStarted i n) f"
| "filter_push (Inr (ToolCallRequested i n a)) f = push_native (ToolCallRequested i n a) f"
| "filter_push (Inr (UsageEvent u)) f =
     (if tf_candidate f \<noteq> None then ([], f\<lparr>tf_deferred := tf_deferred f @ [Ok (UsageEvent u)]\<rparr>)
      else ([Ok (UsageEvent u)], f))"
| "filter_push (Inr DoneEvent) f = finish_filter f"
| "filter_push (Inr event) f = ([Ok event], f)"
| "filter_push (Inl e) f =
     (case flush_candidate f of
        (out, f1) \<Rightarrow> (out @ tf_deferred f1 @ [Err e], f1\<lparr>tf_deferred := []\<rparr>))"

fun filter_items :: "text_filter \<Rightarrow> provider_item list \<Rightarrow> provider_item list" where
  "filter_items f [] = []"
| "filter_items f (i # items) = (case filter_push i f of (out, f') \<Rightarrow> out @ filter_items f' items)"

section \<open>What the filter lets through\<close>

definition text_in :: "provider_item list \<Rightarrow> string" where
  "text_in items = concat (map (\<lambda>i. case i of Inr (TextDelta t) \<Rightarrow> t | _ \<Rightarrow> []) items)"

definition calls_in :: "provider_item list \<Rightarrow> tool_call list" where
  "calls_in items = concat (map (\<lambda>i. case i of
     Inr (ToolCallRequested i n a) \<Rightarrow> [\<lparr>tc_call_id = i, tc_name = n, tc_arguments = a\<rparr>] | _ \<Rightarrow> []) items)"

fun is_native :: "provider_item \<Rightarrow> bool" where
  "is_native (Inr (ToolCallStarted _ _)) = True"
| "is_native (Inr (ToolCallRequested _ _ _)) = True"
| "is_native _ = False"

fun is_running :: "provider_item \<Rightarrow> bool" where
  "is_running (Inr DoneEvent) = False"
| "is_running (Inr _) = True"
| "is_running (Inl _) = False"

definition text_calls :: "decoded_call list \<Rightarrow> tool_call list" where
  "text_calls calls = map (\<lambda>(i, c). \<lparr>tc_call_id = text_call_id i, tc_name = dc_name c, tc_arguments = dc_arguments c\<rparr>)
     (enumerate 0 calls)"

definition only_usage :: "provider_item list \<Rightarrow> bool" where
  "only_usage items \<longleftrightarrow> (\<forall>i\<in>set items. \<exists>u. i = Inr (UsageEvent u))"

text \<open>The prefixes of an envelope are held back.\<close>

definition decoder_law :: "text_decoder \<Rightarrow> bool" where
  "decoder_law d \<longleftrightarrow> (\<forall>s t. xd_decode d (s @ t) \<noteq> None \<longrightarrow> xd_may_match d s)"

lemma in_simps [simp]:
  "text_in [] = []" "calls_in [] = []"
  "text_in (a @ b) = text_in a @ text_in b" "calls_in (a @ b) = calls_in a @ calls_in b"
  "text_in (Inr (TextDelta t) # r) = t @ text_in r" "calls_in (Inr (TextDelta t) # r) = calls_in r"
  "text_in (Inr (ToolCallRequested x n v) # r) = text_in r"
  "calls_in (Inr (ToolCallRequested x n v) # r) = \<lparr>tc_call_id = x, tc_name = n, tc_arguments = v\<rparr> # calls_in r"
  "text_in (Inr (ToolCallStarted x n) # r) = text_in r" "calls_in (Inr (ToolCallStarted x n) # r) = calls_in r"
  "text_in (Inr (UsageEvent u) # r) = text_in r" "calls_in (Inr (UsageEvent u) # r) = calls_in r"
  "text_in (Inr (ReasoningDelta t) # r) = text_in r" "calls_in (Inr (ReasoningDelta t) # r) = calls_in r"
  "text_in (Inr (ApprovalRequired t) # r) = text_in r" "calls_in (Inr (ApprovalRequired t) # r) = calls_in r"
  "text_in (Inr (ToolResult x t e) # r) = text_in r" "calls_in (Inr (ToolResult x t e) # r) = calls_in r"
  "text_in (Inr (ErrorEvent x t) # r) = text_in r" "calls_in (Inr (ErrorEvent x t) # r) = calls_in r"
  "text_in (Inr DoneEvent # r) = text_in r" "calls_in (Inr DoneEvent # r) = calls_in r"
  by (simp_all add: text_in_def calls_in_def)

lemma only_usage_in: "only_usage items \<Longrightarrow> text_in items = [] \<and> calls_in items = []"
  by (induction items) (auto simp: only_usage_def)

lemma only_usage_simps [simp]: "only_usage []" "only_usage (items @ [Inr (UsageEvent u)]) = only_usage items"
  by (auto simp: only_usage_def)

lemma promoted_in [simp]: "text_in (promoted calls) = []" "calls_in (promoted calls) = text_calls calls"
proof -
  have "text_in (map (\<lambda>(i, c). Inr (ToolCallRequested (text_call_id i) (dc_name c) (dc_arguments c))) cs) = [] \<and>
    calls_in (map (\<lambda>(i, c). Inr (ToolCallRequested (text_call_id i) (dc_name c) (dc_arguments c))) cs) =
      map (\<lambda>(i, c). \<lparr>tc_call_id = text_call_id i, tc_name = dc_name c, tc_arguments = dc_arguments c\<rparr>) cs" for cs
    by (induction cs) auto
  from this [of "enumerate 0 calls"] show "text_in (promoted calls) = []" "calls_in (promoted calls) = text_calls calls"
    by (simp_all add: promoted_def text_calls_def)
qed

definition held :: "text_filter \<Rightarrow> string" where
  "held f = (case tf_candidate f of None \<Rightarrow> [] | Some t \<Rightarrow> t)"

text \<open>An item of a running stream adds its text and its calls, now or later.\<close>

lemma push_step:
  assumes "filter_push i f = (out, f')" "is_running i" "only_usage (tf_deferred f)"
  shows "only_usage (tf_deferred f')" "tf_decoder f' = tf_decoder f"
    "tf_native f' \<longleftrightarrow> tf_native f \<or> is_native i"
    "text_in out @ held f' = held f @ text_in [i]" "calls_in out = calls_in [i]"
    "is_native i \<or> tf_candidate f = None \<Longrightarrow> tf_candidate f' = None"
proof -
  have "only_usage (tf_deferred f') \<and> tf_decoder f' = tf_decoder f \<and> (tf_native f' \<longleftrightarrow> tf_native f \<or> is_native i) \<and>
    text_in out @ held f' = held f @ text_in [i] \<and> calls_in out = calls_in [i] \<and>
    (is_native i \<or> tf_candidate f = None \<longrightarrow> tf_candidate f' = None)"
  proof (cases i)
    case (Inr event)
    show ?thesis
    proof (cases event)
      case (TextDelta d)
      then show ?thesis using assms Inr only_usage_in [OF assms(3)]
        by (auto simp: push_text_def flush_candidate_def held_def Let_def split: option.splits if_splits)
    next
      case (ToolCallStarted x n)
      then show ?thesis using assms Inr by (auto simp: push_native_def flush_candidate_def held_def split: option.splits)
    next
      case (ToolCallRequested x n v)
      then show ?thesis using assms Inr by (auto simp: push_native_def flush_candidate_def held_def split: option.splits)
    next
      case (UsageEvent u)
      then show ?thesis using assms Inr by (auto simp: held_def split: if_splits)
    qed (use assms Inr in \<open>auto simp: held_def\<close>)
  qed (use assms in simp)
  then show "only_usage (tf_deferred f')" "tf_decoder f' = tf_decoder f"
    "tf_native f' \<longleftrightarrow> tf_native f \<or> is_native i"
    "text_in out @ held f' = held f @ text_in [i]" "calls_in out = calls_in [i]"
    "is_native i \<or> tf_candidate f = None \<Longrightarrow> tf_candidate f' = None" by blast+
qed

lemma in_cons: "text_in (i # r) = text_in [i] @ text_in r" "calls_in (i # r) = calls_in [i] @ calls_in r"
  by (simp_all add: text_in_def calls_in_def)

text \<open>Whatever ends it, a filter lets its text and its calls through, unless it promotes.\<close>

lemma filter_end:
  assumes "only_usage (tf_deferred f)"
  shows "text_in (filter_items f [Inr DoneEvent]) =
      (if \<not> tf_native f \<and> tf_candidate f \<noteq> None \<and> Option.bind (tf_decoder f) (\<lambda>d. xd_decode d (held f)) \<noteq> None
       then [] else held f)"
    and "calls_in (filter_items f [Inr DoneEvent]) =
      (if \<not> tf_native f \<and> tf_candidate f \<noteq> None
       then (case Option.bind (tf_decoder f) (\<lambda>d. xd_decode d (held f)) of Some cs \<Rightarrow> text_calls cs | None \<Rightarrow> [])
       else [])"
  using only_usage_in [OF assms]
  by (auto simp: finish_filter_def flush_candidate_def held_def Let_def split: option.split)

lemma filter_passes:
  assumes "only_usage (tf_deferred f)" "\<forall>i\<in>set body. is_running i"
    and "tf_native f \<or> tf_candidate f = None \<or> (\<exists>i\<in>set body. is_native i)"
  shows "text_in (filter_items f (body @ [Inr DoneEvent])) = held f @ text_in body \<and>
    calls_in (filter_items f (body @ [Inr DoneEvent])) = calls_in body"
  using assms
proof (induction body arbitrary: f)
  case Nil
  then show ?case using filter_end [of f] by (auto simp: held_def)
next
  case (Cons i body)
  obtain out f' where p: "filter_push i f = (out, f')" by fastforce
  have running: "is_running i" using Cons.prems(2) by simp
  note step = push_step [OF p running Cons.prems(1)]
  have "tf_native f' \<or> tf_candidate f' = None \<or> (\<exists>j\<in>set body. is_native j)"
    using Cons.prems(3) step(3,6) by auto
  from Cons.IH [OF step(1) _ this] Cons.prems(2)
  have "text_in (filter_items f' (body @ [Inr DoneEvent])) = held f' @ text_in body"
    "calls_in (filter_items f' (body @ [Inr DoneEvent])) = calls_in body" by simp_all
  moreover have "text_in out @ held f' @ text_in body = held f @ text_in (i # body)"
    using step(4) by (metis append.assoc in_cons(1))
  ultimately show ?case using p step(5) by (simp add: in_cons(2) [of i body])
qed

text \<open>Without structured calls, the text is promoted if and only if the whole of it decodes.\<close>

lemma hold_step:
  assumes "filter_push i f = (out, f')" "is_running i" "\<not> is_native i"
    and "tf_candidate f = Some t" "tf_decoder f = Some d" "only_usage (tf_deferred f)"
  shows "tf_candidate f' = Some (t @ text_in [i]) \<and> text_in out = [] \<or>
    tf_candidate f' = None \<and> text_in [i] \<noteq> [] \<and> \<not> xd_may_match d (t @ text_in [i]) \<or>
    tf_candidate f' = None \<and> \<not> xd_may_match d t \<and> text_in [i] = []"
proof (cases i)
  case (Inr event)
  show ?thesis
  proof (cases event)
    case (TextDelta delta)
    then show ?thesis using assms Inr only_usage_in [OF assms(6)]
      by (cases "delta = []") (auto simp: push_text_def flush_candidate_def Let_def split: if_splits)
  qed (use assms Inr in auto)
qed (use assms in simp)

lemma no_native_calls: "\<forall>i\<in>set body. \<not> is_native i \<Longrightarrow> calls_in body = []"
proof (induction body)
  case (Cons i body)
  have "calls_in [i] = []" using Cons.prems by (cases i rule: is_native.cases) (auto simp: calls_in_def)
  then show ?case using Cons in_cons(2) [of i body] by simp
qed simp

lemma filter_promotes:
  assumes "only_usage (tf_deferred f)" "\<forall>i\<in>set body. is_running i \<and> \<not> is_native i"
    and "\<not> tf_native f" "tf_candidate f = Some t" "tf_decoder f = Some d" "decoder_law d"
  shows "text_in (filter_items f (body @ [Inr DoneEvent])) =
      (if xd_decode d (t @ text_in body) = None then t @ text_in body else []) \<and>
    calls_in (filter_items f (body @ [Inr DoneEvent])) =
      (case xd_decode d (t @ text_in body) of None \<Rightarrow> [] | Some cs \<Rightarrow> text_calls cs)"
  using assms
proof (induction body arbitrary: f t)
  case Nil
  then show ?case using filter_end [of f] by (auto simp: held_def split: option.split)
next
  case (Cons i body)
  obtain out f' where p: "filter_push i f = (out, f')" by fastforce
  have running: "is_running i" "\<not> is_native i" using Cons.prems(2) by simp_all
  note step = push_step [OF p running(1) Cons.prems(1)]
  have whole: "t @ text_in (i # body) = (t @ text_in [i]) @ text_in body" by (metis append.assoc in_cons(1))
  have calls: "calls_in [i] = []" "calls_in body = []"
    using Cons.prems(2) by (auto intro!: no_native_calls)
  have cont: "filter_items f ((i # body) @ [Inr DoneEvent]) = out @ filter_items f' (body @ [Inr DoneEvent])"
    using p by simp
  show ?case
  proof (cases "tf_candidate f'")
    case (Some t')
    with hold_step [OF p running Cons.prems(4,5,1)] have t': "t' = t @ text_in [i]" "text_in out = []" by auto
    have "text_in (filter_items f' (body @ [Inr DoneEvent])) =
        (if xd_decode d (t' @ text_in body) = None then t' @ text_in body else []) \<and>
      calls_in (filter_items f' (body @ [Inr DoneEvent])) =
        (case xd_decode d (t' @ text_in body) of None \<Rightarrow> [] | Some cs \<Rightarrow> text_calls cs)"
      using Cons.prems(2,3,5,6) step(1,2,3) running(2) Some by (intro Cons.IH) auto
    then show ?thesis using t' calls(1) step(5) unfolding cont whole by simp
  next
    case None
    then have "\<not> xd_may_match d (t @ text_in [i])"
      using hold_step [OF p running Cons.prems(4,5,1)] by auto
    then have none: "xd_decode d ((t @ text_in [i]) @ text_in body) = None"
      using Cons.prems(6) unfolding decoder_law_def by blast
    have "text_in (filter_items f' (body @ [Inr DoneEvent])) = held f' @ text_in body \<and>
      calls_in (filter_items f' (body @ [Inr DoneEvent])) = calls_in body"
      using Cons.prems(2) None step(1) by (intro filter_passes) auto
    moreover have "text_in out @ held f' = t @ text_in [i]" using step(4) Cons.prems(4) by (simp add: held_def)
    ultimately show ?thesis using calls step(5) none unfolding cont whole by simp
  qed
qed

text \<open>The rule of a completion that was not streamed: promote where there is no structured call.\<close>

definition recover ::
  "text_decoder option \<Rightarrow> string \<Rightarrow> tool_call list \<Rightarrow> string \<times> tool_call list \<times> bool" where
  "recover decoder content calls =
     (if calls \<noteq> [] then (content, calls, False)
      else (case Option.bind decoder (\<lambda>d. xd_decode d content) of
              Some found \<Rightarrow> ([], text_calls found, True)
            | None \<Rightarrow> (content, calls, False)))"

section \<open>The Ollama decoder keeps the law\<close>

text \<open>Of JSON it needs that an object starts with a brace and an array with a bracket.\<close>

definition json_law :: "(string \<Rightarrow> json option) \<Rightarrow> bool" where
  "json_law parse \<longleftrightarrow> (\<forall>s v. parse s = Some v \<longrightarrow>
     (case v of JObj _ \<Rightarrow> starts_with (trim_start s) ''{'' | JArr _ \<Rightarrow> starts_with (trim_start s) ''['' | _ \<Rightarrow> True))"

lemma starts_with_iff: "starts_with s p \<longleftrightarrow> (\<exists>r. s = p @ r)"
  by (metis append_eq_conv_conj append_take_drop_id starts_with_def)

lemma trim_start_append: "trim_start s \<noteq> [] \<Longrightarrow> trim_start (s @ t) = trim_start s @ t"
  unfolding trim_start_def by (induction s) auto

lemma trim_text_prefix: "\<exists>r. trim_start s = trim_text s @ r"
proof -
  have "trim_start s = rev (dropWhile is_whitespace (rev (trim_start s))) @ rev (takeWhile is_whitespace (rev (trim_start s)))"
    by (metis rev_append rev_rev_ident takeWhile_dropWhile_id)
  then show ?thesis unfolding trim_text_def by blast
qed

lemma trim_start_idem: "trim_start (trim_text s) = trim_text s"
proof (cases "trim_text s")
  case (Cons c cs)
  moreover obtain r where "trim_start s = trim_text s @ r" using trim_text_prefix by blast
  ultimately have "hd (trim_start s) = c" "trim_start s \<noteq> []" by simp_all
  then have "\<not> is_whitespace c" using hd_dropWhile [of is_whitespace s] by (simp add: trim_start_def)
  then show ?thesis using Cons by (simp add: trim_start_def)
qed (simp add: trim_start_def)

text \<open>An envelope begins with one of the starts.\<close>

lemma decoded_starts:
  assumes "json_law parse" "parse_text_tool_calls parse content \<noteq> None"
  shows "\<exists>p\<in>set envelope_starts. starts_with (trim_text content) p"
proof -
  from assms(2) obtain payloads where payloads: "text_tool_call_payloads content = Some payloads"
    "collect (map (\<lambda>p. Option.bind (parse p) calls_of_value) payloads) \<noteq> None"
    by (auto simp: parse_text_tool_calls_def split: option.splits)
  show ?thesis
  proof (cases "starts_with (trim_text content) fence \<or> starts_with (trim_text content) call_tag")
    case True
    then show ?thesis by (auto simp: envelope_starts_def)
  next
    case False
    then have none: "strip_prefix (fence @ ''json'') (trim_text content) = None" "strip_prefix fence (trim_text content) = None"
      "strip_prefix call_tag (trim_text content) = None"
      by (auto simp: starts_with_iff strip_prefix_Some simp flip: not_Some_eq)
    then have "payloads = [trim_text content]" using payloads(1) by (simp add: text_tool_call_payloads_def Let_def)
    then obtain v where v: "parse (trim_text content) = Some v" "calls_of_value v \<noteq> None"
      using payloads(2) by (auto split: option.splits simp: bind_eq_Some_conv)
    have "(\<exists>m. v = JObj m) \<or> (\<exists>xs. v = JArr xs)" using v(2) by (cases v) auto
    then have "starts_with (trim_text content) ''{'' \<or> starts_with (trim_text content) ''[''"
      using assms(1) v(1) trim_start_idem [of content] unfolding json_law_def by fastforce
    then show ?thesis by (auto simp: envelope_starts_def)
  qed
qed

lemma ollama_law: "json_law parse \<Longrightarrow> decoder_law (ollama_decoder parse)"
  unfolding decoder_law_def
proof (intro allI impI)
  fix s t assume law: "json_law parse" and found: "xd_decode (ollama_decoder parse) (s @ t) \<noteq> None"
  show "xd_may_match (ollama_decoder parse) s"
  proof (cases "trim_start s = []")
    case False
    from found obtain p where p: "p \<in> set envelope_starts" "starts_with (trim_text (s @ t)) p"
      using decoded_starts [OF law, of "s @ t"] by (auto simp: ollama_decoder_def)
    then have "starts_with (trim_start s @ t) p"
      using trim_text_prefix [of "s @ t"] trim_start_append [OF False] by (auto simp: starts_with_iff)
    then have "starts_with (trim_start s) p \<or> starts_with p (trim_start s)"
      by (auto simp: starts_with_iff append_eq_append_conv2)
    then show ?thesis using p(1) by (auto simp: ollama_decoder_def may_match_def Let_def)
  qed (simp add: ollama_decoder_def may_match_def)
qed

end
