(* ===== verification/Rig_Messages.thy ===== *)
theory Rig_Messages
  imports Tool_Text
begin

text \<open>
  The translation between the vocabulary of the router and that of \<^verbatim>\<open>rig\<close>, the library every
  remote model is called through (\<^verbatim>\<open>smista-providers/src/agent.rs\<close>, the free functions).

  The types of \<^verbatim>\<open>rig\<close> are records with the fields the code reads or writes. What \<^verbatim>\<open>rig\<close>
  itself computes (the identity it gives a call, the number an \<open>f32\<close> becomes in JSON) is a field of
  \<open>rig_library\<close>.
\<close>

section \<open>What rig exchanges\<close>

record rig_call =
  gc_id :: string
  gc_provider :: "string option"
  gc_name :: string
  gc_arguments :: json

datatype reasoning_part = ReasoningText string | ReasoningSummary string | OpaqueReasoning

datatype reply_item = ReplyText string | ReplyCall rig_call
  | ReplyReasoning "reasoning_part list" | ReplyImage

record rig_result =
  gt_call :: string
  gt_provider :: "string option"
  gt_name :: string
  gt_content :: string

datatype user_content = UserText string | UserResult rig_result

datatype rig_message = RigSystem string
  | RigUser "user_content list"
  | RigAssistant "string option" "reply_item list"

record rig_usage =
  ru_input :: nat
  ru_output :: nat
  ru_total :: nat
  ru_cached :: nat
  ru_reasoning :: nat

definition new_rig_usage :: rig_usage where
  "new_rig_usage = \<lparr>ru_input = 0, ru_output = 0, ru_total = 0, ru_cached = 0, ru_reasoning = 0\<rparr>"

definition add_usage :: "rig_usage \<Rightarrow> rig_usage \<Rightarrow> rig_usage" where
  "add_usage a b = \<lparr>ru_input = ru_input a + ru_input b, ru_output = ru_output a + ru_output b,
     ru_total = ru_total a + ru_total b, ru_cached = ru_cached a + ru_cached b,
     ru_reasoning = ru_reasoning a + ru_reasoning b\<rparr>"

datatype rig_choice = RigRequired | RigNone

record rig_request =
  gq_prompt :: rig_message
  gq_preamble :: string
  gq_history :: "rig_message list"
  gq_tools :: "tool_definition list"
  gq_temperature :: "nat option"
  gq_max_tokens :: "nat option"
  gq_extra :: "json option"
  gq_choice :: "rig_choice option"

record rig_reply =
  gr_choice :: "reply_item list"
  gr_usage :: rig_usage
  gr_message_id :: "string option"
  gr_raw :: "json option"

record rig_failure =
  gf_error :: completion_error
  gf_text :: string

datatype rig_item = RigText string
  | RigToolCall rig_call string
  | RigCallName string string
  | RigCallDelta string string
  | RigReasoning "reasoning_part list"
  | RigReasoningDelta string
  | RigFinal rig_usage
  | RigUnknown

record rig_library =
  rl_new_or_mint :: "string \<Rightarrow> string"
  rl_wire_call_id :: "rig_call \<Rightarrow> string"
  rl_json_float :: "nat \<Rightarrow> json"

text \<open>
  An id that is not empty is kept, and a call the provider gave no id of its own goes by the one it
  has.
\<close>

definition rig_law :: "rig_library \<Rightarrow> bool" where
  "rig_law rig \<longleftrightarrow> (\<forall>i. i \<noteq> [] \<longrightarrow> rl_new_or_mint rig i = i) \<and>
     (\<forall>c. gc_provider c = None \<longrightarrow> rl_wire_call_id rig c = gc_id c)"

section \<open>Requests\<close>

definition new_rig_call :: "rig_library \<Rightarrow> string \<Rightarrow> string \<Rightarrow> json \<Rightarrow> rig_call" where
  "new_rig_call rig i n a =
     \<lparr>gc_id = rl_new_or_mint rig i, gc_provider = None, gc_name = n, gc_arguments = a\<rparr>"

text \<open>Later calls with the same id win, as in a hash map.\<close>

definition tool_result_names :: "request_message list \<Rightarrow> string \<rightharpoonup> string" where
  "tool_result_names messages =
     fold (\<lambda>call names. names(tc_call_id call \<mapsto> tc_name call))
       (concat (map (\<lambda>m. case m of AssistantMsg _ calls \<Rightarrow> calls | _ \<Rightarrow> []) messages)) Map.empty"

fun into_rig_message :: "rig_library \<Rightarrow> (string \<rightharpoonup> string) \<Rightarrow> request_message \<Rightarrow> rig_message" where
  "into_rig_message rig names (SystemMsg content) = RigSystem content"
| "into_rig_message rig names (UserMsg content) = RigUser [UserText content]"
| "into_rig_message rig names (AssistantMsg content calls) =
     (let items = (if content = [] then [] else [ReplyText content]) @
            map (\<lambda>c. ReplyCall (new_rig_call rig (tc_call_id c) (tc_name c) (tc_arguments c))) calls
      in RigAssistant None (if items = [] then [ReplyText []] else items))"
| "into_rig_message rig names (ToolResultMsg call_id content is_error) =
     RigUser [UserResult \<lparr>gt_call = rl_new_or_mint rig call_id, gt_provider = None,
       gt_name = (case names call_id of Some n \<Rightarrow> n | None \<Rightarrow> []), gt_content = content\<rparr>]"

fun into_rig_tool_choice :: "tool_choice \<Rightarrow> rig_choice option" where
  "into_rig_tool_choice AutoChoice = None"
| "into_rig_tool_choice RequiredChoice = Some RigRequired"
| "into_rig_tool_choice NoChoice = Some RigNone"

definition additional_params :: "rig_library \<Rightarrow> model_parameters \<Rightarrow> json option" where
  "additional_params rig p =
     (let extra = (case mp_top_p p of
                     Some v \<Rightarrow> bt_insert ''top_p'' (rl_json_float rig v) (mp_extra p)
                   | None \<Rightarrow> mp_extra p)
      in if extra = [] then None else Some (JObj extra))"

section \<open>Replies\<close>

definition api_tool_call :: "rig_library \<Rightarrow> rig_call \<Rightarrow> tool_call" where
  "api_tool_call rig call =
     \<lparr>tc_call_id = rl_wire_call_id rig call, tc_name = gc_name call, tc_arguments = gc_arguments call\<rparr>"

record pricing =
  pr_input :: "rat option"
  pr_output :: "rat option"

text \<open>A side is priced when its price and its count are known.\<close>

definition side_cost :: "nat option \<Rightarrow> rat option \<Rightarrow> rat option" where
  "side_cost tokens price =
     Option.bind tokens (\<lambda>t. map_option (\<lambda>p. rat_of_nat t * p / 1000000) price)"

definition actual_cost :: "pricing \<Rightarrow> nat option \<Rightarrow> nat option \<Rightarrow> rat option" where
  "actual_cost p input_tokens output_tokens =
     (case (side_cost input_tokens (pr_input p), side_cost output_tokens (pr_output p)) of
        (None, None) \<Rightarrow> None
      | (i, out) \<Rightarrow> Some ((case i of Some v \<Rightarrow> v | None \<Rightarrow> 0) + (case out of Some v \<Rightarrow> v | None \<Rightarrow> 0)))"

definition reported :: "nat \<Rightarrow> nat option" where
  "reported n = (if n = 0 then None else Some n)"

definition api_usage :: "pricing \<Rightarrow> rig_usage \<Rightarrow> usage" where
  "api_usage p u =
     no_usage\<lparr>u_input_tokens := reported (ru_input u), u_output_tokens := reported (ru_output u),
       u_cached_tokens := reported (ru_cached u), u_reasoning_tokens := reported (ru_reasoning u),
       u_total_tokens := reported (ru_total u),
       u_actual_cost := actual_cost p (reported (ru_input u)) (reported (ru_output u))\<rparr>"

fun json_index :: "json \<Rightarrow> nat \<Rightarrow> json option" where
  "json_index (JArr items) i = (if i < length items then Some (items ! i) else None)"
| "json_index _ i = None"

text \<open>A key that is present decides, also when its value is no text.\<close>

definition finish_reason_of :: "json option \<Rightarrow> bool \<Rightarrow> finish_reason" where
  "finish_reason_of raw has_tool_calls =
     (let fallback = (if has_tool_calls then ToolCallsFinish else StopFinish)
      in case raw of
           None \<Rightarrow> fallback
         | Some v \<Rightarrow>
             let pick = (case json_get v ''stop_reason'' of Some r \<Rightarrow> Some r
               | None \<Rightarrow> (case json_get v ''finish_reason'' of Some r \<Rightarrow> Some r
               | None \<Rightarrow> (case json_get v ''done_reason'' of Some r \<Rightarrow> Some r
               | None \<Rightarrow> Option.bind (json_get v ''choices'') (\<lambda>cs.
                    Option.bind (json_index cs 0) (\<lambda>c. json_get c ''finish_reason'')))))
             in case Option.bind pick json_str of
                  None \<Rightarrow> fallback
                | Some r \<Rightarrow>
                    if r \<in> {''end_turn'', ''stop'', ''stop_sequence''} then StopFinish
                    else if r \<in> {''max_tokens'', ''length''} then LengthFinish
                    else if r \<in> {''tool_use'', ''tool_calls'', ''function_call''} then ToolCallsFinish
                    else if r \<in> {''content_filter'', ''refusal''} then ContentFilterFinish
                    else OtherFinish r)"

section \<open>Streams\<close>

definition reasoning_text :: "reasoning_part list \<Rightarrow> string" where
  "reasoning_text parts = concat (map (\<lambda>p. case p of
     ReasoningText t \<Rightarrow> t | ReasoningSummary t \<Rightarrow> t | OpaqueReasoning \<Rightarrow> []) parts)"

text \<open>One item of \<^verbatim>\<open>rig\<close>, given the calls already started: at most one event.\<close>

fun map_stream_item ::
  "rig_library \<Rightarrow> pricing \<Rightarrow> provider \<Rightarrow> string \<Rightarrow> (rig_failure, rig_item) result \<Rightarrow> string set \<Rightarrow>
   provider_item option \<times> string set" where
  "map_stream_item rig p pv model (Inr (RigText t)) started = (Some (Ok (TextDelta t)), started)"
| "map_stream_item rig p pv model (Inr (RigToolCall call i)) started =
     (let c = api_tool_call rig call
      in (Some (Ok (ToolCallRequested (tc_call_id c) (tc_name c) (tc_arguments c))), insert i started))"
| "map_stream_item rig p pv model (Inr (RigCallName i n)) started =
     (if i \<in> started then None else Some (Ok (ToolCallStarted i n)), insert i started)"
| "map_stream_item rig p pv model (Inr (RigCallDelta i d)) started = (None, started)"
| "map_stream_item rig p pv model (Inr (RigReasoning parts)) started =
     (let t = reasoning_text parts in (if t = [] then None else Some (Ok (ReasoningDelta t)), started))"
| "map_stream_item rig p pv model (Inr (RigReasoningDelta t)) started = (Some (Ok (ReasoningDelta t)), started)"
| "map_stream_item rig p pv model (Inr (RigFinal u)) started = (Some (Ok (UsageEvent (api_usage p u))), started)"
| "map_stream_item rig p pv model (Inr RigUnknown) started = (None, started)"
| "map_stream_item rig p pv model (Inl e) started =
     (Some (Err (provider_error_of (category_from_completion (gf_error e)) pv (Some model) (gf_text e))), started)"

fun map_items ::
  "rig_library \<Rightarrow> pricing \<Rightarrow> provider \<Rightarrow> string \<Rightarrow> string set \<Rightarrow> (rig_failure, rig_item) result list \<Rightarrow>
   provider_item list" where
  "map_items rig p pv model started [] = []"
| "map_items rig p pv model started (i # items) =
     (case map_stream_item rig p pv model i started of
        (None, started') \<Rightarrow> map_items rig p pv model started' items
      | (Some event, started') \<Rightarrow> event # map_items rig p pv model started' items)"

text \<open>A failure ends the stream.\<close>

fun until_error :: "provider_item list \<Rightarrow> provider_item list" where
  "until_error [] = []"
| "until_error (Inl e # items) = [Inl e]"
| "until_error (Inr event # items) = Inr event # until_error items"

definition stream_items ::
  "rig_library \<Rightarrow> text_decoder option \<Rightarrow> pricing \<Rightarrow> provider \<Rightarrow> string \<Rightarrow>
   (rig_failure, rig_item) result list \<Rightarrow> provider_item list" where
  "stream_items rig decoder p pv model items =
     filter_items (new_filter decoder)
       (until_error (map_items rig p pv model {} items @ [Ok DoneEvent]))"

text \<open>A finished completion, replayed as a stream.\<close>

definition completion_events :: "completion_response \<Rightarrow> provider_item list" where
  "completion_events r =
     (if cr_content r = [] then [] else [Ok (TextDelta (cr_content r))]) @
     map (\<lambda>c. Ok (ToolCallRequested (tc_call_id c) (tc_name c) (tc_arguments c))) (cr_tool_calls r) @
     (if cr_usage r = no_usage then [] else [Ok (UsageEvent (cr_usage r))]) @ [Ok DoneEvent]"

end
