(* ===== verification/Rig_Streams.thy ===== *)
theory Rig_Streams
  imports Rig_Messages
begin

text \<open>
  What a stream of \<^verbatim>\<open>rig\<close> becomes: it ends with one terminal item, a call is announced at most once,
  and its text and calls are those a completion of the same reply would return.
\<close>

section \<open>The events of a stream\<close>

definition rig_text :: "(rig_failure, rig_item) result list \<Rightarrow> string" where
  "rig_text items = concat (map (\<lambda>i. case i of Inr (RigText t) \<Rightarrow> t | _ \<Rightarrow> []) items)"

definition rig_calls :: "(rig_failure, rig_item) result list \<Rightarrow> rig_call list" where
  "rig_calls items = concat (map (\<lambda>i. case i of Inr (RigToolCall c _) \<Rightarrow> [c] | _ \<Rightarrow> []) items)"

definition starts_in :: "provider_item list \<Rightarrow> string list" where
  "starts_in items = concat (map (\<lambda>i. case i of Inr (ToolCallStarted c _) \<Rightarrow> [c] | _ \<Rightarrow> []) items)"

definition announces :: "(rig_failure, rig_item) result \<Rightarrow> bool" where
  "announces i \<longleftrightarrow> (\<exists>c n. i = Inr (RigCallName c n))"

lemma map_items_in:
  "text_in (map_items rig p pv model st items) = rig_text items \<and>
   calls_in (map_items rig p pv model st items) = map (api_tool_call rig) (rig_calls items)"
proof (induction items arbitrary: st)
  case (Cons i items)
  have "text_in (map_items rig p pv model st' items) = rig_text items"
    "calls_in (map_items rig p pv model st' items) = map (api_tool_call rig) (rig_calls items)" for st'
    using Cons.IH [of st'] by simp_all
  then show ?case
    by (cases "(rig, p, pv, model, i, st)" rule: map_stream_item.cases)
      (auto simp: rig_text_def rig_calls_def api_tool_call_def Let_def text_in_def calls_in_def)
qed (simp add: rig_text_def rig_calls_def)

lemma map_items_running:
  "\<forall>i\<in>set items. \<exists>x. i = Inr x \<Longrightarrow> \<forall>e\<in>set (map_items rig p pv model st items). is_running e"
proof (induction items arbitrary: st)
  case (Cons i items)
  from Cons show ?case
    by (cases "(rig, p, pv, model, i, st)" rule: map_stream_item.cases) (auto simp: Let_def)
qed simp

lemma map_items_native:
  "\<exists>e\<in>set (map_items rig p pv model st items). is_native e \<Longrightarrow>
   rig_calls items \<noteq> [] \<or> (\<exists>i\<in>set items. announces i)"
proof (induction items arbitrary: st)
  case (Cons i items)
  have rest: "rig_calls items \<noteq> [] \<or> (\<exists>i\<in>set items. announces i)"
    if "\<exists>e\<in>set (map_items rig p pv model st' items). is_native e" for st' using Cons.IH that by blast
  show ?case using Cons.prems rest
    by (cases "(rig, p, pv, model, i, st)" rule: map_stream_item.cases)
      (auto simp: Let_def rig_calls_def announces_def split: if_splits; blast)+
qed simp

lemma map_items_calls_native:
  "rig_calls items \<noteq> [] \<Longrightarrow> \<exists>e\<in>set (map_items rig p pv model st items). is_native e"
proof (induction items arbitrary: st)
  case (Cons i items)
  from Cons show ?case
    by (cases "(rig, p, pv, model, i, st)" rule: map_stream_item.cases) (auto simp: Let_def rig_calls_def)
qed (simp add: rig_calls_def)

lemma until_error_running: "\<forall>e\<in>set items. is_running e \<Longrightarrow> until_error (items @ [Inr x]) = items @ [Inr x]"
proof (induction items)
  case (Cons e items)
  then show ?case by (cases e) auto
qed simp

text \<open>A stream without failures carries what a completion recovers from the same reply.\<close>

lemma streamed_reply:
  assumes "\<forall>i\<in>set items. \<exists>x. i = Inr x"
    and "\<forall>d. decoder = Some d \<longrightarrow> decoder_law d"
    and "rig_calls items = [] \<longrightarrow> \<not> (\<exists>i\<in>set items. announces i)"
  shows "(text_in (stream_items rig decoder p pv model items), calls_in (stream_items rig decoder p pv model items)) =
    (case recover decoder (rig_text items) (map (api_tool_call rig) (rig_calls items)) of (t, cs, _) \<Rightarrow> (t, cs))"
proof -
  let ?body = "map_items rig p pv model {} items"
  let ?f = "new_filter decoder"
  have running: "\<forall>e\<in>set ?body. is_running e" using map_items_running [OF assms(1)] by blast
  have out: "stream_items rig decoder p pv model items = filter_items ?f (?body @ [Inr DoneEvent])"
    using until_error_running [OF running] by (simp add: stream_items_def)
  note parts = map_items_in [of rig p pv model "{}" items]
  have start: "only_usage (tf_deferred ?f)" "\<not> tf_native ?f" "held ?f = []"
    by (auto simp: new_filter_def held_def split: option.split)
  show ?thesis
  proof (cases "decoder = None \<or> rig_calls items \<noteq> []")
    case True
    then have "tf_native ?f \<or> tf_candidate ?f = None \<or> (\<exists>e\<in>set ?body. is_native e)"
      using map_items_calls_native by (auto simp: new_filter_def)
    from filter_passes [OF start(1) running this] True parts start(3) show ?thesis
      unfolding out by (auto simp: recover_def)
  next
    case False
    then obtain d where d: "decoder = Some d" "rig_calls items = []" by auto
    have "\<forall>e\<in>set ?body. is_running e \<and> \<not> is_native e"
      using running map_items_native [of rig p pv model "{}" items] assms(3) d(2) by blast
    from filter_promotes [OF start(1) this start(2), of "[]" d] d assms(2) parts show ?thesis
      unfolding out by (auto simp: recover_def new_filter_def split: option.split)
  qed
qed

section \<open>Calls are announced once\<close>

lemma starts_simps [simp]: "starts_in [] = []" "starts_in (a @ b) = starts_in a @ starts_in b"
  by (simp_all add: starts_in_def)

lemma starts_cons [simp]:
  "starts_in (Inl e # r) = starts_in r" "starts_in (Inr (TextDelta t) # r) = starts_in r"
  "starts_in (Inr (ToolCallStarted c n) # r) = c # starts_in r"
  "starts_in (Inr (ToolCallRequested c n v) # r) = starts_in r"
  "starts_in (Inr (UsageEvent u) # r) = starts_in r" "starts_in (Inr (ReasoningDelta t) # r) = starts_in r"
  "starts_in (Inr (ApprovalRequired t) # r) = starts_in r" "starts_in (Inr (ToolResult c t b) # r) = starts_in r"
  "starts_in (Inr (ErrorEvent c t) # r) = starts_in r" "starts_in (Inr DoneEvent # r) = starts_in r"
  by (simp_all add: starts_in_def)

lemma only_usage_starts: "only_usage items \<Longrightarrow> starts_in items = []"
  by (induction items) (auto simp: only_usage_def starts_in_def)

lemma promoted_starts [simp]: "starts_in (promoted calls) = []"
  by (auto simp: promoted_def starts_in_def)

lemma push_starts:
  assumes "filter_push i f = (out, f')" "only_usage (tf_deferred f)"
  shows "starts_in out = starts_in [i] \<and> only_usage (tf_deferred f')"
proof (cases i)
  case (Inr event)
  then show ?thesis using assms only_usage_starts [OF assms(2)]
    by (cases event) (auto simp: push_text_def push_native_def finish_filter_def flush_candidate_def Let_def split: option.splits if_splits)
next
  case (Inl e)
  then show ?thesis using assms only_usage_starts [OF assms(2)]
    by (auto simp: flush_candidate_def split: option.splits)
qed

lemma filter_starts: "only_usage (tf_deferred f) \<Longrightarrow> starts_in (filter_items f items) = starts_in items"
proof (induction items arbitrary: f)
  case (Cons i items)
  obtain out f' where p: "filter_push i f = (out, f')" by fastforce
  from push_starts [OF p Cons.prems] Cons.IH [of f'] show ?case
    using p by (simp add: starts_in_def)
qed simp

lemma until_error_starts: "\<exists>rest. starts_in items = starts_in (until_error items) @ rest"
  by (induction items rule: until_error.induct) (auto simp: starts_in_def)

lemma map_items_starts:
  "distinct (starts_in (map_items rig p pv model st items)) \<and>
   set (starts_in (map_items rig p pv model st items)) \<inter> st = {}"
proof (induction items arbitrary: st)
  case (Cons i items)
  have "distinct (starts_in (map_items rig p pv model st' items))"
    "set (starts_in (map_items rig p pv model st' items)) \<inter> st' = {}" for st' using Cons.IH [of st'] by simp_all
  note this [of st] this [of "insert _ st"]
  then show ?case
    by (cases "(rig, p, pv, model, i, st)" rule: map_stream_item.cases)
      (auto simp: Let_def starts_in_def api_tool_call_def)
qed simp

lemma announced_once: "distinct (starts_in (stream_items rig decoder p pv model items))"
proof -
  let ?body = "map_items rig p pv model {} items"
  have "starts_in (stream_items rig decoder p pv model items) = starts_in (until_error (?body @ [Inr DoneEvent]))"
    by (simp add: stream_items_def filter_starts new_filter_def)
  moreover obtain rest where "starts_in (?body @ [Inr DoneEvent]) = starts_in (until_error (?body @ [Inr DoneEvent])) @ rest"
    using until_error_starts by blast
  moreover have "starts_in (?body @ [Inr DoneEvent]) = starts_in ?body" by (simp add: starts_in_def)
  ultimately show ?thesis using map_items_starts [of rig p pv model "{}" items] by (metis distinct_append)
qed

section \<open>The end of a stream\<close>

definition terminates :: "provider_item list \<Rightarrow> bool" where
  "terminates items \<longleftrightarrow> (\<exists>front stop. items = front @ [stop] \<and> (\<forall>i\<in>set front. is_running i) \<and> \<not> is_running stop)"

lemma until_error_terminates:
  assumes "\<forall>e\<in>set items. e \<noteq> Inr DoneEvent"
  shows "terminates (until_error (items @ [Inr DoneEvent]))"
  using assms
proof (induction items)
  case Nil
  then show ?case by (auto simp: terminates_def)
next
  case (Cons e items)
  show ?case
  proof (cases e)
    case (Inl x)
    then show ?thesis by (auto simp: terminates_def)
  next
    case (Inr event)
    from Cons obtain front stop where "until_error (items @ [Inr DoneEvent]) = front @ [stop]"
      "\<forall>i\<in>set front. is_running i" "\<not> is_running stop" by (auto simp: terminates_def)
    moreover have "is_running e" using Cons.prems Inr by (cases event) auto
    ultimately show ?thesis using Inr unfolding terminates_def
      by (intro exI [of _ "e # front"] exI [of _ stop]) simp
  qed
qed

lemma map_items_no_done: "e \<in> set (map_items rig p pv model st items) \<Longrightarrow> e \<noteq> Inr DoneEvent"
proof (induction items arbitrary: st)
  case (Cons i items)
  from Cons show ?case
    by (cases "(rig, p, pv, model, i, st)" rule: map_stream_item.cases) (auto simp: Let_def split: if_splits)
qed simp

lemma only_usage_running: "only_usage items \<Longrightarrow> \<forall>i\<in>set items. is_running i"
  by (auto simp: only_usage_def)

lemma promoted_running: "i \<in> set (promoted calls) \<Longrightarrow> is_running i"
  by (auto simp: promoted_def)

lemma push_running:
  assumes "filter_push i f = (out, f')" "is_running i" "only_usage (tf_deferred f)"
  shows "\<forall>x\<in>set out. is_running x"
proof (cases i)
  case (Inr event)
  then show ?thesis using assms only_usage_running [OF assms(3)]
    by (cases event) (auto simp: push_text_def push_native_def flush_candidate_def Let_def
        split: option.splits if_splits)
qed (use assms in simp)

lemma push_end:
  assumes "filter_push i f = (out, f')" "\<not> is_running i" "only_usage (tf_deferred f)"
  shows "terminates out"
proof -
  have "\<exists>front stop. out = front @ [stop] \<and> (\<forall>x\<in>set front. is_running x) \<and> \<not> is_running stop"
  proof (cases i)
    case (Inr event)
    then have "i = Inr DoneEvent" using assms(2) by (cases event) auto
    then show ?thesis using assms(1) only_usage_running [OF assms(3)] promoted_running
      by (auto simp: finish_filter_def flush_candidate_def Let_def split: option.splits if_splits)
  next
    case (Inl e)
    then show ?thesis using assms(1) only_usage_running [OF assms(3)]
      by (auto simp: flush_candidate_def split: option.splits if_splits)
  qed
  then show ?thesis by (simp add: terminates_def)
qed

lemma filter_terminates: "only_usage (tf_deferred f) \<Longrightarrow> terminates items \<Longrightarrow> terminates (filter_items f items)"
proof (induction items arbitrary: f)
  case (Cons i items)
  obtain out f' where p: "filter_push i f = (out, f')" by fastforce
  from Cons.prems(2) obtain front stop where
    split: "i # items = front @ [stop]" "\<forall>x\<in>set front. is_running x" "\<not> is_running stop" by (auto simp: terminates_def)
  show ?case
  proof (cases "items = []")
    case True
    then show ?thesis using split push_end [OF p _ Cons.prems(1)] p by simp
  next
    case False
    then have i: "is_running i" and rest: "terminates items"
      using split by (cases front; auto simp: terminates_def)+
    have "terminates (filter_items f' items)" using Cons.IH push_step(1) [OF p i Cons.prems(1)] rest by blast
    then obtain fr en where "filter_items f' items = fr @ [en]" "\<forall>x\<in>set fr. is_running x" "\<not> is_running en"
      by (auto simp: terminates_def)
    then show ?thesis using p push_running [OF p i Cons.prems(1)] unfolding terminates_def
      by (intro exI [of _ "out @ fr"] exI [of _ en]) auto
  qed
qed (simp add: terminates_def)

lemma stream_terminates: "terminates (stream_items rig decoder p pv model items)"
proof -
  have "terminates (until_error (map_items rig p pv model {} items @ [Inr DoneEvent]))"
    using map_items_no_done by (intro until_error_terminates) blast
  then show ?thesis unfolding stream_items_def by (intro filter_terminates) (simp_all add: new_filter_def)
qed

section \<open>A completion replayed\<close>

lemma completion_terminates: "terminates (completion_events r)"
  unfolding terminates_def completion_events_def
  by (intro exI [of _ "(if cr_content r = [] then [] else [Inr (TextDelta (cr_content r))]) @
     map (\<lambda>c. Inr (ToolCallRequested (tc_call_id c) (tc_name c) (tc_arguments c))) (cr_tool_calls r) @
     (if cr_usage r = no_usage then [] else [Inr (UsageEvent (cr_usage r))])"] exI [of _ "Inr DoneEvent"]) auto

definition heard :: "provider_item list \<Rightarrow> stream_item list" where
  "heard items = map (\<lambda>i. \<lparr>si_cancelled = False, si_item = Some i\<rparr>) items"

lemma heard_cons: "heard (i # items) = \<lparr>si_cancelled = False, si_item = Some i\<rparr> # heard items"
  by (simp add: heard_def)

lemma aggregate_calls:
  "aggregate_from a (heard (map (\<lambda>c. Inr (ToolCallRequested (tc_call_id c) (tc_name c) (tc_arguments c))) calls @ rest)) =
   aggregate_from (a\<lparr>ag_tool_calls := ag_tool_calls a @ calls\<rparr>) (heard rest)"
proof (induction calls arbitrary: a)
  case (Cons c calls)
  have same: "\<lparr>tc_call_id = tc_call_id c, tc_name = tc_name c, tc_arguments = tc_arguments c\<rparr> = c" by simp
  show ?case using Cons.IH [of "a\<lparr>ag_tool_calls := ag_tool_calls a @ [c]\<rparr>"]
    by (simp add: heard_cons same del: tool_call.surjective [symmetric])
qed simp

lemma replayed_completion:
  "\<exists>sent. aggregate_stream (heard (completion_events r)) =
     (sent, Ok (r\<lparr>cr_finish_reason := (if cr_tool_calls r = [] then StopFinish else ToolCallsFinish)\<rparr>))"
proof -
  let ?tail = "(if cr_usage r = no_usage then [] else [Inr (UsageEvent (cr_usage r))]) @ [Inr DoneEvent]"
  have final: "aggregate_from a (heard ?tail) = ([], Ok (aggregate_response (a\<lparr>ag_usage := cr_usage r\<rparr>)))"
    if "ag_usage a = no_usage" for a
    using that by (cases a) (simp add: heard_def)
  have rest: "aggregate_from a (heard (map (\<lambda>c. Inr (ToolCallRequested (tc_call_id c) (tc_name c) (tc_arguments c)))
        (cr_tool_calls r) @ ?tail)) =
      ([], Ok (r\<lparr>cr_finish_reason := (if cr_tool_calls r = [] then StopFinish else ToolCallsFinish)\<rparr>))"
    if "a = no_aggregate\<lparr>ag_content := cr_content r\<rparr>" for a
    unfolding aggregate_calls using that
    by (subst final) (simp_all add: no_aggregate_def aggregate_response_def)
  show ?thesis
    using rest [of no_aggregate] rest [of "no_aggregate\<lparr>ag_content := cr_content r\<rparr>"]
    by (simp add: aggregate_stream_def completion_events_def heard_cons no_aggregate_def)
qed

end
