(* ===== verification/Agent.thy ===== *)
theory Agent
  imports Rig_Streams Memory
begin

text \<open>
  The agent that drives one remote model (\<^verbatim>\<open>smista-providers/src/agent.rs\<close>): its preamble, a
  completion with the memory calls it runs itself, and a stream, which runs none.

  The model behind \<^verbatim>\<open>rig\<close> is a function of the turn and the request; the memory storage is the
  seam of theory \<open>Memory\<close>, on a state of any type.
\<close>

definition memories_max_records :: nat where
  "memories_max_records = 40"

definition max_internal_tool_turns :: nat where
  "max_internal_tool_turns = 8"

record 's agent_env =
  ae_rig :: rig_library
  ae_send :: "nat \<Rightarrow> rig_request \<Rightarrow> (rig_failure, rig_reply) result"
  ae_stream :: "rig_request \<Rightarrow> (rig_failure, (rig_failure, rig_item) result list) result"
  ae_parse :: "string \<Rightarrow> json option"
  ae_ops :: "memory_store \<Rightarrow> 's memory_ops"
  ae_args_error :: "json \<Rightarrow> string"
  ae_storage_text :: "storage_error \<Rightarrow> string"
  ae_ellipsis :: string

record agent =
  an_preamble :: string
  an_descriptor :: model_descriptor

section \<open>The memory tool\<close>

definition memory_tool_definition :: tool_definition where
  "memory_tool_definition =
     \<lparr>td_name = ''memory'',
      td_description =
        ''Record or forget a memory addressed by '' @ [CHR 0x60] @ ''key'' @ [CHR 0x60] @ ''.'' @ [newline, newline] @
        ''Use scope '' @ [CHR 0x60] @ ''user'' @ [CHR 0x60] @ '' for durable facts about the user that should '' @
        ''persist across sessions (preferences, identity, long-lived '' @
        ''context). Use scope '' @ [CHR 0x60] @ ''session'' @ [CHR 0x60] @ '' for working memory tied to the '' @
        ''current session only.'' @ [newline, newline] @
        ''Operations:'' @ [newline] @
        ''- '' @ [CHR 0x60] @ ''record'' @ [CHR 0x60] @ '': store '' @ [CHR 0x60] @ ''value'' @ [CHR 0x60] @
        '' under '' @ [CHR 0x60] @ ''key'' @ [CHR 0x60] @ '', replacing any existing '' @
        ''fact filed under the same key.'' @ [newline] @
        ''- '' @ [CHR 0x60] @ ''forget'' @ [CHR 0x60] @ '': remove the fact filed under '' @
        [CHR 0x60] @ ''key'' @ [CHR 0x60] @ ''.'' @ [newline, newline] @
        ''You do not need to recall memories: everything recorded is '' @
        ''already provided to you as context at the start of the turn.'',
      td_parameters =
        JObj [(''type'', JStr ''object''),
          (''properties'', JObj
            [(''op'', JObj [(''type'', JStr ''string''), (''enum'', JArr [JStr ''record'', JStr ''forget'']),
               (''description'', JStr ''The operation to perform.'')]),
             (''scope'', JObj [(''type'', JStr ''string''), (''enum'', JArr [JStr ''user'', JStr ''session'']),
               (''description'',
                JStr ''Which store to target: durable user memory or session-only working memory.'')]),
             (''key'', JObj [(''type'', JStr ''string''),
               (''description'',
                JStr ''Topic the fact is filed under; reuse the same key to replace or forget it.'')]),
             (''value'', JObj [(''type'', JStr ''string''),
               (''description'', JStr (''The fact to record. Required for '' @ [CHR 0x60] @ ''record'' @
                  [CHR 0x60] @ '', ignored for '' @ [CHR 0x60] @ ''forget'' @ [CHR 0x60] @ ''.''))])]),
          (''required'', JArr [JStr ''op'', JStr ''scope'', JStr ''key''])]\<rparr>"

text \<open>
  The arguments, as serde reads them: an object in which other fields are ignored, or the fields
  in order; a variant is its name or an object from its name to null.
\<close>

fun variant_name :: "json \<Rightarrow> string option" where
  "variant_name (JStr s) = Some s"
| "variant_name (JObj [(s, JNull)]) = Some s"
| "variant_name _ = None"

definition memory_op_of :: "json \<Rightarrow> memory_op option" where
  "memory_op_of v =
     (case variant_name v of
        Some n \<Rightarrow> if n = ''record'' then Some RecordOp else if n = ''forget'' then Some ForgetOp else None
      | None \<Rightarrow> None)"

definition memory_store_of :: "json \<Rightarrow> memory_store option" where
  "memory_store_of v =
     (case variant_name v of
        Some n \<Rightarrow> if n = ''user'' then Some UserStore else if n = ''session'' then Some SessionStore else None
      | None \<Rightarrow> None)"

fun value_of :: "json \<Rightarrow> string option option" where
  "value_of JNull = Some None"
| "value_of (JStr s) = Some (Some s)"
| "value_of _ = None"

definition args_from :: "json \<Rightarrow> json \<Rightarrow> json \<Rightarrow> json \<Rightarrow> memory_args option" where
  "args_from op scope key value =
     (case (memory_op_of op, memory_store_of scope, json_str key, value_of value) of
        (Some o', Some s, Some k, Some v) \<Rightarrow> Some \<lparr>ma_op = o', ma_scope = s, ma_key = k, ma_value = v\<rparr>
      | _ \<Rightarrow> None)"

fun memory_args_of :: "json \<Rightarrow> memory_args option" where
  "memory_args_of (JObj members) =
     (case (map_of members ''op'', map_of members ''scope'', map_of members ''key'') of
        (Some op, Some scope, Some key) \<Rightarrow>
          args_from op scope key (case map_of members ''value'' of Some v \<Rightarrow> v | None \<Rightarrow> JNull)
      | _ \<Rightarrow> None)"
| "memory_args_of (JArr [op, scope, key]) = args_from op scope key JNull"
| "memory_args_of (JArr [op, scope, key, value]) = args_from op scope key value"
| "memory_args_of _ = None"

fun show_memory_error :: "(storage_error \<Rightarrow> string) \<Rightarrow> memory_tool_error \<Rightarrow> string" where
  "show_memory_error st MissingValue = ''a value is required to record a memory''"
| "show_memory_error st (StorageFailed e) = st e"

definition invoke_tool :: "'s agent_env \<Rightarrow> json \<Rightarrow> 's \<Rightarrow> (string, string) result \<times> 's" where
  "invoke_tool env arguments s =
     (case memory_args_of arguments of
        None \<Rightarrow> (Err (ae_args_error env arguments), s)
      | Some args \<Rightarrow>
          (case memory_call (ae_ops env) args s of
             (Inl e, s') \<Rightarrow> (Err (show_memory_error (ae_storage_text env) e), s')
           | (Inr out, s') \<Rightarrow> (Ok out, s')))"

section \<open>Building the agent\<close>

definition normalize_memories_result ::
  "(string, memory_record list) result \<Rightarrow> provider \<Rightarrow> string \<Rightarrow> (provider_error, memory_record list) result" where
  "normalize_memories_result r p model =
     (case r of
        Inr memories \<Rightarrow> Ok memories
      | Inl e \<Rightarrow> Err \<lparr>pe_category = Storage, pe_message = e, pe_provider = p, pe_model = Some model\<rparr>)"

text \<open>What the storage answers to a read, up to a number of records.\<close>

type_synonym memory_reads = "memory_store \<Rightarrow> nat option \<Rightarrow> (string, memory_record list) result"

definition load_memories_preamble ::
  "string \<Rightarrow> memory_reads \<Rightarrow> provider \<Rightarrow> string \<Rightarrow> (provider_error, string option) result" where
  "load_memories_preamble ellipsis reads p model =
     (case normalize_memories_result (reads UserStore (Some memories_max_records)) p model of
        Inl e \<Rightarrow> Err e
      | Inr user \<Rightarrow>
          (case normalize_memories_result (reads SessionStore (Some memories_max_records)) p model of
             Inl e \<Rightarrow> Err e
           | Inr session \<Rightarrow> Ok (build_preamble ellipsis user session)))"

definition new_agent ::
  "string \<Rightarrow> memory_reads \<Rightarrow> model_descriptor \<Rightarrow> string \<Rightarrow> string list \<Rightarrow> (provider_error, agent) result" where
  "new_agent ellipsis reads descriptor preamble segments =
     (case load_memories_preamble ellipsis reads (md_provider descriptor) (md_model descriptor) of
        Inl e \<Rightarrow> Err e
      | Inr memories \<Rightarrow>
          Ok \<lparr>an_preamble = preamble @ (case memories of Some m \<Rightarrow> newline # m | None \<Rightarrow> []) @
                 concat (map (\<lambda>seg. newline # seg) segments),
              an_descriptor = descriptor\<rparr>)"

definition agent_error :: "agent \<Rightarrow> provider_error_category \<Rightarrow> string \<Rightarrow> provider_error" where
  "agent_error a category message =
     provider_error_of category (md_provider (an_descriptor a)) (Some (md_model (an_descriptor a))) message"

definition agent_pricing :: "agent \<Rightarrow> pricing" where
  "agent_pricing a = \<lparr>pr_input = md_input_cost (an_descriptor a), pr_output = md_output_cost (an_descriptor a)\<rparr>"

definition rig_error :: "agent \<Rightarrow> rig_failure \<Rightarrow> provider_error" where
  "rig_error a e = agent_error a (category_from_completion (gf_error e)) (gf_text e)"

definition request_builder ::
  "rig_library \<Rightarrow> agent \<Rightarrow> completion_request \<Rightarrow> rig_message \<Rightarrow> rig_message list \<Rightarrow> rig_request" where
  "request_builder rig a q prompt history =
     \<lparr>gq_prompt = prompt, gq_preamble = an_preamble a, gq_history = history,
      gq_tools = cq_tools q @ [memory_tool_definition],
      gq_temperature = mp_temperature (cq_parameters q), gq_max_tokens = mp_max_tokens (cq_parameters q),
      gq_extra = additional_params rig (cq_parameters q),
      gq_choice = into_rig_tool_choice (cq_tool_choice q)\<rparr>"

definition conversation :: "rig_library \<Rightarrow> completion_request \<Rightarrow> rig_message list" where
  "conversation rig q =
     map (into_rig_message rig (tool_result_names (cq_messages q))) (cq_messages q)"

section \<open>A completion\<close>

definition execute_internal_tool ::
  "'s agent_env \<Rightarrow> agent \<Rightarrow> rig_call \<Rightarrow> 's \<Rightarrow> (provider_error, user_content) result \<times> 's" where
  "execute_internal_tool env a call s =
     (case invoke_tool env (gc_arguments call) s of
        (Inl e, s') \<Rightarrow>
          (Err (agent_error a Unknown (''internal tool '' @ [CHR 0x60] @ gc_name call @ [CHR 0x60] @
             '' failed: '' @ e)), s')
      | (Inr out, s') \<Rightarrow>
          (Ok (UserResult \<lparr>gt_call = gc_id call, gt_provider = gc_provider call,
             gt_name = gc_name call, gt_content = out\<rparr>), s'))"

fun execute_internal_tools ::
  "'s agent_env \<Rightarrow> agent \<Rightarrow> rig_call list \<Rightarrow> 's \<Rightarrow> (provider_error, user_content list) result \<times> 's" where
  "execute_internal_tools env a [] s = (Ok [], s)"
| "execute_internal_tools env a (call # calls) s =
     (case execute_internal_tool env a call s of
        (Inl e, s') \<Rightarrow> (Err e, s')
      | (Inr r, s') \<Rightarrow>
          (case execute_internal_tools env a calls s' of
             (Inl e, s'') \<Rightarrow> (Err e, s'')
           | (Inr rs, s'') \<Rightarrow> (Ok (r # rs), s'')))"

definition reply_text :: "reply_item list \<Rightarrow> string" where
  "reply_text items = concat (map (\<lambda>i. case i of ReplyText t \<Rightarrow> t | _ \<Rightarrow> []) items)"

definition reply_calls :: "reply_item list \<Rightarrow> rig_call list" where
  "reply_calls items = concat (map (\<lambda>i. case i of ReplyCall c \<Rightarrow> [c] | _ \<Rightarrow> []) items)"

text \<open>A reply without structured calls may hold calls in its text.\<close>

definition recovered_calls ::
  "rig_library \<Rightarrow> text_decoder option \<Rightarrow> string \<Rightarrow> rig_call list \<Rightarrow> string \<times> rig_call list \<times> bool" where
  "recovered_calls rig decoder content calls =
     (if calls \<noteq> [] then (content, calls, False)
      else (case Option.bind decoder (\<lambda>d. xd_decode d content) of
              Some found \<Rightarrow>
                ([], map (\<lambda>(i, c). new_rig_call rig (text_call_id i) (dc_name c) (dc_arguments c))
                       (enumerate 0 found), True)
            | None \<Rightarrow> (content, calls, False)))"

definition all_internal :: "rig_call list \<Rightarrow> bool" where
  "all_internal calls \<longleftrightarrow> calls \<noteq> [] \<and> (\<forall>c\<in>set calls. gc_name c = td_name memory_tool_definition)"

fun internal_turns ::
  "'s agent_env \<Rightarrow> agent \<Rightarrow> completion_request \<Rightarrow> nat \<Rightarrow> rig_message \<Rightarrow> rig_message list \<Rightarrow> rig_usage \<Rightarrow> 's \<Rightarrow>
   (provider_error, completion_response) result \<times> 's" where
  "internal_turns env a q 0 prompt history usage s =
     (Err (agent_error a Unknown (''model exceeded the internal tool turn limit ('' @
        show_nat max_internal_tool_turns @ '')'')), s)"
| "internal_turns env a q (Suc left) prompt history usage s =
     (case ae_send env (max_internal_tool_turns - Suc left) (request_builder (ae_rig env) a q prompt history) of
        Inl e \<Rightarrow> (Err (rig_error a e), s)
      | Inr reply \<Rightarrow>
          let usage = add_usage usage (gr_usage reply);
              (content, calls, promoted_text) =
                recovered_calls (ae_rig env) (decoder_for_provider (ae_parse env) (md_provider (an_descriptor a)))
                  (reply_text (gr_choice reply)) (reply_calls (gr_choice reply))
          in if \<not> all_internal calls
             then (Ok \<lparr>cr_content = content, cr_tool_calls = map (api_tool_call (ae_rig env)) calls,
                     cr_usage = api_usage (agent_pricing a) usage,
                     cr_finish_reason = (if promoted_text then ToolCallsFinish
                       else finish_reason_of (gr_raw reply) (calls \<noteq> []))\<rparr>, s)
             else (case execute_internal_tools env a calls s of
                     (Inl e, s') \<Rightarrow> (Err e, s')
                   | (Inr results, s') \<Rightarrow>
                       internal_turns env a q left (RigUser results)
                         (history @ [prompt, RigAssistant (gr_message_id reply) (gr_choice reply)]) usage s'))"

definition no_messages :: "agent \<Rightarrow> provider_error" where
  "no_messages a = agent_error a InvalidRequest ''completion request has no messages''"

definition complete ::
  "'s agent_env \<Rightarrow> agent \<Rightarrow> completion_request \<Rightarrow> 's \<Rightarrow> (provider_error, completion_response) result \<times> 's" where
  "complete env a q s =
     (let history = conversation (ae_rig env) q
      in if history = [] then (Err (no_messages a), s)
         else internal_turns env a q max_internal_tool_turns (last history) (butlast history) new_rig_usage s)"

section \<open>A stream\<close>

definition agent_stream ::
  "'s agent_env \<Rightarrow> agent \<Rightarrow> completion_request \<Rightarrow> 's \<Rightarrow> (provider_error, provider_item list) result \<times> 's" where
  "agent_stream env a q s =
     (if \<not> cap_streaming (md_capabilities (an_descriptor a))
      then (case complete env a q s of
              (Inl e, s') \<Rightarrow> (Err e, s')
            | (Inr r, s') \<Rightarrow> (Ok (completion_events r), s'))
      else let history = conversation (ae_rig env) q
           in if history = [] then (Err (no_messages a), s)
              else (case ae_stream env (request_builder (ae_rig env) a q (last history) (butlast history)) of
                      Inl e \<Rightarrow> (Err (rig_error a e), s)
                    | Inr items \<Rightarrow>
                        (Ok (stream_items (ae_rig env)
                           (decoder_for_provider (ae_parse env) (md_provider (an_descriptor a)))
                           (agent_pricing a) (md_provider (an_descriptor a)) (md_model (an_descriptor a)) items), s)))"

end
