(* ===== verification/Agent_Safety.thy ===== *)
theory Agent_Safety
  imports Agent
begin

text \<open>
  What an agent guarantees: a completion leaves no turn of memory calls to the router and asks the
  model a bounded number of times, it changes the storage through the memory tool only (so never
  the data of another user), and a stream carries the text and the calls of the completion.
\<close>

section \<open>What a completion returns\<close>

lemma api_names: "map tc_name (map (api_tool_call rig) calls) = map gc_name calls"
  by (simp add: api_tool_call_def)

definition only_memory :: "tool_call list \<Rightarrow> bool" where
  "only_memory calls \<longleftrightarrow> calls \<noteq> [] \<and> (\<forall>c\<in>set calls. tc_name c = ''memory'')"

lemma all_internal_iff: "all_internal calls \<longleftrightarrow> only_memory (map (api_tool_call rig) calls)"
  by (auto simp: all_internal_def only_memory_def memory_tool_definition_def api_tool_call_def)

lemma internal_turns_external:
  "internal_turns env a q left prompt history usage s = (Ok r, s') \<Longrightarrow> \<not> only_memory (cr_tool_calls r)"
proof (induction env a q left prompt history usage s rule: internal_turns.induct)
  case (2 env a q left prompt history usage s)
  from 2(2) 2(1) show ?case
    by (auto simp: Let_def all_internal_iff [of _ "ae_rig env"] split: sum.splits prod.splits if_splits)
qed simp

lemma completion_external: "complete env a q s = (Ok r, s') \<Longrightarrow> \<not> only_memory (cr_tool_calls r)"
  by (auto simp: complete_def Let_def dest: internal_turns_external split: if_splits)

section \<open>What a completion changes\<close>

lemma invoke_tool_keeps:
  assumes "\<And>args t. I t \<Longrightarrow> I (snd (memory_call (ae_ops env) args t))" "I s"
  shows "I (snd (invoke_tool env arguments s))"
  using assms by (auto simp: invoke_tool_def split: option.splits prod.splits sum.splits dest: sndI)

lemma execute_internal_tools_keeps:
  assumes "\<And>args t. I t \<Longrightarrow> I (snd (memory_call (ae_ops env) args t))"
  shows "I s \<Longrightarrow> I (snd (execute_internal_tools env a calls s))"
proof (induction calls arbitrary: s)
  case (Cons call calls)
  have one: "I (snd (execute_internal_tool env a call s))"
    using invoke_tool_keeps [OF assms Cons.prems, of "gc_arguments call"]
    by (auto simp: execute_internal_tool_def split: prod.splits sum.splits)
  show ?case
  proof (cases "execute_internal_tool env a call s")
    case (Pair r s1)
    then have "I (snd (execute_internal_tools env a calls s1))" using Cons.IH one by simp
    then show ?thesis using Pair one by (cases r) (auto split: prod.splits sum.splits)
  qed
qed simp

lemma internal_turns_keeps:
  assumes "\<And>args t. I t \<Longrightarrow> I (snd (memory_call (ae_ops env) args t))"
  shows "I s \<Longrightarrow> I (snd (internal_turns env a q left prompt history usage s))"
proof (induction left arbitrary: prompt history usage s)
  case (Suc left)
  have "I s'" if "execute_internal_tools env a calls s = (r, s')" for calls r s'
    using execute_internal_tools_keeps [OF assms Suc.prems, of a calls] that by simp
  then show ?case using Suc by (auto simp: Let_def split: sum.splits prod.splits)
qed simp

lemma complete_keeps:
  assumes "\<And>args t. I t \<Longrightarrow> I (snd (memory_call (ae_ops env) args t))" "I s"
  shows "I (snd (complete env a q s))"
  using internal_turns_keeps [of I, OF assms] assms(2) by (simp add: complete_def Let_def)

lemma stream_keeps:
  assumes "\<And>args t. I t \<Longrightarrow> I (snd (memory_call (ae_ops env) args t))" "I s"
  shows "I (snd (agent_stream env a q s))"
  using complete_keeps [of I, OF assms, of a q] assms(2)
  by (auto simp: agent_stream_def Let_def split: prod.splits sum.splits)

section \<open>Another user's data\<close>

definition others_kept :: "string \<Rightarrow> database \<Rightarrow> memory_state \<Rightarrow> bool" where
  "others_kept u d0 = (\<lambda>(d, n). db_wf d \<and> (\<forall>v. v \<noteq> u \<longrightarrow> visible v d = visible v d0))"

lemma isolated_keeps: "isolated u f \<Longrightarrow> others_kept u d0 (d, n) \<Longrightarrow> others_kept u d0 (f d, m)"
  by (simp add: isolated_def others_kept_def)

lemma backend_put:
  "others_kept (sc_user scope) d0 s \<Longrightarrow> others_kept (sc_user scope) d0 (snd (mo_put (memory_backend mint parse scope st) k c s))"
  using isolated_keeps [OF isolated_record_user_memory, of "sc_user scope" d0 "fst s" "snd s"
      "new_user_memory (snd s) (mint (snd s)) (sc_user scope) k" c "Suc (snd s)"]
    isolated_keeps [OF isolated_record_context_memory, of
      "new_context_memory (snd s) (mint (snd s)) (sc_session scope) (sc_user scope) k" "sc_user scope" d0
      "fst s" "snd s" "Plaintext c" "Suc (snd s)"]
  by (cases st; cases s)
    (auto simp: put_user_memory_def put_session_memory_def new_context_memory_def split: prod.splits sum.splits)

lemma backend_forget:
  "others_kept (sc_user scope) d0 s \<Longrightarrow> others_kept (sc_user scope) d0 (snd (mo_forget (memory_backend mint parse scope st) h s))"
  using isolated_keeps [OF isolated_forget_user_memory] isolated_keeps [OF isolated_forget_context_memory]
  by (cases st; cases s)
    (auto simp: erase_user_memory_def erase_session_memory_def split: option.splits prod.splits dest: sndI)

lemma backend_call:
  assumes "others_kept (sc_user scope) d0 s"
  shows "others_kept (sc_user scope) d0 (snd (memory_call (memory_backend mint parse scope) args s))"
proof -
  have put: "others_kept (sc_user scope) d0 s'" if "mo_put (memory_backend mint parse scope st) k c s = (r, s')" for st k c r s'
    using backend_put [OF assms, of mint parse st k c] that by simp
  have forget: "others_kept (sc_user scope) d0 s'" if "mo_forget (memory_backend mint parse scope st) h s = (r, s')" for st h r s'
    using backend_forget [OF assms, of mint parse st h] that by simp
  show ?thesis
    using assms put forget by (auto simp: memory_call_def Let_def split: memory_op.splits option.splits prod.splits sum.splits)
qed

lemma agent_isolated:
  assumes "ae_ops env = memory_backend mint parse scope" "db_wf d" "v \<noteq> sc_user scope"
  shows "visible v (fst (snd (complete env a q (d, n)))) = visible v d"
    and "visible v (fst (snd (agent_stream env a q (d, n)))) = visible v d"
    and "db_wf (fst (snd (complete env a q (d, n))))" "db_wf (fst (snd (agent_stream env a q (d, n))))"
proof -
  have start: "others_kept (sc_user scope) d (d, n)" using assms(2) by (simp add: others_kept_def)
  have "others_kept (sc_user scope) d (snd (complete env a q (d, n)))"
    "others_kept (sc_user scope) d (snd (agent_stream env a q (d, n)))"
    using backend_call assms(1)
    by (auto intro!: complete_keeps [of "others_kept (sc_user scope) d"] stream_keeps [of "others_kept (sc_user scope) d"] start)
  then show "visible v (fst (snd (complete env a q (d, n)))) = visible v d"
    "visible v (fst (snd (agent_stream env a q (d, n)))) = visible v d"
    "db_wf (fst (snd (complete env a q (d, n))))" "db_wf (fst (snd (agent_stream env a q (d, n))))"
    using assms(3) by (auto simp: others_kept_def split: prod.splits)
qed

section \<open>How often the model is asked\<close>

lemma internal_turns_cong:
  assumes "\<And>i. i < max_internal_tool_turns \<Longrightarrow> send i = ae_send env i"
  shows "left \<le> max_internal_tool_turns \<Longrightarrow>
    internal_turns (env\<lparr>ae_send := send\<rparr>) a q left prompt history usage s =
    internal_turns env a q left prompt history usage s"
proof (induction left arbitrary: prompt history usage s)
  case (Suc left)
  have invoke: "invoke_tool (env\<lparr>ae_send := send\<rparr>) v t = invoke_tool env v t" for v t
    by (auto simp: invoke_tool_def split: option.split sum.split prod.split)
  have tool: "execute_internal_tools (env\<lparr>ae_send := send\<rparr>) a calls t = execute_internal_tools env a calls t" for calls t
    by (induction calls arbitrary: t) (auto simp: execute_internal_tool_def invoke split: prod.split sum.split)
  have "send (max_internal_tool_turns - Suc left) = ae_send env (max_internal_tool_turns - Suc left)"
    using Suc.prems by (intro assms) simp
  moreover have "internal_turns (env\<lparr>ae_send := send\<rparr>) a q left p h u t = internal_turns env a q left p h u t" for p h u t
    using Suc by simp
  ultimately show ?case
    by (auto simp: tool Let_def split: sum.split prod.split)
qed simp

lemma asked_at_most:
  assumes "\<And>i. i < max_internal_tool_turns \<Longrightarrow> send i = ae_send env i"
  shows "complete (env\<lparr>ae_send := send\<rparr>) a q s = complete env a q s"
  using internal_turns_cong [of send env max_internal_tool_turns, OF assms] by (simp add: complete_def Let_def)

section \<open>A stream carries what a completion returns\<close>

lemma text_call_id_kept: "rig_law rig \<Longrightarrow> rl_new_or_mint rig (text_call_id i) = text_call_id i"
  by (simp add: rig_law_def text_call_id_def)

lemma recovered_api:
  assumes "rig_law rig" "recovered_calls rig decoder content calls = (t, found, p)"
  shows "recover decoder content (map (api_tool_call rig) calls) = (t, map (api_tool_call rig) found, p)"
proof -
  have "api_tool_call rig (new_rig_call rig (text_call_id i) n v) =
      \<lparr>tc_call_id = text_call_id i, tc_name = n, tc_arguments = v\<rparr>" for i n v
    using assms(1) text_call_id_kept [OF assms(1), of i] by (simp add: api_tool_call_def new_rig_call_def rig_law_def)
  then show ?thesis using assms(2)
    by (auto simp: recovered_calls_def recover_def text_calls_def split: option.splits if_splits)
qed

lemma decoder_kept: "json_law parse \<Longrightarrow> decoder_for_provider parse p = Some d \<Longrightarrow> decoder_law d"
  by (auto simp: decoder_for_provider_def ollama_law split: if_splits)

lemma stream_is_completion:
  fixes env :: "'s agent_env"
  defines "request a q \<equiv> request_builder (ae_rig env) a q (last (conversation (ae_rig env) q)) (butlast (conversation (ae_rig env) q))"
  assumes laws: "rig_law (ae_rig env)" "json_law (ae_parse env)"
    and streams: "cap_streaming (md_capabilities (an_descriptor a))"
    and some: "cq_messages q \<noteq> []"
    and items: "ae_stream env (request a q) = Ok items" "\<forall>i\<in>set items. \<exists>x. i = Inr x"
      "rig_calls items = [] \<longrightarrow> \<not> (\<exists>i\<in>set items. announces i)"
    and reply: "ae_send env 0 (request a q) = Ok reply"
      "reply_text (gr_choice reply) = rig_text items" "reply_calls (gr_choice reply) = rig_calls items"
    and streamed: "agent_stream env a q s = (Ok events, s1)"
    and external: "\<not> only_memory (calls_in events)"
  shows "\<exists>r. complete env a q s = (Ok r, s) \<and> s1 = s \<and> cr_content r = text_in events \<and> cr_tool_calls r = calls_in events"
proof -
  let ?d = "decoder_for_provider (ae_parse env) (md_provider (an_descriptor a))"
  have conv: "conversation (ae_rig env) q \<noteq> []" using some by (simp add: conversation_def)
  have law: "\<forall>d. ?d = Some d \<longrightarrow> decoder_law d" using decoder_kept [OF laws(2)] by blast
  have events: "events = stream_items (ae_rig env) ?d (agent_pricing a) (md_provider (an_descriptor a))
      (md_model (an_descriptor a)) items" "s1 = s"
    using streamed streams conv items(1) unfolding request_def by (auto simp: agent_stream_def Let_def)
  obtain t found p where rec: "recovered_calls (ae_rig env) ?d (rig_text items) (rig_calls items) = (t, found, p)"
    by (metis prod_cases3)
  have pair: "text_in events = t" "calls_in events = map (api_tool_call (ae_rig env)) found"
    using streamed_reply [OF items(2) law items(3), of "ae_rig env" "agent_pricing a" "md_provider (an_descriptor a)" "md_model (an_descriptor a)"]
      recovered_api [OF laws(1) rec] unfolding events(1) by simp_all
  have "\<not> all_internal found" using external pair(2) all_internal_iff by metis
  then show ?thesis
    using conv rec pair events(2) reply unfolding request_def
    by (simp add: complete_def Let_def max_internal_tool_turns_def eval_nat_numeral)
qed

section \<open>Two tools of one name\<close>

lemma memory_offered_twice:
  "td \<in> set (cq_tools q) \<Longrightarrow> td_name td = memory_tool \<Longrightarrow>
   \<exists>td'. gq_tools (request_builder rig a q p h) = cq_tools q @ [td'] \<and> td_name td' = td_name td"
  by (auto simp: request_builder_def memory_tool_definition_def memory_tool_def)

end
