(* ===== verification/Cli_Config.thy ===== *)
theory Cli_Config
  imports Cli_Tools Tool_Text
begin

text \<open>
  The configuration of the client (\<^verbatim>\<open>smista-cli/src/config\<close>): its layers and their merge, the
  loading of the files, and the validation of the result. Reading a file and parsing TOML are the
  record \<open>config_host\<close>; the map of providers is the list of its entries in the order of its keys.
\<close>

section \<open>The model (\<^verbatim>\<open>model.rs\<close>)\<close>

record provider_config =
  pc_kind :: "provider option"
  pc_api_key :: "string option"

datatype auth_source = KeychainSource | EnvSource | FileSource | HelperSource

record router_client_config =
  rcl_url :: "string option"
  rcl_auto_start :: bool
  rcl_connect_timeout_ms :: "nat option"
  rcl_request_timeout_ms :: "nat option"
  rcl_auth_source :: "auth_source option"

record local_settings =
  ls_auto_apply :: "bool option"
  ls_local_only :: "bool option"
  ls_no_network :: "bool option"
  ls_encrypt_sessions :: "bool option"

definition encrypt_sessions :: "local_settings \<Rightarrow> bool" where
  "encrypt_sessions l = (case ls_encrypt_sessions l of None \<Rightarrow> True | Some b \<Rightarrow> b)"

record config =
  cf_providers :: "(provider \<times> provider_config) list"
  cf_routing :: routing_policy
  cf_classification :: classification_config
  cf_tools :: tools_config
  cf_privacy :: privacy_policy
  cf_router :: router_client_config
  cf_local :: local_settings

definition empty_routing :: routing_policy where
  "empty_routing = \<lparr>rp_rules = [], rp_default = None\<rparr>"

definition open_policy :: privacy_policy where
  "open_policy = \<lparr>restricted_paths = [], remote = \<lparr>remote_mode = None, blocked_paths = []\<rparr>,
     local_models = \<lparr>local_mode = None\<rparr>\<rparr>"

definition default_router_client :: router_client_config where
  "default_router_client = \<lparr>rcl_url = None, rcl_auto_start = False, rcl_connect_timeout_ms = None,
     rcl_request_timeout_ms = None, rcl_auth_source = None\<rparr>"

definition unset_settings :: local_settings where
  "unset_settings = \<lparr>ls_auto_apply = None, ls_local_only = None, ls_no_network = None, ls_encrypt_sessions = None\<rparr>"

definition default_model_reference :: model_reference where
  "default_model_reference = \<lparr>mr_provider = Ollama, mr_model = ''qwen2.5-coder:7b''\<rparr>"

definition default_config :: config where
  "default_config = \<lparr>cf_providers = [(Ollama, \<lparr>pc_kind = Some Ollama, pc_api_key = None\<rparr>)],
     cf_routing = \<lparr>rp_rules = [], rp_default = Some \<lparr>dr_model = default_model_reference, dr_fallbacks = []\<rparr>\<rparr>,
     cf_classification = default_classification, cf_tools = [], cf_privacy = open_policy,
     cf_router = default_router_client, cf_local = unset_settings\<rparr>"

section \<open>Layers (\<^verbatim>\<open>layers.rs\<close>)\<close>

datatype config_layer = SystemDefaults | GlobalLayer | ProjectLayer | RuntimeOverride

fun layer_rank :: "config_layer \<Rightarrow> nat" where
  "layer_rank SystemDefaults = 0"
| "layer_rank GlobalLayer = 1"
| "layer_rank ProjectLayer = 2"
| "layer_rank RuntimeOverride = 3"

definition is_preference :: "config_layer \<Rightarrow> bool" where
  "is_preference l \<longleftrightarrow> l = RuntimeOverride"

definition or_else :: "'a option \<Rightarrow> 'a option \<Rightarrow> 'a option" where
  "or_else high low = (case high of Some x \<Rightarrow> Some x | None \<Rightarrow> low)"

definition replace_if_non_empty :: "'a list \<Rightarrow> 'a list \<Rightarrow> 'a list" where
  "replace_if_non_empty low high = (if high = [] then low else high)"

definition merge_router_client :: "router_client_config \<Rightarrow> router_client_config \<Rightarrow> router_client_config" where
  "merge_router_client low high =
     \<lparr>rcl_url = or_else (rcl_url high) (rcl_url low),
      rcl_auto_start = (rcl_auto_start high \<or> rcl_auto_start low),
      rcl_connect_timeout_ms = or_else (rcl_connect_timeout_ms high) (rcl_connect_timeout_ms low),
      rcl_request_timeout_ms = or_else (rcl_request_timeout_ms high) (rcl_request_timeout_ms low),
      rcl_auth_source = or_else (rcl_auth_source high) (rcl_auth_source low)\<rparr>"

definition merge_local_prefs :: "local_settings \<Rightarrow> local_settings \<Rightarrow> local_settings" where
  "merge_local_prefs low high =
     \<lparr>ls_auto_apply = or_else (ls_auto_apply high) (ls_auto_apply low),
      ls_local_only = or_else (ls_local_only high) (ls_local_only low),
      ls_no_network = or_else (ls_no_network high) (ls_no_network low),
      ls_encrypt_sessions = or_else (ls_encrypt_sessions high) (ls_encrypt_sessions low)\<rparr>"

fun merge_tools :: "tools_config \<Rightarrow> tools_config \<Rightarrow> bool \<Rightarrow> tools_config" where
  "merge_tools merged [] preference = merged"
| "merge_tools merged ((tool, mode) # high) preference =
     merge_tools (case bt_get merged tool of
         Some existing \<Rightarrow> bt_insert tool (if preference then max existing mode else mode) merged
       | None \<Rightarrow> bt_insert tool mode merged) high preference"

definition union_paths :: "string list \<Rightarrow> string list \<Rightarrow> string list" where
  "union_paths low high = remdups_adj (sort (low @ high))"

definition merge_mode ::
  "permission_mode option \<Rightarrow> permission_mode option \<Rightarrow> permission_mode \<Rightarrow> bool \<Rightarrow> permission_mode option" where
  "merge_mode low high unset preference =
     (case high of
        None \<Rightarrow> low
      | Some mode \<Rightarrow>
          if preference then Some (max (case low of None \<Rightarrow> unset | Some m \<Rightarrow> m) mode) else Some mode)"

definition merge_privacy :: "privacy_policy \<Rightarrow> privacy_policy \<Rightarrow> bool \<Rightarrow> privacy_policy" where
  "merge_privacy low high preference =
     \<lparr>restricted_paths = union_paths (restricted_paths low) (restricted_paths high),
      remote = \<lparr>remote_mode = merge_mode (remote_mode (remote low)) (remote_mode (remote high)) Ask preference,
        blocked_paths = union_paths (blocked_paths (remote low)) (blocked_paths (remote high))\<rparr>,
      local_models = \<lparr>local_mode =
        merge_mode (local_mode (local_models low)) (local_mode (local_models high)) Allow preference\<rparr>\<rparr>"

definition merge_two :: "config \<Rightarrow> config \<Rightarrow> bool \<Rightarrow> config" where
  "merge_two low high preference =
     \<lparr>cf_providers = replace_if_non_empty (cf_providers low) (cf_providers high),
      cf_routing = (if cf_routing high = empty_routing then cf_routing low else cf_routing high),
      cf_classification = (if cf_classification high = default_classification then cf_classification low
        else cf_classification high),
      cf_tools = merge_tools (cf_tools low) (cf_tools high) preference,
      cf_privacy = merge_privacy (cf_privacy low) (cf_privacy high) preference,
      cf_router = merge_router_client (cf_router low) (cf_router high),
      cf_local = merge_local_prefs (cf_local low) (cf_local high)\<rparr>"

definition merge_onto :: "config \<Rightarrow> (config_layer \<times> config) list \<Rightarrow> config" where
  "merge_onto acc layers = fold (\<lambda>(l, c) a. merge_two a c (is_preference l)) layers acc"

definition merge_layers :: "(config_layer \<times> config) list \<Rightarrow> config" where
  "merge_layers layers =
     merge_onto default_config (sort_by (\<lambda>a b. cmp (layer_rank (fst a)) (layer_rank (fst b))) layers)"

section \<open>Loading (\<^verbatim>\<open>load.rs\<close>, \<^verbatim>\<open>paths.rs\<close>)\<close>

datatype file_read = FileContents string | FileMissing | FileFailed string

record config_host =
  ch_read :: "string \<Rightarrow> file_read"
  ch_parse :: "string \<Rightarrow> (string, config) result"  \<comment> \<open>\<open>toml::from_str\<close>\<close>

datatype config_error = ConfigIo string string | ConfigParse string string

definition parse_config :: "config_host \<Rightarrow> string \<Rightarrow> string \<Rightarrow> (config_error, config) result" where
  "parse_config host contents p = map_err (ConfigParse p) (ch_parse host contents)"

definition read_layer :: "config_host \<Rightarrow> string \<Rightarrow> (config_error, config) result" where
  "read_layer host p =
     (case ch_read host p of
        FileContents contents \<Rightarrow> parse_config host contents p
      | FileMissing \<Rightarrow> Ok default_config
      | FileFailed e \<Rightarrow> Err (ConfigIo p e))"

definition project_config_toml :: "string \<Rightarrow> string" where
  "project_config_toml cwd = path_join (path_join cwd ''.smista'') ''config.toml''"

definition load_with_global_config ::
  "config_host \<Rightarrow> string \<Rightarrow> config option \<Rightarrow> string option \<Rightarrow>
   (config_error, config \<times> (config_layer \<times> config) list) result" where
  "load_with_global_config host cwd runtime global_config =
     (case (case global_config of None \<Rightarrow> Ok [(SystemDefaults, default_config)]
            | Some p \<Rightarrow> (case read_layer host p of Inl e \<Rightarrow> Err e
                 | Inr c \<Rightarrow> Ok [(SystemDefaults, default_config), (GlobalLayer, c)])) of
        Inl e \<Rightarrow> Err e
      | Inr layers \<Rightarrow>
          (case read_layer host (project_config_toml cwd) of
             Inl e \<Rightarrow> Err e
           | Inr project \<Rightarrow>
               let all = layers @ [(ProjectLayer, project)] @
                     (case runtime of None \<Rightarrow> [] | Some c \<Rightarrow> [(RuntimeOverride, c)])
               in Ok (merge_layers all, all)))"

section \<open>Validation (\<^verbatim>\<open>validate.rs\<close>, \<^verbatim>\<open>validate/\<close>)\<close>

datatype validation_code = DuplicateRule | InlineSecret | InvalidFallback | InvalidGlob | MissingDefaultRoute
  | PermissionWidening | RuleAmbiguity | UnknownProvider | UnsafeOverride

text \<open>There is one severity, an error, so a finding does not carry it.\<close>

record validation_error =
  ve_code :: validation_code
  ve_message :: string
  ve_location :: "string option"

definition tick_quoted :: "string \<Rightarrow> string" where
  "tick_quoted s = CHR 0x60 # s @ [CHR 0x60]"

definition indexed :: "string \<Rightarrow> nat \<Rightarrow> string" where
  "indexed s i = s @ ''['' @ show_nat i @ '']''"

definition rule_at :: "nat \<Rightarrow> string" where
  "rule_at i = indexed ''routing.rules'' i"

definition to_human :: "validation_error list \<Rightarrow> string" where
  "to_human errors = concat (map (\<lambda>e. ''error ['' @ (case ve_location e of None \<Rightarrow> ''-'' | Some l \<Rightarrow> l) @ '']: '' @
     ve_message e @ [CHR 0x0A]) errors)"

subsection \<open>References (\<^verbatim>\<open>references.rs\<close>)\<close>

definition check_provider :: "config \<Rightarrow> provider \<Rightarrow> string \<Rightarrow> validation_error list" where
  "check_provider c p location =
     (if p \<in> fst ` set (cf_providers c) then []
      else [\<lparr>ve_code = UnknownProvider,
             ve_message = ''provider '' @ tick_quoted (show_provider p) @
               '' is not configured; add a [providers.'' @ [CHR 0x22] @ show_provider p @ [CHR 0x22] @ ''] table'',
             ve_location = Some location\<rparr>])"

definition check_route_providers ::
  "config \<Rightarrow> model_reference \<Rightarrow> model_reference list \<Rightarrow> string \<Rightarrow> validation_error list" where
  "check_route_providers c model fallbacks location =
     check_provider c (mr_provider model) (location @ ''.model'') @
     concat (map (\<lambda>(f, r). check_provider c (mr_provider r) (indexed (location @ ''.fallbacks'') f))
       (enumerate 0 fallbacks))"

definition check_references :: "config \<Rightarrow> validation_error list" where
  "check_references c =
     concat (map (\<lambda>(i, r). check_route_providers c (rule_model r) (rule_fallbacks r) (rule_at i))
       (enumerate 0 (rp_rules (cf_routing c)))) @
     (case rp_default (cf_routing c) of
        None \<Rightarrow> []
      | Some d \<Rightarrow> check_route_providers c (dr_model d) (dr_fallbacks d) ''routing.default'')"

subsection \<open>Structure of the routing (\<^verbatim>\<open>routing.rs\<close>)\<close>

fun check_fallbacks_from ::
  "nat \<Rightarrow> string list \<Rightarrow> model_reference \<Rightarrow> model_reference list \<Rightarrow> string \<Rightarrow> string \<Rightarrow> validation_error list" where
  "check_fallbacks_from i seen model [] label prefix = []"
| "check_fallbacks_from i seen model (fallback # fallbacks) label prefix =
     (let location = indexed (prefix @ ''.fallbacks'') i in
      (if fallback = model
       then [\<lparr>ve_code = InvalidFallback,
              ve_message = label @ '' lists its own model '' @ tick_quoted (show_reference model) @ '' as a fallback'',
              ve_location = Some location\<rparr>] else []) @
      (if show_reference fallback \<in> set seen
       then [\<lparr>ve_code = InvalidFallback,
              ve_message = label @ '' lists duplicate fallback '' @ tick_quoted (show_reference fallback),
              ve_location = Some location\<rparr>] else []) @
      check_fallbacks_from (Suc i) (show_reference fallback # seen) model fallbacks label prefix)"

definition check_fallbacks ::
  "model_reference \<Rightarrow> model_reference list \<Rightarrow> string \<Rightarrow> string \<Rightarrow> validation_error list" where
  "check_fallbacks model fallbacks label prefix = check_fallbacks_from 0 [] model fallbacks label prefix"

fun check_rules_from :: "nat \<Rightarrow> string list \<Rightarrow> routing_rule list \<Rightarrow> validation_error list" where
  "check_rules_from i seen [] = []"
| "check_rules_from i seen (rule # rules) =
     (if rule_name rule \<in> set seen
      then [\<lparr>ve_code = DuplicateRule,
             ve_message = ''duplicate routing rule name '' @ tick_quoted (rule_name rule) @
               ''; rule names must be unique'',
             ve_location = Some (rule_at i @ ''.name'')\<rparr>] else []) @
     check_fallbacks (rule_model rule) (rule_fallbacks rule) (''rule '' @ tick_quoted (rule_name rule)) (rule_at i) @
     check_rules_from (Suc i) (rule_name rule # seen) rules"

definition check_routing_structure :: "config \<Rightarrow> validation_error list" where
  "check_routing_structure c =
     (case rp_default (cf_routing c) of
        None \<Rightarrow> [\<lparr>ve_code = MissingDefaultRoute,
                  ve_message = ''no default route; add a [routing.default] table with a '' @ tick_quoted ''model'',
                  ve_location = Some ''routing.default''\<rparr>]
      | Some d \<Rightarrow> check_fallbacks (dr_model d) (dr_fallbacks d) ''the default route'' ''routing.default'') @
     check_rules_from 0 [] (rp_rules (cf_routing c))"

definition constrained_dimensions :: "routing_rule \<Rightarrow> nat" where
  "constrained_dimensions r = of_bool (rule_intent r \<noteq> None) + of_bool (rule_paths r \<noteq> []) + of_bool (rule_local_only r)"

definition rules_overlap :: "routing_rule \<Rightarrow> routing_rule \<Rightarrow> bool" where
  "rules_overlap a b =
     (case (rule_intent a, rule_intent b) of (Some x, Some y) \<Rightarrow> x = y | _ \<Rightarrow> True)"

definition ambiguous :: "routing_rule \<Rightarrow> routing_rule \<Rightarrow> bool" where
  "ambiguous a b \<longleftrightarrow> rule_priority a = rule_priority b \<and> constrained_dimensions a = constrained_dimensions b \<and>
     rules_overlap a b"

fun check_ambiguity_from :: "nat \<Rightarrow> routing_rule list \<Rightarrow> validation_error list" where
  "check_ambiguity_from i [] = []"
| "check_ambiguity_from i (a # rules) =
     concat (map (\<lambda>(j, b).
       if ambiguous a b
       then [\<lparr>ve_code = RuleAmbiguity,
              ve_message = ''rules '' @ tick_quoted (rule_name a) @ '' and '' @ tick_quoted (rule_name b) @
                '' share priority '' @ show_nat (rule_priority a) @ '' and specificity; give them distinct priorities'',
              ve_location = Some (rule_at j @ ''.priority'')\<rparr>] else []) (enumerate (Suc i) rules)) @
     check_ambiguity_from (Suc i) rules"

definition check_rule_ambiguity :: "config \<Rightarrow> validation_error list" where
  "check_rule_ambiguity c = check_ambiguity_from 0 (rp_rules (cf_routing c))"

subsection \<open>Globs and secrets (\<^verbatim>\<open>globs.rs\<close>, \<^verbatim>\<open>secrets.rs\<close>)\<close>

text \<open>The compiler of globs: the error of a pattern it refuses.\<close>

definition check_patterns :: "(string \<Rightarrow> string option) \<Rightarrow> string \<Rightarrow> string list \<Rightarrow> validation_error list" where
  "check_patterns glob_error field patterns =
     concat (map (\<lambda>(i, pattern).
       case glob_error pattern of
         None \<Rightarrow> []
       | Some e \<Rightarrow> [\<lparr>ve_code = InvalidGlob,
                     ve_message = ''invalid glob '' @ tick_quoted pattern @ '': '' @ e @ ''; fix the pattern syntax'',
                     ve_location = Some (indexed field i)\<rparr>]) (enumerate 0 patterns))"

definition check_globs :: "(string \<Rightarrow> string option) \<Rightarrow> config \<Rightarrow> validation_error list" where
  "check_globs glob_error c =
     check_patterns glob_error ''privacy.restricted_paths'' (restricted_paths (cf_privacy c)) @
     check_patterns glob_error ''privacy.remote.blocked_paths'' (blocked_paths (remote (cf_privacy c))) @
     concat (map (\<lambda>(i, r). check_patterns glob_error (rule_at i @ ''.paths'') (rule_paths r))
       (enumerate 0 (rp_rules (cf_routing c))))"

definition placeholder_prefix :: string where
  "placeholder_prefix = ''${secret:''"

definition placeholder_suffix :: string where
  "placeholder_suffix = ''}''"

definition parse_secret_ref :: "string \<Rightarrow> string option" where
  "parse_secret_ref raw =
     (case Option.bind (strip_prefix placeholder_prefix raw) (strip_suffix placeholder_suffix) of
        None \<Rightarrow> None
      | Some key \<Rightarrow> if key = [] then None else Some key)"

definition show_secret_ref :: "string \<Rightarrow> string" where
  "show_secret_ref key = placeholder_prefix @ key @ placeholder_suffix"

definition check_inline_secrets :: "config \<Rightarrow> validation_error list" where
  "check_inline_secrets c =
     concat (map (\<lambda>(p, pc).
       case pc_api_key pc of
         None \<Rightarrow> []
       | Some api_key \<Rightarrow>
           if parse_secret_ref api_key = None
           then [\<lparr>ve_code = InlineSecret,
                  ve_message = ''provider '' @ tick_quoted (show_provider p) @
                    '' api_key is an inline literal; use a '' @ tick_quoted ''${secret:NAME}'' @ '' reference instead'',
                  ve_location = Some (''providers.'' @ show_provider p @ ''.api_key'')\<rparr>]
           else []) (cf_providers c))"

subsection \<open>Provenance (\<^verbatim>\<open>provenance.rs\<close>)\<close>

fun debug_layer :: "config_layer \<Rightarrow> string" where
  "debug_layer SystemDefaults = ''SystemDefaults''"
| "debug_layer GlobalLayer = ''Global''"
| "debug_layer ProjectLayer = ''Project''"
| "debug_layer RuntimeOverride = ''RuntimeOverride''"

fun debug_mode :: "permission_mode \<Rightarrow> string" where
  "debug_mode Allow = ''Allow''"
| "debug_mode Ask = ''Ask''"
| "debug_mode Deny = ''Deny''"

definition check_unsafe_override :: "config \<Rightarrow> config_layer \<Rightarrow> config \<Rightarrow> validation_error list" where
  "check_unsafe_override base layer c =
     (case (remote_mode (remote (cf_privacy base)), remote_mode (remote (cf_privacy c))) of
        (Some project, Some mode) \<Rightarrow>
          if mode < project
          then [\<lparr>ve_code = UnsafeOverride,
                 ve_message = debug_layer layer @ '' layer weakens remote privacy mode from '' @
                   tick_quoted (debug_mode project) @ '' to '' @ tick_quoted (debug_mode mode) @
                   ''; this policy is not overridable'',
                 ve_location = Some ''privacy.remote.mode''\<rparr>]
          else []
      | _ \<Rightarrow> [])"

definition check_permission_widening :: "config \<Rightarrow> config_layer \<Rightarrow> config \<Rightarrow> validation_error list" where
  "check_permission_widening base layer c =
     concat (map (\<lambda>(tool, mode).
       case mode_for (cf_tools base) tool of
         None \<Rightarrow> []
       | Some project \<Rightarrow>
           if mode < project
           then [\<lparr>ve_code = PermissionWidening,
                  ve_message = debug_layer layer @ '' layer widens permission for '' @ tick_quoted tool @ '' from '' @
                    tick_quoted (debug_mode project) @ '' to '' @ tick_quoted (debug_mode mode) @ ''; not allowed'',
                  ve_location = Some (''tools.permissions.'' @ tool)\<rparr>]
           else []) (cf_tools c))"

definition safety_floor :: "(config_layer \<times> config) list \<Rightarrow> config" where
  "safety_floor layers = merge_layers (filter (\<lambda>(l, _). \<not> is_preference l) layers)"

definition check_provenance :: "(config_layer \<times> config) list \<Rightarrow> validation_error list" where
  "check_provenance layers =
     (if \<not> (\<exists>(l, c)\<in>set layers. \<not> is_preference l \<and> c \<noteq> default_config) then []
      else concat (map (\<lambda>(l, c). check_unsafe_override (safety_floor layers) l c @
             check_permission_widening (safety_floor layers) l c)
           (filter (\<lambda>(l, _). is_preference l) layers)))"

definition validate :: "(string \<Rightarrow> string option) \<Rightarrow> config \<Rightarrow> validation_error list" where
  "validate glob_error c =
     check_references c @ check_routing_structure c @ check_rule_ambiguity c @ check_globs glob_error c @
     check_inline_secrets c"

definition validate_layers ::
  "(string \<Rightarrow> string option) \<Rightarrow> config \<Rightarrow> (config_layer \<times> config) list \<Rightarrow> validation_error list" where
  "validate_layers glob_error merged layers = validate glob_error merged @ check_provenance layers"

end
