(* ===== verification/Config_Safety.thy ===== *)
theory Config_Safety
  imports Cli_Config
begin

text \<open>
  What the layers of a configuration guarantee: a preference never weakens what the other layers
  set, a report without findings means the routing is well formed, and placeholders of secrets
  round-trip.
\<close>

section \<open>The order of the layers\<close>

abbreviation by_layer :: "config_layer \<times> config \<Rightarrow> config_layer \<times> config \<Rightarrow> ordering" where
  "by_layer a b \<equiv> cmp (layer_rank (fst a)) (layer_rank (fst b))"

lemma insert_after: "\<forall>y\<in>set a. c x y = Greater \<Longrightarrow> insert_by c x (a @ b) = a @ insert_by c x b"
  by (induction a) simp_all

lemma insert_before: "\<forall>y\<in>set b. c x y \<noteq> Greater \<Longrightarrow> insert_by c x (a @ b) = insert_by c x a @ b"
  by (induction a) (cases b; simp)+

lemma layer_rank_preference: "is_preference l \<longleftrightarrow> layer_rank l = 3" "layer_rank l \<le> 3"
  by (cases l; simp add: is_preference_def)+

lemma preferences_last:
  "sort_by by_layer layers =
     sort_by by_layer (filter (\<lambda>(l, _). \<not> is_preference l) layers) @ filter (\<lambda>(l, _). is_preference l) layers"
proof (induction layers)
  case (Cons x layers)
  let ?low = "filter (\<lambda>(l, _). \<not> is_preference l) layers" and ?high = "filter (\<lambda>(l, _). is_preference l) layers"
  obtain l c where x: "x = (l, c)" by (cases x)
  have low: "layer_rank (fst y) < 3" if "y \<in> set ?low" for y
    using that layer_rank_preference [of "fst y"] by auto
  have high: "layer_rank (fst y) = 3" if "y \<in> set ?high" for y
    using that layer_rank_preference [of "fst y"] by auto
  show ?case
  proof (cases "is_preference l")
    case True
    then have "layer_rank l = 3" using layer_rank_preference by blast
    then have "insert_by by_layer x (sort_by by_layer ?low @ ?high) = sort_by by_layer ?low @ insert_by by_layer x ?high"
      using low x by (intro insert_after) (auto simp: cmp_simps)
    moreover have "insert_by by_layer x ?high = x # ?high"
      using high \<open>layer_rank l = 3\<close> x by (cases ?high) (auto simp: cmp_simps)
    ultimately show ?thesis using Cons.IH True x by simp
  next
    case False
    then have "insert_by by_layer x (sort_by by_layer ?low @ ?high) = insert_by by_layer x (sort_by by_layer ?low) @ ?high"
      using high x layer_rank_preference(2) [of l] by (intro insert_before) (auto simp: cmp_simps)
    then show ?thesis using Cons.IH False x by simp
  qed
qed simp

lemma merge_floor:
  "merge_layers layers = merge_onto (safety_floor layers) (filter (\<lambda>(l, _). is_preference l) layers)"
  unfolding merge_layers_def safety_floor_def preferences_last [of layers]
  by (simp add: merge_onto_def)

section \<open>Tightening\<close>

definition tightens :: "config \<Rightarrow> config \<Rightarrow> bool" where
  "tightens a b \<longleftrightarrow>
     remote_effective_mode (remote (cf_privacy a)) \<le> remote_effective_mode (remote (cf_privacy b)) \<and>
     local_effective_mode (local_models (cf_privacy a)) \<le> local_effective_mode (local_models (cf_privacy b)) \<and>
     set (restricted_paths (cf_privacy a)) \<subseteq> set (restricted_paths (cf_privacy b)) \<and>
     set (blocked_paths (remote (cf_privacy a))) \<subseteq> set (blocked_paths (remote (cf_privacy b))) \<and>
     (\<forall>tool m. mode_for (cf_tools a) tool = Some m \<longrightarrow> (\<exists>n. mode_for (cf_tools b) tool = Some n \<and> m \<le> n))"

lemma tightens_refl: "tightens c c"
  by (simp add: tightens_def)

lemma tightens_trans: "tightens a b \<Longrightarrow> tightens b c \<Longrightarrow> tightens a c"
  unfolding tightens_def by (meson order_trans subset_trans)

lemma set_union_paths: "set (union_paths low high) = set low \<union> set high"
  by (simp add: union_paths_def)

lemma merge_mode_tightens:
  "(case low of None \<Rightarrow> d | Some m \<Rightarrow> m) \<le> (case merge_mode low high d True of None \<Rightarrow> d | Some m \<Rightarrow> m)"
  by (auto simp: merge_mode_def split: option.split)

lemma merge_tools_wf: "bt_wf low \<Longrightarrow> bt_wf (merge_tools low high preference)"
  by (induction low high preference rule: merge_tools.induct) (auto simp: bt_wf_insert split: option.split)

lemma merge_tools_tightens:
  "bt_wf low \<Longrightarrow> mode_for low tool = Some m \<Longrightarrow> \<exists>n. mode_for (merge_tools low high True) tool = Some n \<and> m \<le> n"
proof (induction high arbitrary: low m)
  case (Cons h high)
  obtain t k where h: "h = (t, k)" by (cases h)
  let ?low = "case bt_get low t of Some existing \<Rightarrow> bt_insert t (max existing k) low | None \<Rightarrow> bt_insert t k low"
  have wf: "bt_wf ?low" using Cons.prems(1) by (auto simp: bt_wf_insert split: option.split)
  obtain j where j: "mode_for ?low tool = Some j" "m \<le> j"
    using Cons.prems
    by (cases "bt_get low t"; cases "tool = t") (auto simp: mode_for_def bt_get_insert)
  have "merge_tools low (h # high) True = merge_tools ?low high True"
    using h by (simp split: option.split)
  then show ?case using Cons.IH [OF wf j(1)] j(2) order_trans by (metis (lifting))
qed simp

lemma merge_two_tightens:
  assumes "bt_wf (cf_tools low)"
  shows "tightens low (merge_two low high True)"
  using merge_mode_tightens [where low = "remote_mode (remote (cf_privacy low))" and d = Ask]
    merge_mode_tightens [where low = "local_mode (local_models (cf_privacy low))" and d = Allow]
    merge_tools_tightens [OF assms]
  by (simp add: tightens_def merge_two_def merge_privacy_def set_union_paths remote_effective_mode_def
      local_effective_mode_def)

lemma merge_onto_wf: "bt_wf (cf_tools acc) \<Longrightarrow> bt_wf (cf_tools (merge_onto acc layers))"
  unfolding merge_onto_def
  by (induction layers arbitrary: acc) (auto simp: merge_two_def merge_tools_wf)

lemma safety_floor_wf: "bt_wf (cf_tools (safety_floor layers))"
proof -
  have "bt_wf (cf_tools default_config)" by (simp add: default_config_def bt_wf_def)
  then show ?thesis unfolding safety_floor_def merge_layers_def by (rule merge_onto_wf)
qed

lemma preferences_tighten:
  "bt_wf (cf_tools acc) \<Longrightarrow> \<forall>(l, _)\<in>set layers. is_preference l \<Longrightarrow> tightens acc (merge_onto acc layers)"
proof (induction layers arbitrary: acc)
  case (Cons x layers)
  obtain l c where x: "x = (l, c)" by (cases x)
  have l: "is_preference l" using Cons.prems(2) x by auto
  have step: "merge_onto acc (x # layers) = merge_onto (merge_two acc c True) layers"
    using x l by (simp add: merge_onto_def)
  have wf: "bt_wf (cf_tools (merge_two acc c True))"
    using Cons.prems(1) by (simp add: merge_two_def merge_tools_wf)
  show ?case
    unfolding step using merge_two_tightens [OF Cons.prems(1)] Cons.IH [OF wf] Cons.prems(2)
    by (auto intro: tightens_trans)
qed (simp add: merge_onto_def tightens_refl)

lemma merged_tightens_floor: "tightens (safety_floor layers) (merge_layers layers)"
  unfolding merge_floor by (rule preferences_tighten [OF safety_floor_wf]) auto

text \<open>A tool that no other layer names is asked about; a preference may still allow it, and the
  provenance check has nothing to compare it with.\<close>

lemma preference_allows_unset_tool:
  assumes "layers = [(SystemDefaults, default_config), (RuntimeOverride, default_config\<lparr>cf_tools := [(tool, Allow)]\<rparr>)]"
  shows "tool_mode (cf_tools (safety_floor layers)) tool = Ask"
    "tool_mode (cf_tools (merge_layers layers)) tool = Allow" "check_provenance layers = []"
  unfolding merge_floor assms
  by (simp_all add: safety_floor_def merge_layers_def merge_onto_def is_preference_def merge_two_def default_config_def
      tool_mode_def mode_for_def check_provenance_def)

section \<open>Absent files\<close>

text \<open>An absent project file does not leave the global file alone.\<close>

lemma absent_project_replaces_global:
  assumes "ch_read host p = FileContents contents" "ch_parse host contents = Ok global"
    and "ch_read host (project_config_toml cwd) = FileMissing"
    and "load_with_global_config host cwd None (Some p) = Ok (merged, layers)"
  shows "cf_providers merged = cf_providers default_config" "cf_routing merged = cf_routing default_config"
  using assms
  by (auto simp: load_with_global_config_def read_layer_def parse_config_def merge_layers_def merge_onto_def
      merge_two_def replace_if_non_empty_def default_config_def empty_routing_def cmp_simps)

section \<open>Secrets\<close>

lemma secret_ref_round_trip: "key \<noteq> [] \<Longrightarrow> parse_secret_ref (show_secret_ref key) = Some key"
proof -
  have "strip_prefix placeholder_prefix (placeholder_prefix @ key @ placeholder_suffix) = Some (key @ placeholder_suffix)"
    "strip_prefix (rev placeholder_suffix) (rev placeholder_suffix @ rev key) = Some (rev key)"
    by (simp_all add: strip_prefix_Some)
  then show "key \<noteq> [] \<Longrightarrow> parse_secret_ref (show_secret_ref key) = Some key"
    by (simp add: parse_secret_ref_def show_secret_ref_def strip_suffix_def)
qed

lemma parsed_secret_ref:
  assumes "parse_secret_ref raw = Some key"
  shows "raw = show_secret_ref key \<and> key \<noteq> []"
proof -
  obtain inner where inner: "strip_prefix placeholder_prefix raw = Some inner"
    "strip_suffix placeholder_suffix inner = Some key" "key \<noteq> []"
    using assms by (auto simp: parse_secret_ref_def bind_eq_Some_conv split: option.splits if_splits)
  then have "rev inner = rev placeholder_suffix @ rev key"
    by (auto simp: strip_suffix_def strip_prefix_Some)
  then have "inner = key @ placeholder_suffix" by (metis rev_append rev_rev_ident)
  then show ?thesis using inner by (simp add: strip_prefix_Some show_secret_ref_def)
qed

section \<open>A clean report\<close>

definition route_good :: "config \<Rightarrow> model_reference \<Rightarrow> model_reference list \<Rightarrow> bool" where
  "route_good c model fallbacks \<longleftrightarrow>
     (\<forall>r\<in>set (model # fallbacks). mr_provider r \<in> fst ` set (cf_providers c)) \<and>
     model \<notin> set fallbacks \<and> distinct (map show_reference fallbacks)"

lemma enumerate_clean:
  assumes "\<And>i x. f i x = [] \<longleftrightarrow> good x"
  shows "concat (map (\<lambda>(i, x). f i x) (enumerate n xs)) = [] \<longleftrightarrow> (\<forall>x\<in>set xs. good x)"
  using assms by (induction xs arbitrary: n) auto

lemma entries_clean:
  assumes "\<And>p x. f p x = [] \<longleftrightarrow> good p x"
  shows "concat (map (\<lambda>(p, x). f p x) xs) = [] \<longleftrightarrow> (\<forall>(p, x)\<in>set xs. good p x)"
  using assms by (induction xs) auto

lemma provider_clean: "check_provider c p l = [] \<longleftrightarrow> p \<in> fst ` set (cf_providers c)"
  by (simp add: check_provider_def)

lemma route_providers_clean:
  "check_route_providers c model fallbacks l = [] \<longleftrightarrow>
   (\<forall>r\<in>set (model # fallbacks). mr_provider r \<in> fst ` set (cf_providers c))"
  by (simp add: check_route_providers_def provider_clean
      enumerate_clean [where good = "\<lambda>r. mr_provider r \<in> fst ` set (cf_providers c)"] del: concat_eq_Nil_conv)

lemma fallbacks_clean_from:
  "check_fallbacks_from i seen model fallbacks label prefix = [] \<longleftrightarrow>
   model \<notin> set fallbacks \<and> distinct (map show_reference fallbacks) \<and>
   set (map show_reference fallbacks) \<inter> set seen = {}"
  by (induction i seen model fallbacks label prefix rule: check_fallbacks_from.induct) (auto simp: Let_def)

lemma fallbacks_clean:
  "check_fallbacks model fallbacks label prefix = [] \<longleftrightarrow>
   model \<notin> set fallbacks \<and> distinct (map show_reference fallbacks)"
  by (simp add: check_fallbacks_def fallbacks_clean_from)

lemma rules_clean_from:
  "check_rules_from i seen rules = [] \<longleftrightarrow> distinct (map rule_name rules) \<and> set (map rule_name rules) \<inter> set seen = {} \<and>
   (\<forall>r\<in>set rules. rule_model r \<notin> set (rule_fallbacks r) \<and> distinct (map show_reference (rule_fallbacks r)))"
  by (induction i seen rules rule: check_rules_from.induct) (auto simp: fallbacks_clean)

lemma ambiguity_clean_from: "check_ambiguity_from i rules = [] \<longleftrightarrow> sorted_wrt (\<lambda>a b. \<not> ambiguous a b) rules"
proof (induction i rules rule: check_ambiguity_from.induct)
  case (2 i a rules)
  then show ?case
    by (simp add: enumerate_clean [where good = "\<lambda>b. \<not> ambiguous a b"] del: concat_eq_Nil_conv)
qed simp

lemma patterns_clean: "check_patterns glob_error field patterns = [] \<longleftrightarrow> (\<forall>p\<in>set patterns. glob_error p = None)"
  unfolding check_patterns_def
  by (rule enumerate_clean) (simp split: option.split)

lemma secrets_clean:
  "check_inline_secrets c = [] \<longleftrightarrow>
   (\<forall>(p, pc)\<in>set (cf_providers c). \<forall>k. pc_api_key pc = Some k \<longrightarrow> (\<exists>name. name \<noteq> [] \<and> k = show_secret_ref name))"
proof -
  have "(parse_secret_ref k = None) \<longleftrightarrow> \<not> (\<exists>name. name \<noteq> [] \<and> k = show_secret_ref name)" for k
    using parsed_secret_ref [of k] secret_ref_round_trip by (cases "parse_secret_ref k") auto
  then show ?thesis
    unfolding check_inline_secrets_def by (intro entries_clean) (simp split: option.split)
qed

lemma clean_report:
  "validate glob_error c = [] \<longleftrightarrow>
   (\<exists>d. rp_default (cf_routing c) = Some d \<and> route_good c (dr_model d) (dr_fallbacks d)) \<and>
   (\<forall>r\<in>set (rp_rules (cf_routing c)). route_good c (rule_model r) (rule_fallbacks r)) \<and>
   distinct (map rule_name (rp_rules (cf_routing c))) \<and>
   sorted_wrt (\<lambda>a b. \<not> ambiguous a b) (rp_rules (cf_routing c)) \<and>
   (\<forall>p\<in>set (restricted_paths (cf_privacy c)) \<union> set (blocked_paths (remote (cf_privacy c))) \<union>
      (\<Union>r\<in>set (rp_rules (cf_routing c)). set (rule_paths r)). glob_error p = None) \<and>
   (\<forall>(p, pc)\<in>set (cf_providers c). \<forall>k. pc_api_key pc = Some k \<longrightarrow> (\<exists>name. name \<noteq> [] \<and> k = show_secret_ref name))"
proof -
  have rules: "concat (map (\<lambda>(i, r). check_route_providers c (rule_model r) (rule_fallbacks r) (rule_at i))
      (enumerate 0 (rp_rules (cf_routing c)))) = [] \<longleftrightarrow>
    (\<forall>r\<in>set (rp_rules (cf_routing c)). \<forall>q\<in>set (rule_model r # rule_fallbacks r). mr_provider q \<in> fst ` set (cf_providers c))"
    by (rule enumerate_clean) (rule route_providers_clean)
  have paths: "concat (map (\<lambda>(i, r). check_patterns glob_error (rule_at i @ ''.paths'') (rule_paths r))
      (enumerate 0 (rp_rules (cf_routing c)))) = [] \<longleftrightarrow>
    (\<forall>r\<in>set (rp_rules (cf_routing c)). \<forall>p\<in>set (rule_paths r). glob_error p = None)"
    by (rule enumerate_clean) (rule patterns_clean)
  show ?thesis
    by (cases "rp_default (cf_routing c)")
      (auto simp: validate_def check_references_def check_routing_structure_def check_rule_ambiguity_def
        check_globs_def rules paths rules_clean_from fallbacks_clean ambiguity_clean_from patterns_clean
        secrets_clean route_providers_clean route_good_def simp del: concat_eq_Nil_conv)
qed

section \<open>Provenance\<close>

text \<open>The provenance check is silent exactly when no preference asks for a mode looser than the
  floor sets, or no file set anything.\<close>

lemma silent_provenance:
  "check_provenance layers = [] \<longleftrightarrow>
   (\<forall>(l, c)\<in>set layers. is_preference l \<or> c = default_config) \<or>
   (\<forall>(l, c)\<in>set layers. is_preference l \<longrightarrow>
      (\<forall>m n. remote_mode (remote (cf_privacy (safety_floor layers))) = Some m \<longrightarrow>
         remote_mode (remote (cf_privacy c)) = Some n \<longrightarrow> m \<le> n) \<and>
      (\<forall>(tool, n)\<in>set (cf_tools c). \<forall>m. mode_for (cf_tools (safety_floor layers)) tool = Some m \<longrightarrow> m \<le> n))"
proof -
  have override: "check_unsafe_override base l c = [] \<longleftrightarrow> (\<forall>m n. remote_mode (remote (cf_privacy base)) = Some m \<longrightarrow>
      remote_mode (remote (cf_privacy c)) = Some n \<longrightarrow> m \<le> n)" for base l c
    by (auto simp: check_unsafe_override_def not_less split: option.split)
  have widening: "check_permission_widening base l c = [] \<longleftrightarrow>
      (\<forall>(tool, n)\<in>set (cf_tools c). \<forall>m. mode_for (cf_tools base) tool = Some m \<longrightarrow> m \<le> n)" for base l c
    unfolding check_permission_widening_def by (rule entries_clean) (auto simp: not_less dest: leD split: option.split)
  define kept where "kept c \<longleftrightarrow> (\<forall>m n. remote_mode (remote (cf_privacy (safety_floor layers))) = Some m \<longrightarrow>
      remote_mode (remote (cf_privacy c)) = Some n \<longrightarrow> m \<le> n) \<and>
    (\<forall>(tool, n)\<in>set (cf_tools c). \<forall>m. mode_for (cf_tools (safety_floor layers)) tool = Some m \<longrightarrow> m \<le> n)" for c :: config
  have "concat (map (\<lambda>(l, c). check_unsafe_override (safety_floor layers) l c @
      check_permission_widening (safety_floor layers) l c) (filter (\<lambda>(l, _). is_preference l) layers)) = [] \<longleftrightarrow>
    (\<forall>(l, c)\<in>set (filter (\<lambda>(l, _). is_preference l) layers). kept c)"
    by (rule entries_clean) (simp add: override widening kept_def)
  then have "check_provenance layers = [] \<longleftrightarrow> (\<forall>(l, c)\<in>set layers. is_preference l \<or> c = default_config) \<or>
      (\<forall>(l, c)\<in>set layers. is_preference l \<longrightarrow> kept c)"
    unfolding check_provenance_def by (simp only: split: if_split) fastforce
  then show ?thesis unfolding kept_def .
qed

end
