(* ===== verification/Client_Guarantees.thy ===== *)
theory Client_Guarantees
  imports App_Loop Agent_Safety Storage_Guarantees Config_Safety Samples
begin

text \<open>
  What the person at the terminal is guaranteed: no tool runs without consent, files outside the
  workspace are out of reach, no key panics, the prompt is a line editor, preferences never weaken
  the configuration; and what an agent guarantees to the
  router that drives it.
\<close>

section \<open>Consent\<close>

text \<open>
  C22. No tool runs without a key: in every reachable state of the application, a request that
  asks for approval has run only if the user pressed an approving key on a prompt that was shown
  (that one, or one whose approval stands for the session), unless edits are applied automatically.
\<close>

theorem no_tool_without_a_key:
  assumes "app_reachable tenv cenv ul a" "r \<in> set (cl_ran (snd (app_worker a)))"
    and "tq_requires_approval r = AskCall" "\<not> ce_auto_apply cenv"
  shows "\<exists>e p d. (e, p, d) \<in> set (app_pressed a) \<and> approving_key e \<and> ud_outcome d = Approved \<and>
    ApprovalPromptMsg p \<in> set (app_delivered a) \<and> ud_id d = ap_id p \<and>
    (ud_id d = tq_call_id r \<or> standing d)"
proof -
  have good: "app_good cenv a" by (rule reachable_good [OF assms(1)])
  then have "consented cenv (decided a) (cl_ran (snd (app_worker a))) r"
    using assms(2) unfolding app_good_def consent_def by blast
  then have "\<exists>d\<in>decided a. ud_outcome d = Approved \<and> (ud_id d = tq_call_id r \<or> standing d)"
    using assms(3,4) unfolding consented_def aliased_def standing_def by auto
  then obtain e p d where d: "(e, p, d) \<in> set (app_pressed a)" "ud_outcome d = Approved"
    "ud_id d = tq_call_id r \<or> standing d" by (auto simp: decided_def)
  then have "press_good a (e, p, d)" using good unfolding app_good_def by blast
  then obtain option where o: "ApprovalPromptMsg p \<in> set (app_delivered a)"
    "d = approval_decision_for_option p option" "option \<noteq> RejectOption \<longrightarrow> approving_key e"
    unfolding press_good_def by auto
  have "option \<noteq> RejectOption" "ud_id d = ap_id p" using d(2) o(2) by (cases option; simp)+
  then show ?thesis using d o by blast
qed

subsection \<open>A client on a quiet machine\<close>

definition demo_env :: client_env where
  "demo_env = \<lparr>ce_auto_apply = False, ce_cwd = ''/w'', ce_shell = (\<lambda>_ _ d. (None, d)), ce_pretty = (\<lambda>_. []),
     ce_encrypt = (\<lambda>k t. Ok \<lparr>ep_version = 1, ep_algorithm = [], ep_key_id = k, ep_nonce = [], ep_ciphertext = rev t\<rparr>),
     ce_decrypt = (\<lambda>p. Ok (rev (ep_ciphertext p))),
     ce_create_session = (\<lambda>_. Ok \<lparr>si_id = ''s1'', si_title = [], si_key_id = Some ''k''\<rparr>),
     ce_open = (\<lambda>_. Ok ()), ce_interrupt = (\<lambda>_. Ok ()), ce_fetch = (\<lambda>_. Err []), ce_usage = (\<lambda>_. None),
     ce_query = (\<lambda>_ _. [])\<rparr>"

definition demo_tui :: tui_env where
  "demo_tui = \<lparr>te_cwd = ''/w'', te_read_dir = (\<lambda>_. None), te_opens = (\<lambda>_. False), te_skills = [],
     te_logs = [], te_uuid = (\<lambda>_. None)\<rparr>"

definition demo_disk :: disk where
  "demo_disk = \<lparr>dk_files = Map.empty, dk_real = (\<lambda>p. p), dk_makes = (\<lambda>_. True), dk_writes = (\<lambda>_. True)\<rparr>"

definition demo_call :: tool_request where
  "demo_call = \<lparr>tq_call_id = ''c1'', tq_name = read_file_tool, tq_arguments = JObj [],
     tq_requires_approval = AskCall\<rparr>"

definition demo_prompt :: approval_prompt where
  "demo_prompt = tool_approval_prompt demo_env demo_call"

definition feed :: "stimulus \<Rightarrow> app \<Rightarrow> app" where
  "feed s a = a\<lparr>app_worker := worker_step demo_env s (app_worker a)\<rparr>"

text \<open>A prompt was sent and the router asks for one tool; the terminal shows the approval.\<close>

definition demo_shown :: app where
  "demo_shown = deliver (\<lambda>_. []) (deliver (\<lambda>_. [])
     (feed (EventArrives (Ok (TurnEndEvent ''t'' (ToolOutcome [demo_call] []))))
       (feed (RequestAnswered (Ok ())) (take_command demo_env (new_app demo_env demo_disk (Some ''hi''))))))"

lemma demo_shown_reachable: "app_reachable demo_tui demo_env (\<lambda>_. []) demo_shown"
  unfolding demo_shown_def feed_def
  by (intro app_reachable.Step [OF _ app_step.Message] app_reachable.Step [OF _ app_step.Command]
      app_reachable.Step [OF _ app_step.Event] app_reachable.Step [OF _ app_step.Answered] app_reachable.Start)

definition demo_waiting :: client where
  "demo_waiting = (new_client demo_env demo_disk)\<lparr>
     cl_session := Some \<lparr>si_id = ''s1'', si_title = [], si_key_id = Some ''k''\<rparr>,
     cl_requests := [(''c1'', demo_call)], cl_prompts := [''c1''], cl_phase := AwaitingToolPhase,
     cl_said := [ThinkingMsg, ApprovalPromptMsg demo_prompt]\<rparr>"

lemma demo_asked:
  "worker_step demo_env (EventArrives (Ok (TurnEndEvent ''t'' (ToolOutcome [demo_call] []))))
     (worker_step demo_env (RequestAnswered (Ok ()))
       (worker_step demo_env (CommandArrives (ExecuteCmd \<lparr>xa_prompt = ''hi'', xa_files = [], xa_plan = False, xa_model = None\<rparr>))
         (Waiting, new_client demo_env demo_disk))) = (Waiting, demo_waiting)"
  by (simp add: demo_env_def new_client_def session_or_new_def say_def handle_awaiting_tool_def demo_waiting_def
      handle_tool_call_requested_def tool_call_decision_def demo_call_def demo_prompt_def shell_command_def
      after_drain_def settle_idle_def)

lemma demo_shown_eq:
  "demo_shown = (new_app demo_env demo_disk (Some ''hi''))\<lparr>
     app_tui := new_tui\<lparr>ui_router := RouterThinking, ui_turn := Some (ApprovalTurn demo_prompt)\<rparr>,
     app_cmds := [], app_worker := (Waiting, demo_waiting), app_delivered := [ThinkingMsg, ApprovalPromptMsg demo_prompt]\<rparr>"
proof -
  let ?fed = "(new_app demo_env demo_disk (Some ''hi''))\<lparr>app_cmds := [], app_worker := (Waiting, demo_waiting)\<rparr>"
  have fed: "feed (EventArrives (Ok (TurnEndEvent ''t'' (ToolOutcome [demo_call] []))))
       (feed (RequestAnswered (Ok ())) (take_command demo_env (new_app demo_env demo_disk (Some ''hi'')))) = ?fed"
    by (simp add: feed_def take_command_def new_app_def demo_asked del: worker_step.simps)
  have said: "cl_said demo_waiting = [ThinkingMsg, ApprovalPromptMsg demo_prompt]" by (simp add: demo_waiting_def)
  show ?thesis
    unfolding demo_shown_def fed
    by (simp add: deliver_def undelivered_def said new_app_def handle_client_msg_def insert_transcript_def
        is_session_closed_def new_tui_def Let_def)
qed

definition demo_yes :: user_decision where
  "demo_yes = approval_decision_for_option demo_prompt ApproveOnce"

lemma demo_pressed:
  "\<exists>a. press_key demo_tui (CharInput CHR ''y'') demo_shown = Some a \<and>
     app_cmds a = [ContinueCmd (SubmitDecisions [demo_yes])] \<and> app_worker a = app_worker demo_shown \<and>
     app_pressed a = [(CharInput CHR ''y'', demo_prompt, demo_yes)] \<and> app_delivered a = app_delivered demo_shown"
  by (simp add: press_key_def handle_input_event_def on_input_def demo_shown_eq new_app_def new_tui_def
      handle_input_on_execution_turn_def active_approval_prompt_def approval_command_def demo_yes_def
      insert_transcript_def presses_def Let_def)

lemma demo_ran:
  "demo_call \<in> set (cl_ran (snd (handle_cmd demo_env (ContinueCmd (SubmitDecisions [demo_yes])) (snd (app_worker demo_shown)))))"
  by (simp add: demo_shown_eq demo_waiting_def open_user_continuation_def tool_approval_request_def demo_yes_def demo_prompt_def
      tool_approval_prompt_def demo_call_def note_standing_def standing_def run_approved_tool_def run_request_def
      execute_tool_def run_tool_def read_file_def required_string_def  results_request_def
      new_client_def demo_env_def key_id_def open_built_def post_continuation_def seal_content_def Let_def)

lemma no_tool_without_a_key_witness:
  "\<exists>a e p d. app_reachable demo_tui demo_env (\<lambda>_. []) a \<and> demo_call \<in> set (cl_ran (snd (app_worker a))) \<and>
     (e, p, d) \<in> set (app_pressed a) \<and> approving_key e \<and> ud_id d = ap_id p \<and>
     ApprovalPromptMsg p \<in> set (app_delivered a)"
proof -
  obtain a where a: "press_key demo_tui (CharInput CHR ''y'') demo_shown = Some a"
    "app_cmds a = [ContinueCmd (SubmitDecisions [demo_yes])]" "app_worker a = app_worker demo_shown"
    using demo_pressed by blast
  have "app_reachable demo_tui demo_env (\<lambda>_. []) a"
    by (rule app_reachable.Step [OF demo_shown_reachable app_step.Key [OF a(1)]])
  then have reach: "app_reachable demo_tui demo_env (\<lambda>_. []) (take_command demo_env a)"
    by (rule app_reachable.Step [OF _ app_step.Command])
  have w: "app_worker demo_shown = (Waiting, demo_waiting)" by (simp add: demo_shown_eq)
  have ran: "demo_call \<in> set (cl_ran (snd (app_worker (take_command demo_env a))))"
    using demo_ran a(2,3) w by (simp add: take_command_def)
  have "tq_requires_approval demo_call = AskCall" "\<not> ce_auto_apply demo_env"
    by (simp_all add: demo_call_def demo_env_def)
  from no_tool_without_a_key [OF reach ran this] show ?thesis using reach ran by blast
qed

section \<open>The terminal\<close>

text \<open>
  C23. The prompt is a line editor: from the empty prompt no sequence of edits panics, and the three
  states of the prompt (text, command, file mention) refine one line of text with a cursor.
\<close>

theorem prompt_is_a_line_editor:
  "\<exists>s. prompt_edits es EmptyPrompt = Some s \<and> prompt_good s \<and> line_of s = fold line_edit es empty_line"
proof -
  have "line_of EmptyPrompt = empty_line" by (simp add: line_of_def empty_line_def)
  then show ?thesis using prompt_edits_line [of EmptyPrompt es] by simp
qed

text \<open>What happens to the terminal: keys and messages, in any order.\<close>

datatype happening = Pressed input_event | Told cli_msg

fun happens :: "tui_env \<Rightarrow> (session_usage_response \<Rightarrow> string) \<Rightarrow> happening list \<Rightarrow> tui \<Rightarrow> tui option" where
  "happens env ul [] t = Some t"
| "happens env ul (Pressed e # hs) t =
     Option.bind (handle_input_event env e t) (\<lambda>(_, _, t'). happens env ul hs t')"
| "happens env ul (Told m # hs) t = happens env ul hs (snd (handle_client_msg ul m t))"

lemma happens_good: "tui_good t \<Longrightarrow> \<exists>t'. happens env ul hs t = Some t' \<and> tui_good t'"
proof (induction hs arbitrary: t)
  case (Cons h hs)
  show ?case
  proof (cases h)
    case (Pressed e)
    obtain cmd t1 where t1: "on_input env e t = Some (cmd, t1)" "tui_good t1"
      using on_input_serves [OF Cons.prems, of env e] by (auto simp: serves_def)
    then show ?thesis using Pressed Cons.IH [of "snd (insert_transcript t1)"]
      by (simp add: handle_input_event_def insert_transcript_def Let_def)
  next
    case (Told m)
    have "tui_good (snd (handle_client_msg ul m t))"
      using apply_msg_good [OF Cons.prems, of ul m] by (simp add: handle_client_msg_def insert_transcript_def Let_def)
    then show ?thesis using Told Cons.IH by simp
  qed
qed simp

text \<open>
  C24. No key panics: whatever keys are pressed and whatever the worker says, the terminal handles
  it, every selection points into its list, and the recall of inputs stays inside its bounds.
\<close>

theorem no_key_panics: "\<exists>t. happens env ul hs new_tui = Some t \<and> tui_good t"
  by (rule happens_good [OF new_tui_good])

definition tap :: "tui_env \<Rightarrow> input_event \<Rightarrow> tui \<Rightarrow> tui" where
  "tap env e t = (case on_input env e t of Some (_, t') \<Rightarrow> t' | None \<Rightarrow> t)"

lemma tap_back:
  assumes "ui_active t = ConsoleView c" "cn_prompt c = EmptyPrompt" "ui_turn t = None" "ui_recall_index t = None"
  shows "k \<le> length (ui_recall t) \<Longrightarrow> (tap env UpInput ^^ k) t = recall_shown t k"
proof (induction k)
  case 0
  show ?case by (simp add: recall_shown_def)
next
  case (Suc k)
  then show ?case
    using recall_key [OF assms(1,2,3), of UpInput env k] recall_back [OF assms(1,2,4), of k]
    by (simp add: tap_def)
qed

lemma tap_forward:
  assumes "ui_active t = ConsoleView c" "cn_prompt c = EmptyPrompt" "ui_turn t = None" "ui_recall_index t = None"
  shows "k \<le> length (ui_recall t) \<Longrightarrow> (tap env DownInput ^^ k) (recall_shown t k) = t"
proof (induction k)
  case 0
  show ?case by (simp add: recall_shown_def)
next
  case (Suc k)
  then show ?case
    using recall_key [OF assms(1,2,3), of DownInput env "Suc k"] recall_forward [OF assms(1,2,4), of k]
    by (simp add: tap_def funpow_Suc_right del: funpow.simps(2))
qed

text \<open>
  Recall walks back and forth: from an empty prompt, up pressed any number of times within the
  recorded inputs shows the input that many entries back, and as many presses of down restore the
  terminal.
\<close>

theorem recall_round_trip:
  assumes "ui_active t = ConsoleView c" "cn_prompt c = EmptyPrompt" "ui_turn t = None" "ui_recall_index t = None"
    and "k \<le> length (ui_recall t)" "0 < k"
  shows "(\<exists>c'. ui_active ((tap env UpInput ^^ k) t) = ConsoleView c' \<and>
      prompt_input (cn_prompt c') = ui_recall t ! (length (ui_recall t) - k)) \<and>
    (tap env DownInput ^^ k) ((tap env UpInput ^^ k) t) = t"
proof -
  have "ui_active (recall_shown t k) =
      ConsoleView (c\<lparr>cn_prompt := replace_with_input (ui_recall t ! (length (ui_recall t) - k))\<rparr>)"
    using assms(1,6) by (simp add: recall_shown_def set_prompt_def)
  then show ?thesis
    using tap_back [OF assms(1-5), of env] tap_forward [OF assms(1-5), of env] by (simp add: replace_input)
qed

section \<open>The machine of the user\<close>

text \<open>
  C25. The file tools stay in the workspace: as long as no symbolic link in it leads out, apart from
  the shell, no tool changes a file outside of it, and neither its answer nor what it writes depends
  on one.
\<close>

theorem tools_stay_in_workspace:
  assumes "name \<noteq> shell_tool" "links_inside cwd d"
  shows "(\<not> starts_with_path (real_root cwd d) p \<longrightarrow>
      dk_files (snd (run_tool sh cwd name arguments d)) p = dk_files d p) \<and>
    (same_workspace cwd d d' \<longrightarrow>
      fst (run_tool sh cwd name arguments d) = fst (run_tool sh cwd name arguments d') \<and>
      same_workspace cwd (snd (run_tool sh cwd name arguments d)) (snd (run_tool sh cwd name arguments d')))"
  using confined_tools [OF assms(1), of cwd sh arguments] assms(2) unfolding confined_def by blast

text \<open>A workspace \<^verbatim>\<open>/w\<close> in which \<^verbatim>\<open>/w/link\<close> leads to \<^verbatim>\<open>/w/x\<close>.\<close>

definition linked_disk :: disk where
  "linked_disk = demo_disk\<lparr>dk_real := (\<lambda>p. if p = [RootDir, NormalPart ''w'', NormalPart ''link'']
     then [RootDir, NormalPart ''w'', NormalPart ''x''] else p)\<rparr>"

lemma tools_stay_in_workspace_witness:
  "dk_files (snd (run_tool (\<lambda>_ _ d. (None, d)) ''/w'' write_file_tool
     (JObj [(''path'', JStr ''link''), (''content'', JStr ''y'')]) linked_disk)) [RootDir, NormalPart ''x''] = None"
proof -
  have tool: "write_file_tool \<noteq> shell_tool" by (simp add: write_file_tool_def shell_tool_def)
  have root: "workspace_root ''/w'' = [RootDir, NormalPart ''w'']" by code_simp
  have links: "links_inside ''/w'' linked_disk"
    by (simp add: links_inside_def real_root_def root starts_with_path_def linked_disk_def)
  have "\<not> starts_with_path (real_root ''/w'' linked_disk) [RootDir, NormalPart ''x'']"
    by (simp add: real_root_def root starts_with_path_def linked_disk_def)
  then show ?thesis using tools_stay_in_workspace [OF tool links] by (simp add: linked_disk_def demo_disk_def)
qed

text \<open>
  C26. A continuation of an encrypted session carries a ciphertext for every result and for every
  content the router asked to have sealed, and none for anything else: under the id of a result it is
  the encryption, with the key of the session, of the content of the last result of that id; under
  any other reference it is that of the text the router gave. The results go beside them as they
  are, for the turn that needs them; what is pending to be sealed is cleared.
\<close>

theorem results_go_out_sealed:
  assumes "results_request env rs c = (Ok q, c')" "key_id c = Some key"
  shows "\<exists>encrypted. q = ToolResults rs encrypted \<and> c' = c\<lparr>cl_seals := []\<rparr> \<and>
    fst ` set encrypted = fst ` set (cl_seals c) \<union> ToolCallRef ` tl_call_id ` set rs \<and>
    (\<forall>before r behind. rs = before @ r # behind \<longrightarrow> tl_call_id r \<notin> tl_call_id ` set behind \<longrightarrow>
       (\<exists>p. map_of encrypted (ToolCallRef (tl_call_id r)) = Some p \<and> ce_encrypt env key (tl_content r) = Ok p)) \<and>
    (\<forall>ref t. ref \<notin> ToolCallRef ` tl_call_id ` set rs \<longrightarrow> map_of (cl_seals c) ref = Some t \<longrightarrow>
       (\<exists>p. map_of encrypted ref = Some p \<and> ce_encrypt env key t = Ok p))"
proof -
  obtain encrypted where q: "q = ToolResults rs encrypted" "c' = c\<lparr>cl_seals := []\<rparr>"
      "fst ` set encrypted = fst ` set (cl_seals c) \<union> ToolCallRef ` tl_call_id ` set rs"
    using results_request_sealed [OF assms(1)] assms(2) by auto
  note texts = results_request_texts [OF assms(1) [unfolded q(1)] assms(2)]
  show ?thesis using q texts by (intro exI [of _ encrypted]) simp
qed

lemma results_go_out_sealed_witness:
  "\<exists>q c' encrypted p. results_request demo_env [\<lparr>tl_call_id = ''c1'', tl_content = ''xy'', tl_is_error = False,
       tl_decision = None\<rparr>] (snd (app_worker demo_shown)) = (Ok q, c') \<and>
     q = ToolResults [\<lparr>tl_call_id = ''c1'', tl_content = ''xy'', tl_is_error = False, tl_decision = None\<rparr>] encrypted \<and>
     fst ` set encrypted = {ToolCallRef ''c1''} \<and>
     map_of encrypted (ToolCallRef ''c1'') = Some p \<and> ep_ciphertext p = ''yx''"
proof -
  let ?r = "\<lparr>tl_call_id = ''c1'', tl_content = ''xy'', tl_is_error = False, tl_decision = None\<rparr>"
  let ?c = "snd (app_worker demo_shown)"
  obtain key where key: "key_id ?c = Some key" and seals: "cl_seals ?c = []"
    by (simp add: key_id_def demo_shown_eq demo_waiting_def new_client_def)
  obtain q c' where run: "results_request demo_env [?r] ?c = (Ok q, c')"
    by (simp add: results_request_def key_id_def demo_shown_eq demo_waiting_def new_client_def seal_content_def demo_env_def Let_def)
  have last: "[?r] = [] @ ?r # []" "tl_call_id ?r \<notin> tl_call_id ` set []" by simp_all
  from results_go_out_sealed [OF run key] show ?thesis
  proof (elim exE conjE)
    fix encrypted
    assume sent: "q = ToolResults [?r] encrypted"
        "fst ` set encrypted = fst ` set (cl_seals ?c) \<union> ToolCallRef ` tl_call_id ` set [?r]"
      and all: "\<forall>before r behind. [?r] = before @ r # behind \<longrightarrow> tl_call_id r \<notin> tl_call_id ` set behind \<longrightarrow>
        (\<exists>p. map_of encrypted (ToolCallRef (tl_call_id r)) = Some p \<and> ce_encrypt demo_env key (tl_content r) = Ok p)"
    from all [rule_format, OF last] obtain p where p: "map_of encrypted (ToolCallRef (tl_call_id ?r)) = Some p"
        "ce_encrypt demo_env key (tl_content ?r) = Ok p"
      by (elim exE conjE)
    have "ep_ciphertext p = ''yx''" using p(2) by (auto simp: demo_env_def)
    moreover have "fst ` set encrypted = {ToolCallRef ''c1''}" using sent(2) by (simp add: seals)
    ultimately show ?thesis using run sent(1) p(1) by (intro exI conjI) simp_all
  qed
qed

section \<open>The agent\<close>

text \<open>
  C27. Streaming changes nothing: when a model streams the text and the calls it would have
  replied with, the events carry the content and the tool calls the completion returns, also where
  calls are recovered from text, unless the turn holds memory calls only.
\<close>

theorem streamed_as_completed:
  fixes env :: "'s agent_env"
  defines "request a q \<equiv> request_builder (ae_rig env) a q
    (last (conversation (ae_rig env) q)) (butlast (conversation (ae_rig env) q))"
  assumes "rig_law (ae_rig env)" "json_law (ae_parse env)"
    and "cap_streaming (md_capabilities (an_descriptor a))" "cq_messages q \<noteq> []"
    and "ae_stream env (request a q) = Ok items" "\<forall>i\<in>set items. \<exists>x. i = Inr x"
      "rig_calls items = [] \<longrightarrow> \<not> (\<exists>i\<in>set items. announces i)"
    and "ae_send env 0 (request a q) = Ok reply"
      "reply_text (gr_choice reply) = rig_text items" "reply_calls (gr_choice reply) = rig_calls items"
    and "agent_stream env a q s = (Ok events, s1)" "\<not> only_memory (calls_in events)"
  shows "\<exists>r. complete env a q s = (Ok r, s) \<and> s1 = s \<and>
    cr_content r = text_in events \<and> cr_tool_calls r = calls_in events"
  using assms unfolding request_def by (intro stream_is_completion) assumption+

text \<open>A model that says hello, streamed or not.\<close>

definition demo_rig :: rig_library where
  "demo_rig = \<lparr>rl_new_or_mint = (\<lambda>i. i), rl_wire_call_id = gc_id, rl_json_float = (\<lambda>_. JNull)\<rparr>"

definition demo_agent_env :: "memory_state agent_env" where
  "demo_agent_env = \<lparr>ae_rig = demo_rig,
     ae_send = (\<lambda>_ _. Ok \<lparr>gr_choice = [ReplyText ''hello''], gr_usage = new_rig_usage, gr_message_id = None, gr_raw = None\<rparr>),
     ae_stream = (\<lambda>_. Ok [Ok (RigText ''hel''), Ok (RigText ''lo'')]), ae_parse = (\<lambda>_. None),
     ae_ops = memory_backend show_nat Some \<lparr>sc_user = ''a'', sc_session = ''s1''\<rparr>,
     ae_args_error = (\<lambda>_. []), ae_storage_text = (\<lambda>_. []), ae_ellipsis = ''...''\<rparr>"

definition demo_agent :: agent where
  "demo_agent = \<lparr>an_preamble = [], an_descriptor = local_model\<lparr>md_capabilities := no_capabilities\<lparr>cap_streaming := True\<rparr>\<rparr>\<rparr>"

definition demo_request :: completion_request where
  "demo_request = \<lparr>cq_messages = [UserMsg ''hi''], cq_parameters = plain_parameters, cq_tools = [],
     cq_tool_choice = AutoChoice\<rparr>"

lemma demo_laws: "rig_law demo_rig" "json_law (\<lambda>_. None)"
  by (simp_all add: rig_law_def demo_rig_def json_law_def)

lemma demo_streams:
  "\<exists>events. agent_stream demo_agent_env demo_agent demo_request s = (Ok events, s) \<and>
     text_in events = ''hello'' \<and> calls_in events = []"
proof -
  let ?items = "[Ok (RigText ''hel''), Ok (RigText ''lo'')] :: (rig_failure, rig_item) result list"
  let ?decoder = "decoder_for_provider (\<lambda>_. None) Ollama"
  have law: "\<forall>d. ?decoder = Some d \<longrightarrow> decoder_law d" using decoder_kept [OF demo_laws(2)] by blast
  have plain: "recover ?decoder ''hello'' [] = (''hello'', [], False)"
    by (simp add: recover_def decoder_for_provider_def ollama_decoder_def parse_text_tool_calls_def
        text_tool_call_payloads_def trim_text_def trim_start_def is_whitespace_def strip_prefix_def fence_def
        call_tag_def code_def of_char_def Let_def)
  have "text_in (stream_items demo_rig ?decoder p pv m ?items) = ''hello'' \<and>
      calls_in (stream_items demo_rig ?decoder p pv m ?items) = []" for p pv m
    using streamed_reply [of ?items ?decoder demo_rig p pv m] law plain
    by (simp add: rig_text_def rig_calls_def announces_def)
  then show ?thesis
    by (simp add: agent_stream_def demo_agent_def demo_agent_env_def demo_request_def conversation_def local_model_def
        Let_def)
qed

lemma streamed_as_completed_witness:
  "\<forall>s. \<exists>r events. complete demo_agent_env demo_agent demo_request s = (Ok r, s) \<and>
     agent_stream demo_agent_env demo_agent demo_request s = (Ok events, s) \<and>
     cr_content r = text_in events \<and> cr_content r = ''hello''"
proof
  fix s
  let ?items = "[Ok (RigText ''hel''), Ok (RigText ''lo'')] :: (rig_failure, rig_item) result list"
  let ?reply = "\<lparr>gr_choice = [ReplyText ''hello''], gr_usage = new_rig_usage, gr_message_id = None, gr_raw = None\<rparr>"
  obtain events where events: "agent_stream demo_agent_env demo_agent demo_request s = (Ok events, s)"
    "text_in events = ''hello''" "calls_in events = []" using demo_streams by blast
  have "\<exists>r. complete demo_agent_env demo_agent demo_request s = (Ok r, s) \<and> s = s \<and>
      cr_content r = text_in events \<and> cr_tool_calls r = calls_in events"
    by (rule streamed_as_completed [where items = ?items and reply = ?reply, OF _ _ _ _ _ _ _ _ _ _ events(1)])
      (use demo_laws events(3) in \<open>simp_all add: demo_agent_env_def demo_agent_def demo_request_def rig_calls_def
        rig_text_def announces_def reply_text_def reply_calls_def only_memory_def local_model_def\<close>)
  then show "\<exists>r events. complete demo_agent_env demo_agent demo_request s = (Ok r, s) \<and>
     agent_stream demo_agent_env demo_agent demo_request s = (Ok events, s) \<and>
     cr_content r = text_in events \<and> cr_content r = ''hello''" using events by auto
qed

text \<open>
  C28. An agent acts for one user: whatever the model calls, a completion or a stream leaves the
  database consistent and all the data of every other user as it was.
\<close>

theorem agent_serves_one_user:
  assumes "ae_ops env = memory_backend fresh parse scope" "db_wf d" "v \<noteq> sc_user scope"
  shows "visible v (fst (snd (complete env a q (d, n)))) = visible v d \<and>
    visible v (fst (snd (agent_stream env a q (d, n)))) = visible v d \<and>
    db_wf (fst (snd (complete env a q (d, n)))) \<and> db_wf (fst (snd (agent_stream env a q (d, n))))"
  using agent_isolated [OF assms] by blast

lemma agent_serves_one_user_witness:
  "visible ''b'' (fst (snd (complete demo_agent_env demo_agent demo_request (two_sessions, 0)))) =
   visible ''b'' two_sessions"
  using agent_serves_one_user [of demo_agent_env show_nat Some "\<lparr>sc_user = ''a'', sc_session = ''s1''\<rparr>" two_sessions "''b''"]
    two_sessions_wf by (simp add: demo_agent_env_def)

text \<open>
  C29. A completion that returns leaves no turn of memory calls to the router, and it has asked the
  model at most eight times: its outcome does not depend on any later answer.
\<close>

theorem completion_is_bounded:
  assumes "\<And>i. i < 8 \<Longrightarrow> send i = ae_send env i"
  shows "complete (env\<lparr>ae_send := send\<rparr>) a q s = complete env a q s \<and>
    (\<forall>r s'. complete env a q s = (Ok r, s') \<longrightarrow> \<not> only_memory (cr_tool_calls r))"
  using asked_at_most [of send env a q s] assms completion_external [of env a q s]
  unfolding max_internal_tool_turns_def by blast

lemma completion_is_bounded_witness:
  "\<forall>s. complete (demo_agent_env\<lparr>ae_send := (\<lambda>i. if i < 8 then ae_send demo_agent_env i else (\<lambda>_. Err \<lparr>gf_error = CompletionUrl, gf_text = []\<rparr>))\<rparr>)
     demo_agent demo_request s = complete demo_agent_env demo_agent demo_request s"
proof
  fix s
  show "complete (demo_agent_env\<lparr>ae_send := (\<lambda>i. if i < 8 then ae_send demo_agent_env i else (\<lambda>_. Err \<lparr>gf_error = CompletionUrl, gf_text = []\<rparr>))\<rparr>)
     demo_agent demo_request s = complete demo_agent_env demo_agent demo_request s"
    using completion_is_bounded [of "\<lambda>i. if i < 8 then ae_send demo_agent_env i else (\<lambda>_. Err \<lparr>gf_error = CompletionUrl, gf_text = []\<rparr>)"
        demo_agent_env demo_agent demo_request s] by simp
qed

text \<open>
  A stream ends once: its last item is the end marker or the one error, no other item is, and
  a call is announced at most once.
\<close>

lemma stream_ends_once:
  "\<exists>front stop. stream_items rig decoder p pv model items = front @ [stop] \<and> \<not> is_running stop \<and>
     list_all is_running front \<and> distinct (starts_in (stream_items rig decoder p pv model items))"
  using stream_terminates [of rig decoder p pv model items] announced_once [of rig decoder p pv model items]
  unfolding terminates_def list_all_iff by blast

text \<open>
  A completion replayed as a stream is the completion again: aggregating its events gives back
  content, calls and usage; the finish reason is the one the calls imply.
\<close>

theorem replay_round_trip:
  "\<exists>sent. aggregate_stream (heard (completion_events r)) =
     (sent, Ok (r\<lparr>cr_finish_reason := (if cr_tool_calls r = [] then StopFinish else ToolCallsFinish)\<rparr>))"
  by (rule replayed_completion)

section \<open>The configuration\<close>

text \<open>
  C31. A preference never weakens the configuration: against what the other layers merge to, a
  runtime override leaves the remote and the local privacy mode at least as strict, every restricted
  or blocked path in place, and every tool the other layers name at least as strict.
\<close>

theorem preferences_never_weaken:
  defines "base \<equiv> safety_floor" and "merged \<equiv> merge_layers"
  shows "remote_effective_mode (remote (cf_privacy (base layers))) \<le> remote_effective_mode (remote (cf_privacy (merged layers))) \<and>
    local_effective_mode (local_models (cf_privacy (base layers))) \<le> local_effective_mode (local_models (cf_privacy (merged layers))) \<and>
    set (restricted_paths (cf_privacy (base layers))) \<subseteq> set (restricted_paths (cf_privacy (merged layers))) \<and>
    set (blocked_paths (remote (cf_privacy (base layers)))) \<subseteq> set (blocked_paths (remote (cf_privacy (merged layers)))) \<and>
    (\<forall>tool m. mode_for (cf_tools (base layers)) tool = Some m \<longrightarrow>
       (\<exists>n. mode_for (cf_tools (merged layers)) tool = Some n \<and> m \<le> n))"
  using merged_tightens_floor [of layers] unfolding tightens_def base_def merged_def .

text \<open>A project that denies the shell, and an override that allows it.\<close>

definition loosening_layers :: "(config_layer \<times> config) list" where
  "loosening_layers = [(RuntimeOverride, default_config\<lparr>cf_tools := [(''shell'', Allow)]\<rparr>),
     (ProjectLayer, default_config\<lparr>cf_tools := [(''shell'', Deny)]\<rparr>)]"

lemma preferences_never_weaken_witness:
  "mode_for (cf_tools (merge_layers loosening_layers)) ''shell'' = Some Deny"
proof -
  have "mode_for (cf_tools (safety_floor loosening_layers)) ''shell'' = Some Deny"
    by (simp add: loosening_layers_def safety_floor_def merge_layers_def merge_onto_def merge_two_def is_preference_def
        default_config_def mode_for_def)
  then obtain n where "mode_for (cf_tools (merge_layers loosening_layers)) ''shell'' = Some n" "Deny \<le> n"
    using preferences_never_weaken [of loosening_layers] by blast
  then show ?thesis by simp
qed

text \<open>
  C32. The validator accepts exactly the well-formed configurations: there is a default route, every
  route names configured providers and has fallbacks that differ from each other and from its model,
  rules have names of their own and no two are ambiguous, every pattern compiles, and every key is
  a placeholder.
\<close>

theorem accepted_configurations:
  "validate glob_error c = [] \<longleftrightarrow>
   (\<exists>d. rp_default (cf_routing c) = Some d \<and> route_good c (dr_model d) (dr_fallbacks d)) \<and>
   (\<forall>r\<in>set (rp_rules (cf_routing c)). route_good c (rule_model r) (rule_fallbacks r)) \<and>
   distinct (map rule_name (rp_rules (cf_routing c))) \<and>
   sorted_wrt (\<lambda>a b. \<not> ambiguous a b) (rp_rules (cf_routing c)) \<and>
   (\<forall>p\<in>set (restricted_paths (cf_privacy c)) \<union> set (blocked_paths (remote (cf_privacy c))) \<union>
      (\<Union>r\<in>set (rp_rules (cf_routing c)). set (rule_paths r)). glob_error p = None) \<and>
   (\<forall>(p, pc)\<in>set (cf_providers c). \<forall>k. pc_api_key pc = Some k \<longrightarrow> (\<exists>name. name \<noteq> [] \<and> k = show_secret_ref name))"
  by (rule clean_report)

lemma accepted_configurations_witness:
  "validate (\<lambda>_. None) default_config = [] \<and>
   validate (\<lambda>_. None) (default_config\<lparr>cf_providers := []\<rparr>) \<noteq> []"
  using accepted_configurations [of "\<lambda>_. None" default_config]
    accepted_configurations [of "\<lambda>_. None" "default_config\<lparr>cf_providers := []\<rparr>"]
  by (auto simp: default_config_def default_model_reference_def route_good_def open_policy_def)

end
