(* ===== verification/Credentials.thy ===== *)
theory Credentials
  imports Authentication Cli_Config Content_Store
begin

text \<open>
  The credentials of the command line client (\<^verbatim>\<open>smista-cli/src/credentials\<close>): the two backends
  of the \<open>SecretStorage\<close> trait, a file with the mode 0600 (\<^verbatim>\<open>secrets/file.rs\<close>) and the keyring
  of the platform (\<^verbatim>\<open>secrets/keyring.rs\<close>, \<^verbatim>\<open>secrets/key.rs\<close>); the choice between
  them and the lookup that prefers the project (\<^verbatim>\<open>credentials.rs\<close>); the keys of the providers,
  of the router and of the encrypted sessions (\<^verbatim>\<open>providers.rs\<close>, \<^verbatim>\<open>api_key.rs\<close>,
  \<^verbatim>\<open>e2ee.rs\<close>); the commands (\<^verbatim>\<open>command/credentials.rs\<close>) and the credentials of the
  router client (\<^verbatim>\<open>client.rs\<close>).  The disk calls, the platform store, TOML and the cipher are
  fields of host records with named laws.  The locale \<open>secret_storage\<close> states what the trait
  promises; both backends interpret it and everything above them is proved from it.
\<close>

section \<open>Keys (\<^verbatim>\<open>secrets/key.rs\<close>)\<close>

datatype key_scope = GlobalScope | LocalScope string

record secret_key =
  ky_scope :: key_scope
  ky_name :: string

definition global_key_scope :: string where
  "global_key_scope = ''*''"

fun scope_text :: "key_scope \<Rightarrow> string" where
  "scope_text GlobalScope = global_key_scope"
| "scope_text (LocalScope dir) = dir"

definition show_key :: "secret_key \<Rightarrow> string" where
  "show_key k = scope_text (ky_scope k) @ CHR '':'' # ky_name k"

definition parse_scope :: "string \<Rightarrow> key_scope" where
  "parse_scope s = (if s = global_key_scope then GlobalScope else LocalScope s)"

text \<open>A scope whose text has no colon: then the name may be anything.\<close>

definition scope_plain :: "key_scope \<Rightarrow> bool" where
  "scope_plain sc \<longleftrightarrow> CHR '':'' \<notin> set (scope_text sc) \<and> sc \<noteq> LocalScope global_key_scope"

lemma parse_scope_text: "sc \<noteq> LocalScope global_key_scope \<Longrightarrow> parse_scope (scope_text sc) = sc"
  by (cases sc) (auto simp: parse_scope_def)

lemma show_key_inj:
  assumes "scope_plain (ky_scope k)" "scope_plain (ky_scope l)" "show_key k = show_key l"
  shows "k = l"
proof -
  have split: "split_once CHR '':'' (show_key x) = Some (scope_text (ky_scope x), ky_name x)"
    if "scope_plain (ky_scope x)" for x
    using that by (simp add: show_key_def scope_plain_def)
  have texts: "scope_text (ky_scope k) = scope_text (ky_scope l)" and names: "ky_name k = ky_name l"
    using split [OF assms(1)] split [OF assms(2)] assms(3) by simp_all
  have "ky_scope k = parse_scope (scope_text (ky_scope k))" "ky_scope l = parse_scope (scope_text (ky_scope l))"
    using assms(1,2) by (simp_all add: parse_scope_text scope_plain_def)
  then have "ky_scope k = ky_scope l" using texts by simp
  with names show ?thesis by (cases k; cases l) simp
qed

lemma colon_in_path_collides:
  "show_key \<lparr>ky_scope = LocalScope ''/work'', ky_name = ''x:openai''\<rparr> =
   show_key \<lparr>ky_scope = LocalScope ''/work:x'', ky_name = ''openai''\<rparr>"
  by (simp add: show_key_def)

section \<open>The trait (\<^verbatim>\<open>secrets.rs\<close>)\<close>

type_synonym ('s, 'a) secret_io = "'s \<Rightarrow> (string, 'a) result \<times> 's"

record 's secret_ops =
  so_put :: "key_scope \<Rightarrow> string \<Rightarrow> string \<Rightarrow> ('s, unit) secret_io"
  so_get :: "key_scope \<Rightarrow> string \<Rightarrow> ('s, string option) secret_io"
  so_delete :: "key_scope \<Rightarrow> string \<Rightarrow> ('s, unit) secret_io"

text \<open>\<open>view s sc n\<close> is the secret of name \<open>n\<close> in the scope \<open>sc\<close>; \<open>ready s\<close> says the backend
  answers; \<open>named sc n\<close> limits the laws to the keys the backend tells apart.\<close>

locale secret_storage =
  fixes ops :: "'s secret_ops"
    and view :: "'s \<Rightarrow> key_scope \<Rightarrow> string \<Rightarrow> string option"
    and ready :: "'s \<Rightarrow> bool"
    and named :: "key_scope \<Rightarrow> bool"
  assumes get_reads: "ready s \<Longrightarrow> named sc \<Longrightarrow>
      \<exists>s'. so_get ops sc n s = (Ok (view s sc n), s') \<and> ready s' \<and>
        (\<forall>sd m. named sd \<longrightarrow> view s' sd m = view s sd m)"
    and put_stores: "ready s \<Longrightarrow> named sc \<Longrightarrow>
      \<exists>s'. so_put ops sc n v s = (Ok (), s') \<and> ready s' \<and>
        (\<forall>sd m. named sd \<longrightarrow> view s' sd m = (if sd = sc \<and> m = n then Some v else view s sd m))"
    and delete_removes: "ready s \<Longrightarrow> named sc \<Longrightarrow>
      \<exists>s'. so_delete ops sc n s = (Ok (), s') \<and> ready s' \<and>
        (\<forall>sd m. named sd \<longrightarrow> view s' sd m = (if sd = sc \<and> m = n then None else view s sd m))"

section \<open>The file backend (\<^verbatim>\<open>secrets/file.rs\<close>)\<close>

record secret_file =
  sf_regular :: bool
  sf_mode :: nat
  sf_contents :: string

type_synonym secret_disk = "string \<Rightarrow> secret_file option"

datatype disk_op = CreateParent | CreateNew | SetMode | Stat | ReadText | OpenTruncate | WriteAll | SyncAll

text \<open>The host of the file backend: which calls fail, with their messages; the mode a new file has
  before it is set; and TOML.\<close>

record file_host =
  fh_fails :: "disk_op \<Rightarrow> string \<Rightarrow> string option"
  fh_created_mode :: nat
  fh_parse :: "string \<Rightarrow> (string, string btree) result"
  fh_encode :: "string btree \<Rightarrow> (string, string) result"

definition secret_file_mode :: nat where
  "secret_file_mode = 384"  \<comment> \<open>0o600\<close>

definition bind_s :: "('s, 'a) secret_io \<Rightarrow> ('a \<Rightarrow> ('s, 'b) secret_io) \<Rightarrow> ('s, 'b) secret_io" where
  "bind_s m f s = (case m s of (Inl e, t) \<Rightarrow> (Err e, t) | (Inr a, t) \<Rightarrow> f a t)"

definition disk_call :: "file_host \<Rightarrow> disk_op \<Rightarrow> string \<Rightarrow> (secret_disk, unit) secret_io" where
  "disk_call h opr p d = (case fh_fails h opr p of Some e \<Rightarrow> (Err e, d) | None \<Rightarrow> (Ok (), d))"

definition modify_file :: "string \<Rightarrow> (secret_file \<Rightarrow> secret_file) \<Rightarrow> (secret_disk, unit) secret_io" where
  "modify_file p f d = (Ok (), d(p := map_option f (d p)))"

definition create_secret_file :: "file_host \<Rightarrow> string \<Rightarrow> (secret_disk, unit) secret_io" where
  "create_secret_file h p =
     bind_s (disk_call h CreateNew p) (\<lambda>_.
     bind_s (\<lambda>d. (Ok (), d(p \<mapsto> \<lparr>sf_regular = True, sf_mode = fh_created_mode h, sf_contents = []\<rparr>))) (\<lambda>_.
     bind_s (disk_call h SetMode p) (\<lambda>_.
     modify_file p (\<lambda>f. f\<lparr>sf_mode := secret_file_mode\<rparr>))))"

definition ensure_permissions :: "file_host \<Rightarrow> string \<Rightarrow> (secret_disk, unit) secret_io" where
  "ensure_permissions h p =
     bind_s (disk_call h Stat p) (\<lambda>_. \<lambda>d.
       (case d p of
          None \<Rightarrow> (Err ''not found'', d)
        | Some f \<Rightarrow>
            if sf_mode f mod 512 \<noteq> secret_file_mode
            then (Err (''Secrets file '' @ p @ '' must have permissions 600''), d)
            else (Ok (), d)))"

definition ensure_file :: "file_host \<Rightarrow> string \<Rightarrow> (secret_disk, unit) secret_io" where
  "ensure_file h p =
     bind_s (disk_call h CreateParent p) (\<lambda>_.
     bind_s (\<lambda>d. if d p = None then create_secret_file h p d else (Ok (), d)) (\<lambda>_.
     bind_s (disk_call h Stat p) (\<lambda>_.
     bind_s (\<lambda>d. (case d p of
                     None \<Rightarrow> (Err ''not found'', d)
                   | Some f \<Rightarrow> if sf_regular f then (Ok (), d)
                              else (Err (''Secrets path is not a regular file: '' @ p), d))) (\<lambda>_.
     ensure_permissions h p))))"

definition read_entries :: "file_host \<Rightarrow> string \<Rightarrow> (secret_disk, string btree) secret_io" where
  "read_entries h p =
     bind_s (ensure_file h p) (\<lambda>_.
     bind_s (disk_call h ReadText p) (\<lambda>_. \<lambda>d.
       (case d p of
          None \<Rightarrow> (Err ''not found'', d)
        | Some f \<Rightarrow>
            if trim_text (sf_contents f) = [] then (Ok [], d)
            else (case fh_parse h (sf_contents f) of
                    Inl e \<Rightarrow> (Err (''Could not parse secrets file '' @ p @ '': '' @ e), d)
                  | Inr entries \<Rightarrow> (Ok entries, d)))))"

definition write_entries :: "file_host \<Rightarrow> string \<Rightarrow> string btree \<Rightarrow> (secret_disk, unit) secret_io" where
  "write_entries h p entries =
     bind_s (ensure_file h p) (\<lambda>_.
     bind_s (\<lambda>d. (fh_encode h entries, d)) (\<lambda>encoded.
     bind_s (disk_call h OpenTruncate p) (\<lambda>_.
     bind_s (modify_file p (\<lambda>f. f\<lparr>sf_contents := []\<rparr>)) (\<lambda>_.
     bind_s (disk_call h WriteAll p) (\<lambda>_.
     bind_s (modify_file p (\<lambda>f. f\<lparr>sf_contents := encoded\<rparr>)) (\<lambda>_.
     bind_s (disk_call h SyncAll p) (\<lambda>_.
     ensure_permissions h p)))))))"

definition bt_remove :: "string \<Rightarrow> 'v btree \<Rightarrow> 'v btree" where
  "bt_remove k m = filter (\<lambda>(l, _). l \<noteq> k) m"

definition file_put :: "file_host \<Rightarrow> string \<Rightarrow> string \<Rightarrow> string \<Rightarrow> (secret_disk, unit) secret_io" where
  "file_put h p name v =
     bind_s (read_entries h p) (\<lambda>entries. write_entries h p (bt_insert name v entries))"

definition file_get :: "file_host \<Rightarrow> string \<Rightarrow> string \<Rightarrow> (secret_disk, string option) secret_io" where
  "file_get h p name = bind_s (read_entries h p) (\<lambda>entries. \<lambda>d. (Ok (bt_get entries name), d))"

definition file_remove :: "file_host \<Rightarrow> string \<Rightarrow> string \<Rightarrow> (secret_disk, unit) secret_io" where
  "file_remove h p name =
     bind_s (read_entries h p) (\<lambda>entries. write_entries h p (bt_remove name entries))"

definition secrets_file :: "string \<Rightarrow> string" where
  "secrets_file cwd = path_join (path_join cwd ''.smista'') ''secrets''"

fun secrets_path :: "string \<Rightarrow> key_scope \<Rightarrow> string" where
  "secrets_path global_path GlobalScope = global_path"
| "secrets_path global_path (LocalScope dir) = secrets_file dir"

definition file_ops :: "file_host \<Rightarrow> string \<Rightarrow> secret_disk secret_ops" where
  "file_ops h global_path =
     \<lparr>so_put = (\<lambda>sc. file_put h (secrets_path global_path sc)),
      so_get = (\<lambda>sc. file_get h (secrets_path global_path sc)),
      so_delete = (\<lambda>sc. file_remove h (secrets_path global_path sc))\<rparr>"

definition new_file_storage ::
  "file_host \<Rightarrow> string option \<Rightarrow> (secret_disk, secret_disk secret_ops) secret_io" where
  "new_file_storage h global_path =
     (case global_path of
        None \<Rightarrow> (\<lambda>d. (Err ''Could not determine the global secrets file path.'', d))
      | Some p \<Rightarrow> bind_s (ensure_file h p) (\<lambda>_. \<lambda>d. (Ok (file_ops h p), d)))"

subsection \<open>The file backend keeps the promises of the trait\<close>

definition toml_law :: "file_host \<Rightarrow> bool" where
  "toml_law h \<longleftrightarrow>
     (\<forall>e. bt_wf e \<longrightarrow> (\<exists>s. fh_encode h e = Ok s \<and>
        (if trim_text s = [] then e = [] else fh_parse h s = Ok e))) \<and>
     (\<forall>s e. fh_parse h s = Ok e \<longrightarrow> bt_wf e)"

definition disk_answers :: "file_host \<Rightarrow> bool" where
  "disk_answers h \<longleftrightarrow> (\<forall>opr p. fh_fails h opr p = None)"

definition file_entries :: "file_host \<Rightarrow> secret_disk \<Rightarrow> string \<Rightarrow> string btree" where
  "file_entries h d p =
     (case d p of
        None \<Rightarrow> []
      | Some f \<Rightarrow> if trim_text (sf_contents f) = [] then []
                 else (case fh_parse h (sf_contents f) of Inl _ \<Rightarrow> [] | Inr e \<Rightarrow> e))"

definition secure_file :: "file_host \<Rightarrow> secret_file \<Rightarrow> bool" where
  "secure_file h f \<longleftrightarrow> sf_regular f \<and> sf_mode f mod 512 = secret_file_mode \<and>
     (trim_text (sf_contents f) \<noteq> [] \<longrightarrow> (\<exists>e. fh_parse h (sf_contents f) = Ok e))"

definition file_ready :: "file_host \<Rightarrow> string \<Rightarrow> secret_disk \<Rightarrow> bool" where
  "file_ready h g d \<longleftrightarrow> toml_law h \<and> disk_answers h \<and>
     (\<forall>sc f. d (secrets_path g sc) = Some f \<longrightarrow> secure_file h f)"

definition file_view :: "file_host \<Rightarrow> string \<Rightarrow> secret_disk \<Rightarrow> key_scope \<Rightarrow> string \<Rightarrow> string option" where
  "file_view h g d sc n = bt_get (file_entries h d (secrets_path g sc)) n"

text \<open>The directories whose secrets files are distinct files.\<close>

fun file_named :: "string \<Rightarrow> key_scope \<Rightarrow> bool" where
  "file_named g GlobalScope = True"
| "file_named g (LocalScope dir) = (dir \<noteq> [] \<and> last dir \<noteq> CHR ''/'' \<and> secrets_file dir \<noteq> g)"

definition touch :: "string \<Rightarrow> secret_disk \<Rightarrow> secret_disk" where
  "touch p d = (if d p = None then d(p \<mapsto> \<lparr>sf_regular = True, sf_mode = secret_file_mode, sf_contents = []\<rparr>) else d)"

lemma secrets_file_shape:
  "dir \<noteq> [] \<Longrightarrow> last dir \<noteq> CHR ''/'' \<Longrightarrow> secrets_file dir = dir @ ''/.smista/secrets''"
  by (simp add: secrets_file_def path_join_def is_absolute_def)

lemma secrets_path_inj:
  "file_named g sc \<Longrightarrow> file_named g sd \<Longrightarrow> secrets_path g sc = secrets_path g sd \<longleftrightarrow> sc = sd"
  by (cases sc; cases sd) (auto simp: secrets_file_shape)

lemma bind_s_Ok: "m s = (Ok a, t) \<Longrightarrow> bind_s m f s = f a t"
  by (simp add: bind_s_def)

lemma disk_call_answers: "disk_answers h \<Longrightarrow> disk_call h opr p d = (Ok (), d)"
  by (simp add: disk_call_def disk_answers_def)

lemma mode_small [simp]: "secret_file_mode mod 512 = secret_file_mode"
  by (simp add: secret_file_mode_def)

lemma trim_nil [simp]: "trim_text [] = []"
  by (simp add: trim_text_def trim_start_def)

lemma new_file_secure [simp]:
  "secure_file h \<lparr>sf_regular = True, sf_mode = secret_file_mode, sf_contents = []\<rparr>"
  by (simp add: secure_file_def)

lemma touch_entries [simp]: "file_entries h (touch p d) q = file_entries h d q"
  by (auto simp: touch_def file_entries_def)

lemma touch_ready: "file_ready h g d \<Longrightarrow> file_ready h g (touch p d)"
  by (auto simp: file_ready_def touch_def)

lemma touch_at: "\<exists>f. touch p d p = Some f \<and> (d p = Some f \<or> d p = None \<and>
    f = \<lparr>sf_regular = True, sf_mode = secret_file_mode, sf_contents = []\<rparr>)"
  by (auto simp: touch_def)

lemma ensure_permissions_secure:
  "disk_answers h \<Longrightarrow> d p = Some f \<Longrightarrow> sf_mode f mod 512 = secret_file_mode \<Longrightarrow>
   ensure_permissions h p d = (Ok (), d)"
  by (simp add: ensure_permissions_def bind_s_def disk_call_answers)

lemma ensure_file_secure:
  assumes "disk_answers h" "\<And>f. d p = Some f \<Longrightarrow> secure_file h f"
  shows "ensure_file h p d = (Ok (), touch p d)"
proof -
  obtain f where f: "touch p d p = Some f" "secure_file h f"
    using touch_at [of p d] assms(2) new_file_secure by fast
  have created: "(if d p = None then create_secret_file h p d else (Ok (), d)) = (Ok (), touch p d)"
    by (auto simp: create_secret_file_def bind_s_def disk_call_answers [OF assms(1)] modify_file_def touch_def)
  have "ensure_permissions h p (touch p d) = (Ok (), touch p d)"
    using f assms(1) by (intro ensure_permissions_secure) (auto simp: secure_file_def)
  then show ?thesis
    unfolding ensure_file_def
    using f by (simp add: bind_s_def disk_call_answers [OF assms(1)] created secure_file_def)
qed

lemma read_entries_secure:
  assumes "disk_answers h" "\<And>f. d p = Some f \<Longrightarrow> secure_file h f"
  shows "read_entries h p d = (Ok (file_entries h d p), touch p d)"
proof -
  obtain f where f: "touch p d p = Some f" "secure_file h f"
    using touch_at [of p d] assms(2) new_file_secure by fast
  have "file_entries h d p = file_entries h (touch p d) p" by simp
  with f show ?thesis
    by (auto simp: read_entries_def bind_s_def ensure_file_secure [OF assms] disk_call_answers [OF assms(1)]
        file_entries_def secure_file_def)
qed

lemma write_entries_secure:
  assumes "disk_answers h" "toml_law h" "bt_wf e" "d p = Some f" "secure_file h f"
  shows "\<exists>f'. write_entries h p e d = (Ok (), d(p \<mapsto> f')) \<and> secure_file h f' \<and>
      (\<forall>d'. d' p = Some f' \<longrightarrow> file_entries h d' p = e)"
proof -
  obtain s where s: "fh_encode h e = Ok s" "if trim_text s = [] then e = [] else fh_parse h s = Ok e"
    using assms(2,3) by (auto simp: toml_law_def)
  let ?f = "f\<lparr>sf_contents := s\<rparr>"
  have touched: "touch p d = d" using assms(4) by (simp add: touch_def)
  have ensured: "ensure_file h p d = (Ok (), d)"
    using ensure_file_secure [OF assms(1), of d p] assms(4,5) touched by auto
  have perms: "ensure_permissions h p (d(p \<mapsto> ?f)) = (Ok (), d(p \<mapsto> ?f))"
    using assms(1,5) by (intro ensure_permissions_secure [where f = ?f]) (auto simp: secure_file_def)
  have "write_entries h p e d = (Ok (), d(p \<mapsto> ?f))"
    by (simp add: write_entries_def bind_s_def ensured s(1) disk_call_answers [OF assms(1)] modify_file_def
        assms(4) perms)
  moreover have "secure_file h ?f" using assms(5) s(2) by (auto simp: secure_file_def split: if_splits)
  moreover have "file_entries h d' p = e" if "d' p = Some ?f" for d'
    using that s(2) by (auto simp: file_entries_def split: if_splits)
  ultimately show ?thesis by blast
qed

lemma file_entries_wf: "toml_law h \<Longrightarrow> bt_wf (file_entries h d p)"
  by (auto simp: file_entries_def toml_law_def bt_wf_def [of "[]"] split: option.split sum.split)

lemma bt_remove_wf: "bt_wf m \<Longrightarrow> bt_wf (bt_remove k m)"
  unfolding bt_wf_def bt_remove_def sorted_wrt_map by (rule sorted_wrt_filter)

lemma bt_get_remove: "bt_get (bt_remove k m) = (bt_get m)(k := None)"
  by (induction m) (auto simp: bt_remove_def fun_eq_iff)

text \<open>A read, a change of the entries, and a write: what \<open>put\<close> and \<open>delete\<close> both do.\<close>

lemma rewrite_file:
  assumes ready: "file_ready h g d" and named: "file_named g sc"
    and wf: "bt_wf (change (file_entries h d (secrets_path g sc)))"
  defines "p \<equiv> secrets_path g sc"
  shows "\<exists>d'. bind_s (read_entries h p) (\<lambda>entries. write_entries h p (change entries)) d = (Ok (), d') \<and>
      file_ready h g d' \<and>
      (\<forall>sd m. file_named g sd \<longrightarrow> file_view h g d' sd m =
         (if sd = sc then bt_get (change (file_entries h d p)) m else file_view h g d sd m))"
proof -
  have law: "toml_law h" "disk_answers h" using ready by (simp_all add: file_ready_def)
  have secure: "secure_file h f" if "d p = Some f" for f
    using ready that by (auto simp: file_ready_def p_def)
  obtain f where f: "touch p d p = Some f" "secure_file h f"
    using touch_at [of p d] secure new_file_secure by fast
  obtain f' where f': "write_entries h p (change (file_entries h d p)) (touch p d) = (Ok (), (touch p d)(p \<mapsto> f'))"
      "secure_file h f'" "\<And>d'. d' p = Some f' \<Longrightarrow> file_entries h d' p = change (file_entries h d p)"
    using write_entries_secure [of h "change (file_entries h d p)" "touch p d" p f] law wf f
    unfolding p_def by blast
  let ?d = "(touch p d)(p \<mapsto> f')"
  have other: "file_entries h ?d q = file_entries h d q" if "q \<noteq> p" for q
    using that touch_entries [of h p d q] by (simp add: file_entries_def)
  have "file_ready h g ?d" using touch_ready [OF ready, of p] f'(2) by (auto simp: file_ready_def)
  moreover have "file_view h g ?d sd m =
      (if sd = sc then bt_get (change (file_entries h d p)) m else file_view h g d sd m)" if "file_named g sd" for sd m
    using f'(3) [of ?d] other [of "secrets_path g sd"] secrets_path_inj [OF that named]
    by (auto simp: file_view_def p_def)
  ultimately show ?thesis
    using f'(1) read_entries_secure [OF law(2), of d p] secure by (intro exI [of _ ?d]) (simp add: bind_s_def)
qed

interpretation file_backend: secret_storage "file_ops h g" "file_view h g" "file_ready h g" "file_named g"
proof
  fix d sc n assume ready: "file_ready h g d" and named: "file_named g sc"
  have secure: "secure_file h f" if "d (secrets_path g sc) = Some f" for f
    using ready that by (auto simp: file_ready_def)
  have "file_get h (secrets_path g sc) n d = (Ok (file_view h g d sc n), touch (secrets_path g sc) d)"
    using ready secure by (simp add: file_get_def bind_s_def read_entries_secure file_ready_def file_view_def)
  then show "\<exists>s'. so_get (file_ops h g) sc n d = (Ok (file_view h g d sc n), s') \<and> file_ready h g s' \<and>
      (\<forall>sd m. file_named g sd \<longrightarrow> file_view h g s' sd m = file_view h g d sd m)"
    using touch_ready [OF ready] by (simp add: file_ops_def) (simp add: file_view_def)
  have wf: "bt_wf (file_entries h d p)" for p
    using ready by (simp add: file_ready_def file_entries_wf)
  show "\<exists>s'. so_delete (file_ops h g) sc n d = (Ok (), s') \<and> file_ready h g s' \<and>
      (\<forall>sd m. file_named g sd \<longrightarrow> file_view h g s' sd m =
         (if sd = sc \<and> m = n then None else file_view h g d sd m))"
    using rewrite_file [OF ready named, of "bt_remove n"] wf
    by (auto simp: file_ops_def file_remove_def bt_get_remove bt_remove_wf file_view_def fun_eq_iff)
  fix v
  show "\<exists>s'. so_put (file_ops h g) sc n v d = (Ok (), s') \<and> file_ready h g s' \<and>
      (\<forall>sd m. file_named g sd \<longrightarrow> file_view h g s' sd m =
         (if sd = sc \<and> m = n then Some v else file_view h g d sd m))"
    using rewrite_file [OF ready named, of "bt_insert n v"] wf
    by (auto simp: file_ops_def file_put_def bt_get_insert bt_wf_insert file_view_def fun_eq_iff)
qed

text \<open>Whatever the disk does, a file the group or the world may read gives no secret and takes none.\<close>

lemma ensure_permissions_modes:
  "ensure_permissions h p d = (Ok u, d') \<Longrightarrow>
   d' = d \<and> (\<exists>f. d p = Some f \<and> sf_mode f mod 512 = secret_file_mode)"
  by (auto simp: ensure_permissions_def bind_s_def disk_call_def split: option.splits if_splits)

lemma ensure_file_modes:
  "ensure_file h p d = (Ok u, d') \<Longrightarrow> \<exists>f. d' p = Some f \<and> sf_mode f mod 512 = secret_file_mode"
  by (auto simp: ensure_file_def bind_s_def split: prod.splits sum.splits dest!: ensure_permissions_modes)

lemma ensure_file_keeps: "d p \<noteq> None \<Longrightarrow> ensure_file h p d = (r, d') \<Longrightarrow> d' = d"
  by (auto simp: ensure_file_def bind_s_def disk_call_def ensure_permissions_def
      split: prod.splits sum.splits option.splits if_splits)

theorem loose_file_refused:
  assumes "d p = Some f" "sf_mode f mod 512 \<noteq> secret_file_mode"
  shows "\<exists>e. file_get h p n d = (Err e, d)" "\<exists>e. file_put h p n v d = (Err e, d)"
    "\<exists>e. file_remove h p n d = (Err e, d)"
proof -
  obtain r d' where r: "ensure_file h p d = (r, d')" by fastforce
  with ensure_file_keeps [of d p h r d'] assms(1) have keep: "d' = d" by simp
  have "\<exists>e. r = Inl e"
    using r keep ensure_file_modes [of h p d _ d'] assms by (cases r) auto
  then show "\<exists>e. file_get h p n d = (Err e, d)" "\<exists>e. file_put h p n v d = (Err e, d)"
      "\<exists>e. file_remove h p n d = (Err e, d)"
    using r keep by (auto simp: file_get_def file_put_def file_remove_def read_entries_def bind_s_def)
qed

text \<open>The file is emptied before it is written: a failure in between loses every secret of it.\<close>

lemma failed_write_empties:
  assumes "d p = Some f" "secure_file h f" "\<And>opr q. opr \<noteq> WriteAll \<Longrightarrow> fh_fails h opr q = None"
    "fh_fails h WriteAll p = Some e" "fh_encode h entries = Ok s"
  shows "write_entries h p entries d = (Err e, d(p \<mapsto> f\<lparr>sf_contents := []\<rparr>))"
  using assms(1,2,4,5)
  by (simp add: write_entries_def ensure_file_def ensure_permissions_def bind_s_def disk_call_def assms(3)
      modify_file_def secure_file_def)

section \<open>The keyring backend (\<^verbatim>\<open>secrets/keyring.rs\<close>)\<close>

datatype keyring_error = NoEntry | NoStorageAccess | PlatformFailure | OtherKeyringError string

text \<open>The platform store: entries by their key under the one service name.\<close>

record 's keyring =
  kr_entry :: "string \<Rightarrow> string option"  \<comment> \<open>\<open>Entry::new\<close>: \<open>None\<close> when the entry can be built\<close>
  kr_set :: "string \<Rightarrow> string \<Rightarrow> 's \<Rightarrow> (keyring_error, unit) result \<times> 's"
  kr_get :: "string \<Rightarrow> 's \<Rightarrow> (keyring_error, string) result \<times> 's"
  kr_delete :: "string \<Rightarrow> 's \<Rightarrow> (keyring_error, unit) result \<times> 's"
  kr_shown :: "keyring_error \<Rightarrow> string"

fun is_available_result :: "(keyring_error, string) result \<Rightarrow> bool" where
  "is_available_result (Inr _) = True"
| "is_available_result (Inl NoStorageAccess) = False"
| "is_available_result (Inl PlatformFailure) = False"
| "is_available_result (Inl _) = True"

definition secret_from_get_result ::
  "(keyring_error \<Rightarrow> string) \<Rightarrow> (keyring_error, string) result \<Rightarrow> (string, string option) result" where
  "secret_from_get_result show r =
     (case r of Inr password \<Rightarrow> Ok (Some password)
      | Inl e \<Rightarrow> if e = NoEntry then Ok None else Err (show e))"

definition delete_result ::
  "(keyring_error \<Rightarrow> string) \<Rightarrow> (keyring_error, unit) result \<Rightarrow> (string, unit) result" where
  "delete_result show r =
     (case r of Inr _ \<Rightarrow> Ok () | Inl e \<Rightarrow> if e = NoEntry then Ok () else Err (show e))"

definition keyring_available :: "'s keyring \<Rightarrow> 's \<Rightarrow> bool \<times> 's" where
  "keyring_available kr s =
     (case kr_entry kr ''keyring-available'' of
        Some _ \<Rightarrow> (False, s)
      | None \<Rightarrow> (case kr_get kr ''keyring-available'' s of (r, t) \<Rightarrow> (is_available_result r, t)))"

definition keyring_put :: "'s keyring \<Rightarrow> secret_key \<Rightarrow> string \<Rightarrow> ('s, unit) secret_io" where
  "keyring_put kr k v s =
     (case kr_entry kr (show_key k) of
        Some e \<Rightarrow> (Err e, s)
      | None \<Rightarrow> (case kr_set kr (show_key k) v s of (r, t) \<Rightarrow> (map_err (kr_shown kr) r, t)))"

definition keyring_get :: "'s keyring \<Rightarrow> secret_key \<Rightarrow> ('s, string option) secret_io" where
  "keyring_get kr k s =
     (case kr_entry kr (show_key k) of
        Some e \<Rightarrow> (Err e, s)
      | None \<Rightarrow> (case kr_get kr (show_key k) s of (r, t) \<Rightarrow> (secret_from_get_result (kr_shown kr) r, t)))"

definition keyring_delete :: "'s keyring \<Rightarrow> secret_key \<Rightarrow> ('s, unit) secret_io" where
  "keyring_delete kr k s =
     (case kr_entry kr (show_key k) of
        Some e \<Rightarrow> (Err e, s)
      | None \<Rightarrow> (case kr_delete kr (show_key k) s of (r, t) \<Rightarrow> (delete_result (kr_shown kr) r, t)))"

definition keyring_ops :: "'s keyring \<Rightarrow> 's secret_ops" where
  "keyring_ops kr =
     \<lparr>so_put = (\<lambda>sc n. keyring_put kr \<lparr>ky_scope = sc, ky_name = n\<rparr>),
      so_get = (\<lambda>sc n. keyring_get kr \<lparr>ky_scope = sc, ky_name = n\<rparr>),
      so_delete = (\<lambda>sc n. keyring_delete kr \<lparr>ky_scope = sc, ky_name = n\<rparr>)\<rparr>"

definition new_keyring_storage :: "'s keyring \<Rightarrow> ('s, 's secret_ops) secret_io" where
  "new_keyring_storage kr s =
     (case keyring_available kr s of
        (True, t) \<Rightarrow> (Ok (keyring_ops kr), t)
      | (False, t) \<Rightarrow>
          (Err ''Keyring secret storage is not available on this platform or the keyring is locked.'', t))"

text \<open>The documented behaviour of a store that is unlocked: the passwords it holds are a map from
  entries, a missing one is reported as \<open>NoEntry\<close>, and a call changes its own entry only.\<close>

definition keyring_law :: "'s keyring \<Rightarrow> ('s \<Rightarrow> string \<Rightarrow> string option) \<Rightarrow> bool" where
  "keyring_law kr stored \<longleftrightarrow>
     (\<forall>k. kr_entry kr k = None) \<and>
     (\<forall>k s. \<exists>t. kr_get kr k s = (case stored s k of Some v \<Rightarrow> (Ok v, t) | None \<Rightarrow> (Err NoEntry, t)) \<and> stored t = stored s) \<and>
     (\<forall>k v s. \<exists>t. kr_set kr k v s = (Ok (), t) \<and> stored t = (stored s)(k \<mapsto> v)) \<and>
     (\<forall>k s. \<exists>t. kr_delete kr k s = (if stored s k = None then (Err NoEntry, t) else (Ok (), t)) \<and>
        stored t = (stored s)(k := None))"

definition keyring_view :: "('s \<Rightarrow> string \<Rightarrow> string option) \<Rightarrow> 's \<Rightarrow> key_scope \<Rightarrow> string \<Rightarrow> string option" where
  "keyring_view stored s sc n = stored s (show_key \<lparr>ky_scope = sc, ky_name = n\<rparr>)"

lemma show_key_eq:
  "scope_plain sc \<Longrightarrow> scope_plain sd \<Longrightarrow>
   show_key \<lparr>ky_scope = sc, ky_name = n\<rparr> = show_key \<lparr>ky_scope = sd, ky_name = m\<rparr> \<longleftrightarrow> sc = sd \<and> n = m"
  using show_key_inj [of "\<lparr>ky_scope = sc, ky_name = n\<rparr>" "\<lparr>ky_scope = sd, ky_name = m\<rparr>"] by auto

interpretation keyring_backend: secret_storage "keyring_ops kr" "keyring_view stored"
  "\<lambda>_. keyring_law kr stored" scope_plain
proof
  fix s sc n assume law: "keyring_law kr stored" and plain: "scope_plain sc"
  let ?k = "show_key \<lparr>ky_scope = sc, ky_name = n\<rparr>"
  obtain t where t: "kr_get kr ?k s = (case stored s ?k of Some v \<Rightarrow> (Ok v, t) | None \<Rightarrow> (Err NoEntry, t))"
    "stored t = stored s" using law unfolding keyring_law_def by meson
  have free: "kr_entry kr k = None" for k using law by (simp add: keyring_law_def)
  show "\<exists>s'. so_get (keyring_ops kr) sc n s = (Ok (keyring_view stored s sc n), s') \<and> keyring_law kr stored \<and>
      (\<forall>sd m. scope_plain sd \<longrightarrow> keyring_view stored s' sd m = keyring_view stored s sd m)"
    using t law
    by (intro exI [of _ t])
      (auto simp: keyring_ops_def keyring_get_def free secret_from_get_result_def keyring_view_def split: option.split)
  obtain t where t: "kr_delete kr ?k s = (if stored s ?k = None then (Err NoEntry, t) else (Ok (), t))"
    "stored t = (stored s)(?k := None)" using law unfolding keyring_law_def by meson
  show "\<exists>s'. so_delete (keyring_ops kr) sc n s = (Ok (), s') \<and> keyring_law kr stored \<and>
      (\<forall>sd m. scope_plain sd \<longrightarrow> keyring_view stored s' sd m =
         (if sd = sc \<and> m = n then None else keyring_view stored s sd m))"
    using t law plain
    by (intro exI [of _ t])
      (auto simp: keyring_ops_def keyring_delete_def free delete_result_def keyring_view_def show_key_eq)
  fix v
  obtain t where t: "kr_set kr ?k v s = (Ok (), t)" "stored t = (stored s)(?k \<mapsto> v)"
    using law unfolding keyring_law_def by meson
  show "\<exists>s'. so_put (keyring_ops kr) sc n v s = (Ok (), s') \<and> keyring_law kr stored \<and>
      (\<forall>sd m. scope_plain sd \<longrightarrow> keyring_view stored s' sd m =
         (if sd = sc \<and> m = n then Some v else keyring_view stored s sd m))"
    using t law plain
    by (intro exI [of _ t])
      (auto simp: keyring_ops_def keyring_put_def free keyring_view_def show_key_eq)
qed

section \<open>The storage of the client (\<^verbatim>\<open>credentials.rs\<close>)\<close>

datatype credential_backend = KeyringBackend | FileBackend

record 's credentials_storage =
  st_ops :: "'s secret_ops"
  st_backend :: credential_backend

definition new_from_factories ::
  "bool \<Rightarrow> ('s, 's secret_ops) secret_io \<Rightarrow> ('s, 's secret_ops) secret_io \<Rightarrow>
   ('s, 's credentials_storage) secret_io" where
  "new_from_factories enforce_keyring keyring_factory file_factory s =
     (case keyring_factory s of
        (Inr ops, t) \<Rightarrow> (Ok \<lparr>st_ops = ops, st_backend = KeyringBackend\<rparr>, t)
      | (Inl keyring_error, t) \<Rightarrow>
          if enforce_keyring then (Err (''keyring credential storage is required: '' @ keyring_error), t)
          else (case file_factory t of
                  (Inr ops, u) \<Rightarrow> (Ok \<lparr>st_ops = ops, st_backend = FileBackend\<rparr>, u)
                | (Inl file_error, u) \<Rightarrow>
                    (Err (''keyring credential storage is unavailable ('' @ keyring_error @
                          ''); file credential storage also failed: '' @ file_error), u)))"

definition storage_get :: "'s secret_ops \<Rightarrow> string \<Rightarrow> string \<Rightarrow> ('s, string option) secret_io" where
  "storage_get ops cwd key_name =
     bind_s (so_get ops (LocalScope cwd) key_name) (\<lambda>found.
       case found of
         Some v \<Rightarrow> (\<lambda>s. (Ok (Some v), s))
       | None \<Rightarrow> so_get ops GlobalScope key_name)"

definition put_scoped :: "'s secret_ops \<Rightarrow> string \<Rightarrow> bool \<Rightarrow> string \<Rightarrow> string \<Rightarrow> ('s, unit) secret_io" where
  "put_scoped ops cwd to_global key_name v =
     (if to_global then so_put ops GlobalScope key_name v else so_put ops (LocalScope cwd) key_name v)"

definition delete_scoped :: "'s secret_ops \<Rightarrow> string \<Rightarrow> bool \<Rightarrow> string \<Rightarrow> ('s, unit) secret_io" where
  "delete_scoped ops cwd to_global key_name =
     (if to_global then so_delete ops GlobalScope key_name else so_delete ops (LocalScope cwd) key_name)"

definition scope_of :: "string \<Rightarrow> bool \<Rightarrow> key_scope" where
  "scope_of cwd to_global = (if to_global then GlobalScope else LocalScope cwd)"

lemma enforced_keyring_never_files:
  "new_from_factories True kf ff s = (Ok st, t) \<Longrightarrow> st_backend st = KeyringBackend"
  by (auto simp: new_from_factories_def split: prod.splits sum.splits)

lemma file_only_without_keyring:
  "new_from_factories enforce kf ff s = (Ok st, t) \<Longrightarrow> st_backend st = FileBackend \<Longrightarrow>
   \<not> enforce \<and> (\<exists>e u. kf s = (Err e, u))"
  by (auto simp: new_from_factories_def split: prod.splits sum.splits if_splits)

lemma local_error_is_returned:
  "so_get ops (LocalScope cwd) n s = (Err e, t) \<Longrightarrow> storage_get ops cwd n s = (Err e, t)"
  by (simp add: storage_get_def bind_s_def)

lemma put_scoped_at:
  "put_scoped ops cwd g = so_put ops (scope_of cwd g)"
  "delete_scoped ops cwd g = so_delete ops (scope_of cwd g)"
  by (auto simp: put_scoped_def delete_scoped_def scope_of_def fun_eq_iff)

text \<open>What a project sees of a name: its own secret, or the global one.\<close>

context secret_storage
begin

definition resolved :: "'s \<Rightarrow> string \<Rightarrow> string \<Rightarrow> string option" where
  "resolved s cwd n = (case view s (LocalScope cwd) n of Some v \<Rightarrow> Some v | None \<Rightarrow> view s GlobalScope n)"

definition same_view :: "'s \<Rightarrow> 's \<Rightarrow> bool" where
  "same_view s t \<longleftrightarrow> (\<forall>sd m. named sd \<longrightarrow> view t sd m = view s sd m)"

definition project :: "string \<Rightarrow> bool" where
  "project cwd \<longleftrightarrow> named (LocalScope cwd) \<and> named GlobalScope"

lemma named_scope: "project cwd \<Longrightarrow> named (scope_of cwd g)"
  by (simp add: project_def scope_of_def)

lemma resolved_same: "same_view s t \<Longrightarrow> project cwd \<Longrightarrow> resolved t cwd n = resolved s cwd n"
  by (simp add: same_view_def resolved_def project_def split: option.split)

lemma storage_get_resolves:
  assumes "ready s" "project cwd"
  shows "\<exists>t. storage_get ops cwd n s = (Ok (resolved s cwd n), t) \<and> ready t \<and> same_view s t"
proof -
  have named: "named (LocalScope cwd)" "named GlobalScope" using assms(2) by (simp_all add: project_def)
  obtain t where t: "so_get ops (LocalScope cwd) n s = (Ok (view s (LocalScope cwd) n), t)" "ready t" "same_view s t"
    using get_reads [OF assms(1) named(1)] unfolding same_view_def by blast
  obtain u where u: "so_get ops GlobalScope n t = (Ok (view t GlobalScope n), u)" "ready u" "same_view t u"
    using get_reads [OF t(2) named(2)] unfolding same_view_def by blast
  show ?thesis
  proof (cases "view s (LocalScope cwd) n")
    case None
    with t u named show ?thesis
      by (intro exI [of _ u]) (auto simp: storage_get_def bind_s_def resolved_def same_view_def)
  next
    case (Some v)
    with t show ?thesis by (intro exI [of _ t]) (auto simp: storage_get_def bind_s_def resolved_def)
  qed
qed

lemma put_scoped_stores:
  assumes "ready s" "project cwd"
  shows "\<exists>t. put_scoped ops cwd g n v s = (Ok (), t) \<and> ready t \<and>
    (\<forall>sd m. named sd \<longrightarrow> view t sd m = (if sd = scope_of cwd g \<and> m = n then Some v else view s sd m))"
  using put_stores [OF assms(1) named_scope [OF assms(2)], of g n v]
  unfolding put_scoped_at by blast

lemma delete_scoped_removes:
  assumes "ready s" "project cwd"
  shows "\<exists>t. delete_scoped ops cwd g n s = (Ok (), t) \<and> ready t \<and>
    (\<forall>sd m. named sd \<longrightarrow> view t sd m = (if sd = scope_of cwd g \<and> m = n then None else view s sd m))"
  using delete_removes [OF assms(1) named_scope [OF assms(2)], of g n]
  unfolding put_scoped_at by blast

text \<open>After a put the name resolves to the value, unless it was stored globally under a local one;
  every other name resolves as before.\<close>

lemma put_then_resolved:
  assumes "ready s" "project cwd" "put_scoped ops cwd g n v s = (r, t)"
  shows "r = Ok () \<and> ready t \<and>
    resolved t cwd m = (if m = n then (case view s (LocalScope cwd) n of
                                         Some old \<Rightarrow> Some (if g then old else v) | None \<Rightarrow> Some v)
                        else resolved s cwd m)"
  using put_scoped_stores [OF assms(1,2), of g n v] assms(2,3)
  by (auto simp: resolved_def project_def scope_of_def split: option.split)

end

end
