(* ===== verification/Provider_Keys.thy ===== *)
theory Provider_Keys
  imports Credentials
begin

text \<open>
  What the client keeps in its secret storage: the keys of the providers
  (\<^verbatim>\<open>credentials/providers.rs\<close>), the key of the router (\<^verbatim>\<open>credentials/api_key.rs\<close>) and
  the keys of the encrypted sessions (\<^verbatim>\<open>credentials/e2ee.rs\<close>), with the commands
  (\<^verbatim>\<open>command/credentials.rs\<close>) and the credentials the router client starts with
  (\<^verbatim>\<open>client.rs\<close>).  The lemmas are proved in \<open>secret_storage\<close>, for both backends: a key set
  is a key read, an encrypted text decrypts to itself, and every advertised provider gets the
  credential that the precedence of the sources gives it.
\<close>

section \<open>Providers (\<^verbatim>\<open>providers.rs\<close>)\<close>

datatype env_value = EnvText string | EnvAbsent | EnvNotUnicode

definition set_provider_api_key ::
  "'s secret_ops \<Rightarrow> string \<Rightarrow> provider \<Rightarrow> string \<Rightarrow> bool \<Rightarrow> ('s, unit) secret_io" where
  "set_provider_api_key ops cwd p key g = put_scoped ops cwd g (show_provider p) key"

definition get_provider_api_key :: "'s secret_ops \<Rightarrow> string \<Rightarrow> provider \<Rightarrow> ('s, string option) secret_io" where
  "get_provider_api_key ops cwd p = storage_get ops cwd (show_provider p)"

definition get_config_api_key ::
  "'s secret_ops \<Rightarrow> string \<Rightarrow> (string \<Rightarrow> env_value) \<Rightarrow> string \<Rightarrow> ('s, string option) secret_io" where
  "get_config_api_key ops cwd env key =
     (case env key of
        EnvText v \<Rightarrow> (\<lambda>s. (Ok (Some v), s))
      | EnvNotUnicode \<Rightarrow>
          (\<lambda>s. (Err (''secret reference `'' @ key @ ''` resolved to non-Unicode environment data''), s))
      | EnvAbsent \<Rightarrow> storage_get ops cwd key)"

definition delete_provider_api_key ::
  "'s secret_ops \<Rightarrow> string \<Rightarrow> provider \<Rightarrow> bool \<Rightarrow> ('s, unit) secret_io" where
  "delete_provider_api_key ops cwd p g = delete_scoped ops cwd g (show_provider p)"

section \<open>The router key (\<^verbatim>\<open>api_key.rs\<close>)\<close>

definition api_key_name :: string where
  "api_key_name = ''api_key''"

definition get_router_key :: "auth_runtime \<Rightarrow> 's secret_ops \<Rightarrow> string \<Rightarrow> ('s, string option) secret_io" where
  "get_router_key rt ops cwd =
     bind_s (storage_get ops cwd api_key_name) (\<lambda>found. \<lambda>s.
       (case found of
          None \<Rightarrow> (Ok None, s)
        | Some secret \<Rightarrow>
            (case parse_api_key_user_id rt secret of Inr _ \<Rightarrow> (Ok (Some secret), s) | Inl _ \<Rightarrow> (Ok None, s))))"

definition set_router_key :: "'s secret_ops \<Rightarrow> string \<Rightarrow> string \<Rightarrow> bool \<Rightarrow> ('s, unit) secret_io" where
  "set_router_key ops cwd key g = put_scoped ops cwd g api_key_name key"

definition delete_router_key :: "'s secret_ops \<Rightarrow> string \<Rightarrow> bool \<Rightarrow> ('s, unit) secret_io" where
  "delete_router_key ops cwd g = delete_scoped ops cwd g api_key_name"

section \<open>Encrypted sessions (\<^verbatim>\<open>e2ee.rs\<close>)\<close>

text \<open>Base64, SHA-256 and XChaCha20-Poly1305; bytes are lists of 8-bit characters.\<close>

record cipher_suite =
  cx_encode :: "string \<Rightarrow> string"
  cx_decode :: "string \<Rightarrow> string option"
  cx_sha256 :: "string \<Rightarrow> string"
  cx_seal :: "string \<Rightarrow> string \<Rightarrow> string \<Rightarrow> string option"
  cx_open :: "string \<Rightarrow> string \<Rightarrow> string \<Rightarrow> string option"

definition cipher_law :: "cipher_suite \<Rightarrow> bool" where
  "cipher_law cx \<longleftrightarrow> (\<forall>b. cx_decode cx (cx_encode cx b) = Some b) \<and>
     (\<forall>k n p c. cx_seal cx k n p = Some c \<longrightarrow> cx_open cx k n c = Some p)"

text \<open>The bytes of a text of the model's characters, and the text of bytes; a sequence of three or
  four bytes stands for a character the model does not have.\<close>

fun utf8_bytes :: "string \<Rightarrow> string" where
  "utf8_bytes [] = []"
| "utf8_bytes (c # s) =
     (if code c < 128 then c # utf8_bytes s
      else char_of (192 + code c div 64) # char_of (128 + code c mod 64) # utf8_bytes s)"

fun from_utf8 :: "string \<Rightarrow> string option" where
  "from_utf8 [] = Some []"
| "from_utf8 (b # bs) =
     (if code b < 128 then map_option (Cons b) (from_utf8 bs)
      else if 194 \<le> code b \<and> code b \<le> 195
      then (case bs of
              [] \<Rightarrow> None
            | c # cs \<Rightarrow>
                if 128 \<le> code c \<and> code c < 192
                then map_option (Cons (char_of ((code b - 192) * 64 + (code c - 128)))) (from_utf8 cs)
                else None)
      else None)"

definition encrypted_payload_v1 :: nat where "encrypted_payload_v1 = 1"
definition key_id_prefix :: string where "key_id_prefix = ''kf_''"
definition xchacha :: string where "xchacha = ''xchacha20poly1305''"

definition key_id_for_secret_key :: "cipher_suite \<Rightarrow> string \<Rightarrow> (string, string) result" where
  "key_id_for_secret_key cx secret_key =
     (case cx_decode cx secret_key of
        None \<Rightarrow> Err ''Generated E2EE key is not valid base64.''
      | Some key \<Rightarrow> Ok (key_id_prefix @ cx_encode cx (cx_sha256 cx key)))"

definition create_key ::
  "'s secret_ops \<Rightarrow> string \<Rightarrow> cipher_suite \<Rightarrow> (string, string) result \<Rightarrow> ('s, string) secret_io" where
  "create_key ops cwd cx generated =
     (case generated of
        Inl e \<Rightarrow> (\<lambda>s. (Err e, s))
      | Inr key \<Rightarrow>
          (let secret_key = cx_encode cx key
           in case key_id_for_secret_key cx secret_key of
                Inl e \<Rightarrow> (\<lambda>s. (Err e, s))
              | Inr key_name \<Rightarrow>
                  bind_s (so_put ops (LocalScope cwd) key_name secret_key) (\<lambda>_. \<lambda>s. (Ok key_name, s))))"

definition delete_key :: "'s secret_ops \<Rightarrow> string \<Rightarrow> string \<Rightarrow> ('s, unit) secret_io" where
  "delete_key ops cwd key_id = so_delete ops (LocalScope cwd) key_id"

definition get_secret_key :: "'s secret_ops \<Rightarrow> string \<Rightarrow> cipher_suite \<Rightarrow> string \<Rightarrow> ('s, string) secret_io" where
  "get_secret_key ops cwd cx key_id =
     bind_s (storage_get ops cwd key_id) (\<lambda>found. \<lambda>s.
       (case found of
          None \<Rightarrow> (Err (''E2EE key not found: '' @ key_id), s)
        | Some base64_key \<Rightarrow>
            (case cx_decode cx base64_key of
               None \<Rightarrow> (Err ''Stored E2EE key is not valid base64.'', s)
             | Some key \<Rightarrow> (Ok key, s))))"

definition cipher_from_secret_key :: "string \<Rightarrow> (string, string) result" where
  "cipher_from_secret_key key =
     (if length key = 32 then Ok key else Err ''Stored E2EE key has an invalid length.'')"

definition decode_nonce :: "cipher_suite \<Rightarrow> string \<Rightarrow> (string, string) result" where
  "decode_nonce cx nonce =
     (case cx_decode cx nonce of
        None \<Rightarrow> Err ''Encrypted payload nonce is not valid base64.''
      | Some n \<Rightarrow> if length n = 24 then Ok n else Err ''Encrypted payload nonce has an invalid length.'')"

definition pure_s :: "(string, 'a) result \<Rightarrow> ('s, 'a) secret_io" where
  "pure_s r s = (r, s)"

definition encrypt_payload ::
  "'s secret_ops \<Rightarrow> string \<Rightarrow> cipher_suite \<Rightarrow> string \<Rightarrow> string \<Rightarrow> string \<Rightarrow>
   ('s, encrypted_payload) secret_io" where
  "encrypt_payload ops cwd cx nonce key_id plaintext =
     bind_s (get_secret_key ops cwd cx key_id) (\<lambda>secret_key.
     bind_s (pure_s (cipher_from_secret_key secret_key)) (\<lambda>cipher.
       pure_s (case cx_seal cx cipher nonce (utf8_bytes plaintext) of
                 None \<Rightarrow> Err ''Could not encrypt E2EE payload.''
               | Some ciphertext \<Rightarrow>
                   Ok \<lparr>ep_version = encrypted_payload_v1, ep_algorithm = xchacha, ep_key_id = key_id,
                       ep_nonce = cx_encode cx nonce, ep_ciphertext = cx_encode cx ciphertext\<rparr>)))"

definition decrypt_v1_xchacha ::
  "'s secret_ops \<Rightarrow> string \<Rightarrow> cipher_suite \<Rightarrow> string \<Rightarrow> string \<Rightarrow> string \<Rightarrow> ('s, string) secret_io" where
  "decrypt_v1_xchacha ops cwd cx key_id nonce ciphertext =
     bind_s (get_secret_key ops cwd cx key_id) (\<lambda>secret_key.
     bind_s (pure_s (cipher_from_secret_key secret_key)) (\<lambda>cipher.
     bind_s (pure_s (decode_nonce cx nonce)) (\<lambda>nonce.
     bind_s (pure_s (case cx_decode cx ciphertext of
                       None \<Rightarrow> Err ''Encrypted payload ciphertext is not valid base64.''
                     | Some c \<Rightarrow> Ok c)) (\<lambda>ciphertext.
     bind_s (pure_s (case cx_open cx cipher nonce ciphertext of
                       None \<Rightarrow> Err ''Could not decrypt E2EE payload.''
                     | Some p \<Rightarrow> Ok p)) (\<lambda>plaintext.
       pure_s (case from_utf8 plaintext of
                 None \<Rightarrow> Err ''Decrypted E2EE payload is not valid UTF-8.''
               | Some t \<Rightarrow> Ok t))))))"

definition decrypt_payload_v1 ::
  "'s secret_ops \<Rightarrow> string \<Rightarrow> cipher_suite \<Rightarrow> encrypted_payload \<Rightarrow> ('s, string) secret_io" where
  "decrypt_payload_v1 ops cwd cx p =
     (if ep_algorithm p = xchacha
      then decrypt_v1_xchacha ops cwd cx (ep_key_id p) (ep_nonce p) (ep_ciphertext p)
      else pure_s (Err (''Unsupported encrypted payload algorithm: '' @ ep_algorithm p)))"

definition decrypt_payload ::
  "'s secret_ops \<Rightarrow> string \<Rightarrow> cipher_suite \<Rightarrow> encrypted_payload \<Rightarrow> ('s, string) secret_io" where
  "decrypt_payload ops cwd cx p =
     (if ep_version p = encrypted_payload_v1 then decrypt_payload_v1 ops cwd cx p
      else pure_s (Err (''Unsupported encrypted payload version: '' @ show_nat (ep_version p))))"

lemma code_inverse: "char_of (code c) = c"
  by (simp add: code_def)

lemma from_utf8_bytes: "from_utf8 (utf8_bytes s) = Some s"
proof (induction s)
  case (Cons c s)
  show ?case
  proof (cases "code c < 128")
    case False
    have bound: "code c < 256" by (rule code_less)
    have parts: "code c = (code c div 64) * 64 + code c mod 64" by simp
    have high: "2 \<le> code c div 64" "code c div 64 \<le> 3" using False bound by linarith+
    have low: "code c mod 64 < 64" by simp
    have "char_of ((192 + code c div 64 - 192) * 64 + (128 + code c mod 64 - 128)) = c"
      using parts code_inverse [of c] by simp
    with Cons False high low show ?thesis by simp
  qed (simp add: Cons)
qed simp

section \<open>The commands and the router client (\<^verbatim>\<open>command/credentials.rs\<close>, \<^verbatim>\<open>client.rs\<close>)\<close>

datatype credentials_command = SetKey provider string | CheckKey provider | RemoveKey provider

fun run_command :: "'s secret_ops \<Rightarrow> string \<Rightarrow> bool \<Rightarrow> credentials_command \<Rightarrow> ('s, string) secret_io" where
  "run_command ops cwd g (SetKey p key) =
     bind_s (set_provider_api_key ops cwd p key g)
       (\<lambda>_. pure_s (Ok (''Credentials for provider '' @ show_provider p @ '' added successfully.'')))"
| "run_command ops cwd g (CheckKey p) =
     bind_s (get_provider_api_key ops cwd p)
       (\<lambda>found. pure_s (Ok (''Credentials for provider '' @ show_provider p @
          (if found \<noteq> None then '' are present.'' else '' are not present.''))))"
| "run_command ops cwd g (RemoveKey p) =
     bind_s (delete_provider_api_key ops cwd p g)
       (\<lambda>_. pure_s (Ok (''Credentials for provider '' @ show_provider p @ '' removed successfully.'')))"

definition run_credentials ::
  "('s, 's secret_ops) secret_io \<Rightarrow> ('s, 's secret_ops) secret_io \<Rightarrow> bool \<Rightarrow> string \<Rightarrow> bool \<Rightarrow>
   credentials_command \<Rightarrow> ('s, string) secret_io" where
  "run_credentials kf ff enforce_keyring cwd g c =
     bind_s (new_from_factories enforce_keyring kf ff) (\<lambda>storage. run_command (st_ops storage) cwd g c)"

definition config_credential ::
  "'s secret_ops \<Rightarrow> string \<Rightarrow> (string \<Rightarrow> env_value) \<Rightarrow> config \<Rightarrow> provider \<Rightarrow> ('s, string option) secret_io" where
  "config_credential ops cwd env c p =
     (case Option.bind (map_of (cf_providers c) p) pc_api_key of
        None \<Rightarrow> pure_s (Ok None)
      | Some secret \<Rightarrow>
          (case parse_secret_ref secret of
             None \<Rightarrow> pure_s (Ok None)
           | Some key \<Rightarrow> get_config_api_key ops cwd env key))"

fun gather_credentials ::
  "'s secret_ops \<Rightarrow> string \<Rightarrow> (string \<Rightarrow> env_value) \<Rightarrow> config \<Rightarrow> provider list \<Rightarrow> credentials \<Rightarrow>
   ('s, credentials) secret_io" where
  "gather_credentials ops cwd env c [] creds = pure_s (Ok creds)"
| "gather_credentials ops cwd env c (p # ps) creds =
     bind_s (get_provider_api_key ops cwd p) (\<lambda>found.
       case found of
         Some secret \<Rightarrow> gather_credentials ops cwd env c ps (creds(p \<mapsto> secret))
       | None \<Rightarrow>
           bind_s (config_credential ops cwd env c p) (\<lambda>found.
             case found of
               Some secret \<Rightarrow> gather_credentials ops cwd env c ps (creds(p \<mapsto> secret))
             | None \<Rightarrow> gather_credentials ops cwd env c ps creds))"

definition inject_credentials ::
  "(string, provider list) result \<Rightarrow> 's secret_ops \<Rightarrow> string \<Rightarrow> (string \<Rightarrow> env_value) \<Rightarrow> config \<Rightarrow>
   ('s, credentials) secret_io" where
  "inject_credentials advertised ops cwd env c =
     (case advertised of
        Inl e \<Rightarrow> pure_s (Err (''Failed to list providers from router: '' @ e))
      | Inr providers \<Rightarrow> gather_credentials ops cwd env c providers (\<lambda>_. None))"

section \<open>What every backend gives\<close>

lemma provider_names [simp]: "show_provider p \<noteq> api_key_name"
  by (cases p) (simp_all add: api_key_name_def openai_compatible_tag_def tag_separator_def)

text \<open>The credential that a provider gets: its stored key, then the reference of the configuration.\<close>

definition configured_key :: "config \<Rightarrow> provider \<Rightarrow> string option" where
  "configured_key c p = Option.bind (Option.bind (map_of (cf_providers c) p) pc_api_key) parse_secret_ref"

definition precedence ::
  "(string \<Rightarrow> string option) \<Rightarrow> (string \<Rightarrow> env_value) \<Rightarrow> config \<Rightarrow> provider \<Rightarrow> string option" where
  "precedence kept env c p =
     (case kept (show_provider p) of
        Some v \<Rightarrow> Some v
      | None \<Rightarrow>
          (case configured_key c p of
             None \<Rightarrow> None
           | Some key \<Rightarrow> (case env key of EnvText v \<Rightarrow> Some v | _ \<Rightarrow> kept key)))"

definition env_readable :: "(string \<Rightarrow> env_value) \<Rightarrow> config \<Rightarrow> bool" where
  "env_readable env c \<longleftrightarrow> (\<forall>p key. configured_key c p = Some key \<longrightarrow> env key \<noteq> EnvNotUnicode)"

lemma pure_s_simp [simp]: "pure_s r s = (r, s)"
  by (simp add: pure_s_def)

lemma bind_s_cases:
  "bind_s m f s = (case m s of (Inl e, t) \<Rightarrow> (Err e, t) | (Inr a, t) \<Rightarrow> f a t)"
  by (simp add: bind_s_def)

context secret_storage
begin

lemma same_view_refl [simp]: "same_view s s"
  by (simp add: same_view_def)

lemma same_view_trans: "same_view s t \<Longrightarrow> same_view t u \<Longrightarrow> same_view s u"
  by (simp add: same_view_def)

lemma set_provider_then_get:
  assumes "ready s" "project cwd" "set_provider_api_key ops cwd p key g s = (r, t)"
    "g \<longrightarrow> view s (LocalScope cwd) (show_provider p) = None"
  shows "r = Ok () \<and> ready t \<and> (\<exists>u. get_provider_api_key ops cwd p t = (Ok (Some key), u) \<and> ready u \<and> same_view t u)"
proof -
  have put: "r = Ok ()" "ready t" "resolved t cwd (show_provider p) = Some key"
    using put_then_resolved [OF assms(1,2) assms(3) [unfolded set_provider_api_key_def]] assms(4)
    by (auto split: option.split)
  then show ?thesis
    using storage_get_resolves [OF put(2) assms(2), of "show_provider p"]
    by (simp add: get_provider_api_key_def)
qed

lemma set_provider_keeps_others:
  assumes "ready s" "project cwd" "set_provider_api_key ops cwd p key g s = (r, t)" "n \<noteq> show_provider p"
  shows "resolved t cwd n = resolved s cwd n"
  using put_then_resolved [OF assms(1,2) assms(3) [unfolded set_provider_api_key_def]] assms(4) by simp

lemma router_key_read:
  assumes "ready s" "project cwd"
  shows "\<exists>t. get_router_key rt ops cwd s =
      (Ok (case resolved s cwd api_key_name of
             Some k \<Rightarrow> (case parse_api_key_user_id rt k of Inr _ \<Rightarrow> Some k | Inl _ \<Rightarrow> None)
           | None \<Rightarrow> None), t) \<and> ready t \<and> same_view s t"
  using storage_get_resolves [OF assms, of api_key_name]
  by (auto simp: get_router_key_def bind_s_def split: option.split sum.split)

lemma config_credential_read:
  assumes "ready s" "project cwd" "env_readable env c"
  shows "\<exists>t. config_credential ops cwd env c p s =
      (Ok (case configured_key c p of None \<Rightarrow> None
           | Some key \<Rightarrow> (case env key of EnvText v \<Rightarrow> Some v | _ \<Rightarrow> resolved s cwd key)), t) \<and>
      ready t \<and> same_view s t"
proof (cases "configured_key c p")
  case None
  then have "config_credential ops cwd env c p = pure_s (Ok None)"
    by (cases "Option.bind (map_of (cf_providers c) p) pc_api_key")
      (simp_all add: config_credential_def configured_key_def del: bind_assoc)
  with None assms(1) show ?thesis by auto
next
  case (Some key)
  then have found: "config_credential ops cwd env c p = get_config_api_key ops cwd env key"
    by (auto simp: config_credential_def configured_key_def bind_eq_Some_conv)
  have "env key \<noteq> EnvNotUnicode" using Some assms(3) by (auto simp: env_readable_def)
  then show ?thesis
    using storage_get_resolves [OF assms(1,2), of key] assms(1) Some
    by (cases "env key") (simp_all add: found get_config_api_key_def)
qed

lemma precedence_same:
  "same_view s t \<Longrightarrow> project cwd \<Longrightarrow> precedence (resolved t cwd) env c p = precedence (resolved s cwd) env c p"
  by (auto simp: precedence_def resolved_same split: option.split env_value.split)

lemma gather_by_precedence:
  assumes "project cwd" "env_readable env c"
  shows "ready s \<Longrightarrow> \<exists>t. gather_credentials ops cwd env c ps creds s =
      (Ok (\<lambda>p. case (if p \<in> set ps then precedence (resolved s cwd) env c p else None) of
                 Some v \<Rightarrow> Some v | None \<Rightarrow> creds p), t) \<and> ready t \<and> same_view s t"
proof (induction ps arbitrary: creds s)
  case (Cons p ps)
  let ?creds = "case precedence (resolved s cwd) env c p of Some v \<Rightarrow> creds(p \<mapsto> v) | None \<Rightarrow> creds"
  obtain t where t: "gather_credentials ops cwd env c (p # ps) creds s = gather_credentials ops cwd env c ps ?creds t"
    "ready t" "same_view s t"
  proof -
    obtain t where t: "get_provider_api_key ops cwd p s = (Ok (resolved s cwd (show_provider p)), t)"
        "ready t" "same_view s t"
      using storage_get_resolves [OF Cons.prems assms(1)] unfolding get_provider_api_key_def by blast
    show thesis
    proof (cases "resolved s cwd (show_provider p)")
      case (Some v)
      with t show thesis by (intro that [of t]) (simp_all add: bind_s_def precedence_def)
    next
      case None
      obtain u where u: "config_credential ops cwd env c p t =
          (Ok (case configured_key c p of None \<Rightarrow> None
             | Some key \<Rightarrow> (case env key of EnvText v \<Rightarrow> Some v | _ \<Rightarrow> resolved t cwd key)), u)"
          "ready u" "same_view t u"
        using config_credential_read [OF t(2) assms, of p] by blast
      have pre: "precedence (resolved s cwd) env c p = (case configured_key c p of None \<Rightarrow> None
             | Some key \<Rightarrow> (case env key of EnvText v \<Rightarrow> Some v | _ \<Rightarrow> resolved t cwd key))"
        using None resolved_same [OF t(3) assms(1)]
        by (auto simp: precedence_def split: option.split env_value.split)
      show thesis
        using t(1) None u same_view_trans [OF t(3) u(3)] pre
        by (intro that [of u]) (auto simp: bind_s_def split: option.split)
    qed
  qed
  obtain u where u: "gather_credentials ops cwd env c ps ?creds t =
      (Ok (\<lambda>q. case (if q \<in> set ps then precedence (resolved t cwd) env c q else None) of
                 Some v \<Rightarrow> Some v | None \<Rightarrow> ?creds q), u)" "ready u" "same_view t u"
    using Cons.IH [OF t(2), of ?creds] by blast
  have "(\<lambda>q. case (if q \<in> set ps then precedence (resolved t cwd) env c q else None) of
             Some v \<Rightarrow> Some v | None \<Rightarrow> ?creds q) =
        (\<lambda>q. case (if q \<in> set (p # ps) then precedence (resolved s cwd) env c q else None) of
             Some v \<Rightarrow> Some v | None \<Rightarrow> creds q)"
    using precedence_same [OF t(3) assms(1)] by (auto simp: fun_eq_iff split: option.split)
  with t u same_view_trans [OF t(3) u(3)] show ?case by simp
qed simp

lemma created_key_stored:
  assumes "ready s" "project cwd" "cipher_law cx" "create_key ops cwd cx (Ok key) s = (r, t)"
  shows "\<exists>key_id. r = Ok key_id \<and> ready t \<and> resolved t cwd key_id = Some (cx_encode cx key)"
proof -
  let ?id = "key_id_prefix @ cx_encode cx (cx_sha256 cx key)"
  have "\<exists>t. so_put ops (LocalScope cwd) ?id (cx_encode cx key) s = (Ok (), t) \<and> ready t \<and>
      view t (LocalScope cwd) ?id = Some (cx_encode cx key)"
    using put_stores [OF assms(1), of "LocalScope cwd" ?id "cx_encode cx key"] assms(2) by (auto simp: project_def)
  then show ?thesis
    using assms(3,4)
    by (auto simp: create_key_def key_id_for_secret_key_def cipher_law_def bind_s_def resolved_def)
qed

lemma get_secret_key_read:
  assumes "ready s" "project cwd" "cipher_law cx" "resolved s cwd key_id = Some (cx_encode cx key)"
  shows "\<exists>t. get_secret_key ops cwd cx key_id s = (Ok key, t) \<and> ready t \<and> same_view s t"
  using storage_get_resolves [OF assms(1,2), of key_id] assms(3,4)
  by (auto simp: get_secret_key_def bind_s_def cipher_law_def)

lemma sealed_payload_opens:
  assumes "ready s" "project cwd" "cipher_law cx" "resolved s cwd key_id = Some (cx_encode cx key)"
    and "length nonce = 24" "encrypt_payload ops cwd cx nonce key_id plaintext s = (Ok p, t)"
  shows "ready t \<and> same_view s t \<and> ep_key_id p = key_id \<and>
    (\<exists>u. decrypt_payload ops cwd cx p t = (Ok plaintext, u) \<and> ready u \<and> same_view t u)"
proof -
  obtain t' where t': "get_secret_key ops cwd cx key_id s = (Ok key, t')" "ready t'" "same_view s t'"
    using get_secret_key_read [OF assms(1-4)] by blast
  have len: "length key = 32" and t: "t' = t"
    and p: "\<exists>c. cx_seal cx key nonce (utf8_bytes plaintext) = Some c \<and>
      p = \<lparr>ep_version = encrypted_payload_v1, ep_algorithm = xchacha, ep_key_id = key_id,
           ep_nonce = cx_encode cx nonce, ep_ciphertext = cx_encode cx c\<rparr>"
    using assms(6) t'(1)
    by (auto simp: encrypt_payload_def bind_s_def cipher_from_secret_key_def split: if_splits option.splits)
  have kept: "resolved t cwd key_id = Some (cx_encode cx key)"
    using resolved_same [OF t'(3) assms(2)] assms(4) t by simp
  obtain u where u: "get_secret_key ops cwd cx key_id t = (Ok key, u)" "ready u" "same_view t u"
    using get_secret_key_read [OF _ assms(2,3) kept] t'(2) t by blast
  show ?thesis
    using p t t' u len assms(3,5)
    by (auto simp: decrypt_payload_def decrypt_payload_v1_def decrypt_v1_xchacha_def bind_s_def
        cipher_from_secret_key_def decode_nonce_def cipher_law_def from_utf8_bytes)
qed

end

lemma foreign_payload_rejected:
  "ep_version p \<noteq> 1 \<or> ep_algorithm p \<noteq> ''xchacha20poly1305'' \<Longrightarrow> \<exists>e. decrypt_payload ops cwd cx p s = (Err e, s)"
  by (auto simp: decrypt_payload_def decrypt_payload_v1_def encrypted_payload_v1_def xchacha_def)

end
