(* ===== verification/Web_Layer.thy ===== *)
theory Web_Layer
  imports Provider_Keys Usage_Report Preview "HOL-Library.AList"
begin

text \<open>
  The middleware of the router (\<^verbatim>\<open>smista-router/src/web\<close>) and the headers its client sends
  (\<^verbatim>\<open>smista-router-client/src/credentials/provider_credentials.rs\<close>): the credential headers
  written by one side and read by the other (\<^verbatim>\<open>middleware/extract_provider_credentials.rs\<close>),
  the guard of query credentials (\<^verbatim>\<open>middleware/reject_query_credentials.rs\<close>), bearer tokens
  (\<^verbatim>\<open>middleware/authenticate.rs\<close>), errors as responses (\<^verbatim>\<open>error.rs\<close>), and the terminal
  events of a streamed turn (\<^verbatim>\<open>streaming.rs\<close>).  The lemmas show that the router reads exactly
  the credentials the client holds, when no instance takes the name of a built-in provider.
\<close>

section \<open>Requests\<close>

text \<open>A header by its lowercase name, as \<open>HeaderName\<close> renders it.  A value is text when every
  character is visible ASCII, a space or a tab.\<close>

type_synonym headers = "(string \<times> string) list"

definition visible_char :: "char \<Rightarrow> bool" where
  "visible_char c \<longleftrightarrow> 32 \<le> code c \<and> code c < 127 \<or> code c = 9"

definition to_str :: "string \<Rightarrow> string option" where
  "to_str v = (if list_all visible_char v then Some v else None)"

datatype http_method = GET | POST | PUT | DELETE

section \<open>Credential headers of the client (\<^verbatim>\<open>provider_credentials.rs\<close>)\<close>

text \<open>The keys in the order the hash map yields them.\<close>

type_synonym provider_keys = "(provider \<times> string) list"

definition client_header_prefix :: string where
  "client_header_prefix = ''X-Smista-Provider-''"

definition client_header_suffix :: string where
  "client_header_suffix = ''-Api-Key''"

fun header_segment :: "provider \<Rightarrow> string" where
  "header_segment (OpenAICompatible name) = name"
| "header_segment p = show_provider p"

definition header_name :: "provider \<Rightarrow> string" where
  "header_name p = client_header_prefix @ header_segment p @ client_header_suffix"

definition headers_map :: "provider_keys \<Rightarrow> headers" where
  "headers_map keys = foldl (\<lambda>m (p, secret). AList.update (header_name p) secret m) [] keys"

definition wire_headers :: "headers \<Rightarrow> headers" where
  "wire_headers hs = map (\<lambda>(n, v). (to_ascii_lowercase n, v)) hs"

section \<open>Extraction (\<^verbatim>\<open>extract_provider_credentials.rs\<close>)\<close>

definition provider_credential_prefix :: string where
  "provider_credential_prefix = ''x-smista-provider-''"

definition provider_credential_suffix :: string where
  "provider_credential_suffix = ''-api-key''"

definition is_openai_compatible_instance_name :: "string \<Rightarrow> bool" where
  "is_openai_compatible_instance_name name \<longleftrightarrow> name \<noteq> [] \<and>
     list_all (\<lambda>c. is_ascii_lowercase c \<or> is_ascii_digit c \<or> c = CHR ''-'' \<or> c = CHR ''_'') name"

definition provider_from_header :: "string \<Rightarrow> provider option" where
  "provider_from_header name =
     (case Option.bind (strip_prefix provider_credential_prefix name) (strip_suffix provider_credential_suffix) of
        None \<Rightarrow> None
      | Some segment \<Rightarrow>
          if segment = [] then None
          else (case provider_from_str segment of
                  Inr p \<Rightarrow> Some p
                | Inl _ \<Rightarrow> if is_openai_compatible_instance_name segment then Some (OpenAICompatible segment)
                          else None))"

definition extract_header :: "credentials \<Rightarrow> string \<times> string \<Rightarrow> credentials" where
  "extract_header creds h =
     (case (provider_from_header (fst h), to_str (snd h)) of
        (Some p, Some key) \<Rightarrow> creds(p \<mapsto> key)
      | _ \<Rightarrow> creds)"

definition extract_provider_credentials :: "headers \<Rightarrow> credentials" where
  "extract_provider_credentials hs = foldl extract_header (\<lambda>_. None) hs"

subsection \<open>The router reads what the client sends\<close>

definition built_in_names :: "string list" where
  "built_in_names = [''anthropic'', ''gemini'', ''openai'', ''ollama'']"

text \<open>A well-formed provider whose instance name is not the name of a built-in one.\<close>

fun own_name :: "provider \<Rightarrow> bool" where
  "own_name (OpenAICompatible name) \<longleftrightarrow> is_valid_instance_name name \<and> name \<notin> set built_in_names"
| "own_name _ = True"

lemma own_name_wf: "own_name p \<Longrightarrow> provider_wf p"
  by (cases p) auto

lemma instance_name_same: "is_openai_compatible_instance_name n = is_valid_instance_name n"
  by (simp add: is_openai_compatible_instance_name_def is_valid_instance_name_def)

lemma lower_instance_name: "is_valid_instance_name n \<Longrightarrow> to_ascii_lowercase n = n"
proof -
  assume n: "is_valid_instance_name n"
  have "ascii_lower c = c" if "c \<in> set n" for c
    using n that by (auto simp: is_valid_instance_name_def list_all_iff ascii_lower_def is_ascii_lowercase_def
        is_ascii_digit_def code_def)
  then show ?thesis by (simp add: to_ascii_lowercase_def map_idI)
qed

lemma lower_append: "to_ascii_lowercase (a @ b) = to_ascii_lowercase a @ to_ascii_lowercase b"
  by (simp add: to_ascii_lowercase_def)

lemma lower_segment: "own_name p \<Longrightarrow> to_ascii_lowercase (header_segment p) = header_segment p"
  using own_name_wf [of p] show_provider_lower [of p] by (cases p) (auto simp: lower_instance_name)

lemma lower_header_name:
  "own_name p \<Longrightarrow> to_ascii_lowercase (header_name p) =
     provider_credential_prefix @ header_segment p @ provider_credential_suffix"
proof -
  assume "own_name p"
  have "to_ascii_lowercase client_header_prefix = provider_credential_prefix"
       "to_ascii_lowercase client_header_suffix = provider_credential_suffix"
    by (simp_all add: client_header_prefix_def client_header_suffix_def provider_credential_prefix_def
        provider_credential_suffix_def to_ascii_lowercase_def ascii_lower_def code_def char_of_def bit_0)
  with lower_segment [OF \<open>own_name p\<close>] show ?thesis by (simp add: header_name_def lower_append)
qed

lemma no_colon: "is_valid_instance_name n \<Longrightarrow> tag_separator \<notin> set n"
  by (auto simp: is_valid_instance_name_def list_all_iff tag_separator_def is_ascii_lowercase_def
      is_ascii_digit_def code_def)

lemma segment_read:
  assumes "own_name p"
  shows "header_segment p \<noteq> [] \<and>
    (case provider_from_str (header_segment p) of
       Inr q \<Rightarrow> q = p | Inl _ \<Rightarrow> p = OpenAICompatible (header_segment p) \<and> is_valid_instance_name (header_segment p))"
proof (cases p)
  case (OpenAICompatible n)
  with assms have n: "is_valid_instance_name n" "n \<notin> set built_in_names" by auto
  then have "provider_from_str n = Err (Parse (parse_error.UnknownProvider n))"
    using no_colon [OF n(1)]
    by (auto simp: provider_from_str_def lower_instance_name provider_from_canonical_def built_in_names_def
        split_once_None [symmetric])
  with n OpenAICompatible show ?thesis by (simp add: is_valid_instance_name_def)
qed (use provider.parse_show [of p] in simp_all)

lemma header_read:
  assumes "own_name p"
  shows "provider_from_header (to_ascii_lowercase (header_name p)) = Some p"
proof -
  have suffix: "strip_suffix x (a @ x) = Some a" for a x :: string
    by (simp add: strip_suffix_def strip_prefix_Some [THEN iffD2])
  have prefix: "strip_prefix x (x @ a) = Some a" for a x :: string
    by (simp add: strip_prefix_Some)
  let ?s = "header_segment p"
  have found: "Option.bind (strip_prefix provider_credential_prefix (to_ascii_lowercase (header_name p)))
      (strip_suffix provider_credential_suffix) = Some ?s"
    by (simp add: lower_header_name [OF assms] prefix suffix)
  have "?s \<noteq> []" using segment_read [OF assms] by simp
  then show ?thesis
  proof (cases "provider_from_str ?s")
    case (Inl e)
    then have p: "p = OpenAICompatible ?s" "is_valid_instance_name ?s"
      using segment_read [OF assms] by (simp_all only: sum.case)
    then have "(if is_openai_compatible_instance_name ?s then Some (OpenAICompatible ?s) else None) = Some p"
      by (simp only: instance_name_same if_True)
    then show ?thesis
      unfolding provider_from_header_def found option.case Inl sum.case
      using \<open>?s \<noteq> []\<close> by (simp only: if_False)
  next
    case (Inr q)
    then have "q = p" using segment_read [OF assms] by (simp only: sum.case)
    then show ?thesis
      unfolding provider_from_header_def found option.case Inr sum.case
      using \<open>?s \<noteq> []\<close> by (simp only: if_False)
  qed
qed

lemma header_name_inj: "own_name p \<Longrightarrow> own_name q \<Longrightarrow> header_name p = header_name q \<Longrightarrow> p = q"
  by (metis header_read option.inject)

text \<open>Headers that name no provider leave the credentials alone.\<close>

definition foreign :: "headers \<Rightarrow> bool" where
  "foreign hs \<longleftrightarrow> list_all (\<lambda>(n, _). provider_from_header n = None) hs"

lemma extract_foreign: "foreign hs \<Longrightarrow> foldl extract_header creds hs = creds"
  by (induction hs arbitrary: creds) (auto simp: foreign_def extract_header_def split: prod.splits)

lemma update_other: "k \<notin> fst ` set m \<Longrightarrow> AList.update k v m = m @ [(k, v)]"
  by (induction m) auto

lemma headers_map_plain:
  assumes "distinct (map fst keys)" "list_all own_name (map fst keys)"
  shows "headers_map keys = map (\<lambda>(p, v). (header_name p, v)) keys"
  using assms
proof (induction keys rule: rev_induct)
  case (snoc k keys)
  obtain p v where k: "k = (p, v)" by (cases k)
  have "header_name p \<notin> fst ` set (map (\<lambda>(p, v). (header_name p, v)) keys)"
  proof
    assume "header_name p \<in> fst ` set (map (\<lambda>(p, v). (header_name p, v)) keys)"
    then obtain q w where q: "(q, w) \<in> set keys" "header_name q = header_name p" by auto
    then have "q = p" using snoc.prems k by (intro header_name_inj) (auto simp: list_all_iff)
    with q snoc.prems k show False by force
  qed
  with snoc k show ?case by (simp add: headers_map_def update_other)
qed (simp add: headers_map_def)

lemma extract_own:
  assumes "list_all own_name (map fst keys)" "list_all (\<lambda>(_, v). to_str v = Some v) keys"
  shows "foldl extract_header creds (wire_headers (map (\<lambda>(p, v). (header_name p, v)) keys)) =
    creds ++ map_of (rev keys)"
  using assms
proof (induction keys arbitrary: creds)
  case (Cons k keys)
  obtain p v where k: "k = (p, v)" by (cases k)
  have "extract_header creds (to_ascii_lowercase (header_name p), v) = creds(p \<mapsto> v)"
    using Cons.prems k header_read [of p] by (simp add: extract_header_def)
  with Cons k show ?case
    by (simp add: wire_headers_def map_add_assoc [symmetric] map_add_def fun_eq_iff split: option.split)
qed (simp add: wire_headers_def)

lemma sent_credentials_read:
  assumes "distinct (map fst keys)" "list_all own_name (map fst keys)"
    and "list_all (\<lambda>(_, v). to_str v = Some v) keys" "foreign hs" "foreign hs2"
  shows "extract_provider_credentials (hs @ wire_headers (headers_map keys) @ hs2) = map_of keys"
proof -
  have "map_of (rev keys) = map_of keys"
    using assms(1) by (intro map_of_inject_set [THEN iffD2]) (simp_all add: rev_map [symmetric])
  then show ?thesis
    using assms by (simp add: extract_provider_credentials_def extract_foreign headers_map_plain extract_own)
qed

lemma instance_takes_built_in_name:
  "headers_map [(OpenAI, ''sk-a''), (OpenAICompatible ''openai'', ''sk-b'')] =
     [(''X-Smista-Provider-openai-Api-Key'', ''sk-b'')]"
  "extract_provider_credentials [(''x-smista-provider-openai-api-key'', ''sk-b'')] = [OpenAI \<mapsto> ''sk-b'']"
proof -
  show "headers_map [(OpenAI, ''sk-a''), (OpenAICompatible ''openai'', ''sk-b'')] =
     [(''X-Smista-Provider-openai-Api-Key'', ''sk-b'')]"
    by (simp add: headers_map_def header_name_def client_header_prefix_def client_header_suffix_def)
  have "wire_headers [(''X-Smista-Provider-openai-Api-Key'', ''sk-b'')] =
     wire_headers (headers_map [(OpenAI, ''sk-b'')])"
    by (simp add: headers_map_def header_name_def client_header_prefix_def client_header_suffix_def)
  moreover have "to_str ''sk-b'' = Some ''sk-b''" by (simp add: to_str_def visible_char_def code_def)
  ultimately have "extract_provider_credentials (wire_headers [(''X-Smista-Provider-openai-Api-Key'', ''sk-b'')]) =
     [OpenAI \<mapsto> ''sk-b'']"
    using sent_credentials_read [of "[(OpenAI, ''sk-b'')]" "[]" "[]"] by (simp add: foreign_def)
  moreover have "wire_headers [(''X-Smista-Provider-openai-Api-Key'', ''sk-b'')] =
     [(''x-smista-provider-openai-api-key'', ''sk-b'')]"
    by (simp add: wire_headers_def to_ascii_lowercase_def ascii_lower_def code_def char_of_def bit_0)
  ultimately show "extract_provider_credentials [(''x-smista-provider-openai-api-key'', ''sk-b'')] =
     [OpenAI \<mapsto> ''sk-b'']" by simp
qed

section \<open>The guard of the query (\<^verbatim>\<open>reject_query_credentials.rs\<close>)\<close>

definition credential_query_markers :: "string list" where
  "credential_query_markers =
     [''api-key'', ''api_key'', ''apikey'', ''authorization'', ''password'', ''secret'', ''token'', ''x-smista'']"

definition query_key :: "string \<Rightarrow> string" where
  "query_key pair = to_ascii_lowercase (hd (split_when (\<lambda>c. c = CHR ''='') pair))"

definition query_has_credential :: "string \<Rightarrow> bool" where
  "query_has_credential q =
     list_ex (\<lambda>pair. list_ex (str_contains (query_key pair)) credential_query_markers)
       (split_when (\<lambda>c. c = CHR ''&'') q)"

section \<open>Errors and streams (\<^verbatim>\<open>error.rs\<close>, \<^verbatim>\<open>streaming.rs\<close>)\<close>

definition internal_error :: api_error_response where
  "internal_error = from_code ApiInternalError ''An internal error occurred.''"

fun web_error_of_auth :: "authenticator_error \<Rightarrow> api_error_response" where
  "web_error_of_auth ExpiredToken = from_code ApiTokenExpired ''The session token has expired.''"
| "web_error_of_auth InternalAuthError = internal_error"
| "web_error_of_auth InvalidHash = internal_error"
| "web_error_of_auth InvalidApiKeyAuth = from_code ApiInvalidApiKey ''The API key is invalid.''"
| "web_error_of_auth UserNotFound = from_code ApiInvalidApiKey ''The API key is invalid.''"
| "web_error_of_auth InvalidToken = from_code ApiInvalidToken ''The session token is invalid.''"
| "web_error_of_auth RevokedToken = from_code ApiTokenRevoked ''The session token has been revoked.''"

lemma web_error_code: "\<exists>m. web_error_of_auth e = from_code (auth_error_code e) m"
  by (cases e) (auto simp: internal_error_def)

definition get_header :: "string \<Rightarrow> headers \<Rightarrow> string option" where
  "get_header n hs = map_of hs n"

definition wants_event_stream :: "headers \<Rightarrow> bool" where
  "wants_event_stream hs =
     (case Option.bind (get_header ''accept'' hs) to_str of
        None \<Rightarrow> False
      | Some accept \<Rightarrow>
          list_ex (\<lambda>media. trim_text (hd (split_when (\<lambda>c. c = CHR '';'') media)) = ''text/event-stream'')
            (split_when (\<lambda>c. c = CHR '','') accept))"

datatype wire_event =
    TextDeltaEvent string
  | ReasoningDeltaEvent string
  | UsageReported usage
  | ToolCallStarted string string
  | ToolCallRequested tool_request
  | TurnEnded turn_response
  | TurnFailed api_error_body "continue_kind list"

definition terminal_events :: "turn_response \<Rightarrow> wire_event list" where
  "terminal_events response =
     (case tp_outcome response of
        CompletedOutcome t \<Rightarrow> [UsageReported (ct_usage t)]
      | ToolOutcome requests _ \<Rightarrow>
          concat (map (\<lambda>r. [ToolCallStarted (tq_call_id r) (tq_name r), ToolCallRequested r]) requests)
      | _ \<Rightarrow> []) @ [TurnEnded response]"

definition error_turn_end :: "(orchestrator_error \<Rightarrow> string) \<Rightarrow> orchestrator_error \<Rightarrow> wire_event" where
  "error_turn_end show_error e = TurnFailed (ar_error (from_code (api_code e) (show_error e))) []"

text \<open>\<open>run\<close> yields the deltas it emitted and its result; the helper appends how the turn ended.\<close>

definition stream_turn ::
  "(orchestrator_error \<Rightarrow> string) \<Rightarrow> wire_event list \<times> (orchestrator_error, turn_response) result \<Rightarrow>
   wire_event list" where
  "stream_turn show_error run =
     fst run @ (case snd run of Inr response \<Rightarrow> terminal_events response
                | Inl e \<Rightarrow> [error_turn_end show_error e])"

fun is_turn_end :: "wire_event \<Rightarrow> bool" where
  "is_turn_end (TurnEnded _) = True"
| "is_turn_end (TurnFailed _ _) = True"
| "is_turn_end _ = False"

fun is_delta :: "wire_event \<Rightarrow> bool" where
  "is_delta (TextDeltaEvent _) = True"
| "is_delta (ReasoningDeltaEvent _) = True"
| "is_delta _ = False"

lemma terminal_events_end:
  "\<exists>early. terminal_events r = early @ [TurnEnded r] \<and> (\<forall>e\<in>set early. \<not> is_turn_end e)"
  by (auto simp: terminal_events_def split: turn_outcome.split)

theorem stream_ends_with_the_turn:
  assumes "list_all is_delta (fst run)"
  shows "\<exists>early final. stream_turn show_error run = early @ [final] \<and> is_turn_end final \<and>
    list_all (\<lambda>e. \<not> is_turn_end e) early"
proof -
  have deltas: "list_all (\<lambda>e. \<not> is_turn_end e) (fst run)"
    using assms by (auto simp: list_all_iff elim!: is_delta.elims)
  show ?thesis
  proof (cases "snd run")
    case (Inl e)
    then have "stream_turn show_error run = fst run @ [error_turn_end show_error e]" by (simp add: stream_turn_def)
    then show ?thesis using deltas by (auto simp: error_turn_end_def)
  next
    case (Inr r)
    obtain early where early: "terminal_events r = early @ [TurnEnded r]" "\<forall>e\<in>set early. \<not> is_turn_end e"
      using terminal_events_end by blast
    then have "stream_turn show_error run = (fst run @ early) @ [TurnEnded r]"
      using Inr by (simp add: stream_turn_def)
    then show ?thesis using deltas early(2)
      by (intro exI [of _ "fst run @ early"] exI [of _ "TurnEnded r"]) (auto simp: list_all_iff)
  qed
qed

end
