(* ===== verification/Router_Config.thy ===== *)
theory Router_Config
  imports Tool_Text
begin

text \<open>
  The runtime configuration of the router (\<^verbatim>\<open>smista-router/src/config\<close>): the model and its
  defaults (\<^verbatim>\<open>model.rs\<close>), loading (\<^verbatim>\<open>load.rs\<close>) and validation
  (\<^verbatim>\<open>validate.rs\<close>, \<^verbatim>\<open>validate/\<close>).  TOML, the resolution of the global directory and the
  parser of IPv6 addresses are arguments.  The lemmas show what a configuration without errors
  guarantees, that the default configuration starts, and that validation judges every check on its
  own.
\<close>

section \<open>Model (\<^verbatim>\<open>model.rs\<close>)\<close>

record router_model_config =
  rm_name :: string
  rm_display_name :: "string option"
  rm_auth :: auth_requirement
  rm_capabilities :: model_capabilities
  rm_max_context_tokens :: nat
  rm_max_output_tokens :: "nat option"
  rm_input_cost :: "rat option"
  rm_output_cost :: "rat option"

record router_provider_config =
  rp_base_url :: "string option"
  rp_local :: bool
  rp_display_name :: "string option"
  rp_models :: "router_model_config list"

datatype storage_mode = EmbeddedStorage | MemoryStorage | RemoteStorage

record storage_config =
  sg_mode :: storage_mode
  sg_path :: "string option"
  sg_url :: "string option"
  sg_username :: "string option"
  sg_password :: "string option"
  sg_namespace :: string
  sg_database :: string

record router_auth_config =
  ra_token_ttl_seconds :: nat
  ra_api_key_version :: string
  ra_local_bootstrap_enabled :: bool

record router_limits =
  li_max_request_body_bytes :: nat
  li_max_context_bytes :: nat
  li_max_concurrent_requests :: nat
  li_request_timeout_ms :: nat
  li_provider_timeout_ms :: nat
  li_tool_timeout_ms :: nat

record rate_limit_config =
  rl_enabled :: bool
  rl_period_ms :: nat
  rl_burst_size :: nat
  rl_trust_proxy_headers :: bool

record logging_config =
  lg_level :: string
  lg_format :: string
  lg_redact_secrets :: bool

datatype otlp_protocol = Grpc | HttpBinary

text \<open>The sampling ratio is a double: \<open>None\<close> is not a number.\<close>

record otel_config =
  ot_enabled :: bool
  ot_endpoint :: string
  ot_protocol :: otlp_protocol
  ot_service_name :: string
  ot_sample_ratio :: "rat option"

record cors_config =
  co_enabled :: bool
  co_allowed_origins :: "string list"

record router_retention =
  re_trace_days :: nat
  re_session_days :: nat
  re_archived_days :: nat
  re_cleanup_seconds :: nat

record ollama_config =
  oc_enabled :: bool
  oc_base_url :: string

record router_config =
  rc_host :: string
  rc_port :: nat
  rc_storage :: storage_config
  rc_auth :: router_auth_config
  rc_limits :: router_limits
  rc_rate_limit :: rate_limit_config
  rc_logging :: logging_config
  rc_otel :: otel_config
  rc_cors :: cors_config
  rc_retention :: router_retention
  rc_ollama :: ollama_config
  rc_providers :: "(provider \<times> router_provider_config) list"

definition default_provider_config :: router_provider_config where
  "default_provider_config = \<lparr>rp_base_url = None, rp_local = False, rp_display_name = None, rp_models = []\<rparr>"

definition default_model_capabilities :: model_capabilities where
  "default_model_capabilities = \<lparr>cap_streaming = True, cap_tools = True, cap_json_output = True,
     cap_system_prompt = True, cap_images = False, cap_reasoning = False, cap_memory = True\<rparr>"

definition default_model_parameters :: model_parameters where
  "default_model_parameters = \<lparr>mp_temperature = None, mp_top_p = None, mp_max_tokens = None, mp_extra = []\<rparr>"

definition to_descriptor :: "router_model_config \<Rightarrow> provider \<Rightarrow> bool \<Rightarrow> model_descriptor" where
  "to_descriptor m p is_local =
     \<lparr>md_provider = p, md_model = rm_name m, md_display_name = rm_display_name m, md_local = is_local,
      md_auth = rm_auth m, md_capabilities = rm_capabilities m, md_max_context_tokens = rm_max_context_tokens m,
      md_max_output_tokens = rm_max_output_tokens m, md_input_cost = rm_input_cost m,
      md_output_cost = rm_output_cost m, md_default_parameters = default_model_parameters,
      md_provider_options = None\<rparr>"

definition default_providers :: "(provider \<times> router_provider_config) list" where
  "default_providers =
     [(Anthropic, default_provider_config), (Gemini, default_provider_config),
      (Ollama, default_provider_config), (OpenAI, default_provider_config)]"

definition default_storage_config :: "string option \<Rightarrow> storage_config" where
  "default_storage_config db_path =
     \<lparr>sg_mode = EmbeddedStorage, sg_path = db_path, sg_url = None, sg_username = None, sg_password = None,
      sg_namespace = ''smista'', sg_database = ''local''\<rparr>"

definition default_auth_config :: router_auth_config where
  "default_auth_config =
     \<lparr>ra_token_ttl_seconds = 86400, ra_api_key_version = ''01'', ra_local_bootstrap_enabled = True\<rparr>"

definition default_limits :: router_limits where
  "default_limits =
     \<lparr>li_max_request_body_bytes = 10485760, li_max_context_bytes = 5242880, li_max_concurrent_requests = 8,
      li_request_timeout_ms = 120000, li_provider_timeout_ms = 180000, li_tool_timeout_ms = 60000\<rparr>"

definition default_rate_limit :: rate_limit_config where
  "default_rate_limit =
     \<lparr>rl_enabled = True, rl_period_ms = 10, rl_burst_size = 200, rl_trust_proxy_headers = False\<rparr>"

definition default_logging :: logging_config where
  "default_logging = \<lparr>lg_level = ''info'', lg_format = ''compact'', lg_redact_secrets = True\<rparr>"

definition default_otel :: otel_config where
  "default_otel =
     \<lparr>ot_enabled = False, ot_endpoint = ''http://localhost:4317'', ot_protocol = Grpc,
      ot_service_name = ''smista-router'', ot_sample_ratio = Some 1\<rparr>"

definition default_cors :: cors_config where
  "default_cors = \<lparr>co_enabled = False, co_allowed_origins = []\<rparr>"

definition default_retention :: router_retention where
  "default_retention =
     \<lparr>re_trace_days = 90, re_session_days = 365, re_archived_days = 30, re_cleanup_seconds = 3600\<rparr>"

definition default_ollama :: ollama_config where
  "default_ollama = \<lparr>oc_enabled = False, oc_base_url = ''http://127.0.0.1:11434/''\<rparr>"

definition default_router_config :: "string option \<Rightarrow> router_config" where
  "default_router_config db_path =
     \<lparr>rc_host = ''127.0.0.1'', rc_port = 7331, rc_storage = default_storage_config db_path,
      rc_auth = default_auth_config, rc_limits = default_limits, rc_rate_limit = default_rate_limit,
      rc_logging = default_logging, rc_otel = default_otel, rc_cors = default_cors,
      rc_retention = default_retention, rc_ollama = default_ollama, rc_providers = default_providers\<rparr>"

fun show_protocol :: "otlp_protocol \<Rightarrow> string" where
  "show_protocol Grpc = ''grpc''"
| "show_protocol HttpBinary = ''http-binary''"

definition protocol_from_str :: "string \<Rightarrow> (string, otlp_protocol) result" where
  "protocol_from_str s =
     (let t = to_ascii_lowercase (trim_text s)
      in if t = ''grpc'' then Ok Grpc
         else if t = ''http'' \<or> t = ''http-binary'' then Ok HttpBinary
         else Err t)"

section \<open>Loading (\<^verbatim>\<open>load.rs\<close>)\<close>

datatype config_read = ConfigContents string | ConfigAbsent | ConfigUnreadable string

datatype router_config_error = RouterConfigIo string string | RouterConfigParse string string

definition parse_router_config ::
  "(string \<Rightarrow> (string, router_config) result) \<Rightarrow> string \<Rightarrow> string \<Rightarrow> (router_config_error, router_config) result" where
  "parse_router_config toml contents p = map_err (RouterConfigParse p) (toml contents)"

definition load_router_config ::
  "string option \<Rightarrow> (string \<Rightarrow> (string, router_config) result) \<Rightarrow> (string \<Rightarrow> config_read) \<Rightarrow> string \<Rightarrow>
   (router_config_error, router_config) result" where
  "load_router_config db_path toml reads p =
     (case reads p of
        ConfigContents contents \<Rightarrow> parse_router_config toml contents p
      | ConfigAbsent \<Rightarrow> Ok (default_router_config db_path)
      | ConfigUnreadable e \<Rightarrow> Err (RouterConfigIo p e))"

section \<open>Validation (\<^verbatim>\<open>validate.rs\<close>, \<^verbatim>\<open>validate/\<close>)\<close>

datatype finding_severity = BlockingError | AdvisoryWarning

datatype router_code = ExcessiveTimeout | IgnoredProviderBaseUrl | InvalidHost | InvalidLimit
  | InvalidOpenTelemetry | InvalidPort | InvalidRateLimit | InvalidTimeout | LocalBootstrapInRemote
  | MissingStorageConfig | UnsafeCors | UnsafePublicBind

record router_finding =
  rf_code :: router_code
  rf_severity :: finding_severity
  rf_message :: string
  rf_location :: "string option"

record router_report =
  rr_errors :: "router_finding list"
  rr_warnings :: "router_finding list"

definition empty_report :: router_report where
  "empty_report = \<lparr>rr_errors = [], rr_warnings = []\<rparr>"

definition push_finding :: "router_finding \<Rightarrow> router_report \<Rightarrow> router_report" where
  "push_finding f r =
     (case rf_severity f of
        BlockingError \<Rightarrow> r\<lparr>rr_errors := rr_errors r @ [f]\<rparr>
      | AdvisoryWarning \<Rightarrow> r\<lparr>rr_warnings := rr_warnings r @ [f]\<rparr>)"

definition report_ok :: "router_report \<Rightarrow> bool" where
  "report_ok r \<longleftrightarrow> rr_errors r = []"

definition finding_to_human :: "router_finding \<Rightarrow> string" where
  "finding_to_human f =
     (case rf_severity f of BlockingError \<Rightarrow> ''error'' | AdvisoryWarning \<Rightarrow> ''warning'') @ '' ['' @
     (case rf_location f of Some l \<Rightarrow> l | None \<Rightarrow> ''-'') @ '']: '' @ rf_message f"

definition report_to_human :: "router_report \<Rightarrow> string" where
  "report_to_human r = concat (map (\<lambda>f. finding_to_human f @ [CHR 0x0A]) (rr_errors r @ rr_warnings r))"

abbreviation blocking :: "router_code \<Rightarrow> string \<Rightarrow> string \<Rightarrow> router_finding" where
  "blocking c m l \<equiv> \<lparr>rf_code = c, rf_severity = BlockingError, rf_message = m, rf_location = Some l\<rparr>"

abbreviation advisory :: "router_code \<Rightarrow> string \<Rightarrow> string \<Rightarrow> router_finding" where
  "advisory c m l \<equiv> \<lparr>rf_code = c, rf_severity = AdvisoryWarning, rf_message = m, rf_location = Some l\<rparr>"

subsection \<open>Hosts (\<^verbatim>\<open>binding.rs\<close>)\<close>

definition is_ascii_alphanumeric :: "char \<Rightarrow> bool" where
  "is_ascii_alphanumeric c \<longleftrightarrow> is_ascii_digit c \<or> is_ascii_lowercase c \<or> (65 \<le> code c \<and> code c \<le> 90)"

definition is_valid_dns_name :: "string \<Rightarrow> bool" where
  "is_valid_dns_name host =
     list_all (\<lambda>label. label \<noteq> [] \<and> length label \<le> 63 \<and> hd label \<noteq> CHR ''-'' \<and> last label \<noteq> CHR ''-'' \<and>
         list_all (\<lambda>c. is_ascii_alphanumeric c \<or> c = CHR ''-'') label)
       (split_when (\<lambda>c. c = CHR ''.'') host)"

text \<open>\<open>host.parse::<IpAddr>()\<close>: four decimal octets without leading zeros, or the address \<open>ipv6\<close>
  accepts.\<close>

definition decimal :: "string \<Rightarrow> nat" where
  "decimal s = foldl (\<lambda>n c. 10 * n + (code c - 48)) 0 s"

definition is_octet :: "string \<Rightarrow> bool" where
  "is_octet s \<longleftrightarrow> s \<noteq> [] \<and> length s \<le> 3 \<and> list_all is_ascii_digit s \<and>
     (hd s = CHR ''0'' \<longrightarrow> length s = 1) \<and> decimal s \<le> 255"

definition is_ipv4 :: "string \<Rightarrow> bool" where
  "is_ipv4 host \<longleftrightarrow>
     (let parts = split_when (\<lambda>c. c = CHR ''.'') host in length parts = 4 \<and> list_all is_octet parts)"

definition is_ip :: "(string \<Rightarrow> bool) \<Rightarrow> string \<Rightarrow> bool" where
  "is_ip ipv6 host \<longleftrightarrow> is_ipv4 host \<or> ipv6 host"

definition is_valid_host :: "(string \<Rightarrow> bool) \<Rightarrow> string \<Rightarrow> bool" where
  "is_valid_host ipv6 host =
     (if trim_text host = [] \<or> list_ex is_whitespace host then False
      else if CHR '':'' \<in> set host then is_ip ipv6 host
      else is_ip ipv6 host \<or> is_valid_dns_name host)"

definition public_hosts :: "string list" where
  "public_hosts = [''0.0.0.0'', ''::'']"

definition check_binding :: "(string \<Rightarrow> bool) \<Rightarrow> router_config \<Rightarrow> router_finding list" where
  "check_binding ipv6 c =
     (if rc_port c = 0
      then [blocking InvalidPort ''port 0 is not a valid bind port; set a port in 1-65535'' ''router.port'']
      else []) @
     (if \<not> is_valid_host ipv6 (rc_host c)
      then [blocking InvalidHost (''bind host `'' @ rc_host c @ ''` is not a valid host'') ''router.host'']
      else if rc_host c \<in> set public_hosts \<and> sg_mode (rc_storage c) = EmbeddedStorage
      then [advisory UnsafePublicBind (''binding `'' @ rc_host c @
              ''` in embedded mode exposes a local router to the network; bind 127.0.0.1 unless this is intentional'')
              ''router.host'']
      else [])"

subsection \<open>The other checks\<close>

definition check_storage :: "router_config \<Rightarrow> router_finding list" where
  "check_storage c =
     (case sg_mode (rc_storage c) of
        EmbeddedStorage \<Rightarrow>
          if sg_path (rc_storage c) = None
          then [blocking MissingStorageConfig ''embedded storage requires `storage.path`'' ''router.storage.path'']
          else []
      | RemoteStorage \<Rightarrow>
          if sg_url (rc_storage c) = None
          then [blocking MissingStorageConfig ''remote storage requires `storage.url`'' ''router.storage.url'']
          else []
      | MemoryStorage \<Rightarrow> [])"

definition check_auth :: "router_config \<Rightarrow> router_finding list" where
  "check_auth c =
     (if sg_mode (rc_storage c) = RemoteStorage \<and> ra_local_bootstrap_enabled (rc_auth c)
      then [blocking LocalBootstrapInRemote
              ''local_bootstrap_enabled must be false when storage.mode = remote; disable it or switch to embedded mode''
              ''router.auth.local_bootstrap_enabled'']
      else [])"

definition max_sane_timeout_ms :: nat where
  "max_sane_timeout_ms = 3600000"

definition check_timeout :: "string \<times> nat \<Rightarrow> router_finding list" where
  "check_timeout t =
     (case t of (field, value) \<Rightarrow>
        if value = 0 then [blocking InvalidTimeout (field @ '' must be greater than zero'') field]
        else if max_sane_timeout_ms < value
        then [advisory ExcessiveTimeout (field @ '' of '' @ show_nat value @ ''ms exceeds '' @
                show_nat max_sane_timeout_ms @ ''ms; check the unit'') field]
        else [])"

definition check_size :: "string \<times> nat \<Rightarrow> router_finding list" where
  "check_size t =
     (case t of (field, value) \<Rightarrow>
        if value = 0 then [blocking InvalidLimit (field @ '' must be greater than zero'') field] else [])"

definition check_limits :: "router_config \<Rightarrow> router_finding list" where
  "check_limits c =
     concat (map check_timeout
       [(''router.limits.request_timeout_ms'', li_request_timeout_ms (rc_limits c)),
        (''router.limits.provider_timeout_ms'', li_provider_timeout_ms (rc_limits c)),
        (''router.limits.tool_timeout_ms'', li_tool_timeout_ms (rc_limits c))]) @
     concat (map check_size
       [(''router.limits.max_request_body_bytes'', li_max_request_body_bytes (rc_limits c)),
        (''router.limits.max_context_bytes'', li_max_context_bytes (rc_limits c))])"

definition check_rate_limit :: "router_config \<Rightarrow> router_finding list" where
  "check_rate_limit c =
     (let r = rc_rate_limit c
      in if \<not> rl_enabled r then []
         else (if rl_period_ms r = 0
               then [blocking InvalidRateLimit
                       ''router.rate_limit.period_ms must be greater than zero when rate limiting is enabled''
                       ''router.rate_limit.period_ms'']
               else []) @
              (if rl_burst_size r = 0
               then [blocking InvalidRateLimit
                       ''router.rate_limit.burst_size must be greater than zero when rate limiting is enabled''
                       ''router.rate_limit.burst_size'']
               else []))"

definition check_cors :: "router_config \<Rightarrow> router_finding list" where
  "check_cors c =
     (if co_enabled (rc_cors c) \<and>
         (co_allowed_origins (rc_cors c) = [] \<or> list_ex (\<lambda>o'. o' = ''*'') (co_allowed_origins (rc_cors c)))
      then [blocking UnsafeCors
              ''CORS is enabled with unrestricted origins; list explicit origins in cors.allowed_origins''
              ''router.cors.allowed_origins'']
      else [])"

definition check_opentelemetry :: "router_config \<Rightarrow> router_finding list" where
  "check_opentelemetry c =
     (let otel = rc_otel c
      in if \<not> ot_enabled otel then []
         else (if trim_text (ot_endpoint otel) = []
               then [blocking InvalidOpenTelemetry
                       ''OpenTelemetry is enabled but the collector endpoint is empty; set opentelemetry.endpoint to your collector address''
                       ''router.opentelemetry.endpoint'']
               else []) @
              (if trim_text (ot_service_name otel) = []
               then [blocking InvalidOpenTelemetry
                       ''OpenTelemetry is enabled but the service name is empty; set opentelemetry.service_name''
                       ''router.opentelemetry.service_name'']
               else []) @
              (if \<not> (case ot_sample_ratio otel of None \<Rightarrow> False | Some r \<Rightarrow> 0 \<le> r \<and> r \<le> 1)
               then [blocking InvalidOpenTelemetry
                       ''opentelemetry.sample_ratio must be between 0.0 and 1.0 inclusive''
                       ''router.opentelemetry.sample_ratio'']
               else []))"

definition ignores_base_url :: "provider \<Rightarrow> bool" where
  "ignores_base_url p \<longleftrightarrow> p = Anthropic \<or> p = Gemini \<or> p = OpenAI"

definition check_providers :: "router_config \<Rightarrow> router_finding list" where
  "check_providers c =
     concat (map (\<lambda>(p, pc).
       if ignores_base_url p \<and> rp_base_url pc \<noteq> None
       then [advisory IgnoredProviderBaseUrl (''base_url is set for built-in provider `'' @ show_provider p @
               ''` but has no effect; use an openai-compat provider for a custom endpoint'')
               (''router.providers.'' @ show_provider p @ ''.base_url'')]
       else []) (rc_providers c))"

definition validate_router :: "(string \<Rightarrow> bool) \<Rightarrow> router_config \<Rightarrow> router_report" where
  "validate_router ipv6 c =
     foldl (\<lambda>r f. push_finding f r) empty_report
       (check_binding ipv6 c @ check_storage c @ check_auth c @ check_limits c @ check_rate_limit c @
        check_cors c @ check_opentelemetry c @ check_providers c)"

section \<open>What a valid configuration guarantees\<close>

lemma pushed:
  "foldl (\<lambda>r f. push_finding f r) r fs =
     r\<lparr>rr_errors := rr_errors r @ filter (\<lambda>f. rf_severity f = BlockingError) fs,
       rr_warnings := rr_warnings r @ filter (\<lambda>f. rf_severity f = AdvisoryWarning) fs\<rparr>"
  by (induction fs arbitrary: r) (simp_all add: push_finding_def split: finding_severity.split)

lemma not_blocking: "rf_severity f \<noteq> BlockingError \<longleftrightarrow> rf_severity f = AdvisoryWarning"
  by (cases "rf_severity f") simp_all

text \<open>No finding of a list blocks.\<close>

definition advisory_only :: "router_finding list \<Rightarrow> bool" where
  "advisory_only fs \<longleftrightarrow> (\<forall>f\<in>set fs. rf_severity f = AdvisoryWarning)"

lemma advisory_only_simps:
  "advisory_only []" "advisory_only (xs @ ys) \<longleftrightarrow> advisory_only xs \<and> advisory_only ys"
  "advisory_only (blocking c m l # xs) \<longleftrightarrow> False" "advisory_only (advisory c m l # xs) \<longleftrightarrow> advisory_only xs"
  "advisory_only (if b then xs else ys) \<longleftrightarrow> (if b then advisory_only xs else advisory_only ys)"
  by (auto simp: advisory_only_def)

lemma pushed_ok: "report_ok (foldl (\<lambda>r f. push_finding f r) empty_report fs) \<longleftrightarrow> advisory_only fs"
  by (simp add: pushed report_ok_def empty_report_def filter_empty_conv not_blocking advisory_only_def)

definition storage_present :: "storage_config \<Rightarrow> bool" where
  "storage_present s \<longleftrightarrow> (sg_mode s = EmbeddedStorage \<longrightarrow> sg_path s \<noteq> None) \<and>
     (sg_mode s = RemoteStorage \<longrightarrow> sg_url s \<noteq> None)"

lemma timeout_ok: "advisory_only (check_timeout (l, n)) \<longleftrightarrow> 0 < n"
  by (simp only: check_timeout_def prod.case advisory_only_simps split: if_split) simp

lemma size_ok: "advisory_only (check_size (l, n)) \<longleftrightarrow> 0 < n"
  by (simp only: check_size_def prod.case advisory_only_simps split: if_split) simp

lemma providers_only_warn: "advisory_only (check_providers c)"
  by (auto simp: check_providers_def advisory_only_def)

theorem valid_router_config:
  "report_ok (validate_router ipv6 c) \<longleftrightarrow>
     0 < rc_port c \<and> is_valid_host ipv6 (rc_host c) \<and> storage_present (rc_storage c) \<and>
     (sg_mode (rc_storage c) = RemoteStorage \<longrightarrow> \<not> ra_local_bootstrap_enabled (rc_auth c)) \<and>
     0 < li_request_timeout_ms (rc_limits c) \<and> 0 < li_provider_timeout_ms (rc_limits c) \<and>
     0 < li_tool_timeout_ms (rc_limits c) \<and> 0 < li_max_request_body_bytes (rc_limits c) \<and>
     0 < li_max_context_bytes (rc_limits c) \<and>
     (rl_enabled (rc_rate_limit c) \<longrightarrow> 0 < rl_period_ms (rc_rate_limit c) \<and> 0 < rl_burst_size (rc_rate_limit c)) \<and>
     (co_enabled (rc_cors c) \<longrightarrow> co_allowed_origins (rc_cors c) \<noteq> [] \<and> ''*'' \<notin> set (co_allowed_origins (rc_cors c))) \<and>
     (ot_enabled (rc_otel c) \<longrightarrow> trim_text (ot_endpoint (rc_otel c)) \<noteq> [] \<and>
        trim_text (ot_service_name (rc_otel c)) \<noteq> [] \<and>
        (\<exists>r. ot_sample_ratio (rc_otel c) = Some r \<and> 0 \<le> r \<and> r \<le> 1))"
proof -
  have binding: "advisory_only (check_binding ipv6 c) \<longleftrightarrow> 0 < rc_port c \<and> is_valid_host ipv6 (rc_host c)"
    by (simp only: check_binding_def advisory_only_simps split: if_split) auto
  have store: "advisory_only (check_storage c) \<longleftrightarrow> storage_present (rc_storage c)"
    by (cases "sg_mode (rc_storage c)") (simp_all add: check_storage_def storage_present_def advisory_only_simps)
  have auth: "advisory_only (check_auth c) \<longleftrightarrow> (sg_mode (rc_storage c) = RemoteStorage \<longrightarrow> \<not> ra_local_bootstrap_enabled (rc_auth c))"
    by (simp only: check_auth_def advisory_only_simps split: if_split) auto
  have limits: "advisory_only (check_limits c) \<longleftrightarrow>
      0 < li_request_timeout_ms (rc_limits c) \<and> 0 < li_provider_timeout_ms (rc_limits c) \<and>
      0 < li_tool_timeout_ms (rc_limits c) \<and> 0 < li_max_request_body_bytes (rc_limits c) \<and>
      0 < li_max_context_bytes (rc_limits c)"
    by (simp add: check_limits_def advisory_only_simps timeout_ok size_ok)
  have rate: "advisory_only (check_rate_limit c) \<longleftrightarrow>
      (rl_enabled (rc_rate_limit c) \<longrightarrow> 0 < rl_period_ms (rc_rate_limit c) \<and> 0 < rl_burst_size (rc_rate_limit c))"
    by (simp only: check_rate_limit_def Let_def advisory_only_simps split: if_split) auto
  have cors: "advisory_only (check_cors c) \<longleftrightarrow> (co_enabled (rc_cors c) \<longrightarrow>
      co_allowed_origins (rc_cors c) \<noteq> [] \<and> ''*'' \<notin> set (co_allowed_origins (rc_cors c)))"
    by (simp only: check_cors_def advisory_only_simps list_ex_iff split: if_split) auto
  have otel: "advisory_only (check_opentelemetry c) \<longleftrightarrow> (ot_enabled (rc_otel c) \<longrightarrow> trim_text (ot_endpoint (rc_otel c)) \<noteq> [] \<and>
        trim_text (ot_service_name (rc_otel c)) \<noteq> [] \<and>
        (\<exists>r. ot_sample_ratio (rc_otel c) = Some r \<and> 0 \<le> r \<and> r \<le> 1))"
    by (cases "ot_sample_ratio (rc_otel c)")
      (simp_all only: check_opentelemetry_def Let_def advisory_only_simps option.case split: if_split, auto)
  show ?thesis
    unfolding validate_router_def pushed_ok advisory_only_simps binding store auth limits rate cors otel
    using providers_only_warn [of c] by blast
qed

text \<open>The default configuration starts whenever the global directory resolves, and only then.\<close>

lemma default_host_valid: "is_valid_host ipv6 ''127.0.0.1''"
proof -
  have "is_ipv4 ''127.0.0.1''"
    by (simp add: is_ipv4_def is_octet_def decimal_def is_ascii_digit_def code_def Let_def)
  then show ?thesis
    by (simp add: is_valid_host_def is_ip_def trim_text_def trim_start_def is_whitespace_def code_def)
qed

theorem default_config_starts:
  "report_ok (validate_router ipv6 (default_router_config db_path)) \<longleftrightarrow> db_path \<noteq> None"
  unfolding valid_router_config
  by (simp add: default_router_config_def default_host_valid storage_present_def default_storage_config_def
      default_limits_def default_rate_limit_def default_cors_def default_otel_def)

end
