(* ===== verification/Provider_Router.thy ===== *)
theory Provider_Router
  imports Router_Config Invoke Redaction "HOL-Library.AList"
begin

text \<open>
  The providers of a router (\<^verbatim>\<open>smista-router/src/router.rs\<close>): built from the configuration
  (\<^verbatim>\<open>router/build.rs\<close>), looked up, listed, and asked for their models
  (\<^verbatim>\<open>router/fetch_models.rs\<close>).  What an adapter answers is an argument here;
  \<open>Provider_Catalog\<close> models the adapters themselves.  The lemmas show that every configuration
  builds, which providers it registers, that every provider is asked with its own credential and
  accounted for, and that Ollama is the one provider that can be registered twice, where lookup
  and listing disagree.
\<close>

section \<open>Adapters\<close>

record provider_descriptor =
  pd_id :: provider
  pd_display_name :: string
  pd_local :: bool

datatype ollama_endpoint = LocalEndpoint string | CloudEndpoint string

datatype endpoint = FixedEndpoint | OllamaAt ollama_endpoint | CompatEndpoint string

record adapter =
  ad_descriptor :: provider_descriptor
  ad_endpoint :: endpoint
  ad_models :: "(model_reference \<times> model_descriptor) list"

definition fixed_adapter :: "provider \<Rightarrow> string \<Rightarrow> adapter" where
  "fixed_adapter p name =
     \<lparr>ad_descriptor = \<lparr>pd_id = p, pd_display_name = name, pd_local = False\<rparr>,
      ad_endpoint = FixedEndpoint, ad_models = []\<rparr>"

fun endpoint_is_local :: "ollama_endpoint \<Rightarrow> bool" where
  "endpoint_is_local (LocalEndpoint _) = True"
| "endpoint_is_local (CloudEndpoint _) = False"

definition ollama_adapter :: "ollama_endpoint \<Rightarrow> adapter" where
  "ollama_adapter e =
     \<lparr>ad_descriptor = \<lparr>pd_id = Ollama, pd_display_name = ''Ollama'', pd_local = endpoint_is_local e\<rparr>,
      ad_endpoint = OllamaAt e, ad_models = []\<rparr>"

definition ollama_cloud_url :: string where
  "ollama_cloud_url = ''https://ollama.com''"

section \<open>Building (\<^verbatim>\<open>build.rs\<close>)\<close>

type_synonym adapters = "(provider \<times> adapter) list"

record router =
  ro_local :: adapters
  ro_remote :: adapters

definition with_local :: "provider \<Rightarrow> adapter \<Rightarrow> router \<Rightarrow> router" where
  "with_local p a r = r\<lparr>ro_local := AList.update p a (ro_local r)\<rparr>"

definition with_remote :: "provider \<Rightarrow> adapter \<Rightarrow> router \<Rightarrow> router" where
  "with_remote p a r = r\<lparr>ro_remote := AList.update p a (ro_remote r)\<rparr>"

text \<open>
  \<open>OpenAICompatProvider::new\<close> refuses an instance one of whose models disagrees with its
  locality. The models are a \<open>HashMap\<close>: of two models with one reference the later stays.
\<close>

definition openai_compat_new ::
  "provider \<Rightarrow> string \<Rightarrow> bool \<Rightarrow> string \<Rightarrow> (model_reference \<times> model_descriptor) list \<Rightarrow>
   (provider_error, adapter) result" where
  "openai_compat_new p display_name is_local url models =
     (case List.find (\<lambda>(reference, d). md_local d \<noteq> is_local) models of
        Some (reference, d) \<Rightarrow>
          Err (provider_error_of InvalidConfiguration p (Some (mr_model reference))
            (''model '' @ backtick # mr_model reference @ backtick # '' has local='' @
             (if is_local then ''false'' else ''true'') @ '' but OpenAI-compatible instance '' @
             backtick # show_provider p @ backtick # '' is configured local='' @
             (if is_local then ''true'' else ''false'')))
      | None \<Rightarrow>
          Ok \<lparr>ad_descriptor = \<lparr>pd_id = p, pd_display_name = display_name, pd_local = is_local\<rparr>,
              ad_endpoint = CompatEndpoint url, ad_models = models\<rparr>)"

definition with_openai_compat_provider ::
  "string \<Rightarrow> router_provider_config \<Rightarrow> router \<Rightarrow> (provider_error, router) result" where
  "with_openai_compat_provider name pc r =
     (case rp_base_url pc of
        None \<Rightarrow> Ok r
      | Some url \<Rightarrow>
          (let p = OpenAICompatible name;
               is_local = rp_local pc;
               display_name = (case rp_display_name pc of Some n \<Rightarrow> n | None \<Rightarrow> name);
               models = foldl (\<lambda>ms m. let d = to_descriptor m p is_local
                                      in AList.update (descriptor_reference d) d ms) [] (rp_models pc)
           in case openai_compat_new p display_name is_local url models of
                Inl e \<Rightarrow> Err e
              | Inr a \<Rightarrow> Ok (if is_local then with_local p a r else with_remote p a r)))"

fun with_configured_provider ::
  "provider \<Rightarrow> router_provider_config \<Rightarrow> router \<Rightarrow> (provider_error, router) result" where
  "with_configured_provider Anthropic pc r = Ok (with_remote Anthropic (fixed_adapter Anthropic ''Anthropic'') r)"
| "with_configured_provider Gemini pc r = Ok (with_remote Gemini (fixed_adapter Gemini ''Gemini'') r)"
| "with_configured_provider OpenAI pc r = Ok (with_remote OpenAI (fixed_adapter OpenAI ''OpenAI'') r)"
| "with_configured_provider Ollama pc r =
     Ok (with_remote Ollama (ollama_adapter (CloudEndpoint
          (case rp_base_url pc of Some url \<Rightarrow> url | None \<Rightarrow> ollama_cloud_url))) r)"
| "with_configured_provider (OpenAICompatible name) pc r = with_openai_compat_provider name pc r"

fun with_configured ::
  "(provider \<times> router_provider_config) list \<Rightarrow> router \<Rightarrow> (provider_error, router) result" where
  "with_configured [] r = Ok r"
| "with_configured ((p, pc) # rest) r =
     (case with_configured_provider p pc r of
        Inl e \<Rightarrow> Err e
      | Inr r' \<Rightarrow> with_configured rest r')"

definition build_providers ::
  "router_config \<Rightarrow> (provider_error, router) result" where
  "build_providers c =
     (let empty = \<lparr>ro_local = [], ro_remote = []\<rparr>;
          start = (if oc_enabled (rc_ollama c)
                   then with_local Ollama (ollama_adapter (LocalEndpoint (oc_base_url (rc_ollama c)))) empty
                   else empty)
      in with_configured (rc_providers c) start)"

section \<open>Lookup and listing (\<^verbatim>\<open>router.rs\<close>)\<close>

definition list_providers :: "router \<Rightarrow> (provider \<times> provider_descriptor) list" where
  "list_providers r =
     foldl (\<lambda>m (p, a). AList.update p (ad_descriptor a) m) [] (ro_local r @ ro_remote r)"

definition lookup_provider :: "router \<Rightarrow> provider \<Rightarrow> adapter option" where
  "lookup_provider r p =
     (case map_of (ro_local r) p of Some a \<Rightarrow> Some a | None \<Rightarrow> map_of (ro_remote r) p)"

section \<open>Models (\<^verbatim>\<open>fetch_models.rs\<close>)\<close>

text \<open>How the task of one provider ends.\<close>

datatype listing = Listed "(model_reference \<times> model_descriptor) list" | ListFailed provider_error
  | ListTimedOut | ListPanicked string

record fetch_result =
  fr_models :: "(model_reference \<times> model_descriptor) list"
  fr_failed :: "(provider \<times> provider_error) list"

definition spawn_listings ::
  "(adapter \<Rightarrow> authentication \<Rightarrow> listing) \<Rightarrow> credentials \<Rightarrow> router \<Rightarrow> (provider \<times> listing) list" where
  "spawn_listings answer creds r =
     foldl (\<lambda>m (p, a). AList.update p (answer a (authenticate p creds)) m) [] (ro_local r @ ro_remote r)"

definition settle_listing :: "string \<Rightarrow> fetch_result \<Rightarrow> provider \<times> listing \<Rightarrow> fetch_result" where
  "settle_listing timeout_text res l =
     (case l of (p, outcome) \<Rightarrow>
        (case outcome of
           Listed models \<Rightarrow>
             res\<lparr>fr_models := foldl (\<lambda>m (reference, d). AList.update reference d m) (fr_models res) models\<rparr>
         | ListFailed e \<Rightarrow> res\<lparr>fr_failed := AList.update p e (fr_failed res)\<rparr>
         | ListTimedOut \<Rightarrow>
             res\<lparr>fr_failed := AList.update p \<lparr>pe_category = Timeout,
               pe_message = ''provider timed out after '' @ timeout_text, pe_provider = p, pe_model = None\<rparr>
               (fr_failed res)\<rparr>
         | ListPanicked e \<Rightarrow>
             res\<lparr>fr_failed := AList.update p \<lparr>pe_category = Unknown,
               pe_message = ''provider task panicked: '' @ e, pe_provider = p, pe_model = None\<rparr>
               (fr_failed res)\<rparr>))"

definition fetch_models ::
  "(adapter \<Rightarrow> authentication \<Rightarrow> listing) \<Rightarrow> string \<Rightarrow> credentials \<Rightarrow> router \<Rightarrow> fetch_result" where
  "fetch_models answer timeout_text creds r =
     foldl (settle_listing timeout_text) \<lparr>fr_models = [], fr_failed = []\<rparr> (spawn_listings answer creds r)"

section \<open>Lemmas\<close>

lemma foldl_update_get:
  "map_of (foldl (\<lambda>m (k, v). AList.update k (f k v) m) m kvs) =
   map_of m ++ map_of (rev (map (\<lambda>(k, v). (k, f k v)) kvs))"
  by (induction kvs arbitrary: m) (auto simp: update_conv' map_add_def fun_eq_iff split: option.split)

lemma foldl_update_distinct:
  "distinct (map fst m) \<Longrightarrow> distinct (map fst (foldl (\<lambda>m (k, v). AList.update k (f k v) m) m kvs))"
  by (induction kvs arbitrary: m) (auto simp: distinct_update)

definition router_wf :: "router \<Rightarrow> bool" where
  "router_wf r \<longleftrightarrow> distinct (map fst (ro_local r)) \<and> distinct (map fst (ro_remote r))"

lemma map_of_rev: "distinct (map fst xs) \<Longrightarrow> map_of (rev xs) = map_of xs"
  by (intro map_of_inject_set [THEN iffD2]) (simp_all add: rev_map [symmetric])

text \<open>The adapter that is listed: a remote one takes the place of a local one.\<close>

definition listed_adapter :: "router \<Rightarrow> provider \<Rightarrow> adapter option" where
  "listed_adapter r p =
     (case map_of (ro_remote r) p of Some a \<Rightarrow> Some a | None \<Rightarrow> map_of (ro_local r) p)"

lemma map_of_both:
  assumes "router_wf r"
  shows "map_of (rev (map (\<lambda>(p, a). (p, f p a)) (ro_local r @ ro_remote r))) p =
    map_option (f p) (listed_adapter r p)"
proof -
  have keyed: "map_of (map (\<lambda>(p, a). (p, f p a)) xs) q = map_option (f q) (map_of xs q)" for xs q
    by (induction xs) auto
  have "distinct (map fst (map (\<lambda>(p, a). (p, f p a)) xs))" if "distinct (map fst xs)" for xs
    using that by (simp add: case_prod_unfold comp_def)
  then have "map_of (rev (map (\<lambda>(p, a). (p, f p a)) xs)) q = map_option (f q) (map_of xs q)"
    if "distinct (map fst xs)" for xs q
    using that by (simp add: map_of_rev keyed)
  with assms show ?thesis
    by (simp add: router_wf_def listed_adapter_def map_add_def split: option.split)
qed

lemma list_providers_get:
  "router_wf r \<Longrightarrow> map_of (list_providers r) p = map_option ad_descriptor (listed_adapter r p)"
  unfolding list_providers_def foldl_update_get by (simp only: map_of.simps empty_map_add map_of_both)

lemma spawned_get:
  "router_wf r \<Longrightarrow> map_of (spawn_listings answer creds r) p =
     map_option (\<lambda>a. answer a (authenticate p creds)) (listed_adapter r p)"
  unfolding spawn_listings_def foldl_update_get by (simp only: map_of.simps empty_map_add map_of_both)

lemma spawned_distinct: "distinct (map fst (spawn_listings answer creds r))"
  unfolding spawn_listings_def by (rule foldl_update_distinct) simp

lemma settled_failed:
  "map_of (fr_failed (settle_listing t res (p, l))) q =
     (if q = p \<and> (\<forall>ms. l \<noteq> Listed ms) then Some (case l of
        ListFailed e \<Rightarrow> e
      | ListTimedOut \<Rightarrow> \<lparr>pe_category = Timeout, pe_message = ''provider timed out after '' @ t, pe_provider = p, pe_model = None\<rparr>
      | ListPanicked e \<Rightarrow> \<lparr>pe_category = Unknown, pe_message = ''provider task panicked: '' @ e, pe_provider = p, pe_model = None\<rparr>)
      else map_of (fr_failed res) q)"
  by (cases l) (auto simp: settle_listing_def update_conv')

lemma settle_models:
  "dom (map_of (fr_models (settle_listing t res (p, l)))) =
   dom (map_of (fr_models res)) \<union> (case l of Listed ms \<Rightarrow> fst ` set ms | _ \<Rightarrow> {})"
proof -
  have "dom (map_of (foldl (\<lambda>m (k, v). AList.update k v m) m kvs)) = dom (map_of m) \<union> fst ` set kvs" for m kvs
    by (induction kvs arbitrary: m) (auto simp: update_conv')
  then show ?thesis by (cases l) (simp_all add: settle_listing_def)
qed

lemma settle_all:
  "distinct (map fst ls) \<Longrightarrow>
   (q \<in> dom (map_of (fr_failed (foldl (settle_listing t) res ls))) \<longleftrightarrow>
     q \<in> dom (map_of (fr_failed res)) \<or> (\<exists>l. (q, l) \<in> set ls \<and> (\<forall>ms. l \<noteq> Listed ms))) \<and>
   dom (map_of (fr_models (foldl (settle_listing t) res ls))) =
     dom (map_of (fr_models res)) \<union> (\<Union>(p, l)\<in>set ls. case l of Listed ms \<Rightarrow> fst ` set ms | _ \<Rightarrow> {})"
proof (induction ls arbitrary: res)
  case (Cons pl ls)
  obtain p l where pl: "pl = (p, l)" by (cases pl)
  then have "distinct (map fst ls)" using Cons.prems by simp
  note IH = Cons.IH [OF this, of "settle_listing t res pl"]
  have "q \<in> dom (map_of (fr_failed (settle_listing t res pl))) \<longleftrightarrow>
      q \<in> dom (map_of (fr_failed res)) \<or> (q = p \<and> (\<forall>ms. l \<noteq> Listed ms))"
    unfolding pl domIff settled_failed by auto
  with IH show ?case unfolding pl by (auto simp: settle_models pl)
qed simp

text \<open>Every registered provider is asked once, with its own credential, and is accounted for.\<close>

theorem every_provider_accounted:
  fixes answer :: "adapter \<Rightarrow> authentication \<Rightarrow> listing" and t :: string and creds :: credentials
  assumes "router_wf r" "listed_adapter r p = Some a"
  defines "res \<equiv> fetch_models answer t creds r"
  shows "(case answer a (authenticate p creds) of
      Listed ms \<Rightarrow> fst ` set ms \<subseteq> dom (map_of (fr_models res)) \<and> p \<notin> dom (map_of (fr_failed res))
    | _ \<Rightarrow> p \<in> dom (map_of (fr_failed res)))"
proof -
  let ?ls = "spawn_listings answer creds r"
  have mine: "map_of ?ls p = Some (answer a (authenticate p creds))"
    using assms(1,2) by (simp add: spawned_get)
  then have elem: "(p, answer a (authenticate p creds)) \<in> set ?ls" by (rule map_of_SomeD)
  have only: "l = answer a (authenticate p creds)" if "(p, l) \<in> set ?ls" for l
    using that spawned_distinct mine map_of_is_SomeI [of ?ls p l] by simp
  note all = settle_all [OF spawned_distinct [of answer creds r], of p t "\<lparr>fr_models = [], fr_failed = []\<rparr>"]
  have "p \<in> dom (map_of (fr_failed res)) \<longleftrightarrow> (\<exists>l. (p, l) \<in> set ?ls \<and> (\<forall>ms. l \<noteq> Listed ms))"
    using all [THEN conjunct1] by (simp add: res_def fetch_models_def)
  then have failed: "p \<in> dom (map_of (fr_failed res)) \<longleftrightarrow> (\<forall>ms. answer a (authenticate p creds) \<noteq> Listed ms)"
    using elem only by metis
  have models: "dom (map_of (fr_models res)) =
      (\<Union>(p, l)\<in>set ?ls. case l of Listed ms \<Rightarrow> fst ` set ms | _ \<Rightarrow> {})"
    using all [THEN conjunct2] by (simp add: res_def fetch_models_def)
  have "fst ` set ms \<subseteq> dom (map_of (fr_models res))" if "answer a (authenticate p creds) = Listed ms" for ms
  proof
    fix k assume "k \<in> fst ` set ms"
    then show "k \<in> dom (map_of (fr_models res))"
      unfolding models by (intro UN_I [OF elem]) (simp only: that prod.case listing.case)
  qed
  then show ?thesis using failed by (cases "answer a (authenticate p creds)") simp_all
qed

subsection \<open>Every configuration builds\<close>

text \<open>The descriptors are stamped with the locality of the instance, so no instance is refused.\<close>

lemma stamped_models:
  "\<forall>(k, d)\<in>set ms. md_local d = l \<Longrightarrow>
   \<forall>(k, d)\<in>set (foldl (\<lambda>ms m. let d = to_descriptor m p l in AList.update (descriptor_reference d) d ms) ms mcs).
     md_local d = l"
proof (induction mcs arbitrary: ms)
  case (Cons m mcs)
  have update: "set (AList.update k d xs) \<subseteq> insert (k, d) (set xs)" for k and d :: model_descriptor and xs
    by (induction xs) auto
  have "\<forall>(k, d)\<in>set (AList.update (descriptor_reference (to_descriptor m p l)) (to_descriptor m p l) ms). md_local d = l"
    using Cons.prems update [of "descriptor_reference (to_descriptor m p l)" "to_descriptor m p l" ms]
    by (auto simp: to_descriptor_def)
  from Cons.IH [OF this] show ?case by (simp add: Let_def)
qed simp

lemma compat_instance_built: "\<exists>r'. with_openai_compat_provider name pc r = Ok r'"
proof (cases "rp_base_url pc")
  case (Some url)
  let ?ms = "foldl (\<lambda>ms m. let d = to_descriptor m (OpenAICompatible name) (rp_local pc)
      in AList.update (descriptor_reference d) d ms) [] (rp_models pc)"
  have "List.find (\<lambda>(reference, d). md_local d \<noteq> rp_local pc) ?ms = None"
    using stamped_models [of "[]" "rp_local pc" "OpenAICompatible name" "rp_models pc"]
    by (auto simp: find_None_iff)
  with Some show ?thesis
    by (simp add: with_openai_compat_provider_def openai_compat_new_def Let_def)
qed (simp add: with_openai_compat_provider_def)

lemma provider_built: "\<exists>r'. with_configured_provider p pc r = Ok r'"
  using compat_instance_built by (cases p) auto

theorem every_configuration_builds: "\<exists>r. build_providers c = Ok r"
proof -
  have "\<exists>r'. with_configured pcs r = Ok r'" for pcs r
  proof (induction pcs arbitrary: r)
    case (Cons x pcs)
    obtain p pc where x: "x = (p, pc)" by (cases x)
    obtain r1 where "with_configured_provider p pc r = Ok r1" using provider_built by blast
    with Cons.IH [of r1] show ?case by (simp add: x)
  qed simp
  then show ?thesis by (simp add: build_providers_def Let_def)
qed

subsection \<open>Who is registered\<close>

lemma registered_step:
  assumes "with_configured_provider p pc r = Ok r'"
  shows "(router_wf r \<longrightarrow> router_wf r') \<and>
    (\<forall>q. q \<noteq> p \<longrightarrow> map_of (ro_local r') q = map_of (ro_local r) q \<and> map_of (ro_remote r') q = map_of (ro_remote r) q) \<and>
    (p \<noteq> Ollama \<longrightarrow> map_of (ro_local r) p = None \<longrightarrow> map_of (ro_remote r) p = None \<longrightarrow>
       map_of (ro_local r') p = None \<or> map_of (ro_remote r') p = None)"
proof (cases p)
  case (OpenAICompatible name)
  with assms show ?thesis
    by (auto simp: with_openai_compat_provider_def with_local_def with_remote_def router_wf_def distinct_update
        update_conv' Let_def split: option.splits sum.splits if_splits)
qed (use assms in \<open>auto simp: with_remote_def router_wf_def distinct_update update_conv'\<close>)

lemma registered_all:
  assumes "with_configured pcs r = Ok r'" "distinct (map fst pcs)" "router_wf r"
    and "\<forall>p\<in>fst ` set pcs. p \<noteq> Ollama \<longrightarrow> map_of (ro_local r) p = None \<and> map_of (ro_remote r) p = None"
    and "\<forall>p. p \<noteq> Ollama \<longrightarrow> map_of (ro_local r) p = None \<or> map_of (ro_remote r) p = None"
  shows "router_wf r' \<and> (\<forall>p. p \<noteq> Ollama \<longrightarrow> map_of (ro_local r') p = None \<or> map_of (ro_remote r') p = None)"
  using assms
proof (induction pcs arbitrary: r)
  case (Cons x pcs)
  obtain p pc where x: "x = (p, pc)" by (cases x)
  with Cons.prems(1) obtain r1 where r1: "with_configured_provider p pc r = Ok r1" "with_configured pcs r1 = Ok r'"
    by (auto split: sum.splits)
  note step = registered_step [OF r1(1)]
  have fresh: "q \<noteq> p" if "q \<in> fst ` set pcs" for q using that Cons.prems(2) x by auto
  show ?case
  proof (rule Cons.IH [OF r1(2)])
    show "distinct (map fst pcs)" "router_wf r1" using Cons.prems(2,3) x step by auto
    show "\<forall>q\<in>fst ` set pcs. q \<noteq> Ollama \<longrightarrow> map_of (ro_local r1) q = None \<and> map_of (ro_remote r1) q = None"
      using Cons.prems(4) x step fresh by simp
    show "\<forall>q. q \<noteq> Ollama \<longrightarrow> map_of (ro_local r1) q = None \<or> map_of (ro_remote r1) q = None"
    proof (intro allI impI)
      fix q assume "q \<noteq> Ollama"
      then show "map_of (ro_local r1) q = None \<or> map_of (ro_remote r1) q = None"
        using step Cons.prems(4,5) x by (cases "q = p") auto
    qed
  qed
qed simp

theorem only_ollama_twice:
  assumes "build_providers c = Ok r" "distinct (map fst (rc_providers c))"
  shows "router_wf r \<and> (p \<noteq> Ollama \<longrightarrow> listed_adapter r p = lookup_provider r p)"
proof -
  have "router_wf r \<and> (\<forall>p. p \<noteq> Ollama \<longrightarrow> map_of (ro_local r) p = None \<or> map_of (ro_remote r) p = None)"
    using assms(1) unfolding build_providers_def Let_def
    by (rule registered_all) (use assms(2) in \<open>auto simp: with_local_def router_wf_def\<close>)
  then show ?thesis
    by (auto simp: listed_adapter_def lookup_provider_def split: option.split)
qed

text \<open>With the daemon enabled beside the default providers, the local Ollama is the one invoked and
  the cloud one is the one listed.\<close>

lemma local_ollama_hidden:
  assumes "rc_ollama c = \<lparr>oc_enabled = True, oc_base_url = url\<rparr>" "rc_providers c = default_providers"
  shows "\<exists>r. build_providers c = Ok r \<and>
    lookup_provider r Ollama = Some (ollama_adapter (LocalEndpoint url)) \<and>
    listed_adapter r Ollama = Some (ollama_adapter (CloudEndpoint ollama_cloud_url)) \<and>
    map_of (list_providers r) Ollama = Some \<lparr>pd_id = Ollama, pd_display_name = ''Ollama'', pd_local = False\<rparr>"
proof -
  obtain r where r: "build_providers c = Ok r"
    "lookup_provider r Ollama = Some (ollama_adapter (LocalEndpoint url))"
    "listed_adapter r Ollama = Some (ollama_adapter (CloudEndpoint ollama_cloud_url))"
    using assms
    by (simp add: build_providers_def default_providers_def with_local_def with_remote_def
        default_provider_config_def lookup_provider_def listed_adapter_def)
  moreover have "router_wf r"
    using only_ollama_twice [OF r(1)] assms(2) by (simp add: default_providers_def)
  ultimately show ?thesis by (simp add: list_providers_get ollama_adapter_def)
qed

end
