(* ===== verification/Session_Handle.thy ===== *)
theory Session_Handle
  imports Tenancy
begin

text \<open>
  The handle through which a run reaches the database (\<^verbatim>\<open>smista-router/src/session.rs\<close>, with the
  tracer of \<^verbatim>\<open>smista-router/src/trace.rs\<close> and the memory storage of
  \<^verbatim>\<open>smista-router/src/router/memory_storage.rs\<close>): every method passes the call on to the storage
  with the user and the session the handle is bound to.

  An orchestrator call is a \<open>program\<close> of such method calls, each chosen by the replies to the
  ones before; \<open>Run_Machine\<close> models what the program computes, over the rows of its own session.
  The lemma at the end shows that a program is a run of its user alone.
\<close>

section \<open>Methods\<close>

text \<open>
  The entity a method takes names its table; a run state and a run input are stored under the id
  of their session. The time of a status change is the storage's own.
\<close>

datatype session_call =
    ReadSession
  | ReadMessages
  | ReadRunState
  | ReadRunInput
  | ReadTraceContent
  | ReadContextMemory
  | ReadUserMemory
  | ReadContent child_table string
  | UpdateSession session_entity
  | DeleteSession
  | SetRunInput child_row content_row
  | SetRunState child_row
  | AcquireRunLock child_row
  | AppendMessage child_row content_row
  | AppendRoutingDecision child_row
  | AppendContextReference child_row
  | AppendToolCall child_row content_row
  | AppendPlan child_row content_row
  | AppendDiff child_row content_row
  | AppendApproval child_row
  | AppendTraceEvent child_row content_row
  | SetPlanStatus nat string plan_status
  | SetDiffStatus nat string diff_status
  | SetToolCallOutcome nat string tool_call_status "secret_content option" "secret_content option"
  | SetContent child_table string secret_content
  | PutUserMemory user_memory string
  | ForgetUserMemory string
  | PutSessionMemory child_row secret_content
  | ForgetSessionMemory string

datatype session_reply =
    SessionReply "session_entity option"
  | RowReply "child_row option"
  | RowContentReply "(child_row \<times> content_row) option"
  | RowsReply "(child_row \<times> content_row) list"
  | MemoriesReply "(user_memory \<times> string) list"
  | MemoryReply user_memory
  | ContentReply "secret_content option"
  | DoneReply

definition in_table :: "child_table \<Rightarrow> child_row \<Rightarrow> child_row" where
  "in_table t row = row\<lparr>ch_table := t\<rparr>"

definition by_session :: "child_table \<Rightarrow> child_row \<Rightarrow> child_row" where
  "by_session t row = row\<lparr>ch_table := t, ch_id := ch_session row\<rparr>"

definition get_run_state_row :: "string \<Rightarrow> string \<Rightarrow> database \<Rightarrow> child_row option" where
  "get_run_state_row user session d = read_row RunStateTable user session d"

definition get_run_input_row :: "string \<Rightarrow> string \<Rightarrow> database \<Rightarrow> (child_row \<times> content_row) option" where
  "get_run_input_row user session d =
     (case read_row RunInputTable user session d of
        None \<Rightarrow> None
      | Some row \<Rightarrow> map_option (Pair row) (db_contents d (RunInputTable, session)))"

definition replied :: "('a \<Rightarrow> session_reply) \<Rightarrow> (storage_error, 'a) result \<times> database \<Rightarrow>
    (session_error, session_reply) result \<times> database" where
  "replied f outcome = (case outcome of (r, d) \<Rightarrow>
     (case r of Inl e \<Rightarrow> Err (DatabaseError e) | Inr a \<Rightarrow> Ok (f a), d))"

text \<open>The memory storage forgets a handle that is not there without complaint.\<close>

definition missing_ignored :: "(storage_error, unit) result \<times> database \<Rightarrow> (storage_error, unit) result \<times> database" where
  "missing_ignored outcome = (if fst outcome = Err RecordNotFound then (Ok (), snd outcome) else outcome)"

fun session_method ::
  "string \<Rightarrow> string \<Rightarrow> session_call \<Rightarrow> database \<Rightarrow> (session_error, session_reply) result \<times> database" where
  "session_method user session ReadSession d = (Ok (SessionReply (get_session user session d)), d)"
| "session_method user session ReadMessages d = (Ok (RowsReply (list_messages_with_content user session d)), d)"
| "session_method user session ReadRunState d = (Ok (RowReply (get_run_state_row user session d)), d)"
| "session_method user session ReadRunInput d = (Ok (RowContentReply (get_run_input_row user session d)), d)"
| "session_method user session ReadTraceContent d = (Ok (RowsReply (list_session_trace_content user session d)), d)"
| "session_method user session ReadContextMemory d = (Ok (RowsReply (list_context_memory_with_content user session d)), d)"
| "session_method user session ReadUserMemory d = (Ok (MemoriesReply (list_user_memory_with_content user d)), d)"
| "session_method user session (ReadContent t i) d = replied ContentReply (read_content user t i d, d)"
| "session_method user session (UpdateSession s) d = replied (\<lambda>s. SessionReply (Some s)) (update_session user s d)"
| "session_method user session DeleteSession d = replied (\<lambda>_. DoneReply) (delete_session user session d)"
| "session_method user session (SetRunInput row c) d =
     replied (\<lambda>r. RowReply (Some r)) (put_run_input user (by_session RunInputTable row) c d)"
| "session_method user session (SetRunState row) d =
     replied (\<lambda>r. RowReply (Some r)) (put_run_state user (by_session RunStateTable row) d)"
| "session_method user session (AcquireRunLock row) d =
     replied RowReply (take_run_lock user (by_session RunStateTable row) d)"
| "session_method user session (AppendMessage row c) d =
     replied (\<lambda>r. RowReply (Some r)) (append_row user (in_table MessageTable row) (Some c) d)"
| "session_method user session (AppendRoutingDecision row) d =
     replied (\<lambda>r. RowReply (Some r)) (append_row user (in_table RoutingTable row) None d)"
| "session_method user session (AppendContextReference row) d =
     replied (\<lambda>r. RowReply (Some r)) (append_row user (in_table ReferenceTable row) None d)"
| "session_method user session (AppendToolCall row c) d =
     replied (\<lambda>r. RowReply (Some r)) (append_row user (in_table ToolCallTable row) (Some c) d)"
| "session_method user session (AppendPlan row c) d =
     replied (\<lambda>r. RowReply (Some r)) (append_row user (in_table PlanTable row) (Some c) d)"
| "session_method user session (AppendDiff row c) d =
     replied (\<lambda>r. RowReply (Some r)) (append_row user (in_table DiffTable row) (Some c) d)"
| "session_method user session (AppendApproval row) d =
     replied (\<lambda>r. RowReply (Some r)) (append_row user (in_table ApprovalTable row) None d)"
| "session_method user session (AppendTraceEvent row c) d =
     replied (\<lambda>r. RowReply (Some r)) (append_row user
       ((in_table TraceTable row)\<lparr>ch_session := session, ch_user := user\<rparr>) (Some c) d)"
| "session_method user session (SetPlanStatus now i status) d =
     replied (\<lambda>r. RowReply (Some r)) (change_plan_status now user i status d)"
| "session_method user session (SetDiffStatus now i status) d =
     replied (\<lambda>r. RowReply (Some r)) (change_diff_status now user i status d)"
| "session_method user session (SetToolCallOutcome now i status res failure) d =
     replied (\<lambda>r. RowReply (Some r)) (change_tool_call_outcome now user i status res failure d)"
| "session_method user session (SetContent t i c) d = replied (\<lambda>_. DoneReply) (put_content user t i c d)"
| "session_method user session (PutUserMemory m c) d =
     replied MemoryReply (record_user_memory user (m\<lparr>um_user := user\<rparr>) c d)"
| "session_method user session (ForgetUserMemory i) d = replied (\<lambda>_. DoneReply) (missing_ignored (forget_user_memory user i d))"
| "session_method user session (PutSessionMemory row c) d =
     replied (\<lambda>r. RowReply (Some r)) (record_context_memory user
       ((in_table ContextMemoryTable row)\<lparr>ch_session := session, ch_user := user\<rparr>) c d)"
| "session_method user session (ForgetSessionMemory i) d =
     replied (\<lambda>_. DoneReply) (missing_ignored (forget_context_memory user session i d))"

text \<open>\<open>Sessions::open\<close>: a session that is absent or another user's gives no handle.\<close>

definition open_handle :: "string \<Rightarrow> string \<Rightarrow> database \<Rightarrow> (session_error, unit) result" where
  "open_handle user session d = (if get_session user session d = None then Err SessionNotFound else Ok ())"

section \<open>Programs\<close>

datatype 'a program = Return 'a
  | Call session_call "(session_error, session_reply) result \<Rightarrow> 'a program"

primrec run_program :: "string \<Rightarrow> string \<Rightarrow> 'a program \<Rightarrow> database \<Rightarrow> 'a \<times> database" where
  "run_program user session (Return a) d = (a, d)"
| "run_program user session (Call c k) d =
     (let (r, d') = session_method user session c d in run_program user session (k r) d')"

section \<open>A program is a run of its user\<close>

lemma replied_db [simp]: "snd (replied f outcome) = snd outcome"
  by (cases outcome) (simp add: replied_def)

lemma missing_ignored_db [simp]: "snd (missing_ignored outcome) = snd outcome"
  by (simp add: missing_ignored_def)

lemma method_steps: "snd (session_method u i c d) = d \<or> tenant_step u d (snd (session_method u i c d))"
  by (cases c) (auto simp: in_table_def by_session_def paired_def keyed_by_session_def intro: tenant_step.intros)

lemma run_trans:
  "tenant_run allowed e f \<Longrightarrow> tenant_run allowed d e \<Longrightarrow> tenant_run allowed d f"
  by (induction rule: tenant_run.induct) (auto intro: tenant_run.More)

lemma program_is_tenant_run: "tenant_run (\<lambda>v. v = u) d (snd (run_program u i p d))"
proof (induction p arbitrary: d)
  case (Call c k)
  obtain r d' where step: "session_method u i c d = (r, d')" by fastforce
  have "tenant_run (\<lambda>v. v = u) d d'"
    using method_steps [of u i c d] step tenant_run.Done
    by (auto intro: tenant_run.More [OF tenant_run.Done])
  moreover have "tenant_run (\<lambda>v. v = u) d' (snd (run_program u i (k r) d'))" by (rule Call) simp
  ultimately show ?case using step by (simp add: run_trans)
qed (simp add: tenant_run.Done)

lemma program_isolated: "isolated u (\<lambda>d. snd (run_program u i p d))"
  using tenant_run_isolated [OF program_is_tenant_run] unfolding isolated_def by blast

end
