(* ===== verification/Web_Routes.thy ===== *)
theory Web_Routes
  imports Web_Layer Provider_Router Session_Handle
begin

text \<open>
  The HTTP surface of the router: every handler of \<^verbatim>\<open>smista-router/src/web/routes\<close> over the
  database of many users, the bearer check in front of the protected ones
  (\<^verbatim>\<open>middleware/authenticate.rs\<close>), and the stack of layers that \<open>build_router\<close> puts around them
  (\<^verbatim>\<open>web.rs\<close>, \<^verbatim>\<open>middleware/log_requests.rs\<close>).  A call of the
  orchestrator is a program over the handle of its session (\<open>Session_Handle\<close>), which program is a
  field of the environment: what it computes is modelled over the view of one session, in
  \<open>Run_Machine\<close> and \<open>Preview\<close>.  The rate limiter, the client address, the answer to an unmatched request and the
  decoding of bodies and query parameters are those of the libraries.
\<close>

section \<open>Environment\<close>

record turn_call =
  tc_user :: string
  tc_session :: string
  tc_credentials :: credentials

type_synonym turn_run = "wire_event list \<times> (orchestrator_error, turn_response) result"

record web_env =
  we_auth :: auth_runtime
  we_parse_uuid :: "string \<Rightarrow> string option"
  we_version :: string
  we_config :: router_config
  we_router :: router
  we_answer :: "adapter \<Rightarrow> authentication \<Rightarrow> nat \<Rightarrow> listing"  \<comment> \<open>within so many milliseconds\<close>
  we_codec :: trace_codec
  we_parse_cost :: "string \<Rightarrow> rat option"
  we_origin :: "child_row \<Rightarrow> message_role \<times> provider \<times> string"
  we_start :: "turn_call \<Rightarrow> execute_request \<Rightarrow> turn_run program"
  we_resume :: "turn_call \<Rightarrow> continue_request \<Rightarrow> turn_run program"
  we_preview :: "turn_call \<Rightarrow> execute_request \<Rightarrow> database \<Rightarrow> (orchestrator_error, preview_response) result"
  we_show_error :: "orchestrator_error \<Rightarrow> string"
  we_unmatched :: "http_method \<Rightarrow> string \<Rightarrow> nat"
  we_permits :: "(string \<times> nat) list \<Rightarrow> string \<Rightarrow> nat \<Rightarrow> bool"  \<comment> \<open>the token bucket of a key\<close>
  we_forwarded_ip :: "headers \<Rightarrow> string option"

text \<open>
  \<open>execute\<close> and \<open>advance\<close> open the session first; only the handle they get reaches the database.
\<close>

definition orchestrated :: "turn_call \<Rightarrow> turn_run program \<Rightarrow> database \<Rightarrow> turn_run \<times> database" where
  "orchestrated call program d =
     (case open_handle (tc_user call) (tc_session call) d of
        Inl e \<Rightarrow> (([], Err (SessionFailed e)), d)
      | Inr _ \<Rightarrow> run_program (tc_user call) (tc_session call) program d)"

definition we_execute :: "web_env \<Rightarrow> turn_call \<Rightarrow> execute_request \<Rightarrow> database \<Rightarrow> turn_run \<times> database" where
  "we_execute env call request d = orchestrated call (we_start env call request) d"

definition we_advance :: "web_env \<Rightarrow> turn_call \<Rightarrow> continue_request \<Rightarrow> database \<Rightarrow> turn_run \<times> database" where
  "we_advance env call request d = orchestrated call (we_resume env call request) d"

text \<open>What a request draws from the clock and the generators.\<close>

record web_tick =
  wk_now :: nat
  wk_id :: string
  wk_secret :: string
  wk_salt :: nat

text \<open>A body as the handler of its route decodes it, \<open>NoPayload\<close> when it is none of these; the query
  parameters, \<open>None\<close> when they do not decode.\<close>

datatype web_payload = NoPayload
  | CreateSessionPayload string "string option" "string option"
  | UpdateSessionPayload "string option" "bool option"
  | ExecutePayload execute_request
  | ContinuePayload continue_request

record query_params =
  qr_scope :: "string option"
  qr_title :: "string option"
  qr_limit :: "nat option"
  qr_offset :: "nat option"

record web_request =
  wq_method :: http_method
  wq_path :: string
  wq_query :: "string option"
  wq_params :: "query_params option"
  wq_headers :: headers
  wq_payload :: web_payload
  wq_peer :: string
  wq_credentials :: "credentials option"  \<comment> \<open>the extension the extractor inserts\<close>

record session_summary =
  sy_id :: string
  sy_title :: "string option"
  sy_scope :: "string option"
  sy_encrypted :: bool
  sy_key_id :: "string option"
  sy_created :: nat
  sy_updated :: nat
  sy_archived :: bool

record message_detail =
  mg_role :: message_role
  mg_content :: "encrypted_payload + string"
  mg_provider :: "provider option"
  mg_model :: "string option"

record session_detail =
  sd_id :: string
  sd_title :: string
  sd_scope :: "string option"
  sd_key_id :: "string option"
  sd_created :: nat
  sd_updated :: nat
  sd_messages :: "message_detail list"

datatype web_body =
    ErrorBody api_error_body
  | BootstrapBody string string
  | SignInBody string nat
  | SignedOutBody
  | MeBody string
  | SessionBody session_summary
  | SessionsBody "session_summary list"
  | DetailBody session_detail
  | DeletedBody
  | TracesBody "trace_event list"
  | UsageBody session_usage_response
  | ProvidersBody "provider_descriptor list"
  | ModelsBody "model_descriptor list" "(provider \<times> provider_error_category \<times> string) list"
  | TurnBody turn_response
  | StreamBody "wire_event list"
  | PreviewBody preview_response
  | StatusBody string string
  | PlainBody

record web_response =
  wp_status :: nat
  wp_body :: web_body

definition respond :: "nat \<Rightarrow> web_body \<Rightarrow> web_response" where
  "respond status body = \<lparr>wp_status = status, wp_body = body\<rparr>"

definition refuse :: "api_error_response \<Rightarrow> web_response" where
  "refuse r = respond (ar_status r) (ErrorBody (ar_error r))"

definition session_absent :: api_error_response where
  "session_absent = from_code ApiSessionNotFound ''Session not found or no access to session.''"

definition bad_session_id :: api_error_response where
  "bad_session_id = from_code ApiInvalidSessionId ''Invalid session id.''"

section \<open>Public endpoints (\<^verbatim>\<open>status.rs\<close>, \<^verbatim>\<open>bootstrap.rs\<close>, \<^verbatim>\<open>sign_in.rs\<close>)\<close>

definition status_route :: "web_env \<Rightarrow> web_response" where
  "status_route env = respond 200 (StatusBody ''ok'' (we_version env))"

definition bootstrap_route :: "web_env \<Rightarrow> web_tick \<Rightarrow> database \<Rightarrow> web_response \<times> database" where
  "bootstrap_route env k d =
     (case bootstrap_user (we_auth env) (wk_salt k) (wk_id k) (wk_secret k) d of
        (Inl e, d') \<Rightarrow> (refuse (web_error_of_auth e), d')
      | (Inr (user_id, key), d') \<Rightarrow> (respond 201 (BootstrapBody user_id key), d'))"

definition sign_in_route :: "web_env \<Rightarrow> web_tick \<Rightarrow> headers \<Rightarrow> database \<Rightarrow> web_response \<times> database" where
  "sign_in_route env k hs d =
     (case get_header ''x-smista-api-key'' hs of
        None \<Rightarrow> (refuse (from_code ApiMissingCredentials ''The X-Smista-Api-Key header is missing.''), d)
      | Some v \<Rightarrow>
          (case to_str v of
             None \<Rightarrow> (refuse (from_code ApiInvalidApiKey ''The X-Smista-Api-Key header is not valid text.''), d)
           | Some key \<Rightarrow>
               (case sign_in (we_auth env) (wk_now k) (ra_token_ttl_seconds (rc_auth (we_config env))) (wk_salt k)
                   (wk_id k) (wk_secret k) key d of
                  (Inl e, d') \<Rightarrow> (refuse (web_error_of_auth e), d')
                | (Inr t, d') \<Rightarrow> (respond 200 (SignInBody (sn_token t) (sn_expires_at t)), d'))))"

section \<open>The caller (\<^verbatim>\<open>sign_out.rs\<close>, \<^verbatim>\<open>me.rs\<close>)\<close>

record authenticated_user =
  au_user_id :: string
  au_token :: string

definition sign_out_route :: "web_env \<Rightarrow> web_tick \<Rightarrow> authenticated_user \<Rightarrow> database \<Rightarrow> web_response \<times> database" where
  "sign_out_route env k u d =
     (case sign_out (we_auth env) (wk_now k) (au_token u) d of
        (Inl e, d') \<Rightarrow> (refuse (web_error_of_auth e), d')
      | (Inr _, d') \<Rightarrow> (respond 200 SignedOutBody, d'))"

definition me_route :: "authenticated_user \<Rightarrow> web_response" where
  "me_route u = respond 200 (MeBody (au_user_id u))"

section \<open>Sessions (\<^verbatim>\<open>create_session.rs\<close>, \<^verbatim>\<open>list_sessions.rs\<close>, \<^verbatim>\<open>get_session.rs\<close>, \<^verbatim>\<open>update_session.rs\<close>, \<^verbatim>\<open>delete_session.rs\<close>)\<close>

definition summary_of :: "session_entity \<Rightarrow> session_summary" where
  "summary_of s =
     \<lparr>sy_id = se_id s, sy_title = se_title s, sy_scope = se_scope s, sy_encrypted = se_encrypted s,
      sy_key_id = se_key_id s, sy_created = se_created s, sy_updated = se_updated s,
      sy_archived = (se_archived s \<noteq> None)\<rparr>"

definition create_session_route ::
  "web_tick \<Rightarrow> string \<Rightarrow> string \<Rightarrow> string option \<Rightarrow> string option \<Rightarrow> database \<Rightarrow> web_response \<times> database" where
  "create_session_route k user title scope key_id d =
     (let s = new_session (wk_now k) (wk_id k) user (Some title) scope key_id
      in case create_session s d of
           (Inl _, d') \<Rightarrow> (refuse internal_error, d')
         | (Inr _, d') \<Rightarrow>
             (case get_session user (se_id s) d' of
                None \<Rightarrow> (refuse internal_error, d')
              | Some stored \<Rightarrow> (respond 201 (SessionBody (summary_of stored)), d')))"

definition list_sessions_route :: "string \<Rightarrow> query_params \<Rightarrow> database \<Rightarrow> web_response" where
  "list_sessions_route user q d =
     respond 200 (SessionsBody (map summary_of (search_sessions user (qr_scope q) (qr_title q) d)))"

definition into_message_content :: "secret_content \<Rightarrow> encrypted_payload + string" where
  "into_message_content c = (case c of Plaintext t \<Rightarrow> Inr t | Encrypted e \<Rightarrow> Inl (envelope_to_payload e))"

definition message_detail_of :: "web_env \<Rightarrow> child_row \<times> content_row \<Rightarrow> message_detail option" where
  "message_detail_of env m =
     (case m of (row, content) \<Rightarrow>
        map_option (\<lambda>c.
          (case we_origin env row of (role, p, model) \<Rightarrow>
             \<lparr>mg_role = role, mg_content = into_message_content c,
              mg_provider = (if role = Assistant then Some p else None),
              mg_model = (if role = Assistant then Some model else None)\<rparr>)) (content ''content''))"

definition get_session_route :: "web_env \<Rightarrow> string \<Rightarrow> string \<Rightarrow> database \<Rightarrow> web_response" where
  "get_session_route env user sid d =
     (case we_parse_uuid env sid of
        None \<Rightarrow> refuse bad_session_id
      | Some i \<Rightarrow>
          (case get_session user i d of
             None \<Rightarrow> refuse session_absent
           | Some s \<Rightarrow>
               if se_archived s \<noteq> None then refuse session_absent
               else respond 200 (DetailBody
                 \<lparr>sd_id = i, sd_title = (case se_title s of Some t \<Rightarrow> t | None \<Rightarrow> []), sd_scope = se_scope s,
                  sd_key_id = se_key_id s, sd_created = se_created s, sd_updated = se_updated s,
                  sd_messages = List.map_filter (message_detail_of env) (list_messages_with_content user i d)\<rparr>)))"

text \<open>The body is partial: a field changes only when it is present.\<close>

definition apply_update :: "nat \<Rightarrow> string option \<Rightarrow> bool option \<Rightarrow> session_entity \<Rightarrow> session_entity" where
  "apply_update now title archived s =
     (let s1 = (case title of Some t \<Rightarrow> s\<lparr>se_title := Some t\<rparr> | None \<Rightarrow> s);
          s2 = (case archived of
                  Some a \<Rightarrow> s1\<lparr>se_archived := (if a then Some now else None)\<rparr> | None \<Rightarrow> s1)
      in s2\<lparr>se_updated := now\<rparr>)"

definition update_session_route ::
  "web_env \<Rightarrow> web_tick \<Rightarrow> string \<Rightarrow> string \<Rightarrow> string option \<Rightarrow> bool option \<Rightarrow> database \<Rightarrow> web_response \<times> database" where
  "update_session_route env k user sid title archived d =
     (case we_parse_uuid env sid of
        None \<Rightarrow> (refuse bad_session_id, d)
      | Some i \<Rightarrow>
          (case get_session user i d of
             None \<Rightarrow> (refuse session_absent, d)
           | Some s \<Rightarrow>
               (case update_session user (apply_update (wk_now k) title archived s) d of
                  (Inl _, d') \<Rightarrow> (refuse internal_error, d')
                | (Inr updated, d') \<Rightarrow>
                    (respond 200 (SessionBody ((summary_of updated)\<lparr>sy_id := i\<rparr>)), d'))))"

definition delete_session_route :: "web_env \<Rightarrow> string \<Rightarrow> string \<Rightarrow> database \<Rightarrow> web_response \<times> database" where
  "delete_session_route env user sid d =
     (case we_parse_uuid env sid of
        None \<Rightarrow> (refuse bad_session_id, d)
      | Some i \<Rightarrow>
          (case get_session user i d of
             None \<Rightarrow> (refuse session_absent, d)
           | Some _ \<Rightarrow>
               (case delete_session user i d of
                  (Inl _, d') \<Rightarrow> (refuse internal_error, d')
                | (Inr _, d') \<Rightarrow> (respond 200 DeletedBody, d'))))"

section \<open>Turns (\<^verbatim>\<open>execute.rs\<close>, \<^verbatim>\<open>continue_run.rs\<close>, \<^verbatim>\<open>preview.rs\<close>)\<close>

definition turn_call_of :: "string \<Rightarrow> string \<Rightarrow> credentials option \<Rightarrow> turn_call" where
  "turn_call_of user i creds =
     \<lparr>tc_user = user, tc_session = i,
      tc_credentials = (case creds of Some c \<Rightarrow> c | None \<Rightarrow> (\<lambda>_. None))\<rparr>"

definition answer_turn :: "web_env \<Rightarrow> headers \<Rightarrow> turn_run \<Rightarrow> web_response" where
  "answer_turn env hs run =
     (if wants_event_stream hs then respond 200 (StreamBody (stream_turn (we_show_error env) run))
      else case snd run of
             Inr response \<Rightarrow> respond 200 (TurnBody response)
           | Inl e \<Rightarrow> refuse (from_code (api_code e) (we_show_error env e)))"

definition execute_route ::
  "web_env \<Rightarrow> string \<Rightarrow> string \<Rightarrow> headers \<Rightarrow> credentials option \<Rightarrow> execute_request \<Rightarrow> database \<Rightarrow>
   web_response \<times> database" where
  "execute_route env user sid hs creds request d =
     (case we_parse_uuid env sid of
        None \<Rightarrow> (refuse bad_session_id, d)
      | Some i \<Rightarrow>
          (case we_execute env (turn_call_of user i creds) request d of
             (run, d') \<Rightarrow> (answer_turn env hs run, d')))"

definition continue_route ::
  "web_env \<Rightarrow> string \<Rightarrow> string \<Rightarrow> headers \<Rightarrow> credentials option \<Rightarrow> continue_request \<Rightarrow> database \<Rightarrow>
   web_response \<times> database" where
  "continue_route env user sid hs creds request d =
     (case we_parse_uuid env sid of
        None \<Rightarrow> (refuse bad_session_id, d)
      | Some i \<Rightarrow>
          (case we_advance env (turn_call_of user i creds) request d of
             (run, d') \<Rightarrow> (answer_turn env hs run, d')))"

definition preview_route ::
  "web_env \<Rightarrow> string \<Rightarrow> string \<Rightarrow> credentials option \<Rightarrow> execute_request \<Rightarrow> database \<Rightarrow> web_response" where
  "preview_route env user sid creds request d =
     (case we_parse_uuid env sid of
        None \<Rightarrow> refuse bad_session_id
      | Some i \<Rightarrow>
          (case we_preview env (turn_call_of user i creds) request d of
             Inr p \<Rightarrow> respond 200 (PreviewBody p)
           | Inl e \<Rightarrow> refuse (from_code (api_code e) (we_show_error env e))))"

section \<open>Traces, usage, providers and models\<close>

definition default_page_limit :: nat where
  "default_page_limit = 50"

definition traces_route :: "web_env \<Rightarrow> string \<Rightarrow> string \<Rightarrow> query_params \<Rightarrow> database \<Rightarrow> web_response" where
  "traces_route env user sid q d =
     (case we_parse_uuid env sid of
        None \<Rightarrow> refuse bad_session_id
      | Some i \<Rightarrow>
          (let limit = (case qr_limit q of Some n \<Rightarrow> n | None \<Rightarrow> default_page_limit);
               offset = (case qr_offset q of Some n \<Rightarrow> n | None \<Rightarrow> 0)
           in case get_session_trace_events user i limit offset d of
                None \<Rightarrow> refuse (from_code ApiSessionNotFound ''Session not found.'')
              | Some rows \<Rightarrow>
                  (case assemble_trace_events (we_codec env) rows of
                     Inl _ \<Rightarrow> refuse (from_code ApiInternalError ''Failed to fetch traces.'')
                   | Inr events \<Rightarrow> respond 200 (TracesBody events))))"

definition usage_route :: "web_env \<Rightarrow> string \<Rightarrow> string \<Rightarrow> database \<Rightarrow> web_response" where
  "usage_route env user sid d =
     (case we_parse_uuid env sid of
        None \<Rightarrow> refuse bad_session_id
      | Some i \<Rightarrow>
          (case session_usage (we_codec env) (we_parse_cost env) user i d of
             Inr (Some response) \<Rightarrow> respond 200 (UsageBody response)
           | Inr None \<Rightarrow> refuse (from_code ApiSessionNotFound ''Session not found.'')
           | Inl _ \<Rightarrow> refuse (from_code ApiInternalError ''Failed to fetch usage.'')))"

definition providers_route :: "web_env \<Rightarrow> web_response" where
  "providers_route env = respond 200 (ProvidersBody (map snd (list_providers (we_router env))))"

definition default_fetch_timeout_ms :: nat where "default_fetch_timeout_ms = 10000"
definition max_fetch_timeout_ms :: nat where "max_fetch_timeout_ms = 60000"

text \<open>\<open>str::parse::<u64>\<close>: an optional plus sign and digits, within 64 bits.\<close>

definition parse_u64 :: "string \<Rightarrow> nat option" where
  "parse_u64 s =
     (let digits = (case s of c # cs \<Rightarrow> if c = CHR ''+'' then cs else s | [] \<Rightarrow> [])
      in if digits \<noteq> [] \<and> list_all is_ascii_digit digits \<and> decimal digits < 2 ^ 64
         then Some (decimal digits) else None)"

definition resolve_timeout :: "headers \<Rightarrow> nat" where
  "resolve_timeout hs =
     (case Option.bind (Option.bind (get_header ''x-smista-timeout-ms'' hs) to_str) parse_u64 of
        None \<Rightarrow> default_fetch_timeout_ms
      | Some ms \<Rightarrow> if 0 < ms then min ms max_fetch_timeout_ms else default_fetch_timeout_ms)"

definition models_route :: "web_env \<Rightarrow> headers \<Rightarrow> credentials option \<Rightarrow> web_response" where
  "models_route env hs creds =
     (let timeout = resolve_timeout hs;
          res = fetch_models (\<lambda>a auth. we_answer env a auth timeout) (show_nat timeout @ ''ms'')
                  (case creds of Some c \<Rightarrow> c | None \<Rightarrow> (\<lambda>_. None)) (we_router env)
      in respond 200 (ModelsBody (map snd (fr_models res))
           (map (\<lambda>(p, e). (p, pe_category e, pe_message e)) (fr_failed res))))"

lemma resolve_timeout_bounds: "1 \<le> resolve_timeout hs \<and> resolve_timeout hs \<le> max_fetch_timeout_ms"
  by (auto simp: resolve_timeout_def max_fetch_timeout_ms_def default_fetch_timeout_ms_def split: option.split)

section \<open>The bearer check (\<^verbatim>\<open>authenticate.rs\<close>)\<close>

definition bearer_prefix :: string where
  "bearer_prefix = ''Bearer ''"

definition authenticate_request ::
  "web_env \<Rightarrow> web_tick \<Rightarrow> headers \<Rightarrow> database \<Rightarrow> (api_error_response, authenticated_user) result" where
  "authenticate_request env k hs d =
     (case get_header ''authorization'' hs of
        None \<Rightarrow> Err (from_code ApiMissingCredentials ''Authorization header is missing.'')
      | Some v \<Rightarrow>
          (case Option.bind (to_str v) (strip_prefix bearer_prefix) of
             None \<Rightarrow> Err (from_code ApiInvalidToken ''Authorization header must start with Bearer.'')
           | Some token \<Rightarrow>
               (case authenticate_token (we_auth env) (wk_now k) token d of
                  Inl e \<Rightarrow> Err (web_error_of_auth e)
                | Inr user \<Rightarrow> Ok \<lparr>au_user_id = user, au_token = token\<rparr>)))"

section \<open>The table of routes (\<^verbatim>\<open>web.rs\<close>)\<close>

datatype endpoint_route = StatusEp | BootstrapEp | SignInEp | SignOutEp | MeEp | CreateSessionEp
  | ListSessionsEp | GetSessionEp string | UpdateSessionEp string | DeleteSessionEp string
  | ExecuteEp string | PreviewEp string | ContinueEp string | TracesEp string | UsageEp string
  | ProvidersEp | ModelsEp

definition path_segments :: "string \<Rightarrow> string list" where
  "path_segments p = split_when (\<lambda>c. c = CHR ''/'') p"

definition session_route :: "http_method \<Rightarrow> string \<Rightarrow> string list \<Rightarrow> endpoint_route option" where
  "session_route m sid rest =
     (if rest = [] then
        (case m of GET \<Rightarrow> Some (GetSessionEp sid) | PUT \<Rightarrow> Some (UpdateSessionEp sid)
         | DELETE \<Rightarrow> Some (DeleteSessionEp sid) | POST \<Rightarrow> None)
      else if rest = [''execute''] \<and> m = POST then Some (ExecuteEp sid)
      else if rest = [''preview''] \<and> m = POST then Some (PreviewEp sid)
      else if rest = [''continue''] \<and> m = POST then Some (ContinueEp sid)
      else if rest = [''traces''] \<and> m = GET then Some (TracesEp sid)
      else if rest = [''usage''] \<and> m = GET then Some (UsageEp sid)
      else None)"

definition api_route :: "http_method \<Rightarrow> string list \<Rightarrow> endpoint_route option" where
  "api_route m segs =
     (if segs = [''auth'', ''bootstrap''] \<and> m = POST then Some BootstrapEp
      else if segs = [''auth'', ''sign-in''] \<and> m = POST then Some SignInEp
      else if segs = [''auth'', ''sign-out''] \<and> m = POST then Some SignOutEp
      else if segs = [''auth'', ''me''] \<and> m = GET then Some MeEp
      else if segs = [''sessions''] \<and> m = POST then Some CreateSessionEp
      else if segs = [''sessions''] \<and> m = GET then Some ListSessionsEp
      else if segs = [''llm'', ''providers''] \<and> m = GET then Some ProvidersEp
      else if segs = [''llm'', ''models''] \<and> m = GET then Some ModelsEp
      else (case segs of
              s # sid # rest \<Rightarrow> if s = ''sessions'' \<and> sid \<noteq> [] then session_route m sid rest else None
            | _ \<Rightarrow> None))"

definition match_route :: "http_method \<Rightarrow> string \<Rightarrow> endpoint_route option" where
  "match_route m p =
     (let segs = path_segments p
      in if segs = [[], ''status''] \<and> m = GET then Some StatusEp
         else if take 3 segs = [[], ''api'', ''v1''] then api_route m (drop 3 segs)
         else None)"

fun is_public :: "endpoint_route \<Rightarrow> bool" where
  "is_public StatusEp = True"
| "is_public BootstrapEp = True"
| "is_public SignInEp = True"
| "is_public _ = False"

definition plain :: "nat \<Rightarrow> web_response" where
  "plain status = respond status PlainBody"

fun public_handler :: "web_env \<Rightarrow> web_tick \<Rightarrow> endpoint_route \<Rightarrow> web_request \<Rightarrow> database \<Rightarrow> web_response \<times> database" where
  "public_handler env k BootstrapEp q d = bootstrap_route env k d"
| "public_handler env k SignInEp q d = sign_in_route env k (wq_headers q) d"
| "public_handler env k _ q d = (status_route env, d)"

text \<open>A body or query that does not decode never reaches the handler: the extractor answers.\<close>

definition handler ::
  "web_env \<Rightarrow> web_tick \<Rightarrow> authenticated_user \<Rightarrow> endpoint_route \<Rightarrow> web_request \<Rightarrow> database \<Rightarrow> web_response \<times> database" where
  "handler env k u ep q d =
     (let user = au_user_id u; undecoded = (plain (we_unmatched env (wq_method q) (wq_path q)), d)
      in case ep of
           SignOutEp \<Rightarrow> sign_out_route env k u d
         | MeEp \<Rightarrow> (me_route u, d)
         | CreateSessionEp \<Rightarrow>
             (case wq_payload q of
                CreateSessionPayload title scope key_id \<Rightarrow> create_session_route k user title scope key_id d
              | _ \<Rightarrow> undecoded)
         | ListSessionsEp \<Rightarrow>
             (case wq_params q of Some ps \<Rightarrow> (list_sessions_route user ps d, d) | None \<Rightarrow> undecoded)
         | GetSessionEp sid \<Rightarrow> (get_session_route env user sid d, d)
         | UpdateSessionEp sid \<Rightarrow>
             (case wq_payload q of
                UpdateSessionPayload title archived \<Rightarrow> update_session_route env k user sid title archived d
              | _ \<Rightarrow> undecoded)
         | DeleteSessionEp sid \<Rightarrow> delete_session_route env user sid d
         | ExecuteEp sid \<Rightarrow>
             (case wq_payload q of
                ExecutePayload request \<Rightarrow>
                  execute_route env user sid (wq_headers q) (wq_credentials q) request d
              | _ \<Rightarrow> undecoded)
         | PreviewEp sid \<Rightarrow>
             (case wq_payload q of
                ExecutePayload request \<Rightarrow> (preview_route env user sid (wq_credentials q) request d, d)
              | _ \<Rightarrow> undecoded)
         | ContinueEp sid \<Rightarrow>
             (case wq_payload q of
                ContinuePayload request \<Rightarrow>
                  continue_route env user sid (wq_headers q) (wq_credentials q) request d
              | _ \<Rightarrow> undecoded)
         | TracesEp sid \<Rightarrow>
             (case wq_params q of Some ps \<Rightarrow> (traces_route env user sid ps d, d) | None \<Rightarrow> undecoded)
         | UsageEp sid \<Rightarrow> (usage_route env user sid d, d)
         | ProvidersEp \<Rightarrow> (providers_route env, d)
         | ModelsEp \<Rightarrow> (models_route env (wq_headers q) (wq_credentials q), d)
         | _ \<Rightarrow> undecoded)"

definition dispatch :: "web_env \<Rightarrow> web_tick \<Rightarrow> web_request \<Rightarrow> database \<Rightarrow> web_response \<times> database" where
  "dispatch env k q d =
     (case match_route (wq_method q) (wq_path q) of
        None \<Rightarrow> (plain (we_unmatched env (wq_method q) (wq_path q)), d)
      | Some ep \<Rightarrow>
          if is_public ep then public_handler env k ep q d
          else (case authenticate_request env k (wq_headers q) d of
                  Inl e \<Rightarrow> (refuse e, d)
                | Inr u \<Rightarrow> handler env k u ep q d))"

section \<open>The layers (\<^verbatim>\<open>web.rs\<close>, \<^verbatim>\<open>middleware/log_requests.rs\<close>)\<close>

record access_entry =
  le_method :: http_method
  le_path :: string
  le_status :: nat

record web_state =
  ws_db :: database
  ws_log :: "access_entry list"
  ws_charged :: "(string \<times> nat) list"

type_synonym service = "web_request \<Rightarrow> web_state \<Rightarrow> web_response \<times> web_state"

definition routes_service :: "web_env \<Rightarrow> web_tick \<Rightarrow> service" where
  "routes_service env k q s =
     (case dispatch env k q (ws_db s) of (r, d) \<Rightarrow> (r, s\<lparr>ws_db := d\<rparr>))"

definition log_requests :: "service \<Rightarrow> service" where
  "log_requests next_service q s =
     (case next_service q s of
        (r, t) \<Rightarrow> (r, t\<lparr>ws_log := ws_log t @
          [\<lparr>le_method = wq_method q, le_path = wq_path q, le_status = wp_status r\<rparr>]\<rparr>))"

text \<open>The key of the bucket: the forwarded address when proxies are trusted and there is one, else the peer.\<close>

definition rate_limit_key :: "web_env \<Rightarrow> web_request \<Rightarrow> string" where
  "rate_limit_key env q =
     (if rl_trust_proxy_headers (rc_rate_limit (we_config env))
      then (case we_forwarded_ip env (wq_headers q) of Some ip \<Rightarrow> ip | None \<Rightarrow> wq_peer q)
      else wq_peer q)"

definition limit_rate :: "web_env \<Rightarrow> web_tick \<Rightarrow> service \<Rightarrow> service" where
  "limit_rate env k next_service q s =
     (let key = rate_limit_key env q
      in if we_permits env (ws_charged s) key (wk_now k)
         then next_service q (s\<lparr>ws_charged := ws_charged s @ [(key, wk_now k)]\<rparr>)
         else (plain 429, s))"

definition reject_query_credentials :: "service \<Rightarrow> service" where
  "reject_query_credentials next_service q s =
     (case wq_query q of
        Some query \<Rightarrow>
          if query_has_credential query
          then (refuse (from_code ApiCredentialsInQuery ''Credentials must not be passed as query parameters.''), s)
          else next_service q s
      | None \<Rightarrow> next_service q s)"

definition extract_credentials :: "service \<Rightarrow> service" where
  "extract_credentials next_service q s =
     (let creds = extract_provider_credentials (wq_headers q)
      in next_service (if creds = Map.empty then q else q\<lparr>wq_credentials := Some creds\<rparr>) s)"

text \<open>Every \<open>.layer\<close> wraps what was built so far, so the layer added last is entered first.  The
  bucket cannot be built from a zero period or burst: then the layer is left off.\<close>

definition build_router :: "web_env \<Rightarrow> web_tick \<Rightarrow> service" where
  "build_router env k =
     (let app = log_requests (routes_service env k);
          rl = rc_rate_limit (we_config env);
          limited = (if rl_enabled rl \<and> 0 < rl_period_ms rl \<and> 0 < rl_burst_size rl
                     then limit_rate env k app else app)
      in extract_credentials (reject_query_credentials limited))"

end
