(* ===== verification/Web_Safety.thy ===== *)
theory Web_Safety
  imports Web_Routes
begin

text \<open>
  Lemmas on the HTTP surface: a protected handler keeps to the data of its caller, whatever the
  endpoint; what it reads is a function of that data; a session that is archived is gone for every
  read and comes back when it is restored; and what the layers let through.
\<close>

section \<open>Handlers keep to their user\<close>

definition untouched :: "database \<Rightarrow> database \<Rightarrow> bool" where
  "untouched d d' \<longleftrightarrow> db_sessions d' = db_sessions d \<and> db_children d' = db_children d \<and>
     db_contents d' = db_contents d \<and> db_user_memory d' = db_user_memory d \<and>
     db_user_memory_content d' = db_user_memory_content d"

lemma untouched_visible: "untouched d d' \<Longrightarrow> visible v d' = visible v d"
  by (simp add: untouched_def visible_def rows_of_def)

lemma untouched_wf: "untouched d d' \<Longrightarrow> db_wf d \<Longrightarrow> db_wf d'"
  by (simp add: untouched_def db_wf_def session_owned_def)

lemma untouched_refl [simp]: "untouched d d"
  by (simp add: untouched_def)

lemma isolated_untouched: "(\<And>d. untouched d (f d)) \<Longrightarrow> isolated u f"
  by (auto simp: isolated_def intro: untouched_visible untouched_wf)

lemma isolated_cases:
  "(\<And>d. db_wf d \<Longrightarrow> f d = g d \<or> f d = d) \<Longrightarrow> isolated u g \<Longrightarrow> isolated u f"
  unfolding isolated_def by metis

lemma orchestrated_isolated: "isolated (tc_user call) (\<lambda>d. snd (orchestrated call p d))"
  by (rule isolated_cases [OF _ program_isolated [of "tc_user call" "tc_session call" p]])
    (auto simp: orchestrated_def open_handle_def)

lemma sign_out_untouched: "untouched d (snd (sign_out rt now token d))"
  by (auto simp: sign_out_def revoke_token_def untouched_def split: sum.split prod.split)

lemma bootstrap_untouched: "untouched d (snd (bootstrap_user rt salt i secret d))"
  by (auto simp: bootstrap_user_def create_user_def untouched_def Let_def split: option.split sum.split prod.split)

lemma sign_in_untouched: "untouched d (snd (sign_in rt now ttl salt i secret key d))"
  by (auto simp: sign_in_def create_token_def untouched_def Let_def split: option.split sum.split prod.split bool.split)

lemma create_session_route_isolated:
  "isolated user (\<lambda>d. snd (create_session_route k user title scope key_id d))"
proof -
  have "snd (create_session_route k user title scope key_id d) =
      snd (create_session (new_session (wk_now k) (wk_id k) user (Some title) scope key_id) d)" for d
    by (auto simp: create_session_route_def Let_def split: prod.split sum.split option.split)
  then show ?thesis by (simp add: isolated_create_session new_session_def)
qed

lemma update_session_route_isolated:
  "isolated user (\<lambda>d. snd (update_session_route env k user sid title archived d))"
proof (rule isolated_choose)
  fix d
  show "snd (update_session_route env k user sid title archived d) = d \<or>
      (\<exists>g. snd (update_session_route env k user sid title archived d) = g d \<and> isolated user g)"
  proof (cases "Option.bind (we_parse_uuid env sid) (\<lambda>i. get_session user i d)")
    case None
    then show ?thesis by (auto simp: update_session_route_def bind_eq_None_conv split: option.split)
  next
    case (Some s0)
    then obtain i where i: "we_parse_uuid env sid = Some i" "get_session user i d = Some s0"
      by (auto simp: bind_eq_Some_conv)
    have "snd (update_session_route env k user sid title archived d) =
        snd (update_session user (apply_update (wk_now k) title archived s0) d)"
      using i by (auto simp: update_session_route_def split: prod.split sum.split)
    then show ?thesis
      by (intro disjI2 exI [of _ "\<lambda>d. snd (update_session user (apply_update (wk_now k) title archived s0) d)"])
        (simp add: isolated_update_session)
  qed
qed

lemma delete_session_route_isolated: "isolated user (\<lambda>d. snd (delete_session_route env user sid d))"
proof (rule isolated_choose)
  fix d
  show "snd (delete_session_route env user sid d) = d \<or>
      (\<exists>g. snd (delete_session_route env user sid d) = g d \<and> isolated user g)"
    using isolated_delete_session [of user]
    by (auto simp: delete_session_route_def split: option.split prod.split sum.split) (metis snd_conv)+
qed

lemma turn_routes_isolated:
  shows "isolated user (\<lambda>d. snd (execute_route env user sid hs creds request d))"
    "isolated user (\<lambda>d. snd (continue_route env user sid hs creds continuation d))"
proof -
  have "isolated user (\<lambda>d. snd (we_execute env (turn_call_of user i creds) request d))"
      "isolated user (\<lambda>d. snd (we_advance env (turn_call_of user i creds) continuation d))" for i
    unfolding we_execute_def we_advance_def
    using orchestrated_isolated [of "turn_call_of user i creds" for i] by (simp_all add: turn_call_of_def)
  then show "isolated user (\<lambda>d. snd (execute_route env user sid hs creds request d))"
      "isolated user (\<lambda>d. snd (continue_route env user sid hs creds continuation d))"
    by (cases "we_parse_uuid env sid";
        simp add: execute_route_def continue_route_def isolated_id case_prod_unfold)+
qed

lemma handler_isolated: "isolated (au_user_id u) (\<lambda>d. snd (handler env k u ep q d))"
proof (cases ep)
  case SignOutEp
  have "untouched d (snd (sign_out_route env k u d))" for d
    using sign_out_untouched [of d] by (auto simp: sign_out_route_def split: prod.split sum.split) (metis snd_conv)+
  then show ?thesis using SignOutEp by (simp add: handler_def isolated_untouched)
next
  case CreateSessionEp
  then show ?thesis
    by (cases "wq_payload q") (simp_all add: handler_def isolated_id create_session_route_isolated)
next
  case (UpdateSessionEp sid)
  then show ?thesis
    by (cases "wq_payload q") (simp_all add: handler_def isolated_id update_session_route_isolated)
next
  case (ExecuteEp sid)
  then show ?thesis
    by (cases "wq_payload q") (simp_all add: handler_def isolated_id turn_routes_isolated)
next
  case (ContinueEp sid)
  then show ?thesis
    by (cases "wq_payload q") (simp_all add: handler_def isolated_id turn_routes_isolated)
next
  case (PreviewEp sid)
  then show ?thesis by (cases "wq_payload q") (simp_all add: handler_def isolated_id)
next
  case (TracesEp sid)
  then show ?thesis by (cases "wq_params q") (simp_all add: handler_def isolated_id)
next
  case ListSessionsEp
  then show ?thesis by (cases "wq_params q") (simp_all add: handler_def isolated_id)
qed (simp_all add: handler_def isolated_id delete_session_route_isolated)

lemma public_untouched: "untouched d (snd (public_handler env k ep q d))"
proof (cases ep)
  case BootstrapEp
  then show ?thesis
    using bootstrap_untouched [of d "we_auth env" "wk_salt k" "wk_id k" "wk_secret k"]
    by (auto simp: bootstrap_route_def split: prod.split sum.split)
next
  case SignInEp
  have "untouched d (snd (sign_in_route env k (wq_headers q) d))"
    using sign_in_untouched [of d]
    by (auto simp: sign_in_route_def split: option.split prod.split sum.split) (metis snd_conv)+
  then show ?thesis using SignInEp by simp
qed simp_all

section \<open>Reads are of the caller's own data\<close>

fun is_read :: "endpoint_route \<Rightarrow> bool" where
  "is_read MeEp = True"
| "is_read ListSessionsEp = True"
| "is_read (GetSessionEp _) = True"
| "is_read (TracesEp _) = True"
| "is_read (UsageEp _) = True"
| "is_read ProvidersEp = True"
| "is_read ModelsEp = True"
| "is_read _ = False"

lemma reads_keep: "is_read ep \<Longrightarrow> snd (handler env k u ep q d) = d"
  by (cases ep) (auto simp: handler_def split: option.split)

lemma reads_of_own_data:
  assumes "is_read ep" "db_wf d" "db_wf d'" "visible (au_user_id u) d' = visible (au_user_id u) d"
  shows "fst (handler env k u ep q d') = fst (handler env k u ep q d)"
proof -
  have search: "search_sessions (au_user_id u) sc ti d' = search_sessions (au_user_id u) sc ti d" for sc ti
    using sessions_visible(2) [OF assms(4)] .
  have messages: "list_messages_with_content (au_user_id u) i d' = list_messages_with_content (au_user_id u) i d" for i
    using rows_with_content_visible(1) [OF assms(4)] .
  show ?thesis
    using assms(1)
    by (cases ep)
      (simp_all add: handler_def Let_def list_sessions_route_def get_session_route_def traces_route_def usage_route_def
        session_usage_def get_session_visible [OF assms(2-4)] trace_visible [OF assms(2-4)] search messages
        split: option.split)
qed

section \<open>Archived sessions\<close>

lemma trace_session_iff:
  "trace_session u i d = Some s \<longleftrightarrow> get_session u i d = Some s \<and> se_archived s = None"
  by (auto simp: trace_session_def split: option.split)

lemma trace_routes_absent:
  assumes "we_parse_uuid env sid = Some i"
  shows "traces_route env u sid p d = refuse (from_code ApiSessionNotFound ''Session not found.'') \<longleftrightarrow>
      trace_session u i d = None"
    "usage_route env u sid d = refuse (from_code ApiSessionNotFound ''Session not found.'') \<longleftrightarrow>
      trace_session u i d = None"
  using assms
  by (auto simp: traces_route_def usage_route_def get_session_trace_events_def session_usage_def Let_def
      get_session_cost_events_def refuse_def respond_def from_code_def api_error_new_def split: option.split sum.split)

lemma trace_routes_hidden:
  "trace_session u i d = None \<Longrightarrow> trace_session u i e = None \<Longrightarrow> we_parse_uuid env sid = Some i \<Longrightarrow>
   traces_route env u sid p d = traces_route env u sid p e \<and> usage_route env u sid d = usage_route env u sid e"
  using trace_routes_absent [of env sid i] by metis

lemma trace_routes_same_rows:
  assumes "trace_session u i d \<noteq> None" "trace_session u i e \<noteq> None"
    and "db_children e = db_children d" "db_contents e = db_contents d" "we_parse_uuid env sid = Some i"
  shows "traces_route env u sid p e = traces_route env u sid p d" "usage_route env u sid e = usage_route env u sid d"
proof -
  obtain s t where st: "trace_session u i d = Some s" "trace_session u i e = Some t" using assms(1,2) by blast
  then have "se_id s = i" "se_id t = i"
    using get_session_Some [of u i d s] get_session_Some [of u i e t] unfolding trace_session_iff by blast+
  then have "get_session_trace_events u i n m e = get_session_trace_events u i n m d"
      "get_session_cost_events u i e = get_session_cost_events u i d" for n m
    using st assms(3,4)
    by (simp_all add: get_session_trace_events_def get_session_cost_events_def list_session_rows_def)
  then show "traces_route env u sid p e = traces_route env u sid p d" "usage_route env u sid e = usage_route env u sid d"
    by (simp_all add: traces_route_def usage_route_def session_usage_def Let_def assms(5))
qed

lemma get_session_updated:
  assumes "db_wf d" "get_session u i d = Some s" "se_id s' = i" "se_user s' = u"
  shows "\<exists>d'. update_session u s' d = (Ok s', d') \<and> get_session u i d' = Some s' \<and>
    db_children d' = db_children d \<and> db_contents d' = db_contents d \<and>
    (\<forall>v j. (v, j) \<noteq> (u, i) \<longrightarrow> get_session v j d' = get_session v j d)"
proof -
  let ?g = "\<lambda>x. if se_id x = i then s' else x"
  have found: "List.find (\<lambda>x. se_id x = i) (db_sessions d) = Some s" and owner: "se_user s = u"
    using assms(2) by (auto simp: get_session_def split: option.splits if_splits)
  have sid: "se_id s = i" using find_SomeD [OF found] by simp
  have find_map: "List.find (\<lambda>x. se_id x = j) (map ?g xs) = map_option ?g (List.find (\<lambda>x. se_id x = j) xs)" for j xs
    using assms(3) by (induction xs) auto
  let ?d = "d\<lparr>db_sessions := map ?g (db_sessions d)\<rparr>"
  have at_i: "List.find (\<lambda>x. se_id x = i) (map ?g (db_sessions d)) = Some s'"
    unfolding find_map found using sid by simp
  have elsewhere: "List.find (\<lambda>x. se_id x = j) (map ?g (db_sessions d)) = List.find (\<lambda>x. se_id x = j) (db_sessions d)"
    if "j \<noteq> i" for j
    unfolding find_map using that
    by (cases "List.find (\<lambda>x. se_id x = j) (db_sessions d)") (auto dest: find_SomeD)
  have "update_session u s' d = (Ok s', ?d)"
    using found owner assms(3,4) by (simp add: update_session_def)
  moreover have "get_session u i ?d = Some s'"
    unfolding get_session_def using at_i assms(4) by simp
  moreover have "get_session v j ?d = get_session v j d" if "(v, j) \<noteq> (u, i)" for v j
  proof (cases "j = i")
    case True
    with that at_i found owner assms(4) show ?thesis unfolding get_session_def by simp
  next
    case False
    with elsewhere show ?thesis unfolding get_session_def by simp
  qed
  ultimately show ?thesis by (intro exI [of _ ?d]) simp
qed

lemma apply_update_kept [simp]:
  "se_id (apply_update now title archived s) = se_id s" "se_user (apply_update now title archived s) = se_user s"
  by (simp_all add: apply_update_def Let_def split: option.split)

lemma update_route_stores:
  assumes "db_wf d" "we_parse_uuid env sid = Some i" "get_session user i d = Some s"
  shows "\<exists>d'. update_session_route env k user sid title archived d =
      (respond 200 (SessionBody (summary_of (apply_update (wk_now k) title archived s))), d') \<and>
    get_session user i d' = Some (apply_update (wk_now k) title archived s) \<and>
    db_children d' = db_children d \<and> db_contents d' = db_contents d \<and>
    (\<forall>v j. (v, j) \<noteq> (user, i) \<longrightarrow> get_session v j d' = get_session v j d)"
proof -
  have s: "se_id s = i" "se_user s = user"
    using get_session_Some [of user i d s] assms(3) by simp_all
  let ?s = "apply_update (wk_now k) title archived s"
  obtain d' where d': "update_session user ?s d = (Ok ?s, d')" "get_session user i d' = Some ?s"
      "db_children d' = db_children d" "db_contents d' = db_contents d"
      "\<forall>v j. (v, j) \<noteq> (user, i) \<longrightarrow> get_session v j d' = get_session v j d"
    using get_session_updated [OF assms(1,3), of ?s] s by auto
  have "(summary_of ?s)\<lparr>sy_id := i\<rparr> = summary_of ?s"
    using s by (simp add: summary_of_def)
  then show ?thesis
    using d' assms(2,3) by (intro exI [of _ d']) (simp add: update_session_route_def)
qed

section \<open>The layers\<close>

lemma query_credentials_stop:
  assumes "wq_query q = Some query" "query_has_credential query"
  shows "build_router env k q s =
    (refuse (from_code ApiCredentialsInQuery ''Credentials must not be passed as query parameters.''), s)"
  using assms by (simp add: build_router_def Let_def extract_credentials_def reject_query_credentials_def)

lemma admitted_once:
  assumes "build_router env k q s = (r, s')"
  shows "(ws_log s' = ws_log s \<and> ws_db s' = ws_db s \<and> ws_charged s' = ws_charged s) \<or>
    (\<exists>creds. (r, ws_db s') = dispatch env k (q\<lparr>wq_credentials := creds\<rparr>) (ws_db s) \<and>
       ws_log s' = ws_log s @ [\<lparr>le_method = wq_method q, le_path = wq_path q, le_status = wp_status r\<rparr>])"
proof -
  obtain creds where q1: "build_router env k q s = reject_query_credentials
       (if rl_enabled (rc_rate_limit (we_config env)) \<and> 0 < rl_period_ms (rc_rate_limit (we_config env)) \<and>
           0 < rl_burst_size (rc_rate_limit (we_config env))
        then limit_rate env k (log_requests (routes_service env k)) else log_requests (routes_service env k))
       (q\<lparr>wq_credentials := creds\<rparr>) s"
    by (rule that [of "if extract_provider_credentials (wq_headers q) = Map.empty then wq_credentials q
        else Some (extract_provider_credentials (wq_headers q))"])
      (simp add: build_router_def Let_def extract_credentials_def)
  let ?q = "q\<lparr>wq_credentials := creds\<rparr>"
  have logged: "(r, ws_db s') = dispatch env k ?q (ws_db s) \<and>
      ws_log s' = ws_log s @ [\<lparr>le_method = wq_method q, le_path = wq_path q, le_status = wp_status r\<rparr>]"
    if "log_requests (routes_service env k) ?q t = (r, s')" "ws_db t = ws_db s" "ws_log t = ws_log s" for t
    using that by (auto simp: log_requests_def routes_service_def split: prod.splits)
  let ?t = "s\<lparr>ws_charged := ws_charged s @ [(rate_limit_key env ?q, wk_now k)]\<rparr>"
  have "(r, s') = (r, s) \<or> log_requests (routes_service env k) ?q s = (r, s') \<or>
      log_requests (routes_service env k) ?q ?t = (r, s')"
    using assms unfolding q1 reject_query_credentials_def limit_rate_def Let_def
    by (auto split: option.splits if_splits)
  then show ?thesis using logged [of s] logged [of ?t] by auto
qed

text \<open>A request that the layers let through with the credentials of its headers.\<close>

lemma dispatched:
  assumes "wq_query q = None" "\<not> rl_enabled (rc_rate_limit (we_config env))"
    and "extract_provider_credentials (wq_headers q) = keys" "keys \<noteq> Map.empty"
  shows "fst (build_router env k q s) = fst (dispatch env k (q\<lparr>wq_credentials := Some keys\<rparr>) (ws_db s))"
  using assms
  by (simp add: build_router_def Let_def extract_credentials_def reject_query_credentials_def log_requests_def
      routes_service_def split: prod.split)

text \<open>The switch for local bootstrap is not consulted.\<close>

lemma bootstrap_ignores_switch:
  "bootstrap_route (env\<lparr>we_config := c\<rparr>) k d = bootstrap_route env k d"
  by (simp add: bootstrap_route_def)

end
