(* ===== verification/Router_Client.thy ===== *)
theory Router_Client
  imports Web_Safety
begin

text \<open>
  The client of the router's API (\<^verbatim>\<open>smista-router-client/src\<close>): its errors (\<^verbatim>\<open>error.rs\<close>),
  every operation of the \<open>Client\<close> trait as the backends implement it (\<^verbatim>\<open>client/reqwest.rs\<close>,
  \<^verbatim>\<open>client/isahc.rs\<close>, \<^verbatim>\<open>client/ureq.rs\<close>), and the reader of event streams, with the frames the
  router writes (\<^verbatim>\<open>web/streaming.rs\<close>).  The three backends share every step but the failure of a
  header that is no header value and the read that ends a body; both are written out.  The exchange
  of one request, JSON and the text of library errors are the record \<open>http_lib\<close>.
\<close>

section \<open>Errors (\<^verbatim>\<open>error.rs\<close>)\<close>

datatype client_error =
    ApiFailure nat string string "json option"
  | ClientBuild string
  | DecodeFailed string
  | BadApiKey
  | BadSessionToken
  | RequestBuild string
  | NotAuthenticated
  | TransportFailed string
  | BadUrl string

definition api_failure :: "nat \<Rightarrow> api_error_body \<Rightarrow> client_error" where
  "api_failure status e = ApiFailure status (ae_code e) (ae_message e) (ae_details e)"

section \<open>Frames of an event stream (\<^verbatim>\<open>streaming.rs\<close>)\<close>

text \<open>The expected type of a body, and the codec of bodies and events.  Bodies are bytes.\<close>

datatype body_kind = ErrorKind | BootstrapKind | SignInKind | SignedOutKind | MeKind | SessionKind
  | SessionsKind | DetailKind | DeletedKind | TracesKind | UsageKind | ProvidersKind | ModelsKind
  | TurnKind | StreamKind | PreviewKind | StatusKind | PlainKind

fun kind_of :: "web_body \<Rightarrow> body_kind" where
  "kind_of (ErrorBody _) = ErrorKind"
| "kind_of (BootstrapBody _ _) = BootstrapKind"
| "kind_of (SignInBody _ _) = SignInKind"
| "kind_of SignedOutBody = SignedOutKind"
| "kind_of (MeBody _) = MeKind"
| "kind_of (SessionBody _) = SessionKind"
| "kind_of (SessionsBody _) = SessionsKind"
| "kind_of (DetailBody _) = DetailKind"
| "kind_of DeletedBody = DeletedKind"
| "kind_of (TracesBody _) = TracesKind"
| "kind_of (UsageBody _) = UsageKind"
| "kind_of (ProvidersBody _) = ProvidersKind"
| "kind_of (ModelsBody _ _) = ModelsKind"
| "kind_of (TurnBody _) = TurnKind"
| "kind_of (StreamBody _) = StreamKind"
| "kind_of (PreviewBody _) = PreviewKind"
| "kind_of (StatusBody _ _) = StatusKind"
| "kind_of PlainBody = PlainKind"

record wire_codec =
  xc_body :: "web_body \<Rightarrow> string"
  xc_read :: "body_kind \<Rightarrow> string \<Rightarrow> (string, web_body) result"
  xc_event :: "wire_event \<Rightarrow> string"
  xc_read_event :: "string \<Rightarrow> (string, wire_event) result"
  xc_utf8_error :: "string \<Rightarrow> string"

definition sse_newline :: char where "sse_newline = CHR 0x0A"
definition blank_line :: string where "blank_line = [sse_newline, sse_newline]"
definition data_field :: string where "data_field = ''data:''"

definition sse_frame :: "wire_codec \<Rightarrow> wire_event \<Rightarrow> string" where
  "sse_frame x e = data_field @ '' '' @ xc_event x e @ blank_line"

definition sse_body :: "wire_codec \<Rightarrow> wire_event list \<Rightarrow> string" where
  "sse_body x events = concat (map (\<lambda>e. utf8_bytes (sse_frame x e)) events)"

text \<open>JSON is read back as it was written, and has no line breaks inside.\<close>

definition body_law :: "wire_codec \<Rightarrow> web_body \<Rightarrow> bool" where
  "body_law x b \<longleftrightarrow> xc_read x (kind_of b) (xc_body x b) = Ok b"

definition event_law :: "wire_codec \<Rightarrow> wire_event \<Rightarrow> bool" where
  "event_law x e \<longleftrightarrow> xc_read_event x (xc_event x e) = Ok e \<and> xc_event x e \<noteq> [] \<and> sse_newline \<notin> set (xc_event x e)"

section \<open>Reading a stream (\<^verbatim>\<open>reqwest.rs\<close>, \<^verbatim>\<open>isahc.rs\<close>, \<^verbatim>\<open>ureq.rs\<close>)\<close>

type_synonym stream_result = "(client_error, wire_event) result"

datatype chunk_read = ChunkOf string | ReadFailed string

lemma split_once_str_shorter:
  "split_once_str sep s = Some (a, b) \<Longrightarrow> s = a @ sep @ b"
  by (induction sep s arbitrary: a b rule: split_once_str.induct)
    (auto simp: strip_prefix_Some split: option.splits if_splits)

function drain_records :: "string \<Rightarrow> string list \<times> string" where
  "drain_records buffer =
     (case split_once_str blank_line buffer of
        None \<Rightarrow> ([], buffer)
      | Some (record_bytes, rest) \<Rightarrow> (case drain_records rest of (rs, r) \<Rightarrow> (record_bytes # rs, r)))"
  by auto
termination
  by (relation "measure length") (auto simp: blank_line_def dest!: split_once_str_shorter)

declare drain_records.simps [simp del]

definition data_line :: "string \<Rightarrow> string \<Rightarrow> string" where
  "data_line acc line =
     (case strip_prefix data_field line of
        None \<Rightarrow> acc
      | Some v \<Rightarrow>
          (if acc = [] then acc else acc @ [sse_newline]) @
          (case strip_prefix '' '' v of Some r \<Rightarrow> r | None \<Rightarrow> v))"

definition parse_record :: "wire_codec \<Rightarrow> string \<Rightarrow> stream_result list" where
  "parse_record x record_bytes =
     (case from_utf8 record_bytes of
        None \<Rightarrow> [Err (DecodeFailed (xc_utf8_error x record_bytes))]
      | Some txt \<Rightarrow>
          (let data = foldl data_line [] (str_lines txt)
           in if data = [] then []
              else (case xc_read_event x data of
                      Inr e \<Rightarrow> [Ok e]
                    | Inl m \<Rightarrow> [Err (DecodeFailed m)])))"

fun is_final :: "stream_result \<Rightarrow> bool" where
  "is_final (Inr e) = is_turn_end e"
| "is_final (Inl _) = False"

text \<open>The state of the stream: the chunks to come, the bytes of an open record, the events to
  deliver, and whether the end was seen.\<close>

function sse_events :: "wire_codec \<Rightarrow> chunk_read list \<Rightarrow> string \<Rightarrow> stream_result list \<Rightarrow> bool \<Rightarrow> stream_result list" where
  "sse_events x chunks buffer queue finished =
     (case queue of
        event # rest \<Rightarrow> event # sse_events x chunks buffer rest (finished \<or> is_final event)
      | [] \<Rightarrow>
          if finished then []
          else (case chunks of
                  [] \<Rightarrow> sse_events x [] [] (parse_record x buffer) True
                | ReadFailed e # later \<Rightarrow> sse_events x later buffer [Err (TransportFailed e)] True
                | ChunkOf c # later \<Rightarrow>
                    sse_events x later (snd (drain_records (buffer @ c)))
                      (concat (map (parse_record x) (fst (drain_records (buffer @ c))))) False))"
  by auto
termination
  by (relation "measures [\<lambda>(x, cs, b, q, f). if f then 0 else Suc (length cs), \<lambda>(x, cs, b, q, f). length q]") auto

declare sse_events.simps [simp del]

text \<open>\<open>isahc\<close> and \<open>ureq\<close> read into a buffer: an empty read is the end of the body.\<close>

definition until_closed :: "chunk_read list \<Rightarrow> chunk_read list" where
  "until_closed chunks = takeWhile (\<lambda>c. c \<noteq> ChunkOf []) chunks"

definition sse_events_reading :: "wire_codec \<Rightarrow> chunk_read list \<Rightarrow> stream_result list" where
  "sse_events_reading x chunks = sse_events x (until_closed chunks) [] [] False"

subsection \<open>However the bytes are cut, the events arrive\<close>

lemma split_stable:
  "split_once_str sep s = Some (a, b) \<Longrightarrow> split_once_str sep (s @ t) = Some (a, b @ t)"
proof (induction sep s arbitrary: a b rule: split_once_str.induct)
  case (2 sep d ds)
  show ?case
  proof (cases "strip_prefix sep (d # ds)")
    case (Some rest)
    then have "strip_prefix sep (d # ds @ t) = Some (rest @ t)" by (simp add: strip_prefix_Some)
    with Some 2(2) show ?thesis by simp
  next
    case None
    with 2(2) obtain a' where a': "split_once_str sep ds = Some (a', b)" "a = d # a'" by auto
    show ?thesis
    proof (cases "strip_prefix sep (d # ds @ t)")
      case (Some rest)
      then have cut: "sep @ rest = (d # ds) @ t" by (simp add: strip_prefix_Some)
      have "ds = a' @ sep @ b" using split_once_str_shorter [OF a'(1)] .
      then have len: "length sep \<le> length (d # ds)" by simp
      have "take (length sep) (sep @ rest) = sep" by simp
      then have "take (length sep) (d # ds) = sep" unfolding cut take_append using len by simp
      then have "strip_prefix sep (d # ds) = Some (drop (length sep) (d # ds))"
        by (metis append_take_drop_id strip_prefix_Some)
      with None show ?thesis by simp
    next
      case None
      with a' 2(1) \<open>strip_prefix sep (d # ds) = None\<close> show ?thesis by simp
    qed
  qed
next
  case (1 sep)
  then show ?case by (cases t) (simp_all add: strip_prefix_def split: if_splits)
qed

lemma drain_append:
  "drain_records (b @ c) =
     (let (rs, r) = drain_records b; (ts, u) = drain_records (r @ c) in (rs @ ts, u))"
proof (induction b rule: drain_records.induct)
  case (1 b)
  show ?case
  proof (cases "split_once_str blank_line b")
    case None
    then show ?thesis by (simp add: drain_records.simps [of b] Let_def)
  next
    case (Some p)
    obtain a r where p: "p = (a, r)" by (cases p)
    with Some split_stable [of blank_line b a r c] 1 [OF Some p [symmetric]]
    show ?thesis
      by (simp add: drain_records.simps [of b] drain_records.simps [of "b @ c"] Let_def split: prod.splits)
  qed
qed

lemma drain_rest: "drain_records b = (rs, r) \<Longrightarrow> drain_records r = ([], r)"
proof (induction b arbitrary: rs rule: drain_records.induct)
  case (1 b)
  show ?case
  proof (cases "split_once_str blank_line b")
    case None
    with 1(2) have "b = r" by (simp add: drain_records.simps [of b])
    with None show ?thesis by (simp add: drain_records.simps [of r])
  next
    case (Some p)
    obtain a t where p: "p = (a, t)" by (cases p)
    from Some p 1(2) obtain rs' where "drain_records t = (rs', r)"
      by (auto simp: drain_records.simps [of b] split: prod.splits)
    with 1(1) [OF Some p [symmetric]] show ?thesis by blast
  qed
qed

lemma split_at_blank:
  "sse_newline \<notin> set w \<Longrightarrow> split_once_str blank_line (w @ blank_line @ s) = Some (w, s)"
proof (induction w)
  case Nil
  then show ?case by (simp add: blank_line_def strip_prefix_def)
next
  case (Cons c w)
  then show ?case by (auto simp: blank_line_def strip_prefix_def)
qed

lemma drain_frames:
  assumes "\<And>w. w \<in> set ws \<Longrightarrow> sse_newline \<notin> set w"
  shows "drain_records (concat (map (\<lambda>w. w @ blank_line) ws)) = (ws, [])"
  using assms
proof (induction ws)
  case Nil
  show ?case by (simp add: drain_records.simps blank_line_def)
next
  case (Cons w ws)
  then show ?case
    using split_at_blank [of w "concat (map (\<lambda>w. w @ blank_line) ws)"]
    by (simp add: drain_records.simps [of "w @ blank_line @ concat (map (\<lambda>w. w @ blank_line) ws)"])
qed

lemma utf8_append: "utf8_bytes (a @ b) = utf8_bytes a @ utf8_bytes b"
  by (induction a) simp_all

lemma utf8_no_newline: "sse_newline \<notin> set w \<Longrightarrow> sse_newline \<notin> set (utf8_bytes w)"
proof (induction w)
  case (Cons c w)
  have "code c div 64 < 4" using code_less [of c] by linarith
  then have "code (char_of (192 + code c div 64)) = 192 + code c div 64"
       "code (char_of (128 + code c mod 64)) = 128 + code c mod 64"
    by (simp_all add: code_def)
  moreover have "code sse_newline = 10" by (simp add: sse_newline_def code_def)
  ultimately have "code (char_of (192 + code c div 64)) \<noteq> code sse_newline"
      "code (char_of (128 + code c mod 64)) \<noteq> code sse_newline" by simp_all
  then have "char_of (192 + code c div 64) \<noteq> sse_newline" "char_of (128 + code c mod 64) \<noteq> sse_newline"
    by metis+
  with Cons show ?case by (auto simp: sse_newline_def)
qed simp

lemma frame_bytes:
  "utf8_bytes (sse_frame x e) = utf8_bytes (data_field @ '' '' @ xc_event x e) @ blank_line"
  by (simp add: sse_frame_def utf8_append blank_line_def sse_newline_def code_def)

lemma sse_body_records:
  assumes "list_all (event_law x) events"
  shows "drain_records (sse_body x events) =
    (map (\<lambda>e. utf8_bytes (data_field @ '' '' @ xc_event x e)) events, [])"
proof -
  let ?ws = "map (\<lambda>e. utf8_bytes (data_field @ '' '' @ xc_event x e)) events"
  have "sse_newline \<notin> set (data_field @ '' '' @ xc_event x e)" if "e \<in> set events" for e
    using assms that by (auto simp: list_all_iff event_law_def data_field_def sse_newline_def)
  then have "sse_newline \<notin> set w" if "w \<in> set ?ws" for w
    using that utf8_no_newline by auto
  then have "drain_records (concat (map (\<lambda>w. w @ blank_line) ?ws)) = (?ws, [])" by (rule drain_frames)
  then show ?thesis by (simp only: sse_body_def frame_bytes map_map comp_def)
qed

text \<open>A frame is read as its event.\<close>

lemma split_newline_free: "sse_newline \<notin> set w \<Longrightarrow> split_when (\<lambda>c. c = CHR 0x0A) w = [w]"
  by (induction w) (auto simp: sse_newline_def)

lemma parse_frame:
  assumes "event_law x e"
  shows "parse_record x (utf8_bytes (data_field @ '' '' @ xc_event x e)) = [Ok e]"
proof -
  let ?t = "data_field @ '' '' @ xc_event x e"
  have law: "xc_read_event x (xc_event x e) = Ok e" "xc_event x e \<noteq> []" "sse_newline \<notin> set (xc_event x e)"
    using assms by (simp_all add: event_law_def)
  have "sse_newline \<notin> set ?t" using law(3) by (simp add: data_field_def sse_newline_def)
  then have "split_when (\<lambda>c. c = CHR 0x0A) ?t = [?t]" by (rule split_newline_free)
  then have lines: "str_lines ?t = [?t]" using law(2) by (simp add: str_lines_def data_field_def)
  have "strip_prefix data_field ?t = Some ('' '' @ xc_event x e)" by (simp add: strip_prefix_Some)
  moreover have "strip_prefix '' '' ('' '' @ xc_event x e) = Some (xc_event x e)" by (simp add: strip_prefix_Some)
  ultimately have "data_line [] ?t = xc_event x e" unfolding data_line_def by simp
  then have "foldl data_line [] (str_lines ?t) = xc_event x e" unfolding lines by simp
  then show ?thesis unfolding parse_record_def from_utf8_bytes using law by simp
qed

lemma parse_nothing: "parse_record x [] = []"
  by (simp add: parse_record_def str_lines_def)

text \<open>The queue is delivered up to its end.\<close>

lemma deliver_open:
  "list_all (\<lambda>e. \<not> is_turn_end e) es \<Longrightarrow>
   sse_events x cs b (map Inr es) False = map Inr es @ sse_events x cs b [] False"
proof (induction es)
  case (Cons e es)
  then show ?case by (simp add: sse_events.simps [of x cs b "Inr e # map Inr es"])
qed simp

lemma deliver_closed: "sse_events x cs b q True = q"
proof (induction q)
  case Nil
  show ?case by (simp add: sse_events.simps)
next
  case (Cons e q)
  then show ?case by (simp add: sse_events.simps [of x cs b "e # q"])
qed

lemma deliver_last:
  "es \<noteq> [] \<Longrightarrow> list_all (\<lambda>e. \<not> is_turn_end e) (butlast es) \<Longrightarrow> is_turn_end (last es) \<Longrightarrow>
   sse_events x cs b (map Inr es) False = map Inr es"
proof (induction es)
  case (Cons e es)
  then show ?case
    by (cases "es = []") (simp_all add: sse_events.simps [of x cs b "Inr e # map Inr es"]
        sse_events.simps [of x cs b "[Inr e]"] deliver_closed)
qed simp

lemma chunks_delivered:
  assumes "drain_records b = ([], b)" "drain_records (b @ concat cs) = (rs, [])"
    and "concat (map (parse_record x) rs) = map Inr es" "list_all (\<lambda>e. \<not> is_turn_end e) (butlast es)"
  shows "sse_events x (map ChunkOf cs) b [] False = map Inr es"
  using assms
proof (induction cs arbitrary: b rs es)
  case Nil
  then have "b = []" "rs = []" by simp_all
  with Nil show ?case by (simp add: sse_events.simps [of x "[]" "[]"] parse_nothing deliver_closed)
next
  case (Cons c cs)
  obtain ts t where t: "drain_records (b @ c) = (ts, t)" by fastforce
  obtain us where us: "drain_records (t @ concat cs) = (us, [])" "rs = ts @ us"
    using Cons.prems(2) drain_append [of "b @ c" "concat cs"] t by (auto simp: Let_def split: prod.splits)
  obtain es1 es2 where es: "es = es1 @ es2" "concat (map (parse_record x) ts) = map Inr es1"
      "concat (map (parse_record x) us) = map Inr es2"
    using Cons.prems(3) us(2) by (auto simp: map_eq_append_conv append_eq_map_conv)
  have step: "sse_events x (map ChunkOf (c # cs)) b [] False = sse_events x (map ChunkOf cs) t (map Inr es1) False"
    by (simp add: sse_events.simps [of x "ChunkOf c # map ChunkOf cs"] t es(2))
  show ?case
  proof (cases "list_all (\<lambda>e. \<not> is_turn_end e) es1")
    case True
    have "list_all (\<lambda>e. \<not> is_turn_end e) (butlast es2)"
      using Cons.prems(4) es(1) by (cases "es2 = []") (simp_all add: butlast_append)
    then have "sse_events x (map ChunkOf cs) t [] False = map Inr es2"
      using Cons.IH [OF drain_rest [OF t] us(1) es(3)] by simp
    with True step deliver_open [OF True] es(1) show ?thesis by simp
  next
    case False
    then have "es2 = []" using Cons.prems(4) es(1) by (auto simp: butlast_append split: if_splits)
    then have all: "es = es1" using es(1) by simp
    have "es1 \<noteq> []" using False by auto
    moreover have "list_all (\<lambda>e. \<not> is_turn_end e) (butlast es1 @ [last es1]) \<longleftrightarrow> \<not> is_turn_end (last es1)"
      using Cons.prems(4) all by simp
    ultimately have "is_turn_end (last es1)" using False by simp
    with \<open>es1 \<noteq> []\<close> show ?thesis using deliver_last [of es1 x "map ChunkOf cs" t] Cons.prems(4) step all by simp
  qed
qed

lemma streamed_events_read:
  assumes "list_all (event_law x) events" "list_all (\<lambda>e. \<not> is_turn_end e) (butlast events)" "concat cs = sse_body x events"
  shows "sse_events x (map ChunkOf cs) [] [] False = map Inr events"
proof (rule chunks_delivered)
  show "drain_records [] = ([], [])" by (simp add: drain_records.simps blank_line_def)
  show "drain_records ([] @ concat cs) = (map (\<lambda>e. utf8_bytes (data_field @ '' '' @ xc_event x e)) events, [])"
    using sse_body_records [OF assms(1)] assms(3) by simp
  show "concat (map (parse_record x) (map (\<lambda>e. utf8_bytes (data_field @ '' '' @ xc_event x e)) events)) = map Inr events"
    using assms(1) by (induction events) (simp_all add: parse_frame del: append.simps)
qed (rule assms(2))

lemma reading_same:
  "ChunkOf [] \<notin> set cs \<Longrightarrow> sse_events_reading x cs = sse_events x cs [] [] False"
proof -
  assume "ChunkOf [] \<notin> set cs"
  then have "until_closed cs = cs" unfolding until_closed_def by (induction cs) auto
  then show ?thesis by (simp add: sse_events_reading_def)
qed

text \<open>What follows the end of a turn in the same chunk is still delivered, and an event that does not
  decode does not end the stream.\<close>

lemma delivered_after_the_end:
  "is_turn_end e \<Longrightarrow> parse_record x r = [Ok e] \<Longrightarrow> drain_records c = ([r, r'], b) \<Longrightarrow>
   sse_events x [ChunkOf c] [] [] False = Ok e # parse_record x r'"
  by (simp add: sse_events.simps [of x "[ChunkOf c]"] sse_events.simps [of x "[]" b "Inr e # q" for q] deliver_closed)

lemma delivered_after_a_bad_record:
  "parse_record x r = [Err m] \<Longrightarrow> parse_record x r' = [Ok e] \<Longrightarrow> is_turn_end e \<Longrightarrow> drain_records c = ([r, r'], b) \<Longrightarrow>
   sse_events x [ChunkOf c] [] [] False = [Err m, Ok e]"
  by (simp add: sse_events.simps [of x "[ChunkOf c]"] sse_events.simps [of x "[]" b "q # qs" for q qs] deliver_closed)

section \<open>Requests (\<^verbatim>\<open>reqwest.rs\<close>, \<^verbatim>\<open>isahc.rs\<close>, \<^verbatim>\<open>ureq.rs\<close>)\<close>

text \<open>The base URL: its scheme and authority, and whether it can be a base.\<close>

record base_url =
  bu_origin :: string
  bu_can_be_base :: bool

record client_state =
  cs_base :: base_url
  cs_api_key :: "string option"
  cs_token :: "string option"
  cs_keys :: provider_keys

record http_call =
  hc_method :: http_method
  hc_origin :: string
  hc_path :: string
  hc_query :: "(string \<times> string) list"
  hc_headers :: headers
  hc_payload :: web_payload

record http_answer =
  ha_status :: nat
  ha_chunks :: "chunk_read list"

datatype http_backend = Reqwest | Isahc | Ureq

text \<open>\<open>hl_exchange\<close> sends one request over the network \<open>'w\<close>; it fails when no response arrives.\<close>

record 'w http_lib =
  hl_backend :: http_backend
  hl_exchange :: "http_call \<Rightarrow> 'w \<Rightarrow> (string, http_answer) result \<times> 'w"
  hl_header_error :: string
  hl_codec :: wire_codec
  hl_auth :: auth_runtime

type_synonym ('w, 'a) client_io = "client_state \<times> 'w \<Rightarrow> (client_error, 'a) result \<times> (client_state \<times> 'w)"

definition bind_c :: "('w, 'a) client_io \<Rightarrow> ('a \<Rightarrow> ('w, 'b) client_io) \<Rightarrow> ('w, 'b) client_io" where
  "bind_c m f s = (case m s of (Inl e, t) \<Rightarrow> (Err e, t) | (Inr a, t) \<Rightarrow> f a t)"

definition done_c :: "(client_error, 'a) result \<Rightarrow> ('w, 'a) client_io" where
  "done_c r s = (r, s)"

definition fresh_client :: "base_url \<Rightarrow> client_state" where
  "fresh_client base = \<lparr>cs_base = base, cs_api_key = None, cs_token = None, cs_keys = []\<rparr>"

definition with_api_key :: "string \<Rightarrow> client_state \<Rightarrow> client_state" where
  "with_api_key key c = c\<lparr>cs_api_key := Some key\<rparr>"

definition with_provider_credentials :: "provider_keys \<Rightarrow> client_state \<Rightarrow> client_state" where
  "with_provider_credentials keys c = c\<lparr>cs_keys := keys\<rparr>"

definition with_session_token :: "string \<Rightarrow> client_state \<Rightarrow> client_state" where
  "with_session_token token c = c\<lparr>cs_token := Some token\<rparr>"

text \<open>An absolute path replaces the path of the base.\<close>

definition call_to :: "http_method \<Rightarrow> string \<Rightarrow> ('w, http_call) client_io" where
  "call_to m p s =
     (let base = cs_base (fst s)
      in if bu_can_be_base base
         then (Ok \<lparr>hc_method = m, hc_origin = bu_origin base, hc_path = p, hc_query = [], hc_headers = [],
                   hc_payload = NoPayload\<rparr>, s)
         else (Err (BadUrl ''relative URL with a cannot-be-a-base base''), s))"

definition add_header :: "string \<Rightarrow> string \<Rightarrow> http_call \<Rightarrow> http_call" where
  "add_header n v call = call\<lparr>hc_headers := hc_headers call @ [(n, v)]\<rparr>"

definition held_token :: "('w, string) client_io" where
  "held_token s = (case cs_token (fst s) of Some t \<Rightarrow> (Ok t, s) | None \<Rightarrow> (Err NotAuthenticated, s))"

definition authorize :: "http_call \<Rightarrow> ('w, http_call) client_io" where
  "authorize call = bind_c held_token (\<lambda>token. done_c (Ok (add_header ''Authorization'' (''Bearer '' @ token) call)))"

definition provider_headers :: "http_call \<Rightarrow> ('w, http_call) client_io" where
  "provider_headers call s =
     (Ok (foldl (\<lambda>c (n, v). add_header n v c) call (headers_map (cs_keys (fst s)))), s)"

definition json_payload :: "web_payload \<Rightarrow> http_call \<Rightarrow> http_call" where
  "json_payload p call = (add_header ''Content-Type'' ''application/json'' call)\<lparr>hc_payload := p\<rparr>"

text \<open>\<open>HeaderValue::from_str\<close>.  \<open>isahc\<close> reports a bad value while it builds the request, the other
  two when they send it.\<close>

definition header_value_char :: "char \<Rightarrow> bool" where
  "header_value_char c \<longleftrightarrow> 32 \<le> code c \<and> code c \<noteq> 127 \<or> code c = 9"

definition built :: "'w http_lib \<Rightarrow> http_call \<Rightarrow> ('w, http_call) client_io" where
  "built lib call =
     done_c (if list_all (\<lambda>(_, v). list_all header_value_char v) (hc_headers call) then Ok call
             else Err (case hl_backend lib of
                         Isahc \<Rightarrow> RequestBuild (hl_header_error lib)
                       | _ \<Rightarrow> TransportFailed (hl_header_error lib)))"

definition exchange :: "'w http_lib \<Rightarrow> http_call \<Rightarrow> ('w, http_answer) client_io" where
  "exchange lib call s =
     (case hl_exchange lib call (snd s) of
        (Inl e, w) \<Rightarrow> (Err (TransportFailed e), (fst s, w))
      | (Inr a, w) \<Rightarrow> (Ok a, (fst s, w)))"

text \<open>The whole body, read before it is decoded.\<close>

fun whole_body :: "chunk_read list \<Rightarrow> (string, string) result" where
  "whole_body [] = Ok []"
| "whole_body (ChunkOf c # cs) = (case whole_body cs of Inl e \<Rightarrow> Err e | Inr s \<Rightarrow> Ok (c @ s))"
| "whole_body (ReadFailed e # cs) = Err e"

definition read_body :: "'w http_lib \<Rightarrow> body_kind \<Rightarrow> http_answer \<Rightarrow> (string, web_body) result" where
  "read_body lib kind a =
     (case whole_body (ha_chunks a) of Inl e \<Rightarrow> Err e | Inr s \<Rightarrow> xc_read (hl_codec lib) kind s)"

definition is_success :: "nat \<Rightarrow> bool" where
  "is_success status \<longleftrightarrow> 200 \<le> status \<and> status < 300"

definition decode_api_error :: "'w http_lib \<Rightarrow> http_answer \<Rightarrow> client_error" where
  "decode_api_error lib a =
     (case read_body lib ErrorKind a of
        Inr (ErrorBody e) \<Rightarrow> api_failure (ha_status a) e
      | Inr _ \<Rightarrow> DecodeFailed []
      | Inl m \<Rightarrow> DecodeFailed m)"

definition decode_answer :: "'w http_lib \<Rightarrow> body_kind \<Rightarrow> http_answer \<Rightarrow> (client_error, web_body) result" where
  "decode_answer lib kind a =
     (if is_success (ha_status a)
      then (case read_body lib kind a of Inr b \<Rightarrow> Ok b | Inl m \<Rightarrow> Err (DecodeFailed m))
      else Err (decode_api_error lib a))"

definition send :: "'w http_lib \<Rightarrow> body_kind \<Rightarrow> http_call \<Rightarrow> ('w, web_body) client_io" where
  "send lib kind call =
     bind_c (built lib call) (\<lambda>call. bind_c (exchange lib call) (\<lambda>a. done_c (decode_answer lib kind a)))"

definition stream_of :: "'w http_lib \<Rightarrow> http_answer \<Rightarrow> stream_result list" where
  "stream_of lib a =
     (case hl_backend lib of
        Reqwest \<Rightarrow> sse_events (hl_codec lib) (ha_chunks a) [] [] False
      | _ \<Rightarrow> sse_events_reading (hl_codec lib) (ha_chunks a))"

definition open_stream :: "'w http_lib \<Rightarrow> http_call \<Rightarrow> ('w, stream_result list) client_io" where
  "open_stream lib call =
     bind_c (built lib (add_header ''Accept'' ''text/event-stream'' call)) (\<lambda>call.
     bind_c (exchange lib call) (\<lambda>a.
       done_c (if is_success (ha_status a) then Ok (stream_of lib a) else Err (decode_api_error lib a))))"

section \<open>The operations of the trait (\<^verbatim>\<open>client.rs\<close>)\<close>

definition api_key_header :: string where
  "api_key_header = ''X-Smista-Api-Key''"

definition client_status :: "'w http_lib \<Rightarrow> ('w, web_body) client_io" where
  "client_status lib = bind_c (call_to GET ''/status'') (send lib StatusKind)"

definition client_bootstrap :: "'w http_lib \<Rightarrow> ('w, web_body) client_io" where
  "client_bootstrap lib =
     bind_c (call_to POST ''/api/v1/auth/bootstrap'') (\<lambda>call.
     bind_c (send lib BootstrapKind call) (\<lambda>b. \<lambda>(c, w).
       (case b of
          BootstrapBody user key \<Rightarrow>
            (case parse_api_key_user_id (hl_auth lib) key of
               Inl _ \<Rightarrow> (Err BadApiKey, (c, w))
             | Inr _ \<Rightarrow> (Ok b, (c\<lparr>cs_api_key := Some key\<rparr>, w)))
        | _ \<Rightarrow> (Ok b, (c, w)))))"

definition client_sign_in :: "'w http_lib \<Rightarrow> ('w, web_body) client_io" where
  "client_sign_in lib =
     bind_c (call_to POST ''/api/v1/auth/sign-in'') (\<lambda>call.
     bind_c (\<lambda>s. (Ok (case cs_api_key (fst s) of Some key \<Rightarrow> add_header api_key_header key call | None \<Rightarrow> call), s)) (\<lambda>call.
     bind_c (send lib SignInKind call) (\<lambda>b. \<lambda>(c, w).
       (case b of
          SignInBody token expires \<Rightarrow>
            (case parse_session_token_id (hl_auth lib) token of
               Inl _ \<Rightarrow> (Err BadSessionToken, (c, w))
             | Inr _ \<Rightarrow> (Ok b, (c\<lparr>cs_token := Some token\<rparr>, w)))
        | _ \<Rightarrow> (Ok b, (c, w))))))"

definition client_sign_out :: "'w http_lib \<Rightarrow> ('w, web_body) client_io" where
  "client_sign_out lib =
     bind_c (call_to POST ''/api/v1/auth/sign-out'') (\<lambda>call.
     bind_c (authorize call) (\<lambda>call.
     bind_c (send lib SignedOutKind call) (\<lambda>b. \<lambda>(c, w). (Ok b, (c\<lparr>cs_token := None\<rparr>, w)))))"

text \<open>An authenticated call without a body, and one with a body.\<close>

definition plain_call :: "'w http_lib \<Rightarrow> http_method \<Rightarrow> string \<Rightarrow> body_kind \<Rightarrow> ('w, web_body) client_io" where
  "plain_call lib m p kind =
     bind_c (call_to m p) (\<lambda>call. bind_c (authorize call) (send lib kind))"

definition json_call ::
  "'w http_lib \<Rightarrow> http_method \<Rightarrow> string \<Rightarrow> web_payload \<Rightarrow> body_kind \<Rightarrow> ('w, web_body) client_io" where
  "json_call lib m p payload kind =
     bind_c (call_to m p) (\<lambda>call. bind_c (authorize call) (\<lambda>call. send lib kind (json_payload payload call)))"

definition turn_call_with ::
  "string \<Rightarrow> web_payload \<Rightarrow> (http_call \<Rightarrow> ('w, 'a) client_io) \<Rightarrow> ('w, 'a) client_io" where
  "turn_call_with p payload deliver =
     bind_c (call_to POST p) (\<lambda>call.
     bind_c (authorize call) (\<lambda>call.
     bind_c (provider_headers call) (\<lambda>call. deliver (json_payload payload call))))"

definition query_call ::
  "'w http_lib \<Rightarrow> string \<Rightarrow> (string \<times> string) list \<Rightarrow> body_kind \<Rightarrow> ('w, web_body) client_io" where
  "query_call lib p pairs kind =
     bind_c (call_to GET p) (\<lambda>call. bind_c (authorize call) (\<lambda>call. send lib kind (call\<lparr>hc_query := pairs\<rparr>)))"

definition session_path :: "string \<Rightarrow> string \<Rightarrow> string" where
  "session_path i rest = ''/api/v1/sessions/'' @ i @ rest"

definition opt_pair :: "string \<Rightarrow> string option \<Rightarrow> (string \<times> string) list" where
  "opt_pair n v = (case v of Some x \<Rightarrow> [(n, x)] | None \<Rightarrow> [])"

definition client_me :: "'w http_lib \<Rightarrow> ('w, web_body) client_io" where
  "client_me lib = plain_call lib GET ''/api/v1/auth/me'' MeKind"

definition client_create_session ::
  "'w http_lib \<Rightarrow> string \<Rightarrow> string option \<Rightarrow> string option \<Rightarrow> ('w, web_body) client_io" where
  "client_create_session lib title scope key_id =
     json_call lib POST ''/api/v1/sessions'' (CreateSessionPayload title scope key_id) SessionKind"

definition client_list_sessions :: "'w http_lib \<Rightarrow> string option \<Rightarrow> string option \<Rightarrow> ('w, web_body) client_io" where
  "client_list_sessions lib scope title =
     query_call lib ''/api/v1/sessions'' (opt_pair ''scope'' scope @ opt_pair ''title'' title) SessionsKind"

definition client_get_session :: "'w http_lib \<Rightarrow> string \<Rightarrow> ('w, web_body) client_io" where
  "client_get_session lib i = plain_call lib GET (session_path i []) DetailKind"

definition client_update_session ::
  "'w http_lib \<Rightarrow> string \<Rightarrow> string option \<Rightarrow> bool option \<Rightarrow> ('w, web_body) client_io" where
  "client_update_session lib i title archived =
     json_call lib PUT (session_path i []) (UpdateSessionPayload title archived) SessionKind"

definition client_delete_session :: "'w http_lib \<Rightarrow> string \<Rightarrow> ('w, web_body) client_io" where
  "client_delete_session lib i = plain_call lib DELETE (session_path i []) DeletedKind"

definition client_execute :: "'w http_lib \<Rightarrow> string \<Rightarrow> execute_request \<Rightarrow> ('w, web_body) client_io" where
  "client_execute lib i request =
     turn_call_with (session_path i ''/execute'') (ExecutePayload request) (send lib TurnKind)"

definition client_continue_run :: "'w http_lib \<Rightarrow> string \<Rightarrow> continue_request \<Rightarrow> ('w, web_body) client_io" where
  "client_continue_run lib i request =
     turn_call_with (session_path i ''/continue'') (ContinuePayload request) (send lib TurnKind)"

definition client_stream_execute ::
  "'w http_lib \<Rightarrow> string \<Rightarrow> execute_request \<Rightarrow> ('w, stream_result list) client_io" where
  "client_stream_execute lib i request =
     turn_call_with (session_path i ''/execute'') (ExecutePayload request) (open_stream lib)"

definition client_stream_continue ::
  "'w http_lib \<Rightarrow> string \<Rightarrow> continue_request \<Rightarrow> ('w, stream_result list) client_io" where
  "client_stream_continue lib i request =
     turn_call_with (session_path i ''/continue'') (ContinuePayload request) (open_stream lib)"

definition client_preview :: "'w http_lib \<Rightarrow> string \<Rightarrow> execute_request \<Rightarrow> ('w, web_body) client_io" where
  "client_preview lib i request =
     turn_call_with (session_path i ''/preview'') (ExecutePayload request) (send lib PreviewKind)"

definition client_session_traces :: "'w http_lib \<Rightarrow> string \<Rightarrow> nat option \<Rightarrow> nat option \<Rightarrow> ('w, web_body) client_io" where
  "client_session_traces lib i limit offset =
     query_call lib (session_path i ''/traces'')
       (opt_pair ''limit'' (map_option show_nat limit) @ opt_pair ''offset'' (map_option show_nat offset)) TracesKind"

definition client_list_providers :: "'w http_lib \<Rightarrow> ('w, web_body) client_io" where
  "client_list_providers lib = plain_call lib GET ''/api/v1/llm/providers'' ProvidersKind"

definition client_list_models :: "'w http_lib \<Rightarrow> ('w, web_body) client_io" where
  "client_list_models lib =
     bind_c (call_to GET ''/api/v1/llm/models'') (\<lambda>call.
     bind_c (authorize call) (\<lambda>call.
     bind_c (provider_headers call) (send lib ModelsKind)))"

definition client_session_usage :: "'w http_lib \<Rightarrow> string \<Rightarrow> ('w, web_body) client_io" where
  "client_session_usage lib i = plain_call lib GET (session_path i ''/usage'') UsageKind"

end
