(* ===== verification/Skills.thy ===== *)
theory Skills
  imports Cli_Config
begin

text \<open>
  The skills of the command line client (\<^verbatim>\<open>smista-cli/src/skills\<close>): splitting a
  \<^verbatim>\<open>SKILL.md\<close> into front matter and body (\<^verbatim>\<open>front_matter.rs\<close>), discovering the skills of the
  project and of the user with their warnings, and loading the body of one (\<^verbatim>\<open>store.rs\<close>,
  \<^verbatim>\<open>entry.rs\<close>, \<^verbatim>\<open>warning.rs\<close>, \<^verbatim>\<open>error.rs\<close>).  The file system and the YAML
  parser are fields of \<open>skill_host\<close>.  The lemmas show that the search loop finds exactly the first
  closing fence line, that a project skill takes the place of a global one, and that every
  discovered skill loads.
\<close>

section \<open>Front matter (\<^verbatim>\<open>front_matter.rs\<close>)\<close>

record front_matter =
  fm_name :: "string option"
  fm_description :: "string option"

definition empty_front_matter :: front_matter where
  "empty_front_matter = \<lparr>fm_name = None, fm_description = None\<rparr>"

definition parse_front_matter ::
  "(string \<Rightarrow> (string, front_matter) result) \<Rightarrow> string \<Rightarrow> (string, front_matter) result" where
  "parse_front_matter yaml raw =
     (if trim_text raw = [] then Ok empty_front_matter else yaml raw)"

definition line_feed :: char where "line_feed = CHR 0x0A"
definition carriage_return :: char where "carriage_return = CHR 0x0D"
definition dashes :: string where "dashes = ''---''"

definition begins_with :: "string \<Rightarrow> string \<Rightarrow> bool" where
  "begins_with p s \<longleftrightarrow> take (length p) s = p"

fun find_text :: "string \<Rightarrow> string \<Rightarrow> nat option" where
  "find_text p [] = (if p = [] then Some 0 else None)"
| "find_text p (c # s) =
     (if begins_with p (c # s) then Some 0 else map_option Suc (find_text p s))"

definition strip_line_end :: "string \<Rightarrow> string" where
  "strip_line_end s =
     (case strip_prefix [carriage_return, line_feed] s of
        Some r \<Rightarrow> r
      | None \<Rightarrow> (case strip_prefix [line_feed] s of Some r \<Rightarrow> r | None \<Rightarrow> s))"

definition ends_line :: "string \<Rightarrow> bool" where
  "ends_line s \<longleftrightarrow> s = [] \<or> begins_with [line_feed] s \<or> begins_with [carriage_return] s"

definition at_line_start :: "string \<Rightarrow> nat \<Rightarrow> bool" where
  "at_line_start s i \<longleftrightarrow> i = 0 \<or> s ! (i - 1) = line_feed"

lemma find_text_bound: "find_text p s = Some i \<Longrightarrow> i + length p \<le> length s"
proof (induction s arbitrary: i)
  case (Cons c s)
  show ?case
  proof (cases "begins_with p (c # s)")
    case True
    then have "length (take (length p) (c # s)) = length p" by (simp add: begins_with_def)
    with True Cons.prems show ?thesis by simp
  next
    case False
    with Cons show ?thesis by auto
  qed
qed (simp split: if_splits)

function split_loop :: "string \<Rightarrow> nat \<Rightarrow> (string \<times> string) option" where
  "split_loop s search_from =
     (case find_text dashes (drop search_from s) of
        None \<Rightarrow> None
      | Some offset \<Rightarrow>
          (let fence = search_from + offset; after_fence = drop (fence + 3) s
           in if at_line_start s fence \<and> ends_line after_fence
              then Some (take fence s, strip_line_end after_fence)
              else split_loop s (fence + 3)))"
  by pat_completeness auto
termination
proof (relation "measure (\<lambda>(s, k). length s - k)")
  fix s :: string and k i x y
  assume "find_text dashes (drop k s) = Some i" "x = k + i"
  from find_text_bound [OF this(1)] this(2)
  show "((s, x + 3), s, k) \<in> measure (\<lambda>(s, k). length s - k)" by (simp add: dashes_def)
qed simp

declare split_loop.simps [simp del]

definition split_front_matter :: "string \<Rightarrow> (string \<times> string) option" where
  "split_front_matter contents =
     (case strip_prefix (dashes @ [line_feed]) contents of
        Some after_open \<Rightarrow> split_loop after_open 0
      | None \<Rightarrow>
          (case strip_prefix (dashes @ [carriage_return, line_feed]) contents of
             Some after_open \<Rightarrow> split_loop after_open 0
           | None \<Rightarrow> None))"

subsection \<open>The loop finds the first fence line\<close>

definition fence_at :: "string \<Rightarrow> nat \<Rightarrow> bool" where
  "fence_at s i \<longleftrightarrow> begins_with dashes (drop i s) \<and> at_line_start s i \<and> ends_line (drop (i + 3) s)"

definition cut_at :: "string \<Rightarrow> nat \<Rightarrow> string \<times> string" where
  "cut_at s i = (take i s, strip_line_end (drop (i + 3) s))"

lemma find_text_first:
  "find_text p s = Some i \<Longrightarrow> begins_with p (drop i s) \<and> (\<forall>j<i. \<not> begins_with p (drop j s))"
proof (induction s arbitrary: i)
  case (Cons c s)
  show ?case
  proof (cases "begins_with p (c # s)")
    case True
    with Cons.prems show ?thesis by simp
  next
    case False
    with Cons.prems obtain k where k: "find_text p s = Some k" "i = Suc k" by auto
    show ?thesis
      using Cons.IH [OF k(1)] False k(2) by (auto simp: drop_Cons' less_Suc_eq_0_disj)
  qed
qed (simp add: begins_with_def split: if_splits)

lemma find_text_none: "find_text p s = None \<Longrightarrow> p \<noteq> [] \<Longrightarrow> \<not> begins_with p (drop j s)"
proof (induction s arbitrary: j)
  case (Cons c s)
  then show ?case by (cases j) (auto split: if_splits)
qed (simp add: begins_with_def)

lemma begins_with_length: "begins_with p s \<Longrightarrow> length p \<le> length s"
  unfolding begins_with_def by (metis length_take min.cobounded1 min.commute)

lemma dash_inside:
  assumes "begins_with dashes (drop i s)" "i < j" "j < i + 3"
  shows "\<not> at_line_start s j"
proof -
  have len: "i + 3 \<le> length s"
    using begins_with_length [OF assms(1)] assms(2,3) by (simp add: dashes_def)
  have "s ! (j - 1) = take 3 (drop i s) ! (j - 1 - i)"
    using assms(2,3) len by simp
  also have "\<dots> = dashes ! (j - 1 - i)" using assms(1) by (simp add: begins_with_def dashes_def numeral_3_eq_3)
  also have "\<dots> = CHR ''-''"
  proof -
    have "j - 1 - i = 0 \<or> j - 1 - i = 1" using assms(2,3) by linarith
    then show ?thesis by (auto simp: dashes_def)
  qed
  finally show ?thesis using assms(2) by (simp add: at_line_start_def line_feed_def)
qed

lemma find_skip: "(\<And>x. x \<in> set xs \<Longrightarrow> \<not> P x) \<Longrightarrow> List.find P (xs @ ys) = List.find P ys"
  by (induction xs) auto

lemma find_upt_skip:
  assumes "k \<le> m" "m \<le> n" "\<And>i. k \<le> i \<Longrightarrow> i < m \<Longrightarrow> \<not> P i"
  shows "List.find P [k..<n] = List.find P [m..<n]"
proof -
  have "[k..<n] = [k..<m] @ [m..<n]" using assms(1,2) upt_add_eq_append [of k m "n - m"] by simp
  moreover have "List.find P ([k..<m] @ [m..<n]) = List.find P [m..<n]"
    by (rule find_skip) (use assms(3) in simp)
  ultimately show ?thesis by simp
qed

lemma fence_at_bound: "fence_at s i \<Longrightarrow> i < length s"
  by (auto simp: fence_at_def dashes_def dest!: begins_with_length)

theorem split_loop_first_fence:
  "split_loop s k = map_option (cut_at s) (List.find (fence_at s) [k..<length s])"
proof (induction s k rule: split_loop.induct)
  case (1 s k)
  show ?case
  proof (cases "find_text dashes (drop k s)")
    case None
    have "\<not> fence_at s i" if "k \<le> i" for i
      using find_text_none [OF None, of "i - k"] that by (simp add: fence_at_def dashes_def)
    then have "List.find (fence_at s) [k..<length s] = None" by (simp add: find_None)
    with None show ?thesis by (simp add: split_loop.simps [of s k])
  next
    case (Some offset)
    define f where "f = k + offset"
    note first = find_text_first [OF Some]
    have here: "begins_with dashes (drop f s)" using first by (simp add: f_def add.commute)
    have before: "\<not> fence_at s i" if "k \<le> i" "i < f" for i
      using first that by (auto simp: fence_at_def f_def dest!: spec [of _ "i - k"])
    have bound: "f + 3 \<le> length s" using begins_with_length [OF here] by (simp add: dashes_def)
    show ?thesis
    proof (cases "fence_at s f")
      case True
      have "List.find (fence_at s) [k..<length s] = List.find (fence_at s) [f..<length s]"
        using before bound by (intro find_upt_skip) (auto simp: f_def)
      also have "\<dots> = Some f" using True bound by (simp add: upt_conv_Cons)
      finally have found: "List.find (fence_at s) [k..<length s] = Some f" .
      have "split_loop s k = Some (cut_at s f)"
        using Some True by (simp add: split_loop.simps [of s k] Let_def f_def fence_at_def cut_at_def)
      with found show ?thesis by simp
    next
      case False
      have skip: "\<not> fence_at s i" if "k \<le> i" "i < f + 3" for i
        using before [of i] False dash_inside [OF here, of i] that
        by (cases "i < f"; cases "i = f") (auto simp: fence_at_def)
      have "List.find (fence_at s) [k..<length s] = List.find (fence_at s) [f + 3..<length s]"
        using skip bound by (intro find_upt_skip) (auto simp: f_def)
      moreover have closed: "\<not> (at_line_start s f \<and> ends_line (drop (f + 3) s))"
        using False here by (simp add: fence_at_def)
      moreover have "split_loop s k = split_loop s (f + 3)"
        using Some closed by (subst split_loop.simps) (auto simp: Let_def f_def)
      ultimately show ?thesis using "1.IH" [OF Some, of f "drop (f + 3) s"] by (simp add: f_def)
    qed
  qed
qed

section \<open>The store (\<^verbatim>\<open>store.rs\<close>, \<^verbatim>\<open>entry.rs\<close>, \<^verbatim>\<open>warning.rs\<close>, \<^verbatim>\<open>error.rs\<close>)\<close>

record stored_skill =
  se_dir :: string
  se_description :: string

datatype skill_warning =
    InvalidFrontMatter string string
  | MissingDescription string
  | MissingSkillFile string
  | NameMismatch string string

datatype skill_error = SkillIo string string | SkillNotFound string | SkillParse string string

record loaded_skill =
  sk_name :: string
  sk_content :: string

record skill_store =
  ss_skills :: "stored_skill btree"
  ss_warnings :: "skill_warning list"

text \<open>One item of \<open>read_dir\<close>: its path, whether it is a directory, and its name when it is
  UTF-8; an item that could not be read is \<open>None\<close> in the listing.\<close>

record dir_item =
  di_path :: string
  di_is_dir :: bool
  di_name :: "string option"

record skill_host =
  sh_read_dir :: "string \<Rightarrow> dir_item option list option"
  sh_read :: "string \<Rightarrow> file_read"
  sh_yaml :: "string \<Rightarrow> (string, front_matter) result"
  sh_home :: "string option"  \<comment> \<open>the agents directory of the home, when there is a home\<close>

definition skill_file :: "string \<Rightarrow> string" where
  "skill_file dir = path_join dir ''SKILL.md''"

definition skills_dir :: "string \<Rightarrow> string" where
  "skills_dir cwd = path_join (path_join cwd ''.agents'') ''skills''"

definition global_skills_dir :: "skill_host \<Rightarrow> string option" where
  "global_skills_dir host = map_option (\<lambda>dir. path_join dir ''skills'') (sh_home host)"

definition warn :: "skill_warning \<Rightarrow> skill_store \<Rightarrow> skill_store" where
  "warn w st = st\<lparr>ss_warnings := ss_warnings st @ [w]\<rparr>"

definition ingest_dir :: "skill_host \<Rightarrow> string \<Rightarrow> string \<Rightarrow> skill_store \<Rightarrow> skill_store" where
  "ingest_dir host name dir st =
     (case sh_read host (skill_file dir) of
        FileMissing \<Rightarrow> warn (MissingSkillFile dir) st
      | FileFailed _ \<Rightarrow> warn (MissingSkillFile dir) st
      | FileContents contents \<Rightarrow>
          (case split_front_matter contents of
             None \<Rightarrow> warn (InvalidFrontMatter dir ''missing YAML front matter'') st
           | Some (raw, _) \<Rightarrow>
               (case parse_front_matter (sh_yaml host) raw of
                  Inl source \<Rightarrow> warn (InvalidFrontMatter dir source) st
                | Inr meta \<Rightarrow>
                    (let st = (case fm_name meta of
                                 Some declared \<Rightarrow>
                                   if declared \<noteq> name then warn (NameMismatch dir declared) st else st
                               | None \<Rightarrow> st);
                         description = (case fm_description meta of Some d \<Rightarrow> d | None \<Rightarrow> []);
                         st = (if description = [] then warn (MissingDescription dir) st else st)
                     in st\<lparr>ss_skills := bt_insert name \<lparr>se_dir = dir, se_description = description\<rparr>
                                          (ss_skills st)\<rparr>))))"

fun ingest_items :: "skill_host \<Rightarrow> dir_item list \<Rightarrow> skill_store \<Rightarrow> skill_store" where
  "ingest_items host [] st = st"
| "ingest_items host (item # items) st =
     (if \<not> di_is_dir item then ingest_items host items st
      else case di_name item of
             None \<Rightarrow> ingest_items host items st
           | Some name \<Rightarrow>
               if bt_get (ss_skills st) name \<noteq> None then ingest_items host items st
               else ingest_items host items (ingest_dir host name (di_path item) st))"

definition ingest :: "skill_host \<Rightarrow> string \<Rightarrow> skill_store \<Rightarrow> skill_store" where
  "ingest host dir st =
     (case sh_read_dir host dir of
        None \<Rightarrow> st
      | Some entries \<Rightarrow> ingest_items host (List.map_filter (\<lambda>e. e) entries) st)"

definition empty_store :: skill_store where
  "empty_store = \<lparr>ss_skills = [], ss_warnings = []\<rparr>"

definition skill_roots :: "skill_host \<Rightarrow> string \<Rightarrow> string list" where
  "skill_roots host cwd =
     List.map_filter (\<lambda>r. r) [Some (skills_dir cwd), global_skills_dir host]"

definition discover_skills :: "skill_host \<Rightarrow> string \<Rightarrow> skill_store" where
  "discover_skills host cwd = foldl (\<lambda>st dir. ingest host dir st) empty_store (skill_roots host cwd)"

definition load_skill :: "skill_host \<Rightarrow> skill_store \<Rightarrow> string \<Rightarrow> (skill_error, loaded_skill) result" where
  "load_skill host st name =
     (case bt_get (ss_skills st) name of
        None \<Rightarrow> Err (SkillNotFound name)
      | Some entry \<Rightarrow>
          (let f = skill_file (se_dir entry)
           in case sh_read host f of
                FileMissing \<Rightarrow> Err (SkillIo f ''not found'')
              | FileFailed e \<Rightarrow> Err (SkillIo f e)
              | FileContents contents \<Rightarrow>
                  (let (raw, body) = (case split_front_matter contents of Some p \<Rightarrow> p | None \<Rightarrow> ([], contents))
                   in case parse_front_matter (sh_yaml host) raw of
                        Inl source \<Rightarrow> Err (SkillParse f source)
                      | Inr _ \<Rightarrow> Ok \<lparr>sk_name = name, sk_content = trim_text body\<rparr>)))"

definition skill_names :: "skill_store \<Rightarrow> string list" where
  "skill_names st = map fst (ss_skills st)"

subsection \<open>Precedence\<close>

text \<open>What a directory is worth as a skill, whatever the store holds: its description and the body
  that loading it returns.\<close>

definition usable_skill :: "skill_host \<Rightarrow> string \<Rightarrow> (string \<times> string) option" where
  "usable_skill host dir =
     (case sh_read host (skill_file dir) of
        FileContents contents \<Rightarrow>
          (case split_front_matter contents of
             None \<Rightarrow> None
           | Some (raw, body) \<Rightarrow>
               (case parse_front_matter (sh_yaml host) raw of
                  Inl _ \<Rightarrow> None
                | Inr meta \<Rightarrow>
                    Some (case fm_description meta of Some d \<Rightarrow> d | None \<Rightarrow> [], trim_text body)))
      | _ \<Rightarrow> None)"

definition skill_of_item :: "skill_host \<Rightarrow> string \<Rightarrow> dir_item \<Rightarrow> stored_skill option" where
  "skill_of_item host name item =
     (if di_is_dir item \<and> di_name item = Some name
      then map_option (\<lambda>(d, _). \<lparr>se_dir = di_path item, se_description = d\<rparr>) (usable_skill host (di_path item))
      else None)"

fun first_skill :: "skill_host \<Rightarrow> string \<Rightarrow> dir_item list \<Rightarrow> stored_skill option" where
  "first_skill host name [] = None"
| "first_skill host name (item # items) =
     (case skill_of_item host name item of
        Some e \<Rightarrow> Some e
      | None \<Rightarrow> first_skill host name items)"

definition listed :: "skill_host \<Rightarrow> string \<Rightarrow> dir_item list" where
  "listed host dir =
     (case sh_read_dir host dir of None \<Rightarrow> [] | Some es \<Rightarrow> List.map_filter (\<lambda>e. e) es)"

lemma warn_skills [simp]: "ss_skills (warn w st) = ss_skills st"
  by (simp add: warn_def)

lemma ingest_dir_skills:
  "ss_skills (ingest_dir host name dir st) =
   (case usable_skill host dir of
      None \<Rightarrow> ss_skills st
    | Some (d, _) \<Rightarrow> bt_insert name \<lparr>se_dir = dir, se_description = d\<rparr> (ss_skills st))"
  by (simp add: ingest_dir_def usable_skill_def Let_def
      split: file_read.split option.split prod.split sum.split)

lemma ingest_items_wf: "bt_wf (ss_skills st) \<Longrightarrow> bt_wf (ss_skills (ingest_items host items st))"
proof (induction items arbitrary: st)
  case (Cons item items)
  then show ?case
    by (auto simp: ingest_dir_skills bt_wf_insert split: option.split)
qed simp

lemma ingest_items_get:
  "bt_wf (ss_skills st) \<Longrightarrow>
   bt_get (ss_skills (ingest_items host items st)) n =
     (case bt_get (ss_skills st) n of Some e \<Rightarrow> Some e | None \<Rightarrow> first_skill host n items)"
proof (induction items arbitrary: st)
  case Nil
  then show ?case by (simp split: option.split)
next
  case (Cons item items)
  show ?case
  proof (cases "di_is_dir item \<and> (\<exists>name. di_name item = Some name \<and> bt_get (ss_skills st) name = None)")
    case True
    then obtain name where name: "di_is_dir item" "di_name item = Some name"
        "bt_get (ss_skills st) name = None" by blast
    let ?st = "ingest_dir host name (di_path item) st"
    have wf: "bt_wf (ss_skills ?st)"
      using Cons.prems by (auto simp: ingest_dir_skills bt_wf_insert split: option.split)
    show ?thesis
      using name Cons.IH [OF wf] Cons.prems
      by (auto simp: ingest_dir_skills bt_get_insert skill_of_item_def split: option.split)
  next
    case False
    then show ?thesis
      using Cons by (auto simp: skill_of_item_def split: option.split)
  qed
qed

lemma ingest_listed: "ingest host dir st = ingest_items host (listed host dir) st"
  by (simp add: ingest_def listed_def split: option.split)

lemma empty_store_wf [simp]: "ss_skills empty_store = []" "bt_wf []"
  by (simp_all add: empty_store_def bt_wf_def)

theorem project_skills_first:
  "bt_get (ss_skills (discover_skills host cwd)) n =
     (case first_skill host n (listed host (skills_dir cwd)) of
        Some e \<Rightarrow> Some e
      | None \<Rightarrow> (case global_skills_dir host of
                   None \<Rightarrow> None
                 | Some dir \<Rightarrow> first_skill host n (listed host dir)))"
  by (cases "global_skills_dir host")
    (simp_all add: discover_skills_def skill_roots_def List.map_filter_simps ingest_listed
      ingest_items_get ingest_items_wf split: option.split)

lemma first_skill_Some:
  "first_skill host n items = Some e \<Longrightarrow>
   \<exists>item\<in>set items. skill_of_item host n item = Some e"
  by (induction items) (auto split: option.splits)

lemma usable_loads:
  "bt_get (ss_skills st) n = Some e \<Longrightarrow> usable_skill host (se_dir e) = Some (d, b) \<Longrightarrow>
   load_skill host st n = Ok \<lparr>sk_name = n, sk_content = b\<rparr>"
  by (auto simp: load_skill_def usable_skill_def Let_def
      split: file_read.splits option.splits prod.splits sum.splits)

theorem discovered_skill_loads:
  assumes "n \<in> set (skill_names (discover_skills host cwd))"
  shows "\<exists>content. load_skill host (discover_skills host cwd) n = Ok \<lparr>sk_name = n, sk_content = content\<rparr>"
proof -
  let ?st = "discover_skills host cwd"
  obtain e where e: "bt_get (ss_skills ?st) n = Some e"
    using assms by (metis skill_names_def weak_map_of_SomeI map_of_eq_None_iff not_None_eq list.set_map)
  then obtain items where "first_skill host n items = Some e"
    by (auto simp: project_skills_first split: option.splits)
  then obtain item where "skill_of_item host n item = Some e" using first_skill_Some by blast
  then obtain d b where "usable_skill host (se_dir e) = Some (d, b)"
    by (auto simp: skill_of_item_def split: if_splits)
  with e show ?thesis by (blast intro: usable_loads)
qed

lemma load_unknown:
  "n \<notin> set (skill_names st) \<Longrightarrow> load_skill host st n = Err (SkillNotFound n)"
  by (simp add: load_skill_def skill_names_def split: option.split)
    (metis map_of_eq_None_iff option.distinct(1))

end
