(* ===== verification/Cli_Request.thy ===== *)
theory Cli_Request
  imports Config_Safety Skills Preview Prompt_Editor
begin

text \<open>
  The request a prompt becomes (\<^verbatim>\<open>smista-cli/src/app/router_client/handler/execute.rs\<close>): the
  prompt with its file mentions, the files, the instructions and the skills it carries, the state of
  the repository, and the policy of the merged configuration; and the summary of a preview
  (\<^verbatim>\<open>handler/preview.rs\<close>).  File reads and the git library are fields of \<open>request_host\<close>; the hash
  of a file's content is left out, the router never looks at it.  The lemmas show what the router
  reads from such a request: every restriction of every layer, and every changed file.
\<close>

section \<open>The workspace\<close>

text \<open>A repository: the short name of its head, and the locations of the status, \<open>None\<close> where one
  is no UTF-8; the status may fail.\<close>

record git_repo =
  gr_head :: "string option"
  gr_status :: "string option list option"

record request_host =
  rh_cwd :: string
  rh_config :: config
  rh_read :: "string \<Rightarrow> file_read"
  rh_git :: "git_repo option"
  rh_skills :: skill_store
  rh_skill_host :: skill_host

definition resolve_workspace_path :: "string \<Rightarrow> string \<Rightarrow> string" where
  "resolve_workspace_path cwd p = (if is_absolute p then p else path_join cwd p)"

fun split_inclusive :: "(char \<Rightarrow> bool) \<Rightarrow> string \<Rightarrow> string list" where
  "split_inclusive stop [] = []"
| "split_inclusive stop (c # cs) =
     (if stop c then [c] # split_inclusive stop cs
      else case split_inclusive stop cs of [] \<Rightarrow> [[c]] | w # ws \<Rightarrow> (c # w) # ws)"

definition attached_mention :: "string \<Rightarrow> string list \<Rightarrow> string \<Rightarrow> bool" where
  "attached_mention cwd attached mention \<longleftrightarrow>
     list_ex (\<lambda>p. path_eq (resolve_workspace_path cwd p) (resolve_workspace_path cwd mention)) attached"

definition strip_sigil :: "string \<Rightarrow> string list \<Rightarrow> string \<Rightarrow> string" where
  "strip_sigil cwd attached segment =
     (let token = rev (dropWhile is_whitespace (rev segment));
          space = drop (length token) segment
      in (case strip_prefix ''@'' token of
            Some mention \<Rightarrow> if attached_mention cwd attached mention then mention else token
          | None \<Rightarrow> token) @ space)"

definition strip_attached_file_sigils :: "string \<Rightarrow> string \<Rightarrow> string list \<Rightarrow> string" where
  "strip_attached_file_sigils prompt cwd attached =
     concat (map (strip_sigil cwd attached) (split_inclusive is_whitespace prompt))"

section \<open>The repository\<close>

definition header_line :: "string \<Rightarrow> string" where
  "header_line p = ''diff --git a/'' @ p @ '' b/'' @ p"

definition diff_header :: "string \<Rightarrow> string" where
  "diff_header p = header_line p @ [CHR 0x0A]"

definition changed_paths :: "git_repo \<Rightarrow> string list option" where
  "changed_paths repo = map_option (\<lambda>items. remdups_adj (sort (List.map_filter (\<lambda>i. i) items))) (gr_status repo)"

definition git_diff_headers :: "git_repo \<Rightarrow> string option" where
  "git_diff_headers repo =
     (case changed_paths repo of
        None \<Rightarrow> None
      | Some paths \<Rightarrow>
          (let diff = concat (map diff_header paths) in if diff = [] then None else Some diff))"

definition git_snapshot :: "request_host \<Rightarrow> string option \<times> string option" where
  "git_snapshot host =
     (case rh_git host of
        None \<Rightarrow> (None, None)
      | Some repo \<Rightarrow> (gr_head repo, git_diff_headers repo))"

section \<open>What the request carries\<close>

definition load_context_file :: "request_host \<Rightarrow> string \<Rightarrow> context_file option" where
  "load_context_file host p =
     (case rh_read host (resolve_workspace_path (rh_cwd host) p) of
        FileContents content \<Rightarrow> Some \<lparr>cf_path = p, cf_content = content, cf_required = True\<rparr>
      | _ \<Rightarrow> None)"

definition load_context_files :: "request_host \<Rightarrow> string list \<Rightarrow> context_file list" where
  "load_context_files host paths = List.map_filter (load_context_file host) paths"

definition agents_md :: string where
  "agents_md = ''AGENTS.md''"

definition load_instructions :: "request_host \<Rightarrow> context_instruction list" where
  "load_instructions host =
     (case rh_read host (path_join (rh_cwd host) agents_md) of
        FileContents content \<Rightarrow> [\<lparr>ci_source = agents_md, ci_content = content\<rparr>]
      | _ \<Rightarrow> [])"

definition load_available_skills :: "request_host \<Rightarrow> skill list" where
  "load_available_skills host =
     List.map_filter (\<lambda>name. case load_skill (rh_skill_host host) (rh_skills host) name of
         Inr s \<Rightarrow> Some \<lparr>skill.sk_name = Skills.sk_name s, sk_content = Skills.sk_content s\<rparr> | Inl _ \<Rightarrow> None)
       (skill_names (rh_skills host))"

definition unwrap_flag :: "bool option \<Rightarrow> bool" where
  "unwrap_flag b = (b = Some True)"

definition build_execute_request ::
  "request_host \<Rightarrow> string \<Rightarrow> string list \<Rightarrow> bool \<Rightarrow> model_reference option \<Rightarrow> execute_request" where
  "build_execute_request host prompt files plan explicit_model =
     (let attached = sort_by path_cmp files;
          (branch, diff) = git_snapshot host;
          c = rh_config host
      in \<lparr>xr_input = \<lparr>ti_text = strip_attached_file_sigils prompt (rh_cwd host) attached,
            ti_command = (if plan then Some Plan else None), ti_explicit_model = explicit_model\<rparr>,
          xr_workspace = \<lparr>ws_root = rh_cwd host, ws_git_branch = branch, ws_git_diff = diff,
            ws_referenced_paths = attached, ws_active_file = None\<rparr>,
          xr_policy = \<lparr>xp_classification = cf_classification c, xp_routing = cf_routing c,
            xp_tools = cf_tools c, xp_privacy = cf_privacy c\<rparr>,
          xr_local_preferences = \<lparr>lp_auto_apply = unwrap_flag (ls_auto_apply (cf_local c)),
            lp_local_only = unwrap_flag (ls_local_only (cf_local c)),
            lp_no_network = unwrap_flag (ls_no_network (cf_local c))\<rparr>,
          xr_attachments = \<lparr>at_files = load_context_files host attached,
            at_instructions = load_instructions host, at_invoked_skills = [],
            at_available_skills = load_available_skills host\<rparr>\<rparr>)"

section \<open>What the router reads from it\<close>

text \<open>Only sigils are removed from the prompt.\<close>

lemma split_inclusive_concat: "concat (split_inclusive stop s) = s"
  by (induction s) (auto split: list.split)

lemma strip_sigil_keeps: "filter (\<lambda>c. c \<noteq> CHR ''@'') (strip_sigil cwd attached w) = filter (\<lambda>c. c \<noteq> CHR ''@'') w"
proof -
  let ?token = "rev (dropWhile is_whitespace (rev w))"
  have "w = ?token @ rev (takeWhile is_whitespace (rev w))"
    by (metis rev_append rev_rev_ident takeWhile_dropWhile_id)
  then have w: "?token @ drop (length ?token) w = w" by (metis append_eq_conv_conj)
  have "filter (\<lambda>c. c \<noteq> CHR ''@'')
      (case strip_prefix ''@'' t of Some m \<Rightarrow> if attached_mention cwd attached m then m else t | None \<Rightarrow> t) =
    filter (\<lambda>c. c \<noteq> CHR ''@'') t" for t
  proof (cases "strip_prefix ''@'' t")
    case (Some m)
    then have "t = CHR ''@'' # m" by (simp add: strip_prefix_Some)
    then show ?thesis unfolding Some by simp
  qed simp
  then show ?thesis
    by (subst (2) w [symmetric]) (simp only: strip_sigil_def Let_def filter_append)
qed

lemma only_sigils_stripped:
  "filter (\<lambda>c. c \<noteq> CHR ''@'') (strip_attached_file_sigils prompt cwd attached) = filter (\<lambda>c. c \<noteq> CHR ''@'') prompt"
proof -
  have "filter (\<lambda>c. c \<noteq> CHR ''@'') (concat (map (strip_sigil cwd attached) ws)) =
      filter (\<lambda>c. c \<noteq> CHR ''@'') (concat ws)" for ws
    by (induction ws) (simp_all add: strip_sigil_keeps)
  then show ?thesis by (simp add: strip_attached_file_sigils_def split_inclusive_concat)
qed

text \<open>A readable file that was referenced is attached, and required.\<close>

lemma attached_file:
  assumes "f \<in> set files" "rh_read host (resolve_workspace_path (rh_cwd host) f) = FileContents s"
  shows "\<exists>a\<in>set (at_files (xr_attachments (build_execute_request host prompt files plan model))).
    cf_path a = f \<and> cf_required a \<and> cf_content a = s"
proof -
  have "load_context_file host f = Some \<lparr>cf_path = f, cf_content = s, cf_required = True\<rparr>"
    using assms(2) by (simp add: load_context_file_def)
  moreover have "f \<in> set (sort_by path_cmp files)" using assms(1) by simp
  ultimately have "\<lparr>cf_path = f, cf_content = s, cf_required = True\<rparr> \<in> set (load_context_files host (sort_by path_cmp files))"
    unfolding load_context_files_def by (force simp: map_filter_def)
  then show ?thesis
    by (intro bexI [of _ "\<lparr>cf_path = f, cf_content = s, cf_required = True\<rparr>"])
      (simp_all add: build_execute_request_def split_beta Let_def)
qed

text \<open>The policy of the request is the one of the configuration.\<close>

lemma request_policy:
  "xp_privacy (xr_policy (build_execute_request host prompt files plan model)) = cf_privacy (rh_config host)"
  "xp_tools (xr_policy (build_execute_request host prompt files plan model)) = cf_tools (rh_config host)"
  "xp_routing (xr_policy (build_execute_request host prompt files plan model)) = cf_routing (rh_config host)"
  "lp_local_only (xr_local_preferences (build_execute_request host prompt files plan model)) =
     unwrap_flag (ls_local_only (cf_local (rh_config host)))"
  by (simp_all add: build_execute_request_def split_beta Let_def)

lemma turn_of_request:
  assumes "split_execute_request request = (cx_meta cx, bundle)"
  shows "ra_privacy (resolve_args_of rt cx bundle recalled rounds) = xp_privacy (xr_policy request)"
    and "ra_local_only (resolve_args_of rt cx bundle recalled rounds) = lp_local_only (xr_local_preferences request)"
    and "ra_attachments (resolve_args_of rt cx bundle recalled rounds) = xr_attachments request"
    and "ra_routing (resolve_args_of rt cx bundle recalled rounds) = xp_routing (xr_policy request)"
proof -
  have "cx_meta cx = fst (split_execute_request request)" "bundle = snd (split_execute_request request)"
    using assms by simp_all
  then show "ra_privacy (resolve_args_of rt cx bundle recalled rounds) = xp_privacy (xr_policy request)"
      "ra_local_only (resolve_args_of rt cx bundle recalled rounds) = lp_local_only (xr_local_preferences request)"
      "ra_attachments (resolve_args_of rt cx bundle recalled rounds) = xr_attachments request"
      "ra_routing (resolve_args_of rt cx bundle recalled rounds) = xp_routing (xr_policy request)"
    by (simp_all add: resolve_args_of_def split_execute_request_def Let_def)
qed

text \<open>The paths of the headers are read back.\<close>

definition plain_path :: "string \<Rightarrow> bool" where
  "plain_path p \<longleftrightarrow> CHR 0x0A \<notin> set p \<and> (p = [] \<or> last p \<noteq> CHR 0x0D) \<and> \<not> str_contains p '' b/''"

lemma split_marker:
  "\<not> str_contains a '' b/'' \<Longrightarrow> split_once_str '' b/'' (a @ '' b/'' @ b) = Some (a, b)"
proof (induction a)
  case Nil
  then show ?case by (simp add: strip_prefix_def)
next
  case (Cons c a)
  then have "strip_prefix '' b/'' ((c # a) @ '' b/'' @ b) = None"
    by (cases a; cases "tl a") (auto simp: strip_prefix_def)
  then show ?case using Cons by simp
qed

lemma header_lines:
  "list_all plain_path ps \<Longrightarrow>
   split_when (\<lambda>c. c = CHR 0x0A) (concat (map diff_header ps)) = map header_line ps @ [[]]"
proof (induction ps)
  case (Cons p ps)
  have "\<forall>c\<in>set (header_line p). c \<noteq> CHR 0x0A" using Cons.prems by (auto simp: header_line_def plain_path_def)
  from split_when_append [OF this refl] Cons show ?case by (simp add: diff_header_def)
qed simp

lemma header_line_read:
  assumes "plain_path p"
  shows "strip_cr (header_line p) = header_line p"
    and "strip_prefix ''diff --git '' (header_line p) = Some (''a/'' @ p @ '' b/'' @ p)"
    and "split_once_str '' b/'' (''a/'' @ p @ '' b/'' @ p) = Some (''a/'' @ p, p)"
proof -
  have "last (header_line p) \<noteq> CHR 0x0D" using assms by (auto simp: header_line_def plain_path_def)
  then show "strip_cr (header_line p) = header_line p" by (simp add: strip_cr_def)
  show "strip_prefix ''diff --git '' (header_line p) = Some (''a/'' @ p @ '' b/'' @ p)"
    by (simp add: strip_prefix_Some header_line_def)
  have "\<not> str_contains (''a/'' @ p) '' b/''" using assms by (simp add: plain_path_def)
  from split_marker [OF this, of p] show "split_once_str '' b/'' (''a/'' @ p @ '' b/'' @ p) = Some (''a/'' @ p, p)"
    by simp
qed

lemma diff_read_back:
  assumes "list_all plain_path ps"
  shows "diff_paths (concat (map diff_header ps)) = ps"
proof -
  have "map strip_cr (map header_line ps) = map header_line ps"
    using assms header_line_read(1) by (induction ps) simp_all
  then have "str_lines (concat (map diff_header ps)) = map header_line ps"
    by (simp add: str_lines_def header_lines [OF assms])
  moreover have "map snd (List.map_filter (split_once_str '' b/'') (List.map_filter (strip_prefix ''diff --git '') (map header_line ps))) = ps"
    using assms
  proof (induction ps)
    case (Cons p ps)
    then have "plain_path p" by simp
    note read = header_line_read(2,3) [OF this]
    show ?case
      unfolding list.map List.map_filter_simps read option.case
      using Cons by (simp add: List.map_filter_simps)
  qed (simp add: List.map_filter_simps)
  ultimately show ?thesis by (simp add: diff_paths_def)
qed

text \<open>A changed path with \<open> b/\<close> in it is read as another path.\<close>

lemma marker_in_path: "diff_paths (diff_header ''x b/y'') = [''y b/x b/y'']"
  by code_simp

lemma changed_files_touched:
  assumes "rh_git host = Some repo" "changed_paths repo = Some ps" "list_all plain_path ps"
  shows "touched_files (xr_workspace (build_execute_request host prompt files plan model)) =
    dedup_paths [] (sort_by path_cmp files @ ps)"
proof -
  have "(case git_diff_headers repo of Some d \<Rightarrow> diff_paths d | None \<Rightarrow> []) = ps"
    using diff_read_back [OF assms(3)] assms(2)
    by (cases ps) (simp_all add: git_diff_headers_def Let_def diff_header_def header_line_def)
  then show ?thesis
    using assms(1) by (simp add: touched_files_def build_execute_request_def git_snapshot_def Let_def)
qed

section \<open>Restrictions of the layers\<close>

definition restricts :: "config \<Rightarrow> string \<Rightarrow> bool" where
  "restricts c g \<longleftrightarrow> g \<in> set (restricted_paths (cf_privacy c) @ blocked_paths (remote (cf_privacy c)))"

lemma merge_two_restricts: "restricts (merge_two low high preference) g \<longleftrightarrow> restricts low g \<or> restricts high g"
  by (auto simp: restricts_def merge_two_def merge_privacy_def set_union_paths)

lemma merge_onto_restricts:
  "restricts (merge_onto acc layers) g \<longleftrightarrow> restricts acc g \<or> (\<exists>(l, c)\<in>set layers. restricts c g)"
  unfolding merge_onto_def
  by (induction layers arbitrary: acc) (auto simp: merge_two_restricts)

lemma layer_restricts: "(l, c) \<in> set layers \<Longrightarrow> restricts c g \<Longrightarrow> restricts (merge_layers layers) g"
  unfolding merge_layers_def merge_onto_restricts by force

lemma restricts_matching:
  assumes "glob_law x" "restricts c g" "compile_globs x [g] = Some m" "m p"
  shows "is_restricted_for_remote x (cf_privacy c) p"
proof -
  have single: "glob_build x [g] = Some m" using assms(3) by (simp add: compile_globs_def split: if_splits)
  show ?thesis
  proof (cases "compile_globs x (restricted_paths (cf_privacy c) @ blocked_paths (remote (cf_privacy c)))")
    case (Some m')
    then have "glob_build x (restricted_paths (cf_privacy c) @ blocked_paths (remote (cf_privacy c))) = Some m'"
      by (simp add: compile_globs_def split: if_splits)
    then have "m' p" using assms(1,2,4) single unfolding glob_law_def restricts_def by blast
    then show ?thesis using Some by (simp add: is_restricted_for_remote_def Let_def)
  qed (simp add: is_restricted_for_remote_def Let_def)
qed

end
