(* ===== verification/Cli_Queries.thy ===== *)
theory Cli_Queries
  imports Router_Client Cli_Client Cli_Request
begin

text \<open>
  The queries of the client's worker over the client of the router
  (\<^verbatim>\<open>smista-cli/src/app/router_client/handler/\<close>: \<^verbatim>\<open>catalog.rs\<close>, \<^verbatim>\<open>status.rs\<close>, \<^verbatim>\<open>usage.rs\<close>,
  \<^verbatim>\<open>session.rs\<close>, \<^verbatim>\<open>trace.rs\<close>, \<^verbatim>\<open>preview.rs\<close>): the call each command makes and the messages the
  terminal gets.  The trace is read page by page until a page is not full, so reading it may not
  end.  Texts of times and decimals, the cipher and the JSON of a payload are fields of
  \<open>query_host\<close>.  These are what \<open>ce_query\<close> stands for in \<open>Cli_Client\<close>.
\<close>

section \<open>Messages\<close>

record query_host =
  qh_show_time :: "nat \<Rightarrow> string"
  qh_show_cost :: "rat \<Rightarrow> string"
  qh_decrypt :: "encrypted_payload \<Rightarrow> (string, string) result"
  qh_parse_payload :: "string \<Rightarrow> (string, payload) result"
  qh_show_payload :: "payload \<Rightarrow> string"

fun show_client_error :: "client_error \<Rightarrow> string" where
  "show_client_error (ApiFailure status kind message _) =
     ''API error (status '' @ show_nat status @ '', code '' @ kind @ ''): '' @ message"
| "show_client_error (ClientBuild e) = ''failed to build client: '' @ e"
| "show_client_error (DecodeFailed e) = ''failed to decode response body: '' @ e"
| "show_client_error BadApiKey = ''invalid API key''"
| "show_client_error BadSessionToken = ''invalid session token''"
| "show_client_error (RequestBuild e) = ''failed to build request: '' @ e"
| "show_client_error NotAuthenticated = ''client is not authenticated; sign in first''"
| "show_client_error (TransportFailed e) = ''transport error: '' @ e"
| "show_client_error (BadUrl e) = ''invalid URL: '' @ e"

type_synonym 'w query = "client_state \<times> 'w \<Rightarrow> cli_msg list \<times> (client_state \<times> 'w)"

definition failed_with :: "string \<Rightarrow> client_error \<Rightarrow> cli_msg" where
  "failed_with failure e = ErrorMsg (failure @ '': '' @ show_client_error e)"

definition ask :: "string \<Rightarrow> (web_body \<Rightarrow> cli_msg list) \<Rightarrow> ('w, web_body) client_io \<Rightarrow> 'w query" where
  "ask failure say_it io s =
     (case io s of
        (Inl e, t) \<Rightarrow> ([failed_with failure e], t)
      | (Inr body, t) \<Rightarrow> (say_it body, t))"

section \<open>Catalogs, status and sessions\<close>

definition listed_model_of :: "model_descriptor \<Rightarrow> listed_model" where
  "listed_model_of d =
     \<lparr>lm_reference = descriptor_reference d, lm_provider = show_provider (md_provider d), lm_id = md_model d,
      lm_display_name = (case md_display_name d of Some n \<Rightarrow> n | None \<Rightarrow> md_model d)\<rparr>"

definition list_models_query :: "'w http_lib \<Rightarrow> 'w query" where
  "list_models_query lib =
     ask ''Failed to list models''
       (\<lambda>b. case b of ModelsBody models _ \<Rightarrow> [ModelsListMsg (map listed_model_of models)] | _ \<Rightarrow> [])
       (client_list_models lib)"

definition list_providers_query :: "'w http_lib \<Rightarrow> 'w query" where
  "list_providers_query lib =
     ask ''Failed to list providers''
       (\<lambda>b. case b of
          ProvidersBody ps \<Rightarrow> [ProvidersListMsg (map (\<lambda>p. \<lparr>lv_name = pd_display_name p, lv_local = pd_local p\<rparr>) ps)]
        | _ \<Rightarrow> [])
       (client_list_providers lib)"

definition list_sessions_query :: "query_host \<Rightarrow> 'w http_lib \<Rightarrow> string \<Rightarrow> 'w query" where
  "list_sessions_query q lib scope =
     ask ''Failed to list sessions''
       (\<lambda>b. case b of
          SessionsBody ss \<Rightarrow> [SessionsListMsg (map (\<lambda>s. \<lparr>ls_id = sy_id s, ls_title = sy_title s, ls_scope = sy_scope s,
            ls_updated_at = qh_show_time q (sy_updated s)\<rparr>) ss)]
        | _ \<Rightarrow> [])
       (client_list_sessions lib (Some scope) None)"

definition router_status_query :: "'w http_lib \<Rightarrow> 'w query" where
  "router_status_query lib =
     ask ''Failed to get router health status''
       (\<lambda>b. case b of StatusBody status version \<Rightarrow> [RouterStatusMsg status version] | _ \<Rightarrow> [])
       (client_status lib)"

definition usage_query :: "'w http_lib \<Rightarrow> session_info option \<Rightarrow> 'w query" where
  "usage_query lib session s =
     (case session of
        None \<Rightarrow> ([ErrorMsg ''No active session, cannot get usage statistics''], s)
      | Some info \<Rightarrow>
          ask (''Failed to get usage statistics for session '' @ si_id info)
            (\<lambda>b. case b of UsageBody usage \<Rightarrow> [UsageMsg usage] | _ \<Rightarrow> [])
            (client_session_usage lib (si_id info)) s)"

section \<open>Previews (\<^verbatim>\<open>preview.rs\<close>)\<close>

fun source_label :: "intent_source \<Rightarrow> string" where
  "source_label Explicit = ''explicit''"
| "source_label Inferred = ''inferred''"

fun confidence_label :: "confidence \<Rightarrow> string" where
  "confidence_label LowConfidence = ''low''"
| "confidence_label MediumConfidence = ''medium''"
| "confidence_label HighConfidence = ''high''"

definition preview_summary_of :: "query_host \<Rightarrow> preview_response \<Rightarrow> preview_summary" where
  "preview_summary_of q r =
     \<lparr>pv_routing = pw_routing r, pv_source = source_label (cl_source (pw_classification r)),
      pv_reason = cl_reason (pw_classification r),
      pv_confidence = map_option confidence_label (cl_confidence (pw_classification r)),
      pv_included = pw_included_context r, pv_excluded = pw_excluded_context r,
      pv_cost_min = qh_show_cost q (cg_min (pw_estimated_cost r)),
      pv_cost_max = qh_show_cost q (cg_max (pw_estimated_cost r)),
      pv_cost_currency = cg_currency (pw_estimated_cost r),
      pv_permissions = map (\<lambda>p. (qp_permission p, permission_as_str (qp_mode p))) (pw_required_permissions r)\<rparr>"

definition request_of_args :: "request_host \<Rightarrow> execute_args \<Rightarrow> execute_request" where
  "request_of_args host a = build_execute_request host (xa_prompt a) (xa_files a) (xa_plan a) (xa_model a)"

definition preview_query ::
  "query_host \<Rightarrow> request_host \<Rightarrow> 'w http_lib \<Rightarrow> session_info option \<Rightarrow> execute_args \<Rightarrow> 'w query" where
  "preview_query q host lib session a s =
     (case session of
        None \<Rightarrow> ([], s)
      | Some info \<Rightarrow>
          ask ''Failed to preview prompt through router''
            (\<lambda>b. case b of PreviewBody r \<Rightarrow> [PreviewMsg (preview_summary_of q r)] | _ \<Rightarrow> [])
            (client_preview lib (si_id info) (request_of_args host a)) s)"

text \<open>The stream that executing a prompt opens.\<close>

definition open_execute ::
  "request_host \<Rightarrow> 'w http_lib \<Rightarrow> string \<Rightarrow> execute_args \<Rightarrow> ('w, stream_result list) client_io" where
  "open_execute host lib session a = client_stream_execute lib session (request_of_args host a)"

section \<open>The trace (\<^verbatim>\<open>trace.rs\<close>)\<close>

definition trace_limit :: nat where
  "trace_limit = 100"

fun event_type_label :: "trace_event_type \<Rightarrow> string" where
  "event_type_label MessageEvent = ''message''"
| "event_type_label ClassificationEvent = ''classification''"
| "event_type_label RoutingDecisionEvent = ''routing_decision''"
| "event_type_label ContextSelectionEvent = ''context_selection''"
| "event_type_label ToolCallEvent = ''tool_call''"
| "event_type_label ApprovalEvent = ''approval''"
| "event_type_label CostEvent = ''cost''"

fun render_trace_payload :: "query_host \<Rightarrow> string \<Rightarrow> event_payload \<Rightarrow> (string, string) result" where
  "render_trace_payload q session (PlaintextPayload p) = Ok (qh_show_payload q p)"
| "render_trace_payload q session (EncryptedPayload e) =
     (case qh_decrypt q e of
        Inl m \<Rightarrow> Err (''Failed to decrypt trace event payload for session '' @ session @ '': '' @ m)
      | Inr txt \<Rightarrow>
          (case qh_parse_payload q txt of
             Inl m \<Rightarrow> Err (''Failed to parse trace event payload for session '' @ session @ '': '' @ m)
           | Inr p \<Rightarrow> Ok (qh_show_payload q p)))"

definition trace_line_of :: "query_host \<Rightarrow> trace_event \<Rightarrow> string \<Rightarrow> trace_line" where
  "trace_line_of q e payload =
     \<lparr>tn_event_type = (case ev_event_type e of Some t \<Rightarrow> event_type_label t | None \<Rightarrow> []),
      tn_task_type = intent_as_str (ev_task_type e), tn_provider = show_provider (ev_provider e),
      tn_model = ev_model e, tn_matched_rule = ev_matched_rule e,
      tn_created_at = qh_show_time q (ev_created e), tn_payload = payload\<rparr>"

text \<open>One page: an event whose payload does not open is reported and left out.\<close>

fun render_events :: "query_host \<Rightarrow> string \<Rightarrow> trace_event list \<Rightarrow> cli_msg list \<times> trace_line list" where
  "render_events q session [] = ([], [])"
| "render_events q session (e # es) =
     (case render_events q session es of
        (msgs, lines) \<Rightarrow>
          (case render_trace_payload q session (ev_payload e) of
             Inl m \<Rightarrow> (ErrorMsg m # msgs, lines)
           | Inr p \<Rightarrow> (msgs, trace_line_of q e p # lines)))"

partial_function (option) read_traces ::
  "query_host \<Rightarrow> 'w http_lib \<Rightarrow> string \<Rightarrow> nat \<Rightarrow> cli_msg list \<Rightarrow> trace_line list \<Rightarrow> client_state \<times> 'w \<Rightarrow>
   (cli_msg list \<times> (client_state \<times> 'w)) option" where
  "read_traces q lib session offset msgs lines s =
     (case client_session_traces lib session (Some trace_limit) (Some offset) s of
        (Inl e, t) \<Rightarrow> Some (msgs @ [failed_with (''Failed to get execution trace for session '' @ session) e], t)
      | (Inr body, t) \<Rightarrow>
          (case body of
             TracesBody events \<Rightarrow>
               if events = [] then Some (msgs @ [TraceMsg lines], t)
               else if length events < trace_limit
               then Some (msgs @ fst (render_events q session events) @
                      [TraceMsg (lines @ snd (render_events q session events))], t)
               else read_traces q lib session (offset + length events)
                      (msgs @ fst (render_events q session events))
                      (lines @ snd (render_events q session events)) t
           | _ \<Rightarrow> Some (msgs, t)))"

declare read_traces.simps [simp del]

definition trace_query ::
  "query_host \<Rightarrow> 'w http_lib \<Rightarrow> session_info option \<Rightarrow> client_state \<times> 'w \<Rightarrow>
   (cli_msg list \<times> (client_state \<times> 'w)) option" where
  "trace_query q lib session s =
     (case session of
        None \<Rightarrow> Some ([ErrorMsg ''No active session, cannot get execution trace''], s)
      | Some info \<Rightarrow> read_traces q lib (si_id info) 0 [] [] s)"

definition answer_query ::
  "query_host \<Rightarrow> request_host \<Rightarrow> 'w http_lib \<Rightarrow> session_info option \<Rightarrow> cli_cmd \<Rightarrow> client_state \<times> 'w \<Rightarrow>
   (cli_msg list \<times> (client_state \<times> 'w)) option" where
  "answer_query q host lib session cmd s =
     (case cmd of
        ListModelsCmd \<Rightarrow> Some (list_models_query lib s)
      | ListProvidersCmd \<Rightarrow> Some (list_providers_query lib s)
      | ListSessionsCmd \<Rightarrow> Some (list_sessions_query q lib (rh_cwd host) s)
      | GetUsageCmd \<Rightarrow> Some (usage_query lib session s)
      | GetTraceCmd \<Rightarrow> trace_query q lib session s
      | GetRouterStatusCmd \<Rightarrow> Some (router_status_query lib s)
      | PreviewCmd a \<Rightarrow> Some (preview_query q host lib session a s)
      | _ \<Rightarrow> Some ([], s))"

section \<open>Page by page\<close>

lemma render_append:
  "render_events q session (es @ fs) =
     (fst (render_events q session es) @ fst (render_events q session fs),
      snd (render_events q session es) @ snd (render_events q session fs))"
  by (induction es) (auto split: prod.split sum.split)

text \<open>A router that answers every page with the window asked for is read whole, and reading ends.\<close>

lemma pages_read:
  assumes page: "\<And>w offset. good w \<Longrightarrow> offset \<le> length events \<Longrightarrow>
      \<exists>w'. client_session_traces lib session (Some trace_limit) (Some offset) (c, w) =
        (Ok (TracesBody (take trace_limit (drop offset events))), (c, w')) \<and> good w'"
    and "good w" "offset \<le> length events"
  shows "\<exists>w'. read_traces q lib session offset msgs lines (c, w) =
    Some (msgs @ fst (render_events q session (drop offset events)) @
      [TraceMsg (lines @ snd (render_events q session (drop offset events)))], (c, w')) \<and> good w'"
  using assms(2,3)
proof (induction "length events - offset" arbitrary: offset msgs lines w rule: less_induct)
  case less
  let ?page = "take trace_limit (drop offset events)" and ?rest = "drop trace_limit (drop offset events)"
  obtain w' where answer: "client_session_traces lib session (Some trace_limit) (Some offset) (c, w) =
      (Ok (TracesBody ?page), (c, w'))" and good: "good w'"
    using page [OF less.prems] by blast
  note step = read_traces.simps [of q lib session offset msgs lines "(c, w)"]
  show ?case
  proof (cases "length ?page < trace_limit")
    case True
    then have whole: "?page = drop offset events" by simp
    show ?thesis
      using answer good True unfolding step whole by (cases "drop offset events = []") auto
  next
    case False
    then have "trace_limit \<le> length events - offset" by simp
    then have size: "length ?page = trace_limit" "offset + trace_limit \<le> length events"
      using less.prems(2) by simp_all
    have "0 < trace_limit" by (simp add: trace_limit_def)
    then have "length events - (offset + trace_limit) < length events - offset" using size(2) by linarith
    from less.hyps [OF this good size(2), of "msgs @ fst (render_events q session ?page)"
        "lines @ snd (render_events q session ?page)"]
    obtain w'' where rest: "read_traces q lib session (offset + trace_limit) (msgs @ fst (render_events q session ?page))
          (lines @ snd (render_events q session ?page)) (c, w') =
        Some ((msgs @ fst (render_events q session ?page)) @ fst (render_events q session ?rest) @
          [TraceMsg ((lines @ snd (render_events q session ?page)) @ snd (render_events q session ?rest))], (c, w''))"
      and "good w''"
      by (auto simp: add.commute)
    moreover have "drop offset events = ?page @ ?rest" by (rule append_take_drop_id [symmetric])
    then have "render_events q session (drop offset events) =
        (fst (render_events q session ?page) @ fst (render_events q session ?rest),
         snd (render_events q session ?page) @ snd (render_events q session ?rest))"
      using render_append by metis
    moreover have "?page \<noteq> []" using size(1) \<open>0 < trace_limit\<close> by (metis less_irrefl list.size(3))
    ultimately show ?thesis using answer False size(1) unfolding step by simp
  qed
qed

end
