(* ===== verification/Router_Wire.thy ===== *)
theory Router_Wire
  imports Router_Client
begin

text \<open>
  Client and router joined: the network of a client is a running router, each request is one pass
  through its layers.  The lemmas follow a user from the first key to the last sign-out, and an
  error from the handler that gives it to the client that reports it.
\<close>

section \<open>The network\<close>

record net =
  nt_web :: web_state
  nt_ticks :: "nat \<Rightarrow> web_tick"
  nt_seen :: nat

text \<open>What the HTTP library puts on the wire, as the router's library decodes it.\<close>

definition params_of :: "(string \<times> string) list \<Rightarrow> query_params" where
  "params_of pairs =
     \<lparr>qr_scope = map_of pairs ''scope'', qr_title = map_of pairs ''title'',
      qr_limit = Option.bind (map_of pairs ''limit'') parse_u64,
      qr_offset = Option.bind (map_of pairs ''offset'') parse_u64\<rparr>"

text \<open>The connection: how a query is written, how bytes are cut into reads, and the client's address.\<close>

record link =
  lk_query_text :: "(string \<times> string) list \<Rightarrow> string"
  lk_cut :: "string \<Rightarrow> string list"
  lk_peer :: string

definition link_law :: "link \<Rightarrow> bool" where
  "link_law lk \<longleftrightarrow> (\<forall>s. concat (lk_cut lk s) = s \<and> [] \<notin> set (lk_cut lk s))"

definition wire_request :: "link \<Rightarrow> http_call \<Rightarrow> web_request" where
  "wire_request lk call =
     \<lparr>wq_method = hc_method call, wq_path = hc_path call,
      wq_query = (if hc_query call = [] then None else Some (lk_query_text lk (hc_query call))),
      wq_params = Some (params_of (hc_query call)), wq_headers = wire_headers (hc_headers call),
      wq_payload = hc_payload call, wq_peer = lk_peer lk, wq_credentials = None\<rparr>"

definition body_text :: "wire_codec \<Rightarrow> web_body \<Rightarrow> string" where
  "body_text x b = (case b of StreamBody events \<Rightarrow> sse_body x events | _ \<Rightarrow> xc_body x b)"

definition answer_of :: "wire_codec \<Rightarrow> link \<Rightarrow> web_response \<Rightarrow> http_answer" where
  "answer_of x lk r =
     \<lparr>ha_status = wp_status r, ha_chunks = map ChunkOf (lk_cut lk (body_text x (wp_body r)))\<rparr>"

definition router_exchange ::
  "web_env \<Rightarrow> wire_codec \<Rightarrow> link \<Rightarrow> http_call \<Rightarrow> net \<Rightarrow>
   (string, http_answer) result \<times> net" where
  "router_exchange env x lk call n =
     (case build_router env (nt_ticks n (nt_seen n)) (wire_request lk call) (nt_web n) of
        (r, s) \<Rightarrow> (Ok (answer_of x lk r), n\<lparr>nt_web := s, nt_seen := Suc (nt_seen n)\<rparr>))"

definition router_lib ::
  "web_env \<Rightarrow> wire_codec \<Rightarrow> link \<Rightarrow> http_backend \<Rightarrow> net http_lib" where
  "router_lib env x lk backend =
     \<lparr>hl_backend = backend, hl_exchange = router_exchange env x lk, hl_header_error = [],
      hl_codec = x, hl_auth = we_auth env\<rparr>"

abbreviation net_db :: "net \<Rightarrow> database" where
  "net_db n \<equiv> ws_db (nt_web n)"

abbreviation net_tick :: "net \<Rightarrow> web_tick" where
  "net_tick n \<equiv> nt_ticks n (nt_seen n)"

section \<open>One call\<close>

lemma bind_done [simp]: "bind_c (done_c (Ok a)) f s = f a s" "bind_c (done_c (Err e)) f s = (Err e, s)"
  by (simp_all add: bind_c_def done_c_def)

lemma bind_c_Ok: "m s = (Ok a, t) \<Longrightarrow> bind_c m f s = f a t"
  by (simp add: bind_c_def)

lemma bind_c_Err: "m s = (Err e, t) \<Longrightarrow> bind_c m f s = (Err e, t)"
  by (simp add: bind_c_def)

text \<open>The answer of the router, as the client decodes it.\<close>

lemma whole_chunks: "whole_body (map ChunkOf cs) = Ok (concat cs)"
  by (induction cs) simp_all

lemma cut_whole: "link_law lk \<Longrightarrow> whole_body (map ChunkOf (lk_cut lk s)) = Ok s"
  by (simp add: whole_chunks link_law_def)

lemma success_decoded:
  assumes "body_law x b" "200 \<le> st" "st < 300" "kind_of b \<noteq> StreamKind"
    and link: "link_law lk"
  shows "decode_answer (router_lib env x lk be) (kind_of b) (answer_of x lk (respond st b)) = Ok b"
proof -
  have "body_text x b = xc_body x b" using assms(4) by (cases b) (simp_all add: body_text_def)
  then show ?thesis
    using assms cut_whole [OF link]
    by (simp add: decode_answer_def answer_of_def respond_def is_success_def read_body_def router_lib_def body_law_def)
qed

lemma api_error_arrives:
  assumes "body_law x (ErrorBody (ar_error e))" "\<not> is_success (ar_status e)"
    and link: "link_law lk"
  shows "decode_answer (router_lib env x lk be) kind (answer_of x lk (refuse e)) = Err (api_failure (ar_status e) (ar_error e))"
proof -
  have "xc_read x ErrorKind (xc_body x (ErrorBody (ar_error e))) = Ok (ErrorBody (ar_error e))"
    using assms(1) by (simp add: body_law_def)
  then show ?thesis
    using assms cut_whole [OF link] by (simp add: decode_answer_def decode_api_error_def answer_of_def refuse_def respond_def
        read_body_def router_lib_def body_text_def)
qed

text \<open>The layers let a request without credentials through as it is.\<close>

lemma admitted_as_sent:
  assumes "\<And>t. wq_query q = Some t \<Longrightarrow> \<not> query_has_credential t" "\<not> rl_enabled (rc_rate_limit (we_config env))"
    and "extract_provider_credentials (wq_headers q) = Map.empty"
  shows "build_router env k q s =
    (case dispatch env k q (ws_db s) of
       (r, d) \<Rightarrow> (r, s\<lparr>ws_db := d, ws_log := ws_log s @
         [\<lparr>le_method = wq_method q, le_path = wq_path q, le_status = wp_status r\<rparr>]\<rparr>))"
proof -
  have "reject_query_credentials next_service q s = next_service q s" for next_service s
    using assms(1) by (auto simp: reject_query_credentials_def split: option.split)
  then show ?thesis
    using assms(2,3)
    by (simp add: build_router_def Let_def extract_credentials_def log_requests_def routes_service_def split: prod.split)
qed

definition after_call :: "http_call \<Rightarrow> web_response \<Rightarrow> database \<Rightarrow> net \<Rightarrow> net" where
  "after_call call r d n =
     n\<lparr>nt_web := (nt_web n)\<lparr>ws_db := d, ws_log := ws_log (nt_web n) @
         [\<lparr>le_method = hc_method call, le_path = hc_path call, le_status = wp_status r\<rparr>]\<rparr>,
       nt_seen := Suc (nt_seen n)\<rparr>"

lemma after_call_simps [simp]:
  "net_db (after_call call r d n) = d" "nt_ticks (after_call call r d n) = nt_ticks n"
  "nt_seen (after_call call r d n) = Suc (nt_seen n)"
  by (simp_all add: after_call_def)

lemma send_over_wire:
  assumes "list_all (\<lambda>(_, v). list_all header_value_char v) (hc_headers call)"
    and "hc_query call = [] \<or> \<not> query_has_credential (lk_query_text lk (hc_query call))"
    and "foreign (wire_headers (hc_headers call))" "\<not> rl_enabled (rc_rate_limit (we_config env))"
    and "dispatch env (net_tick n) (wire_request lk call) (net_db n) = (r, d)"
  shows "send (router_lib env x lk be) kind call (c, n) =
    (decode_answer (router_lib env x lk be) kind (answer_of x lk r), (c, after_call call r d n))"
proof -
  have "build_router env (net_tick n) (wire_request lk call) (nt_web n) =
      (r, (nt_web n)\<lparr>ws_db := d, ws_log := ws_log (nt_web n) @
         [\<lparr>le_method = hc_method call, le_path = hc_path call, le_status = wp_status r\<rparr>]\<rparr>)"
  proof (subst admitted_as_sent)
    show "\<And>t. wq_query (wire_request lk call) = Some t \<Longrightarrow> \<not> query_has_credential t"
      using assms(2) by (auto simp: wire_request_def split: if_splits)
    show "extract_provider_credentials (wq_headers (wire_request lk call)) = Map.empty"
      using assms(3) by (simp add: wire_request_def extract_provider_credentials_def extract_foreign)
  qed (use assms(4,5) in \<open>simp_all add: wire_request_def\<close>)
  then show ?thesis
    using assms(1)
    by (simp add: send_def built_def bind_c_def done_c_def exchange_def router_lib_def router_exchange_def after_call_def)
qed

lemma unauthenticated_stays_home:
  assumes "cs_token c = None" "bu_can_be_base (cs_base c)"
  shows "plain_call lib m p kind (c, w) = (Err NotAuthenticated, (c, w))"
    "json_call lib m p payload kind (c, w) = (Err NotAuthenticated, (c, w))"
    "query_call lib p pairs kind (c, w) = (Err NotAuthenticated, (c, w))"
    "turn_call_with p payload deliver (c, w) = (Err NotAuthenticated, (c, w))"
    "client_list_models lib (c, w) = (Err NotAuthenticated, (c, w))"
    "client_sign_out lib (c, w) = (Err NotAuthenticated, (c, w))"
  using assms
  by (simp_all add: plain_call_def json_call_def query_call_def turn_call_with_def client_list_models_def
      client_sign_out_def call_to_def authorize_def held_token_def bind_c_def)

section \<open>From the first key to the last sign-out\<close>

definition argon_law :: "auth_runtime \<Rightarrow> bool" where
  "argon_law rt \<longleftrightarrow> (\<forall>salt secret. \<exists>h. ar_argon2 rt salt secret = Some h \<and> ar_argon2_verify rt secret h = Some True)"

definition visible_text :: "string \<Rightarrow> bool" where
  "visible_text s \<longleftrightarrow> list_all visible_char s"

lemma visible_header: "visible_text v \<Longrightarrow> list_all header_value_char v \<and> to_str v = Some v"
  by (auto simp: visible_text_def to_str_def list_all_iff visible_char_def header_value_char_def)

lemma visible_append [simp]: "visible_text (a @ b) \<longleftrightarrow> visible_text a \<and> visible_text b"
  by (simp add: visible_text_def)

lemma visible_simple: "visible_text u \<Longrightarrow> visible_text (simple_uuid u)"
  by (auto simp: visible_text_def simple_uuid_def list_all_iff)

lemma visible_key:
  "visible_text u \<Longrightarrow> visible_text secret \<Longrightarrow> visible_text (api_key_from_parts u secret)"
  "visible_text u \<Longrightarrow> visible_text secret \<Longrightarrow> visible_text (session_token_from_parts u secret)"
  using visible_simple [of u]
  by (simp_all add: api_key_from_parts_def session_token_from_parts_def)
    (simp_all add: visible_text_def api_key_prefix_def dash_def visible_char_def code_def)

lemma wire_key_header: "wire_headers [(api_key_header, v)] = [(''x-smista-api-key'', v)]"
  by (simp add: wire_headers_def api_key_header_def to_ascii_lowercase_def ascii_lower_def code_def char_of_def bit_0)

lemma wire_bearer: "wire_headers [(''Authorization'', v)] = [(''authorization'', v)]"
  by (simp add: wire_headers_def to_ascii_lowercase_def ascii_lower_def code_def char_of_def bit_0)

lemma own_headers_foreign:
  "foreign [(''authorization'', v)]" "foreign [(''x-smista-api-key'', v)]" "foreign []"
  by (simp_all add: foreign_def provider_from_header_def strip_prefix_def provider_credential_prefix_def)

definition bearer_call :: "http_method \<Rightarrow> base_url \<Rightarrow> string \<Rightarrow> string \<Rightarrow> http_call" where
  "bearer_call m base p token =
     \<lparr>hc_method = m, hc_origin = bu_origin base, hc_path = p, hc_query = [],
      hc_headers = [(''Authorization'', ''Bearer '' @ token)], hc_payload = NoPayload\<rparr>"

lemma bearer_sent:
  assumes "cs_token c = Some token" "bu_can_be_base (cs_base c)"
  shows "bind_c (call_to m p) (\<lambda>call. bind_c (authorize call) f) (c, w) = f (bearer_call m (cs_base c) p token) (c, w)"
  using assms
  by (simp add: call_to_def authorize_def held_token_def bind_c_def done_c_def add_header_def bearer_call_def)

lemma bearer_wire:
  assumes "visible_text token"
  shows "list_all (\<lambda>(_, v). list_all header_value_char v) (hc_headers (bearer_call m base p token))"
    and "foreign (wire_headers (hc_headers (bearer_call m base p token)))"
    and "hc_query (bearer_call m base p token) = []"
proof -
  have "visible_text (''Bearer '' @ token)"
    using assms by (simp add: visible_text_def visible_char_def code_def)
  then show "list_all (\<lambda>(_, v). list_all header_value_char v) (hc_headers (bearer_call m base p token))"
    using visible_header [of "''Bearer '' @ token"] by (simp only: bearer_call_def http_call.simps list.pred_inject prod.case)
  show "foreign (wire_headers (hc_headers (bearer_call m base p token)))"
    using own_headers_foreign(1) by (simp add: bearer_call_def wire_bearer)
qed (simp add: bearer_call_def)

lemma bearer_authenticated:
  assumes "visible_text token"
  shows "authenticate_request env k (wire_headers (hc_headers (bearer_call m base p token))) d =
    (case authenticate_token (we_auth env) (wk_now k) token d of
       Inl e \<Rightarrow> Err (web_error_of_auth e) | Inr user \<Rightarrow> Ok \<lparr>au_user_id = user, au_token = token\<rparr>)"
proof -
  have "visible_text (''Bearer '' @ token)"
    using assms by (simp add: visible_text_def visible_char_def code_def)
  then have "to_str (''Bearer '' @ token) = Some (''Bearer '' @ token)" using visible_header by blast
  moreover have "strip_prefix bearer_prefix (''Bearer '' @ token) = Some token"
    by (simp add: strip_prefix_Some bearer_prefix_def)
  moreover have "wire_headers (hc_headers (bearer_call m base p token)) = [(''authorization'', ''Bearer '' @ token)]"
    unfolding bearer_call_def http_call.simps by (rule wire_bearer)
  ultimately show ?thesis by (simp add: authenticate_request_def get_header_def)
qed

text \<open>A request with a bearer token, answered by the handler of its route.\<close>

lemma bearer_call_answered:
  assumes "body_law x b"
    and "visible_text token" "\<not> rl_enabled (rc_rate_limit (we_config env))"
    and "match_route m p = Some ep" "\<not> is_public ep"
    and "bu_can_be_base (cs_base c)" "cs_token c = Some token"
    and "authenticate_token (we_auth env) (wk_now (net_tick n)) token (net_db n) = Ok user"
    and "handler env (net_tick n) \<lparr>au_user_id = user, au_token = token\<rparr> ep
      (wire_request lk (bearer_call m (cs_base c) p token)) (net_db n) = (respond st b, d)"
    and "200 \<le> st" "st < 300" "kind_of b \<noteq> StreamKind"
    and link: "link_law lk"
  shows "plain_call (router_lib env x lk be) m p (kind_of b) (c, n) =
    (Ok b, (c, after_call (bearer_call m (cs_base c) p token) (respond st b) d n))"
proof -
  let ?call = "bearer_call m (cs_base c) p token"
  have "dispatch env (net_tick n) (wire_request lk ?call) (net_db n) = (respond st b, d)"
    using assms(4,5,8,9) bearer_authenticated [OF assms(2), of env "net_tick n" m "cs_base c" p "net_db n"]
    by (simp add: dispatch_def wire_request_def bearer_call_def)
  from send_over_wire [OF bearer_wire(1) [OF assms(2)] disjI1 [OF bearer_wire(3) [OF assms(2)]] bearer_wire(2) [OF assms(2)] assms(3) this,
      of x be "kind_of b" c]
  show ?thesis
    unfolding plain_call_def bearer_sent [OF assms(7,6)]
    using success_decoded [OF assms(1,10-12) link, of env be] by simp
qed

lemma bearer_call_refused:
  assumes "body_law x (ErrorBody (ar_error (web_error_of_auth e)))"
    and "visible_text token" "\<not> rl_enabled (rc_rate_limit (we_config env))"
    and "match_route m p = Some ep" "\<not> is_public ep"
    and "bu_can_be_base (cs_base c)" "cs_token c = Some token"
    and "authenticate_token (we_auth env) (wk_now (net_tick n)) token (net_db n) = Err e"
    and "\<not> is_success (ar_status (web_error_of_auth e))"
    and link: "link_law lk"
  shows "fst (plain_call (router_lib env x lk be) m p kind (c, n)) =
    Err (api_failure (ar_status (web_error_of_auth e)) (ar_error (web_error_of_auth e)))"
proof -
  let ?call = "bearer_call m (cs_base c) p token"
  have "dispatch env (net_tick n) (wire_request lk ?call) (net_db n) = (refuse (web_error_of_auth e), net_db n)"
    using assms(4,5,8) bearer_authenticated [OF assms(2), of env "net_tick n" m "cs_base c" p "net_db n"]
    by (simp add: dispatch_def wire_request_def bearer_call_def)
  from send_over_wire [OF bearer_wire(1) [OF assms(2)] disjI1 [OF bearer_wire(3) [OF assms(2)]] bearer_wire(2) [OF assms(2)] assms(3) this,
      of x be kind c]
  show ?thesis
    unfolding plain_call_def bearer_sent [OF assms(7,6)]
    using api_error_arrives [OF assms(1,9) link, of env be kind] by simp
qed

text \<open>The key is minted once, and kept.\<close>

lemma bootstrapped_over_wire:
  assumes "body_law x (BootstrapBody (wk_id (net_tick n)) (api_key_from_parts (wk_id (net_tick n)) (wk_secret (net_tick n))))"
    and "argon_law (we_auth env)" "\<not> rl_enabled (rc_rate_limit (we_config env))"
    and "bu_can_be_base (cs_base c)" "uuid_law (we_auth env) (wk_id (net_tick n))" "wk_secret (net_tick n) \<noteq> []"
    and "db_users (net_db n) = []"
    and link: "link_law lk"
  shows "\<exists>hash n'. client_bootstrap (router_lib env x lk be) (c, n) =
      (Ok (BootstrapBody (wk_id (net_tick n)) (api_key_from_parts (wk_id (net_tick n)) (wk_secret (net_tick n)))),
       (c\<lparr>cs_api_key := Some (api_key_from_parts (wk_id (net_tick n)) (wk_secret (net_tick n)))\<rparr>, n')) \<and>
    ar_argon2_verify (we_auth env) (api_key_from_parts (wk_id (net_tick n)) (wk_secret (net_tick n))) hash = Some True \<and>
    net_db n' = (net_db n)\<lparr>db_users := [new_user (wk_id (net_tick n)) hash]\<rparr> \<and>
    nt_ticks n' = nt_ticks n \<and> nt_seen n' = Suc (nt_seen n)"
proof -
  let ?k = "net_tick n" and ?lib = "router_lib env x lk be"
  let ?key = "api_key_from_parts (wk_id ?k) (wk_secret ?k)"
  let ?call = "\<lparr>hc_method = POST, hc_origin = bu_origin (cs_base c), hc_path = ''/api/v1/auth/bootstrap'',
    hc_query = [], hc_headers = [], hc_payload = NoPayload\<rparr>"
  obtain hash where hash: "ar_argon2 (we_auth env) (wk_salt ?k) ?key = Some hash"
      "ar_argon2_verify (we_auth env) ?key hash = Some True"
    using assms(2) unfolding argon_law_def by blast
  let ?d = "(net_db n)\<lparr>db_users := [new_user (wk_id ?k) hash]\<rparr>"
  have route: "match_route POST ''/api/v1/auth/bootstrap'' = Some BootstrapEp"
    by (simp add: match_route_def path_segments_def api_route_def Let_def)
  have dispatched: "dispatch env ?k (wire_request lk ?call) (net_db n) = (respond 201 (BootstrapBody (wk_id ?k) ?key), ?d)"
    using route assms(7) hash(1)
    by (simp add: dispatch_def wire_request_def bootstrap_route_def bootstrap_user_def create_user_def Let_def)
  let ?n' = "after_call ?call (respond 201 (BootstrapBody (wk_id ?k) ?key)) ?d n"
  have plain_headers: "list_all (\<lambda>(_, v). list_all header_value_char v) (hc_headers ?call)" "hc_query ?call = []"
      "foreign (wire_headers (hc_headers ?call))"
    using own_headers_foreign(3) by (simp_all add: wire_headers_def)
  have sent: "send ?lib BootstrapKind ?call (c, n) = (Ok (BootstrapBody (wk_id ?k) ?key), (c, ?n'))"
    using send_over_wire [OF plain_headers(1) disjI1 [OF plain_headers(2)] plain_headers(3) assms(3) dispatched, of x be BootstrapKind c]
      success_decoded [OF assms(1) _ _ _ link, of 201 env be] by simp
  have opened: "call_to POST ''/api/v1/auth/bootstrap'' (c, n) = (Ok ?call, (c, n))"
    using assms(4) by (simp add: call_to_def Let_def)
  have parses: "parse_api_key_user_id (hl_auth ?lib) ?key = Ok (wk_id ?k)"
    using api_key_parses [OF assms(5,6)] by (simp add: router_lib_def)
  have "client_bootstrap ?lib (c, n) = (Ok (BootstrapBody (wk_id ?k) ?key), (c\<lparr>cs_api_key := Some ?key\<rparr>, ?n'))"
    by (simp add: client_bootstrap_def bind_c_def opened sent parses)
  then show ?thesis using hash(2) by (intro exI [of _ hash] exI [of _ ?n']) simp
qed

definition sha_law :: "auth_runtime \<Rightarrow> bool" where
  "sha_law rt \<longleftrightarrow> (\<forall>salt secret. \<exists>h. ar_sha512 rt salt secret = Some h)"

text \<open>The token of a sign-in, and what it is good for.\<close>

definition live_token :: "auth_runtime \<Rightarrow> string \<Rightarrow> string \<Rightarrow> nat \<Rightarrow> string \<Rightarrow> database \<Rightarrow> bool" where
  "live_token rt token i expires user d \<longleftrightarrow>
     parse_session_token_id rt token = Ok i \<and>
     (\<exists>row. get_token i d = Some row \<and> ar_sha512_verify rt token (ak_hash row) \<and> ak_revoked row = None \<and>
        ak_expires row = expires \<and> ak_user row = user)"

lemma live_token_authenticates:
  "live_token rt token i expires user d \<Longrightarrow> now < expires \<Longrightarrow> authenticate_token rt now token d = Ok user"
  by (auto simp: live_token_def authenticate_row)

text \<open>A live token is recognised, a revoked one is refused.\<close>

lemma me_route_matched: "match_route GET ''/api/v1/auth/me'' = Some MeEp"
  by (simp add: match_route_def path_segments_def api_route_def Let_def)

lemma recognised_over_wire:
  assumes "body_law x (MeBody user)" "visible_text token" "\<not> rl_enabled (rc_rate_limit (we_config env))"
    and "bu_can_be_base (cs_base c)" "cs_token c = Some token"
    and "live_token (we_auth env) token i expires user (net_db n)" "wk_now (net_tick n) < expires" "link_law lk"
  shows "\<exists>n'. client_me (router_lib env x lk be) (c, n) = (Ok (MeBody user), (c, n')) \<and>
    net_db n' = net_db n \<and> nt_ticks n' = nt_ticks n \<and> nt_seen n' = Suc (nt_seen n)"
  using bearer_call_answered [OF assms(1) assms(2,3) me_route_matched _ assms(4,5), of n user lk 200 "net_db n" be] assms(6-8)
    live_token_authenticates [OF assms(6,7)]
  by (simp add: client_me_def handler_def me_route_def)

lemma revoked_over_wire:
  assumes "body_law x (ErrorBody (ar_error (web_error_of_auth RevokedToken)))"
    and "visible_text token" "\<not> rl_enabled (rc_rate_limit (we_config env))" "bu_can_be_base (cs_base c)"
    and "\<And>now. authenticate_token (we_auth env) now token (net_db n) = Err RevokedToken" "link_law lk"
  shows "fst (client_me (router_lib env x lk be) (with_session_token token c, n)) =
    Err (ApiFailure 401 ''token_revoked'' ''The session token has been revoked.'' None)"
proof -
  have "fst (client_me (router_lib env x lk be) (with_session_token token c, n)) =
      Err (api_failure (ar_status (web_error_of_auth RevokedToken)) (ar_error (web_error_of_auth RevokedToken)))"
    unfolding client_me_def using assms me_route_matched
    by (intro bearer_call_refused [where ep = MeEp and token = token])
      (simp_all add: with_session_token_def is_success_def from_code_def api_error_new_def)
  then show ?thesis by (simp add: api_failure_def from_code_def api_error_new_def)
qed

lemma signed_in_over_wire:
  assumes "body_law x (SignInBody token expires)"
    and "hash_law (we_auth env)" "sha_law (we_auth env)" "\<not> rl_enabled (rc_rate_limit (we_config env))"
    and "bu_can_be_base (cs_base c)" "uuid_law (we_auth env) (wk_id (net_tick n))" "wk_secret (net_tick n) \<noteq> []"
    and "cs_api_key c = Some key" "visible_text key" "parse_api_key_user_id (we_auth env) key = Ok user"
    and "db_users (net_db n) = [new_user user hash]" "ar_argon2_verify (we_auth env) key hash = Some True"
    and "db_tokens (net_db n) = []"
    and token: "token = session_token_from_parts (wk_id (net_tick n)) (wk_secret (net_tick n))"
    and expires: "expires = wk_now (net_tick n) + ra_token_ttl_seconds (rc_auth (we_config env))"
    and link: "link_law lk"
  shows "\<exists>n'. client_sign_in (router_lib env x lk be) (c, n) =
      (Ok (SignInBody token expires), (c\<lparr>cs_token := Some token\<rparr>, n')) \<and>
    live_token (we_auth env) token (wk_id (net_tick n)) expires user (net_db n') \<and>
    nt_ticks n' = nt_ticks n \<and> nt_seen n' = Suc (nt_seen n)"
proof -
  let ?k = "net_tick n" and ?rt = "we_auth env" and ?lib = "router_lib env x lk be"
  let ?call = "\<lparr>hc_method = POST, hc_origin = bu_origin (cs_base c), hc_path = ''/api/v1/auth/sign-in'',
    hc_query = [], hc_headers = [], hc_payload = NoPayload\<rparr>"
  let ?keyed = "add_header api_key_header key ?call"
  let ?ttl = "ra_token_ttl_seconds (rc_auth (we_config env))"
  obtain h where h: "ar_sha512 ?rt (wk_salt ?k) token = Some h" using assms(3) unfolding sha_law_def by blast
  have found: "get_user user (net_db n) = Some (new_user user hash)"
    using assms(11) by (simp add: get_user_def new_user_def)
  obtain d where signed: "sign_in ?rt (wk_now ?k) ?ttl (wk_salt ?k) (wk_id ?k) (wk_secret ?k) key (net_db n) =
      (Ok \<lparr>sn_expires_at = expires, sn_token = token\<rparr>, d)"
    using assms(10-13) found h token expires
    by (simp add: sign_in_def Let_def create_token_def new_user_def new_auth_token_def)
  have live: "live_token ?rt token (wk_id ?k) expires user d"
    using signed_in_token [OF signed assms(2,6,7)] assms(10) by (auto simp: live_token_def)
  have parses: "parse_session_token_id ?rt token = Ok (wk_id ?k)" using live by (simp add: live_token_def)
  have wire: "wire_headers (hc_headers ?keyed) = [(''x-smista-api-key'', key)]"
    by (simp add: add_header_def wire_key_header)
  have readable: "to_str key = Some key" "list_all header_value_char key" using visible_header [OF assms(9)] by simp_all
  have route: "match_route POST ''/api/v1/auth/sign-in'' = Some SignInEp"
    by (simp add: match_route_def path_segments_def api_route_def Let_def)
  have "wq_headers (wire_request lk ?keyed) = [(''x-smista-api-key'', key)]"
    unfolding wire_request_def web_request.simps by (rule wire)
  then have dispatched: "dispatch env ?k (wire_request lk ?keyed) (net_db n) = (respond 200 (SignInBody token expires), d)"
    using route signed readable(1)
    by (simp add: dispatch_def wire_request_def add_header_def sign_in_route_def get_header_def)
  let ?n' = "after_call ?keyed (respond 200 (SignInBody token expires)) d n"
  have sendable: "list_all (\<lambda>(_, v). list_all header_value_char v) (hc_headers ?keyed)" "hc_query ?keyed = []"
    using readable(2) by (simp_all add: add_header_def)
  have "foreign (wire_headers (hc_headers ?keyed))" unfolding wire by (rule own_headers_foreign)
  from send_over_wire [OF sendable(1) disjI1 [OF sendable(2)] this assms(4) dispatched, of x be SignInKind c]
  have sent: "send ?lib SignInKind ?keyed (c, n) = (Ok (SignInBody token expires), (c, ?n'))"
    using success_decoded [OF assms(1) _ _ _ link, of 200 env be] by simp
  have opened: "call_to POST ''/api/v1/auth/sign-in'' (c, n) = (Ok ?call, (c, n))"
    using assms(5) by (simp add: call_to_def Let_def)
  have "client_sign_in ?lib (c, n) = (Ok (SignInBody token expires), (c\<lparr>cs_token := Some token\<rparr>, ?n'))"
    using parses by (simp add: client_sign_in_def bind_c_def opened assms(8) sent) (simp add: router_lib_def)
  then show ?thesis using live by (intro exI [of _ ?n']) simp
qed

lemma signed_out_over_wire:
  assumes "body_law x SignedOutBody"
    and "visible_text token" "\<not> rl_enabled (rc_rate_limit (we_config env))"
    and "bu_can_be_base (cs_base c)" "cs_token c = Some token"
    and "live_token (we_auth env) token i expires user (net_db n)" "wk_now (net_tick n) < expires"
    and link: "link_law lk"
  shows "\<exists>n'. client_sign_out (router_lib env x lk be) (c, n) = (Ok SignedOutBody, (c\<lparr>cs_token := None\<rparr>, n')) \<and>
    (\<forall>now. authenticate_token (we_auth env) now token (net_db n') = Err RevokedToken) \<and>
    nt_ticks n' = nt_ticks n \<and> nt_seen n' = Suc (nt_seen n)"
proof -
  let ?k = "net_tick n" and ?rt = "we_auth env" and ?lib = "router_lib env x lk be"
  let ?call = "bearer_call POST (cs_base c) ''/api/v1/auth/sign-out'' token"
  obtain row where row: "parse_session_token_id ?rt token = Ok i" "get_token i (net_db n) = Some row"
      "ar_sha512_verify ?rt token (ak_hash row)"
    using assms(6) unfolding live_token_def by blast
  let ?d = "snd (revoke_token (wk_now ?k) i (net_db n))"
  have out: "sign_out ?rt (wk_now ?k) token (net_db n) = (Ok (), ?d)" using sign_out_row(1) [OF row(1,2)] .
  have revoked: "authenticate_token ?rt t token ?d = Err RevokedToken" for t
    using authenticate_row [OF row(1) sign_out_row(2) [OF row(1,2), of "wk_now ?k"], of t] row(3) by simp
  have route: "match_route POST ''/api/v1/auth/sign-out'' = Some SignOutEp"
    by (simp add: match_route_def path_segments_def api_route_def Let_def)
  have dispatched: "dispatch env ?k (wire_request lk ?call) (net_db n) = (respond 200 SignedOutBody, ?d)"
    using route out live_token_authenticates [OF assms(6,7)]
      bearer_authenticated [OF assms(2), of env ?k POST "cs_base c" "''/api/v1/auth/sign-out''" "net_db n"]
    by (simp add: dispatch_def wire_request_def bearer_call_def handler_def Let_def sign_out_route_def)
  let ?n' = "after_call ?call (respond 200 SignedOutBody) ?d n"
  from send_over_wire [OF bearer_wire(1) [OF assms(2)] disjI1 [OF bearer_wire(3) [OF assms(2)]] bearer_wire(2) [OF assms(2)]
      assms(3) dispatched, of x be SignedOutKind c]
  have "send ?lib SignedOutKind ?call (c, n) = (Ok SignedOutBody, (c, ?n'))"
    using success_decoded [OF assms(1) _ _ _ link, of 200 env be] by simp
  then have "client_sign_out ?lib (c, n) = (Ok SignedOutBody, (c\<lparr>cs_token := None\<rparr>, ?n'))"
    unfolding client_sign_out_def bearer_sent [OF assms(5,4)] by (simp add: bind_c_def)
  then show ?thesis using revoked by (intro exI [of _ ?n']) simp
qed

section \<open>A streamed turn\<close>

lemma admitted_with:
  assumes "wq_query q = None" "\<not> rl_enabled (rc_rate_limit (we_config env))" "wq_credentials q = None"
  shows "fst (build_router env k q s) = fst (dispatch env k (q\<lparr>wq_credentials :=
    (if extract_provider_credentials (wq_headers q) = Map.empty then None
     else Some (extract_provider_credentials (wq_headers q)))\<rparr>) (ws_db s))"
proof (cases "extract_provider_credentials (wq_headers q) = Map.empty")
  case True
  have same: "q\<lparr>wq_credentials := None\<rparr> = q" using assms(3) by (cases q) simp
  have "fst (build_router env k q s) = fst (dispatch env k q (ws_db s))"
    using admitted_as_sent [of q env, OF _ assms(2) True] assms(1) by (simp split: prod.split)
  then show ?thesis by (simp only: True simp_thms if_True same)
next
  case False
  then show ?thesis using dispatched [OF assms(1,2) refl False] by simp
qed

lemma headers_added: "foldl (\<lambda>c (n, v). add_header n v c) call hs = call\<lparr>hc_headers := hc_headers call @ hs\<rparr>"
  by (induction hs arbitrary: call) (auto simp: add_header_def)

lemma wire_append: "wire_headers (a @ b) = wire_headers a @ wire_headers b"
  by (simp add: wire_headers_def)

definition stream_headers :: "string \<Rightarrow> provider_keys \<Rightarrow> headers" where
  "stream_headers token keys = [(''Authorization'', ''Bearer '' @ token)] @ headers_map keys @
     [(''Content-Type'', ''application/json''), (''Accept'', ''text/event-stream'')]"

definition stream_call :: "base_url \<Rightarrow> string \<Rightarrow> string \<Rightarrow> provider_keys \<Rightarrow> web_payload \<Rightarrow> http_call" where
  "stream_call base p token keys payload =
     \<lparr>hc_method = POST, hc_origin = bu_origin base, hc_path = p, hc_query = [],
      hc_headers = stream_headers token keys, hc_payload = payload\<rparr>"

lemma stream_request_built:
  assumes "cs_token c = Some token" "bu_can_be_base (cs_base c)"
    and "list_all (\<lambda>(_, v). list_all header_value_char v) (stream_headers token (cs_keys c))"
  shows "turn_call_with p payload (open_stream lib) (c, w) =
    bind_c (exchange lib (stream_call (cs_base c) p token (cs_keys c) payload)) (\<lambda>a.
      done_c (if is_success (ha_status a) then Ok (stream_of lib a) else Err (decode_api_error lib a))) (c, w)"
proof -
  have "add_header ''Accept'' ''text/event-stream'' (json_payload payload (foldl (\<lambda>c (n, v). add_header n v c)
      (bearer_call POST (cs_base c) p token) (headers_map (cs_keys c)))) =
      stream_call (cs_base c) p token (cs_keys c) payload"
    unfolding headers_added
    by (simp add: json_payload_def add_header_def bearer_call_def stream_call_def stream_headers_def)
  moreover have "hc_headers (stream_call (cs_base c) p token (cs_keys c) payload) = stream_headers token (cs_keys c)"
    by (simp add: stream_call_def)
  ultimately have "open_stream lib (json_payload payload (foldl (\<lambda>c (n, v). add_header n v c)
      (bearer_call POST (cs_base c) p token) (headers_map (cs_keys c)))) (c, w) =
    bind_c (exchange lib (stream_call (cs_base c) p token (cs_keys c) payload)) (\<lambda>a.
      done_c (if is_success (ha_status a) then Ok (stream_of lib a) else Err (decode_api_error lib a))) (c, w)"
    using assms(3) by (simp add: open_stream_def built_def)
  then show ?thesis
    unfolding turn_call_with_def bearer_sent [OF assms(1,2)]
    by (simp add: bind_c_def provider_headers_def)
qed

text \<open>The keys a client may hold: every instance has a name of its own, every key is text.\<close>

definition sendable_keys :: "provider_keys \<Rightarrow> bool" where
  "sendable_keys keys \<longleftrightarrow> distinct (map fst keys) \<and> list_all own_name (map fst keys) \<and>
     list_all (\<lambda>(_, v). to_str v = Some v) keys"

lemma to_str_visible: "to_str v = Some v \<longleftrightarrow> visible_text v"
  by (simp add: to_str_def visible_text_def)

lemma key_headers:
  "sendable_keys keys \<Longrightarrow> headers_map keys = map (\<lambda>(p, v). (header_name p, v)) keys"
  by (simp add: sendable_keys_def headers_map_plain)

lemma key_header_lower:
  "own_name p \<Longrightarrow> to_ascii_lowercase (header_name p) \<noteq> ''accept'' \<and> to_ascii_lowercase (header_name p) \<noteq> ''authorization''"
  by (simp add: lower_header_name provider_credential_prefix_def)

lemma stream_headers_valid:
  assumes "visible_text token" "sendable_keys keys"
  shows "list_all (\<lambda>(_, v). list_all header_value_char v) (stream_headers token keys)"
proof -
  have "visible_text (''Bearer '' @ token)" "visible_text ''application/json''" "visible_text ''text/event-stream''"
    using assms(1) by (simp_all add: visible_text_def visible_char_def code_def)
  then have "list_all header_value_char (''Bearer '' @ token)" "list_all header_value_char ''application/json''"
      "list_all header_value_char ''text/event-stream''"
    using visible_header by blast+
  moreover have "list_all (\<lambda>(_, v). list_all header_value_char v) (headers_map keys)"
    using assms(2) visible_header unfolding key_headers [OF assms(2)]
    by (auto simp: sendable_keys_def list_all_iff to_str_visible)
  ultimately show ?thesis by (simp only: stream_headers_def list_all_append list.pred_inject prod.case)
qed

lemma stream_headers_wire:
  "wire_headers (stream_headers token keys) = [(''authorization'', ''Bearer '' @ token)] @ wire_headers (headers_map keys) @
     [(''content-type'', ''application/json''), (''accept'', ''text/event-stream'')]"
  by (simp add: stream_headers_def wire_headers_def to_ascii_lowercase_def ascii_lower_def code_def char_of_def bit_0)

lemma stream_headers_read:
  assumes "sendable_keys keys"
  shows "extract_provider_credentials (wire_headers (stream_headers token keys)) = map_of keys"
    and "wants_event_stream (wire_headers (stream_headers token keys))"
proof -
  have "foreign [(''content-type'', ''application/json''), (''accept'', ''text/event-stream'')]"
    by (simp add: foreign_def provider_from_header_def strip_prefix_def provider_credential_prefix_def)
  then show "extract_provider_credentials (wire_headers (stream_headers token keys)) = map_of keys"
    unfolding stream_headers_wire using assms own_headers_foreign(1)
    by (intro sent_credentials_read) (simp_all add: sendable_keys_def)
  have "to_ascii_lowercase (header_name p) \<noteq> ''accept''" if "(p, v) \<in> set keys" for p v
    using that assms key_header_lower [of p] by (auto simp: sendable_keys_def list_all_iff)
  then have "map_of (wire_headers (headers_map keys)) ''accept'' = None"
    unfolding key_headers [OF assms] by (force simp: map_of_eq_None_iff wire_headers_def)
  then have "get_header ''accept'' (wire_headers (stream_headers token keys)) = Some ''text/event-stream''"
    unfolding stream_headers_wire by (simp add: get_header_def map_add_def)
  moreover have "to_str ''text/event-stream'' = Some ''text/event-stream''"
    by (simp add: to_str_def visible_char_def code_def)
  moreover have "trim_text ''text/event-stream'' = ''text/event-stream''"
    by (simp add: trim_text_def trim_start_def is_whitespace_def code_def of_char_def)
  ultimately show "wants_event_stream (wire_headers (stream_headers token keys))"
    by (simp add: wants_event_stream_def)
qed

lemma session_route_path:
  assumes "i \<noteq> []" "CHR ''/'' \<notin> set i"
  shows "match_route POST (session_path i ''/execute'') = Some (ExecuteEp i)"
proof -
  have "split_when (\<lambda>c. c = CHR ''/'') (i @ CHR ''/'' # ''execute'') = [i, ''execute'']"
    using assms(2) split_when_append [of i "\<lambda>c. c = CHR ''/''" "CHR ''/''" "''execute''"] by auto
  then have "path_segments (session_path i ''/execute'') = [[], ''api'', ''v1'', ''sessions'', i, ''execute'']"
    by (simp add: path_segments_def session_path_def)
  then show ?thesis using assms(1)
    by (simp add: match_route_def api_route_def session_route_def Let_def)
qed

lemma stream_authenticated:
  assumes "visible_text token"
  shows "authenticate_request env k (wire_headers (stream_headers token keys)) d =
    (case authenticate_token (we_auth env) (wk_now k) token d of
       Inl e \<Rightarrow> Err (web_error_of_auth e) | Inr user \<Rightarrow> Ok \<lparr>au_user_id = user, au_token = token\<rparr>)"
proof -
  have "visible_text (''Bearer '' @ token)"
    using assms by (simp add: visible_text_def visible_char_def code_def)
  then have "to_str (''Bearer '' @ token) = Some (''Bearer '' @ token)" using visible_header by blast
  moreover have "strip_prefix bearer_prefix (''Bearer '' @ token) = Some token"
    by (simp add: strip_prefix_Some bearer_prefix_def)
  ultimately show ?thesis
    unfolding stream_headers_wire by (simp add: authenticate_request_def get_header_def)
qed

lemma stream_delivered:
  assumes "link_law lk" "list_all (event_law x) events" "list_all (\<lambda>e. \<not> is_turn_end e) (butlast events)"
  shows "stream_of (router_lib env x lk be) (answer_of x lk (respond 200 (StreamBody events))) = map Inr events"
proof -
  have cut: "concat (lk_cut lk (sse_body x events)) = sse_body x events" "ChunkOf [] \<notin> set (map ChunkOf (lk_cut lk (sse_body x events)))"
    using assms(1) by (auto simp: link_law_def)
  note read = streamed_events_read [OF assms(2,3) cut(1)]
  show ?thesis
    using read reading_same [OF cut(2)]
    by (cases be) (simp_all add: stream_of_def router_lib_def answer_of_def respond_def body_text_def)
qed

end
