(* ===== verification/Query_Wire.thy ===== *)
theory Query_Wire
  imports Cli_Queries Router_Wire
begin

text \<open>
  The queries of the client over a running router: numbers survive the query of a request, a page of
  the trace arrives as the database holds it, and the pages together are the whole trace.
\<close>

section \<open>Numbers in a query\<close>

lemma digit_code: "n < 10 \<Longrightarrow> code (char_of (48 + n)) = 48 + n" for n :: nat
  by (simp add: code_char_of)

lemma show_nat_digits: "list_all is_ascii_digit (show_nat n) \<and> show_nat n \<noteq> []"
proof (induction n rule: show_nat.induct)
  case (1 n)
  have "is_ascii_digit (char_of (48 + m))" if "m < 10" for m :: nat
    using digit_code [OF that] that by (simp add: is_ascii_digit_def)
  then show ?case using 1 by (subst (1 2) show_nat.simps) simp
qed

lemma decimal_snoc: "decimal (s @ [c]) = 10 * decimal s + (code c - 48)"
  by (simp add: decimal_def)

lemma decimal_show: "decimal (show_nat n) = n"
proof (induction n rule: show_nat.induct)
  case (1 n)
  show ?case
  proof (cases "n < 10")
    case True
    then show ?thesis using digit_code [OF True] by (subst show_nat.simps) (simp add: decimal_def)
  next
    case False
    then have "decimal (show_nat n) = 10 * (n div 10) + (code (char_of (48 + n mod 10)) - 48)"
      using 1 by (subst show_nat.simps) (simp add: decimal_snoc)
    also have "\<dots> = n" using digit_code [of "n mod 10"] by simp
    finally show ?thesis .
  qed
qed

lemma digit_not: "is_ascii_digit c \<Longrightarrow> c \<noteq> CHR ''+'' \<and> c \<noteq> CHR ''&'' \<and> c \<noteq> CHR ''=''"
  by (auto simp: is_ascii_digit_def code_def)

lemma number_read: "n < 2 ^ 64 \<Longrightarrow> parse_u64 (show_nat n) = Some n"
  using show_nat_digits [of n] digit_not decimal_show [of n]
  by (cases "show_nat n") (auto simp: parse_u64_def Let_def)

text \<open>Pairs of plain names and values are written as they are.\<close>

definition query_plain :: "string \<Rightarrow> bool" where
  "query_plain s \<longleftrightarrow> list_all (\<lambda>c. is_ascii_digit c \<or> is_ascii_lowercase c) s"

definition query_law :: "link \<Rightarrow> bool" where
  "query_law lk \<longleftrightarrow>
     (\<forall>pairs. list_all (\<lambda>(k, v). query_plain k \<and> query_plain v) pairs \<longrightarrow>
        lk_query_text lk pairs = join ''&'' (map (\<lambda>(k, v). k @ ''='' @ v) pairs))"

definition page_query :: "nat \<Rightarrow> nat \<Rightarrow> (string \<times> string) list" where
  "page_query limit offset = [(''limit'', show_nat limit), (''offset'', show_nat offset)]"

lemma digits_apart: "list_all is_ascii_digit s \<Longrightarrow> CHR ''&'' \<notin> set s"
  by (auto simp: list_all_iff is_ascii_digit_def code_def)

lemma page_query_admitted:
  assumes "query_law lk"
  shows "\<not> query_has_credential (lk_query_text lk (page_query limit offset))"
proof -
  let ?l = "show_nat limit" and ?o = "show_nat offset"
  have digits: "list_all is_ascii_digit ?l" "list_all is_ascii_digit ?o" using show_nat_digits by simp_all
  have "query_plain ?l" "query_plain ?o" using digits by (auto simp: query_plain_def list_all_iff)
  moreover have "query_plain ''limit''" "query_plain ''offset''"
    by (simp_all add: query_plain_def is_ascii_lowercase_def code_def)
  ultimately have written: "lk_query_text lk (page_query limit offset) = (''limit='' @ ?l) @ CHR ''&'' # (''offset='' @ ?o)"
    using assms unfolding query_law_def page_query_def by simp
  have apart: "\<forall>c\<in>set (''limit='' @ ?l). c \<noteq> CHR ''&''" "\<forall>c\<in>set (''offset='' @ ?o). c \<noteq> CHR ''&''"
    using digits_apart [OF digits(1)] digits_apart [OF digits(2)] by auto
  have "split_when (\<lambda>c. c = CHR ''&'') ((''limit='' @ ?l) @ CHR ''&'' # (''offset='' @ ?o)) = [''limit='' @ ?l, ''offset='' @ ?o]"
    using split_when_append [OF apart(1) refl, of "''offset='' @ ?o"] split_when_word [OF apart(2)] by (simp only:)
  moreover have "hd (split_when (\<lambda>c. c = CHR ''='') (''limit='' @ ?l)) = ''limit''"
      "hd (split_when (\<lambda>c. c = CHR ''='') (''offset='' @ ?o)) = ''offset''"
    using split_when_append [of "''limit''" "\<lambda>c. c = CHR ''=''" "CHR ''=''" ?l]
      split_when_append [of "''offset''" "\<lambda>c. c = CHR ''=''" "CHR ''=''" ?o] by simp_all
  moreover have "to_ascii_lowercase ''limit'' = ''limit''" "to_ascii_lowercase ''offset'' = ''offset''"
    by (simp_all add: to_ascii_lowercase_def ascii_lower_def code_def)
  moreover have "\<not> list_ex (str_contains ''limit'') credential_query_markers"
      "\<not> list_ex (str_contains ''offset'') credential_query_markers"
    by (simp_all add: credential_query_markers_def)
  ultimately show ?thesis unfolding written query_has_credential_def query_key_def by simp
qed

section \<open>A page of the trace\<close>

lemma traces_route_path:
  assumes "i \<noteq> []" "CHR ''/'' \<notin> set i"
  shows "match_route GET (session_path i ''/traces'') = Some (TracesEp i)"
proof -
  have "split_when (\<lambda>c. c = CHR ''/'') (i @ CHR ''/'' # ''traces'') = [i, ''traces'']"
    using assms(2) split_when_append [of i "\<lambda>c. c = CHR ''/''" "CHR ''/''" "''traces''"] by auto
  then have "path_segments (session_path i ''/traces'') = [[], ''api'', ''v1'', ''sessions'', i, ''traces'']"
    by (simp add: path_segments_def session_path_def)
  then show ?thesis using assms(1)
    by (simp add: match_route_def api_route_def session_route_def Let_def)
qed

lemma page_over_wire:
  assumes "body_law x (TracesBody events)" "visible_text token" "\<not> rl_enabled (rc_rate_limit (we_config env))"
    and "bu_can_be_base (cs_base c)" "cs_token c = Some token"
    and "authenticate_token (we_auth env) (wk_now (net_tick n)) token (net_db n) = Ok user"
    and "i \<noteq> []" "CHR ''/'' \<notin> set i" "we_parse_uuid env i = Some sid"
    and "get_session_trace_events user sid limit offset (net_db n) = Some rows"
    and "assemble_trace_events (we_codec env) rows = Ok events"
    and "limit < 2 ^ 64" "offset < 2 ^ 64" "link_law lk" "query_law lk"
  shows "\<exists>n'. client_session_traces (router_lib env x lk be) i (Some limit) (Some offset) (c, n) =
      (Ok (TracesBody events), (c, n')) \<and>
    net_db n' = net_db n \<and> nt_ticks n' = nt_ticks n \<and> nt_seen n' = Suc (nt_seen n)"
proof -
  let ?plain = "bearer_call GET (cs_base c) (session_path i ''/traces'') token"
  let ?call = "?plain\<lparr>hc_query := page_query limit offset\<rparr>"
  have same: "hc_headers ?call = hc_headers ?plain" "hc_query ?call = page_query limit offset" by simp_all
  have params: "params_of (page_query limit offset) =
      \<lparr>qr_scope = None, qr_title = None, qr_limit = Some limit, qr_offset = Some offset\<rparr>"
    using number_read [OF assms(12)] number_read [OF assms(13)] by (simp add: params_of_def page_query_def)
  have "dispatch env (net_tick n) (wire_request lk ?call) (net_db n) = (respond 200 (TracesBody events), net_db n)"
    using traces_route_path [OF assms(7,8)] params assms(6,9-11)
      bearer_authenticated [OF assms(2), of env "net_tick n" GET "cs_base c" "session_path i ''/traces''" "net_db n"]
    by (simp add: dispatch_def wire_request_def bearer_call_def handler_def traces_route_def)
  then have "send (router_lib env x lk be) TracesKind ?call (c, n) =
      (decode_answer (router_lib env x lk be) TracesKind (answer_of x lk (respond 200 (TracesBody events))),
       (c, after_call ?call (respond 200 (TracesBody events)) (net_db n) n))"
    using bearer_wire(1,2) [OF assms(2)] page_query_admitted [OF assms(15)] assms(3)
    by (intro send_over_wire) (simp_all only: same simp_thms)
  then have sent: "send (router_lib env x lk be) TracesKind ?call (c, n) =
      (Ok (TracesBody events), (c, after_call ?call (respond 200 (TracesBody events)) (net_db n) n))"
    using success_decoded [OF assms(1) _ _ _ assms(14), of 200 env be] by simp
  have "opt_pair ''limit'' (map_option show_nat (Some limit)) @ opt_pair ''offset'' (map_option show_nat (Some offset)) =
      page_query limit offset"
    by (simp add: opt_pair_def page_query_def)
  then show ?thesis
    unfolding client_session_traces_def query_call_def bearer_sent [OF assms(5,4)] using sent by simp
qed

section \<open>The pages are the trace\<close>

lemma pair_window:
  assumes "\<forall>r\<in>set rows. contents (key r) \<noteq> None"
  shows "pair_by_key key contents (take a (drop b rows)) = take a (drop b (pair_by_key key contents rows))"
proof -
  have "pair_by_key key contents xs = map (\<lambda>r. (r, the (contents (key r)))) xs" if "set xs \<subseteq> set rows" for xs
    using that assms by (induction xs) (auto simp: pair_by_key_def List.map_filter_simps)
  then show ?thesis
    using set_take_subset [of a "drop b rows"] set_drop_subset [of b rows] by (simp add: take_map drop_map subset_trans)
qed

definition whole_contents :: "(child_row \<times> content_row) list \<Rightarrow> bool" where
  "whole_contents rows \<longleftrightarrow> list_all (\<lambda>(r, c). c ''content'' \<noteq> None) rows"

lemma assemble_append:
  "assemble_trace_events codec (xs @ ys) = Ok es \<Longrightarrow>
   \<exists>e1 e2. assemble_trace_events codec xs = Ok e1 \<and> assemble_trace_events codec ys = Ok e2 \<and> es = e1 @ e2"
proof (induction xs arbitrary: es)
  case (Cons p xs)
  obtain r c where p: "p = (r, c)" by (cases p)
  show ?case
  proof (cases "c ''content''")
    case None
    then show ?thesis using Cons p by simp
  next
    case (Some content)
    then obtain e fs where e: "assemble_payload codec content = Ok e"
        "assemble_trace_events codec (xs @ ys) = Ok fs"
      using Cons.prems p by (auto split: sum.splits)
    from Cons.IH [OF this(2)] show ?thesis
      using Some e Cons.prems p by (auto split: prod.splits)
  qed
qed simp

lemma assemble_length:
  "assemble_trace_events codec rows = Ok es \<Longrightarrow> whole_contents rows \<Longrightarrow> length es = length rows"
  by (induction codec rows arbitrary: es rule: assemble_trace_events.induct)
    (auto simp: whole_contents_def split: option.splits sum.splits prod.splits)

lemma assemble_window:
  assumes "assemble_trace_events codec rows = Ok es" "whole_contents rows"
  shows "assemble_trace_events codec (take a (drop b rows)) = Ok (take a (drop b es))"
proof -
  have cut: "\<exists>es'. assemble_trace_events codec (drop k xs) = Ok (drop k es') \<and> assemble_trace_events codec (take k xs) = Ok (take k es') \<and> es' = fs"
    if "assemble_trace_events codec xs = Ok fs" "whole_contents xs" for k xs fs
  proof -
    have "assemble_trace_events codec (take k xs @ drop k xs) = Ok fs" using that(1) by simp
    then obtain e1 e2 where e: "assemble_trace_events codec (take k xs) = Ok e1"
        "assemble_trace_events codec (drop k xs) = Ok e2" "fs = e1 @ e2"
      using assemble_append by blast
    have "whole_contents (take k xs)" using that(2) by (auto simp: whole_contents_def list_all_iff dest: in_set_takeD)
    then have "length e1 = min k (length xs)" using assemble_length [OF e(1)] by (simp add: min.commute)
    moreover have "length fs = length xs" using assemble_length that by blast
    ultimately have "e1 = take k fs" "e2 = drop k fs" using e(3) by (cases "k \<le> length xs"; simp)+
    then show ?thesis using e by blast
  qed
  have "assemble_trace_events codec (drop b rows) = Ok (drop b es)" using cut [OF assms, of b] by auto
  moreover have "whole_contents (drop b rows)" using assms(2) by (auto simp: whole_contents_def list_all_iff dest: in_set_dropD)
  ultimately show ?thesis using cut by blast
qed

lemma trace_rows_paired:
  assumes "db_wf d" "r \<in> set (list_session_rows TraceTable sid d)"
  shows "db_contents d (key_of r) \<noteq> None"
proof -
  have "r \<in> set (db_children d)" "ch_table r = TraceTable"
    using assms(2) by (simp_all add: list_session_rows_def oldest_first_def)
  then have "key_of r \<in> dom (db_contents d)" using db_wfD(6) [OF assms(1)] by auto
  then show ?thesis by auto
qed

end
