(* ===== verification/Web_Guarantees.thy ===== *)
theory Web_Guarantees
  imports Web_Safety Skills Storage_Guarantees
begin

text \<open>
  What the HTTP surface guarantees to its callers, and what the client's secret storage guarantees
  to its user: a request acts for the user of its token, is answered from that user's data, and
  carries exactly the provider keys that the client holds.
\<close>

text \<open>
  C33. A request acts for the user of its token: whatever it asks for, through all the layers, the
  database stays consistent and the only user whose data it can change is the one its bearer token
  authenticates. An execution or a continuation may be any program of calls of its session's handle.
\<close>

theorem requests_act_for_their_user:
  assumes "db_wf (ws_db s)" "build_router env k q s = (r, s')"
  shows "db_wf (ws_db s') \<and>
    (\<forall>v. visible v (ws_db s') \<noteq> visible v (ws_db s) \<longrightarrow>
       (\<exists>u. authenticate_request env k (wq_headers q) (ws_db s) = Ok u \<and> au_user_id u = v))"
proof -
  consider "ws_db s' = ws_db s"
    | q' where "(r, ws_db s') = dispatch env k q' (ws_db s)" "wq_headers q' = wq_headers q"
  proof -
    have "ws_db s' = ws_db s \<or> (\<exists>creds. (r, ws_db s') = dispatch env k (q\<lparr>wq_credentials := creds\<rparr>) (ws_db s))"
      using admitted_once [OF assms(2)] by blast
    then show thesis using that by fastforce
  qed
  then show ?thesis
  proof cases
    case 1
    with assms(1) show ?thesis by simp
  next
    case 2
    let ?d = "ws_db s"
    consider "untouched ?d (ws_db s')"
      | u ep where "authenticate_request env k (wq_headers q) ?d = Ok u" "ws_db s' = snd (handler env k u ep q' ?d)"
      using 2 public_untouched [of ?d env k _ q']
      by (auto simp: dispatch_def split: option.splits if_splits sum.splits) (metis snd_conv untouched_refl)+
    then show ?thesis
    proof cases
      case 1
      with assms(1) show ?thesis by (simp add: untouched_visible untouched_wf)
    next
      case (2 u ep)
      with handler_isolated [of u env k ep q'] assms(1) show ?thesis
        unfolding isolated_def by metis
    qed
  qed
qed

definition quiet_run :: turn_run where
  "quiet_run = ([], Err Busy)"

text \<open>A turn that appends a message to the session it runs on, before it fails.\<close>

definition demo_row :: "turn_call \<Rightarrow> child_row" where
  "demo_row call = \<lparr>ch_table = MessageTable, ch_id = ''m1'', ch_session = tc_session call, ch_user = tc_user call,
     ch_created = 0, ch_updated = 0, ch_key = None, ch_event = None, ch_status = None, ch_settled = None, ch_active = None\<rparr>"

definition demo_program :: "turn_call \<Rightarrow> turn_run program" where
  "demo_program call = Call (AppendMessage (demo_row call) Map.empty) (\<lambda>_. Return quiet_run)"

definition demo_web :: web_env where
  "demo_web = \<lparr>we_auth = plain_auth, we_parse_uuid = Some, we_version = ''1'',
     we_config = (default_router_config None)\<lparr>rc_rate_limit := default_rate_limit\<lparr>rl_enabled := False\<rparr>\<rparr>,
     we_router = \<lparr>ro_local = [], ro_remote = []\<rparr>, we_answer = (\<lambda>_ _ _. ListTimedOut),
     we_codec = \<lparr>tc_columns = (\<lambda>_. (Chat, Ollama, [], None)), tc_payload = (\<lambda>_. None)\<rparr>, we_parse_cost = (\<lambda>_. None),
     we_origin = (\<lambda>_. (User, Ollama, [])), we_start = (\<lambda>call _. demo_program call),
     we_resume = (\<lambda>call _. demo_program call), we_preview = (\<lambda>_ _ _. Err Busy), we_show_error = (\<lambda>_. []),
     we_unmatched = (\<lambda>_ _. 404), we_permits = (\<lambda>_ _ _. True), we_forwarded_ip = (\<lambda>_. None)\<rparr>"

lemma demo_web_parse [simp]: "we_parse_uuid demo_web = Some"
  by (simp add: demo_web_def)

definition demo_tick :: web_tick where
  "demo_tick = \<lparr>wk_now = 9, wk_id = ''i'', wk_secret = ''x'', wk_salt = 0\<rparr>"

text \<open>A request to delete the session of the user \<open>a\<close>, with a token.\<close>

definition demo_delete :: "string \<Rightarrow> web_request" where
  "demo_delete bearer = \<lparr>wq_method = DELETE, wq_path = ''/api/v1/sessions/s1'', wq_query = None, wq_params = None,
     wq_headers = [(''authorization'', ''Bearer '' @ bearer)], wq_payload = NoPayload, wq_peer = ''p'',
     wq_credentials = None\<rparr>"

definition demo_db :: database where
  "demo_db = two_sessions\<lparr>db_tokens :=
     [\<lparr>ak_id = ''t1'', ak_user = ''a'', ak_hash = ''t1-pw'', ak_created = 0, ak_expires = 99, ak_revoked = None\<rparr>]\<rparr>"

definition demo_state :: web_state where
  "demo_state = \<lparr>ws_db = demo_db, ws_log = [], ws_charged = []\<rparr>"

lemma demo_wf: "db_wf demo_db"
  using two_sessions_wf by (simp add: demo_db_def db_wf_def session_owned_def)

lemma demo_bearer:
  "we_auth env = plain_auth \<Longrightarrow> authenticate_request env demo_tick ((''authorization'', ''Bearer t1-pw'') # hs) demo_db =
     Ok \<lparr>au_user_id = ''a'', au_token = ''t1-pw''\<rparr>"
proof -
  assume env: "we_auth env = plain_auth"
  have "to_str ''Bearer t1-pw'' = Some ''Bearer t1-pw''" by (simp add: to_str_def visible_char_def code_def)
  moreover have "strip_prefix bearer_prefix ''Bearer t1-pw'' = Some ''t1-pw''"
    by (simp add: strip_prefix_Some bearer_prefix_def)
  moreover have "authenticate_token plain_auth 9 ''t1-pw'' demo_db = Ok ''a''"
    by (simp add: authenticate_token_def parse_session_token_id_def dash_def plain_auth_def get_token_def demo_db_def)
  ultimately show ?thesis by (simp add: authenticate_request_def get_header_def env demo_tick_def)
qed

lemma demo_web_auth [simp]: "we_auth demo_web = plain_auth"
  by (simp add: demo_web_def)

text \<open>The user \<open>a\<close> runs a turn: a message is written, and \<open>b\<close> sees what it saw.\<close>

definition demo_turn :: "execute_request \<Rightarrow> web_request" where
  "demo_turn request = (demo_delete ''t1-pw'')\<lparr>wq_method := POST, wq_path := ''/api/v1/sessions/s1/execute'',
     wq_payload := ExecutePayload request\<rparr>"

lemma demo_turn_writes:
  "db_children (ws_db (snd (build_router demo_web demo_tick (demo_turn request) demo_state))) =
   [demo_row \<lparr>tc_user = ''a'', tc_session = ''s1'', tc_credentials = Map.empty\<rparr>]"
proof -
  let ?q = "demo_turn request"
  have route: "match_route (wq_method ?q) (wq_path ?q) = Some (ExecuteEp ''s1'')"
    by (simp add: demo_turn_def match_route_def path_segments_def api_route_def session_route_def Let_def)
  have authenticated: "authenticate_request demo_web demo_tick (wq_headers ?q) demo_db = Ok \<lparr>au_user_id = ''a'', au_token = ''t1-pw''\<rparr>"
    using demo_bearer [of demo_web "[]"] by (simp add: demo_turn_def demo_delete_def)
  have "extract_provider_credentials (wq_headers ?q) = Map.empty"
    by (simp add: extract_provider_credentials_def demo_turn_def demo_delete_def extract_header_def provider_from_header_def
        provider_credential_prefix_def strip_prefix_def)
  moreover have "wq_query ?q = None" by (simp add: demo_turn_def demo_delete_def)
  ultimately have "ws_db (snd (build_router demo_web demo_tick ?q demo_state)) =
      snd (dispatch demo_web demo_tick ?q demo_db)"
    by (simp add: build_router_def Let_def extract_credentials_def reject_query_credentials_def log_requests_def
        routes_service_def demo_web_def demo_state_def split: prod.split)
  also have "\<dots> = snd (we_execute demo_web \<lparr>tc_user = ''a'', tc_session = ''s1'', tc_credentials = Map.empty\<rparr> request demo_db)"
    using authenticated route
    by (simp add: dispatch_def handler_def execute_route_def turn_call_of_def Let_def case_prod_unfold)
      (simp add: demo_turn_def demo_delete_def execute_route_def turn_call_of_def case_prod_unfold)
  finally show ?thesis
    by (simp add: we_execute_def orchestrated_def open_handle_def demo_web_def demo_program_def in_table_def demo_row_def
        get_session_def demo_db_def two_sessions_eq two_users_eq session_a_def empty_database_def append_row_def
        write_owned_def session_owned_def create_row_def replied_def)
qed

lemma requests_act_for_their_user_witness:
  "\<forall>r. let d = ws_db (snd (build_router demo_web demo_tick (demo_turn r) demo_state))
   in visible ''b'' d = visible ''b'' demo_db \<and> db_wf d \<and> db_children d \<noteq> db_children demo_db"
proof
  fix r
  obtain a s' where run: "build_router demo_web demo_tick (demo_turn r) demo_state = (a, s')" by fastforce
  have start: "db_wf (ws_db demo_state)" by (simp add: demo_state_def demo_wf)
  have "db_children demo_db = []"
    by (simp add: demo_db_def two_sessions_eq two_users_eq empty_database_def)
  then show "let d = ws_db (snd (build_router demo_web demo_tick (demo_turn r) demo_state))
      in visible ''b'' d = visible ''b'' demo_db \<and> db_wf d \<and> db_children d \<noteq> db_children demo_db"
    using requests_act_for_their_user [OF start run] demo_bearer demo_turn_writes [of r] run
    by (auto simp: demo_state_def demo_turn_def demo_delete_def Let_def)
qed

text \<open>
  C34. A request is answered from its caller's own data: two databases with the same tokens, in
  which the caller sees the same, answer every reading request with the same response, whatever
  the other users have stored.
\<close>

theorem answers_tell_own_data:
  assumes "match_route (wq_method q) (wq_path q) = Some ep" "is_read ep" "db_wf d" "db_wf d'"
    and "db_tokens d' = db_tokens d"
    and "\<And>u. authenticate_request env k (wq_headers q) d = Ok u \<Longrightarrow> visible (au_user_id u) d' = visible (au_user_id u) d"
  shows "dispatch env k q d' = (fst (dispatch env k q d), d')"
proof -
  have row: "get_token i d' = get_token i d" for i
    using assms(5) by (simp add: get_token_def)
  have token: "authenticate_request env k (wq_headers q) d' = authenticate_request env k (wq_headers q) d"
    unfolding authenticate_request_def authenticate_token_def row by (rule refl)
  have "\<not> is_public ep" using assms(2) by (cases ep) simp_all
  then show ?thesis
    using reads_of_own_data [OF assms(2-4), of _ env k q] reads_keep [OF assms(2), of env k _ q d'] assms(1,6)
    by (auto simp: dispatch_def token prod_eq_iff split: sum.split)
qed

definition demo_list :: web_request where
  "demo_list = (demo_delete ''t1-pw'')\<lparr>wq_method := GET, wq_path := ''/api/v1/sessions'',
     wq_params := Some \<lparr>qr_scope = None, qr_title = None, qr_limit = None, qr_offset = None\<rparr>\<rparr>"

lemma answers_tell_own_data_witness:
  "fst (dispatch demo_web demo_tick demo_list (demo_db\<lparr>db_sessions := [session_a]\<rparr>)) =
   fst (dispatch demo_web demo_tick demo_list demo_db)"
proof -
  have route: "match_route (wq_method demo_list) (wq_path demo_list) = Some ListSessionsEp"
    by (simp add: demo_list_def match_route_def path_segments_def api_route_def Let_def)
  have wf: "db_wf (demo_db\<lparr>db_sessions := [session_a]\<rparr>)"
    by (simp add: db_wf_def demo_db_def two_sessions_eq two_users_eq empty_database_def)
  have same: "visible (au_user_id u) (demo_db\<lparr>db_sessions := [session_a]\<rparr>) = visible (au_user_id u) demo_db"
    if "authenticate_request demo_web demo_tick (wq_headers demo_list) demo_db = Ok u" for u
    using that demo_bearer
    by (simp add: demo_list_def demo_delete_def)
      (auto simp: visible_def rows_of_def demo_db_def two_sessions_eq session_a_def session_b_def)
  show ?thesis
    using answers_tell_own_data [OF route _ demo_wf wf _ same] by (simp add: fst_conv)
qed

text \<open>
  C35. An archived session is gone and comes back: once it is archived through the update endpoint,
  reading it, any page of its traces and its usage are answered exactly like those of a session that
  does not exist, and only then; once it is restored, reading it gives its messages, and its traces
  and its usage are answered as in any database that has it live with the same rows, so as before
  it was archived. No other session is affected.
\<close>

theorem archived_sessions_are_hidden:
  assumes "db_wf d" "we_parse_uuid env sid = Some i" "get_session u i d = Some s"
    and "update_session_route env k u sid title (Some a) d = (r, d')"
  shows "wp_status r = 200 \<and>
    (get_session_route env u sid d' = refuse session_absent \<longleftrightarrow> a) \<and>
    (traces_route env u sid p d' = refuse (from_code ApiSessionNotFound ''Session not found.'') \<longleftrightarrow> a) \<and>
    (usage_route env u sid d' = refuse (from_code ApiSessionNotFound ''Session not found.'') \<longleftrightarrow> a) \<and>
    (a \<longrightarrow> (\<forall>e. get_session u i e = None \<longrightarrow>
       get_session_route env u sid d' = get_session_route env u sid e \<and>
       traces_route env u sid p d' = traces_route env u sid p e \<and> usage_route env u sid d' = usage_route env u sid e)) \<and>
    (\<not> a \<longrightarrow> (\<forall>e s. get_session u i e = Some s \<longrightarrow> se_archived s = None \<longrightarrow>
       db_children e = db_children d \<longrightarrow> db_contents e = db_contents d \<longrightarrow>
       traces_route env u sid p d' = traces_route env u sid p e \<and> usage_route env u sid d' = usage_route env u sid e)) \<and>
    (\<not> a \<longrightarrow> get_session_route env u sid d' = respond 200 (DetailBody
       \<lparr>sd_id = i, sd_title = (case (case title of Some t \<Rightarrow> Some t | None \<Rightarrow> se_title s) of Some t \<Rightarrow> t | None \<Rightarrow> []),
        sd_scope = se_scope s, sd_key_id = se_key_id s, sd_created = se_created s, sd_updated = wk_now k,
        sd_messages = List.map_filter (message_detail_of env) (list_messages_with_content u i d)\<rparr>)) \<and>
    (\<forall>v j. (v, j) \<noteq> (u, i) \<longrightarrow> get_session v j d' = get_session v j d)"
proof -
  let ?s = "apply_update (wk_now k) title (Some a) s"
  have fields: "se_archived ?s = (if a then Some (wk_now k) else None)" "se_updated ?s = wk_now k"
      "se_scope ?s = se_scope s" "se_key_id ?s = se_key_id s" "se_created ?s = se_created s"
      "se_title ?s = (case title of Some t \<Rightarrow> Some t | None \<Rightarrow> se_title s)"
    by (simp_all add: apply_update_def Let_def split: option.split)
  have stored: "r = respond 200 (SessionBody (summary_of ?s))" "get_session u i d' = Some ?s"
      "db_children d' = db_children d" "db_contents d' = db_contents d"
      "\<forall>v j. (v, j) \<noteq> (u, i) \<longrightarrow> get_session v j d' = get_session v j d"
    using update_route_stores [OF assms(1-3), of k title "Some a"] assms(4) by auto
  have messages: "list_messages_with_content u i d' = list_messages_with_content u i d"
    using stored(3,4) by (simp add: list_messages_with_content_def owned_rows_def)
  have reading: "wp_status r = 200" "get_session_route env u sid d' = refuse session_absent \<longleftrightarrow> a"
      "\<not> a \<Longrightarrow> get_session_route env u sid d' = respond 200 (DetailBody
       \<lparr>sd_id = i, sd_title = (case (case title of Some t \<Rightarrow> Some t | None \<Rightarrow> se_title s) of Some t \<Rightarrow> t | None \<Rightarrow> []),
        sd_scope = se_scope s, sd_key_id = se_key_id s, sd_created = se_created s, sd_updated = wk_now k,
        sd_messages = List.map_filter (message_detail_of env) (list_messages_with_content u i d)\<rparr>)"
    using stored(1,2) assms(2) fields messages by (cases a; simp add: get_session_route_def respond_def refuse_def)+
  have after: "trace_session u i d' = None \<longleftrightarrow> a"
    using stored(2) fields(1) by (simp add: trace_session_def)
  have live: "traces_route env u sid p d' = traces_route env u sid p e \<and> usage_route env u sid d' = usage_route env u sid e"
    if "\<not> a" "get_session u i e = Some t" "se_archived t = None" "db_children e = db_children d" "db_contents e = db_contents d"
    for e t
    using trace_routes_same_rows(1) [of u i e d' env sid p] trace_routes_same_rows(2) [of u i e d' env sid]
      that after stored(3,4) trace_session_iff [of u i e t] assms(2)
    by simp
  have hidden: "get_session_route env u sid d' = get_session_route env u sid e \<and>
      traces_route env u sid p d' = traces_route env u sid p e \<and> usage_route env u sid d' = usage_route env u sid e"
    if "a" "get_session u i e = None" for e
    using trace_routes_hidden [of u i d' e env sid p] that after stored(2) fields(1) assms(2)
    by (simp add: get_session_route_def trace_session_def)
  note absent = trace_routes_absent(1) [OF assms(2), of u p d', unfolded after]
    trace_routes_absent(2) [OF assms(2), of u d', unfolded after]
  show ?thesis
    by (intro conjI reading(1,2) absent stored(5); intro impI allI) (rule hidden live reading(3); assumption)+
qed

lemma archived_sessions_are_hidden_witness:
  "\<forall>p. let d = snd (update_session_route demo_web demo_tick ''a'' ''s1'' None (Some True) demo_db);
     d' = snd (update_session_route demo_web demo_tick ''a'' ''s1'' None (Some False) demo_db) in
   get_session_route demo_web ''a'' ''s1'' d = refuse session_absent \<and>
   traces_route demo_web ''a'' ''s1'' p d = refuse (from_code ApiSessionNotFound ''Session not found.'') \<and>
   traces_route demo_web ''a'' ''s1'' p d' = traces_route demo_web ''a'' ''s1'' p demo_db \<and>
   usage_route demo_web ''a'' ''s1'' d' = usage_route demo_web ''a'' ''s1'' demo_db"
proof -
  have found: "get_session ''a'' ''s1'' demo_db = Some session_a" "se_archived session_a = None"
    by (simp_all add: get_session_def demo_db_def two_sessions_eq session_a_def)
  have parse: "we_parse_uuid demo_web ''s1'' = Some ''s1''" by simp
  obtain r d' where on: "update_session_route demo_web demo_tick ''a'' ''s1'' None (Some True) demo_db = (r, d')" by fastforce
  obtain t e where off: "update_session_route demo_web demo_tick ''a'' ''s1'' None (Some False) demo_db = (t, e)" by fastforce
  show ?thesis
    using archived_sessions_are_hidden [OF demo_wf parse found(1) on] archived_sessions_are_hidden [OF demo_wf parse found(1) off] found
    unfolding on off Let_def by simp
qed

text \<open>
  A key held by the client reaches the turn it pays for: whatever other headers a request
  carries, the credentials of the turn that its execution starts are exactly the keys the client
  wrote into its headers.
\<close>

lemma client_keys_reach_the_turn:
  assumes "distinct (map fst keys)" "list_all own_name (map fst keys)" "list_all (\<lambda>(_, v). to_str v = Some v) keys"
    and "keys \<noteq> []" "foreign before" "foreign behind"
    and "wq_headers q = before @ wire_headers (headers_map keys) @ behind"
    and "wq_query q = None" "\<not> rl_enabled (rc_rate_limit (we_config env))"
    and "match_route (wq_method q) (wq_path q) = Some (ExecuteEp sid)" "wq_payload q = ExecutePayload request"
    and "authenticate_request env k (wq_headers q) (ws_db s) = Ok u" "we_parse_uuid env sid = Some i"
  shows "fst (build_router env k q s) = answer_turn env (wq_headers q) (fst (we_execute env
    \<lparr>tc_user = au_user_id u, tc_session = i, tc_credentials = map_of keys\<rparr> request (ws_db s)))"
proof -
  have read: "extract_provider_credentials (wq_headers q) = map_of keys"
    using sent_credentials_read [OF assms(1-3,5,6)] assms(7) by simp
  have some: "map_of keys \<noteq> Map.empty" using assms(4) by (cases keys) auto
  show ?thesis
    unfolding dispatched [OF assms(8,9) read some]
    using assms(10-13)
    by (simp add: dispatch_def handler_def Let_def execute_route_def turn_call_of_def case_prod_unfold)
qed

section \<open>The secrets of the client\<close>

context secret_storage
begin

lemma sealed_and_opened:
  assumes "ready s" "project cwd" "cipher_law cx" "length key = 32" "length nonce = 24"
    and "cx_seal cx key nonce (utf8_bytes plaintext) = Some c"
  shows "\<exists>key_id t p u v. create_key ops cwd cx (Ok key) s = (Ok key_id, t) \<and>
    encrypt_payload ops cwd cx nonce key_id plaintext t = (Ok p, u) \<and> ep_ciphertext p = cx_encode cx c \<and>
    decrypt_payload ops cwd cx p u = (Ok plaintext, v) \<and> ready v"
proof -
  obtain r t where created: "create_key ops cwd cx (Ok key) s = (r, t)" by fastforce
  obtain key_id where t: "r = Ok key_id" "ready t" "resolved t cwd key_id = Some (cx_encode cx key)"
    using created_key_stored [OF assms(1-3) created] by blast
  obtain u where u: "get_secret_key ops cwd cx key_id t = (Ok key, u)"
    using get_secret_key_read [OF t(2) assms(2,3) t(3)] by blast
  let ?p = "\<lparr>ep_version = encrypted_payload_v1, ep_algorithm = xchacha, ep_key_id = key_id,
    ep_nonce = cx_encode cx nonce, ep_ciphertext = cx_encode cx c\<rparr>"
  have sealed: "encrypt_payload ops cwd cx nonce key_id plaintext t = (Ok ?p, u)"
    using u assms(4,6) by (simp add: encrypt_payload_def bind_s_def cipher_from_secret_key_def)
  from sealed_payload_opens [OF t(2) assms(2,3) t(3) assms(5) sealed]
  obtain v where "decrypt_payload ops cwd cx ?p u = (Ok plaintext, v)" "ready v" by blast
  with created t(1) sealed show ?thesis
    by (intro exI [of _ key_id] exI [of _ t] exI [of _ ?p] exI [of _ u] exI [of _ v]) simp
qed

end

text \<open>
  C39. What an encrypted session seals, its client opens: with a new key kept in the secrets file of
  the project, encrypting any text succeeds and decrypting the payload gives the text back.
\<close>

theorem encrypted_text_opens:
  assumes "file_ready h g d" "file_named g (LocalScope cwd)" "cipher_law cx" "length key = 32" "length nonce = 24"
    and "cx_seal cx key nonce (utf8_bytes plaintext) = Some c"
  shows "\<exists>key_id d1 p d2 d3. create_key (file_ops h g) cwd cx (Ok key) d = (Ok key_id, d1) \<and>
    encrypt_payload (file_ops h g) cwd cx nonce key_id plaintext d1 = (Ok p, d2) \<and>
    ep_ciphertext p = cx_encode cx c \<and> decrypt_payload (file_ops h g) cwd cx p d2 = (Ok plaintext, d3)"
proof -
  have "file_backend.project g cwd" using assms(2) by (simp add: file_backend.project_def)
  from file_backend.sealed_and_opened [OF assms(1) this assms(3-6)] show ?thesis by blast
qed

text \<open>A host whose encoding marks every character, so that it is read back.\<close>

fun mark_text :: "string \<Rightarrow> string" where
  "mark_text [] = ''.''"
| "mark_text (c # s) = CHR ''-'' # c # mark_text s"

fun read_marks :: "string \<Rightarrow> string \<Rightarrow> string list" where
  "read_marks a [] = []"
| "read_marks a [c] = (if c = CHR ''.'' then [a] else [])"
| "read_marks a (c # b # s) = (if c = CHR ''.'' then a # read_marks [] (b # s) else read_marks (a @ [b]) s)"

fun pair_up :: "string list \<Rightarrow> string btree" where
  "pair_up (k # v # r) = (k, v) # pair_up r"
| "pair_up _ = []"

definition demo_encode :: "string btree \<Rightarrow> string" where
  "demo_encode e = concat (map (\<lambda>(k, v). mark_text k @ mark_text v) e)"

definition demo_host :: file_host where
  "demo_host = \<lparr>fh_fails = (\<lambda>_ _. None), fh_created_mode = 0,
     fh_parse = (\<lambda>s. let e = pair_up (read_marks [] s) in if bt_wf e then Ok e else Err ''bad''),
     fh_encode = (\<lambda>e. Ok (demo_encode e))\<rparr>"

lemma read_mark_text: "read_marks a (mark_text k @ s) = (a @ k) # read_marks [] s"
proof (induction k arbitrary: a)
  case Nil
  show ?case by (cases s) simp_all
qed simp

lemma demo_decode: "pair_up (read_marks [] (demo_encode e)) = e"
  by (induction e) (auto simp: demo_encode_def read_mark_text)

lemma marked_visible: "CHR ''.'' \<in> set s \<Longrightarrow> trim_text s \<noteq> []"
proof -
  have dot: "\<not> is_whitespace CHR ''.''" by (simp add: is_whitespace_def code_def)
  assume "CHR ''.'' \<in> set s"
  then have "CHR ''.'' \<in> set (trim_start s)"
    using dot by (induction s) (auto simp: trim_start_def)
  then show ?thesis using dot by (auto simp: trim_text_def)
qed

lemma demo_toml: "toml_law demo_host"
proof -
  have "CHR ''.'' \<in> set (mark_text k)" for k by (induction k) simp_all
  then have "e \<noteq> [] \<Longrightarrow> trim_text (demo_encode e) \<noteq> []" for e
    by (intro marked_visible) (cases e; auto simp: demo_encode_def)
  then show ?thesis
    by (auto simp: toml_law_def demo_host_def demo_decode Let_def split: if_splits)
qed

text \<open>A disk with one secrets file, and a cipher that only adds marks.\<close>

definition demo_disk :: secret_disk where
  "demo_disk = [''/work/.smista/secrets'' \<mapsto>
     \<lparr>sf_regular = True, sf_mode = secret_file_mode, sf_contents = demo_encode [(''openai'', ''sk-1'')]\<rparr>]"

definition demo_cipher :: cipher_suite where
  "demo_cipher = \<lparr>cx_encode = (\<lambda>b. CHR ''b'' # b), cx_decode = (\<lambda>b. if b = [] then None else Some (tl b)),
     cx_sha256 = (\<lambda>b. take 2 b), cx_seal = (\<lambda>k n p. Some (rev p)), cx_open = (\<lambda>k n c. Some (rev c))\<rparr>"

lemma demo_cipher_law: "cipher_law demo_cipher"
  by (simp add: cipher_law_def demo_cipher_def)

lemma demo_parse: "bt_wf e \<Longrightarrow> fh_parse demo_host (demo_encode e) = Ok e"
  by (simp add: demo_host_def demo_decode Let_def)

lemma openai_entry: "bt_wf [(''openai'', ''sk-1'')]" "trim_text (demo_encode [(''openai'', ''sk-1'')]) \<noteq> []"
  by (simp add: bt_wf_def) (intro marked_visible, simp add: demo_encode_def)

lemma demo_ready: "file_ready demo_host ''/g'' demo_disk"
  using demo_toml demo_parse [OF openai_entry(1)]
  by (auto simp: file_ready_def disk_answers_def secure_file_def demo_disk_def demo_host_def split: if_splits)

lemma demo_named: "file_named ''/g'' (LocalScope ''/work'')" "secrets_file ''/work'' = ''/work/.smista/secrets''"
  by (simp_all add: secrets_file_shape)

lemma encrypted_text_opens_witness:
  "\<exists>key_id d1 p d2 d3.
     create_key (file_ops demo_host ''/g'') ''/work'' demo_cipher (Ok (replicate 32 CHR ''k'')) demo_disk = (Ok key_id, d1) \<and>
     encrypt_payload (file_ops demo_host ''/g'') ''/work'' demo_cipher (replicate 24 CHR ''n'') key_id ''hi'' d1 = (Ok p, d2) \<and>
     ep_ciphertext p = ''bih'' \<and>
     decrypt_payload (file_ops demo_host ''/g'') ''/work'' demo_cipher p d2 = (Ok ''hi'', d3)"
proof -
  have sealed: "cx_seal demo_cipher (replicate 32 CHR ''k'') (replicate 24 CHR ''n'') (utf8_bytes ''hi'') = Some ''ih''"
    by (simp add: demo_cipher_def code_def)
  show ?thesis
    using encrypted_text_opens [OF demo_ready demo_named(1) demo_cipher_law _ _ sealed] by (simp add: demo_cipher_def)
qed

text \<open>
  C40. Every provider gets its own key: the credentials the client starts with hold, for each
  provider the router advertises and for no other one, its secret of the project, else its global
  secret, else what the reference of the configuration names; and reading them changes no secret.
\<close>

theorem providers_get_their_keys:
  assumes "file_ready h g d" "file_named g (LocalScope cwd)" "env_readable env c"
  shows "\<exists>d'. inject_credentials (Ok providers) (file_ops h g) cwd env c d =
      (Ok (\<lambda>p. if p \<in> set providers
            then precedence (\<lambda>n. case file_view h g d (LocalScope cwd) n of Some v \<Rightarrow> Some v
                                 | None \<Rightarrow> file_view h g d GlobalScope n) env c p
            else None), d') \<and>
    (\<forall>sd n. file_named g sd \<longrightarrow> file_view h g d' sd n = file_view h g d sd n)"
proof -
  have project: "file_backend.project g cwd" using assms(2) by (simp add: file_backend.project_def)
  have resolved: "file_backend.resolved h g d cwd = (\<lambda>n. case file_view h g d (LocalScope cwd) n of Some v \<Rightarrow> Some v
      | None \<Rightarrow> file_view h g d GlobalScope n)"
    by (simp add: file_backend.resolved_def fun_eq_iff)
  have merge: "(case (if b then x else None) of Some v \<Rightarrow> Some v | None \<Rightarrow> None) = (if b then x else None)" for b and x :: "'x option"
    by (cases x) simp_all
  from file_backend.gather_by_precedence [OF project assms(3,1), of providers "\<lambda>_. None"]
  show ?thesis
    unfolding resolved merge by (auto simp: inject_credentials_def file_backend.same_view_def)
qed

lemma providers_get_their_keys_witness:
  "\<exists>keys d'. inject_credentials (Ok [Anthropic, OpenAI, Gemini]) (file_ops demo_host ''/g'') ''/work''
       (\<lambda>n. if n = ''CLAUDE'' then EnvText ''sk-2'' else EnvAbsent)
       (default_config\<lparr>cf_providers := [(Anthropic, \<lparr>pc_kind = None, pc_api_key = Some ''${secret:CLAUDE}''\<rparr>)]\<rparr>)
       demo_disk = (Ok keys, d') \<and>
     keys Anthropic = Some ''sk-2'' \<and> keys OpenAI = Some ''sk-1'' \<and> keys Gemini = None"
proof -
  let ?env = "\<lambda>n. if n = ''CLAUDE'' then EnvText ''sk-2'' else EnvAbsent"
  let ?c = "default_config\<lparr>cf_providers := [(Anthropic, \<lparr>pc_kind = None, pc_api_key = Some ''${secret:CLAUDE}''\<rparr>)]\<rparr>"
  have readable: "env_readable ?env ?c" by (simp add: env_readable_def)
  have global: "file_view demo_host ''/g'' demo_disk GlobalScope n = None" for n
    by (simp add: file_view_def file_entries_def demo_disk_def)
  have project: "file_view demo_host ''/g'' demo_disk (LocalScope ''/work'') n = (if n = ''openai'' then Some ''sk-1'' else None)" for n
    using demo_parse [OF openai_entry(1)] openai_entry(2) by (simp add: file_view_def file_entries_def demo_disk_def demo_named(2))
  have reference: "configured_key ?c Anthropic = Some ''CLAUDE''" "configured_key ?c Gemini = None"
    by (simp_all add: configured_key_def parse_secret_ref_def placeholder_prefix_def placeholder_suffix_def
        strip_prefix_def strip_suffix_def)
  show ?thesis
    using providers_get_their_keys [OF demo_ready demo_named(1) readable, of "[Anthropic, OpenAI, Gemini]"]
    by (auto simp: global project reference precedence_def)
qed

end
