(* ===== verification/Wire_Guarantees.thy ===== *)
theory Wire_Guarantees
  imports Router_Wire Web_Guarantees
begin

text \<open>
  What client and router guarantee together, over a connection that cuts the bytes as it likes: a
  user can sign in with the key it was given, and a streamed turn arrives as it was produced, paid
  for with the keys the client holds.
\<close>

section \<open>Signing in\<close>

text \<open>The first half: the key is minted, and the sign-in leaves a live token with the client.\<close>

lemma signed_up_over_wire:
  fixes env :: web_env and n :: net
  defines "rt \<equiv> we_auth env" and "k \<equiv> (\<lambda>i. nt_ticks n (nt_seen n + i))"
  defines "user \<equiv> wk_id (k 0)" and "key \<equiv> api_key_from_parts (wk_id (k 0)) (wk_secret (k 0))"
    and "token \<equiv> session_token_from_parts (wk_id (k 1)) (wk_secret (k 1))"
    and "expires \<equiv> wk_now (k 1) + ra_token_ttl_seconds (rc_auth (we_config env))"
  assumes "argon_law rt" "hash_law rt" "sha_law rt" "link_law lk" "bu_can_be_base base"
    and "\<not> rl_enabled (rc_rate_limit (we_config env))" "db_users (net_db n) = []" "db_tokens (net_db n) = []"
    and "uuid_law rt (wk_id (k 0))" "uuid_law rt (wk_id (k 1))" "wk_secret (k 0) \<noteq> []" "wk_secret (k 1) \<noteq> []"
    and "visible_text key" "body_law x (BootstrapBody user key)" "body_law x (SignInBody token expires)"
  shows "\<exists>s1 n2.
    client_bootstrap (router_lib env x lk be) (fresh_client base, n) = (Ok (BootstrapBody user key), s1) \<and>
    client_sign_in (router_lib env x lk be) s1 = (Ok (SignInBody token expires),
      ((fresh_client base)\<lparr>cs_api_key := Some key, cs_token := Some token\<rparr>, n2)) \<and>
    live_token rt token (wk_id (k 1)) expires user (net_db n2) \<and>
    nt_ticks n2 = nt_ticks n \<and> nt_seen n2 = nt_seen n + 2"
proof -
  let ?lib = "router_lib env x lk be"
  note laws = assms(7-21)
  have at: "k 0 = net_tick n" by (simp add: k_def)
  obtain hash n1 where booted: "client_bootstrap ?lib (fresh_client base, n) =
      (Ok (BootstrapBody user key), ((fresh_client base)\<lparr>cs_api_key := Some key\<rparr>, n1))"
    and hash: "ar_argon2_verify rt key hash = Some True"
    and n1: "net_db n1 = (net_db n)\<lparr>db_users := [new_user user hash]\<rparr>" "nt_ticks n1 = nt_ticks n" "nt_seen n1 = Suc (nt_seen n)"
    using bootstrapped_over_wire [of x n env "fresh_client base" lk be] laws
    unfolding user_def key_def rt_def at by (auto simp: fresh_client_def)
  let ?c1 = "(fresh_client base)\<lparr>cs_api_key := Some key\<rparr>" and ?c2 = "(fresh_client base)\<lparr>cs_api_key := Some key, cs_token := Some token\<rparr>"
  have k1: "net_tick n1 = k 1" by (simp add: n1 k_def)
  have parsed: "parse_api_key_user_id rt key = Ok user"
    using api_key_parses laws unfolding key_def user_def by blast
  have "\<exists>n'. client_sign_in ?lib (?c1, n1) = (Ok (SignInBody token expires), (?c1\<lparr>cs_token := Some token\<rparr>, n')) \<and>
      live_token (we_auth env) token (wk_id (net_tick n1)) expires user (net_db n') \<and>
      nt_ticks n' = nt_ticks n1 \<and> nt_seen n' = Suc (nt_seen n1)"
  proof (rule signed_in_over_wire)
    show "token = session_token_from_parts (wk_id (net_tick n1)) (wk_secret (net_tick n1))" by (simp only: k1 token_def)
    show "expires = wk_now (net_tick n1) + ra_token_ttl_seconds (rc_auth (we_config env))" by (simp only: k1 expires_def)
    show "db_users (net_db n1) = [new_user user hash]" "db_tokens (net_db n1) = []" using n1(1) laws(8) by simp_all
    show "cs_api_key ?c1 = Some key" "bu_can_be_base (cs_base ?c1)" using laws(5) by (simp_all add: fresh_client_def)
    show "parse_api_key_user_id (we_auth env) key = Ok user" "ar_argon2_verify (we_auth env) key hash = Some True"
      using parsed hash by (simp_all add: rt_def)
    show "uuid_law (we_auth env) (wk_id (net_tick n1))" "wk_secret (net_tick n1) \<noteq> []"
      using laws(10,12) by (simp_all only: k1 rt_def not_False_eq_True)
    show "hash_law (we_auth env)" "sha_law (we_auth env)" using laws(2,3) by (simp_all only: rt_def)
  qed (rule laws)+
  then obtain n2 where signed: "client_sign_in ?lib (?c1, n1) = (Ok (SignInBody token expires), (?c2, n2))"
    and live: "live_token rt token (wk_id (k 1)) expires user (net_db n2)"
    and n2: "nt_ticks n2 = nt_ticks n" "nt_seen n2 = nt_seen n + 2"
    unfolding k1 rt_def by (auto simp: n1)
  show ?thesis using booted signed live n2 by blast
qed

text \<open>
  C36. From the first key to the last sign-out, over the wire: on a fresh router the client obtains a
  key, signs in with it, is recognised as that user for as long as the token lasts, and signs out;
  after that it sends nothing, and the token, presented again, is refused as revoked.
\<close>

theorem user_signs_in_over_the_wire:
  fixes env :: web_env and n :: net
  defines "rt \<equiv> we_auth env" and "k \<equiv> (\<lambda>i. nt_ticks n (nt_seen n + i))"
  defines "user \<equiv> wk_id (k 0)" and "key \<equiv> api_key_from_parts (wk_id (k 0)) (wk_secret (k 0))"
    and "token \<equiv> session_token_from_parts (wk_id (k 1)) (wk_secret (k 1))"
    and "expires \<equiv> wk_now (k 1) + ra_token_ttl_seconds (rc_auth (we_config env))"
  assumes "argon_law rt" "hash_law rt" "sha_law rt" "link_law lk" "bu_can_be_base base"
    and "\<not> rl_enabled (rc_rate_limit (we_config env))" "db_users (net_db n) = []" "db_tokens (net_db n) = []"
    and "uuid_law rt (wk_id (k 0))" "uuid_law rt (wk_id (k 1))" "wk_secret (k 0) \<noteq> []" "wk_secret (k 1) \<noteq> []"
    and "visible_text key" "visible_text token" "wk_now (k 2) < expires" "wk_now (k 3) < expires"
    and "body_law x (BootstrapBody user key)" "body_law x (SignInBody token expires)" "body_law x (MeBody user)"
    and "body_law x SignedOutBody" "body_law x (ErrorBody (ar_error (web_error_of_auth RevokedToken)))"
  shows "\<exists>s1 s2 s3 c4 n4.
    client_bootstrap (router_lib env x lk be) (fresh_client base, n) = (Ok (BootstrapBody user key), s1) \<and>
    client_sign_in (router_lib env x lk be) s1 = (Ok (SignInBody token expires), s2) \<and>
    client_me (router_lib env x lk be) s2 = (Ok (MeBody user), s3) \<and>
    client_sign_out (router_lib env x lk be) s3 = (Ok SignedOutBody, (c4, n4)) \<and>
    client_me (router_lib env x lk be) (c4, n4) = (Err NotAuthenticated, (c4, n4)) \<and>
    fst (client_me (router_lib env x lk be) (with_session_token token c4, n4)) =
      Err (ApiFailure 401 ''token_revoked'' ''The session token has been revoked.'' None)"
proof -
  let ?lib = "router_lib env x lk be"
  let ?c2 = "(fresh_client base)\<lparr>cs_api_key := Some key, cs_token := Some token\<rparr>"
  note laws = assms(7-27)
  obtain s1 n2 where booted: "client_bootstrap ?lib (fresh_client base, n) = (Ok (BootstrapBody user key), s1)"
    and signed: "client_sign_in ?lib s1 = (Ok (SignInBody token expires), (?c2, n2))"
    and live: "live_token rt token (wk_id (k 1)) expires user (net_db n2)"
    and n2: "nt_ticks n2 = nt_ticks n" "nt_seen n2 = nt_seen n + 2"
    using signed_up_over_wire [of env lk base n x be] laws
    unfolding rt_def k_def user_def key_def token_def expires_def by blast
  have k2: "net_tick n2 = k 2" by (simp add: n2 k_def)
  have c2: "bu_can_be_base (cs_base ?c2)" "cs_token ?c2 = Some token" using laws by (simp_all add: fresh_client_def)
  obtain n3 where seen: "client_me ?lib (?c2, n2) = (Ok (MeBody user), (?c2, n3))"
    and n3: "net_db n3 = net_db n2" "nt_ticks n3 = nt_ticks n2" "nt_seen n3 = Suc (nt_seen n2)"
    using recognised_over_wire [of x user token env ?c2 "wk_id (k 1)" expires n2 lk be] laws c2 live k2
    unfolding rt_def by auto
  have k3: "net_tick n3 = k 3" by (simp add: n2 n3 k_def numeral_3_eq_3)
  obtain n4 where out: "client_sign_out ?lib (?c2, n3) = (Ok SignedOutBody, (?c2\<lparr>cs_token := None\<rparr>, n4))"
    and revoked: "\<And>t. authenticate_token rt t token (net_db n4) = Err RevokedToken"
    using signed_out_over_wire [of x token env ?c2 "wk_id (k 1)" expires user n3 lk be] laws c2 live k3
    unfolding rt_def by (auto simp: n3)
  let ?c4 = "?c2\<lparr>cs_token := None\<rparr>"
  have home: "client_me ?lib (?c4, n4) = (Err NotAuthenticated, (?c4, n4))"
    unfolding client_me_def using laws by (intro unauthenticated_stays_home(1)) (simp_all add: fresh_client_def)
  have again: "fst (client_me ?lib (with_session_token token ?c4, n4)) =
      Err (ApiFailure 401 ''token_revoked'' ''The session token has been revoked.'' None)"
    using laws revoked unfolding rt_def by (intro revoked_over_wire) (simp_all add: fresh_client_def)
  show ?thesis using booted signed seen out home again by blast
qed

text \<open>A codec, a connection that delivers every byte alone, and a router that was just installed.\<close>

fun demo_body :: "web_body \<Rightarrow> string" where
  "demo_body (BootstrapBody u k) = mark_text u @ mark_text k"
| "demo_body (SignInBody t e) = mark_text t @ mark_text (replicate e CHR ''i'')"
| "demo_body (MeBody u) = mark_text u"
| "demo_body (ErrorBody e) = mark_text (ae_code e) @ mark_text (ae_message e)"
| "demo_body _ = []"

fun demo_read :: "body_kind \<Rightarrow> string list \<Rightarrow> (string, web_body) result" where
  "demo_read BootstrapKind [u, k] = Ok (BootstrapBody u k)"
| "demo_read SignInKind [t, e] = Ok (SignInBody t (length e))"
| "demo_read MeKind [u] = Ok (MeBody u)"
| "demo_read SignedOutKind [] = Ok SignedOutBody"
| "demo_read ErrorKind [c, m] = Ok (ErrorBody \<lparr>ae_code = c, ae_message = m, ae_details = None\<rparr>)"
| "demo_read _ _ = Err []"

text \<open>An event of text is a mark and its text, without line breaks.\<close>

fun demo_event :: "wire_event \<Rightarrow> string" where
  "demo_event (TextDeltaEvent t) = CHR ''t'' # t"
| "demo_event (TurnFailed e _) = CHR ''f'' # ae_message e"
| "demo_event _ = []"

fun demo_read_event :: "string \<Rightarrow> (string, wire_event) result" where
  "demo_read_event (c # s) =
     Ok (if c = CHR ''t'' then TextDeltaEvent s
         else TurnFailed (ar_error (from_code ApiRunInFlight s)) [])"
| "demo_read_event [] = Err []"

definition demo_codec :: wire_codec where
  "demo_codec = \<lparr>xc_body = demo_body, xc_read = (\<lambda>k s. demo_read k (read_marks [] s)), xc_event = demo_event,
     xc_read_event = demo_read_event, xc_utf8_error = (\<lambda>_. [])\<rparr>"

definition demo_link :: link where
  "demo_link = \<lparr>lk_query_text = (\<lambda>_. []), lk_cut = map (\<lambda>c. [c]), lk_peer = ''p''\<rparr>"

definition demo_net :: net where
  "demo_net = \<lparr>nt_web = \<lparr>ws_db = empty_database, ws_log = [], ws_charged = []\<rparr>,
     nt_ticks = (\<lambda>i. \<lparr>wk_now = 9, wk_id = (if i = 0 then ''u'' else ''t''), wk_secret = ''x'', wk_salt = 0\<rparr>), nt_seen = 0\<rparr>"

definition demo_base :: base_url where
  "demo_base = \<lparr>bu_origin = ''http://h'', bu_can_be_base = True\<rparr>"

lemma demo_link_law: "link_law demo_link"
proof -
  have "concat (map (\<lambda>c. [c]) s) = s" for s :: string by (induction s) simp_all
  then show ?thesis by (auto simp: link_law_def demo_link_def)
qed

lemma read_mark: "read_marks [] (mark_text k) = [k]"
  using read_mark_text [of "[]" k "[]"] by simp

lemma demo_bodies:
  "body_law demo_codec (BootstrapBody u k)" "body_law demo_codec (SignInBody t e)" "body_law demo_codec (MeBody u)"
  "body_law demo_codec SignedOutBody" "body_law demo_codec (ErrorBody (ar_error (from_code c m)))"
  by (simp_all add: body_law_def demo_codec_def read_mark_text read_mark from_code_def api_error_new_def)

lemma plain_laws: "argon_law plain_auth" "hash_law plain_auth" "sha_law plain_auth" "uuid_law plain_auth ''u''" "uuid_law plain_auth ''t''"
  by (simp_all add: argon_law_def hash_law_def sha_law_def uuid_law_def plain_auth_def simple_uuid_def dash_def)

lemma user_signs_in_over_the_wire_witness:
  "\<exists>s1 s2 s3. client_bootstrap (router_lib demo_web demo_codec demo_link Isahc) (fresh_client demo_base, demo_net) =
      (Ok (BootstrapBody ''u'' (api_key_from_parts ''u'' ''x'')), s1) \<and>
    fst (client_sign_in (router_lib demo_web demo_codec demo_link Isahc) s1) = Ok (SignInBody ''t-x'' s2) \<and>
    fst (client_me (router_lib demo_web demo_codec demo_link Isahc) s3) = Ok (MeBody ''u'')"
proof -
  let ?token = "session_token_from_parts ''t'' ''x''"
  have env: "we_auth demo_web = plain_auth" "\<not> rl_enabled (rc_rate_limit (we_config demo_web))"
      "ra_token_ttl_seconds (rc_auth (we_config demo_web)) > 0"
    by (simp_all add: demo_web_def default_router_config_def default_auth_config_def)
  have ticks: "nt_ticks demo_net (nt_seen demo_net + i) =
      \<lparr>wk_now = 9, wk_id = (if i = 0 then ''u'' else ''t''), wk_secret = ''x'', wk_salt = 0\<rparr>" for i
    by (simp add: demo_net_def)
  have fresh: "db_users (net_db demo_net) = []" "db_tokens (net_db demo_net) = []" "bu_can_be_base demo_base"
    by (simp_all add: demo_net_def empty_database_def demo_base_def)
  have "visible_text ''u''" "visible_text ''t''" "visible_text ''x''"
    by (simp_all add: visible_text_def visible_char_def code_def)
  note visible = visible_key(1) [OF this(1,3)] visible_key(2) [OF this(2,3)]
  have error: "body_law demo_codec (ErrorBody (ar_error (web_error_of_auth RevokedToken)))"
    unfolding web_error_of_auth.simps by (rule demo_bodies)
  have token: "?token = ''t-x''" by (simp add: session_token_from_parts_def simple_uuid_def dash_def)
  from user_signs_in_over_the_wire [of demo_web demo_link demo_base demo_net demo_codec Isahc]
  show ?thesis
    unfolding ticks env(1) using plain_laws demo_link_law fresh env visible demo_bodies error token
    by simp (metis fst_conv)
qed

text \<open>
  C37. A streamed turn over the wire: the client that executes a request receives exactly the events
  the router streams for it, in order and up to the one that ends the turn, however the connection
  cuts the bytes and whichever HTTP library reads them; and the run is the one of the token's user
  with exactly the provider keys the client holds, where no OpenAI-compatible instance takes the name
  of a built-in provider.
\<close>

theorem streamed_turn_over_the_wire:
  assumes "sendable_keys (cs_keys c)" "cs_token c = Some token" "visible_text token" "bu_can_be_base (cs_base c)"
    and "link_law lk" "\<not> rl_enabled (rc_rate_limit (we_config env))"
    and "authenticate_token (we_auth env) (wk_now (net_tick n)) token (net_db n) = Ok user"
    and "i \<noteq> []" "CHR ''/'' \<notin> set i" "we_parse_uuid env i = Some sid"
    and "fst (we_execute env \<lparr>tc_user = user, tc_session = sid, tc_credentials = map_of (cs_keys c)\<rparr> request (net_db n)) = run"
    and "list_all is_delta (fst run)" "list_all (event_law x) (stream_turn (we_show_error env) run)"
  shows "fst (client_stream_execute (router_lib env x lk be) i request (c, n)) =
    Ok (map Inr (stream_turn (we_show_error env) run))"
proof -
  let ?call = "stream_call (cs_base c) (session_path i ''/execute'') token (cs_keys c) (ExecutePayload request)"
  let ?events = "stream_turn (we_show_error env) run" and ?k = "net_tick n" and ?q = "wire_request lk ?call"
  let ?keys = "extract_provider_credentials (wq_headers ?q)"
  let ?q' = "?q\<lparr>wq_credentials := (if ?keys = Map.empty then None else Some ?keys)\<rparr>"
  have hs: "wq_headers ?q = wire_headers (stream_headers token (cs_keys c))"
    by (simp add: wire_request_def stream_call_def)
  have keys: "?keys = map_of (cs_keys c)" unfolding hs by (rule stream_headers_read(1) [OF assms(1)])
  have call: "turn_call_of user sid (wq_credentials ?q') = \<lparr>tc_user = user, tc_session = sid, tc_credentials = map_of (cs_keys c)\<rparr>"
    by (simp add: turn_call_of_def keys)
  have "fst (execute_route env user i (wq_headers ?q) (wq_credentials ?q') request (net_db n)) = respond 200 (StreamBody ?events)"
    using stream_headers_read(2) [OF assms(1), of token] assms(10,11) call
    by (simp add: execute_route_def hs answer_turn_def case_prod_unfold)
  then have "fst (dispatch env ?k ?q' (net_db n)) = respond 200 (StreamBody ?events)"
    using session_route_path [OF assms(8,9)] stream_authenticated [OF assms(3), of env ?k "cs_keys c" "net_db n"] assms(7) hs
    by (simp add: dispatch_def handler_def Let_def wire_request_def stream_call_def)
  then have reply: "fst (build_router env ?k ?q (nt_web n)) = respond 200 (StreamBody ?events)"
    using admitted_with [of ?q env ?k "nt_web n"] assms(6) by (simp add: wire_request_def stream_call_def)
  obtain r s' where built: "build_router env ?k ?q (nt_web n) = (r, s')" by fastforce
  then have "exchange (router_lib env x lk be) ?call (c, n) =
      (Ok (answer_of x lk (respond 200 (StreamBody ?events))), (c, n\<lparr>nt_web := s', nt_seen := Suc (nt_seen n)\<rparr>))"
    using reply by (simp add: exchange_def router_lib_def router_exchange_def)
  then obtain n' where "exchange (router_lib env x lk be) ?call (c, n) = (Ok (answer_of x lk (respond 200 (StreamBody ?events))), (c, n'))"
    by blast
  moreover have "list_all (\<lambda>e. \<not> is_turn_end e) (butlast ?events)"
    using stream_ends_with_the_turn [OF assms(12), of "we_show_error env"] by auto
  then have "stream_of (router_lib env x lk be) (answer_of x lk (respond 200 (StreamBody ?events))) = map Inr ?events"
    by (rule stream_delivered [OF assms(5,13)])
  ultimately show ?thesis
    unfolding client_stream_execute_def
      stream_request_built [OF assms(2,4) stream_headers_valid [OF assms(3,1)]]
    by (simp add: bind_c_def done_c_def is_success_def answer_of_def respond_def)
qed

text \<open>A router whose turn says a word before it fails, but only for the user and the key it was sent.\<close>

definition echo_turn :: "turn_call \<Rightarrow> turn_run" where
  "echo_turn call =
     (if call = \<lparr>tc_user = ''a'', tc_session = ''s1'', tc_credentials = [OpenAI \<mapsto> ''sk-a'']\<rparr>
      then [TextDeltaEvent ''hi'', TextDeltaEvent ''you''] else [], Err Busy)"

definition saying_web :: web_env where
  "saying_web = demo_web\<lparr>we_start := (\<lambda>call _. Return (echo_turn call))\<rparr>"

definition saying_net :: net where
  "saying_net = demo_net\<lparr>nt_web := demo_state\<rparr>"

definition keyed_client :: client_state where
  "keyed_client = (fresh_client demo_base)\<lparr>cs_token := Some ''t1-pw'', cs_keys := [(OpenAI, ''sk-a'')]\<rparr>"

lemma streamed_turn_over_the_wire_witness:
  "\<forall>request. fst (client_stream_execute (router_lib saying_web demo_codec demo_link Isahc) ''s1'' request (keyed_client, saying_net)) =
    Ok [Inr (TextDeltaEvent ''hi''), Inr (TextDeltaEvent ''you''), Inr (error_turn_end (\<lambda>_. []) Busy)]"
proof
  fix request
  let ?run = "([TextDeltaEvent ''hi'', TextDeltaEvent ''you''], Err Busy) :: turn_run"
  have client: "sendable_keys (cs_keys keyed_client)" "cs_token keyed_client = Some ''t1-pw''"
      "bu_can_be_base (cs_base keyed_client)" "visible_text ''t1-pw''"
    by (simp_all add: keyed_client_def fresh_client_def demo_base_def sendable_keys_def to_str_def visible_text_def
        visible_char_def code_def)
  have env: "\<not> rl_enabled (rc_rate_limit (we_config saying_web))" "we_parse_uuid saying_web ''s1'' = Some ''s1''"
      "we_show_error saying_web = (\<lambda>_. [])"
    by (simp_all add: saying_web_def demo_web_def)
  have user: "authenticate_token (we_auth saying_web) (wk_now (net_tick saying_net)) ''t1-pw'' (net_db saying_net) = Ok ''a''"
    by (simp add: saying_web_def demo_web_def saying_net_def demo_net_def demo_state_def authenticate_token_def
        parse_session_token_id_def dash_def plain_auth_def get_token_def demo_db_def)
  have path: "''s1'' \<noteq> []" "CHR ''/'' \<notin> set ''s1''" by simp_all
  have run: "fst (we_execute saying_web \<lparr>tc_user = ''a'', tc_session = ''s1'', tc_credentials = map_of (cs_keys keyed_client)\<rparr>
      request (net_db saying_net)) = ?run"
    by (simp add: saying_web_def keyed_client_def echo_turn_def we_execute_def orchestrated_def open_handle_def get_session_def
        saying_net_def demo_net_def demo_state_def demo_db_def two_sessions_eq session_a_def)
  have deltas: "list_all is_delta (fst ?run)" by simp
  have events: "list_all (event_law demo_codec) (stream_turn (we_show_error saying_web) ?run)"
    by (simp add: stream_turn_def event_law_def demo_codec_def error_turn_end_def from_code_def api_error_new_def
        sse_newline_def env(3))
  show "fst (client_stream_execute (router_lib saying_web demo_codec demo_link Isahc) ''s1'' request (keyed_client, saying_net)) =
    Ok [Inr (TextDeltaEvent ''hi''), Inr (TextDeltaEvent ''you''), Inr (error_turn_end (\<lambda>_. []) Busy)]"
    using streamed_turn_over_the_wire [OF client(1,2,4,3) demo_link_law env(1) user path env(2) run deltas events]
    by (simp add: stream_turn_def env(3))
qed

end
