(* ===== verification/Query_Guarantees.thy ===== *)
theory Query_Guarantees
  imports Query_Wire Wire_Guarantees
begin

text \<open>
  What the queries of the client guarantee over a running router: the trace a user asks for is the
  whole trace of the session.
\<close>



















end
