(* ===== verification/Request_Guarantees.thy ===== *)
theory Request_Guarantees
  imports Cli_Request Tui_Input Samples
begin

text \<open>
  What a request of the client guarantees about the turn the router makes of it, from the layers of
  the configuration and the files of the workspace to the model that serves.
\<close>

section \<open>Restrictions\<close>

lemma remaining_of_route: "set (remaining_fallbacks route r) \<subseteq> set (route_fallbacks route)"
  using set_dropWhileD [of _ "\<lambda>m. m \<noteq> r" "route_fallbacks route"]
  by (auto simp: remaining_fallbacks_def dest: in_set_dropD)

lemma fallbacks_of_policy:
  assumes "resolve x args = Ok t" "m \<in> set (rt_fallbacks t)"
  shows "(\<exists>r\<in>set (rp_rules (ra_routing args)). m \<in> set (rule_fallbacks r)) \<or>
    (\<exists>d. rp_default (ra_routing args) = Some d \<and> m \<in> set (dr_fallbacks d))"
  using assms(1)
proof (rule resolve_Ok)
  fix route s
  assume "route_of x args = Ok route" "rt_fallbacks t = remaining_fallbacks route (descriptor_reference (sel_model s))"
  with assms(2) remaining_of_route show ?thesis
    by (fastforce simp: route_of_def match_policy_def first_matching_rule_Some best_def route_fallbacks_def Let_def
        result_simps split: option.splits prod.splits)
qed

lemma chain_stays_local:
  assumes "resolve x args = Ok t" "catalog_wf (ra_catalog args)" "md_local (rt_model t)"
    and "\<And>r m d. r \<in> set (rp_rules (ra_routing args)) \<Longrightarrow> m \<in> set (rule_fallbacks r) \<Longrightarrow>
      ra_catalog args m = Some d \<Longrightarrow> md_local d"
    and "\<And>r m d. rp_default (ra_routing args) = Some r \<Longrightarrow> m \<in> set (dr_fallbacks r) \<Longrightarrow>
      ra_catalog args m = Some d \<Longrightarrow> md_local d"
    and "m \<in> set (candidate_chain t)" "ra_catalog args m = Some d"
  shows "md_local d"
proof (cases "m \<in> set (rt_fallbacks t)")
  case True
  with fallbacks_of_policy [OF assms(1)] assms(4,5,7) show ?thesis by blast
next
  case False
  with assms(6) have m: "m = \<lparr>mr_provider = rd_provider (rt_routing t), mr_model = rd_model (rt_routing t)\<rparr>"
    by (simp add: candidate_chain_def)
  from assms(1) show ?thesis
  proof (rule resolve_Ok)
    fix route s
    assume s: "selection_of x args route = Ok s" "rt_model t = sel_model s"
      "rd_provider (rt_routing t) = md_provider (sel_model s)" "rd_model (rt_routing t) = md_model (sel_model s)"
    from s(1) [unfolded selection_of_def] obtain i where "ra_catalog args (route_chain route ! i) = Some (sel_model s)"
      by (rule select_Ok) (auto simp: usable_Some)
    moreover from this have "route_chain route ! i = descriptor_reference (sel_model s)"
      using assms(2) by (simp add: catalog_wf_def)
    ultimately show ?thesis using m s(2-4) assms(3,7) by (simp add: descriptor_reference_def)
  qed
qed

text \<open>
  C9. What the user restricts is given to a local model: when any layer of the configuration restricts
  a pattern and a file attached to the prompt matches it, or the merged configuration is local only,
  the router resolves the turn of the client's request to a local model or refuses it. A model that
  fails is followed by the fallbacks its route names, which are not held to this; where the
  configuration names only local fallbacks, every model that the turn may be sent to is local.
\<close>

theorem restricted_attachment_stays_local:
  assumes "glob_law (en_externs rt)" "rh_config host = merge_layers layers"
    and "ls_local_only (cf_local (rh_config host)) = Some True \<or>
      (\<exists>l c g m f s. (l, c) \<in> set layers \<and> restricts c g \<and> compile_globs (en_externs rt) [g] = Some m \<and> m f \<and>
         f \<in> set files \<and> rh_read host (resolve_workspace_path (rh_cwd host) f) = FileContents s)"
    and "split_execute_request (build_execute_request host prompt files plan model) = (cx_meta cx, bundle)"
    and "resolve (en_externs rt) (resolve_args_of rt cx bundle recalled rounds) = Ok t"
  shows "md_local (rt_model t) \<and>
    (catalog_wf (en_catalog rt rounds) \<longrightarrow>
     (\<forall>r\<in>set (rp_rules (cf_routing (rh_config host))). \<forall>m\<in>set (rule_fallbacks r). \<forall>d.
        en_catalog rt rounds m = Some d \<longrightarrow> md_local d) \<longrightarrow>
     (\<forall>r m d. rp_default (cf_routing (rh_config host)) = Some r \<longrightarrow> m \<in> set (dr_fallbacks r) \<longrightarrow>
        en_catalog rt rounds m = Some d \<longrightarrow> md_local d) \<longrightarrow>
     (\<forall>m\<in>set (candidate_chain t). \<forall>d. en_catalog rt rounds m = Some d \<longrightarrow> md_local d))"
proof -
  let ?args = "resolve_args_of rt cx bundle recalled rounds"
  have args: "ra_routing ?args = cf_routing (rh_config host)" "ra_catalog ?args = en_catalog rt rounds"
    using turn_of_request(4) [OF assms(4), of rt recalled rounds] request_policy(3)
    by (simp_all only:) (simp add: resolve_args_of_def Let_def)
  have "md_local (rt_model t)"
  using assms(5)
proof (rule resolve_local)
  fix route
  let ?request = "build_execute_request host prompt files plan model"
  let ?args = "resolve_args_of rt cx bundle recalled rounds"
  note args = turn_of_request(1-3) [OF assms(4)] request_policy(1,4)
  from assms(3) have "must_stay_local (en_externs rt) ?args route"
  proof (elim disjE exE conjE)
    fix l c g m f s
    assume "(l, c) \<in> set layers" "restricts c g" "compile_globs (en_externs rt) [g] = Some m" "m f"
    then have "is_restricted_for_remote (en_externs rt) (ra_privacy ?args) f"
      using restricts_matching [OF assms(1) layer_restricts] by (simp only: args assms(2))
    moreover assume "f \<in> set files" "rh_read host (resolve_workspace_path (rh_cwd host) f) = FileContents s"
    then obtain a where "a \<in> set (at_files (ra_attachments ?args))" "cf_path a = f" "cf_required a"
      using attached_file [of f files host s prompt plan model] by (auto simp: args)
    ultimately show ?thesis by (auto simp: must_stay_local_def candidates_of_def build_has_restricted)
  qed (simp add: must_stay_local_def args unwrap_flag_def)
  then show "must_stay_local (en_externs rt) ?args route \<or> (\<exists>r\<in>set_option (matched_rule route). rule_local_only r)" ..
qed
  then show ?thesis using chain_stays_local [OF assms(5)] unfolding args by blast
qed

text \<open>A project that restricts the file of a prompt, in a workspace without a repository.\<close>

definition remote_first :: routing_policy where
  "remote_first = \<lparr>rp_rules = [], rp_default = Some \<lparr>dr_model = remote_ref, dr_fallbacks = [local_ref]\<rparr>\<rparr>"

definition project_layers :: "(config_layer \<times> config) list" where
  "project_layers = [(ProjectLayer, default_config\<lparr>cf_routing := remote_first,
     cf_privacy := open_policy\<lparr>restricted_paths := [''/w/k'']\<rparr>\<rparr>)]"

definition demo_host :: request_host where
  "demo_host = \<lparr>rh_cwd = ''/w'', rh_config = merge_layers project_layers,
     rh_read = (\<lambda>p. if p = ''/w/k'' then FileContents ''key'' else FileMissing), rh_git = None,
     rh_skills = empty_store, rh_skill_host = \<lparr>sh_read_dir = (\<lambda>_. None), sh_read = (\<lambda>_. FileMissing),
       sh_yaml = (\<lambda>_. Err []), sh_home = None\<rparr>\<rparr>"

definition demo_executed :: execute_request where
  "demo_executed = build_execute_request demo_host ''fix @/w/k'' [''/w/k''] True None"

definition demo_cx :: turn_cx where
  "demo_cx = \<lparr>cx_meta = fst (split_execute_request demo_executed), cx_bundle = Loaded (snd (split_execute_request demo_executed)), cx_seal_run_input = False,
     cx_plan_active = False, cx_encrypted = False, cx_decrypted = [], cx_sink = False\<rparr>"

lemma demo_config: "cf_routing (rh_config demo_host) = remote_first"
  "cf_privacy (rh_config demo_host) = open_policy\<lparr>restricted_paths := [''/w/k'']\<rparr>"
  "cf_classification (rh_config demo_host) = default_classification"
  "ls_local_only (cf_local (rh_config demo_host)) = None"
  by (simp_all add: demo_host_def project_layers_def merge_layers_def merge_onto_def merge_two_def default_config_def
      remote_first_def empty_routing_def merge_privacy_def union_paths_def merge_mode_def open_policy_def
      merge_local_prefs_def or_else_def unset_settings_def)

lemma demo_request_fields:
  "ti_command (xr_input demo_executed) = Some Plan" "ti_explicit_model (xr_input demo_executed) = None"
  "xr_workspace demo_executed = \<lparr>ws_root = ''/w'', ws_git_branch = None, ws_git_diff = None,
     ws_referenced_paths = [''/w/k''], ws_active_file = None\<rparr>"
  "xr_attachments demo_executed = \<lparr>at_files = [\<lparr>cf_path = ''/w/k'', cf_content = ''key'', cf_required = True\<rparr>],
     at_instructions = [], at_invoked_skills = [], at_available_skills = []\<rparr>"
  by (simp_all add: demo_executed_def build_execute_request_def Let_def git_snapshot_def demo_host_def load_context_files_def
      load_context_file_def resolve_workspace_path_def is_absolute_def load_instructions_def agents_md_def path_join_def
      load_available_skills_def skill_names_def List.map_filter_simps)

lemma demo_resolves:
  "chosen (resolve sample_externs (resolve_args_of (sample_runtime hello) demo_cx
     (snd (split_execute_request demo_executed)) empty_recall 0)) = Some (local_ref, [])"
proof -
  have meta: "split_execute_request demo_executed = (cx_meta demo_cx, snd (split_execute_request demo_executed))"
    by (simp add: demo_cx_def)
  have policy: "xp_routing (xr_policy demo_executed) = remote_first"
      "xp_privacy (xr_policy demo_executed) = open_policy\<lparr>restricted_paths := [''/w/k'']\<rparr>"
      "xp_classification (xr_policy demo_executed) = default_classification"
      "lp_local_only (xr_local_preferences demo_executed) = False"
    using demo_config request_policy
    by (simp_all add: demo_executed_def unwrap_flag_def) (simp add: build_execute_request_def split_beta Let_def)
  show ?thesis
    using demo_request_fields policy
    by (simp add: demo_cx_def resolve_args_of_def split_execute_request_def rebuild_workspace_def sample_runtime_def
        remote_first_def open_policy_def sample_defs resolve_defs result_simps Let_def)
qed

lemma restricted_attachment_stays_local_witness:
  "\<exists>t. resolve sample_externs (resolve_args_of (sample_runtime hello) demo_cx
     (snd (split_execute_request demo_executed)) empty_recall 0) = Ok t \<and> md_local (rt_model t) \<and>
     (\<forall>m\<in>set (candidate_chain t). \<forall>d. sample_catalog m = Some d \<longrightarrow> md_local d)"
proof -
  obtain t where t: "resolve sample_externs (resolve_args_of (sample_runtime hello) demo_cx
      (snd (split_execute_request demo_executed)) empty_recall 0) = Ok t"
    using chosen_Ok [OF demo_resolves] by blast
  have law: "glob_law (en_externs (sample_runtime hello))" using sample_laws by (simp add: sample_runtime_def)
  have layers: "rh_config demo_host = merge_layers project_layers" by (simp add: demo_host_def)
  let ?c = "snd (hd project_layers)"
  have "(ProjectLayer, ?c) \<in> set project_layers" "restricts ?c ''/w/k''"
      "compile_globs (en_externs (sample_runtime hello)) [''/w/k''] = Some (\<lambda>p. p \<in> set [''/w/k''])"
      "''/w/k'' \<in> set [''/w/k'']"
      "rh_read demo_host (resolve_workspace_path (rh_cwd demo_host) ''/w/k'') = FileContents ''key''"
    by (simp_all add: project_layers_def restricts_def sample_runtime_def sample_externs_def compile_globs_def demo_host_def
        resolve_workspace_path_def is_absolute_def)
  then have hidden: "ls_local_only (cf_local (rh_config demo_host)) = Some True \<or>
      (\<exists>l c g m f s. (l, c) \<in> set project_layers \<and> restricts c g \<and>
         compile_globs (en_externs (sample_runtime hello)) [g] = Some m \<and> m f \<and> f \<in> set [''/w/k''] \<and>
         rh_read demo_host (resolve_workspace_path (rh_cwd demo_host) f) = FileContents s)"
    by blast
  have cut: "split_execute_request (build_execute_request demo_host ''fix @/w/k'' [''/w/k''] True None) =
      (cx_meta demo_cx, snd (split_execute_request demo_executed))"
    by (simp add: demo_cx_def demo_executed_def)
  have "resolve (en_externs (sample_runtime hello)) (resolve_args_of (sample_runtime hello) demo_cx
      (snd (split_execute_request demo_executed)) empty_recall 0) = Ok t"
    using t by (simp add: sample_runtime_def)
  note stays = restricted_attachment_stays_local [OF law layers hidden cut this]
  have catalog: "en_catalog (sample_runtime hello) 0 = sample_catalog" by (simp add: sample_runtime_def)
  have rules: "rp_rules (cf_routing (rh_config demo_host)) = []"
      "rp_default (cf_routing (rh_config demo_host)) = Some \<lparr>dr_model = remote_ref, dr_fallbacks = [local_ref]\<rparr>"
    by (simp_all add: demo_config remote_first_def)
  note conditions = stays [THEN conjunct2, unfolded catalog rules]
  have "\<forall>r\<in>set []. \<forall>m\<in>set (rule_fallbacks r). \<forall>d. sample_catalog m = Some d \<longrightarrow> md_local d"
    and "\<forall>r m d. Some \<lparr>dr_model = remote_ref, dr_fallbacks = [local_ref]\<rparr> = Some r \<longrightarrow> m \<in> set (dr_fallbacks r) \<longrightarrow>
      sample_catalog m = Some d \<longrightarrow> md_local d"
    by (auto simp: sample_catalog_def local_model_def)
  from mp [OF mp [OF mp [OF conditions sample_catalog_wf] this(1)] this(2)] stays [THEN conjunct1] t show ?thesis by blast
qed

section \<open>Mentioned files\<close>

text \<open>
  A file that the terminal finds mentioned in a prompt is always sent under its absolute path; a
  pattern that only matches relative paths, as the documented ones do, restricts none of them.
\<close>

lemma mentioned_files_absolute:
  assumes "is_absolute (te_cwd env)" "p \<in> set (mentioned_files env prompt)"
  shows "is_absolute p"
proof -
  have "set (dedup_files ps) \<subseteq> set ps" for ps by (induction ps rule: dedup_files.induct) auto
  then have "p \<in> (\<lambda>p. if is_absolute p then p else path_join (te_cwd env) p) `
      set (filter (\<lambda>p. p \<noteq> []) (List.map_filter (strip_prefix ''@'') (split_whitespace prompt)))"
    using assms(2) unfolding mentioned_files_def Let_def by fastforce
  then obtain q where "p = (if is_absolute q then q else path_join (te_cwd env) q)" by blast
  then show ?thesis using assms(1) by (auto simp: path_join_def is_absolute_def split: if_splits)
qed

lemma relative_patterns_miss_mentions:
  assumes "is_absolute (te_cwd env)" "p \<in> set (mentioned_files env prompt)"
    and "compile_globs x (restricted_paths privacy @ blocked_paths (remote privacy)) = Some m"
    and "\<And>q. m q \<Longrightarrow> \<not> is_absolute q"
  shows "\<not> is_restricted_for_remote x privacy p"
  using mentioned_files_absolute [OF assms(1,2)] assms(3,4) by (auto simp: is_restricted_for_remote_def)

end
