(* ===== verification/Spec2Isabelle.thy ===== *)
theory Spec2Isabelle
  imports Samples Findings Run_Liveness Preview_Guarantees Storage_Guarantees Client_Guarantees Query_Guarantees
    Request_Guarantees
begin

text \<open>
  smista.ai is a router between a client and language models. A client opens a session and
  sends requests; the router resolves each into a turn (what is asked, by which rule it is
  routed, what context fits, which model serves), calls the agent of a provider, and pauses
  whenever the client has to act: run tools, approve a plan, decrypt or seal content. The client
  is a terminal application: a prompt editor, a worker that drives the run, tools on the user's
  files. This development models that system end to end, in the Rust crates \<^verbatim>\<open>smista-core\<close>,
  \<^verbatim>\<open>smista-router\<close>, \<^verbatim>\<open>smista-storage\<close>, \<^verbatim>\<open>smista-providers\<close>, \<^verbatim>\<open>smista-router-client\<close> and
  \<^verbatim>\<open>smista-cli\<close> under \<^verbatim>\<open>src/crates\<close>.

  The theories, in the order they build on each other, and what they model:

  \<^item> \<open>Prelude\<close>, \<open>Rust_Text\<close>, \<open>Utf8_Text\<close>: results, comparisons, the stable sort, the interface
    \<open>precedence\<close> of a first-match rule engine; strings, paths, ordered maps, the interface
    \<open>text_codec\<close> between a \<^verbatim>\<open>Display\<close> and its \<^verbatim>\<open>FromStr\<close>; byte indices into a text.
  \<^item> \<open>Core_Model\<close>, \<open>Core_Capabilities\<close>, \<open>Core_Policy\<close>: the domain types of
    \<^verbatim>\<open>smista-core\<close> (\<^verbatim>\<open>intent.rs\<close>, \<^verbatim>\<open>effort.rs\<close>, \<^verbatim>\<open>model/\<close>, \<^verbatim>\<open>policy/\<close>), the capability check and
    the narrowing of tool permissions.
  \<^item> \<open>Normalizer\<close>, \<open>Policy_Matcher\<close>, \<open>Model_Selector\<close>, \<open>Context_Selector\<close>,
    \<open>Resolver\<close>: \<^verbatim>\<open>router/resolver.rs\<close> and the stages under \<^verbatim>\<open>router/resolver/\<close>, one theory
    each, composed as \<^verbatim>\<open>RequestResolver::resolve\<close> composes them.
  \<^item> \<open>Provider_Api\<close>, \<open>Api_Error\<close>, \<open>Invoke\<close>: requests, responses, tools, mediation,
    prompt and pricing (\<^verbatim>\<open>orchestrator/\<close>\<^verbatim>\<open>tools.rs\<close>, \<^verbatim>\<open>mediation.rs\<close>, \<^verbatim>\<open>prompt.rs\<close>, \<^verbatim>\<open>cost.rs\<close>), the
    errors a client sees, and the walk over the fallback chain (\<^verbatim>\<open>orchestrator/invoke.rs\<close>).
  \<^item> \<open>Content_Store\<close>, \<open>Registry\<close>, \<open>Run_Store\<close>: the rows of one session, sealed
    contents and references, the registry of live turns, and every storage operation a run
    makes (\<^verbatim>\<open>session.rs\<close>, \<^verbatim>\<open>database/surreal.rs\<close>, \<^verbatim>\<open>orchestrator/persist.rs\<close>,
    \<^verbatim>\<open>orchestrator/trace_emit.rs\<close>). The state is the record \<open>store\<close>; a computation
    \<open>'a io\<close> maps it to \<open>None\<close> (it does not return) or to an outcome, success or
    error, with the store it leaves.
  \<^item> \<open>Turn\<close>, \<open>Turn_Rounds\<close>: one turn (\<^verbatim>\<open>orchestrator/turn.rs\<close>, \<^verbatim>\<open>recall.rs\<close>) and when it ends.
  \<^item> \<open>Run_Machine\<close>: \<^verbatim>\<open>orchestrator.rs\<close>, that is \<open>execute\<close>, \<open>advance\<close>, one handler per
    continuation, the checkpoint each step pauses at, and settling. \<open>Preview\<close>: the dry run
    (\<^verbatim>\<open>orchestrator/preview.rs\<close>), its estimate and its permissions.
  \<^item> \<open>Run_Invariants\<close>, \<open>Run_Locking\<close>, \<open>Lifecycle\<close>: what holds of every run. Replies
    and checkpoints, sealing, the lock, clean rejection; the abstract protocol machine
    \<open>transition\<close> over phases and the simulation of \<open>advance\<close> by it; sequences of
    requests as \<open>session_run\<close>. \<open>Run_Liveness\<close>: when a superseding continuation returns.
  \<^item> \<open>Storage_Db\<close>, \<open>Tenancy\<close>, \<open>Authentication\<close>, \<open>Retention\<close>, \<open>Memory\<close>, \<open>Usage_Report\<close>: the
    whole database of an installation (every operation of the storage trait, as
    \<^verbatim>\<open>database/surreal.rs\<close> implements it), histories of operations of several users, sign-in and
    sign-out (\<^verbatim>\<open>auth.rs\<close>), the clean-up of aged rows (\<^verbatim>\<open>retention.rs\<close>), the memory tool over the
    database (\<^verbatim>\<open>memory_storage.rs\<close>, \<^verbatim>\<open>memory/\<close>), the usage report (\<^verbatim>\<open>usage.rs\<close>).
  \<^item> \<open>Redaction\<close>, \<open>Tool_Text\<close>, \<open>Rig_Messages\<close>, \<open>Rig_Streams\<close>, \<open>Agent\<close>, \<open>Agent_Safety\<close>: the
    provider crate. Its errors (\<^verbatim>\<open>error.rs\<close>), tool calls found in text and the filter of a stream
    (\<^verbatim>\<open>provider/tool_call.rs\<close>), the conversions to the provider library, the agent with its loop over
    memory calls, complete and streamed (\<^verbatim>\<open>agent.rs\<close>).
  \<^item> \<open>Cli_Tools\<close>, \<open>Cli_Approvals\<close>, \<open>Cli_Protocol\<close>, \<open>Cli_Client\<close>, \<open>Cli_Safety\<close>, \<open>Cli_Rounds\<close>: the
    client's tools and their workspace (\<^verbatim>\<open>tools.rs\<close>), approvals that stand for a session, and the
    worker (\<^verbatim>\<open>app/router_client/\<close>): commands, stream events, continuations, sealing. What runs
    was consented to; what a whole exchange does.
  \<^item> \<open>Prompt_Editor\<close>, \<open>Prompt_State\<close>, \<open>Tui_State\<close>, \<open>Tui_Input\<close>, \<open>Tui_Safety\<close>, \<open>App_Loop\<close>: the
    prompt (\<^verbatim>\<open>state/prompt/\<close>), the state of the terminal, every key and message
    (\<^verbatim>\<open>tui/input.rs\<close>, \<^verbatim>\<open>tui/state.rs\<close>), and terminal and worker joined, as a step relation over keys,
    messages, commands and events in any order.
  \<^item> \<open>Cli_Config\<close>, \<open>Config_Safety\<close>, \<open>Skills\<close>: the layers of the client's configuration, their
    merge, the loading of the files and the validator (\<^verbatim>\<open>config/\<close>); the discovery of skills, their
    front matter and its errors (\<^verbatim>\<open>skills/\<close>).
  \<^item> \<open>Credentials\<close>, \<open>Provider_Keys\<close>: the secrets of the client (\<^verbatim>\<open>credentials/\<close>): the file and the
    keyring, the choice between them, the keys of providers, router and encrypted sessions, the
    sealing of texts, the commands and the credentials the client starts with (\<^verbatim>\<open>client.rs\<close>).
  \<^item> \<open>Router_Config\<close>, \<open>Provider_Router\<close>: the router's configuration and its validator
    (\<^verbatim>\<open>smista-router/src/config/\<close>), the table of providers built from it and the concurrent listing
    of their models (\<^verbatim>\<open>router.rs\<close>, \<^verbatim>\<open>router/build.rs\<close>, \<^verbatim>\<open>router/fetch_models.rs\<close>).
  \<^item> \<open>Web_Layer\<close>, \<open>Web_Routes\<close>, \<open>Web_Safety\<close>: the HTTP surface (\<^verbatim>\<open>web.rs\<close>, \<^verbatim>\<open>web/\<close>): credential
    headers as the client writes and the router reads them, every route handler, the table of
    routes and the layers in the order the server stacks them; a handler as an operation on the
    whole database, isolated to the user of its token. \<open>Session_Handle\<close>: the handle of a session
    (\<^verbatim>\<open>session.rs\<close>) over that database; a call of the orchestrator is a program of its methods.
  \<^item> \<open>Router_Client\<close>, \<open>Router_Wire\<close>: the client of the HTTP surface (\<^verbatim>\<open>smista-router-client\<close>), that is
    its errors, every operation of the \<open>Client\<close> trait over its three backends, and the reader of
    event streams; and both ends joined, where the exchange of the client is a call of
    \<open>build_router\<close> over a connection that cuts the bytes of the answer as it likes.
  \<^item> \<open>Cli_Request\<close>, \<open>Cli_Queries\<close>, \<open>Query_Wire\<close>: the request that a prompt becomes (its mentions, files,
    instructions, skills, the headers of the changed files, the merged policy), the queries of the
    worker over that client (catalogs, sessions, usage, preview, the trace page by page), and the
    trace read over a running router (\<^verbatim>\<open>router_client/handler/\<close>).
  \<^item> \<open>Samples\<close>, \<open>Findings\<close>: concrete inputs for the witnesses, and behaviours that
    depart from the documentation. \<open>Preview_Guarantees\<close>, \<open>Storage_Guarantees\<close>,
    \<open>Client_Guarantees\<close>, \<open>Web_Guarantees\<close>, \<open>Wire_Guarantees\<close>, \<open>Query_Guarantees\<close>,
    \<open>Request_Guarantees\<close>: the properties of those parts; the properties of a run follow below.

  How theories are connected: \<open>precedence\<close> is interpreted by the routing and the
  classification rules, \<open>text_codec\<close> by every parser, \<open>turn_registry\<close> by the registry,
  \<open>user_memories\<close> and \<open>context_memories\<close> are the two memory stores as instances of one
  interface of keyed memories, and the hierarchy \<open>store_invariant\<close>, \<open>row_invariant\<close>,
  \<open>turn_invariant\<close> (what a property of the store needs to survive each storage operation, hence
  a whole turn) is interpreted by the sealing invariant, the absence of faults, the constancy of
  the session's configuration, the rows a recall reads and the count of rounds;
  \<open>secret_storage\<close> is the trait of the client's secret backends, interpreted by the file and by the
  keyring, and everything about keys is proved in it. The properties rest on those facts.

  Code outside the repository is a parameter. \<open>externs\<close> holds glob compilation and edit
  distance, with the laws \<open>glob_law\<close> and \<open>osa_law\<close> as named hypotheses where a
  property needs them; \<open>runtime\<close> holds uuid creation and parsing, the JSON codec, the
  catalogs, and what providers answer, by round and by attempt; \<open>st_faults\<close> says which
  storage operations fail; \<open>auth_runtime\<close> holds hashes and uuids (\<open>hash_law\<close>, \<open>uuid_law\<close>);
  \<open>agent_env\<close> the provider library and the transport (\<open>rig_law\<close>, \<open>json_law\<close>); \<open>client_env\<close> the
  HTTP client, the cipher and the shell; \<open>disk\<close> and \<open>tui_env\<close> the file system; \<open>config_host\<close>,
  \<open>skill_host\<close> and \<open>file_host\<close> the reading and parsing of files (\<open>toml_law\<close>); \<open>keyring\<close> the store of
  the platform (\<open>keyring_law\<close>); \<open>cipher_suite\<close> base64 and the cipher (\<open>cipher_law\<close>); \<open>web_env\<close> the
  rate limiter and, for \<open>execute\<close> and \<open>advance\<close>, which methods of the session handle are called with
  what and what is answered: every such program is proved to keep to its user, and what the actual
  ones compute over the rows of their session is \<open>Run_Machine\<close>; \<open>http_lib\<close> the libraries the client of the router sends with, \<open>wire_codec\<close> the JSON of bodies and events
  (\<open>body_law\<close>, \<open>event_law\<close>: what is written is read back, on one line), \<open>link\<close> the connection
  (\<open>link_law\<close>: no byte is lost or changed; \<open>query_law\<close>: plain query pairs are written as they are);
  \<open>request_host\<close> and \<open>query_host\<close> file reads, the git library and the texts of times and
  decimals. Properties hold for every choice of these, so for
  every provider answer, failure and fault, unless a hypothesis says otherwise.

  Bounds. The loop of a turn runs again only when every call of an answer was denied, and
  the code does not bound it. \<open>en_fuel\<close> bounds it in the model: \<open>None\<close> means it was
  used up. \<open>rounds_bound_irrelevant\<close> shows that the bound never changes a result, and
  \<open>turn_returns\<close> that a turn returns whenever some answer within the bound asks for no call or
  fails, so any bound above the number of denied-only rounds is enough; with models that ask for
  denied calls for ever the code does not return, and keeps the lock until it is superseded. The agent's loop over memory calls is bounded
  by the code itself, \<open>max_internal_tool_turns\<close>, eight. Reading the trace goes on while pages are full, which the
  code does not bound either: \<open>read_traces\<close> is a partial function, and \<open>trace_is_read_whole\<close> shows that
  it returns. Integers whose width matters are words
  (the registry's nonce, the counters of a usage report) or have their conversions written out
  (recency, token counts); the other counters cannot reach their width and are naturals.

  Not modelled: the rounding of decimals, failures of JSON encoding, real concurrency of two
  requests of one session beyond the registry's operations; the process of the router (listener,
  signals, the timer of the clean-up) and its OpenAPI document; the adapters to the vendors' HTTP
  APIs; drawing in the terminal and characters wider than a cell; one-shot commands and telemetry
  of the client; the timeouts of the HTTP backends and the SDK. They are I/O or presentation around
  the modelled parts.
\<close>

section \<open>Runs and their checkpoints\<close>

text \<open>
  C1. A successful reply of \<open>execute\<close> or \<open>advance\<close> and the checkpoint it leaves in storage
  agree: the run lock is free and the continuations the reply allows are exactly those that
  answer the stored phase.
\<close>

theorem reply_matches_checkpoint:
  assumes "execute rt request sink s = Some (Ok r, s') \<or> advance rt continuation sink s = Some (Ok r, s')"
  shows "\<exists>rs. st_run_state s' = Some rs \<and> rs_active rs = None \<and>
    tp_allowed_continuations r = allowed_for (rs_phase rs)"
  using assms checkpoints_execute [of rt request sink] checkpoints_advance [of continuation rt sink]
  unfolding checkpoints_def checkpoint_def by blast

lemma reply_matches_checkpoint_witness:
  "\<exists>r s' rs. execute (sample_runtime hello) sample_request False (fresh_store False) = Some (Ok r, s') \<and>
     st_run_state s' = Some rs \<and> rs_active rs = None \<and> tp_allowed_continuations r = allowed_for (rs_phase rs)"
  using outcome_Accepted [OF hello_runs] reply_matches_checkpoint by blast



text \<open>
  C3. On storage that does not fault no request leaks the run lock: after any sequence of
  requests, served or refused, a session that started idle holds no lock and has no live
  turn in the registry.
\<close>

theorem lock_always_released:
  assumes "session_run s t" "faultless s" "quiet s"
  shows "Option.bind (st_run_state t) rs_active = None \<and> fl_live (st_registry t) (st_session_id t) = None"
  using session_keeps [of s t "\<lambda>s. faultless s \<and> quiet s"] assms quiet_step
  by (auto simp: quiet_def unlocked_def)

lemma lock_always_released_witness:
  "\<exists>s t. advance (sample_runtime reads) (results_of []) False waiting_store =
       Some (Err UnexpectedContinuation, t) \<and> s = waiting_store \<and>
     Option.bind (st_run_state t) rs_active = None"
proof -
  obtain t where t: "advance (sample_runtime reads) (results_of []) False waiting_store =
      Some (Err UnexpectedContinuation, t)"
    using outcome_Refused [OF partial_refused] by blast
  have "session_run waiting_store t"
    by (intro session_run.There [OF session_run.Here] session_step.Advanced [OF t])
  then show ?thesis using t lock_always_released waiting_facts(1,2) by blast
qed

text \<open>
  C4. The run state machine refines the abstract protocol: on storage that does not fault a
  continuation of an idle session takes exactly one transition of the abstract machine,
  accepted into a phase its kind can lead to, refused with the phase unchanged, or failed
  into idle; break and inject are never refused.
\<close>

theorem advance_refines_protocol:
  assumes "faultless s" "st_open s" "unlocked s" "st_run_state s = Some state"
    "en_parse_uuid rt (rs_run_id state) = Some run_id" "st_run_input s = Some row"
    "advance rt continuation sink s = Some (r, s')"
  shows "\<exists>rs. st_run_state s' = Some rs \<and> rs_active rs = None \<and>
    transition (rs_phase state) (continue_kind_of continuation) (verdict_of r) (rs_phase rs)"
  using assms by (rule simulation)

lemma advance_refines_protocol_witness:
  "\<exists>r s' rs. advance (sample_runtime reads) (results_of [read_result]) False waiting_store = Some (Ok r, s') \<and>
     st_run_state s' = Some rs \<and>
     transition (AwaitingTool [read_wait] NextTurn []) ToolResultsKind Accepted (rs_phase rs)"
proof -
  obtain r s' where run: "advance (sample_runtime reads) (results_of [read_result]) False waiting_store =
      Some (Ok r, s')"
    using outcome_Accepted [OF resume_runs] by blast
  show ?thesis
    using advance_refines_protocol [OF waiting_facts(1,4,3,5) _ waiting_facts(6) run, of "''u0''"] run
    by (simp add: sample_runtime_def paused_at_def new_run_state_def del: transition_accepted) blast
qed

text \<open>
  C5. A continuation the checkpoint does not admit changes nothing: it is refused before the
  first row is written, and the run is left unlocked at the same phase and turn.
\<close>

theorem refused_changes_nothing:
  assumes "faultless s" "advance rt continuation sink s = Some (Err UnexpectedContinuation, s')"
  shows "\<exists>n g run_id state. st_run_state s = Some state \<and>
    s' = s\<lparr>st_clock := n, st_registry := g,
      st_run_state := Some \<lparr>rs_run_id = run_id, rs_turn = rs_turn state, rs_phase = rs_phase state,
        rs_active = None\<rparr>\<rparr>"
  by (rule advance_rejected [OF assms]) blast

lemma refused_changes_nothing_witness:
  "\<exists>s'. advance (sample_runtime reads) (results_of []) False waiting_store =
       Some (Err UnexpectedContinuation, s') \<and> st_tool_calls s' = st_tool_calls waiting_store"
proof -
  obtain s' where run: "advance (sample_runtime reads) (results_of []) False waiting_store =
      Some (Err UnexpectedContinuation, s')"
    using outcome_Refused [OF partial_refused] by blast
  show ?thesis using refused_changes_nothing [OF waiting_facts(1) run] by (elim exE conjE) (simp add: run)
qed

text \<open>
  C6. Tool results are accepted only when they answer the outstanding calls one to one: no
  call is left open, none is answered twice, and no result is for a call not waited for.
\<close>

theorem tool_results_one_to_one:
  assumes "faultless s"
    and "advance rt (continue_request.ToolResults results sealed) sink s = Some (Ok r, s')"
  shows "\<exists>state calls resume pending. st_run_state s = Some state \<and>
    rs_phase state = AwaitingTool calls resume pending \<and>
    distinct (map tl_call_id results) \<and> set (map tl_call_id results) = set (map tw_call_id calls)"
proof -
  obtain state calls resume pending where "st_run_state s = Some state"
    "rs_phase state = AwaitingTool calls resume pending" "answers_calls calls results"
    by (rule advance_results [OF assms])
  then show ?thesis using answers_distinct by (force simp: answers_calls_def)
qed

lemma tool_results_one_to_one_witness:
  "\<exists>state calls resume pending. st_run_state waiting_store = Some state \<and>
     rs_phase state = AwaitingTool calls resume pending \<and> {''c0''} = set (map tw_call_id calls)"
proof -
  obtain r s' where run: "advance (sample_runtime reads) (results_of [read_result]) False waiting_store =
      Some (Ok r, s')"
    using outcome_Accepted [OF resume_runs] by blast
  show ?thesis using tool_results_one_to_one [OF waiting_facts(1) run] by (simp add: read_result_def)
qed

text \<open>
  A continuation of a kind the checkpoint does not wait for is always refused (break and
  inject aside, which supersede).
\<close>

lemma wrong_kind_refused:
  assumes "faultless s" "st_open s" "unlocked s" "st_run_state s = Some state"
    "en_parse_uuid rt (rs_run_id state) = Some run_id" "st_run_input s = Some row"
    "continue_kind_of continuation \<notin> set (allowed_for (rs_phase state))"
    "\<not> supersedes_turn (continue_kind_of continuation)"
  shows "\<exists>s'. advance rt continuation sink s = Some (Err UnexpectedContinuation, s')"
  using assms by (rule advance_wrong_kind)

text \<open>
  At most one turn runs per session: while the lock is held, a new request is turned away
  as busy and touches no row of the session.
\<close>

theorem busy_turned_away:
  assumes "faultless s" "st_open s" "Option.bind (st_run_state s) rs_active \<noteq> None"
  shows "execute rt request sink s =
    Some (Err Busy, s\<lparr>st_clock := st_clock s + 2, st_minted := Suc (st_minted s)\<rparr>)"
  using assms by (intro execute_busy) (simp_all add: unlocked_def)

text \<open>
  C7. In any interleaving of turns a process starts and ends, two turns of one session that
  have neither ended nor been cancelled are the same turn: a new turn always cancels its
  predecessor, and a stale turn that ends late never removes its successor.
\<close>

theorem one_live_turn:
  assumes "registry_run h" "(session, t) \<in> set (hi_started h)" "(session, u) \<in> set (hi_started h)"
    and "t \<notin> set (hi_ended h)" "\<not> is_cancelled (hi_registry h) t"
    and "u \<notin> set (hi_ended h)" "\<not> is_cancelled (hi_registry h) u"
  shows "t = u"
proof -
  have "fl_live (hi_registry h) session = Some q"
    if "(session, q) \<in> set (hi_started h)" "q \<notin> set (hi_ended h)" "\<not> is_cancelled (hi_registry h) q" for q
    using registry_run_good [OF assms(1)] that by (auto simp: history_good_def)
  then show ?thesis using assms(2-) by (metis option.inject)
qed

definition two_turns :: history where
  "two_turns =
     (let (t, r) = begin_turn ''s'' empty_registry; (u, q) = begin_turn ''s'' r
      in \<lparr>hi_registry = q, hi_started = [(''s'', u), (''s'', t)], hi_ended = []\<rparr>)"

lemma two_turns_run: "registry_run two_turns"
proof -
  obtain t r where t: "begin_turn ''s'' empty_registry = (t, r)" by fastforce
  obtain u q where u: "begin_turn ''s'' r = (u, q)" by fastforce
  have room: "registry_room empty_registry" "registry_room r"
    using t by (auto simp: registry_room_def empty_registry_def begin_turn_def Let_def)
  have "registry_run \<lparr>hi_registry = r, hi_started = [(''s'', t)], hi_ended = []\<rparr>"
    using registry_run.Step [OF registry_run.Start registry_step.Begin [of _ "''s''" t r]] t room(1) by simp
  then have "registry_run \<lparr>hi_registry = q, hi_started = [(''s'', u), (''s'', t)], hi_ended = []\<rparr>"
    using registry_run.Step [OF _ registry_step.Begin [of _ "''s''" u q]] u room(2) by fastforce
  then show ?thesis by (simp add: two_turns_def t u)
qed

lemma one_live_turn_witness:
  "is_cancelled (hi_registry two_turns) (snd (last (hi_started two_turns)))"
proof (rule ccontr)
  assume live: "\<not> ?thesis"
  have new: "\<not> is_cancelled (hi_registry two_turns) (snd (hd (hi_started two_turns)))" by code_simp
  have started: "(''s'', snd (last (hi_started two_turns))) \<in> set (hi_started two_turns)"
    "(''s'', snd (hd (hi_started two_turns))) \<in> set (hi_started two_turns)"
    "hi_ended two_turns = []"
    by (simp_all add: two_turns_def begin_turn_def empty_registry_def Let_def)
  have "snd (last (hi_started two_turns)) = snd (hd (hi_started two_turns))"
    by (rule one_live_turn [OF two_turns_run started(1,2) _ live _ new]) (simp_all add: started(3))
  then show False by (simp add: two_turns_def begin_turn_def empty_registry_def Let_def)
qed

text \<open>
  C8. A turn ends: if at some round within the bound the models' answer asks for no call,
  or fails, the turn returns a step; only answers that ask for calls make it go round.
\<close>

theorem turn_returns:
  assumes "k < en_fuel rt"
    and "\<forall>t request. \<not> asks_for_calls (answer_at rt cx (st_rounds s + k) t request)"
  shows "\<exists>step s'. run_turn rt cx resume followups s = Some (Ok step, s')"
proof -
  have "run_turn rt cx resume followups s \<noteq> None"
    using run_turn_none [OF _ assms(1)] assms(2) by blast
  then show ?thesis
    by (auto simp: run_turn_def bind_io_def attempt_io_def ret_def split: option.splits sum.splits)
qed

lemma turn_returns_witness:
  "\<exists>step s'. run_turn (sample_runtime hello)
     \<lparr>cx_meta = fst (split_execute_request sample_request), cx_bundle = Loaded sample_bundle,
      cx_seal_run_input = True, cx_plan_active = False, cx_encrypted = False, cx_decrypted = [],
      cx_sink = False\<rparr> BuildPrompt [] (fresh_store False) = Some (Ok step, s')"
  by (rule turn_returns [of 0])
    (simp_all add: sample_runtime_def answer_at_def invoke_def invoke_complete_def candidate_chain_def
      sample_providers_def resolve_model_def hello_def answer_def asks_for_calls_def Let_def)

text \<open>
  The bound on rounds is no part of the behaviour: once a turn's loop returns, a larger
  bound gives the same step and the same store.
\<close>

lemma rounds_bound_irrelevant:
  assumes "turn_rounds rt cx fuel input sid recorded d followups s = Some x"
  shows "turn_rounds rt cx (fuel + k) input sid recorded d followups s = Some x"
  using assms by (rule turn_rounds_more)

section \<open>Resolving a turn\<close>

text \<open>
  Restricted content stays local: a turn that must stay local, because the client asked
  for it, because a required or focused attachment is restricted for remote models, or
  because the matched rule is local only, is served by a local model or not at all.
\<close>

lemma restricted_turn_is_local:
  assumes "resolve x args = Ok t" "route_of x args = Ok route"
    and "ra_local_only args \<or> (\<exists>rule. matched_rule route = Some rule \<and> rule_local_only rule) \<or>
      (\<exists>f\<in>set (at_files (ra_attachments args)). is_restricted_for_remote x (ra_privacy args) (cf_path f) \<and>
         (cf_required f \<or> path_in_focus x route (ra_workspace args) (cf_path f)))"
  shows "md_local (rt_model t)"
  using assms
  by (intro resolve_local) (auto simp: must_stay_local_def candidates_of_def build_has_restricted)

text \<open>
  What a model must bring to serve a turn: the credential of its provider if it needs one,
  locality if the user, the rule or a restricted file that the turn requires asks for it, every
  capability the turn or the rule asks for, and a window for everything that is required.
\<close>

definition can_serve :: "externs \<Rightarrow> resolve_args \<Rightarrow> route_match \<Rightarrow> model_descriptor \<Rightarrow> bool" where
  "can_serve x args route d \<longleftrightarrow>
     (md_auth d = ApiKey \<longrightarrow> md_provider d \<in> set (ra_credentialed args)) \<and>
     (ra_local_only args \<or> (\<exists>rule. matched_rule route = Some rule \<and> rule_local_only rule) \<or>
        (\<exists>c\<in>set (candidates_of x args route). cand_restricted c \<and> cand_required c) \<longrightarrow> md_local d) \<and>
     (\<forall>k. k \<in> set (required (ra_requirements args)) \<or>
        (\<exists>rule gate. matched_rule route = Some rule \<and> rule_requires_capabilities rule = Some gate \<and> supports gate k) \<longrightarrow>
        supports (md_capabilities d) k) \<and>
     (\<Sum>c\<leftarrow>filter cand_required (candidates_of x args route). cand_tokens c) \<le> md_max_context_tokens d"

lemma usable_can_serve:
  assumes "catalog_wf (ra_catalog args)"
  shows "usable r (ra_catalog args) (ra_credentialed args)
      (effective_requirements (requirements_of x args route) (matched_rule route))
      (locality_required route (must_stay_local x args route)) = Some d \<longleftrightarrow>
    ra_catalog args r = Some d \<and> can_serve x args route d"
proof -
  have provider: "ra_catalog args r = Some d \<Longrightarrow> mr_provider r = md_provider d"
    using assms model_reference.select_convs(1) unfolding catalog_wf_def descriptor_reference_def by metis
  have caps: "required (requirements_of x args route) = required (ra_requirements args)"
    by (simp add: requirements_of_def required_def)
  have tokens: "req_estimated_tokens (requirements_of x args route) =
      Some (\<Sum>c\<leftarrow>filter cand_required (candidates_of x args route). cand_tokens c)"
    by (simp add: requirements_of_def required_tokens_def)
  have locality: "locality_required route (must_stay_local x args route) \<longleftrightarrow>
      ra_local_only args \<or> (\<exists>rule. matched_rule route = Some rule \<and> rule_local_only rule) \<or>
      (\<exists>c\<in>set (candidates_of x args route). cand_restricted c \<and> cand_required c)"
    by (auto simp: locality_required_def must_stay_local_def has_restricted_required_content_def list_ex_iff)
  show ?thesis
    using provider
    unfolding usable_Some can_serve_def can_handle_Ok requires_api_key_def auth_requires_api_key_def estimated_effective
      Ball_def required_effective caps tokens locality
    by (cases "ra_catalog args r = Some d") simp_all
qed

text \<open>
  C10. The model a turn is resolved to is the first of the route's chain (its model, then its fallbacks
  in order) that the catalog knows and that can serve: the credential of its provider is there if it
  needs one, it is local when it must be, it has every capability the turn or the rule asks for, and
  its window holds the required context. The routing decision tells whether it is a fallback. (A
  fallback that steps in when this model fails at run time is not chosen by these conditions.)
\<close>

theorem first_usable_model_serves:
  assumes "resolve x args = Ok t" "catalog_wf (ra_catalog args)"
  shows "\<exists>route i. route_of x args = Ok route \<and> i < length (route_chain route) \<and>
    route_chain route ! i = \<lparr>mr_provider = md_provider (rt_model t), mr_model = md_model (rt_model t)\<rparr> \<and>
    ra_catalog args (route_chain route ! i) = Some (rt_model t) \<and> can_serve x args route (rt_model t) \<and>
    (\<forall>j<i. \<forall>d. ra_catalog args (route_chain route ! j) = Some d \<longrightarrow> \<not> can_serve x args route d) \<and>
    (rd_fallback_used (rt_routing t) \<longleftrightarrow> 0 < i)"
  using assms(1)
proof (rule resolve_Ok)
  fix route s
  assume route: "route_of x args = Ok route" and s: "selection_of x args route = Ok s"
    and t: "rt_model t = sel_model s" "rd_fallback_used (rt_routing t) = sel_fallback_used s"
  note usable = usable_can_serve [OF assms(2), of _ x route]
  show ?thesis
    using s [unfolded selection_of_def]
  proof (rule select_Ok)
    fix i
    assume i: "i < length (route_chain route)" "sel_fallback_used s \<longleftrightarrow> 0 < i"
      "usable (route_chain route ! i) (ra_catalog args) (ra_credentialed args)
        (effective_requirements (requirements_of x args route) (matched_rule route))
        (locality_required route (must_stay_local x args route)) = Some (sel_model s)"
      "\<forall>j<i. usable (route_chain route ! j) (ra_catalog args) (ra_credentialed args)
        (effective_requirements (requirements_of x args route) (matched_rule route))
        (locality_required route (must_stay_local x args route)) = None"
    then have "ra_catalog args (route_chain route ! i) = Some (rt_model t)" "can_serve x args route (rt_model t)"
      using usable t by simp_all
    moreover from this have "route_chain route ! i = \<lparr>mr_provider = md_provider (rt_model t), mr_model = md_model (rt_model t)\<rparr>"
      using assms(2) by (auto simp: catalog_wf_def descriptor_reference_def)
    moreover have "\<not> can_serve x args route d" if "j < i" "ra_catalog args (route_chain route ! j) = Some d" for j d
      using i(4) that usable [of "route_chain route ! j" d] by auto
    ultimately show ?thesis using route t i(1,2) by auto
  qed
qed

lemma first_usable_model_serves_witness:
  "\<exists>t route i. resolve sample_externs edit_args = Ok t \<and> i < length (route_chain route) \<and>
     ra_catalog edit_args (route_chain route ! i) = Some (rt_model t) \<and> can_serve sample_externs edit_args route (rt_model t)"
proof -
  obtain t where t: "resolve sample_externs edit_args = Ok t"
    using chosen_Ok [OF edit_resolves] by blast
  have "catalog_wf (ra_catalog edit_args)" using sample_catalog_wf by (simp add: sample_args_def)
  with t show ?thesis using first_usable_model_serves [OF t] by blast
qed

text \<open>
  The fallbacks handed to the invocation are exactly the rest of the route's chain after
  the chosen model.
\<close>

lemma fallbacks_are_rest_of_chain:
  assumes "resolve x args = Ok t" "catalog_wf (ra_catalog args)"
  shows "\<exists>route i. route_of x args = Ok route \<and> i < length (route_chain route) \<and>
    route_chain route ! i = descriptor_reference (rt_model t) \<and>
    rt_fallbacks t = drop (Suc i) (route_chain route)"
  using assms(1)
proof (rule resolve_Ok)
  fix route s
  assume route: "route_of x args = Ok route" and s: "selection_of x args route = Ok s"
    and t: "rt_model t = sel_model s"
      "rt_fallbacks t = remaining_fallbacks route (descriptor_reference (sel_model s))"
  show ?thesis
    by (rule remaining_after_selection [OF s [unfolded selection_of_def] assms(2)])
      (use route t in auto)
qed

text \<open>
  When no model can serve a turn the reason is exact: every model of the chain is
  unusable, and the error says that a local one was required if it was.
\<close>

lemma no_usable_model_reported:
  assumes "resolve x args = Err (ModelFailed e)" "route_of x args = Ok route" "\<not> override_used route"
  shows "(\<forall>r\<in>set (route_chain route). usable r (ra_catalog args) (ra_credentialed args)
      (effective_requirements (requirements_of x args route) (matched_rule route))
      (locality_required route (must_stay_local x args route)) = None) \<and>
    e = (if locality_required route (must_stay_local x args route) then NoLocalModel else FallbackExhausted)"
proof -
  have "select route (requirements_of x args route) (ra_catalog args) (ra_credentialed args)
      (must_stay_local x args route) = Err e"
    using assms(1,2) unfolding resolve_Err selection_of_def by auto
  from select_Err [OF this] assms(3) show ?thesis by blast
qed

text \<open>How much of its request a rule pins down: paths weigh more than an intent.\<close>

definition conditions :: "routing_rule \<Rightarrow> nat" where
  "conditions r = (if rule_paths r \<noteq> [] then 2 else 0) + (if rule_intent r \<noteq> None then 1 else 0)"

lemma more_conditions: "specificity_of a < specificity_of b \<longleftrightarrow> conditions a < conditions b"
  by (simp add: specificity_of_def conditions_def less_specificity_def split: bool.split)

text \<open>
  C11. Without an override, a route taken from a rule is taken from the one that matches the task and
  ranks first: of two matching rules the one with the lower priority number wins, between equal
  priorities the one with more conditions (paths and an intent, then paths, then an intent, then
  none), and between equal ones the one listed first.
\<close>

theorem route_is_best_rule:
  assumes "match_policy x task policy None = Ok route" "rm_source route = RuleSource i rule"
  shows "i < length (rp_rules policy) \<and> rule = rp_rules policy ! i \<and> task_matches x task rule \<and>
    (\<forall>j<length (rp_rules policy). j \<noteq> i \<longrightarrow> task_matches x task (rp_rules policy ! j) \<longrightarrow>
      rule_priority rule < rule_priority (rp_rules policy ! j) \<or>
      rule_priority rule = rule_priority (rp_rules policy ! j) \<and>
        (conditions (rp_rules policy ! j) < conditions rule \<or>
         conditions (rp_rules policy ! j) = conditions rule \<and> i < j))"
proof -
  note best = match_policy_rule [OF assms]
  have "rule_priority rule < rule_priority r \<or> rule_priority rule = rule_priority r \<and>
        (conditions r < conditions rule \<or> conditions r = conditions rule \<and> i < j)"
    if "precedence_cmp rule r = Less \<or> precedence_cmp rule r = Equal \<and> i < j" for r j
    using that more_conditions [of r rule] more_conditions [of rule r]
    by (auto simp: precedence_cmp_def)
  with best show ?thesis by (simp add: best_def)
qed

lemma route_is_best_rule_witness:
  "\<exists>route. match_policy sample_externs
       \<lparr>nt_classification = \<lparr>cl_intent = Edit, cl_source = Explicit, cl_reason = [], cl_matched_rule = None,
          cl_confidence = None\<rparr>, nt_touched_files = []\<rparr> sample_routing None = Ok route \<and>
     task_matches sample_externs \<lparr>nt_classification = \<lparr>cl_intent = Edit, cl_source = Explicit, cl_reason = [],
          cl_matched_rule = None, cl_confidence = None\<rparr>, nt_touched_files = []\<rparr> edit_rule"
proof -
  let ?task = "\<lparr>nt_classification = \<lparr>cl_intent = Edit, cl_source = Explicit, cl_reason = [],
      cl_matched_rule = None, cl_confidence = None\<rparr>, nt_touched_files = []\<rparr>"
  obtain route where route: "match_policy sample_externs ?task sample_routing None = Ok route"
    "rm_source route = RuleSource 0 edit_rule"
    by (simp add: sample_routing_def match_policy_def first_matching_rule_def task_matches_def nt_intent_def
        edit_rule_def)
  from route_is_best_rule [OF route] route(1) show ?thesis by blast
qed

text \<open>
  Without an override, the default route is taken only when no rule matches the task,
  and a task without a route is one that no rule matches under a policy with no default.
\<close>

lemma default_route_only_if_unmatched:
  "((\<exists>route d. match_policy x task policy None = Ok route \<and> rm_source route = DefaultSource d) \<longleftrightarrow>
     (\<forall>r\<in>set (rp_rules policy). \<not> task_matches x task r) \<and> rp_default policy \<noteq> None) \<and>
   (match_policy x task policy None = Err NoRoute \<longleftrightarrow>
     (\<forall>r\<in>set (rp_rules policy). \<not> task_matches x task r) \<and> rp_default policy = None)"
  unfolding first_matching_rule_None [symmetric]
  by (auto simp: match_policy_def Let_def split: option.splits)

text \<open>
  Without an explicit command the intent is that of the classification rule that applies
  (each condition it states holds) and comes first, by priority and then position; the
  default intent is used only when no rule applies.
\<close>

theorem intent_from_first_applicable_rule:
  assumes "ti_command input = None"
  shows "case cl_matched_rule (nt_classification (normalize x input w config)) of
      None \<Rightarrow> (\<forall>r\<in>set (cc_rules config). \<not> rule_applies x (tokenize (ti_text input)) (context_kinds w) r) \<and>
        cl_intent (nt_classification (normalize x input w config)) = cc_default_intent config
    | Some i \<Rightarrow> i < length (cc_rules config) \<and>
        rule_applies x (tokenize (ti_text input)) (context_kinds w) (cc_rules config ! i) \<and>
        cl_intent (nt_classification (normalize x input w config)) = cr_intent (cc_rules config ! i) \<and>
        (\<forall>j<length (cc_rules config). j \<noteq> i \<longrightarrow>
           rule_applies x (tokenize (ti_text input)) (context_kinds w) (cc_rules config ! j) \<longrightarrow>
           cr_priority (cc_rules config ! i) < cr_priority (cc_rules config ! j) \<or>
           cr_priority (cc_rules config ! i) = cr_priority (cc_rules config ! j) \<and> i < j)"
proof (cases "try_rules x config (tokenize (ti_text input)) (context_kinds w) (rules_by_priority config)")
  case None
  then have "cl_matched_rule (nt_classification (normalize x input w config)) = None"
    "cl_intent (nt_classification (normalize x input w config)) = cc_default_intent config"
    using assms by (simp_all add: normalize_def classify_def Let_def)
  then show ?thesis using None by (simp add: try_rules_None)
next
  case (Some c)
  from try_rules_Some [OF Some] obtain i where
    best: "best classification_cmp (rule_applies x (tokenize (ti_text input)) (context_kinds w)) (cc_rules config) i"
    and c: "match_rule x (cc_rules config ! i) i (tokenize (ti_text input)) (context_kinds w) = Some c"
    by blast
  have "nt_classification (normalize x input w config) = c"
    using Some assms by (simp add: normalize_def classify_def Let_def)
  then show ?thesis
    using best match_rule_fields [OF c]
    by (auto simp: best_def classification_cmp_def cmp_def split: if_splits)
qed

section \<open>Context\<close>

text \<open>
  C12. The context of a turn fits the chosen model's window minus the reply reserve, keeps
  every required candidate, in order, and invents nothing.
\<close>

theorem context_fits_and_keeps_required:
  assumes "finalize cs model = Ok rc"
  shows "total_tokens (res_included rc) \<le> effective_budget model \<and>
    filter cand_required (res_included rc) = filter cand_required cs \<and>
    set (res_included rc) \<subseteq> set cs"
  using finalize_budget [OF assms] finalize_required [OF assms] finalize_set [OF assms] by blast

definition sample_candidates :: "candidate list" where
  "sample_candidates = map (\<lambda>(kind, required, score, tokens).
     \<lparr>cand_kind = kind, cand_path = None, cand_content = show_nat score, cand_tokens = tokens,
      cand_restricted = False, cand_required = required,
      cand_relevance = \<lparr>rel_score = score, rel_reason = show_nat score\<rparr>\<rparr>)
     [(MessageKind, False, 1, 50), (InstructionKind, True, 4, 30), (DiffKind, False, 3, 60)]"

definition small_model :: model_descriptor where
  "small_model = local_model\<lparr>md_max_context_tokens := 120, md_max_output_tokens := Some 20\<rparr>"

lemma sample_finalized:
  "\<exists>rc. finalize sample_candidates small_model = Ok rc \<and> map cand_tokens (res_included rc) = [30, 60]"
  by (simp add: finalize_def sample_candidates_def small_model_def local_model_def effective_budget_def
      required_tokens_def by_score_def)

lemma context_fits_and_keeps_required_witness:
  "\<exists>rc. finalize sample_candidates small_model = Ok rc \<and> total_tokens (res_included rc) \<le> 100"
proof -
  obtain rc where rc: "finalize sample_candidates small_model = Ok rc" using sample_finalized by blast
  have "effective_budget small_model = 100" by (simp add: effective_budget_def small_model_def)
  then show ?thesis using context_fits_and_keeps_required [OF rc] rc by auto
qed

text \<open>
  Fitting the context fails exactly when the required candidates alone exceed the budget,
  and the error carries both numbers.
\<close>

lemma window_exceeded_iff_required_too_large:
  "finalize cs model = Err e \<longleftrightarrow>
     effective_budget model < required_tokens cs \<and>
     e = WindowExceeded (required_tokens cs) (effective_budget model)"
  by (rule finalize_Err_iff)

text \<open>
  Trimming is maximal and greedy: the reported references partition the candidates, and
  a candidate is left out only if it is not required and does not fit, neither beside all
  that was kept nor beside the required and the at least as relevant ones alone.
\<close>

lemma trimming_is_maximal:
  assumes "finalize cs model = Ok rc"
  shows "\<exists>excluded. mset (res_included rc) + mset excluded = mset cs \<and>
    res_references rc = map (\<lambda>c. reference_for c True) (res_included rc) @
      map (\<lambda>c. reference_for c False) excluded \<and>
    (\<forall>c\<in>set excluded. \<not> cand_required c \<and>
       effective_budget model < total_tokens (res_included rc) + cand_tokens c \<and>
       effective_budget model < required_tokens cs + cand_tokens c +
         total_tokens (filter (\<lambda>d. \<not> cand_required d \<and>
           rel_score (cand_relevance c) \<le> rel_score (cand_relevance d)) (res_included rc)))"
  using assms by (rule finalize_references)

text \<open>
  De-duplication keeps one candidate per key (its path, else its content): every
  candidate is represented by one of the same key that is required if it was, and among
  equally required ones scores at least as high.
\<close>

lemma dedupe_keeps_the_best:
  "distinct (map dedupe_key (dedupe cs)) \<and> set (dedupe cs) \<subseteq> set cs \<and>
   (\<forall>e\<in>set cs. \<exists>d\<in>set (dedupe cs). dedupe_key d = dedupe_key e \<and> outranks d e)"
  using distinct_dedupe set_dedupe dedupe_represents by blast

text \<open>
  A newer message never earns a smaller recency bonus than an older one, and no bonus
  exceeds its cap, for any history a machine can hold.
\<close>

lemma recency_monotone_and_capped:
  assumes "i \<le> j" "j < messages" "messages < 2 ^ 64"
  shows "recency_bonus i messages \<le> recency_bonus j messages \<and>
    recency_bonus j messages \<le> max_recency_bonus"
  using recency_mono [OF assms] recency_le [OF assms(2,3)] by simp

section \<open>Capabilities and permissions\<close>

text \<open>
  A model can handle a request exactly when it has every required capability and the
  estimated tokens, when known, fit its window.
\<close>

lemma can_handle_iff:
  "can_handle d r = Ok () \<longleftrightarrow>
     (\<forall>k\<in>set (required r). supports (md_capabilities d) k) \<and>
     (\<forall>n. req_estimated_tokens r = Some n \<longrightarrow> n \<le> md_max_context_tokens d)"
  by (rule can_handle_Ok)

text \<open>
  Narrowing tool permissions never loosens one: where it succeeds, every tool has the
  requested mode, which is at least as strict as its base mode, and the other tools keep
  their base.
\<close>

theorem narrow_never_loosens:
  assumes "narrow base requested = Ok r" "bt_wf base" "bt_wf requested"
  shows "mode_for r tool =
      (case mode_for requested tool of Some m \<Rightarrow> Some m | None \<Rightarrow> mode_for base tool) \<and>
    (\<forall>m. mode_for base tool = Some m \<longrightarrow> (\<exists>n. mode_for r tool = Some n \<and> m \<le> n))"
proof -
  have d: "distinct (map fst requested)" using assms(3) by (rule bt_wf_distinct)
  show ?thesis
    using narrow_get [OF assms(1,2) d, of tool] narrow_tightens [OF assms(1,2) d, of tool]
    by (auto simp: mode_for_def split: option.splits)
qed

text \<open>
  Narrowing is refused exactly when some tool is asked a looser mode than its base.
\<close>

lemma narrow_refused_iff_loosening:
  assumes "bt_wf base" "bt_wf requested"
  shows "(\<exists>e. narrow base requested = Err e) \<longleftrightarrow>
    (\<exists>tool m n. mode_for base tool = Some m \<and> mode_for requested tool = Some n \<and> n < m)"
  using narrow_Err [OF assms(1) bt_wf_distinct [OF assms(2)]] by (simp add: mode_for_def)

text \<open>
  A keyword matches by typo only within bounds: the keyword has at least five
  characters, no token equals it, and some token is at most two edits away.
\<close>

lemma typo_matches_are_bounded:
  assumes "token_match x keyword tokens = Some Fuzzy"
  shows "5 \<le> length keyword \<and> to_lowercase keyword \<notin> set tokens \<and>
    (\<exists>token\<in>set tokens. 0 < osa_distance x (to_lowercase keyword) token \<and>
       osa_distance x (to_lowercase keyword) token \<le> 2)"
proof -
  let ?n = "to_lowercase keyword" and ?cap = "fuzzy_cap (length (to_lowercase keyword))"
  have long: "?n \<notin> set tokens" "?cap \<noteq> 0" "\<exists>t\<in>set tokens. is_typo x ?n t ?cap"
    using assms by (auto simp: token_match_def Let_def list_ex_iff split: if_splits)
  moreover have "length ?n = length keyword" by (simp add: to_lowercase_def)
  moreover have "?cap \<le> 2" using fuzzy_cap_le [of "length ?n"] by (simp add: max_fuzzy_distance_def)
  ultimately show ?thesis
    by (fastforce simp: is_typo_def fuzzy_cap_def Let_def split: if_splits)
qed

text \<open>
  Privacy fails closed: a path is restricted for remote models when a configured glob
  matches it, and every path is while one configured glob is malformed.
\<close>

theorem restriction_fails_closed:
  assumes "glob_law x" "g \<in> set (restricted_paths p @ blocked_paths (remote p))"
    and "\<not> glob_ok x g \<or> (\<exists>m. glob_build x [g] = Some m \<and> m path)"
  shows "is_restricted_for_remote x p path"
proof (cases "compile_globs x (restricted_paths p @ blocked_paths (remote p))")
  case None
  then show ?thesis by (simp add: is_restricted_for_remote_def)
next
  case (Some m)
  then have "glob_build x (restricted_paths p @ blocked_paths (remote p)) = Some m"
    "list_all (glob_ok x) (restricted_paths p @ blocked_paths (remote p))"
    by (auto simp: compile_globs_def split: if_splits)
  then have "m path" using assms unfolding glob_law_def list_all_iff by blast
  then show ?thesis using Some by (simp add: is_restricted_for_remote_def)
qed

section \<open>Names\<close>

text \<open>
  Parsing a provider's printed name gives it back, for every provider whose instance
  name is valid, and parsing produces no other provider.
\<close>

lemma provider_name_round_trip:
  assumes "provider_wf p"
  shows "provider_from_str (show_provider p) = Ok p \<and> (\<exists>s. provider_from_str s = Ok p)"
  using provider.parse_show [OF assms] by blast

text \<open>
  A model reference survives printing and parsing, model names with slashes and colons
  included, and what parses is well formed.
\<close>

lemma model_reference_round_trip:
  assumes "provider_wf (mr_provider r)" "mr_model r \<noteq> []"
  shows "reference_from_str (show_reference r) = Ok r"
  using assms by (intro reference.parse_show) (simp add: reference_wf_def)

text \<open>
  Content references are a faithful name of stored content: printing is injective on
  references with an id, parsing inverts it, and the table and key of a reference give it
  back.
\<close>

lemma content_reference_round_trip:
  assumes "ref_id r \<noteq> []"
  shows "ref_from_str (show_ref r) = Ok r \<and> (ref_id q \<noteq> [] \<longrightarrow> show_ref q = show_ref r \<longrightarrow> q = r) \<and>
    record_id_to_content_ref (content_ref_table r) (ref_id r) = Some r"
  using content_reference.parse_show [OF assms] content_reference.show_inj [of q r] assms table_ref
  by auto

section \<open>Tools\<close>

text \<open>
  C13. Mediation partitions the model's calls in order: the client gets exactly those whose
  tool was offered, whose mode is not deny and which change no file in plan mode; the rest
  is refused. A call goes through without approval only if its tool's mode is allow.
\<close>

theorem mediation_partitions_calls:
  "client_calls (mediate calls offered policy plan) =
     map (\<lambda>c. \<lparr>cl_call = c, cl_requires_approval =
        (if tool_mode policy (tc_name c) = Allow then AllowCall else AskCall)\<rparr>)
      (filter (\<lambda>c. tc_name c \<in> set offered \<and> (plan \<longrightarrow> tc_name c \<noteq> write_file_tool \<and> tc_name c \<noteq> edit_file_tool) \<and>
         tool_mode policy (tc_name c) \<noteq> Deny) calls) \<and>
   map fst (denied_calls (mediate calls offered policy plan)) =
     filter (\<lambda>c. \<not> (tc_name c \<in> set offered \<and>
         (plan \<longrightarrow> tc_name c \<noteq> write_file_tool \<and> tc_name c \<noteq> edit_file_tool) \<and>
         tool_mode policy (tc_name c) \<noteq> Deny)) calls"
proof -
  have "runnable offered policy plan = (\<lambda>c. tc_name c \<in> set offered \<and>
      (plan \<longrightarrow> tc_name c \<noteq> write_file_tool \<and> tc_name c \<noteq> edit_file_tool) \<and>
      tool_mode policy (tc_name c) \<noteq> Deny)"
    by (auto simp: runnable_def tool_changes_files_iff fun_eq_iff)
  then show ?thesis by (simp add: mediate_client mediate_denied)
qed

lemma mediation_partitions_calls_witness:
  "map fst (denied_calls (mediate [read_call, read_call\<lparr>tc_name := write_file_tool\<rparr>]
     [read_file_tool, write_file_tool] [] True)) = [read_call\<lparr>tc_name := write_file_tool\<rparr>]"
proof -
  have "tool_mode [] read_file_tool \<noteq> Deny" by code_simp
  then show ?thesis
    by (subst mediation_partitions_calls [THEN conjunct2])
      (simp add: read_call_def read_file_tool_def write_file_tool_def edit_file_tool_def)
qed

text \<open>
  C14. Break and inject seize a run even while a turn holds its lock, and still leave the session
  unlocked with no live turn, whatever their outcome. A break always returns. An injection returns
  if at some round within the bound no answer of the models asks for calls, as for any turn; one
  whose models only ever ask for denied calls goes on, and holds the lock, until it is superseded.
\<close>

theorem superseding_request_frees_lock:
  assumes "faultless s" "st_open s" "st_run_state s = Some state"
    "en_parse_uuid rt (rs_run_id state) = Some run_id" "st_run_input s = Some row"
    "supersedes_turn (continue_kind_of continuation)"
    "continuation = Break \<or>
      (\<exists>k<en_fuel rt. \<forall>cx t request. cx_sink cx = sink \<longrightarrow> \<not> asks_for_calls (answer_at rt cx (st_rounds s + k) t request))"
  shows "\<exists>r s'. advance rt continuation sink s = Some (r, s') \<and>
    Option.bind (st_run_state s') rs_active = None \<and> fl_live (st_registry s') (st_session_id s') = None"
proof -
  have "\<exists>k. continuation = Break \<or> (k < en_fuel rt \<and> settles_at rt sink (st_rounds s + k))"
    using assms(7) by (auto simp: settles_at_def)
  then obtain r s' where run: "advance rt continuation sink s = Some (r, s')"
    using superseding_returns [OF assms(1-6)] by blast
  then show ?thesis using supersede_quiet [OF assms(1-6) run] by (auto simp: quiet_def unlocked_def)
qed

definition held_store :: store where
  "held_store = waiting_store\<lparr>st_run_state := Some ((paused_at Idle)\<lparr>rs_active := Some \<lparr>at_lease = ''u0''\<rparr>\<rparr>)\<rparr>"

lemma superseding_request_frees_lock_witness:
  "(\<exists>r s'. advance (sample_runtime reads) Break False held_store = Some (r, s') \<and>
     Option.bind (st_run_state s') rs_active = None) \<and>
   (\<exists>r s'. advance (sample_runtime hello) (Inject []) False held_store = Some (r, s') \<and>
     Option.bind (st_run_state s') rs_active = None)"
proof -
  have held: "faultless held_store" "st_open held_store"
    "st_run_state held_store = Some ((paused_at Idle)\<lparr>rs_active := Some \<lparr>at_lease = ''u0''\<rparr>\<rparr>)"
    "en_parse_uuid (sample_runtime answers) (rs_run_id ((paused_at Idle)\<lparr>rs_active := Some \<lparr>at_lease = ''u0''\<rparr>\<rparr>)) =
       Some ''u0''"
    "st_run_input held_store = Some sample_row" for answers
    by (simp_all add: held_store_def waiting_store_def fresh_store_def faultless_def sample_runtime_def
        paused_at_def new_run_state_def)
  have kind: "supersedes_turn (continue_kind_of Break)" "supersedes_turn (continue_kind_of (Inject []))"
    by (simp_all add: supersedes_turn_def)
  have settled: "\<exists>k<en_fuel (sample_runtime hello). \<forall>cx t request. cx_sink cx = False \<longrightarrow>
      \<not> asks_for_calls (answer_at (sample_runtime hello) cx (st_rounds held_store + k) t request)"
    by (intro exI [of _ 0])
      (simp add: sample_runtime_def answer_at_def invoke_def invoke_complete_def candidate_chain_def
        sample_providers_def resolve_model_def hello_def answer_def asks_for_calls_def Let_def)
  show ?thesis
    using superseding_request_frees_lock [OF held kind(1)] superseding_request_frees_lock [OF held kind(2) disjI2 [OF settled]]
    by blast
qed

section \<open>Invoking models\<close>

text \<open>
  C15. While the turn is not cancelled, an invocation answers with the response of the first
  model of the chain that does not fail retryably, and with no other.
\<close>

theorem first_answering_model:
  assumes "uncancelled pv"
  shows "invoke_complete pv t creds request = Ok r \<longleftrightarrow>
    (\<exists>i < length (candidate_chain t).
       attempt pv creds (pv_complete pv) request i (candidate_chain t ! i) = Ok r \<and>
       (\<forall>j < i. \<exists>e. attempt pv creds (pv_complete pv) request j (candidate_chain t ! j) = Err e \<and>
          is_fallback_eligible (pe_category e)))"
  using walk_chain_Ok [of pv creds "pv_complete pv" request 0 "candidate_chain t" r]
    walk_chain_answers [OF assms, of _ "candidate_chain t" creds "pv_complete pv" request 0 r]
  by (auto simp: invoke_complete_def)

definition failing_first :: providers where
  "failing_first = (sample_providers (answer ''late'' []))\<lparr>pv_complete := (\<lambda>i r _.
     if i = 0 then Err \<lparr>pe_category = RateLimit, pe_message = [], pe_provider = mr_provider r, pe_model = None\<rparr>
     else Ok (answer ''late'' []))\<rparr>"

lemma first_answering_model_witness:
  "\<exists>t. resolve sample_externs edit_args = Ok t \<and>
     invoke_complete failing_first t (\<lambda>_. None) hello_request = Ok (answer ''late'' [])"
proof -
  obtain t where t: "resolve sample_externs edit_args = Ok t" "rt_fallbacks t = [local_ref]"
    using chosen_Ok [OF edit_resolves] by auto
  have "uncancelled failing_first" by (simp add: uncancelled_def failing_first_def sample_providers_def)
  then have "invoke_complete failing_first t (\<lambda>_. None) hello_request = Ok (answer ''late'' [])"
    by (subst first_answering_model)
      (auto intro!: exI [of _ 1] simp: candidate_chain_def t(2) attempt_def resolve_model_def failing_first_def
        sample_providers_def result_simps is_fallback_eligible_def)
  with t(1) show ?thesis by blast
qed

text \<open>
  A failed invocation is either a superseded turn or the error of one model, the last
  of the chain or one whose failure no other model could repair; it is never the exhausted
  fallback the error type documents.
\<close>

lemma failed_invocation:
  assumes "invoke_complete pv t creds request = Err f"
  shows "f \<noteq> FallbackExhaustedRun \<and> (f = Superseded \<or>
    (\<exists>i < length (candidate_chain t). \<exists>e. f = ProviderFailed e \<and>
       attempt pv creds (pv_complete pv) request i (candidate_chain t ! i) = Err e \<and>
       (Suc i = length (candidate_chain t) \<or> \<not> is_fallback_eligible (pe_category e))))"
  using walk_chain_Err [of pv creds "pv_complete pv" request 0 "candidate_chain t" f] assms
    walk_chain_exhausted [of "candidate_chain t" pv creds "pv_complete pv" request 0]
  by (auto simp: invoke_complete_def candidate_chain_def)

text \<open>
  What a streamed turn answers is what it streamed: the response's text is the
  concatenation of the text deltas the client was sent, in order.
\<close>

lemma streamed_text_is_answer:
  assumes "aggregate_stream items = (sent, Ok r)"
  shows "cr_content r = concat (List.map_filter
    (\<lambda>e. case e of TurnTextDelta d \<Rightarrow> Some d | TurnReasoningDelta _ \<Rightarrow> None) sent)"
  using aggregate_text [OF assms [unfolded aggregate_stream_def]] by (simp add: no_aggregate_def)

section \<open>Errors and data\<close>

text \<open>
  Every error of the core has one API response: its code's name and HTTP status, an
  error status; no two codes share a name.
\<close>

lemma api_errors_are_faithful:
  "ae_code (ar_error (api_response e)) = api_code_as_str (error_code e) \<and>
   ar_status (api_response e) = api_code_status (error_code e) \<and>
   ar_status (api_response e) \<in> {400..<600} \<and>
   (api_code_as_str a = api_code_as_str b \<longleftrightarrow> a = b)"
  using response_code [of e] status_range [of "error_code e"] api_code_as_str_inj by auto

text \<open>
  A capability set survives its list form: building it from the capabilities it reports
  gives the same set, and a list grants exactly the capabilities it names.
\<close>

lemma capabilities_round_trip:
  "capabilities_from (supported c) = c \<and> (supports (capabilities_from ks) k \<longleftrightarrow> k \<in> set ks)"
  by (auto simp: capabilities_from_def supports_fold_grant set_supported intro: capabilities_eqI)

text \<open>
  The files a task touches are the referenced paths, the active file and the paths of
  the diff, each once: no two are equal as paths, none is invented, none is lost.
\<close>

lemma touched_files_are_exact:
  "distinct (map path_key (touched_files w)) \<and>
   set (touched_files w) \<subseteq> set (ws_referenced_paths w) \<union> set_option (ws_active_file w) \<union>
     (case ws_git_diff w of Some d \<Rightarrow> set (diff_paths d) | None \<Rightarrow> {}) \<and>
   (\<forall>p\<in>set (ws_referenced_paths w) \<union> set_option (ws_active_file w) \<union>
     (case ws_git_diff w of Some d \<Rightarrow> set (diff_paths d) | None \<Rightarrow> {}).
     \<exists>q\<in>set (touched_files w). path_eq p q)"
proof -
  let ?all = "ws_referenced_paths w @ (case ws_active_file w of Some p \<Rightarrow> [p] | None \<Rightarrow> [])
    @ (case ws_git_diff w of Some d \<Rightarrow> diff_paths d | None \<Rightarrow> [])"
  have all: "set ?all = set (ws_referenced_paths w) \<union> set_option (ws_active_file w) \<union>
     (case ws_git_diff w of Some d \<Rightarrow> set (diff_paths d) | None \<Rightarrow> {})"
    by (auto split: option.splits)
  show ?thesis
    unfolding all [symmetric] touched_files_def
    using dedup_paths_distinct [of "[]" ?all] set_dedup_paths [of "[]" ?all] dedup_paths_keeps [of _ ?all "[]"]
    by auto
qed

text \<open>
  One storage fault, when \<open>execute\<close> reads whether the session is encrypted right after
  taking the lock, leaks the lock: the request fails without settling, its turn stays live
  in the registry, and from then on \<open>execute\<close> finds the run in flight.
\<close>

lemma fault_after_acquire_leaks_lock:
  assumes "st_open s" "unlocked s" "st_faults s (st_clock s) = None"
    "st_faults s (Suc (st_clock s)) = None" "st_faults s (Suc (Suc (st_clock s))) = Some e"
  shows "\<exists>s'. execute rt request sink s = Some (Err (SessionFailed (DatabaseError e)), s') \<and>
    Option.bind (st_run_state s') rs_active \<noteq> None \<and> fl_live (st_registry s') (st_session_id s') \<noteq> None"
  using assms
  by (auto simp: execute_def seq_io_def bind_io_def open_session_def db_def ret_def acquire_def mint_def
      acquire_run_lock_def begin_io_def begin_turn_def is_encrypted_def split_execute_request_def
      unlocked_def new_run_state_def Let_def)

end
